(* ===== verification/CF_Prelude.thy ===== *)
theory CF_Prelude
  imports Main "HOL-Library.Word"
begin

text \<open>
  Shared vocabulary of the development.

  \<^item> Machine integers of the sources (\<open>std::uint8_t\<close> .. \<open>std::uint64_t\<close>) are words.
  \<^item> \<open>std::map\<close> is an association list kept in ascending key order: lookup, insertion and the
    iteration order of a range-for are those of the C++ container.
  \<^item> \<open>std::to_string\<close> on unsigned integers is \<open>dec_nat\<close>.

  The contract of the ordered map is the locale \<open>ordered_map\<close>; its lemmas (canonical iteration
  order, growth by at most one entry) are proved once there and interpreted on the list
  implementation as \<open>om\<close>.
\<close>

section \<open>Machine integers\<close>

type_synonym u8 = "8 word"
type_synonym u16 = "16 word"
type_synonym u32 = "32 word"
type_synonym u64 = "64 word"
type_synonym bytes = "u8 list"

named_theorems om_simps \<open>laws of the ordered map\<close>
named_theorems wf_intros \<open>well-formedness of constructed values\<close>

lemma unat_less_4294967296: "unat (w :: u32) < 4294967296"
  using unsigned_less [of w, where 'a = nat] by simp

lemma unat_less_18446744073709551616: "unat (w :: u64) < 18446744073709551616"
  using unsigned_less [of w, where 'a = nat] by simp

lemma unat_ucast_32_64 [simp]: "unat (ucast (w :: u32) :: u64) = unat w"
  using unat_less_4294967296 [of w] by (simp add: unsigned_ucast_eq take_bit_nat_eq_self)

lemma unat_ucast_64_32: "unat (w :: u64) < 4294967296 \<Longrightarrow> unat (ucast w :: u32) = unat w"
  by (simp add: unsigned_ucast_eq take_bit_nat_eq_self)

lemma word_succ_neq: "(w :: u64) + 1 \<noteq> w"
  by simp

lemma unat_succ_u64:
  assumes "w \<noteq> - 1"
  shows "unat ((w :: u64) + 1) = Suc (unat w)"
proof -
  have "w + 1 \<noteq> 0"
    using assms by (metis add.inverse_unique add.commute)
  then show ?thesis
    by (metis add.commute unatSuc)
qed

section \<open>Ordered maps\<close>

type_synonym ('k, 'v) omap = "('k \<times> 'v) list"

definition om_get :: "('k, 'v) omap \<Rightarrow> 'k \<Rightarrow> 'v option" where
  "om_get m k = map_of m k"

fun om_put :: "'k::linorder \<Rightarrow> 'v \<Rightarrow> ('k, 'v) omap \<Rightarrow> ('k, 'v) omap" where
  "om_put k v [] = [(k, v)]"
| "om_put k v ((k1, v1) # m) =
     (if k < k1 then (k, v) # (k1, v1) # m
      else if k = k1 then (k, v) # m
      else (k1, v1) # om_put k v m)"

definition om_wf :: "('k::linorder, 'v) omap \<Rightarrow> bool" where
  "om_wf m \<longleftrightarrow> sorted_wrt (<) (map fst m)"

definition om_vals :: "('k, 'v) omap \<Rightarrow> 'v list" where
  "om_vals m = map snd m"

definition om_keys :: "('k, 'v) omap \<Rightarrow> 'k list" where
  "om_keys m = map fst m"

subsection \<open>The contract\<close>

locale ordered_map =
  fixes empty :: 'm
    and get :: "'m \<Rightarrow> 'k::linorder \<Rightarrow> 'v option"
    and put :: "'k \<Rightarrow> 'v \<Rightarrow> 'm \<Rightarrow> 'm"
    and entries :: "'m \<Rightarrow> ('k \<times> 'v) list"
    and wf :: "'m \<Rightarrow> bool"
  assumes get_empty: "get empty k = None"
    and get_put: "get (put k v m) k' = (if k' = k then Some v else get m k')"
    and wf_empty: "wf empty"
    and wf_put: "wf m \<Longrightarrow> wf (put k v m)"
    and entries_get: "wf m \<Longrightarrow> (k, v) \<in> set (entries m) \<longleftrightarrow> get m k = Some v"
    and entries_sorted: "wf m \<Longrightarrow> sorted_wrt (<) (map fst (entries m))"
begin

lemma get_put_same: "get (put k v m) k = Some v"
  by (simp add: get_put)

lemma get_put_other: "k' \<noteq> k \<Longrightarrow> get (put k v m) k' = get m k'"
  by (simp add: get_put)

lemma distinct_keys: "wf m \<Longrightarrow> distinct (map fst (entries m))"
  using entries_sorted [of m] strict_sorted_iff by blast

lemma set_keys:
  assumes "wf m"
  shows "set (map fst (entries m)) = dom (get m)"
proof (rule set_eqI)
  fix k
  have "k \<in> set (map fst (entries m)) \<longleftrightarrow> (\<exists>v. (k, v) \<in> set (entries m))"
    by force
  then show "k \<in> set (map fst (entries m)) \<longleftrightarrow> k \<in> dom (get m)"
    using entries_get [OF assms] by (auto simp: dom_def)
qed

lemma entries_by_keys:
  assumes "wf m"
  shows "entries m = map (\<lambda>k. (k, the (get m k))) (map fst (entries m))"
proof -
  have "the (get m (fst p)) = snd p" if "p \<in> set (entries m)" for p
    using that entries_get [OF assms, of "fst p" "snd p"] by simp
  then show ?thesis
    by (simp add: map_idI comp_def prod_eq_iff)
qed

lemma entries_determined:
  assumes "wf m" and "wf m'" and "get m = get m'"
  shows "entries m = entries m'"
proof -
  have "map fst (entries m) = map fst (entries m')"
    using assms set_keys [of m] set_keys [of m']
    by (intro strict_sorted_equal) (simp_all add: entries_sorted)
  then show ?thesis
    using entries_by_keys [OF assms(1)] entries_by_keys [OF assms(2)] assms(3) by metis
qed

lemma entries_put_length:
  assumes "wf m"
  shows "length (entries (put k v m)) =
    (if get m k = None then Suc (length (entries m)) else length (entries m))"
proof -
  have len: "length (entries n) = card (dom (get n))" if "wf n" for n
    using distinct_card [OF distinct_keys [OF that]] set_keys [OF that] by simp
  have fin: "finite (dom (get m))"
    using set_keys [OF assms] by (metis List.finite_set)
  have dom: "dom (get (put k v m)) = insert k (dom (get m))"
    by (auto simp: get_put split: if_splits)
  show ?thesis
    using fin by (simp add: len assms wf_put dom card_insert_if domIff)
qed

end

subsection \<open>The list implementation satisfies it\<close>

lemma om_get_put_aux: "map_of (om_put k v m) = (map_of m)(k \<mapsto> v)"
  by (induction k v m rule: om_put.induct) (auto simp: fun_eq_iff)

lemma om_put_fst: "set (map fst (om_put k v m)) = insert k (set (map fst m))"
  by (induction k v m rule: om_put.induct) auto

lemma om_put_sorted: "sorted_wrt (<) (map fst m) \<Longrightarrow> sorted_wrt (<) (map fst (om_put k v m))"
proof (induction k v m rule: om_put.induct)
  case (1 k v)
  then show ?case by simp
next
  case (2 k v k1 v1 m)
  have keys: "fst p = k \<or> fst p \<in> set (map fst m)" if "p \<in> set (om_put k v m)" for p
    using om_put_fst [of k v m] that by (metis (no_types, lifting) image_eqI insert_iff set_map)
  have above: "\<forall>x \<in> set (map fst m). k1 < x"
    using 2(2) by simp
  have "k1 < fst p" if "p \<in> set (om_put k v m)" "k1 < k" for p
    using keys [OF that(1)] above that(2) by auto
  with 2 show ?case
    by (auto intro: less_trans)
qed

interpretation om: ordered_map "[]" om_get om_put "\<lambda>m. m" om_wf
proof unfold_locales
  fix m :: "('a \<times> 'b) list" and k v
  assume "om_wf m"
  then have "distinct (map fst m)"
    by (simp add: om_wf_def strict_sorted_iff)
  then show "(k, v) \<in> set m \<longleftrightarrow> om_get m k = Some v"
    by (simp add: om_get_def)
qed (auto simp: om_get_def om_get_put_aux om_wf_def om_put_sorted)

lemmas om_laws [om_simps] = om.get_empty om.get_put

declare om.get_empty [simp] om.get_put [simp] om.wf_empty [simp, intro] om.wf_put [simp, intro]

lemma om_get_Some_mem: "om_get m k = Some v \<Longrightarrow> (k, v) \<in> set m"
  by (simp add: om_get_def map_of_SomeD)

lemma om_get_code: "om_get [] k = None" "om_get ((k1, v1) # m) k = (if k1 = k then Some v1 else om_get m k)"
  by (auto simp: om_get_def)

lemma om_get_map_values:
  "om_get (map (\<lambda>(k, v). (k, f k v)) m) k = map_option (f k) (om_get m k)"
  by (induction m) (auto simp: om_get_def)

lemma om_wf_map_values: "om_wf (map (\<lambda>(k, v). (k, f k v)) m) = om_wf m"
  by (simp add: om_wf_def case_prod_beta comp_def)

section \<open>Decimal rendering\<close>

definition digit_char :: "nat \<Rightarrow> char" where
  "digit_char n = char_of (48 + n)"

fun dec_nat :: "nat \<Rightarrow> string" where
  "dec_nat n = (if n < 10 then [digit_char n] else dec_nat (n div 10) @ [digit_char (n mod 10)])"

declare dec_nat.simps [simp del]

definition dec32 :: "u32 \<Rightarrow> string" where
  "dec32 w = dec_nat (unat w)"

definition dec64 :: "u64 \<Rightarrow> string" where
  "dec64 w = dec_nat (unat w)"

section \<open>Folding with early exit and counting\<close>

definition count_if :: "('a \<Rightarrow> bool) \<Rightarrow> 'a list \<Rightarrow> nat" where
  "count_if P xs = length (filter P xs)"

lemma count_if_le: "count_if P xs \<le> length xs"
  by (simp add: count_if_def)

lemma count_if_pos_iff: "0 < count_if P xs \<longleftrightarrow> (\<exists>x \<in> set xs. P x)"
  by (auto simp: count_if_def filter_empty_conv)

lemma count_if_append [simp]: "count_if P (xs @ ys) = count_if P xs + count_if P ys"
  by (simp add: count_if_def)

lemma count_if_simps [simp]:
  "count_if P [] = 0"
  "count_if P (x # xs) = (if P x then Suc (count_if P xs) else count_if P xs)"
  by (simp_all add: count_if_def)

end
