(* ===== verification/CF_Enums.thy ===== *)
theory CF_Enums
  imports CF_Prelude
begin

text \<open>
  The closed enumerations of \<open>include/critic_fabric/enums.hpp\<close> with the numeric values that the
  wire and journal formats persist, and the name tables and the exact parsing and validation of
  \<open>src/enums.cpp\<close>.

  Each enumeration is a datatype with the constructors of the source (prefixed, since several
  enumerations share names), its numbering \<open>.._code\<close>, its name table \<open>k_..\<close>, and the functions
  the macros generate from the table: \<open>.._name\<close> (\<open>to_string\<close>), \<open>is_valid_..\<close> and \<open>parse_..\<close>.
  \<open>.._of_code\<close> is the \<open>static_cast\<close> from the number, with \<open>None\<close> where the number names no
  enumerator. The contract all of them share is the locale \<open>wire_enum\<close>, interpreted for every
  enumeration.
\<close>

section \<open>Tables\<close>

type_synonym enum_table = "(u32 \<times> string) list"

definition enum_lookup :: "enum_table \<Rightarrow> u32 \<Rightarrow> string" where
  "enum_lookup table num = (case map_of table num of Some name \<Rightarrow> name | None \<Rightarrow> ''Invalid'')"

fun enum_parse :: "enum_table \<Rightarrow> string \<Rightarrow> u32 option" where
  "enum_parse [] str = None"
| "enum_parse ((num, name) # table) str = (if str = name then Some num else enum_parse table str)"

fun enum_valid :: "enum_table \<Rightarrow> u32 \<Rightarrow> bool" where
  "enum_valid [] num = False"
| "enum_valid ((v, name) # table) num = (v = num \<or> enum_valid table num)"

definition enum_of_code :: "('a \<Rightarrow> u32) \<Rightarrow> 'a list \<Rightarrow> u32 \<Rightarrow> 'a option" where
  "enum_of_code code all raw = find (\<lambda>v. code v = raw) all"

lemma enum_valid_iff: "enum_valid table num \<longleftrightarrow> num \<in> set (map fst table)"
  by (induction table num rule: enum_valid.induct) auto

lemma enum_parse_Some: "enum_parse table str = Some num \<Longrightarrow> (num, str) \<in> set table"
  by (induction table str rule: enum_parse.induct) (auto split: if_splits)

lemma enum_parse_mem:
  "distinct (map snd table) \<Longrightarrow> (num, str) \<in> set table \<Longrightarrow> enum_parse table str = Some num"
  by (induction table str rule: enum_parse.induct) (auto simp: image_iff split: if_splits)

section \<open>The contract of an enumeration\<close>

locale wire_enum =
  fixes code :: "'a \<Rightarrow> u32"
    and all :: "'a list"
    and table :: enum_table
  assumes all_mem: "v \<in> set all"
    and codes_distinct: "distinct (map code all)"
    and table_codes: "map fst table = map code all"
    and names_distinct: "distinct (map snd table)"
begin

lemma code_eqD: "code a = code b \<Longrightarrow> a = b"
  using codes_distinct all_mem by (auto simp: distinct_map dest: inj_onD)

lemma code_eq_iff [simp]: "code a = code b \<longleftrightarrow> a = b"
  by (auto dest: code_eqD)

lemma of_code_Some_iff: "enum_of_code code all raw = Some v \<longleftrightarrow> code v = raw"
proof
  assume "enum_of_code code all raw = Some v"
  then show "code v = raw"
    by (auto simp: enum_of_code_def find_Some_iff)
next
  assume eq: "code v = raw"
  then have "find (\<lambda>v. code v = raw) all \<noteq> None"
    using all_mem by (auto simp: find_None_iff)
  then obtain w where w: "find (\<lambda>v. code v = raw) all = Some w"
    by blast
  then have "code w = raw"
    by (auto simp: find_Some_iff)
  with eq w show "enum_of_code code all raw = Some v"
    by (simp add: enum_of_code_def flip: code_eq_iff)
qed

lemma of_code_code [simp]: "enum_of_code code all (code v) = Some v"
  by (simp add: of_code_Some_iff)

lemma valid_iff: "enum_valid table raw \<longleftrightarrow> (\<exists>v. code v = raw)"
  using all_mem by (auto simp: enum_valid_iff table_codes)

lemma valid_iff_of_code: "enum_valid table raw \<longleftrightarrow> enum_of_code code all raw \<noteq> None"
  by (auto simp: valid_iff of_code_Some_iff)

lemma lookup_mem: "(code v, enum_lookup table (code v)) \<in> set table"
proof -
  have "code v \<in> set (map fst table)"
    using all_mem by (simp add: table_codes)
  then obtain n where "map_of table (code v) = Some n"
    by (metis domD dom_map_of_conv_image_fst set_map)
  then show ?thesis
    by (simp add: enum_lookup_def map_of_SomeD)
qed

lemma parse_lookup [simp]: "enum_parse table (enum_lookup table (code v)) = Some (code v)"
  by (rule enum_parse_mem [OF names_distinct lookup_mem])

lemma parse_name: "Option.bind (enum_parse table str) (enum_of_code code all) = Some v
    \<longleftrightarrow> str = enum_lookup table (code v)"
proof
  assume "Option.bind (enum_parse table str) (enum_of_code code all) = Some v"
  then have p: "enum_parse table str = Some (code v)"
    by (auto simp: bind_eq_Some_conv of_code_Some_iff)
  then have "(code v, str) \<in> set table"
    by (rule enum_parse_Some)
  moreover have "distinct (map fst table)"
    by (simp add: table_codes codes_distinct)
  ultimately have "map_of table (code v) = Some str"
    by simp
  then show "str = enum_lookup table (code v)"
    by (simp add: enum_lookup_def)
qed simp

end

section \<open>The enumerations\<close>

subsection \<open>TargetClass\<close>

datatype target_class =
    TC_Claim
  | TC_Artifact
  | TC_Plan
  | TC_Result
  | TC_ModelOutput
  | TC_ExecutionOutput
  | TC_Configuration
  | TC_PolicyResult
  | TC_DatasetSlice
  | TC_OtherTypedTarget

fun target_class_code :: "target_class \<Rightarrow> u32" where
  "target_class_code TC_Claim = 1"
| "target_class_code TC_Artifact = 2"
| "target_class_code TC_Plan = 3"
| "target_class_code TC_Result = 4"
| "target_class_code TC_ModelOutput = 5"
| "target_class_code TC_ExecutionOutput = 6"
| "target_class_code TC_Configuration = 7"
| "target_class_code TC_PolicyResult = 8"
| "target_class_code TC_DatasetSlice = 9"
| "target_class_code TC_OtherTypedTarget = 10"

definition target_class_all :: "target_class list" where
  "target_class_all = [TC_Claim, TC_Artifact, TC_Plan, TC_Result, TC_ModelOutput, TC_ExecutionOutput, TC_Configuration, TC_PolicyResult, TC_DatasetSlice, TC_OtherTypedTarget]"

definition k_target_class :: enum_table where
  "k_target_class =
    [(1, ''CLAIM''),
     (2, ''ARTIFACT''),
     (3, ''PLAN''),
     (4, ''RESULT''),
     (5, ''MODEL_OUTPUT''),
     (6, ''EXECUTION_OUTPUT''),
     (7, ''CONFIGURATION''),
     (8, ''POLICY_RESULT''),
     (9, ''DATASET_SLICE''),
     (10, ''OTHER_TYPED_TARGET'')]"

definition target_class_name :: "target_class \<Rightarrow> string" where
  "target_class_name v = enum_lookup k_target_class (target_class_code v)"

definition target_class_of_code :: "u32 \<Rightarrow> target_class option" where
  "target_class_of_code raw = enum_of_code target_class_code target_class_all raw"

definition is_valid_target_class :: "u32 \<Rightarrow> bool" where
  "is_valid_target_class raw = enum_valid k_target_class raw"

definition parse_target_class :: "string \<Rightarrow> target_class option" where
  "parse_target_class str = Option.bind (enum_parse k_target_class str) target_class_of_code"

lemma mem_target_class_all: "v \<in> set target_class_all"
  by (cases v) (simp_all add: target_class_all_def)

interpretation target_class: wire_enum target_class_code target_class_all k_target_class
  by unfold_locales (rule mem_target_class_all, simp_all add: target_class_all_def k_target_class_def)

instantiation target_class :: linorder
begin

definition less_eq_target_class :: "target_class \<Rightarrow> target_class \<Rightarrow> bool" where
  "less_eq_target_class a b \<longleftrightarrow> target_class_code a \<le> target_class_code b"

definition less_target_class :: "target_class \<Rightarrow> target_class \<Rightarrow> bool" where
  "less_target_class a b \<longleftrightarrow> target_class_code a < target_class_code b"

instance
  by standard
    (auto simp: less_eq_target_class_def less_target_class_def order_less_le dest: target_class.code_eqD)

end

subsection \<open>CriticRole\<close>

datatype critic_role =
    Role_GeneralCritic
  | Role_FactChecker
  | Role_LogicCritic
  | Role_SafetyCritic
  | Role_PerformanceCritic
  | Role_SecurityCritic
  | Role_CorrectnessVerifier
  | Role_ConsistencyVerifier
  | Role_SchemaVerifier
  | Role_AdversarialCritic
  | Role_DomainSpecialist
  | Role_RebuttalCritic

fun critic_role_code :: "critic_role \<Rightarrow> u32" where
  "critic_role_code Role_GeneralCritic = 1"
| "critic_role_code Role_FactChecker = 2"
| "critic_role_code Role_LogicCritic = 3"
| "critic_role_code Role_SafetyCritic = 4"
| "critic_role_code Role_PerformanceCritic = 5"
| "critic_role_code Role_SecurityCritic = 6"
| "critic_role_code Role_CorrectnessVerifier = 7"
| "critic_role_code Role_ConsistencyVerifier = 8"
| "critic_role_code Role_SchemaVerifier = 9"
| "critic_role_code Role_AdversarialCritic = 10"
| "critic_role_code Role_DomainSpecialist = 11"
| "critic_role_code Role_RebuttalCritic = 12"

definition critic_role_all :: "critic_role list" where
  "critic_role_all = [Role_GeneralCritic, Role_FactChecker, Role_LogicCritic, Role_SafetyCritic, Role_PerformanceCritic, Role_SecurityCritic, Role_CorrectnessVerifier, Role_ConsistencyVerifier, Role_SchemaVerifier, Role_AdversarialCritic, Role_DomainSpecialist, Role_RebuttalCritic]"

definition k_critic_role :: enum_table where
  "k_critic_role =
    [(1, ''GENERAL_CRITIC''),
     (2, ''FACT_CHECKER''),
     (3, ''LOGIC_CRITIC''),
     (4, ''SAFETY_CRITIC''),
     (5, ''PERFORMANCE_CRITIC''),
     (6, ''SECURITY_CRITIC''),
     (7, ''CORRECTNESS_VERIFIER''),
     (8, ''CONSISTENCY_VERIFIER''),
     (9, ''SCHEMA_VERIFIER''),
     (10, ''ADVERSARIAL_CRITIC''),
     (11, ''DOMAIN_SPECIALIST''),
     (12, ''REBUTTAL_CRITIC'')]"

definition critic_role_name :: "critic_role \<Rightarrow> string" where
  "critic_role_name v = enum_lookup k_critic_role (critic_role_code v)"

definition critic_role_of_code :: "u32 \<Rightarrow> critic_role option" where
  "critic_role_of_code raw = enum_of_code critic_role_code critic_role_all raw"

definition is_valid_critic_role :: "u32 \<Rightarrow> bool" where
  "is_valid_critic_role raw = enum_valid k_critic_role raw"

definition parse_critic_role :: "string \<Rightarrow> critic_role option" where
  "parse_critic_role str = Option.bind (enum_parse k_critic_role str) critic_role_of_code"

lemma mem_critic_role_all: "v \<in> set critic_role_all"
  by (cases v) (simp_all add: critic_role_all_def)

interpretation critic_role: wire_enum critic_role_code critic_role_all k_critic_role
  by unfold_locales (rule mem_critic_role_all, simp_all add: critic_role_all_def k_critic_role_def)

instantiation critic_role :: linorder
begin

definition less_eq_critic_role :: "critic_role \<Rightarrow> critic_role \<Rightarrow> bool" where
  "less_eq_critic_role a b \<longleftrightarrow> critic_role_code a \<le> critic_role_code b"

definition less_critic_role :: "critic_role \<Rightarrow> critic_role \<Rightarrow> bool" where
  "less_critic_role a b \<longleftrightarrow> critic_role_code a < critic_role_code b"

instance
  by standard
    (auto simp: less_eq_critic_role_def less_critic_role_def order_less_le dest: critic_role.code_eqD)

end

subsection \<open>FindingCategory\<close>

datatype finding_category =
    Cat_Correctness
  | Cat_Consistency
  | Cat_Schema
  | Cat_Safety
  | Cat_Security
  | Cat_Performance
  | Cat_Logic
  | Cat_Factual
  | Cat_EvidenceQuality
  | Cat_Policy
  | Cat_Other

fun finding_category_code :: "finding_category \<Rightarrow> u32" where
  "finding_category_code Cat_Correctness = 1"
| "finding_category_code Cat_Consistency = 2"
| "finding_category_code Cat_Schema = 3"
| "finding_category_code Cat_Safety = 4"
| "finding_category_code Cat_Security = 5"
| "finding_category_code Cat_Performance = 6"
| "finding_category_code Cat_Logic = 7"
| "finding_category_code Cat_Factual = 8"
| "finding_category_code Cat_EvidenceQuality = 9"
| "finding_category_code Cat_Policy = 10"
| "finding_category_code Cat_Other = 11"

definition finding_category_all :: "finding_category list" where
  "finding_category_all = [Cat_Correctness, Cat_Consistency, Cat_Schema, Cat_Safety, Cat_Security, Cat_Performance, Cat_Logic, Cat_Factual, Cat_EvidenceQuality, Cat_Policy, Cat_Other]"

definition k_finding_category :: enum_table where
  "k_finding_category =
    [(1, ''CORRECTNESS''),
     (2, ''CONSISTENCY''),
     (3, ''SCHEMA''),
     (4, ''SAFETY''),
     (5, ''SECURITY''),
     (6, ''PERFORMANCE''),
     (7, ''LOGIC''),
     (8, ''FACTUAL''),
     (9, ''EVIDENCE_QUALITY''),
     (10, ''POLICY''),
     (11, ''OTHER'')]"

definition finding_category_name :: "finding_category \<Rightarrow> string" where
  "finding_category_name v = enum_lookup k_finding_category (finding_category_code v)"

definition finding_category_of_code :: "u32 \<Rightarrow> finding_category option" where
  "finding_category_of_code raw = enum_of_code finding_category_code finding_category_all raw"

definition is_valid_finding_category :: "u32 \<Rightarrow> bool" where
  "is_valid_finding_category raw = enum_valid k_finding_category raw"

definition parse_finding_category :: "string \<Rightarrow> finding_category option" where
  "parse_finding_category str = Option.bind (enum_parse k_finding_category str) finding_category_of_code"

lemma mem_finding_category_all: "v \<in> set finding_category_all"
  by (cases v) (simp_all add: finding_category_all_def)

interpretation finding_category: wire_enum finding_category_code finding_category_all k_finding_category
  by unfold_locales (rule mem_finding_category_all, simp_all add: finding_category_all_def k_finding_category_def)

instantiation finding_category :: linorder
begin

definition less_eq_finding_category :: "finding_category \<Rightarrow> finding_category \<Rightarrow> bool" where
  "less_eq_finding_category a b \<longleftrightarrow> finding_category_code a \<le> finding_category_code b"

definition less_finding_category :: "finding_category \<Rightarrow> finding_category \<Rightarrow> bool" where
  "less_finding_category a b \<longleftrightarrow> finding_category_code a < finding_category_code b"

instance
  by standard
    (auto simp: less_eq_finding_category_def less_finding_category_def order_less_le dest: finding_category.code_eqD)

end

subsection \<open>Severity\<close>

datatype severity =
    Sev_Info
  | Sev_Low
  | Sev_Medium
  | Sev_High
  | Sev_Critical

fun severity_code :: "severity \<Rightarrow> u32" where
  "severity_code Sev_Info = 1"
| "severity_code Sev_Low = 2"
| "severity_code Sev_Medium = 3"
| "severity_code Sev_High = 4"
| "severity_code Sev_Critical = 5"

definition severity_all :: "severity list" where
  "severity_all = [Sev_Info, Sev_Low, Sev_Medium, Sev_High, Sev_Critical]"

definition k_severity :: enum_table where
  "k_severity =
    [(1, ''INFO''),
     (2, ''LOW''),
     (3, ''MEDIUM''),
     (4, ''HIGH''),
     (5, ''CRITICAL'')]"

definition severity_name :: "severity \<Rightarrow> string" where
  "severity_name v = enum_lookup k_severity (severity_code v)"

definition severity_of_code :: "u32 \<Rightarrow> severity option" where
  "severity_of_code raw = enum_of_code severity_code severity_all raw"

definition is_valid_severity :: "u32 \<Rightarrow> bool" where
  "is_valid_severity raw = enum_valid k_severity raw"

definition parse_severity :: "string \<Rightarrow> severity option" where
  "parse_severity str = Option.bind (enum_parse k_severity str) severity_of_code"

lemma mem_severity_all: "v \<in> set severity_all"
  by (cases v) (simp_all add: severity_all_def)

interpretation severity: wire_enum severity_code severity_all k_severity
  by unfold_locales (rule mem_severity_all, simp_all add: severity_all_def k_severity_def)

subsection \<open>FindingOutcome\<close>

datatype finding_outcome =
    Out_Pass
  | Out_Fail
  | Out_Warn
  | Out_Abstain
  | Out_Unknown
  | Out_NotApplicable
  | Out_Inconclusive

fun finding_outcome_code :: "finding_outcome \<Rightarrow> u32" where
  "finding_outcome_code Out_Pass = 1"
| "finding_outcome_code Out_Fail = 2"
| "finding_outcome_code Out_Warn = 3"
| "finding_outcome_code Out_Abstain = 4"
| "finding_outcome_code Out_Unknown = 5"
| "finding_outcome_code Out_NotApplicable = 6"
| "finding_outcome_code Out_Inconclusive = 7"

definition finding_outcome_all :: "finding_outcome list" where
  "finding_outcome_all = [Out_Pass, Out_Fail, Out_Warn, Out_Abstain, Out_Unknown, Out_NotApplicable, Out_Inconclusive]"

definition k_finding_outcome :: enum_table where
  "k_finding_outcome =
    [(1, ''PASS''),
     (2, ''FAIL''),
     (3, ''WARN''),
     (4, ''ABSTAIN''),
     (5, ''UNKNOWN''),
     (6, ''NOT_APPLICABLE''),
     (7, ''INCONCLUSIVE'')]"

definition finding_outcome_name :: "finding_outcome \<Rightarrow> string" where
  "finding_outcome_name v = enum_lookup k_finding_outcome (finding_outcome_code v)"

definition finding_outcome_of_code :: "u32 \<Rightarrow> finding_outcome option" where
  "finding_outcome_of_code raw = enum_of_code finding_outcome_code finding_outcome_all raw"

definition is_valid_finding_outcome :: "u32 \<Rightarrow> bool" where
  "is_valid_finding_outcome raw = enum_valid k_finding_outcome raw"

definition parse_finding_outcome :: "string \<Rightarrow> finding_outcome option" where
  "parse_finding_outcome str = Option.bind (enum_parse k_finding_outcome str) finding_outcome_of_code"

lemma mem_finding_outcome_all: "v \<in> set finding_outcome_all"
  by (cases v) (simp_all add: finding_outcome_all_def)

interpretation finding_outcome: wire_enum finding_outcome_code finding_outcome_all k_finding_outcome
  by unfold_locales (rule mem_finding_outcome_all, simp_all add: finding_outcome_all_def k_finding_outcome_def)

instantiation finding_outcome :: linorder
begin

definition less_eq_finding_outcome :: "finding_outcome \<Rightarrow> finding_outcome \<Rightarrow> bool" where
  "less_eq_finding_outcome a b \<longleftrightarrow> finding_outcome_code a \<le> finding_outcome_code b"

definition less_finding_outcome :: "finding_outcome \<Rightarrow> finding_outcome \<Rightarrow> bool" where
  "less_finding_outcome a b \<longleftrightarrow> finding_outcome_code a < finding_outcome_code b"

instance
  by standard
    (auto simp: less_eq_finding_outcome_def less_finding_outcome_def order_less_le dest: finding_outcome.code_eqD)

end

subsection \<open>EvidenceSourceType\<close>

datatype evidence_source_type =
    Src_Instrumentation
  | Src_TestRun
  | Src_StaticAnalysis
  | Src_ExecutionTrace
  | Src_ExternalReport
  | Src_Computation
  | Src_HumanAssertion
  | Src_Other

fun evidence_source_type_code :: "evidence_source_type \<Rightarrow> u32" where
  "evidence_source_type_code Src_Instrumentation = 1"
| "evidence_source_type_code Src_TestRun = 2"
| "evidence_source_type_code Src_StaticAnalysis = 3"
| "evidence_source_type_code Src_ExecutionTrace = 4"
| "evidence_source_type_code Src_ExternalReport = 5"
| "evidence_source_type_code Src_Computation = 6"
| "evidence_source_type_code Src_HumanAssertion = 7"
| "evidence_source_type_code Src_Other = 8"

definition evidence_source_type_all :: "evidence_source_type list" where
  "evidence_source_type_all = [Src_Instrumentation, Src_TestRun, Src_StaticAnalysis, Src_ExecutionTrace, Src_ExternalReport, Src_Computation, Src_HumanAssertion, Src_Other]"

definition k_evidence_source_type :: enum_table where
  "k_evidence_source_type =
    [(1, ''INSTRUMENTATION''),
     (2, ''TEST_RUN''),
     (3, ''STATIC_ANALYSIS''),
     (4, ''EXECUTION_TRACE''),
     (5, ''EXTERNAL_REPORT''),
     (6, ''COMPUTATION''),
     (7, ''HUMAN_ASSERTION''),
     (8, ''OTHER'')]"

definition evidence_source_type_name :: "evidence_source_type \<Rightarrow> string" where
  "evidence_source_type_name v = enum_lookup k_evidence_source_type (evidence_source_type_code v)"

definition evidence_source_type_of_code :: "u32 \<Rightarrow> evidence_source_type option" where
  "evidence_source_type_of_code raw = enum_of_code evidence_source_type_code evidence_source_type_all raw"

definition is_valid_evidence_source_type :: "u32 \<Rightarrow> bool" where
  "is_valid_evidence_source_type raw = enum_valid k_evidence_source_type raw"

definition parse_evidence_source_type :: "string \<Rightarrow> evidence_source_type option" where
  "parse_evidence_source_type str = Option.bind (enum_parse k_evidence_source_type str) evidence_source_type_of_code"

lemma mem_evidence_source_type_all: "v \<in> set evidence_source_type_all"
  by (cases v) (simp_all add: evidence_source_type_all_def)

interpretation evidence_source_type: wire_enum evidence_source_type_code evidence_source_type_all k_evidence_source_type
  by unfold_locales (rule mem_evidence_source_type_all, simp_all add: evidence_source_type_all_def k_evidence_source_type_def)

subsection \<open>EvidenceProvenance\<close>

datatype evidence_provenance =
    Prov_Measured
  | Prov_Observed
  | Prov_Derived
  | Prov_Reported
  | Prov_Synthetic
  | Prov_Reconstructed
  | Prov_Unknown

fun evidence_provenance_code :: "evidence_provenance \<Rightarrow> u32" where
  "evidence_provenance_code Prov_Measured = 1"
| "evidence_provenance_code Prov_Observed = 2"
| "evidence_provenance_code Prov_Derived = 3"
| "evidence_provenance_code Prov_Reported = 4"
| "evidence_provenance_code Prov_Synthetic = 5"
| "evidence_provenance_code Prov_Reconstructed = 6"
| "evidence_provenance_code Prov_Unknown = 7"

definition evidence_provenance_all :: "evidence_provenance list" where
  "evidence_provenance_all = [Prov_Measured, Prov_Observed, Prov_Derived, Prov_Reported, Prov_Synthetic, Prov_Reconstructed, Prov_Unknown]"

definition k_evidence_provenance :: enum_table where
  "k_evidence_provenance =
    [(1, ''MEASURED''),
     (2, ''OBSERVED''),
     (3, ''DERIVED''),
     (4, ''REPORTED''),
     (5, ''SYNTHETIC''),
     (6, ''RECONSTRUCTED''),
     (7, ''UNKNOWN'')]"

definition evidence_provenance_name :: "evidence_provenance \<Rightarrow> string" where
  "evidence_provenance_name v = enum_lookup k_evidence_provenance (evidence_provenance_code v)"

definition evidence_provenance_of_code :: "u32 \<Rightarrow> evidence_provenance option" where
  "evidence_provenance_of_code raw = enum_of_code evidence_provenance_code evidence_provenance_all raw"

definition is_valid_evidence_provenance :: "u32 \<Rightarrow> bool" where
  "is_valid_evidence_provenance raw = enum_valid k_evidence_provenance raw"

definition parse_evidence_provenance :: "string \<Rightarrow> evidence_provenance option" where
  "parse_evidence_provenance str = Option.bind (enum_parse k_evidence_provenance str) evidence_provenance_of_code"

lemma mem_evidence_provenance_all: "v \<in> set evidence_provenance_all"
  by (cases v) (simp_all add: evidence_provenance_all_def)

interpretation evidence_provenance: wire_enum evidence_provenance_code evidence_provenance_all k_evidence_provenance
  by unfold_locales (rule mem_evidence_provenance_all, simp_all add: evidence_provenance_all_def k_evidence_provenance_def)

subsection \<open>EvidenceIntegrity\<close>

datatype evidence_integrity =
    Integ_Verified
  | Integ_Unverified
  | Integ_Failed
  | Integ_Unknown

fun evidence_integrity_code :: "evidence_integrity \<Rightarrow> u32" where
  "evidence_integrity_code Integ_Verified = 1"
| "evidence_integrity_code Integ_Unverified = 2"
| "evidence_integrity_code Integ_Failed = 3"
| "evidence_integrity_code Integ_Unknown = 4"

definition evidence_integrity_all :: "evidence_integrity list" where
  "evidence_integrity_all = [Integ_Verified, Integ_Unverified, Integ_Failed, Integ_Unknown]"

definition k_evidence_integrity :: enum_table where
  "k_evidence_integrity =
    [(1, ''VERIFIED''),
     (2, ''UNVERIFIED''),
     (3, ''FAILED''),
     (4, ''UNKNOWN'')]"

definition evidence_integrity_name :: "evidence_integrity \<Rightarrow> string" where
  "evidence_integrity_name v = enum_lookup k_evidence_integrity (evidence_integrity_code v)"

definition evidence_integrity_of_code :: "u32 \<Rightarrow> evidence_integrity option" where
  "evidence_integrity_of_code raw = enum_of_code evidence_integrity_code evidence_integrity_all raw"

definition is_valid_evidence_integrity :: "u32 \<Rightarrow> bool" where
  "is_valid_evidence_integrity raw = enum_valid k_evidence_integrity raw"

lemma mem_evidence_integrity_all: "v \<in> set evidence_integrity_all"
  by (cases v) (simp_all add: evidence_integrity_all_def)

interpretation evidence_integrity: wire_enum evidence_integrity_code evidence_integrity_all k_evidence_integrity
  by unfold_locales (rule mem_evidence_integrity_all, simp_all add: evidence_integrity_all_def k_evidence_integrity_def)

subsection \<open>FindingState\<close>

datatype finding_state =
    FS_Current
  | FS_Superseded
  | FS_Invalidated
  | FS_Challenged
  | FS_Upheld
  | FS_Rebutted
  | FS_Withdrawn

fun finding_state_code :: "finding_state \<Rightarrow> u32" where
  "finding_state_code FS_Current = 1"
| "finding_state_code FS_Superseded = 2"
| "finding_state_code FS_Invalidated = 3"
| "finding_state_code FS_Challenged = 4"
| "finding_state_code FS_Upheld = 5"
| "finding_state_code FS_Rebutted = 6"
| "finding_state_code FS_Withdrawn = 7"

definition finding_state_all :: "finding_state list" where
  "finding_state_all = [FS_Current, FS_Superseded, FS_Invalidated, FS_Challenged, FS_Upheld, FS_Rebutted, FS_Withdrawn]"

definition k_finding_state :: enum_table where
  "k_finding_state =
    [(1, ''CURRENT''),
     (2, ''SUPERSEDED''),
     (3, ''INVALIDATED''),
     (4, ''CHALLENGED''),
     (5, ''UPHELD''),
     (6, ''REBUTTED''),
     (7, ''WITHDRAWN'')]"

definition finding_state_name :: "finding_state \<Rightarrow> string" where
  "finding_state_name v = enum_lookup k_finding_state (finding_state_code v)"

definition finding_state_of_code :: "u32 \<Rightarrow> finding_state option" where
  "finding_state_of_code raw = enum_of_code finding_state_code finding_state_all raw"

definition is_valid_finding_state :: "u32 \<Rightarrow> bool" where
  "is_valid_finding_state raw = enum_valid k_finding_state raw"

lemma mem_finding_state_all: "v \<in> set finding_state_all"
  by (cases v) (simp_all add: finding_state_all_def)

interpretation finding_state: wire_enum finding_state_code finding_state_all k_finding_state
  by unfold_locales (rule mem_finding_state_all, simp_all add: finding_state_all_def k_finding_state_def)

subsection \<open>TargetSupersession\<close>

datatype target_supersession =
    TS_Current
  | TS_Superseded
  | TS_Retired

fun target_supersession_code :: "target_supersession \<Rightarrow> u32" where
  "target_supersession_code TS_Current = 1"
| "target_supersession_code TS_Superseded = 2"
| "target_supersession_code TS_Retired = 3"

definition target_supersession_all :: "target_supersession list" where
  "target_supersession_all = [TS_Current, TS_Superseded, TS_Retired]"

definition k_target_supersession :: enum_table where
  "k_target_supersession =
    [(1, ''CURRENT''),
     (2, ''SUPERSEDED''),
     (3, ''RETIRED'')]"

definition target_supersession_name :: "target_supersession \<Rightarrow> string" where
  "target_supersession_name v = enum_lookup k_target_supersession (target_supersession_code v)"

definition target_supersession_of_code :: "u32 \<Rightarrow> target_supersession option" where
  "target_supersession_of_code raw = enum_of_code target_supersession_code target_supersession_all raw"

definition is_valid_target_supersession :: "u32 \<Rightarrow> bool" where
  "is_valid_target_supersession raw = enum_valid k_target_supersession raw"

lemma mem_target_supersession_all: "v \<in> set target_supersession_all"
  by (cases v) (simp_all add: target_supersession_all_def)

interpretation target_supersession: wire_enum target_supersession_code target_supersession_all k_target_supersession
  by unfold_locales (rule mem_target_supersession_all, simp_all add: target_supersession_all_def k_target_supersession_def)

subsection \<open>ReviewState\<close>

datatype review_state =
    RS_Declared
  | RS_Assigning
  | RS_Assigned
  | RS_Reviewing
  | RS_FindingsReceived
  | RS_Validating
  | RS_Challenged
  | RS_RebuttalPending
  | RS_Evaluating
  | RS_Resolved
  | RS_Committed
  | RS_RevalidationRequired
  | RS_Cancelled
  | RS_Superseded
  | RS_Failed
  | RS_Retired

fun review_state_code :: "review_state \<Rightarrow> u32" where
  "review_state_code RS_Declared = 1"
| "review_state_code RS_Assigning = 2"
| "review_state_code RS_Assigned = 3"
| "review_state_code RS_Reviewing = 4"
| "review_state_code RS_FindingsReceived = 5"
| "review_state_code RS_Validating = 6"
| "review_state_code RS_Challenged = 7"
| "review_state_code RS_RebuttalPending = 8"
| "review_state_code RS_Evaluating = 9"
| "review_state_code RS_Resolved = 10"
| "review_state_code RS_Committed = 11"
| "review_state_code RS_RevalidationRequired = 12"
| "review_state_code RS_Cancelled = 13"
| "review_state_code RS_Superseded = 14"
| "review_state_code RS_Failed = 15"
| "review_state_code RS_Retired = 16"

definition review_state_all :: "review_state list" where
  "review_state_all = [RS_Declared, RS_Assigning, RS_Assigned, RS_Reviewing, RS_FindingsReceived, RS_Validating, RS_Challenged, RS_RebuttalPending, RS_Evaluating, RS_Resolved, RS_Committed, RS_RevalidationRequired, RS_Cancelled, RS_Superseded, RS_Failed, RS_Retired]"

definition k_review_state :: enum_table where
  "k_review_state =
    [(1, ''DECLARED''),
     (2, ''ASSIGNING''),
     (3, ''ASSIGNED''),
     (4, ''REVIEWING''),
     (5, ''FINDINGS_RECEIVED''),
     (6, ''VALIDATING''),
     (7, ''CHALLENGED''),
     (8, ''REBUTTAL_PENDING''),
     (9, ''EVALUATING''),
     (10, ''RESOLVED''),
     (11, ''COMMITTED''),
     (12, ''REVALIDATION_REQUIRED''),
     (13, ''CANCELLED''),
     (14, ''SUPERSEDED''),
     (15, ''FAILED''),
     (16, ''RETIRED'')]"

definition review_state_name :: "review_state \<Rightarrow> string" where
  "review_state_name v = enum_lookup k_review_state (review_state_code v)"

definition review_state_of_code :: "u32 \<Rightarrow> review_state option" where
  "review_state_of_code raw = enum_of_code review_state_code review_state_all raw"

definition is_valid_review_state :: "u32 \<Rightarrow> bool" where
  "is_valid_review_state raw = enum_valid k_review_state raw"

definition parse_review_state :: "string \<Rightarrow> review_state option" where
  "parse_review_state str = Option.bind (enum_parse k_review_state str) review_state_of_code"

lemma mem_review_state_all: "v \<in> set review_state_all"
  by (cases v) (simp_all add: review_state_all_def)

interpretation review_state: wire_enum review_state_code review_state_all k_review_state
  by unfold_locales (rule mem_review_state_all, simp_all add: review_state_all_def k_review_state_def)

subsection \<open>ReviewDisposition\<close>

datatype review_disposition =
    RD_None
  | RD_Pass
  | RD_Fail
  | RD_Warn
  | RD_Disagreement
  | RD_Tie
  | RD_InsufficientEvidence
  | RD_RequiredCriticFailed
  | RD_QuorumNotReached
  | RD_RevalidationRequired
  | RD_Cancelled
  | RD_Superseded
  | RD_Unknown

fun review_disposition_code :: "review_disposition \<Rightarrow> u32" where
  "review_disposition_code RD_None = 0"
| "review_disposition_code RD_Pass = 1"
| "review_disposition_code RD_Fail = 2"
| "review_disposition_code RD_Warn = 3"
| "review_disposition_code RD_Disagreement = 4"
| "review_disposition_code RD_Tie = 5"
| "review_disposition_code RD_InsufficientEvidence = 6"
| "review_disposition_code RD_RequiredCriticFailed = 7"
| "review_disposition_code RD_QuorumNotReached = 8"
| "review_disposition_code RD_RevalidationRequired = 9"
| "review_disposition_code RD_Cancelled = 10"
| "review_disposition_code RD_Superseded = 11"
| "review_disposition_code RD_Unknown = 12"

definition review_disposition_all :: "review_disposition list" where
  "review_disposition_all = [RD_None, RD_Pass, RD_Fail, RD_Warn, RD_Disagreement, RD_Tie, RD_InsufficientEvidence, RD_RequiredCriticFailed, RD_QuorumNotReached, RD_RevalidationRequired, RD_Cancelled, RD_Superseded, RD_Unknown]"

definition k_review_disposition :: enum_table where
  "k_review_disposition =
    [(0, ''NONE''),
     (1, ''PASS''),
     (2, ''FAIL''),
     (3, ''WARN''),
     (4, ''DISAGREEMENT''),
     (5, ''TIE''),
     (6, ''INSUFFICIENT_EVIDENCE''),
     (7, ''REQUIRED_CRITIC_FAILED''),
     (8, ''QUORUM_NOT_REACHED''),
     (9, ''REVALIDATION_REQUIRED''),
     (10, ''CANCELLED''),
     (11, ''SUPERSEDED''),
     (12, ''UNKNOWN'')]"

definition review_disposition_name :: "review_disposition \<Rightarrow> string" where
  "review_disposition_name v = enum_lookup k_review_disposition (review_disposition_code v)"

definition review_disposition_of_code :: "u32 \<Rightarrow> review_disposition option" where
  "review_disposition_of_code raw = enum_of_code review_disposition_code review_disposition_all raw"

definition is_valid_review_disposition :: "u32 \<Rightarrow> bool" where
  "is_valid_review_disposition raw = enum_valid k_review_disposition raw"

definition parse_review_disposition :: "string \<Rightarrow> review_disposition option" where
  "parse_review_disposition str = Option.bind (enum_parse k_review_disposition str) review_disposition_of_code"

lemma mem_review_disposition_all: "v \<in> set review_disposition_all"
  by (cases v) (simp_all add: review_disposition_all_def)

interpretation review_disposition: wire_enum review_disposition_code review_disposition_all k_review_disposition
  by unfold_locales (rule mem_review_disposition_all, simp_all add: review_disposition_all_def k_review_disposition_def)

subsection \<open>AggregationPolicy\<close>

datatype aggregation_policy =
    Agg_AllRequiredPass
  | Agg_AnyCriticalFail
  | Agg_QuorumPass
  | Agg_WeightedReview
  | Agg_RequiredRolePass
  | Agg_MajorityWithConstraints
  | Agg_ConsensusThreshold
  | Agg_PolicyTable

fun aggregation_policy_code :: "aggregation_policy \<Rightarrow> u32" where
  "aggregation_policy_code Agg_AllRequiredPass = 1"
| "aggregation_policy_code Agg_AnyCriticalFail = 2"
| "aggregation_policy_code Agg_QuorumPass = 3"
| "aggregation_policy_code Agg_WeightedReview = 4"
| "aggregation_policy_code Agg_RequiredRolePass = 5"
| "aggregation_policy_code Agg_MajorityWithConstraints = 6"
| "aggregation_policy_code Agg_ConsensusThreshold = 7"
| "aggregation_policy_code Agg_PolicyTable = 8"

definition aggregation_policy_all :: "aggregation_policy list" where
  "aggregation_policy_all = [Agg_AllRequiredPass, Agg_AnyCriticalFail, Agg_QuorumPass, Agg_WeightedReview, Agg_RequiredRolePass, Agg_MajorityWithConstraints, Agg_ConsensusThreshold, Agg_PolicyTable]"

definition k_aggregation_policy :: enum_table where
  "k_aggregation_policy =
    [(1, ''ALL_REQUIRED_PASS''),
     (2, ''ANY_CRITICAL_FAIL''),
     (3, ''QUORUM_PASS''),
     (4, ''WEIGHTED_REVIEW''),
     (5, ''REQUIRED_ROLE_PASS''),
     (6, ''MAJORITY_WITH_CONSTRAINTS''),
     (7, ''CONSENSUS_THRESHOLD''),
     (8, ''POLICY_TABLE'')]"

definition aggregation_policy_name :: "aggregation_policy \<Rightarrow> string" where
  "aggregation_policy_name v = enum_lookup k_aggregation_policy (aggregation_policy_code v)"

definition aggregation_policy_of_code :: "u32 \<Rightarrow> aggregation_policy option" where
  "aggregation_policy_of_code raw = enum_of_code aggregation_policy_code aggregation_policy_all raw"

definition is_valid_aggregation_policy :: "u32 \<Rightarrow> bool" where
  "is_valid_aggregation_policy raw = enum_valid k_aggregation_policy raw"

lemma mem_aggregation_policy_all: "v \<in> set aggregation_policy_all"
  by (cases v) (simp_all add: aggregation_policy_all_def)

interpretation aggregation_policy: wire_enum aggregation_policy_code aggregation_policy_all k_aggregation_policy
  by unfold_locales (rule mem_aggregation_policy_all, simp_all add: aggregation_policy_all_def k_aggregation_policy_def)

subsection \<open>DisagreementPolicy\<close>

datatype disagreement_policy =
    Dis_ReportAndFail
  | Dis_ReportAndWarn
  | Dis_ThresholdThenFail
  | Dis_Escalate

fun disagreement_policy_code :: "disagreement_policy \<Rightarrow> u32" where
  "disagreement_policy_code Dis_ReportAndFail = 1"
| "disagreement_policy_code Dis_ReportAndWarn = 2"
| "disagreement_policy_code Dis_ThresholdThenFail = 3"
| "disagreement_policy_code Dis_Escalate = 4"

definition disagreement_policy_all :: "disagreement_policy list" where
  "disagreement_policy_all = [Dis_ReportAndFail, Dis_ReportAndWarn, Dis_ThresholdThenFail, Dis_Escalate]"

definition k_disagreement_policy :: enum_table where
  "k_disagreement_policy =
    [(1, ''REPORT_AND_FAIL''),
     (2, ''REPORT_AND_WARN''),
     (3, ''THRESHOLD_THEN_FAIL''),
     (4, ''ESCALATE'')]"

definition disagreement_policy_name :: "disagreement_policy \<Rightarrow> string" where
  "disagreement_policy_name v = enum_lookup k_disagreement_policy (disagreement_policy_code v)"

definition disagreement_policy_of_code :: "u32 \<Rightarrow> disagreement_policy option" where
  "disagreement_policy_of_code raw = enum_of_code disagreement_policy_code disagreement_policy_all raw"

definition is_valid_disagreement_policy :: "u32 \<Rightarrow> bool" where
  "is_valid_disagreement_policy raw = enum_valid k_disagreement_policy raw"

lemma mem_disagreement_policy_all: "v \<in> set disagreement_policy_all"
  by (cases v) (simp_all add: disagreement_policy_all_def)

interpretation disagreement_policy: wire_enum disagreement_policy_code disagreement_policy_all k_disagreement_policy
  by unfold_locales (rule mem_disagreement_policy_all, simp_all add: disagreement_policy_all_def k_disagreement_policy_def)

subsection \<open>DuplicatePolicy\<close>

datatype duplicate_policy =
    Dup_Reject
  | Dup_IdempotentIgnore
  | Dup_KeepDistinct

fun duplicate_policy_code :: "duplicate_policy \<Rightarrow> u32" where
  "duplicate_policy_code Dup_Reject = 1"
| "duplicate_policy_code Dup_IdempotentIgnore = 2"
| "duplicate_policy_code Dup_KeepDistinct = 3"

definition duplicate_policy_all :: "duplicate_policy list" where
  "duplicate_policy_all = [Dup_Reject, Dup_IdempotentIgnore, Dup_KeepDistinct]"

definition k_duplicate_policy :: enum_table where
  "k_duplicate_policy =
    [(1, ''REJECT''),
     (2, ''IDEMPOTENT_IGNORE''),
     (3, ''KEEP_DISTINCT'')]"

definition duplicate_policy_name :: "duplicate_policy \<Rightarrow> string" where
  "duplicate_policy_name v = enum_lookup k_duplicate_policy (duplicate_policy_code v)"

definition duplicate_policy_of_code :: "u32 \<Rightarrow> duplicate_policy option" where
  "duplicate_policy_of_code raw = enum_of_code duplicate_policy_code duplicate_policy_all raw"

definition is_valid_duplicate_policy :: "u32 \<Rightarrow> bool" where
  "is_valid_duplicate_policy raw = enum_valid k_duplicate_policy raw"

lemma mem_duplicate_policy_all: "v \<in> set duplicate_policy_all"
  by (cases v) (simp_all add: duplicate_policy_all_def)

interpretation duplicate_policy: wire_enum duplicate_policy_code duplicate_policy_all k_duplicate_policy
  by unfold_locales (rule mem_duplicate_policy_all, simp_all add: duplicate_policy_all_def k_duplicate_policy_def)

subsection \<open>ChallengePolicy\<close>

datatype challenge_policy =
    ChP_Disabled
  | ChP_AllowOneRound
  | ChP_AllowBoundedRounds

fun challenge_policy_code :: "challenge_policy \<Rightarrow> u32" where
  "challenge_policy_code ChP_Disabled = 1"
| "challenge_policy_code ChP_AllowOneRound = 2"
| "challenge_policy_code ChP_AllowBoundedRounds = 3"

definition challenge_policy_all :: "challenge_policy list" where
  "challenge_policy_all = [ChP_Disabled, ChP_AllowOneRound, ChP_AllowBoundedRounds]"

definition k_challenge_policy :: enum_table where
  "k_challenge_policy =
    [(1, ''DISABLED''),
     (2, ''ALLOW_ONE_ROUND''),
     (3, ''ALLOW_BOUNDED_ROUNDS'')]"

definition challenge_policy_name :: "challenge_policy \<Rightarrow> string" where
  "challenge_policy_name v = enum_lookup k_challenge_policy (challenge_policy_code v)"

definition challenge_policy_of_code :: "u32 \<Rightarrow> challenge_policy option" where
  "challenge_policy_of_code raw = enum_of_code challenge_policy_code challenge_policy_all raw"

definition is_valid_challenge_policy :: "u32 \<Rightarrow> bool" where
  "is_valid_challenge_policy raw = enum_valid k_challenge_policy raw"

lemma mem_challenge_policy_all: "v \<in> set challenge_policy_all"
  by (cases v) (simp_all add: challenge_policy_all_def)

interpretation challenge_policy: wire_enum challenge_policy_code challenge_policy_all k_challenge_policy
  by unfold_locales (rule mem_challenge_policy_all, simp_all add: challenge_policy_all_def k_challenge_policy_def)

subsection \<open>ChallengeOutcome\<close>

datatype challenge_outcome =
    ChO_Unresolved
  | ChO_Upheld
  | ChO_Modified
  | ChO_Superseded
  | ChO_Invalidated

fun challenge_outcome_code :: "challenge_outcome \<Rightarrow> u32" where
  "challenge_outcome_code ChO_Unresolved = 1"
| "challenge_outcome_code ChO_Upheld = 2"
| "challenge_outcome_code ChO_Modified = 3"
| "challenge_outcome_code ChO_Superseded = 4"
| "challenge_outcome_code ChO_Invalidated = 5"

definition challenge_outcome_all :: "challenge_outcome list" where
  "challenge_outcome_all = [ChO_Unresolved, ChO_Upheld, ChO_Modified, ChO_Superseded, ChO_Invalidated]"

definition k_challenge_outcome :: enum_table where
  "k_challenge_outcome =
    [(1, ''UNRESOLVED''),
     (2, ''UPHELD''),
     (3, ''MODIFIED''),
     (4, ''SUPERSEDED''),
     (5, ''INVALIDATED'')]"

definition challenge_outcome_name :: "challenge_outcome \<Rightarrow> string" where
  "challenge_outcome_name v = enum_lookup k_challenge_outcome (challenge_outcome_code v)"

definition challenge_outcome_of_code :: "u32 \<Rightarrow> challenge_outcome option" where
  "challenge_outcome_of_code raw = enum_of_code challenge_outcome_code challenge_outcome_all raw"

definition is_valid_challenge_outcome :: "u32 \<Rightarrow> bool" where
  "is_valid_challenge_outcome raw = enum_valid k_challenge_outcome raw"

lemma mem_challenge_outcome_all: "v \<in> set challenge_outcome_all"
  by (cases v) (simp_all add: challenge_outcome_all_def)

interpretation challenge_outcome: wire_enum challenge_outcome_code challenge_outcome_all k_challenge_outcome
  by unfold_locales (rule mem_challenge_outcome_all, simp_all add: challenge_outcome_all_def k_challenge_outcome_def)

subsection \<open>PredicateKind\<close>

datatype predicate_kind =
    Pred_ExactTargetGenerationMatch
  | Pred_TargetDigestMatch
  | Pred_RequiredEvidencePresent
  | Pred_EvidenceIntegrityVerified
  | Pred_EvidenceProvenanceKnown
  | Pred_RequiredRolePresent
  | Pred_MinimumIndependentCriticIdentities
  | Pred_RequiredVerifierPass
  | Pred_NoCriticalFailFindings
  | Pred_CriticGenerationCurrent
  | Pred_WorkerBootCurrent
  | Pred_CoordinatorEpochCurrent
  | Pred_RequiredCategoriesCovered
  | Pred_QuorumSatisfied
  | Pred_ConfidenceNotAuthoritative

fun predicate_kind_code :: "predicate_kind \<Rightarrow> u32" where
  "predicate_kind_code Pred_ExactTargetGenerationMatch = 1"
| "predicate_kind_code Pred_TargetDigestMatch = 2"
| "predicate_kind_code Pred_RequiredEvidencePresent = 3"
| "predicate_kind_code Pred_EvidenceIntegrityVerified = 4"
| "predicate_kind_code Pred_EvidenceProvenanceKnown = 5"
| "predicate_kind_code Pred_RequiredRolePresent = 6"
| "predicate_kind_code Pred_MinimumIndependentCriticIdentities = 7"
| "predicate_kind_code Pred_RequiredVerifierPass = 8"
| "predicate_kind_code Pred_NoCriticalFailFindings = 9"
| "predicate_kind_code Pred_CriticGenerationCurrent = 10"
| "predicate_kind_code Pred_WorkerBootCurrent = 11"
| "predicate_kind_code Pred_CoordinatorEpochCurrent = 12"
| "predicate_kind_code Pred_RequiredCategoriesCovered = 13"
| "predicate_kind_code Pred_QuorumSatisfied = 14"
| "predicate_kind_code Pred_ConfidenceNotAuthoritative = 15"

definition predicate_kind_all :: "predicate_kind list" where
  "predicate_kind_all = [Pred_ExactTargetGenerationMatch, Pred_TargetDigestMatch, Pred_RequiredEvidencePresent, Pred_EvidenceIntegrityVerified, Pred_EvidenceProvenanceKnown, Pred_RequiredRolePresent, Pred_MinimumIndependentCriticIdentities, Pred_RequiredVerifierPass, Pred_NoCriticalFailFindings, Pred_CriticGenerationCurrent, Pred_WorkerBootCurrent, Pred_CoordinatorEpochCurrent, Pred_RequiredCategoriesCovered, Pred_QuorumSatisfied, Pred_ConfidenceNotAuthoritative]"

definition k_predicate_kind :: enum_table where
  "k_predicate_kind =
    [(1, ''EXACT_TARGET_GENERATION_MATCH''),
     (2, ''TARGET_DIGEST_MATCH''),
     (3, ''REQUIRED_EVIDENCE_PRESENT''),
     (4, ''EVIDENCE_INTEGRITY_VERIFIED''),
     (5, ''EVIDENCE_PROVENANCE_KNOWN''),
     (6, ''REQUIRED_ROLE_PRESENT''),
     (7, ''MINIMUM_INDEPENDENT_CRITIC_IDENTITIES''),
     (8, ''REQUIRED_VERIFIER_PASS''),
     (9, ''NO_CRITICAL_FAIL_FINDINGS''),
     (10, ''CRITIC_GENERATION_CURRENT''),
     (11, ''WORKER_BOOT_CURRENT''),
     (12, ''COORDINATOR_EPOCH_CURRENT''),
     (13, ''REQUIRED_CATEGORIES_COVERED''),
     (14, ''QUORUM_SATISFIED''),
     (15, ''CONFIDENCE_NOT_AUTHORITATIVE'')]"

definition predicate_kind_name :: "predicate_kind \<Rightarrow> string" where
  "predicate_kind_name v = enum_lookup k_predicate_kind (predicate_kind_code v)"

definition predicate_kind_of_code :: "u32 \<Rightarrow> predicate_kind option" where
  "predicate_kind_of_code raw = enum_of_code predicate_kind_code predicate_kind_all raw"

definition is_valid_predicate_kind :: "u32 \<Rightarrow> bool" where
  "is_valid_predicate_kind raw = enum_valid k_predicate_kind raw"

lemma mem_predicate_kind_all: "v \<in> set predicate_kind_all"
  by (cases v) (simp_all add: predicate_kind_all_def)

interpretation predicate_kind: wire_enum predicate_kind_code predicate_kind_all k_predicate_kind
  by unfold_locales (rule mem_predicate_kind_all, simp_all add: predicate_kind_all_def k_predicate_kind_def)

subsection \<open>ConfidenceBasis\<close>

datatype confidence_basis =
    CB_NotProvided
  | CB_DeclaredByCritic
  | CB_DerivedFromEvidenceCount

fun confidence_basis_code :: "confidence_basis \<Rightarrow> u32" where
  "confidence_basis_code CB_NotProvided = 0"
| "confidence_basis_code CB_DeclaredByCritic = 1"
| "confidence_basis_code CB_DerivedFromEvidenceCount = 2"

definition confidence_basis_all :: "confidence_basis list" where
  "confidence_basis_all = [CB_NotProvided, CB_DeclaredByCritic, CB_DerivedFromEvidenceCount]"

definition k_confidence_basis :: enum_table where
  "k_confidence_basis =
    [(0, ''NOT_PROVIDED''),
     (1, ''DECLARED_BY_CRITIC''),
     (2, ''DERIVED_FROM_EVIDENCE_COUNT'')]"

definition confidence_basis_name :: "confidence_basis \<Rightarrow> string" where
  "confidence_basis_name v = enum_lookup k_confidence_basis (confidence_basis_code v)"

definition confidence_basis_of_code :: "u32 \<Rightarrow> confidence_basis option" where
  "confidence_basis_of_code raw = enum_of_code confidence_basis_code confidence_basis_all raw"

definition is_valid_confidence_basis :: "u32 \<Rightarrow> bool" where
  "is_valid_confidence_basis raw = enum_valid k_confidence_basis raw"

lemma mem_confidence_basis_all: "v \<in> set confidence_basis_all"
  by (cases v) (simp_all add: confidence_basis_all_def)

interpretation confidence_basis: wire_enum confidence_basis_code confidence_basis_all k_confidence_basis
  by unfold_locales (rule mem_confidence_basis_all, simp_all add: confidence_basis_all_def k_confidence_basis_def)

section \<open>Helpers of the header\<close>

definition severity_rank :: "severity \<Rightarrow> u32" where
  "severity_rank v = severity_code v"

definition is_decisive_outcome :: "finding_outcome \<Rightarrow> bool" where
  "is_decisive_outcome outcome \<longleftrightarrow> outcome = Out_Pass \<or> outcome = Out_Fail \<or> outcome = Out_Warn"

definition is_non_asserting_outcome :: "finding_outcome \<Rightarrow> bool" where
  "is_non_asserting_outcome outcome \<longleftrightarrow> outcome = Out_Abstain"

definition is_unknown_outcome :: "finding_outcome \<Rightarrow> bool" where
  "is_unknown_outcome outcome \<longleftrightarrow> outcome = Out_Unknown"

end
