(* ===== verification/CF_Errors.thy ===== *)
theory CF_Errors
  imports CF_Enums
begin

text \<open>
  Typed outcomes (\<open>include/critic_fabric/result.hpp\<close>, \<open>src/result.cpp\<close>).

  \<open>Status\<close> and \<open>Result<T>\<close> are the sum \<open>'a result\<close>: \<open>Inl\<close> an error code, \<open>Inr\<close> the value. The
  free-text detail of a \<open>Status\<close> is a message for operators: no code of the library reads it back,
  so it is not part of the model. Texts that are stored in a record (review details, retirement
  reasons, explanations) are modelled.

  The enumerators are grouped as the comments of the header group them, one datatype per group;
  \<open>E_<name>\<close> abbreviates the code of that name.
\<close>

datatype authority_error =
    StaleReviewGeneration
  | StaleTargetGeneration
  | StaleCriticGeneration
  | StaleWorkerBoot
  | StaleCoordinatorEpoch
  | CriticNotAuthoritative
  | CriticNotRegistered
  | CriticCapabilityMismatch
  | WorkerNotRegistered
  | DuplicateCriticIdentity
  | DuplicateWorkerIdentity
  | CriticGenerationRegressed
  | InvalidIdentity

datatype target_error =
    TargetUnknown
  | TargetNotReviewable
  | TargetMismatch
  | TargetGenerationRegressed
  | TargetSuperseded
  | TargetDigestMismatch

datatype lifecycle_error =
    ReviewUnknown
  | ReviewAlreadyExists
  | ReviewCancelled
  | ReviewSuperseded
  | ReviewNotCommittable
  | InvalidStateTransition
  | ReviewNotOpen
  | ReviewClosed

datatype finding_error =
    FindingUnknown
  | MalformedFinding
  | MalformedEvidence
  | DuplicateFinding
  | DuplicateEvidence
  | ConflictingFinding
  | WrongTargetFinding
  | EvidenceNotCurrent
  | EvidenceIntegrityFailed
  | EvidenceDigestMismatch
  | EvidenceProvenanceUnknown
  | FindingSuperseded

datatype decision_error =
    InsufficientEvidence
  | RequiredCriticUnavailable
  | RequiredCriticFailed
  | QuorumNotReached
  | DisagreementUnresolved
  | HardPredicateFailed
  | PolicyRejected
  | ResultAlreadyCommitted
  | ConflictingReviewCommit
  | DecisionUnknown
  | StaleDecisionGeneration
  | RevalidationRequired

datatype challenge_error =
    ChallengeUnknown
  | InvalidChallenge
  | StaleChallenge
  | InvalidRebuttal
  | StaleRebuttal
  | ChallengeLimitExceeded
  | ChallengeDisabled

datatype persistence_error =
    PersistenceCorruption
  | PersistenceTruncated
  | PersistenceTrailingData
  | PersistenceUnsupportedVersion
  | PersistenceBadMagic
  | PersistenceIoError
  | PersistenceChecksumMismatch
  | PersistenceUnavailable

datatype protocol_error =
    ProtocolError
  | ProtocolBadMagic
  | ProtocolBadVersion
  | ProtocolBadChecksum
  | ProtocolTruncated
  | ProtocolOversized
  | ProtocolTrailingGarbage
  | ProtocolInvalidEnum
  | ProtocolUnknownMessageType
  | ProtocolConnectionClosed
  | ProtocolTimeout

datatype resource_error =
    ResourceLimitExceeded
  | ArithmeticOverflow
  | Unsupported
  | InternalError

datatype error_code =
    E_Ok
  | AuthorityError authority_error
  | TargetError target_error
  | LifecycleError lifecycle_error
  | FindingError finding_error
  | DecisionError decision_error
  | ChallengeError challenge_error
  | PersistenceError persistence_error
  | ProtocolErr protocol_error
  | ResourceError resource_error

abbreviation E_StaleReviewGeneration :: error_code where "E_StaleReviewGeneration \<equiv> AuthorityError StaleReviewGeneration"
abbreviation E_StaleTargetGeneration :: error_code where "E_StaleTargetGeneration \<equiv> AuthorityError StaleTargetGeneration"
abbreviation E_StaleCriticGeneration :: error_code where "E_StaleCriticGeneration \<equiv> AuthorityError StaleCriticGeneration"
abbreviation E_StaleWorkerBoot :: error_code where "E_StaleWorkerBoot \<equiv> AuthorityError StaleWorkerBoot"
abbreviation E_StaleCoordinatorEpoch :: error_code where "E_StaleCoordinatorEpoch \<equiv> AuthorityError StaleCoordinatorEpoch"
abbreviation E_CriticNotAuthoritative :: error_code where "E_CriticNotAuthoritative \<equiv> AuthorityError CriticNotAuthoritative"
abbreviation E_CriticNotRegistered :: error_code where "E_CriticNotRegistered \<equiv> AuthorityError CriticNotRegistered"
abbreviation E_CriticCapabilityMismatch :: error_code where "E_CriticCapabilityMismatch \<equiv> AuthorityError CriticCapabilityMismatch"
abbreviation E_WorkerNotRegistered :: error_code where "E_WorkerNotRegistered \<equiv> AuthorityError WorkerNotRegistered"
abbreviation E_DuplicateCriticIdentity :: error_code where "E_DuplicateCriticIdentity \<equiv> AuthorityError DuplicateCriticIdentity"
abbreviation E_DuplicateWorkerIdentity :: error_code where "E_DuplicateWorkerIdentity \<equiv> AuthorityError DuplicateWorkerIdentity"
abbreviation E_CriticGenerationRegressed :: error_code where "E_CriticGenerationRegressed \<equiv> AuthorityError CriticGenerationRegressed"
abbreviation E_InvalidIdentity :: error_code where "E_InvalidIdentity \<equiv> AuthorityError InvalidIdentity"
abbreviation E_TargetUnknown :: error_code where "E_TargetUnknown \<equiv> TargetError TargetUnknown"
abbreviation E_TargetNotReviewable :: error_code where "E_TargetNotReviewable \<equiv> TargetError TargetNotReviewable"
abbreviation E_TargetMismatch :: error_code where "E_TargetMismatch \<equiv> TargetError TargetMismatch"
abbreviation E_TargetGenerationRegressed :: error_code where "E_TargetGenerationRegressed \<equiv> TargetError TargetGenerationRegressed"
abbreviation E_TargetSuperseded :: error_code where "E_TargetSuperseded \<equiv> TargetError TargetSuperseded"
abbreviation E_TargetDigestMismatch :: error_code where "E_TargetDigestMismatch \<equiv> TargetError TargetDigestMismatch"
abbreviation E_ReviewUnknown :: error_code where "E_ReviewUnknown \<equiv> LifecycleError ReviewUnknown"
abbreviation E_ReviewAlreadyExists :: error_code where "E_ReviewAlreadyExists \<equiv> LifecycleError ReviewAlreadyExists"
abbreviation E_ReviewCancelled :: error_code where "E_ReviewCancelled \<equiv> LifecycleError ReviewCancelled"
abbreviation E_ReviewSuperseded :: error_code where "E_ReviewSuperseded \<equiv> LifecycleError ReviewSuperseded"
abbreviation E_ReviewNotCommittable :: error_code where "E_ReviewNotCommittable \<equiv> LifecycleError ReviewNotCommittable"
abbreviation E_InvalidStateTransition :: error_code where "E_InvalidStateTransition \<equiv> LifecycleError InvalidStateTransition"
abbreviation E_ReviewNotOpen :: error_code where "E_ReviewNotOpen \<equiv> LifecycleError ReviewNotOpen"
abbreviation E_ReviewClosed :: error_code where "E_ReviewClosed \<equiv> LifecycleError ReviewClosed"
abbreviation E_FindingUnknown :: error_code where "E_FindingUnknown \<equiv> FindingError FindingUnknown"
abbreviation E_MalformedFinding :: error_code where "E_MalformedFinding \<equiv> FindingError MalformedFinding"
abbreviation E_MalformedEvidence :: error_code where "E_MalformedEvidence \<equiv> FindingError MalformedEvidence"
abbreviation E_DuplicateFinding :: error_code where "E_DuplicateFinding \<equiv> FindingError DuplicateFinding"
abbreviation E_DuplicateEvidence :: error_code where "E_DuplicateEvidence \<equiv> FindingError DuplicateEvidence"
abbreviation E_ConflictingFinding :: error_code where "E_ConflictingFinding \<equiv> FindingError ConflictingFinding"
abbreviation E_WrongTargetFinding :: error_code where "E_WrongTargetFinding \<equiv> FindingError WrongTargetFinding"
abbreviation E_EvidenceNotCurrent :: error_code where "E_EvidenceNotCurrent \<equiv> FindingError EvidenceNotCurrent"
abbreviation E_EvidenceIntegrityFailed :: error_code where "E_EvidenceIntegrityFailed \<equiv> FindingError EvidenceIntegrityFailed"
abbreviation E_EvidenceDigestMismatch :: error_code where "E_EvidenceDigestMismatch \<equiv> FindingError EvidenceDigestMismatch"
abbreviation E_EvidenceProvenanceUnknown :: error_code where "E_EvidenceProvenanceUnknown \<equiv> FindingError EvidenceProvenanceUnknown"
abbreviation E_FindingSuperseded :: error_code where "E_FindingSuperseded \<equiv> FindingError FindingSuperseded"
abbreviation E_InsufficientEvidence :: error_code where "E_InsufficientEvidence \<equiv> DecisionError InsufficientEvidence"
abbreviation E_RequiredCriticUnavailable :: error_code where "E_RequiredCriticUnavailable \<equiv> DecisionError RequiredCriticUnavailable"
abbreviation E_RequiredCriticFailed :: error_code where "E_RequiredCriticFailed \<equiv> DecisionError RequiredCriticFailed"
abbreviation E_QuorumNotReached :: error_code where "E_QuorumNotReached \<equiv> DecisionError QuorumNotReached"
abbreviation E_DisagreementUnresolved :: error_code where "E_DisagreementUnresolved \<equiv> DecisionError DisagreementUnresolved"
abbreviation E_HardPredicateFailed :: error_code where "E_HardPredicateFailed \<equiv> DecisionError HardPredicateFailed"
abbreviation E_PolicyRejected :: error_code where "E_PolicyRejected \<equiv> DecisionError PolicyRejected"
abbreviation E_ResultAlreadyCommitted :: error_code where "E_ResultAlreadyCommitted \<equiv> DecisionError ResultAlreadyCommitted"
abbreviation E_ConflictingReviewCommit :: error_code where "E_ConflictingReviewCommit \<equiv> DecisionError ConflictingReviewCommit"
abbreviation E_DecisionUnknown :: error_code where "E_DecisionUnknown \<equiv> DecisionError DecisionUnknown"
abbreviation E_StaleDecisionGeneration :: error_code where "E_StaleDecisionGeneration \<equiv> DecisionError StaleDecisionGeneration"
abbreviation E_RevalidationRequired :: error_code where "E_RevalidationRequired \<equiv> DecisionError RevalidationRequired"
abbreviation E_ChallengeUnknown :: error_code where "E_ChallengeUnknown \<equiv> ChallengeError ChallengeUnknown"
abbreviation E_InvalidChallenge :: error_code where "E_InvalidChallenge \<equiv> ChallengeError InvalidChallenge"
abbreviation E_StaleChallenge :: error_code where "E_StaleChallenge \<equiv> ChallengeError StaleChallenge"
abbreviation E_InvalidRebuttal :: error_code where "E_InvalidRebuttal \<equiv> ChallengeError InvalidRebuttal"
abbreviation E_StaleRebuttal :: error_code where "E_StaleRebuttal \<equiv> ChallengeError StaleRebuttal"
abbreviation E_ChallengeLimitExceeded :: error_code where "E_ChallengeLimitExceeded \<equiv> ChallengeError ChallengeLimitExceeded"
abbreviation E_ChallengeDisabled :: error_code where "E_ChallengeDisabled \<equiv> ChallengeError ChallengeDisabled"
abbreviation E_PersistenceCorruption :: error_code where "E_PersistenceCorruption \<equiv> PersistenceError PersistenceCorruption"
abbreviation E_PersistenceTruncated :: error_code where "E_PersistenceTruncated \<equiv> PersistenceError PersistenceTruncated"
abbreviation E_PersistenceTrailingData :: error_code where "E_PersistenceTrailingData \<equiv> PersistenceError PersistenceTrailingData"
abbreviation E_PersistenceUnsupportedVersion :: error_code where "E_PersistenceUnsupportedVersion \<equiv> PersistenceError PersistenceUnsupportedVersion"
abbreviation E_PersistenceBadMagic :: error_code where "E_PersistenceBadMagic \<equiv> PersistenceError PersistenceBadMagic"
abbreviation E_PersistenceIoError :: error_code where "E_PersistenceIoError \<equiv> PersistenceError PersistenceIoError"
abbreviation E_PersistenceChecksumMismatch :: error_code where "E_PersistenceChecksumMismatch \<equiv> PersistenceError PersistenceChecksumMismatch"
abbreviation E_PersistenceUnavailable :: error_code where "E_PersistenceUnavailable \<equiv> PersistenceError PersistenceUnavailable"
abbreviation E_ProtocolError :: error_code where "E_ProtocolError \<equiv> ProtocolErr ProtocolError"
abbreviation E_ProtocolBadMagic :: error_code where "E_ProtocolBadMagic \<equiv> ProtocolErr ProtocolBadMagic"
abbreviation E_ProtocolBadVersion :: error_code where "E_ProtocolBadVersion \<equiv> ProtocolErr ProtocolBadVersion"
abbreviation E_ProtocolBadChecksum :: error_code where "E_ProtocolBadChecksum \<equiv> ProtocolErr ProtocolBadChecksum"
abbreviation E_ProtocolTruncated :: error_code where "E_ProtocolTruncated \<equiv> ProtocolErr ProtocolTruncated"
abbreviation E_ProtocolOversized :: error_code where "E_ProtocolOversized \<equiv> ProtocolErr ProtocolOversized"
abbreviation E_ProtocolTrailingGarbage :: error_code where "E_ProtocolTrailingGarbage \<equiv> ProtocolErr ProtocolTrailingGarbage"
abbreviation E_ProtocolInvalidEnum :: error_code where "E_ProtocolInvalidEnum \<equiv> ProtocolErr ProtocolInvalidEnum"
abbreviation E_ProtocolUnknownMessageType :: error_code where "E_ProtocolUnknownMessageType \<equiv> ProtocolErr ProtocolUnknownMessageType"
abbreviation E_ProtocolConnectionClosed :: error_code where "E_ProtocolConnectionClosed \<equiv> ProtocolErr ProtocolConnectionClosed"
abbreviation E_ProtocolTimeout :: error_code where "E_ProtocolTimeout \<equiv> ProtocolErr ProtocolTimeout"
abbreviation E_ResourceLimitExceeded :: error_code where "E_ResourceLimitExceeded \<equiv> ResourceError ResourceLimitExceeded"
abbreviation E_ArithmeticOverflow :: error_code where "E_ArithmeticOverflow \<equiv> ResourceError ArithmeticOverflow"
abbreviation E_Unsupported :: error_code where "E_Unsupported \<equiv> ResourceError Unsupported"
abbreviation E_InternalError :: error_code where "E_InternalError \<equiv> ResourceError InternalError"

fun authority_error_num :: "authority_error \<Rightarrow> u32" where
  "authority_error_num StaleReviewGeneration = 100"
| "authority_error_num StaleTargetGeneration = 101"
| "authority_error_num StaleCriticGeneration = 102"
| "authority_error_num StaleWorkerBoot = 103"
| "authority_error_num StaleCoordinatorEpoch = 104"
| "authority_error_num CriticNotAuthoritative = 105"
| "authority_error_num CriticNotRegistered = 106"
| "authority_error_num CriticCapabilityMismatch = 107"
| "authority_error_num WorkerNotRegistered = 108"
| "authority_error_num DuplicateCriticIdentity = 109"
| "authority_error_num DuplicateWorkerIdentity = 110"
| "authority_error_num CriticGenerationRegressed = 111"
| "authority_error_num InvalidIdentity = 112"

fun target_error_num :: "target_error \<Rightarrow> u32" where
  "target_error_num TargetUnknown = 200"
| "target_error_num TargetNotReviewable = 201"
| "target_error_num TargetMismatch = 202"
| "target_error_num TargetGenerationRegressed = 203"
| "target_error_num TargetSuperseded = 204"
| "target_error_num TargetDigestMismatch = 205"

fun lifecycle_error_num :: "lifecycle_error \<Rightarrow> u32" where
  "lifecycle_error_num ReviewUnknown = 300"
| "lifecycle_error_num ReviewAlreadyExists = 301"
| "lifecycle_error_num ReviewCancelled = 302"
| "lifecycle_error_num ReviewSuperseded = 303"
| "lifecycle_error_num ReviewNotCommittable = 304"
| "lifecycle_error_num InvalidStateTransition = 305"
| "lifecycle_error_num ReviewNotOpen = 306"
| "lifecycle_error_num ReviewClosed = 307"

fun finding_error_num :: "finding_error \<Rightarrow> u32" where
  "finding_error_num FindingUnknown = 400"
| "finding_error_num MalformedFinding = 401"
| "finding_error_num MalformedEvidence = 402"
| "finding_error_num DuplicateFinding = 403"
| "finding_error_num DuplicateEvidence = 404"
| "finding_error_num ConflictingFinding = 405"
| "finding_error_num WrongTargetFinding = 406"
| "finding_error_num EvidenceNotCurrent = 407"
| "finding_error_num EvidenceIntegrityFailed = 408"
| "finding_error_num EvidenceDigestMismatch = 409"
| "finding_error_num EvidenceProvenanceUnknown = 410"
| "finding_error_num FindingSuperseded = 411"

fun decision_error_num :: "decision_error \<Rightarrow> u32" where
  "decision_error_num InsufficientEvidence = 500"
| "decision_error_num RequiredCriticUnavailable = 501"
| "decision_error_num RequiredCriticFailed = 502"
| "decision_error_num QuorumNotReached = 503"
| "decision_error_num DisagreementUnresolved = 504"
| "decision_error_num HardPredicateFailed = 505"
| "decision_error_num PolicyRejected = 506"
| "decision_error_num ResultAlreadyCommitted = 507"
| "decision_error_num ConflictingReviewCommit = 508"
| "decision_error_num DecisionUnknown = 509"
| "decision_error_num StaleDecisionGeneration = 510"
| "decision_error_num RevalidationRequired = 511"

fun challenge_error_num :: "challenge_error \<Rightarrow> u32" where
  "challenge_error_num ChallengeUnknown = 600"
| "challenge_error_num InvalidChallenge = 601"
| "challenge_error_num StaleChallenge = 602"
| "challenge_error_num InvalidRebuttal = 603"
| "challenge_error_num StaleRebuttal = 604"
| "challenge_error_num ChallengeLimitExceeded = 605"
| "challenge_error_num ChallengeDisabled = 606"

fun persistence_error_num :: "persistence_error \<Rightarrow> u32" where
  "persistence_error_num PersistenceCorruption = 700"
| "persistence_error_num PersistenceTruncated = 701"
| "persistence_error_num PersistenceTrailingData = 702"
| "persistence_error_num PersistenceUnsupportedVersion = 703"
| "persistence_error_num PersistenceBadMagic = 704"
| "persistence_error_num PersistenceIoError = 705"
| "persistence_error_num PersistenceChecksumMismatch = 706"
| "persistence_error_num PersistenceUnavailable = 707"

fun protocol_error_num :: "protocol_error \<Rightarrow> u32" where
  "protocol_error_num ProtocolError = 800"
| "protocol_error_num ProtocolBadMagic = 801"
| "protocol_error_num ProtocolBadVersion = 802"
| "protocol_error_num ProtocolBadChecksum = 803"
| "protocol_error_num ProtocolTruncated = 804"
| "protocol_error_num ProtocolOversized = 805"
| "protocol_error_num ProtocolTrailingGarbage = 806"
| "protocol_error_num ProtocolInvalidEnum = 807"
| "protocol_error_num ProtocolUnknownMessageType = 808"
| "protocol_error_num ProtocolConnectionClosed = 809"
| "protocol_error_num ProtocolTimeout = 810"

fun resource_error_num :: "resource_error \<Rightarrow> u32" where
  "resource_error_num ResourceLimitExceeded = 900"
| "resource_error_num ArithmeticOverflow = 901"
| "resource_error_num Unsupported = 902"
| "resource_error_num InternalError = 903"

fun error_code_num :: "error_code \<Rightarrow> u32" where
  "error_code_num E_Ok = 0"
| "error_code_num (AuthorityError e) = authority_error_num e"
| "error_code_num (TargetError e) = target_error_num e"
| "error_code_num (LifecycleError e) = lifecycle_error_num e"
| "error_code_num (FindingError e) = finding_error_num e"
| "error_code_num (DecisionError e) = decision_error_num e"
| "error_code_num (ChallengeError e) = challenge_error_num e"
| "error_code_num (PersistenceError e) = persistence_error_num e"
| "error_code_num (ProtocolErr e) = protocol_error_num e"
| "error_code_num (ResourceError e) = resource_error_num e"

fun authority_error_name :: "authority_error \<Rightarrow> string" where
  "authority_error_name StaleReviewGeneration = ''StaleReviewGeneration''"
| "authority_error_name StaleTargetGeneration = ''StaleTargetGeneration''"
| "authority_error_name StaleCriticGeneration = ''StaleCriticGeneration''"
| "authority_error_name StaleWorkerBoot = ''StaleWorkerBoot''"
| "authority_error_name StaleCoordinatorEpoch = ''StaleCoordinatorEpoch''"
| "authority_error_name CriticNotAuthoritative = ''CriticNotAuthoritative''"
| "authority_error_name CriticNotRegistered = ''CriticNotRegistered''"
| "authority_error_name CriticCapabilityMismatch = ''CriticCapabilityMismatch''"
| "authority_error_name WorkerNotRegistered = ''WorkerNotRegistered''"
| "authority_error_name DuplicateCriticIdentity = ''DuplicateCriticIdentity''"
| "authority_error_name DuplicateWorkerIdentity = ''DuplicateWorkerIdentity''"
| "authority_error_name CriticGenerationRegressed = ''CriticGenerationRegressed''"
| "authority_error_name InvalidIdentity = ''InvalidIdentity''"

fun target_error_name :: "target_error \<Rightarrow> string" where
  "target_error_name TargetUnknown = ''TargetUnknown''"
| "target_error_name TargetNotReviewable = ''TargetNotReviewable''"
| "target_error_name TargetMismatch = ''TargetMismatch''"
| "target_error_name TargetGenerationRegressed = ''TargetGenerationRegressed''"
| "target_error_name TargetSuperseded = ''TargetSuperseded''"
| "target_error_name TargetDigestMismatch = ''TargetDigestMismatch''"

fun lifecycle_error_name :: "lifecycle_error \<Rightarrow> string" where
  "lifecycle_error_name ReviewUnknown = ''ReviewUnknown''"
| "lifecycle_error_name ReviewAlreadyExists = ''ReviewAlreadyExists''"
| "lifecycle_error_name ReviewCancelled = ''ReviewCancelled''"
| "lifecycle_error_name ReviewSuperseded = ''ReviewSuperseded''"
| "lifecycle_error_name ReviewNotCommittable = ''ReviewNotCommittable''"
| "lifecycle_error_name InvalidStateTransition = ''InvalidStateTransition''"
| "lifecycle_error_name ReviewNotOpen = ''ReviewNotOpen''"
| "lifecycle_error_name ReviewClosed = ''ReviewClosed''"

fun finding_error_name :: "finding_error \<Rightarrow> string" where
  "finding_error_name FindingUnknown = ''FindingUnknown''"
| "finding_error_name MalformedFinding = ''MalformedFinding''"
| "finding_error_name MalformedEvidence = ''MalformedEvidence''"
| "finding_error_name DuplicateFinding = ''DuplicateFinding''"
| "finding_error_name DuplicateEvidence = ''DuplicateEvidence''"
| "finding_error_name ConflictingFinding = ''ConflictingFinding''"
| "finding_error_name WrongTargetFinding = ''WrongTargetFinding''"
| "finding_error_name EvidenceNotCurrent = ''EvidenceNotCurrent''"
| "finding_error_name EvidenceIntegrityFailed = ''EvidenceIntegrityFailed''"
| "finding_error_name EvidenceDigestMismatch = ''EvidenceDigestMismatch''"
| "finding_error_name EvidenceProvenanceUnknown = ''EvidenceProvenanceUnknown''"
| "finding_error_name FindingSuperseded = ''FindingSuperseded''"

fun decision_error_name :: "decision_error \<Rightarrow> string" where
  "decision_error_name InsufficientEvidence = ''InsufficientEvidence''"
| "decision_error_name RequiredCriticUnavailable = ''RequiredCriticUnavailable''"
| "decision_error_name RequiredCriticFailed = ''RequiredCriticFailed''"
| "decision_error_name QuorumNotReached = ''QuorumNotReached''"
| "decision_error_name DisagreementUnresolved = ''DisagreementUnresolved''"
| "decision_error_name HardPredicateFailed = ''HardPredicateFailed''"
| "decision_error_name PolicyRejected = ''PolicyRejected''"
| "decision_error_name ResultAlreadyCommitted = ''ResultAlreadyCommitted''"
| "decision_error_name ConflictingReviewCommit = ''ConflictingReviewCommit''"
| "decision_error_name DecisionUnknown = ''DecisionUnknown''"
| "decision_error_name StaleDecisionGeneration = ''StaleDecisionGeneration''"
| "decision_error_name RevalidationRequired = ''RevalidationRequired''"

fun challenge_error_name :: "challenge_error \<Rightarrow> string" where
  "challenge_error_name ChallengeUnknown = ''ChallengeUnknown''"
| "challenge_error_name InvalidChallenge = ''InvalidChallenge''"
| "challenge_error_name StaleChallenge = ''StaleChallenge''"
| "challenge_error_name InvalidRebuttal = ''InvalidRebuttal''"
| "challenge_error_name StaleRebuttal = ''StaleRebuttal''"
| "challenge_error_name ChallengeLimitExceeded = ''ChallengeLimitExceeded''"
| "challenge_error_name ChallengeDisabled = ''ChallengeDisabled''"

fun persistence_error_name :: "persistence_error \<Rightarrow> string" where
  "persistence_error_name PersistenceCorruption = ''PersistenceCorruption''"
| "persistence_error_name PersistenceTruncated = ''PersistenceTruncated''"
| "persistence_error_name PersistenceTrailingData = ''PersistenceTrailingData''"
| "persistence_error_name PersistenceUnsupportedVersion = ''PersistenceUnsupportedVersion''"
| "persistence_error_name PersistenceBadMagic = ''PersistenceBadMagic''"
| "persistence_error_name PersistenceIoError = ''PersistenceIoError''"
| "persistence_error_name PersistenceChecksumMismatch = ''PersistenceChecksumMismatch''"
| "persistence_error_name PersistenceUnavailable = ''PersistenceUnavailable''"

fun protocol_error_name :: "protocol_error \<Rightarrow> string" where
  "protocol_error_name ProtocolError = ''ProtocolError''"
| "protocol_error_name ProtocolBadMagic = ''ProtocolBadMagic''"
| "protocol_error_name ProtocolBadVersion = ''ProtocolBadVersion''"
| "protocol_error_name ProtocolBadChecksum = ''ProtocolBadChecksum''"
| "protocol_error_name ProtocolTruncated = ''ProtocolTruncated''"
| "protocol_error_name ProtocolOversized = ''ProtocolOversized''"
| "protocol_error_name ProtocolTrailingGarbage = ''ProtocolTrailingGarbage''"
| "protocol_error_name ProtocolInvalidEnum = ''ProtocolInvalidEnum''"
| "protocol_error_name ProtocolUnknownMessageType = ''ProtocolUnknownMessageType''"
| "protocol_error_name ProtocolConnectionClosed = ''ProtocolConnectionClosed''"
| "protocol_error_name ProtocolTimeout = ''ProtocolTimeout''"

fun resource_error_name :: "resource_error \<Rightarrow> string" where
  "resource_error_name ResourceLimitExceeded = ''ResourceLimitExceeded''"
| "resource_error_name ArithmeticOverflow = ''ArithmeticOverflow''"
| "resource_error_name Unsupported = ''Unsupported''"
| "resource_error_name InternalError = ''InternalError''"

fun error_code_name :: "error_code \<Rightarrow> string" where
  "error_code_name E_Ok = ''Ok''"
| "error_code_name (AuthorityError e) = authority_error_name e"
| "error_code_name (TargetError e) = target_error_name e"
| "error_code_name (LifecycleError e) = lifecycle_error_name e"
| "error_code_name (FindingError e) = finding_error_name e"
| "error_code_name (DecisionError e) = decision_error_name e"
| "error_code_name (ChallengeError e) = challenge_error_name e"
| "error_code_name (PersistenceError e) = persistence_error_name e"
| "error_code_name (ProtocolErr e) = protocol_error_name e"
| "error_code_name (ResourceError e) = resource_error_name e"

definition is_retryable_fence :: "error_code \<Rightarrow> bool" where
  "is_retryable_fence code \<longleftrightarrow> code \<in> {E_StaleReviewGeneration, E_StaleTargetGeneration, E_StaleCriticGeneration, E_StaleWorkerBoot, E_StaleCoordinatorEpoch, E_CriticNotAuthoritative, E_WorkerNotRegistered, E_RevalidationRequired}"

type_synonym 'a result = "error_code + 'a"
type_synonym status = "unit result"

abbreviation success :: status where
  "success \<equiv> Inr ()"

fun result_bind :: "'a result \<Rightarrow> ('a \<Rightarrow> 'b result) \<Rightarrow> 'b result" where
  "result_bind (Inl e) f = Inl e"
| "result_bind (Inr a) f = f a"

fun is_ok :: "'a result \<Rightarrow> bool" where
  "is_ok (Inl e) = False"
| "is_ok (Inr a) = True"

lemma result_bind_Inr_iff: "result_bind r f = Inr b \<longleftrightarrow> (\<exists>a. r = Inr a \<and> f a = Inr b)"
  by (cases r) auto

lemma is_ok_iff: "is_ok r \<longleftrightarrow> (\<exists>a. r = Inr a)"
  by (cases r) auto

text \<open>A chain of guards, each a condition with the code reported when it holds; the first wins.\<close>

fun first_error :: "(bool \<times> error_code) list \<Rightarrow> status" where
  "first_error [] = success"
| "first_error ((failed, code) # rest) = (if failed then Inl code else first_error rest)"

lemma first_error_Inr: "first_error gs = Inr u \<longleftrightarrow> (\<forall>g \<in> set gs. \<not> fst g)"
  by (induction gs rule: first_error.induct) auto

lemma first_error_Inl: "first_error gs = Inl e \<Longrightarrow> (True, e) \<in> set gs"
  by (induction gs rule: first_error.induct) (auto split: if_splits)

end
