(* ===== verification/CF_Limits.thy ===== *)
theory CF_Limits
  imports CF_Errors
begin

text \<open>
  Resource bounds (\<open>include/critic_fabric/limits.hpp\<close>, \<open>src/limits.cpp\<close>): the record of runtime
  limits, its defaults, and the clamp into the compile-time ceilings that every externally
  supplied configuration passes before it is used.
\<close>

definition kHardMaxFrameBytes :: u32 where "kHardMaxFrameBytes = 4194304"
definition kHardMaxPayloadBytes :: u32 where "kHardMaxPayloadBytes = 1048576"
definition kHardMaxMetadataBytes :: u32 where "kHardMaxMetadataBytes = 65536"
definition kHardMaxFindingsPerReview :: u32 where "kHardMaxFindingsPerReview = 4096"
definition kHardMaxCriticsPerReview :: u32 where "kHardMaxCriticsPerReview = 256"
definition kHardMaxReviewRounds :: u32 where "kHardMaxReviewRounds = 64"
definition kHardMaxRetries :: u32 where "kHardMaxRetries = 16"

lemmas hard_ceilings =
  kHardMaxFrameBytes_def kHardMaxPayloadBytes_def kHardMaxMetadataBytes_def
  kHardMaxFindingsPerReview_def kHardMaxCriticsPerReview_def kHardMaxReviewRounds_def
  kHardMaxRetries_def

record runtime_limits =
  max_critics_per_review :: u32
  max_concurrent_reviews :: u32
  max_retained_reviews :: u32
  max_retained_targets :: u32
  max_in_flight_findings :: u32
  max_findings_per_review :: u32
  max_evidence_per_finding :: u32
  max_evidence_records_per_review :: u32
  max_evidence_payload_bytes :: u32
  max_explanation_bytes :: u32
  max_challenges_per_review :: u32
  max_rebuttals_per_challenge :: u32
  max_review_rounds :: u32
  max_critic_retries :: u32
  max_worker_connections :: u32
  max_retained_generations :: u32
  max_target_payload_bytes :: u32
  max_metadata_string_bytes :: u32
  max_frame_bytes :: u32
  max_persisted_records :: u32
  max_persistence_file_bytes :: u32

definition default_limits :: runtime_limits where
  "default_limits =
    \<lparr> max_critics_per_review = 32,
      max_concurrent_reviews = 512,
      max_retained_reviews = 8192,
      max_retained_targets = 262144,
      max_in_flight_findings = 1024,
      max_findings_per_review = 256,
      max_evidence_per_finding = 16,
      max_evidence_records_per_review = 4096,
      max_evidence_payload_bytes = 8192,
      max_explanation_bytes = 2048,
      max_challenges_per_review = 64,
      max_rebuttals_per_challenge = 4,
      max_review_rounds = 8,
      max_critic_retries = 4,
      max_worker_connections = 128,
      max_retained_generations = 64,
      max_target_payload_bytes = 65536,
      max_metadata_string_bytes = 1024,
      max_frame_bytes = 1048576,
      max_persisted_records = 1048576,
      max_persistence_file_bytes = 67108864 \<rparr>"

text \<open>The two assignments of the template \<open>clamp_into\<close>, in their order.\<close>

definition clamp_into :: "u32 \<Rightarrow> u32 \<Rightarrow> u32 \<Rightarrow> u32" where
  "clamp_into v low high =
    (let v1 = (if v < low then low else v)
     in if v1 > high then high else v1)"

definition clamp_to_hard_ceiling :: "runtime_limits \<Rightarrow> runtime_limits" where
  "clamp_to_hard_ceiling l =
    \<lparr> max_critics_per_review = clamp_into (max_critics_per_review l) 1 kHardMaxCriticsPerReview,
      max_concurrent_reviews = clamp_into (max_concurrent_reviews l) 1 65536,
      max_retained_reviews = clamp_into (max_retained_reviews l) 1 1048576,
      max_retained_targets = clamp_into (max_retained_targets l) 1 16777216,
      max_in_flight_findings = clamp_into (max_in_flight_findings l) 1 kHardMaxFindingsPerReview,
      max_findings_per_review = clamp_into (max_findings_per_review l) 1 kHardMaxFindingsPerReview,
      max_evidence_per_finding = clamp_into (max_evidence_per_finding l) 1 4096,
      max_evidence_records_per_review = clamp_into (max_evidence_records_per_review l) 1 65536,
      max_evidence_payload_bytes = clamp_into (max_evidence_payload_bytes l) 1 kHardMaxPayloadBytes,
      max_explanation_bytes = clamp_into (max_explanation_bytes l) 1 kHardMaxPayloadBytes,
      max_challenges_per_review = clamp_into (max_challenges_per_review l) 1 65536,
      max_rebuttals_per_challenge = clamp_into (max_rebuttals_per_challenge l) 1 1024,
      max_review_rounds = clamp_into (max_review_rounds l) 1 kHardMaxReviewRounds,
      max_critic_retries = clamp_into (max_critic_retries l) 1 kHardMaxRetries,
      max_worker_connections = clamp_into (max_worker_connections l) 1 4096,
      max_retained_generations = clamp_into (max_retained_generations l) 1 4096,
      max_target_payload_bytes = clamp_into (max_target_payload_bytes l) 1 kHardMaxPayloadBytes,
      max_metadata_string_bytes = clamp_into (max_metadata_string_bytes l) 1 kHardMaxMetadataBytes,
      max_frame_bytes = clamp_into (max_frame_bytes l) 64 kHardMaxFrameBytes,
      max_persisted_records = clamp_into (max_persisted_records l) 1 16777216,
      max_persistence_file_bytes = clamp_into (max_persistence_file_bytes l) 1024 1073741824 \<rparr>"

lemma clamp_into_range: "low \<le> high \<Longrightarrow> low \<le> clamp_into v low high \<and> clamp_into v low high \<le> high"
  by (auto simp: clamp_into_def Let_def)

lemma clamp_into_idem: "low \<le> high \<Longrightarrow> clamp_into (clamp_into v low high) low high = clamp_into v low high"
  by (auto simp: clamp_into_def Let_def)

lemma clamp_into_lower: "low \<le> v \<Longrightarrow> clamp_into v low high \<le> v"
  by (auto simp: clamp_into_def Let_def)

lemma clamp_into_id: "low \<le> v \<Longrightarrow> v \<le> high \<Longrightarrow> clamp_into v low high = v"
  by (auto simp: clamp_into_def Let_def)

text \<open>The bounds the rest of the development relies on.\<close>

definition limits_within_ceilings :: "runtime_limits \<Rightarrow> bool" where
  "limits_within_ceilings l \<longleftrightarrow> clamp_to_hard_ceiling l = l"

lemma clamp_to_hard_ceiling_idem [simp]:
  "clamp_to_hard_ceiling (clamp_to_hard_ceiling l) = clamp_to_hard_ceiling l"
  by (simp add: clamp_to_hard_ceiling_def clamp_into_idem hard_ceilings)

lemma clamped_within [simp]: "limits_within_ceilings (clamp_to_hard_ceiling l)"
  by (simp add: limits_within_ceilings_def)

lemma default_limits_within: "limits_within_ceilings default_limits"
  by (simp add: limits_within_ceilings_def clamp_to_hard_ceiling_def default_limits_def clamp_into_def
      hard_ceilings)

lemma within_ceilings_field:
  "limits_within_ceilings l \<Longrightarrow> max_critics_per_review l = clamp_into (max_critics_per_review l) 1 256"
  "limits_within_ceilings l \<Longrightarrow> max_findings_per_review l = clamp_into (max_findings_per_review l) 1 4096"
  unfolding limits_within_ceilings_def clamp_to_hard_ceiling_def hard_ceilings
  by (metis runtime_limits.select_convs(1)) (metis runtime_limits.select_convs(6))

lemma within_ceilings_bounds:
  assumes "limits_within_ceilings l"
  shows "1 \<le> max_critics_per_review l" "max_critics_per_review l \<le> 256"
    and "1 \<le> max_findings_per_review l" "max_findings_per_review l \<le> 4096"
  using within_ceilings_field [OF assms] clamp_into_range [of 1 256 "max_critics_per_review l"]
    clamp_into_range [of 1 4096 "max_findings_per_review l"]
  by auto

end
