(* ===== verification/CF_Digest.thy ===== *)
theory CF_Digest
  imports CF_Limits
begin

text \<open>
  Digests and checksums (\<open>include/critic_fabric/digest.hpp\<close>, \<open>src/digest.cpp\<close>): SHA-256 with its
  incremental context, CRC-32 with its incremental form, and the hexadecimal rendering of a
  digest. A digest is the list of its 32 bytes.

  The coordinator uses a hash function in many places. Its model takes that function as an
  argument of type \<open>hash_fun\<close>, so that a theorem about it says nothing about collisions unless it
  names them as a hypothesis; the code's instance is \<open>sha256\<close>.
\<close>

unbundle bit_operations_syntax

type_synonym digest = bytes
type_synonym hash_fun = "bytes \<Rightarrow> digest"

definition zero_digest :: digest where
  "zero_digest = replicate 32 0"

definition digest_is_zero :: "digest \<Rightarrow> bool" where
  "digest_is_zero d \<longleftrightarrow> (\<forall>b \<in> set d. b = 0)"

lemma digest_is_zero_zero [simp]: "digest_is_zero zero_digest"
  by (simp add: digest_is_zero_def zero_digest_def)

section \<open>SHA-256\<close>

definition kSha256K :: "u32 list" where
  "kSha256K = concat
    [[0x428a2f98, 0x71374491, 0xb5c0fbcf, 0xe9b5dba5, 0x3956c25b, 0x59f111f1],
     [0x923f82a4, 0xab1c5ed5, 0xd807aa98, 0x12835b01, 0x243185be, 0x550c7dc3],
     [0x72be5d74, 0x80deb1fe, 0x9bdc06a7, 0xc19bf174, 0xe49b69c1, 0xefbe4786],
     [0x0fc19dc6, 0x240ca1cc, 0x2de92c6f, 0x4a7484aa, 0x5cb0a9dc, 0x76f988da],
     [0x983e5152, 0xa831c66d, 0xb00327c8, 0xbf597fc7, 0xc6e00bf3, 0xd5a79147],
     [0x06ca6351, 0x14292967, 0x27b70a85, 0x2e1b2138, 0x4d2c6dfc, 0x53380d13],
     [0x650a7354, 0x766a0abb, 0x81c2c92e, 0x92722c85, 0xa2bfe8a1, 0xa81a664b],
     [0xc24b8b70, 0xc76c51a3, 0xd192e819, 0xd6990624, 0xf40e3585, 0x106aa070],
     [0x19a4c116, 0x1e376c08, 0x2748774c, 0x34b0bcb5, 0x391c0cb3, 0x4ed8aa4a],
     [0x5b9cca4f, 0x682e6ff3, 0x748f82ee, 0x78a5636f, 0x84c87814, 0x8cc70208],
     [0x90befffa, 0xa4506ceb, 0xbef9a3f7, 0xc67178f2]]"

definition sha_rotr :: "u32 \<Rightarrow> nat \<Rightarrow> u32" where
  "sha_rotr x n = drop_bit n x OR push_bit (32 - n) x"

definition big_sigma0 :: "u32 \<Rightarrow> u32" where
  "big_sigma0 x = sha_rotr x 2 XOR sha_rotr x 13 XOR sha_rotr x 22"

definition big_sigma1 :: "u32 \<Rightarrow> u32" where
  "big_sigma1 x = sha_rotr x 6 XOR sha_rotr x 11 XOR sha_rotr x 25"

definition small_sigma0 :: "u32 \<Rightarrow> u32" where
  "small_sigma0 x = sha_rotr x 7 XOR sha_rotr x 18 XOR drop_bit 3 x"

definition small_sigma1 :: "u32 \<Rightarrow> u32" where
  "small_sigma1 x = sha_rotr x 17 XOR sha_rotr x 19 XOR drop_bit 10 x"

definition sha_choose :: "u32 \<Rightarrow> u32 \<Rightarrow> u32 \<Rightarrow> u32" where
  "sha_choose e f g = (e AND f) XOR (NOT e AND g)"

definition sha_majority :: "u32 \<Rightarrow> u32 \<Rightarrow> u32 \<Rightarrow> u32" where
  "sha_majority a b c = (a AND b) XOR (a AND c) XOR (b AND c)"

definition load_be32 :: "u8 \<Rightarrow> u8 \<Rightarrow> u8 \<Rightarrow> u8 \<Rightarrow> u32" where
  "load_be32 p0 p1 p2 p3 =
    push_bit 24 (ucast p0) OR push_bit 16 (ucast p1) OR push_bit 8 (ucast p2) OR ucast p3"

definition store_be32 :: "u32 \<Rightarrow> bytes" where
  "store_be32 v = [ucast (drop_bit 24 v AND 255), ucast (drop_bit 16 v AND 255),
                   ucast (drop_bit 8 v AND 255), ucast (v AND 255)]"

definition store_be64 :: "u64 \<Rightarrow> bytes" where
  "store_be64 v = map (\<lambda>i. ucast (drop_bit (56 - 8 * i) v AND 255)) [0, 1, 2, 3, 4, 5, 6, 7]"

fun load_words :: "bytes \<Rightarrow> u32 list" where
  "load_words (p0 # p1 # p2 # p3 # rest) = load_be32 p0 p1 p2 p3 # load_words rest"
| "load_words _ = []"

text \<open>\<open>w[16] .. w[63]\<close>: one element per step, read back at distances 2, 7, 15 and 16.\<close>

fun extend_schedule :: "nat \<Rightarrow> u32 list \<Rightarrow> u32 list" where
  "extend_schedule 0 w = w"
| "extend_schedule (Suc n) w =
     (let i = length w
      in extend_schedule n
           (w @ [small_sigma1 (w ! (i - 2)) + w ! (i - 7) + small_sigma0 (w ! (i - 15)) + w ! (i - 16)]))"

definition message_schedule :: "bytes \<Rightarrow> u32 list" where
  "message_schedule block = extend_schedule 48 (load_words block)"

type_synonym sha_regs = "u32 \<times> u32 \<times> u32 \<times> u32 \<times> u32 \<times> u32 \<times> u32 \<times> u32"

fun sha_round :: "sha_regs \<Rightarrow> u32 \<times> u32 \<Rightarrow> sha_regs" where
  "sha_round (a, b, c, d, e, f, g, h) (k, w) =
     (let t1 = h + big_sigma1 e + sha_choose e f g + k + w;
          t2 = big_sigma0 a + sha_majority a b c
      in (t1 + t2, a, b, c, d + t1, e, f, g))"

fun sha_add :: "sha_regs \<Rightarrow> sha_regs \<Rightarrow> sha_regs" where
  "sha_add (a, b, c, d, e, f, g, h) (a', b', c', d', e', f', g', h') =
     (a + a', b + b', c + c', d + d', e + e', f + f', g + g', h + h')"

definition sha_compress :: "sha_regs \<Rightarrow> bytes \<Rightarrow> sha_regs" where
  "sha_compress st block = sha_add st (foldl sha_round st (zip kSha256K (message_schedule block)))"

text \<open>
  The context: \<open>sha_buffer\<close> holds the \<open>buffer_len_\<close> bytes of \<open>buffer_\<close> not compressed yet.
\<close>

record sha_ctx =
  sha_state :: sha_regs
  sha_buffer :: bytes
  sha_total :: u64

definition sha_init :: sha_ctx where
  "sha_init = \<lparr> sha_state = (0x6a09e667, 0xbb67ae85, 0x3c6ef372, 0xa54ff53a,
                             0x510e527f, 0x9b05688c, 0x1f83d9ab, 0x5be0cd19),
                sha_buffer = [], sha_total = 0 \<rparr>"

function sha_blocks :: "sha_regs \<Rightarrow> bytes \<Rightarrow> sha_regs \<times> bytes" where
  "sha_blocks st data =
     (if 64 \<le> length data then sha_blocks (sha_compress st (take 64 data)) (drop 64 data)
      else (st, data))"
  by pat_completeness auto
termination
  by (relation "measure (\<lambda>(st, data). length data)") auto

declare sha_blocks.simps [simp del]

definition sha_update :: "sha_ctx \<Rightarrow> bytes \<Rightarrow> sha_ctx" where
  "sha_update ctx data =
    (if data = [] then ctx
     else
       let total = sha_total ctx + of_nat (length data);
           (st, buf, rest) =
             (if sha_buffer ctx \<noteq> []
              then let need = 64 - length (sha_buffer ctx);
                       n = (if length data < need then length data else need);
                       filled = sha_buffer ctx @ take n data
                   in if length filled = 64 then (sha_compress (sha_state ctx) filled, [], drop n data)
                      else (sha_state ctx, filled, drop n data)
              else (sha_state ctx, [], data));
           (st', tail) = sha_blocks st rest
       in \<lparr> sha_state = st', sha_buffer = buf @ tail, sha_total = total \<rparr>)"

definition sha_finalize :: "sha_ctx \<Rightarrow> digest" where
  "sha_finalize ctx =
    (let bit_len = sha_total ctx * 8;
         start = sha_buffer ctx @ [0x80];
         total = (if length start \<le> 56 then 64 else 128);
         pad = start @ replicate (total - length start - 8) 0 @ store_be64 bit_len;
         st1 = sha_compress (sha_state ctx) (take 64 pad);
         st2 = (if total = 128 then sha_compress st1 (drop 64 pad) else st1);
         (a, b, c, d, e, f, g, h) = st2
     in concat (map store_be32 [a, b, c, d, e, f, g, h]))"

definition sha256 :: hash_fun where
  "sha256 data = sha_finalize (sha_update sha_init data)"

section \<open>CRC-32\<close>

definition crc_step :: "u32 \<Rightarrow> u32" where
  "crc_step c = (if c AND 1 \<noteq> 0 then 0xEDB88320 XOR drop_bit 1 c else drop_bit 1 c)"

definition crc_table_entry :: "u32 \<Rightarrow> u32" where
  "crc_table_entry i = (crc_step ^^ 8) i"

definition crc_table :: "u32 list" where
  "crc_table = map (\<lambda>i. crc_table_entry (of_nat i)) [0..<256]"

definition crc_byte :: "u32 \<Rightarrow> u8 \<Rightarrow> u32" where
  "crc_byte c b = crc_table ! unat ((c XOR ucast b) AND 255) XOR drop_bit 8 c"

definition crc32 :: "bytes \<Rightarrow> u32" where
  "crc32 data = foldl crc_byte 0xFFFFFFFF data XOR 0xFFFFFFFF"

definition crc32_append :: "u32 \<Rightarrow> bytes \<Rightarrow> u32" where
  "crc32_append previous data = foldl crc_byte (previous XOR 0xFFFFFFFF) data XOR 0xFFFFFFFF"

section \<open>Hexadecimal rendering\<close>

definition k_hex :: string where
  "k_hex = ''0123456789abcdef''"

definition hex_value :: "char \<Rightarrow> int" where
  "hex_value c =
    (let n = int (of_char c)
     in if 48 \<le> n \<and> n \<le> 57 then n - 48
        else if 97 \<le> n \<and> n \<le> 102 then n - 97 + 10
        else if 65 \<le> n \<and> n \<le> 70 then n - 65 + 10
        else - 1)"

definition digest_to_hex :: "digest \<Rightarrow> string" where
  "digest_to_hex d = concat (map (\<lambda>b. [k_hex ! unat (drop_bit 4 b AND 15), k_hex ! unat (b AND 15)]) d)"

fun hex_pairs :: "string \<Rightarrow> bytes option" where
  "hex_pairs (x # y # rest) =
     (let hi = hex_value x; lo = hex_value y
      in if hi < 0 \<or> lo < 0 then None
         else map_option ((#) (word_of_int (push_bit 4 hi OR lo))) (hex_pairs rest))"
| "hex_pairs [] = Some []"
| "hex_pairs [x] = None"

definition digest_from_hex :: "string \<Rightarrow> digest option" where
  "digest_from_hex str = (if length str = 64 then hex_pairs str else None)"

section \<open>Incremental hashing equals one-shot hashing\<close>

definition sha_ctx_wf :: "sha_ctx \<Rightarrow> bool" where
  "sha_ctx_wf ctx \<longleftrightarrow> length (sha_buffer ctx) < 64"

lemma sha_blocks_short: "length data < 64 \<Longrightarrow> sha_blocks st data = (st, data)"
  by (subst sha_blocks.simps) simp

lemma sha_blocks_long:
  "64 \<le> length data \<Longrightarrow> sha_blocks st data = sha_blocks (sha_compress st (take 64 data)) (drop 64 data)"
  by (subst sha_blocks.simps) simp

lemma sha_blocks_tail: "length (snd (sha_blocks st data)) < 64"
proof (induction st data rule: sha_blocks.induct)
  case (1 st data)
  show ?case
  proof (cases "64 \<le> length data")
    case True
    then show ?thesis
      using "1.IH" sha_blocks_long [OF True, of st] by metis
  next
    case False
    then show ?thesis
      using sha_blocks_short [of data st] by simp
  qed
qed

lemma sha_blocks_append:
  "sha_blocks st (x @ y) = sha_blocks (fst (sha_blocks st x)) (snd (sha_blocks st x) @ y)"
proof (induction st x rule: sha_blocks.induct)
  case (1 st x)
  show ?case
  proof (cases "64 \<le> length x")
    case True
    have "sha_blocks st (x @ y) = sha_blocks (sha_compress st (take 64 x)) (drop 64 x @ y)"
      using True by (subst sha_blocks_long) simp_all
    also have "\<dots> = sha_blocks (fst (sha_blocks st x)) (snd (sha_blocks st x) @ y)"
      using "1.IH" [OF True] sha_blocks_long [OF True, of st] by simp
    finally show ?thesis .
  next
    case False
    then show ?thesis
      using sha_blocks_short [of x st] by simp
  qed
qed

lemma sha_update_eq:
  assumes "sha_ctx_wf ctx"
  shows "sha_update ctx data =
    \<lparr> sha_state = fst (sha_blocks (sha_state ctx) (sha_buffer ctx @ data)),
      sha_buffer = snd (sha_blocks (sha_state ctx) (sha_buffer ctx @ data)),
      sha_total = sha_total ctx + of_nat (length data) \<rparr>"
proof (cases "data = []")
  case True
  with assms show ?thesis
    by (simp add: sha_update_def sha_blocks_short sha_ctx_wf_def)
next
  case nonempty: False
  let ?buf = "sha_buffer ctx"
  have short: "length ?buf < 64"
    using assms by (simp add: sha_ctx_wf_def)
  consider (fresh) "?buf = []" | (partial) "?buf \<noteq> []" "length ?buf + length data < 64"
    | (full) "?buf \<noteq> []" "64 \<le> length ?buf + length data"
    by linarith
  then show ?thesis
  proof cases
    case fresh
    with nonempty show ?thesis by (simp add: sha_update_def case_prod_beta)
  next
    case partial
    with nonempty short show ?thesis
      by (simp add: sha_update_def case_prod_beta sha_blocks_short Let_def)
  next
    case full
    let ?need = "64 - length ?buf"
    let ?filled = "?buf @ take ?need data"
    have need: "min (length data) ?need = ?need"
      using full(2) by linarith
    have len: "length ?filled = 64"
      using full(2) short by simp
    have split: "take 64 (?buf @ data) = ?filled" "drop 64 (?buf @ data) = drop ?need data"
      using short by simp_all
    have blocks: "sha_blocks (sha_state ctx) (?buf @ data)
        = sha_blocks (sha_compress (sha_state ctx) ?filled) (drop ?need data)"
      using full(2) sha_blocks_long [of "?buf @ data" "sha_state ctx"] unfolding split by simp
    have "(if length data < ?need then length data else ?need) = ?need"
      using full(2) by auto
    then show ?thesis
      using nonempty full(1) len
      by (simp add: sha_update_def case_prod_beta blocks Let_def)
  qed
qed

lemma sha_update_wf: "sha_ctx_wf ctx \<Longrightarrow> sha_ctx_wf (sha_update ctx data)"
  by (simp add: sha_update_eq) (simp add: sha_ctx_wf_def sha_blocks_tail)

lemma sha_init_wf [simp]: "sha_ctx_wf sha_init"
  by (simp add: sha_ctx_wf_def sha_init_def)

lemma sha_update_append:
  assumes "sha_ctx_wf ctx"
  shows "sha_update (sha_update ctx x) y = sha_update ctx (x @ y)"
  using sha_blocks_append [of "sha_state ctx" "sha_buffer ctx @ x" y]
    sha_update_eq [OF assms, of x] sha_update_eq [OF assms, of "x @ y"]
    sha_update_eq [OF sha_update_wf [OF assms, of x], of y]
  by simp

lemma sha_update_fold:
  "sha_ctx_wf ctx \<Longrightarrow> foldl sha_update ctx chunks = sha_update ctx (concat chunks)"
proof (induction chunks arbitrary: ctx)
  case Nil
  then show ?case by (simp add: sha_update_def)
next
  case (Cons c chunks)
  then show ?case by (simp add: sha_update_wf sha_update_append)
qed

lemma sha256_length: "length (sha256 data) = 32"
  by (simp add: sha256_def sha_finalize_def Let_def store_be32_def case_prod_beta)

text \<open>
  Incremental hashing agrees with one-shot hashing: however a message is cut into the chunks
  passed to \<open>Sha256::update\<close>, the finalized digest is that of the concatenated message, so block
  buffering across calls never changes a digest.
\<close>

theorem sha256_incremental:
  "sha_finalize (foldl sha_update sha_init chunks) = sha256 (concat chunks)"
  by (simp add: sha_update_fold sha256_def)

lemma crc32_continue: "crc32_append (crc32 x) y = crc32 (x @ y)"
  by (simp add: crc32_append_def crc32_def xor.assoc)

text \<open>
  The running checksum of the journal: continuing a CRC-32 over further bytes gives the CRC-32
  of all bytes together.
\<close>

theorem crc32_append_crc32: "crc32_append (crc32 x) y = crc32 (x @ y)"
  by (rule crc32_continue)

section \<open>Hexadecimal round trip\<close>

lemma hex_values_all: "list_all (\<lambda>n. hex_value (k_hex ! n) = int n) [0..<16]"
  by code_simp

lemma hex_value_digit: "n < 16 \<Longrightarrow> hex_value (k_hex ! n) = int n"
  using hex_values_all by (simp add: list_all_iff)

lemma mask4_u8: "(15 :: u8) = mask 4"
  by (simp add: mask_eq_exp_minus_1)

lemma nibble_bits: "bit (15 :: u8) n \<longleftrightarrow> n < 4"
  unfolding mask4_u8 by (auto simp: bit_mask_iff)

lemma nibble_bits_int: "bit (15 :: int) n \<longleftrightarrow> n < 4"
proof -
  have "(15 :: int) = mask 4"
    by (simp add: mask_eq_exp_minus_1)
  then show ?thesis
    by (simp only: bit_mask_iff) simp
qed

lemma nibbles_join:
  "word_of_int (push_bit 4 (uint (drop_bit 4 b AND 15)) OR uint (b AND 15)) = (b :: u8)"
proof (rule bit_word_eqI)
  fix n
  assume n: "n < LENGTH(8)"
  then show "bit (word_of_int (push_bit 4 (uint (drop_bit 4 b AND 15)) OR uint (b AND 15)) :: u8) n
      = bit b n"
    by (cases "n < 4") (auto simp: bit_word_of_int_iff bit_or_iff bit_push_bit_iff bit_and_iff
        bit_uint_iff nibble_bits nibble_bits_int bit_drop_bit_eq)
qed

lemma nibble_less: "unat ((w :: u8) AND 15) < 16"
proof -
  have "w AND 15 \<le> 15"
    by (rule word_and_le1)
  then have "unat (w AND 15) \<le> unat (15 :: u8)"
    by (simp add: word_le_nat_alt)
  then show ?thesis by simp
qed

lemma hex_pairs_to_hex: "hex_pairs (digest_to_hex d) = Some d"
proof (induction d)
  case Nil
  then show ?case by (simp add: digest_to_hex_def)
next
  case (Cons b d)
  then show ?case
    by (simp add: digest_to_hex_def hex_value_digit nibble_less nibbles_join Let_def)
qed

text \<open>
  Rendering a 32-byte digest in hexadecimal and parsing it back returns the digest.
\<close>

theorem digest_hex_roundtrip: "length d = 32 \<Longrightarrow> digest_from_hex (digest_to_hex d) = Some d"
proof -
  assume "length d = 32"
  moreover have "length (digest_to_hex d) = 2 * length d"
    by (induction d) (simp_all add: digest_to_hex_def)
  ultimately show ?thesis
    by (simp add: digest_from_hex_def hex_pairs_to_hex)
qed

theorem digest_hex_roundtrip_witness:
  "length zero_digest = 32 \<and> digest_from_hex (digest_to_hex zero_digest) = Some zero_digest"
  using digest_hex_roundtrip [of zero_digest] by (simp add: zero_digest_def)

end
