(* ===== verification/CF_Records.thy ===== *)
theory CF_Records
  imports CF_Digest
begin

text \<open>
  The data model: the structs of \<open>include/critic_fabric/\<close> (\<open>target.hpp\<close>, \<open>critic.hpp\<close>,
  \<open>policy.hpp\<close>, \<open>finding.hpp\<close>, \<open>evidence.hpp\<close>, \<open>challenge.hpp\<close>, \<open>review.hpp\<close>, \<open>authority.hpp\<close>)
  and the journal records of \<open>persistence.hpp\<close>, field by field and in the order of the source.
  Identities and generations (\<open>StrongId\<close>, \<open>StrongGeneration\<close>) are 64-bit words; zero is the invalid
  identity and the generation that is not established. \<open>std::vector\<close> is a list, \<open>std::set\<close> a set and
  \<open>std::map\<close> an ordered map.
\<close>

section \<open>Identities and generations\<close>

type_synonym review_request_id = u64
type_synonym review_id = u64
type_synonym target_id = u64
type_synonym critic_id = u64
type_synonym critic_assignment_id = u64
type_synonym finding_id = u64
type_synonym evidence_id = u64
type_synonym challenge_id = u64
type_synonym rebuttal_id = u64
type_synonym decision_id = u64
type_synonym worker_id = u64
type_synonym worker_boot_id = u64
type_synonym producer_id = u64
type_synonym request_id = u64
type_synonym review_generation = u64
type_synonym target_generation = u64
type_synonym critic_generation = u64
type_synonym finding_generation = u64
type_synonym evidence_generation = u64
type_synonym challenge_generation = u64
type_synonym decision_generation = u64
type_synonym coordinator_epoch = u64
type_synonym attempt_generation = u64

definition id_valid :: "u64 \<Rightarrow> bool" where
  "id_valid v \<longleftrightarrow> v \<noteq> 0"

definition first_generation :: u64 where
  "first_generation = 1"

definition advance_would_overflow :: "u64 \<Rightarrow> bool" where
  "advance_would_overflow v \<longleftrightarrow> v = - 1"

definition advance :: "u64 \<Rightarrow> u64" where
  "advance v = v + 1"

lemma advance_newer: "\<not> advance_would_overflow v \<Longrightarrow> v < advance v"
  by (simp add: advance_would_overflow_def advance_def word_less_nat_alt unat_succ_u64)

lemma advance_valid: "\<not> advance_would_overflow v \<Longrightarrow> id_valid (advance v)"
  using advance_newer [of v] by (auto simp: id_valid_def advance_def)

section \<open>Records\<close>

record compatibility =
  cp_schema_name :: string
  cp_producer_version :: string

record target_record =
  t_id :: target_id
  t_generation :: target_generation
  t_target_class :: target_class
  t_content_digest :: digest
  t_schema_digest :: digest
  t_schema_name :: string
  t_producer :: producer_id
  t_producer_version :: string
  t_provenance :: string
  t_payload :: bytes
  t_created_order :: u64
  t_reviewable :: bool
  t_supersession :: target_supersession
  t_superseded_by :: target_generation
  t_supersession_reason :: string

record critic_capability =
  cap_roles :: "critic_role set"
  cap_target_classes :: "target_class set"
  cap_finding_categories :: "finding_category set"
  cap_specialization :: string
  cap_implementation_version :: string
  cap_capability_evidence :: digest
  cap_deterministic_output :: bool
  cap_supports_challenge_response :: bool

record critic_registration =
  c_id :: critic_id
  c_generation :: critic_generation
  c_capability :: critic_capability
  c_registrant :: producer_id
  c_provenance :: string
  c_compat :: compatibility
  c_registered_order :: u64

record worker_record =
  w_id :: worker_id
  w_boot :: worker_boot_id
  w_epoch :: coordinator_epoch
  w_critic :: critic_id
  w_critic_generation :: critic_generation
  w_host :: producer_id
  w_process_label :: string
  w_ready :: bool
  w_healthy :: bool
  w_authoritative :: bool
  w_boot_order :: u64
  w_readiness_order :: u64
  w_readiness_digest :: digest

record predicate_spec =
  ps_kind :: predicate_kind
  ps_mandatory :: bool
  ps_parameter :: u32

record policy_table_entry =
  pt_outcome :: finding_outcome
  pt_min_severity :: severity
  pt_max_severity :: severity
  pt_min_count :: u32
  pt_disposition :: review_disposition

record review_spec =
  sp_name :: string
  sp_required_roles :: "critic_role list"
  sp_optional_roles :: "critic_role list"
  sp_roles_that_must_pass :: "critic_role set"
  sp_min_critic_count :: u32
  sp_required_critic_count :: u32
  sp_quorum :: u32
  sp_required_min_categories :: "(finding_category, u32) omap"
  sp_required_finding_categories :: "finding_category list"
  sp_max_critical_fails :: u32
  sp_allow_abstention :: bool
  sp_allow_partial_failure :: bool
  sp_fail_threshold :: severity
  sp_warn_threshold :: severity
  sp_warn_counts_as_failure :: bool
  sp_unknown_counts_as_failure :: bool
  sp_aggregation :: aggregation_policy
  sp_disagreement :: disagreement_policy
  sp_disagreement_threshold_fail :: u32
  sp_duplicates :: duplicate_policy
  sp_challenges :: challenge_policy
  sp_max_challenge_rounds :: u32
  sp_max_review_rounds :: u32
  sp_max_critic_retries :: u32
  sp_critic_weights :: "(critic_id, u32) omap"
  sp_default_weight :: u32
  sp_predicates :: "predicate_spec list"
  sp_policy_table :: "policy_table_entry list"
  sp_consensus_threshold_basis_points :: u32
  sp_confidence_has_authority :: bool
  sp_deterministic_decision_required :: bool
  sp_persist_findings :: bool
  sp_persist_evidence_metadata :: bool
  sp_persist_evidence_payload :: bool
  sp_reopen_on_recovery :: bool

record confidence =
  cf_provided :: bool
  cf_basis_points :: u32
  cf_basis :: confidence_basis

record finding =
  f_id :: finding_id
  f_generation :: finding_generation
  f_supersedes :: finding_id
  f_superseded_by :: finding_id
  f_critic :: critic_id
  f_critic_generation :: critic_generation
  f_assignment :: critic_assignment_id
  f_worker :: worker_id
  f_worker_boot :: worker_boot_id
  f_attempt :: attempt_generation
  f_review :: review_id
  f_review_generation :: review_generation
  f_target :: target_id
  f_target_generation :: target_generation
  f_category :: finding_category
  f_severity :: severity
  f_outcome :: finding_outcome
  f_evidence :: "evidence_id list"
  f_explanation :: string
  f_confidence :: confidence
  f_provenance :: string
  f_creation_order :: u64
  f_state :: finding_state
  f_challenged_by :: challenge_id
  f_finding_digest :: digest

record evidence_record =
  e_id :: evidence_id
  e_generation :: evidence_generation
  e_source_type :: evidence_source_type
  e_provenance :: evidence_provenance
  e_integrity :: evidence_integrity
  e_producer :: producer_id
  e_target :: target_id
  e_target_generation :: target_generation
  e_target_digest :: digest
  e_review :: review_id
  e_review_generation :: review_generation
  e_critic :: critic_id
  e_critic_generation :: critic_generation
  e_worker :: worker_id
  e_worker_boot :: worker_boot_id
  e_finding :: finding_id
  e_content_digest :: digest
  e_payload :: bytes
  e_reference :: string
  e_created_order :: u64
  e_current :: bool
  e_superseded :: bool
  e_superseded_by :: evidence_id

record challenge =
  ch_id :: challenge_id
  ch_generation :: challenge_generation
  ch_challenged_finding :: finding_id
  ch_challenged_finding_generation :: finding_generation
  ch_challenger :: critic_id
  ch_challenger_generation :: critic_generation
  ch_worker :: worker_id
  ch_worker_boot :: worker_boot_id
  ch_review :: review_id
  ch_review_generation :: review_generation
  ch_target :: target_id
  ch_target_generation :: target_generation
  ch_disputed_predicate :: string
  ch_rationale :: string
  ch_evidence :: "evidence_id list"
  ch_creation_order :: u64
  ch_outcome :: challenge_outcome
  ch_resolved :: bool
  ch_rebuttal :: rebuttal_id

record rebuttal =
  rb_id :: rebuttal_id
  rb_challenge :: challenge_id
  rb_challenge_generation :: challenge_generation
  rb_finding :: finding_id
  rb_author :: critic_id
  rb_author_generation :: critic_generation
  rb_worker :: worker_id
  rb_worker_boot :: worker_boot_id
  rb_review :: review_id
  rb_review_generation :: review_generation
  rb_target :: target_id
  rb_target_generation :: target_generation
  rb_argument :: string
  rb_evidence :: "evidence_id list"
  rb_creation_order :: u64

record critic_assignment =
  a_id :: critic_assignment_id
  a_review :: review_id
  a_review_generation :: review_generation
  a_target :: target_id
  a_target_generation :: target_generation
  a_critic :: critic_id
  a_critic_generation :: critic_generation
  a_worker :: worker_id
  a_worker_boot :: worker_boot_id
  a_role :: critic_role
  a_required :: bool
  a_weight :: u32
  a_assigned_order :: u64
  a_active :: bool
  a_attempt :: attempt_generation
  a_retirement_reason :: string

record review_record =
  r_id :: review_id
  r_request :: review_request_id
  r_generation :: review_generation
  r_target :: target_id
  r_target_generation :: target_generation
  r_target_digest :: digest
  r_spec :: review_spec
  r_state :: review_state
  r_disposition :: review_disposition
  r_declared_order :: u64
  r_updated_order :: u64
  r_superseded_by :: review_generation
  r_cancellation_reason :: string
  r_status_detail :: string
  r_rounds_used :: u32
  r_authority_current :: bool

record decision =
  d_id :: decision_id
  d_generation :: decision_generation
  d_review :: review_id
  d_review_generation :: review_generation
  d_target :: target_id
  d_target_generation :: target_generation
  d_disposition :: review_disposition
  d_decision_digest :: digest
  d_policy_digest :: digest
  d_evidence_basis_digest :: digest
  d_committed_order :: u64
  d_epoch :: coordinator_epoch

record review_summary =
  rs_id :: review_id
  rs_generation :: review_generation
  rs_target :: target_id
  rs_target_generation :: target_generation
  rs_state :: review_state
  rs_disposition :: review_disposition
  rs_finding_count :: u32
  rs_current_finding_count :: u32
  rs_assignment_count :: u32
  rs_has_decision :: bool

record authority_context =
  au_epoch :: coordinator_epoch
  au_worker :: worker_id
  au_worker_boot :: worker_boot_id
  au_critic :: critic_id
  au_critic_generation :: critic_generation
  au_review :: review_id
  au_review_generation :: review_generation
  au_target :: target_id
  au_target_generation :: target_generation
  au_request :: request_id

record worker_incarnation =
  wi_id :: worker_id
  wi_boot :: worker_boot_id
  wi_epoch :: coordinator_epoch

record finding_state_change =
  fc_finding :: finding_id
  fc_state :: finding_state
  fc_superseded_by :: finding_id
  fc_challenged_by :: challenge_id
  fc_reason :: string

record review_state_change =
  rv_review :: review_id
  rv_review_generation :: review_generation
  rv_state :: review_state
  rv_disposition :: review_disposition
  rv_superseded_by :: review_generation
  rv_detail :: string
  rv_cancellation_reason :: string
  rv_authority_current :: bool
  rv_rounds_used :: u32

text \<open>
  A journal entry is a tag, a sequence number and the payload the tag selects; the constructors
  carry exactly the fields that are meaningful for their type.
\<close>

datatype journal_body =
    JR_Unspecified
  | JR_EpochEstablished coordinator_epoch
  | JR_TargetRegistered target_record
  | JR_TargetSuperseded target_record target_generation target_record
  | JR_CriticRegistered critic_registration
  | JR_WorkerRegistered worker_record
  | JR_ReviewDeclared review_record
  | JR_AssignmentsAdded review_id review_generation "critic_assignment list"
  | JR_FindingRecorded finding
  | JR_FindingStateChanged finding_state_change
  | JR_EvidenceRecorded evidence_record
  | JR_ChallengeRecorded challenge
  | JR_RebuttalRecorded rebuttal
  | JR_ReviewStateChanged review_state_change
  | JR_DecisionCommitted decision
  | JR_AssignmentUpdated critic_assignment

fun journal_record_type :: "journal_body \<Rightarrow> u16" where
  "journal_record_type JR_Unspecified = 0"
| "journal_record_type (JR_EpochEstablished _) = 1"
| "journal_record_type (JR_TargetRegistered _) = 2"
| "journal_record_type (JR_TargetSuperseded _ _ _) = 3"
| "journal_record_type (JR_CriticRegistered _) = 4"
| "journal_record_type (JR_WorkerRegistered _) = 5"
| "journal_record_type (JR_ReviewDeclared _) = 6"
| "journal_record_type (JR_AssignmentsAdded _ _ _) = 7"
| "journal_record_type (JR_FindingRecorded _) = 8"
| "journal_record_type (JR_FindingStateChanged _) = 9"
| "journal_record_type (JR_EvidenceRecorded _) = 10"
| "journal_record_type (JR_ChallengeRecorded _) = 11"
| "journal_record_type (JR_RebuttalRecorded _) = 12"
| "journal_record_type (JR_ReviewStateChanged _) = 13"
| "journal_record_type (JR_DecisionCommitted _) = 14"
| "journal_record_type (JR_AssignmentUpdated _) = 15"

definition is_valid_journal_record_type :: "u16 \<Rightarrow> bool" where
  "is_valid_journal_record_type raw \<longleftrightarrow> 1 \<le> raw \<and> raw \<le> 15"

record journal_entry =
  je_sequence :: u64
  je_body :: journal_body

end
