(* ===== verification/CF_Codec.thy ===== *)
theory CF_Codec
  imports CF_Records
begin

text \<open>
  The canonical big-endian writer (\<open>ByteWriter\<close>) and the domain encoders of
  \<open>src/serialization.cpp\<close>.

  A writer carries its buffer and a sticky error: after the first failure every further write is
  a no-op, and the buffer keeps the bytes written before it. An encoder is the sequence of the
  writes of the source, in order; \<open>w_seq\<close> runs such a sequence. Collections are preceded by their
  item count, which is refused above the bound of the caller.
\<close>

section \<open>ByteWriter\<close>

record writer =
  wr_buffer :: bytes
  wr_ok :: bool
  wr_code :: error_code

definition empty_writer :: writer where
  "empty_writer = \<lparr> wr_buffer = [], wr_ok = True, wr_code = E_Ok \<rparr>"

definition w_fail :: "error_code \<Rightarrow> writer \<Rightarrow> writer" where
  "w_fail code w = (if wr_ok w then w\<lparr> wr_ok := False, wr_code := code \<rparr> else w)"

definition w_require :: "nat \<Rightarrow> writer \<Rightarrow> writer" where
  "w_require additional w =
    (if \<not> wr_ok w then w
     else if additional > 4294967295 \<or> length (wr_buffer w) > 4294967295 - additional
     then w_fail E_ResourceLimitExceeded w
     else w)"

definition w_append :: "bytes \<Rightarrow> writer \<Rightarrow> writer" where
  "w_append bs w =
    (let w1 = w_require (length bs) w
     in if wr_ok w1 then w1\<lparr> wr_buffer := wr_buffer w1 @ bs \<rparr> else w1)"

definition be16 :: "u16 \<Rightarrow> bytes" where
  "be16 v = [ucast (drop_bit 8 v AND 255), ucast (v AND 255)]"

definition be32 :: "u32 \<Rightarrow> bytes" where
  "be32 v = map (\<lambda>shift. ucast (drop_bit shift v AND 255)) [24, 16, 8, 0]"

definition be64 :: "u64 \<Rightarrow> bytes" where
  "be64 v = map (\<lambda>shift. ucast (drop_bit shift v AND 255)) [56, 48, 40, 32, 24, 16, 8, 0]"

lemma be_lengths [simp]: "length (be16 x) = 2" "length (be32 y) = 4" "length (be64 z) = 8"
  by (simp_all add: be16_def be32_def be64_def)

text \<open>Overwriting four bytes that are already there; anything else is a failure.\<close>

definition patch_u32 :: "nat \<Rightarrow> u32 \<Rightarrow> writer \<Rightarrow> writer" where
  "patch_u32 offset v w =
    (if \<not> wr_ok w \<or> offset + 4 > length (wr_buffer w) then w_fail E_InternalError w
     else w\<lparr> wr_buffer := take offset (wr_buffer w) @ be32 v @ drop (offset + 4) (wr_buffer w) \<rparr>)"

lemma patch_u32_field:
  assumes "wr_ok w" and "wr_ok (patch_u32 offset v w)"
  shows "length (wr_buffer (patch_u32 offset v w)) = length (wr_buffer w)
    \<and> take 4 (drop offset (wr_buffer (patch_u32 offset v w))) = be32 v"
  using assms by (auto simp: patch_u32_def w_fail_def be32_def split: if_splits)

definition string_bytes :: "string \<Rightarrow> bytes" where
  "string_bytes s = map of_char s"

definition w_u8 :: "u8 \<Rightarrow> writer \<Rightarrow> writer" where
  "w_u8 v = w_append [v]"

definition w_u16 :: "u16 \<Rightarrow> writer \<Rightarrow> writer" where
  "w_u16 v = w_append (be16 v)"

definition w_u32 :: "u32 \<Rightarrow> writer \<Rightarrow> writer" where
  "w_u32 v = w_append (be32 v)"

definition w_u64 :: "u64 \<Rightarrow> writer \<Rightarrow> writer" where
  "w_u64 v = w_append (be64 v)"

definition w_boolean :: "bool \<Rightarrow> writer \<Rightarrow> writer" where
  "w_boolean v = w_u8 (if v then 1 else 0)"

definition w_raw :: "bytes \<Rightarrow> writer \<Rightarrow> writer" where
  "w_raw data w = (if data = [] then w else w_append data w)"

definition w_digest :: "digest \<Rightarrow> writer \<Rightarrow> writer" where
  "w_digest v = w_append v"

definition w_bytes :: "bytes \<Rightarrow> u32 \<Rightarrow> writer \<Rightarrow> writer" where
  "w_bytes v max_bytes w =
    (if length v > unat max_bytes then w_fail E_ResourceLimitExceeded w
     else w_raw v (w_u32 (of_nat (length v)) w))"

definition w_string :: "string \<Rightarrow> u32 \<Rightarrow> writer \<Rightarrow> writer" where
  "w_string v max_bytes w =
    (if length v > unat max_bytes then w_fail E_ResourceLimitExceeded w
     else w_raw (string_bytes v) (w_u32 (of_nat (length v)) w))"

definition w_status :: "writer \<Rightarrow> status" where
  "w_status w = (if wr_ok w then success else Inl (wr_code w))"

definition w_seq :: "(writer \<Rightarrow> writer) list \<Rightarrow> writer \<Rightarrow> writer" where
  "w_seq steps w = foldl (\<lambda>w step. step w) w steps"

definition w_each :: "('a \<Rightarrow> writer \<Rightarrow> writer) \<Rightarrow> 'a list \<Rightarrow> writer \<Rightarrow> writer" where
  "w_each enc xs w = foldl (\<lambda>w x. enc x w) w xs"

section \<open>Collections\<close>

definition write_item_count :: "nat \<Rightarrow> u32 \<Rightarrow> writer \<Rightarrow> writer" where
  "write_item_count count max_items w =
    (if count > unat max_items then w_fail E_ResourceLimitExceeded w
     else if wr_ok w then w_u32 (of_nat count) w
     else w)"

definition write_roles :: "critic_role set \<Rightarrow> u32 \<Rightarrow> writer \<Rightarrow> writer" where
  "write_roles roles max_items = w_seq
    [write_item_count (card roles) max_items,
     w_each (\<lambda>r. w_u32 (critic_role_code r)) (sorted_list_of_set roles)]"

definition write_target_classes :: "target_class set \<Rightarrow> u32 \<Rightarrow> writer \<Rightarrow> writer" where
  "write_target_classes vals max_items = w_seq
    [write_item_count (card vals) max_items,
     w_each (\<lambda>r. w_u32 (target_class_code r)) (sorted_list_of_set vals)]"

definition write_categories :: "finding_category set \<Rightarrow> u32 \<Rightarrow> writer \<Rightarrow> writer" where
  "write_categories vals max_items = w_seq
    [write_item_count (card vals) max_items,
     w_each (\<lambda>r. w_u32 (finding_category_code r)) (sorted_list_of_set vals)]"

definition write_role_list :: "critic_role list \<Rightarrow> u32 \<Rightarrow> writer \<Rightarrow> writer" where
  "write_role_list roles max_items = w_seq
    [write_item_count (length roles) max_items,
     w_each (\<lambda>r. w_u32 (critic_role_code r)) roles]"

definition write_id_list :: "u64 list \<Rightarrow> u32 \<Rightarrow> writer \<Rightarrow> writer" where
  "write_id_list ids max_items = w_seq
    [write_item_count (length ids) max_items, w_each w_u64 ids]"

section \<open>Domain encoders\<close>

definition kSpecVersion :: u32 where
  "kSpecVersion = 1"

definition enc_compatibility :: "compatibility \<Rightarrow> writer \<Rightarrow> writer" where
  "enc_compatibility v = w_seq
    [w_string (cp_schema_name v) kHardMaxMetadataBytes,
     w_string (cp_producer_version v) kHardMaxMetadataBytes]"

definition enc_target_record :: "target_record \<Rightarrow> writer \<Rightarrow> writer" where
  "enc_target_record v = w_seq
    [w_u64 (t_id v),
     w_u64 (t_generation v),
     w_u32 (target_class_code (t_target_class v)),
     w_digest (t_content_digest v),
     w_digest (t_schema_digest v),
     w_string (t_schema_name v) kHardMaxMetadataBytes,
     w_u64 (t_producer v),
     w_string (t_producer_version v) kHardMaxMetadataBytes,
     w_string (t_provenance v) kHardMaxMetadataBytes,
     w_bytes (t_payload v) kHardMaxPayloadBytes,
     w_u64 (t_created_order v),
     w_boolean (t_reviewable v),
     w_u32 (target_supersession_code (t_supersession v)),
     w_u64 (t_superseded_by v),
     w_string (t_supersession_reason v) kHardMaxMetadataBytes]"

definition enc_critic_capability :: "critic_capability \<Rightarrow> writer \<Rightarrow> writer" where
  "enc_critic_capability v = w_seq
    [write_roles (cap_roles v) kHardMaxMetadataBytes,
     write_target_classes (cap_target_classes v) 10,
     write_categories (cap_finding_categories v) 11,
     w_string (cap_specialization v) kHardMaxMetadataBytes,
     w_string (cap_implementation_version v) kHardMaxMetadataBytes,
     w_digest (cap_capability_evidence v),
     w_boolean (cap_deterministic_output v),
     w_boolean (cap_supports_challenge_response v)]"

definition enc_critic_registration :: "critic_registration \<Rightarrow> writer \<Rightarrow> writer" where
  "enc_critic_registration v = w_seq
    [w_u64 (c_id v),
     w_u64 (c_generation v),
     enc_critic_capability (c_capability v),
     w_u64 (c_registrant v),
     w_string (c_provenance v) kHardMaxMetadataBytes,
     enc_compatibility (c_compat v),
     w_u64 (c_registered_order v)]"

definition enc_worker_record :: "worker_record \<Rightarrow> writer \<Rightarrow> writer" where
  "enc_worker_record v = w_seq
    [w_u64 (w_id v),
     w_u64 (w_boot v),
     w_u64 (w_epoch v),
     w_u64 (w_critic v),
     w_u64 (w_critic_generation v),
     w_u64 (w_host v),
     w_string (w_process_label v) kHardMaxMetadataBytes,
     w_boolean (w_ready v),
     w_boolean (w_healthy v),
     w_boolean (w_authoritative v),
     w_u64 (w_boot_order v),
     w_u64 (w_readiness_order v),
     w_digest (w_readiness_digest v)]"

definition enc_confidence :: "confidence \<Rightarrow> writer \<Rightarrow> writer" where
  "enc_confidence v = w_seq
    [w_boolean (cf_provided v),
     w_u32 (cf_basis_points v),
     w_u32 (confidence_basis_code (cf_basis v))]"

definition enc_evidence_record :: "evidence_record \<Rightarrow> writer \<Rightarrow> writer" where
  "enc_evidence_record v = w_seq
    [w_u64 (e_id v),
     w_u64 (e_generation v),
     w_u32 (evidence_source_type_code (e_source_type v)),
     w_u32 (evidence_provenance_code (e_provenance v)),
     w_u32 (evidence_integrity_code (e_integrity v)),
     w_u64 (e_producer v),
     w_u64 (e_target v),
     w_u64 (e_target_generation v),
     w_digest (e_target_digest v),
     w_u64 (e_review v),
     w_u64 (e_review_generation v),
     w_u64 (e_critic v),
     w_u64 (e_critic_generation v),
     w_u64 (e_worker v),
     w_u64 (e_worker_boot v),
     w_u64 (e_finding v),
     w_digest (e_content_digest v),
     w_bytes (e_payload v) kHardMaxPayloadBytes,
     w_string (e_reference v) kHardMaxMetadataBytes,
     w_u64 (e_created_order v),
     w_boolean (e_current v),
     w_boolean (e_superseded v),
     w_u64 (e_superseded_by v)]"

definition enc_finding :: "finding \<Rightarrow> writer \<Rightarrow> writer" where
  "enc_finding v = w_seq
    [w_u64 (f_id v),
     w_u64 (f_generation v),
     w_u64 (f_supersedes v),
     w_u64 (f_superseded_by v),
     w_u64 (f_critic v),
     w_u64 (f_critic_generation v),
     w_u64 (f_assignment v),
     w_u64 (f_worker v),
     w_u64 (f_worker_boot v),
     w_u64 (f_attempt v),
     w_u64 (f_review v),
     w_u64 (f_review_generation v),
     w_u64 (f_target v),
     w_u64 (f_target_generation v),
     w_u32 (finding_category_code (f_category v)),
     w_u32 (severity_code (f_severity v)),
     w_u32 (finding_outcome_code (f_outcome v)),
     write_id_list (f_evidence v) kHardMaxFindingsPerReview,
     w_string (f_explanation v) kHardMaxPayloadBytes,
     enc_confidence (f_confidence v),
     w_string (f_provenance v) kHardMaxMetadataBytes,
     w_u64 (f_creation_order v),
     w_u32 (finding_state_code (f_state v)),
     w_u64 (f_challenged_by v),
     w_digest (f_finding_digest v)]"

definition enc_challenge :: "challenge \<Rightarrow> writer \<Rightarrow> writer" where
  "enc_challenge v = w_seq
    [w_u64 (ch_id v),
     w_u64 (ch_generation v),
     w_u64 (ch_challenged_finding v),
     w_u64 (ch_challenged_finding_generation v),
     w_u64 (ch_challenger v),
     w_u64 (ch_challenger_generation v),
     w_u64 (ch_worker v),
     w_u64 (ch_worker_boot v),
     w_u64 (ch_review v),
     w_u64 (ch_review_generation v),
     w_u64 (ch_target v),
     w_u64 (ch_target_generation v),
     w_string (ch_disputed_predicate v) kHardMaxMetadataBytes,
     w_string (ch_rationale v) kHardMaxPayloadBytes,
     write_id_list (ch_evidence v) kHardMaxFindingsPerReview,
     w_u64 (ch_creation_order v),
     w_u32 (challenge_outcome_code (ch_outcome v)),
     w_boolean (ch_resolved v),
     w_u64 (ch_rebuttal v)]"

definition enc_rebuttal :: "rebuttal \<Rightarrow> writer \<Rightarrow> writer" where
  "enc_rebuttal v = w_seq
    [w_u64 (rb_id v),
     w_u64 (rb_challenge v),
     w_u64 (rb_challenge_generation v),
     w_u64 (rb_finding v),
     w_u64 (rb_author v),
     w_u64 (rb_author_generation v),
     w_u64 (rb_worker v),
     w_u64 (rb_worker_boot v),
     w_u64 (rb_review v),
     w_u64 (rb_review_generation v),
     w_u64 (rb_target v),
     w_u64 (rb_target_generation v),
     w_string (rb_argument v) kHardMaxPayloadBytes,
     write_id_list (rb_evidence v) kHardMaxFindingsPerReview,
     w_u64 (rb_creation_order v)]"

definition enc_critic_assignment :: "critic_assignment \<Rightarrow> writer \<Rightarrow> writer" where
  "enc_critic_assignment v = w_seq
    [w_u64 (a_id v),
     w_u64 (a_review v),
     w_u64 (a_review_generation v),
     w_u64 (a_target v),
     w_u64 (a_target_generation v),
     w_u64 (a_critic v),
     w_u64 (a_critic_generation v),
     w_u64 (a_worker v),
     w_u64 (a_worker_boot v),
     w_u32 (critic_role_code (a_role v)),
     w_boolean (a_required v),
     w_u32 (a_weight v),
     w_u64 (a_assigned_order v),
     w_boolean (a_active v),
     w_u64 (a_attempt v),
     w_string (a_retirement_reason v) kHardMaxMetadataBytes]"

definition enc_predicate_spec :: "predicate_spec \<Rightarrow> writer \<Rightarrow> writer" where
  "enc_predicate_spec v = w_seq
    [w_u32 (predicate_kind_code (ps_kind v)),
     w_boolean (ps_mandatory v),
     w_u32 (ps_parameter v)]"

definition enc_policy_table_entry :: "policy_table_entry \<Rightarrow> writer \<Rightarrow> writer" where
  "enc_policy_table_entry v = w_seq
    [w_u32 (finding_outcome_code (pt_outcome v)),
     w_u32 (severity_code (pt_min_severity v)),
     w_u32 (severity_code (pt_max_severity v)),
     w_u32 (pt_min_count v),
     w_u32 (review_disposition_code (pt_disposition v))]"

definition enc_review_spec :: "review_spec \<Rightarrow> writer \<Rightarrow> writer" where
  "enc_review_spec v = w_seq
    [w_u32 kSpecVersion,
     w_string (sp_name v) kHardMaxMetadataBytes,
     write_role_list (sp_required_roles v) 12,
     write_role_list (sp_optional_roles v) 12,
     write_roles (sp_roles_that_must_pass v) 12,
     w_u32 (sp_min_critic_count v),
     w_u32 (sp_required_critic_count v),
     w_u32 (sp_quorum v),
     write_item_count (length (sp_required_min_categories v)) 11,
     w_each (\<lambda>(k, n). w_seq [w_u32 (finding_category_code k), w_u32 n]) (sp_required_min_categories v),
     write_item_count (length (sp_required_finding_categories v)) 11,
     w_each (\<lambda>x. w_u32 (finding_category_code x)) (sp_required_finding_categories v),
     w_u32 (sp_max_critical_fails v),
     w_boolean (sp_allow_abstention v),
     w_boolean (sp_allow_partial_failure v),
     w_u32 (severity_code (sp_fail_threshold v)),
     w_u32 (severity_code (sp_warn_threshold v)),
     w_boolean (sp_warn_counts_as_failure v),
     w_boolean (sp_unknown_counts_as_failure v),
     w_u32 (aggregation_policy_code (sp_aggregation v)),
     w_u32 (disagreement_policy_code (sp_disagreement v)),
     w_u32 (sp_disagreement_threshold_fail v),
     w_u32 (duplicate_policy_code (sp_duplicates v)),
     w_u32 (challenge_policy_code (sp_challenges v)),
     w_u32 (sp_max_challenge_rounds v),
     w_u32 (sp_max_review_rounds v),
     w_u32 (sp_max_critic_retries v),
     write_item_count (length (sp_critic_weights v)) kHardMaxCriticsPerReview,
     w_each (\<lambda>(k, n). w_seq [w_u64 k, w_u32 n]) (sp_critic_weights v),
     w_u32 (sp_default_weight v),
     write_item_count (length (sp_predicates v)) 64,
     w_each enc_predicate_spec (sp_predicates v),
     write_item_count (length (sp_policy_table v)) 64,
     w_each enc_policy_table_entry (sp_policy_table v),
     w_u32 (sp_consensus_threshold_basis_points v),
     w_boolean (sp_confidence_has_authority v),
     w_boolean (sp_deterministic_decision_required v),
     w_boolean (sp_persist_findings v),
     w_boolean (sp_persist_evidence_metadata v),
     w_boolean (sp_persist_evidence_payload v),
     w_boolean (sp_reopen_on_recovery v)]"

definition enc_review_record :: "review_record \<Rightarrow> writer \<Rightarrow> writer" where
  "enc_review_record v = w_seq
    [w_u64 (r_id v),
     w_u64 (r_request v),
     w_u64 (r_generation v),
     w_u64 (r_target v),
     w_u64 (r_target_generation v),
     w_digest (r_target_digest v),
     enc_review_spec (r_spec v),
     w_u32 (review_state_code (r_state v)),
     w_u32 (review_disposition_code (r_disposition v)),
     w_u64 (r_declared_order v),
     w_u64 (r_updated_order v),
     w_u64 (r_superseded_by v),
     w_string (r_cancellation_reason v) kHardMaxMetadataBytes,
     w_string (r_status_detail v) kHardMaxMetadataBytes,
     w_u32 (r_rounds_used v),
     w_boolean (r_authority_current v)]"

definition enc_decision :: "decision \<Rightarrow> writer \<Rightarrow> writer" where
  "enc_decision v = w_seq
    [w_u64 (d_id v),
     w_u64 (d_generation v),
     w_u64 (d_review v),
     w_u64 (d_review_generation v),
     w_u64 (d_target v),
     w_u64 (d_target_generation v),
     w_u32 (review_disposition_code (d_disposition v)),
     w_digest (d_decision_digest v),
     w_digest (d_policy_digest v),
     w_digest (d_evidence_basis_digest v),
     w_u64 (d_committed_order v),
     w_u64 (d_epoch v)]"

definition enc_authority_context :: "authority_context \<Rightarrow> writer \<Rightarrow> writer" where
  "enc_authority_context v = w_seq
    [w_u64 (au_epoch v),
     w_u64 (au_worker v),
     w_u64 (au_worker_boot v),
     w_u64 (au_critic v),
     w_u64 (au_critic_generation v),
     w_u64 (au_review v),
     w_u64 (au_review_generation v),
     w_u64 (au_target v),
     w_u64 (au_target_generation v),
     w_u64 (au_request v)]"

section \<open>Journal payloads\<close>

definition enc_finding_state_change :: "finding_state_change \<Rightarrow> writer \<Rightarrow> writer" where
  "enc_finding_state_change v = w_seq
    [w_u64 (fc_finding v),
     w_u32 (finding_state_code (fc_state v)),
     w_u64 (fc_superseded_by v),
     w_u64 (fc_challenged_by v),
     w_string (fc_reason v) kHardMaxMetadataBytes]"

definition enc_review_state_change :: "review_state_change \<Rightarrow> writer \<Rightarrow> writer" where
  "enc_review_state_change v = w_seq
    [w_u64 (rv_review v),
     w_u64 (rv_review_generation v),
     w_u32 (review_state_code (rv_state v)),
     w_u32 (review_disposition_code (rv_disposition v)),
     w_u64 (rv_superseded_by v),
     w_string (rv_detail v) kHardMaxMetadataBytes,
     w_string (rv_cancellation_reason v) kHardMaxMetadataBytes,
     w_boolean (rv_authority_current v),
     w_u32 (rv_rounds_used v)]"

fun enc_journal_payload :: "journal_body \<Rightarrow> writer \<Rightarrow> writer" where
  "enc_journal_payload JR_Unspecified = w_seq []"
| "enc_journal_payload (JR_EpochEstablished e) = w_seq [w_u64 e]"
| "enc_journal_payload (JR_TargetRegistered t) = enc_target_record t"
| "enc_journal_payload (JR_TargetSuperseded previous previous_generation t) = w_seq
     [w_u64 (t_id t), w_u64 previous_generation, enc_target_record previous, enc_target_record t]"
| "enc_journal_payload (JR_CriticRegistered c) = enc_critic_registration c"
| "enc_journal_payload (JR_WorkerRegistered w) = enc_worker_record w"
| "enc_journal_payload (JR_ReviewDeclared r) = enc_review_record r"
| "enc_journal_payload (JR_AssignmentsAdded review generation assignments) = w_seq
     [w_u64 review, w_u64 generation, w_u32 (of_nat (length assignments)),
      w_each enc_critic_assignment assignments]"
| "enc_journal_payload (JR_FindingRecorded f) = enc_finding f"
| "enc_journal_payload (JR_FindingStateChanged c) = enc_finding_state_change c"
| "enc_journal_payload (JR_EvidenceRecorded e) = enc_evidence_record e"
| "enc_journal_payload (JR_ChallengeRecorded c) = enc_challenge c"
| "enc_journal_payload (JR_RebuttalRecorded r) = enc_rebuttal r"
| "enc_journal_payload (JR_ReviewStateChanged c) = enc_review_state_change c"
| "enc_journal_payload (JR_DecisionCommitted d) = enc_decision d"
| "enc_journal_payload (JR_AssignmentUpdated a) = enc_critic_assignment a"

definition enc_journal_entry :: "journal_entry \<Rightarrow> writer \<Rightarrow> writer" where
  "enc_journal_entry v = w_seq
    [w_u16 (journal_record_type (je_body v)), enc_journal_payload (je_body v)]"

section \<open>Sticky failure and monotone buffers\<close>

text \<open>
  Every write either appends to the buffer or leaves the writer alone, and a failed writer stays
  failed with its buffer unchanged.
\<close>

definition w_extends :: "writer \<Rightarrow> writer \<Rightarrow> bool" where
  "w_extends w w' \<longleftrightarrow>
    (\<exists>bs. wr_buffer w' = wr_buffer w @ bs) \<and> (\<not> wr_ok w \<longrightarrow> w' = w)"

definition w_step :: "(writer \<Rightarrow> writer) \<Rightarrow> bool" where
  "w_step f \<longleftrightarrow> (\<forall>w. w_extends w (f w))"

named_theorems w_steps \<open>writers that only extend the buffer\<close>

lemma w_extends_refl [simp]: "w_extends w w"
  by (simp add: w_extends_def)

lemma w_extends_trans: "w_extends u v \<Longrightarrow> w_extends v w \<Longrightarrow> w_extends u w"
  by (auto simp: w_extends_def)

lemma w_step_append [w_steps]: "w_step (w_append bs)"
  by (auto simp: w_step_def w_extends_def w_append_def w_require_def w_fail_def Let_def)

lemma w_step_fail [w_steps]: "w_step (w_fail code)"
  by (auto simp: w_step_def w_extends_def w_fail_def)

lemma w_step_prims [w_steps]:
  "w_step (w_u8 a)" "w_step (w_u16 b)" "w_step (w_u32 c)" "w_step (w_u64 d)" "w_step (w_boolean e)"
  "w_step (w_digest g)"
  by (simp_all add: w_u8_def w_u16_def w_u32_def w_u64_def w_boolean_def w_digest_def w_step_append)

lemma w_step_raw [w_steps]: "w_step (w_raw data)"
  using w_step_append [of data] by (auto simp: w_step_def w_raw_def)

lemma w_step_comp: "w_step f \<Longrightarrow> w_step g \<Longrightarrow> w_step (\<lambda>w. g (f w))"
  by (meson w_extends_trans w_step_def)

lemma w_step_if: "w_step f \<Longrightarrow> w_step g \<Longrightarrow> w_step (\<lambda>w. if P w then f w else g w)"
  by (simp add: w_step_def)

lemma w_step_id: "w_step (\<lambda>w. w)"
  by (simp add: w_step_def)

lemma w_step_bytes [w_steps]: "w_step (w_bytes x n)"
proof -
  have "w_bytes x n = (if length x > unat n then w_fail E_ResourceLimitExceeded
      else (\<lambda>w. w_raw x (w_u32 (of_nat (length x)) w)))"
    by (simp add: fun_eq_iff w_bytes_def)
  then show ?thesis
    using w_step_comp [OF w_step_prims(3) w_step_raw] by (simp add: w_step_fail)
qed

lemma w_step_string [w_steps]: "w_step (w_string s n)"
proof -
  have "w_string s n = (if length s > unat n then w_fail E_ResourceLimitExceeded
      else (\<lambda>w. w_raw (string_bytes s) (w_u32 (of_nat (length s)) w)))"
    by (simp add: fun_eq_iff w_string_def)
  then show ?thesis
    using w_step_comp [OF w_step_prims(3) w_step_raw] by (simp add: w_step_fail)
qed

lemma w_step_seq: "\<forall>f \<in> set steps. w_step f \<Longrightarrow> w_step (w_seq steps)"
proof (induction steps rule: rev_induct)
  case Nil
  then show ?case by (simp add: w_seq_def w_step_def)
next
  case (snoc f steps)
  then have "w_step (\<lambda>w. f (w_seq steps w))"
    using w_step_comp [of "w_seq steps" f] by simp
  then show ?case
    by (simp add: w_seq_def w_step_def)
qed

lemma w_step_each: "(\<And>x. w_step (enc x)) \<Longrightarrow> w_step (w_each enc xs)"
proof (induction xs rule: rev_induct)
  case Nil
  then show ?case by (simp add: w_each_def w_step_def)
next
  case (snoc x xs)
  then have "w_step (\<lambda>w. enc x (w_each enc xs w))"
    using w_step_comp [of "w_each enc xs" "enc x"] by simp
  then show ?case
    by (simp add: w_each_def w_step_def)
qed

lemma w_step_item_count [w_steps]: "w_step (write_item_count n m)"
  using w_step_fail w_step_prims(3) by (auto simp: w_step_def write_item_count_def)

end
