(* ===== verification/CF_Content.thy ===== *)
theory CF_Content
  imports CF_Codec
begin

text \<open>
  Canonical content digests (\<open>src/model.cpp\<close>, \<open>digest_domain.hpp\<close>, \<open>policy.cpp\<close>, and the digest
  helpers at the head of \<open>coordinator.cpp\<close>). Each digest hashes a domain tag followed by the fields
  that carry meaning, so two kinds of content never share a pre-image. The hash function is the
  argument \<open>H\<close>.
\<close>

datatype content_digest_domain =
    CD_Target | CD_Evidence | CD_Finding | CD_Policy | CD_Explanation | CD_Decision | CD_State
  | CD_JournalRecord

fun content_digest_domain_code :: "content_digest_domain \<Rightarrow> u32" where
  "content_digest_domain_code CD_Target = 0x54415247"
| "content_digest_domain_code CD_Evidence = 0x45564944"
| "content_digest_domain_code CD_Finding = 0x46494E44"
| "content_digest_domain_code CD_Policy = 0x504F4C43"
| "content_digest_domain_code CD_Explanation = 0x4558504C"
| "content_digest_domain_code CD_Decision = 0x44454349"
| "content_digest_domain_code CD_State = 0x53544154"
| "content_digest_domain_code CD_JournalRecord = 0x4A524E4C"

definition hash_writes :: "hash_fun \<Rightarrow> (writer \<Rightarrow> writer) list \<Rightarrow> digest" where
  "hash_writes H steps = H (wr_buffer (w_seq steps empty_writer))"

definition compute_target_content_digest :: "hash_fun \<Rightarrow> target_record \<Rightarrow> digest" where
  "compute_target_content_digest H t = hash_writes H
    [w_u32 (content_digest_domain_code CD_Target),
     w_u32 (target_class_code (t_target_class t)),
     w_string (t_schema_name t) kHardMaxMetadataBytes,
     w_bytes (t_payload t) kHardMaxPayloadBytes]"

definition compute_evidence_content_digest :: "hash_fun \<Rightarrow> evidence_record \<Rightarrow> digest" where
  "compute_evidence_content_digest H e = hash_writes H
    [w_u32 (content_digest_domain_code CD_Evidence),
     w_u32 (evidence_source_type_code (e_source_type e)),
     w_u32 (evidence_provenance_code (e_provenance e)),
     w_u32 (evidence_integrity_code (e_integrity e)),
     w_string (e_reference e) kHardMaxMetadataBytes,
     w_bytes (e_payload e) kHardMaxPayloadBytes]"

definition compute_finding_digest :: "hash_fun \<Rightarrow> finding \<Rightarrow> digest" where
  "compute_finding_digest H f = hash_writes H
    [w_u32 (content_digest_domain_code CD_Finding),
     w_u64 (f_critic f),
     w_u64 (f_critic_generation f),
     w_u64 (f_assignment f),
     w_u64 (f_review f),
     w_u64 (f_review_generation f),
     w_u64 (f_target f),
     w_u64 (f_target_generation f),
     w_u32 (finding_category_code (f_category f)),
     w_u32 (severity_code (f_severity f)),
     w_u32 (finding_outcome_code (f_outcome f)),
     w_u32 (of_nat (length (f_evidence f))),
     w_each w_u64 (f_evidence f),
     w_string (f_explanation f) kHardMaxPayloadBytes,
     w_u64 (f_attempt f)]"

definition compute_policy_digest :: "hash_fun \<Rightarrow> review_spec \<Rightarrow> digest" where
  "compute_policy_digest H spec = hash_writes H
    [w_u32 (content_digest_domain_code CD_Policy), enc_review_spec spec]"

definition compute_evidence_basis_digest ::
  "hash_fun \<Rightarrow> (finding_id, finding) omap \<Rightarrow> (evidence_id, evidence_record) omap \<Rightarrow> digest" where
  "compute_evidence_basis_digest H findings evidences = hash_writes H
    [w_u32 (content_digest_domain_code CD_State),
     w_u32 (of_nat (length findings)),
     w_each (\<lambda>(k, f). w_seq [w_u64 k, w_u32 (finding_state_code (f_state f)), w_digest (f_finding_digest f)])
       findings,
     w_u32 (of_nat (length evidences)),
     w_each (\<lambda>(k, e). w_seq
        [w_u64 k, w_boolean (e_current e), w_boolean (e_superseded e),
         w_u32 (evidence_integrity_code (e_integrity e)),
         w_u32 (evidence_provenance_code (e_provenance e)),
         w_digest (e_content_digest e)])
       evidences]"

definition compute_decision_digest :: "hash_fun \<Rightarrow> decision \<Rightarrow> digest" where
  "compute_decision_digest H d = hash_writes H
    [w_u32 (content_digest_domain_code CD_Decision),
     w_u64 (d_review d),
     w_u64 (d_review_generation d),
     w_u64 (d_target d),
     w_u64 (d_target_generation d),
     w_u32 (review_disposition_code (d_disposition d)),
     w_digest (d_policy_digest d),
     w_digest (d_evidence_basis_digest d)]"

section \<open>What a digest depends on\<close>

text \<open>
  The digest of a finding ignores its confidence, provenance label, lifecycle state, identity and
  creation order; the digest of a decision ignores the process that computed it.
\<close>

lemma finding_digest_frame:
  "compute_finding_digest H (f\<lparr> f_confidence := c \<rparr>) = compute_finding_digest H f"
  "compute_finding_digest H (f\<lparr> f_provenance := p \<rparr>) = compute_finding_digest H f"
  "compute_finding_digest H (f\<lparr> f_state := s \<rparr>) = compute_finding_digest H f"
  "compute_finding_digest H (f\<lparr> f_id := i \<rparr>) = compute_finding_digest H f"
  "compute_finding_digest H (f\<lparr> f_creation_order := n \<rparr>) = compute_finding_digest H f"
  by (simp_all add: compute_finding_digest_def)

lemma decision_digest_frame:
  "compute_decision_digest H (d\<lparr> d_epoch := ep \<rparr>) = compute_decision_digest H d"
  "compute_decision_digest H (d\<lparr> d_committed_order := n \<rparr>) = compute_decision_digest H d"
  "compute_decision_digest H (d\<lparr> d_id := i \<rparr>) = compute_decision_digest H d"
  "compute_decision_digest H (d\<lparr> d_decision_digest := x \<rparr>) = compute_decision_digest H d"
  by (simp_all add: compute_decision_digest_def)

end
