(* ===== verification/CF_Journal.thy ===== *)
theory CF_Journal
  imports CF_Content CF_Limits
begin

text \<open>
  The durable journal (\<open>PersistentJournal\<close> of \<open>persistence.hpp\<close> and \<open>src/persistence.cpp\<close>): the file
  layout \<open>header | record* | trailer\<close>, the append that overwrites the trailer by a record and a new
  trailer, and the sticky failed state.

  The operating system is the argument \<open>env\<close>: for the append with a given sequence number it says
  whether the seek, the writes and the flush succeed, and how many bytes reached the file when they
  did not. The byte image \<open>jn_disk\<close> is the content of the open file.

  The contract the coordinator relies on is the locale \<open>append_log\<close>; \<open>jl\<close> interprets it on
  \<open>journal_append\<close>.
\<close>

section \<open>Environment and state\<close>

datatype append_io = IO_Ok | IO_SeekFailed | IO_WriteFailed nat

record env =
  env_hash :: hash_fun
  env_io :: "u64 \<Rightarrow> append_io"

record journal =
  jn_path :: string
  jn_open :: bool
  jn_disk :: bytes
  jn_entries :: "journal_entry list"
  jn_next_sequence :: u64
  jn_valid_end :: u64
  jn_running_crc :: u32
  jn_limits :: runtime_limits
  jn_failed :: bool

definition kJournalMagic :: bytes where
  "kJournalMagic = string_bytes ''CFABJRNL''"

definition kTrailerMagic :: bytes where
  "kTrailerMagic = string_bytes ''CFABEND!''"

definition kJournalFormatVersion :: u32 where
  "kJournalFormatVersion = 1"

definition kHardMaxJournalRecordBytes :: u32 where
  "kHardMaxJournalRecordBytes = 8 * 1024 * 1024"

definition kHeaderBytes :: nat where "kHeaderBytes = 16"
definition kTrailerBytes :: nat where "kTrailerBytes = 24"
definition kRecordHeaderBytes :: nat where "kRecordHeaderBytes = 20"

section \<open>Layout\<close>

definition journal_header :: bytes where
  "journal_header = kJournalMagic @ be32 kJournalFormatVersion @ be32 0"

definition journal_trailer :: "u64 \<Rightarrow> u32 \<Rightarrow> bytes" where
  "journal_trailer count crc = kTrailerMagic @ be64 count @ be32 crc @ be32 0"

definition payload_writer :: "journal_entry \<Rightarrow> writer" where
  "payload_writer e = enc_journal_entry e empty_writer"

definition journal_record :: "journal_entry \<Rightarrow> bytes" where
  "journal_record e =
    (let payload = wr_buffer (payload_writer e)
     in be16 (journal_record_type (je_body e)) @ be16 0 @ be32 (of_nat (length payload))
        @ be64 (je_sequence e) @ be32 (crc32 payload) @ payload)"

definition fresh_journal_file :: bytes where
  "fresh_journal_file = journal_header @ journal_trailer 0 (crc32 journal_header)"

definition write_at :: "nat \<Rightarrow> bytes \<Rightarrow> bytes \<Rightarrow> bytes" where
  "write_at off data disk = take off disk @ data @ drop (off + length data) disk"

section \<open>Operations\<close>

definition open_in_memory :: "runtime_limits \<Rightarrow> journal" where
  "open_in_memory limits =
    \<lparr> jn_path = [], jn_open = False, jn_disk = [], jn_entries = [], jn_next_sequence = 1,
      jn_valid_end = 0, jn_running_crc = 0, jn_limits = clamp_to_hard_ceiling limits,
      jn_failed = False \<rparr>"

definition stamp_entry :: "journal \<Rightarrow> journal_entry \<Rightarrow> journal_entry" where
  "stamp_entry j e = e\<lparr> je_sequence := jn_next_sequence j \<rparr>"

text \<open>The final bookkeeping of a successful append.\<close>

definition journal_advance :: "journal \<Rightarrow> journal_entry \<Rightarrow> bytes \<Rightarrow> journal" where
  "journal_advance j stored rec =
    j\<lparr> jn_valid_end := jn_valid_end j + of_nat (length rec),
       jn_running_crc := crc32_append (jn_running_crc j) rec,
       jn_next_sequence := jn_next_sequence j + 1,
       jn_entries := jn_entries j @ [stored] \<rparr>"

definition journal_append :: "env \<Rightarrow> journal \<Rightarrow> journal_entry \<Rightarrow> journal \<times> status" where
  "journal_append env j entry =
    (if jn_failed j then (j, Inl E_PersistenceUnavailable)
     else if length (jn_entries j) \<ge> unat (max_persisted_records (jn_limits j))
       then (j, Inl E_ResourceLimitExceeded)
     else
       (let stored = stamp_entry j entry; pw = payload_writer stored in
        if \<not> wr_ok pw then (j, w_status pw)
        else
          (let rec = journal_record stored;
               trailer = journal_trailer (of_nat (length (jn_entries j)) + 1)
                 (crc32_append (jn_running_crc j) rec);
               off = unat (jn_valid_end j)
           in if \<not> jn_open j then (journal_advance j stored rec, success)
              else case env_io env (je_sequence stored) of
                IO_SeekFailed \<Rightarrow> (j\<lparr> jn_failed := True \<rparr>, Inl E_PersistenceIoError)
              | IO_WriteFailed n \<Rightarrow>
                  (j\<lparr> jn_failed := True, jn_disk := write_at off (take n (rec @ trailer)) (jn_disk j) \<rparr>,
                   Inl E_PersistenceIoError)
              | IO_Ok \<Rightarrow>
                  (journal_advance (j\<lparr> jn_disk := write_at off (rec @ trailer) (jn_disk j) \<rparr>) stored rec,
                   success))))"

definition journal_close :: "journal \<Rightarrow> journal" where
  "journal_close j = j\<lparr> jn_open := False \<rparr>"

section \<open>The contract of an append-only log\<close>

text \<open>Appending a batch stops at the first failure.\<close>

fun append_all :: "('j \<Rightarrow> 'e \<Rightarrow> 'j \<times> status) \<Rightarrow> 'j \<Rightarrow> 'e list \<Rightarrow> 'j \<times> status" where
  "append_all app j [] = (j, success)"
| "append_all app j (e # es) =
     (case app j e of (j1, Inl err) \<Rightarrow> (j1, Inl err) | (j1, Inr _) \<Rightarrow> append_all app j1 es)"

locale append_log =
  fixes app :: "'j \<Rightarrow> 'e \<Rightarrow> 'j \<times> status"
    and entries :: "'j \<Rightarrow> 'e list"
    and sequence :: "'j \<Rightarrow> u64"
    and stamp :: "u64 \<Rightarrow> 'e \<Rightarrow> 'e"
  assumes app_ok: "app j e = (j', Inr u) \<Longrightarrow>
      entries j' = entries j @ [stamp (sequence j) e] \<and> sequence j' = sequence j + 1"
    and app_error: "app j e = (j', Inl err) \<Longrightarrow> entries j' = entries j \<and> sequence j' = sequence j"
begin

fun stamp_all :: "u64 \<Rightarrow> 'e list \<Rightarrow> 'e list" where
  "stamp_all n [] = []"
| "stamp_all n (e # es) = stamp n e # stamp_all (n + 1) es"

lemma append_all_ok:
  "append_all app j es = (j', Inr u) \<Longrightarrow>
     entries j' = entries j @ stamp_all (sequence j) es \<and> sequence j' = sequence j + of_nat (length es)"
proof (induction es arbitrary: j)
  case (Cons e es)
  then obtain j1 where j1: "app j e = (j1, Inr ())" "append_all app j1 es = (j', Inr u)"
    by (auto split: prod.splits sum.splits)
  show ?case
    using Cons.IH [OF j1(2)] app_ok [OF j1(1)] by simp
qed simp

lemma append_all_prefix:
  "append_all app j es = (j', r) \<Longrightarrow>
     \<exists>done. entries j' = entries j @ done \<and> length done \<le> length es"
proof (induction es arbitrary: j)
  case (Cons e es)
  show ?case
  proof (cases "app j e")
    case (Pair j1 r1)
    show ?thesis
    proof (cases r1)
      case (Inl err)
      with Pair Cons.prems app_error [of j e j1 err] show ?thesis
        by simp
    next
      case (Inr v)
      with Pair Cons.prems have rest: "append_all app j1 es = (j', r)"
        by simp
      obtain more where "entries j' = entries j1 @ more" "length more \<le> length es"
        using Cons.IH [OF rest] by blast
      moreover have "entries j1 = entries j @ [stamp (sequence j) e]"
        using app_ok [of j e j1 v] Pair Inr by simp
      ultimately show ?thesis
        by (intro exI [of _ "stamp (sequence j) e # more"]) simp
    qed
  qed
qed simp

end

definition set_sequence :: "u64 \<Rightarrow> journal_entry \<Rightarrow> journal_entry" where
  "set_sequence n e = e\<lparr> je_sequence := n \<rparr>"

lemma w_status_not_ok: "\<not> wr_ok w \<Longrightarrow> w_status w = Inl (wr_code w)"
  by (simp add: w_status_def)

interpretation jl: append_log "journal_append env" jn_entries jn_next_sequence set_sequence
  by unfold_locales
     (auto simp: journal_append_def Let_def journal_advance_def stamp_entry_def set_sequence_def
       w_status_not_ok split: if_splits append_io.splits)

section \<open>A healthy file\<close>

text \<open>
  The image of a durable journal: the header, the records of the entries in order, and the trailer
  that counts and checksums them. The append keeps it; the running checksum is the checksum of the
  bytes before the trailer.
\<close>

definition journal_body_bytes :: "journal_entry list \<Rightarrow> bytes" where
  "journal_body_bytes es = journal_header @ concat (map journal_record es)"

definition journal_image :: "journal_entry list \<Rightarrow> bytes" where
  "journal_image es =
    journal_body_bytes es @ journal_trailer (of_nat (length es)) (crc32 (journal_body_bytes es))"

definition journal_file_ok :: "journal \<Rightarrow> bool" where
  "journal_file_ok j \<longleftrightarrow>
     jn_open j \<and> \<not> jn_failed j
   \<and> jn_disk j = journal_image (jn_entries j)
   \<and> jn_running_crc j = crc32 (journal_body_bytes (jn_entries j))
   \<and> unat (jn_valid_end j) = length (journal_body_bytes (jn_entries j))"

lemma trailer_length [simp]: "length (journal_trailer n crc) = 24"
  by (simp add: journal_trailer_def kTrailerMagic_def string_bytes_def)

lemma header_length [simp]: "length journal_header = 16"
  by (simp add: journal_header_def kJournalMagic_def string_bytes_def)

lemma record_length: "length (journal_record e) = 20 + length (wr_buffer (payload_writer e))"
  by (simp add: journal_record_def Let_def)

lemma body_bytes_snoc: "journal_body_bytes (es @ [e]) = journal_body_bytes es @ journal_record e"
  by (simp add: journal_body_bytes_def)

lemma append_keeps_file:
  assumes ok: "journal_file_ok j"
    and appended: "journal_append env j e = (j', Inr ())"
    and room: "unat (jn_valid_end j) + length (journal_record (stamp_entry j e)) < 2 ^ 64"
  shows "journal_file_ok j' \<and> jn_entries j' = jn_entries j @ [stamp_entry j e]
    \<and> jn_next_sequence j' = jn_next_sequence j + 1"
proof -
  define rec where "rec = journal_record (stamp_entry j e)"
  define trailer where
    "trailer = journal_trailer (of_nat (length (jn_entries j)) + 1) (crc32_append (jn_running_crc j) rec)"
  have j': "j' = journal_advance
      (j\<lparr> jn_disk := write_at (unat (jn_valid_end j)) (rec @ trailer) (jn_disk j) \<rparr>) (stamp_entry j e) rec"
    using ok appended unfolding journal_append_def journal_file_ok_def rec_def trailer_def
    by (auto simp: Let_def w_status_not_ok split: if_splits append_io.splits)
  have crc: "crc32_append (jn_running_crc j) rec = crc32 (journal_body_bytes (jn_entries j @ [stamp_entry j e]))"
    using ok by (simp add: journal_file_ok_def body_bytes_snoc rec_def crc32_continue)
  have "write_at (unat (jn_valid_end j)) (rec @ trailer) (jn_disk j)
      = journal_body_bytes (jn_entries j) @ rec @ trailer"
    using ok by (simp add: write_at_def journal_file_ok_def journal_image_def rec_def record_length trailer_def)
  then have disk: "jn_disk j' = journal_image (jn_entries j @ [stamp_entry j e])"
    by (simp add: j' journal_advance_def journal_image_def crc trailer_def body_bytes_snoc rec_def [symmetric]
        add.commute)
  have "unat (jn_valid_end j + of_nat (length rec)) = unat (jn_valid_end j) + length rec"
    using room by (simp add: unat_word_ariths unat_of_nat rec_def)
  then show ?thesis
    using ok disk crc
    by (simp add: j' journal_advance_def journal_file_ok_def body_bytes_snoc rec_def)
qed

text \<open>
  Appending to a healthy journal file leaves a healthy journal file holding the old entries
  followed by the new one under the next sequence number: the record overwrites the old trailer, and
  the new trailer carries the right count and the checksum of everything before it.
\<close>

theorem journal_append_keeps_image:
  assumes ok: "journal_file_ok j"
    and appended: "journal_append env j e = (j', Inr ())"
    and room: "unat (jn_valid_end j) + length (journal_record (stamp_entry j e)) < 2 ^ 64"
  shows "journal_file_ok j' \<and> jn_entries j' = jn_entries j @ [stamp_entry j e]
    \<and> jn_next_sequence j' = jn_next_sequence j + 1"
  by (rule append_keeps_file [OF assms])

definition sample_journal :: journal where
  "sample_journal = (open_in_memory default_limits)
    \<lparr> jn_open := True, jn_disk := fresh_journal_file, jn_running_crc := crc32 journal_header,
      jn_valid_end := 16 \<rparr>"

definition sample_env :: env where
  "sample_env = \<lparr> env_hash = sha256, env_io = (\<lambda>_. IO_Ok) \<rparr>"

definition sample_epoch_entry :: journal_entry where
  "sample_epoch_entry = \<lparr> je_sequence = 0, je_body = JR_EpochEstablished 1 \<rparr>"

lemma sample_journal_ok: "journal_file_ok sample_journal"
  by (simp add: journal_file_ok_def sample_journal_def open_in_memory_def fresh_journal_file_def
      journal_image_def journal_body_bytes_def)

lemma sample_append:
  "journal_append sample_env sample_journal sample_epoch_entry =
     (fst (journal_append sample_env sample_journal sample_epoch_entry), Inr ())"
  "length (journal_record (stamp_entry sample_journal sample_epoch_entry)) < 100"
  by (simp_all add: journal_append_def sample_journal_def sample_env_def open_in_memory_def
      default_limits_def clamp_to_hard_ceiling_def clamp_into_def hard_ceilings stamp_entry_def
      sample_epoch_entry_def payload_writer_def enc_journal_entry_def w_seq_def w_u64_def w_u16_def
      w_append_def w_require_def empty_writer_def be64_def be16_def Let_def record_length)

theorem journal_append_keeps_image_witness:
  "journal_file_ok (fst (journal_append sample_env sample_journal sample_epoch_entry))"
  using journal_append_keeps_image [OF sample_journal_ok sample_append(1)] sample_append(2)
  by (simp add: sample_journal_def)

end
