(* ===== verification/CF_Reader.thy ===== *)
theory CF_Reader
  imports CF_Codec CF_Limits "HOL-Library.State_Monad"
begin

text \<open>
  The checked big-endian reader (\<open>ByteReader\<close> of \<open>serialization.hpp\<close>) as operations of a state monad.

  A reader holds the bytes from its cursor to the end of the input and a sticky error: after the
  first fault every further read yields a zero value and moves nothing. A decoder of the sources
  returns a \<open>Status\<close> and fills an output argument; here it returns either the error or the value.

  \<open>codec e d x\<close> relates an encoder and a decoder: whatever \<open>e\<close> wrote, \<open>d\<close> reads back as \<open>x\<close> and stops
  exactly behind it. The contract of a record format is the locale \<open>wire_codec\<close>.
\<close>

section \<open>ByteReader\<close>

record reader_policy =
  rp_truncated :: error_code
  rp_oversized :: error_code
  rp_invalid_enum :: error_code
  rp_malformed :: error_code
  rp_overflow :: error_code

definition wire_policy :: reader_policy where
  "wire_policy =
    \<lparr> rp_truncated = E_ProtocolTruncated, rp_oversized = E_ProtocolOversized,
      rp_invalid_enum = E_ProtocolInvalidEnum, rp_malformed = E_ProtocolError,
      rp_overflow = E_ArithmeticOverflow \<rparr>"

record reader =
  rd_rest :: bytes
  rd_ok :: bool
  rd_code :: error_code
  rd_policy :: reader_policy

definition new_reader :: "reader_policy \<Rightarrow> bytes \<Rightarrow> reader" where
  "new_reader policy data =
    \<lparr> rd_rest = data, rd_ok = True, rd_code = E_Ok, rd_policy = policy \<rparr>"

definition at_end :: "reader \<Rightarrow> bool" where
  "at_end r \<longleftrightarrow> rd_rest r = []"

definition rd_status :: "reader \<Rightarrow> status" where
  "rd_status r = (if rd_ok r then success else Inl (rd_code r))"

definition set_fault :: "error_code \<Rightarrow> reader \<Rightarrow> reader" where
  "set_fault code r = (if rd_ok r then r\<lparr> rd_ok := False, rd_code := code \<rparr> else r)"

type_synonym 'a decoder = "(reader, 'a) state"

definition rd_need :: "nat \<Rightarrow> bool decoder" where
  "rd_need count = State (\<lambda>r.
    if \<not> rd_ok r then (False, r)
    else if count > length (rd_rest r) then (False, set_fault (rp_truncated (rd_policy r)) r)
    else (True, r))"

definition rd_advance :: "nat \<Rightarrow> bytes decoder" where
  "rd_advance count = State (\<lambda>r. (take count (rd_rest r), r\<lparr> rd_rest := drop count (rd_rest r) \<rparr>))"

text \<open>The fixed-width reads share their shape: zero unless the field is complete.\<close>

definition rd_field :: "nat \<Rightarrow> 'a \<Rightarrow> (bytes \<Rightarrow> 'a) \<Rightarrow> 'a decoder" where
  "rd_field count zero value = do {
     there \<leftarrow> rd_need count;
     if there then do { bs \<leftarrow> rd_advance count; State_Monad.return (value bs) }
     else State_Monad.return zero
   }"

definition be_value :: "bytes \<Rightarrow> 'w::len word" where
  "be_value bs = foldl (\<lambda>value b. push_bit 8 value OR ucast b) 0 bs"

definition r_u8 :: "u8 decoder" where
  "r_u8 = rd_field 1 0 hd"

definition r_u16 :: "u16 decoder" where
  "r_u16 = rd_field 2 0 be_value"

definition r_u32 :: "u32 decoder" where
  "r_u32 = rd_field 4 0 be_value"

definition r_u64 :: "u64 decoder" where
  "r_u64 = rd_field 8 0 be_value"

definition r_digest :: "digest decoder" where
  "r_digest = rd_field 32 zero_digest (\<lambda>bs. bs)"

definition rd_is_ok :: "bool decoder" where
  "rd_is_ok = State (\<lambda>r. (rd_ok r, r))"

definition rd_raise :: "(reader_policy \<Rightarrow> error_code) \<Rightarrow> unit decoder" where
  "rd_raise code = State (\<lambda>r. ((), set_fault (code (rd_policy r)) r))"

definition r_boolean :: "bool decoder" where
  "r_boolean = do {
     raw \<leftarrow> r_u8;
     ok \<leftarrow> rd_is_ok;
     if \<not> ok then State_Monad.return False
     else if raw > 1 then do { _ \<leftarrow> rd_raise rp_malformed; State_Monad.return False }
     else State_Monad.return (raw = 1)
   }"

definition r_bytes :: "u32 \<Rightarrow> bytes decoder" where
  "r_bytes max_bytes = do {
     len \<leftarrow> r_u32;
     ok \<leftarrow> rd_is_ok;
     if \<not> ok then State_Monad.return []
     else if len > max_bytes then do { _ \<leftarrow> rd_raise rp_oversized; State_Monad.return [] }
     else rd_field (unat len) [] (\<lambda>bs. bs)
   }"

definition r_string :: "u32 \<Rightarrow> string decoder" where
  "r_string max_bytes = do {
     len \<leftarrow> r_u32;
     ok \<leftarrow> rd_is_ok;
     if \<not> ok then State_Monad.return []
     else if len > max_bytes then do { _ \<leftarrow> rd_raise rp_oversized; State_Monad.return [] }
     else rd_field (unat len) [] (map (\<lambda>b. char_of (unat b)))
   }"

definition rd_skip :: "nat \<Rightarrow> bool decoder" where
  "rd_skip count = do {
     there \<leftarrow> rd_need count;
     if there then do { _ \<leftarrow> rd_advance count; State_Monad.return True }
     else State_Monad.return False
   }"

text \<open>
  \<open>static_cast\<close> of a rejected code has no enumerator; \<open>junk\<close> stands for it. No caller looks at it,
  because the reader has failed.
\<close>

definition read_enum :: "(u32 \<Rightarrow> bool) \<Rightarrow> (u32 \<Rightarrow> 'a option) \<Rightarrow> 'a \<Rightarrow> 'a decoder" where
  "read_enum validator cast junk = do {
     raw \<leftarrow> r_u32;
     ok \<leftarrow> rd_is_ok;
     _ \<leftarrow> (if ok \<and> \<not> validator raw then rd_raise rp_invalid_enum else State_Monad.return ());
     State_Monad.return (case cast raw of Some v \<Rightarrow> v | None \<Rightarrow> junk)
   }"

section \<open>Statuses, early returns and collections\<close>

definition rd_get_status :: "status decoder" where
  "rd_get_status = State (\<lambda>r. (rd_status r, r))"

definition rd_malformed :: "'a result decoder" where
  "rd_malformed = State (\<lambda>r. (Inl (rp_malformed (rd_policy r)), r))"

text \<open>\<open>if (!status.ok()) return status;\<close>\<close>

definition try_read :: "'a result decoder \<Rightarrow> ('a \<Rightarrow> 'b result decoder) \<Rightarrow> 'b result decoder" where
  "try_read m k = do {
     res \<leftarrow> m;
     (case res of Inl err \<Rightarrow> State_Monad.return (Inl err) | Inr x \<Rightarrow> k x)
   }"

text \<open>\<open>if (!reader.ok()) return reader.status();\<close> and the validity checks at the end of a decoder.\<close>

definition finish_read :: "bool \<Rightarrow> 'a \<Rightarrow> 'a result decoder" where
  "finish_read valid x = try_read rd_get_status (\<lambda>_.
     if valid then State_Monad.return (Inr x) else rd_malformed)"

definition begin_items :: "u32 \<Rightarrow> u32 result decoder" where
  "begin_items max_items = do {
     count \<leftarrow> r_u32;
     ok \<leftarrow> rd_is_ok;
     _ \<leftarrow> (if ok \<and> count > max_items then rd_raise rp_oversized else State_Monad.return ());
     try_read rd_get_status (\<lambda>_. State_Monad.return (Inr count))
   }"

fun r_times :: "nat \<Rightarrow> 'a decoder \<Rightarrow> 'a list decoder" where
  "r_times 0 d = State_Monad.return []"
| "r_times (Suc n) d = do { x \<leftarrow> d; xs \<leftarrow> r_times n d; State_Monad.return (x # xs) }"

definition read_list :: "u32 \<Rightarrow> 'a decoder \<Rightarrow> 'a list result decoder" where
  "read_list max_items d = try_read (begin_items max_items) (\<lambda>count. do {
     xs \<leftarrow> r_times (unat count) d;
     finish_read True xs
   })"

section \<open>Reading back what was written\<close>

lemma low_byte: "(ucast (x AND 255) :: u8) = ucast (x :: 'w::len word)"
proof -
  have "x AND 255 = take_bit 8 x"
    by (simp add: take_bit_eq_mask mask_eq_exp_minus_1)
  then show ?thesis
    by (auto intro: bit_word_eqI simp: bit_simps)
qed

lemma shift_in_byte:
  assumes "m = n + 8"
  shows "push_bit 8 (drop_bit m x) OR ucast (ucast (drop_bit n x AND 255) :: u8) = drop_bit n (x :: 'w::len word)"
  unfolding low_byte assms by (rule bit_word_eqI) (auto simp: bit_simps)

lemma drop_bit_full:
  "drop_bit 16 (a :: u16) = 0" "drop_bit 32 (b :: u32) = 0" "drop_bit 64 (c :: u64) = 0"
  by (rule bit_word_eqI, simp add: bit_simps)+

lemma shift_steps:
  "push_bit 8 (drop_bit 64 x) OR ucast (ucast (drop_bit 56 x AND 255) :: u8) = drop_bit 56 (x :: 'w::len word)"
  "push_bit 8 (drop_bit 56 x) OR ucast (ucast (drop_bit 48 x AND 255) :: u8) = drop_bit 48 (x :: 'w::len word)"
  "push_bit 8 (drop_bit 48 x) OR ucast (ucast (drop_bit 40 x AND 255) :: u8) = drop_bit 40 (x :: 'w::len word)"
  "push_bit 8 (drop_bit 40 x) OR ucast (ucast (drop_bit 32 x AND 255) :: u8) = drop_bit 32 (x :: 'w::len word)"
  "push_bit 8 (drop_bit 32 x) OR ucast (ucast (drop_bit 24 x AND 255) :: u8) = drop_bit 24 (x :: 'w::len word)"
  "push_bit 8 (drop_bit 24 x) OR ucast (ucast (drop_bit 16 x AND 255) :: u8) = drop_bit 16 (x :: 'w::len word)"
  "push_bit 8 (drop_bit 16 x) OR ucast (ucast (drop_bit 8 x AND 255) :: u8) = drop_bit 8 (x :: 'w::len word)"
  "push_bit 8 (drop_bit 8 x) OR ucast (ucast (drop_bit 0 x AND 255) :: u8) = drop_bit 0 (x :: 'w::len word)"
  by (rule shift_in_byte, simp)+

lemma shift_last: "push_bit 8 (drop_bit 8 x) OR ucast (ucast (x AND 255) :: u8) = (x :: 'w::len word)"
  using shift_steps(8) [of x] by simp

lemmas be_steps = foldl_Cons foldl_Nil list.map drop_bit_0 id_apply shift_steps shift_last

lemma be_value_from:
  "be_value bs = foldl (\<lambda>value b. push_bit 8 value OR ucast b) (drop_bit 16 (v :: u16)) bs"
  "be_value bs = foldl (\<lambda>value b. push_bit 8 value OR ucast b) (drop_bit 32 (w :: u32)) bs"
  "be_value bs = foldl (\<lambda>value b. push_bit 8 value OR ucast b) (drop_bit 64 (x :: u64)) bs"
  by (simp_all only: be_value_def drop_bit_full)

lemma be_value_be [simp]: "be_value (be16 v) = v" "be_value (be32 w) = w" "be_value (be64 x) = x"
  unfolding be_value_from(1) [of "be16 v" v] be_value_from(2) [of "be32 w" w] be_value_from(3) [of "be64 x" x]
  by (simp_all only: be16_def be32_def be64_def be_steps)

definition reads :: "'a decoder \<Rightarrow> bytes \<Rightarrow> 'a \<Rightarrow> bool" where
  "reads d bs x \<longleftrightarrow> (\<forall>r rest. rd_ok r \<longrightarrow> rd_rest r = bs @ rest \<longrightarrow>
     run_state d r = (x, r\<lparr> rd_rest := rest \<rparr>))"

definition codec :: "(writer \<Rightarrow> writer) \<Rightarrow> 'a decoder \<Rightarrow> 'a \<Rightarrow> bool" where
  "codec e d x \<longleftrightarrow> w_step e \<and> (\<forall>w. wr_ok w \<longrightarrow> wr_ok (e w) \<longrightarrow>
     (\<exists>bs. wr_buffer (e w) = wr_buffer w @ bs \<and> reads d bs x))"

named_theorems codecs \<open>matching encoders and decoders\<close>

lemma codecD: "codec e d x \<Longrightarrow> wr_ok w \<Longrightarrow> wr_ok (e w) \<Longrightarrow>
    \<exists>bs. wr_buffer (e w) = wr_buffer w @ bs \<and> reads d bs x"
  by (simp add: codec_def)

lemma codec_step: "codec e d x \<Longrightarrow> w_step e"
  by (simp add: codec_def)

lemma w_step_ok: "w_step e \<Longrightarrow> wr_ok (e w) \<Longrightarrow> wr_ok w"
  unfolding w_step_def w_extends_def by metis

lemma readsD: "reads d bs x \<Longrightarrow> rd_ok r \<Longrightarrow> rd_rest r = bs @ rest \<Longrightarrow>
    run_state d r = (x, r\<lparr> rd_rest := rest \<rparr>)"
  by (simp add: reads_def)

lemma reads_return: "reads (State_Monad.return x) [] x"
  by (simp add: reads_def)

lemma reads_bind:
  assumes d: "reads d bs x" and k: "reads (k x) cs y"
  shows "reads (State_Monad.bind d k) (bs @ cs) y"
  unfolding reads_def
proof (intro allI impI)
  fix r :: reader and rest
  assume r: "rd_ok r" "rd_rest r = (bs @ cs) @ rest"
  have "run_state d r = (x, r\<lparr> rd_rest := cs @ rest \<rparr>)"
    using readsD [OF d r(1), of "cs @ rest"] r(2) by simp
  moreover have "run_state (k x) (r\<lparr> rd_rest := cs @ rest \<rparr>) = (y, r\<lparr> rd_rest := rest \<rparr>)"
    using readsD [OF k, of "r\<lparr> rd_rest := cs @ rest \<rparr>" rest] r(1) by simp
  ultimately show "run_state (State_Monad.bind d k) r = (y, r\<lparr> rd_rest := rest \<rparr>)"
    by simp
qed

lemma reads_field: "length bs = n \<Longrightarrow> reads (rd_field n zero value) bs (value bs)"
  by (simp add: reads_def rd_field_def rd_need_def rd_advance_def)

lemma reads_is_ok: "reads rd_is_ok [] True"
  by (simp add: reads_def rd_is_ok_def)

lemma reads_status: "reads rd_get_status [] (Inr ())"
  by (simp add: reads_def rd_get_status_def rd_status_def)

lemma reads_then:
  assumes "reads d [] x" and "reads (k x) cs y"
  shows "reads (State_Monad.bind d k) cs y"
  using reads_bind [where d = d and k = k, OF assms] by simp

lemma reads_after_ok:
  assumes "reads d bs x" and "reads (k x True) cs y"
  shows "reads (State_Monad.bind d (\<lambda>v. State_Monad.bind rd_is_ok (k v))) (bs @ cs) y"
  by (rule reads_bind [where k = "\<lambda>v. State_Monad.bind rd_is_ok (k v)", OF assms(1)])
     (rule reads_then [where k = "k x", OF reads_is_ok assms(2)])

section \<open>Composition\<close>

lemma codec_bind:
  assumes e: "codec e d x" and f: "codec f (k x) y"
  shows "codec (\<lambda>w. f (e w)) (State_Monad.bind d k) y"
  unfolding codec_def
proof (intro conjI allI impI)
  show "w_step (\<lambda>w. f (e w))"
    by (rule w_step_comp [OF codec_step [OF e] codec_step [OF f]])
  fix w assume w: "wr_ok w" "wr_ok (f (e w))"
  have mid: "wr_ok (e w)"
    by (rule w_step_ok [OF codec_step [OF f] w(2)])
  obtain bs where bs: "wr_buffer (e w) = wr_buffer w @ bs" "reads d bs x"
    using codecD [OF e w(1) mid] by blast
  obtain cs where cs: "wr_buffer (f (e w)) = wr_buffer (e w) @ cs" "reads (k x) cs y"
    using codecD [OF f mid w(2)] by blast
  show "\<exists>bs. wr_buffer (f (e w)) = wr_buffer w @ bs \<and> reads (State_Monad.bind d k) bs y"
    using bs(1) cs(1) reads_bind [where k = k, OF bs(2) cs(2)] by auto
qed

lemma w_seq_Nil: "w_seq [] = (\<lambda>w. w)"
  by (simp add: fun_eq_iff w_seq_def)

lemma w_seq_Cons: "w_seq (e # es) = (\<lambda>w. w_seq es (e w))"
  by (simp add: fun_eq_iff w_seq_def)

lemma codec_idle: "reads d [] x \<Longrightarrow> codec (w_seq []) d x"
  by (auto simp: codec_def w_seq_Nil w_step_id)

lemma codec_return: "codec (w_seq []) (State_Monad.return x) x"
  by (rule codec_idle [OF reads_return])

lemma codec_Cons:
  "codec e d x \<Longrightarrow> codec (w_seq es) (k x) y \<Longrightarrow> codec (w_seq (e # es)) (State_Monad.bind d k) y"
  unfolding w_seq_Cons by (rule codec_bind)

lemma reads_finish: "valid \<Longrightarrow> reads (finish_read valid x) [] (Inr x)"
  unfolding finish_read_def try_read_def by (rule reads_then [OF reads_status]) (simp add: reads_return)

lemma codec_finish: "valid \<Longrightarrow> codec (w_seq []) (finish_read valid x) (Inr x)"
  by (rule codec_idle [OF reads_finish])

lemma codec_try:
  assumes "codec e d (Inr x)" and "codec (w_seq es) (k x) y"
  shows "codec (w_seq (e # es)) (try_read d k) y"
  unfolding try_read_def using assms by (intro codec_Cons) auto

lemma codec_fail: "codec (w_fail code) d x"
  unfolding codec_def by (auto simp: w_step_fail w_fail_def)

section \<open>Primitive fields\<close>

lemma w_append_ok: "wr_ok (w_append bs w) \<Longrightarrow> wr_buffer (w_append bs w) = wr_buffer w @ bs"
  by (auto simp: w_append_def w_require_def w_fail_def Let_def split: if_splits)

lemma codec_append: "reads d bs x \<Longrightarrow> codec (w_append bs) d x"
  using w_append_ok by (auto simp: codec_def w_step_append)

lemma reads_ints: "reads r_u16 (be16 x) x" "reads r_u32 (be32 y) y" "reads r_u64 (be64 z) z"
  unfolding r_u16_def r_u32_def r_u64_def
  by (metis reads_field be_lengths be_value_be)+

lemma codec_ints [codecs]: "codec (w_u16 x) r_u16 x" "codec (w_u32 y) r_u32 y" "codec (w_u64 z) r_u64 z"
  unfolding w_u16_def w_u32_def w_u64_def by (simp_all add: codec_append reads_ints)

lemma codec_digest [codecs]: "length v = 32 \<Longrightarrow> codec (w_digest v) r_digest v"
  unfolding w_digest_def r_digest_def by (intro codec_append) (rule reads_field)

lemma reads_u8: "reads r_u8 [b] b"
  unfolding r_u8_def using reads_field [of "[b]" 1 0 hd] by simp

lemma codec_boolean [codecs]: "codec (w_boolean v) r_boolean v"
proof -
  have "reads r_boolean ([if v then 1 else 0] @ []) v"
    unfolding r_boolean_def by (rule reads_after_ok [OF reads_u8]) (simp add: reads_return)
  then show ?thesis
    unfolding w_boolean_def w_u8_def by (intro codec_append) simp
qed

text \<open>Enumerations, bounded strings and byte fields.\<close>

lemma codec_enum:
  assumes "validator (code v)" and "cast (code v) = Some v"
  shows "codec (w_u32 (code v)) (read_enum validator cast junk) v"
proof -
  have "reads (read_enum validator cast junk) (be32 (code v) @ []) v"
    unfolding read_enum_def
    by (rule reads_after_ok [OF reads_ints(2)]) (simp add: assms reads_return)
  then show ?thesis
    unfolding w_u32_def by (intro codec_append) simp
qed

context wire_enum begin

lemma codec_field:
  "codec (w_u32 (code v)) (read_enum (enum_valid table) (enum_of_code code all) junk) v"
  by (rule codec_enum) (auto simp: valid_iff)

end

lemma reads_payload:
  assumes "length bs \<le> unat m" and "f bs = x"
  shows "reads (do { len \<leftarrow> r_u32; ok \<leftarrow> rd_is_ok;
      if \<not> ok then State_Monad.return z1
      else if len > m then do { _ \<leftarrow> rd_raise rp_oversized; State_Monad.return z2 }
      else rd_field (unat len) z3 f }) (be32 (of_nat (length bs)) @ bs) x"
proof -
  have len: "unat (of_nat (length bs) :: u32) = length bs"
    using assms(1) unat_less_4294967296 [of m] by (simp add: unat_of_nat)
  then have "\<not> (of_nat (length bs) :: u32) > m"
    using assms(1) by (simp add: word_less_nat_alt)
  then show ?thesis
    using reads_field [of bs "unat (of_nat (length bs) :: u32)" z3 f] len assms(2)
    by (intro reads_after_ok [OF reads_ints(2)]) simp
qed

lemma codec_payload:
  assumes "length bs \<le> unat m \<Longrightarrow> reads d (be32 (of_nat (length bs)) @ bs) x"
    and "length bs \<le> unat n" and "n = m \<or> length bs \<le> unat m"
  shows "codec (\<lambda>w. w_raw bs (w_u32 (of_nat (length bs)) w)) d x"
  unfolding codec_def
proof (intro conjI allI impI)
  show step: "w_step (\<lambda>w. w_raw bs (w_u32 (of_nat (length bs)) w))"
    by (rule w_step_comp [OF w_step_prims(3) w_step_raw])
  fix w assume w: "wr_ok w" "wr_ok (w_raw bs (w_u32 (of_nat (length bs)) w))"
  have mid: "wr_ok (w_u32 (of_nat (length bs)) w)"
    by (rule w_step_ok [OF w_step_raw w(2)])
  have "wr_buffer (w_raw bs (w_u32 (of_nat (length bs)) w)) = wr_buffer w @ be32 (of_nat (length bs)) @ bs"
    using w(2) w_append_ok [OF mid [unfolded w_u32_def]] w_append_ok [of bs]
    by (auto simp: w_raw_def w_u32_def)
  then show "\<exists>cs. wr_buffer (w_raw bs (w_u32 (of_nat (length bs)) w)) = wr_buffer w @ cs \<and> reads d cs x"
    using assms by blast
qed

lemma codec_bytes [codecs]:
  assumes "length v \<le> unat m"
  shows "codec (w_bytes v n) (r_bytes m) v"
proof (cases "length v \<le> unat n")
  case True
  have "codec (\<lambda>w. w_raw v (w_u32 (of_nat (length v)) w)) (r_bytes m) v"
    unfolding r_bytes_def by (rule codec_payload [OF reads_payload True]) (use assms in auto)
  with True show ?thesis
    by (simp add: w_bytes_def [abs_def])
next
  case False
  then show ?thesis
    by (simp add: w_bytes_def [abs_def] codec_fail)
qed

lemma string_bytes_length [simp]: "length (string_bytes s) = length s"
  by (simp add: string_bytes_def)

lemma of_string_bytes: "map (\<lambda>b. char_of (unat b)) (string_bytes s) = s"
proof -
  have "char_of (unat (of_char c :: u8)) = c" for c
  proof -
    have small: "(of_char c :: nat) < 256"
      using nat_of_char_less_256 .
    have "(of_char c :: u8) = of_nat (of_char c)"
      by (rule of_nat_of_char [symmetric])
    then have "unat (of_char c :: u8) = of_char c"
      using small by (simp only: unat_of_nat) simp
    then show ?thesis
      by simp
  qed
  then show ?thesis
    by (simp add: string_bytes_def comp_def)
qed

lemma codec_string [codecs]:
  assumes "length v \<le> unat m"
  shows "codec (w_string v n) (r_string m) v"
proof (cases "length v \<le> unat n")
  case True
  have "codec (\<lambda>w. w_raw (string_bytes v) (w_u32 (of_nat (length (string_bytes v))) w)) (r_string m) v"
    unfolding r_string_def
    by (rule codec_payload [OF reads_payload]) (use assms True in \<open>auto simp: of_string_bytes\<close>)
  with True show ?thesis
    by (simp add: w_string_def [abs_def])
next
  case False
  then show ?thesis
    by (simp add: w_string_def [abs_def] codec_fail)
qed

section \<open>Collections\<close>

lemma codec_item_count:
  assumes "n \<le> unat m'"
  shows "codec (write_item_count n m) (begin_items m') (Inr (of_nat n))"
proof (cases "n \<le> unat m")
  case True
  have n: "unat (of_nat n :: u32) = n"
    using assms unat_less_4294967296 [of m'] by (simp add: unat_of_nat)
  then have "\<not> (of_nat n :: u32) > m'"
    using assms by (simp add: word_less_nat_alt)
  then have "reads (begin_items m') (be32 (of_nat n) @ []) (Inr (of_nat n))"
    unfolding begin_items_def try_read_def
    by (intro reads_after_ok [OF reads_ints(2)]) (simp add: reads_then [OF reads_status] reads_return)
  then have "codec (w_u32 (of_nat n)) (begin_items m') (Inr (of_nat n))"
    unfolding w_u32_def by (intro codec_append) simp
  moreover have "write_item_count n m w = (if wr_ok w then w_u32 (of_nat n) w else w)" for w
    using True by (simp add: write_item_count_def)
  ultimately show ?thesis
    by (simp add: codec_def w_step_item_count)
next
  case False
  then show ?thesis
    by (auto simp: write_item_count_def [abs_def] codec_fail)
qed

lemma w_each_Cons: "w_each enc (x # xs) = (\<lambda>w. w_each enc xs (enc x w))"
  by (simp add: fun_eq_iff w_each_def)

lemma codec_times:
  assumes "\<And>x. x \<in> set xs \<Longrightarrow> codec (enc x) d x" and "n = length xs"
  shows "codec (w_each enc xs) (r_times n d) xs"
  using assms
proof (induction xs arbitrary: n)
  case Nil
  then show ?case
    using codec_return [of "[]"] by (simp add: w_each_def [abs_def] w_seq_Nil)
next
  case (Cons x xs)
  have "codec (w_each enc xs) (State_Monad.bind (r_times (length xs) d) (\<lambda>xs. State_Monad.return (x # xs))) (x # xs)"
    using codec_bind [of "w_each enc xs" "r_times (length xs) d" xs "w_seq []", OF _ codec_return] Cons
    by (simp add: w_seq_Nil)
  then show ?case
    using Cons.prems unfolding w_each_Cons by (auto intro: codec_bind)
qed

lemma codec_list:
  assumes "\<And>x. x \<in> set xs \<Longrightarrow> codec (enc x) d x" and "length xs \<le> unat m'" and "n = length xs"
  shows "codec (w_seq [write_item_count n m, w_each enc xs]) (read_list m' d) (Inr xs)"
proof -
  have "unat (of_nat (length xs) :: u32) = length xs"
    using assms(2) unat_less_4294967296 [of m'] by (simp add: unat_of_nat)
  then show ?thesis
    unfolding read_list_def assms(3)
    by (intro codec_try [OF codec_item_count] codec_Cons [OF codec_times] codec_finish)
       (use assms in auto)
qed

lemma codec_set:
  assumes "\<And>x. codec (enc x) d x" and "finite S" and "card S \<le> unat m'"
  shows "codec (w_seq [write_item_count (card S) m, w_each enc (sorted_list_of_set S)])
    (read_list m' d) (Inr (sorted_list_of_set S))"
  by (rule codec_list) (use assms in auto)

text \<open>The map insertions of a decoding loop rebuild a map from its own entries.\<close>

definition om_of_list :: "('k::linorder \<times> 'v) list \<Rightarrow> ('k, 'v) omap" where
  "om_of_list xs = foldl (\<lambda>m (k, v). om_put k v m) [] xs"

lemma om_put_append: "\<forall>x \<in> set (map fst m). x < k \<Longrightarrow> om_put k v m = m @ [(k, v)]"
  by (induction k v m rule: om_put.induct) (auto simp: not_less_iff_gr_or_eq)

lemma om_of_own_list: "om_wf m \<Longrightarrow> om_of_list m = m"
proof (induction m rule: rev_induct)
  case Nil
  then show ?case by (simp add: om_of_list_def)
next
  case (snoc p m)
  then have "om_wf m" "\<forall>x \<in> set (map fst m). x < fst p"
    by (auto simp: om_wf_def sorted_wrt_append)
  with snoc show ?case
    by (cases p) (simp add: om_of_list_def om_put_append)
qed

section \<open>The contract of a record format\<close>

text \<open>
  \<open>fits\<close> says which values the decoder accepts. What it accepts it reads back, the encoding of a
  value determines the value, and no encoding is a proper prefix of another.
\<close>

locale wire_codec =
  fixes enc :: "'a \<Rightarrow> writer \<Rightarrow> writer"
    and dec :: "'a result decoder"
    and fits :: "'a \<Rightarrow> bool"
  assumes matches: "fits x \<Longrightarrow> codec (enc x) dec (Inr x)"
begin

lemma reads_encoding:
  assumes "fits x" and "wr_ok (enc x empty_writer)"
  shows "reads dec (wr_buffer (enc x empty_writer)) (Inr x)"
  using codecD [OF matches [OF assms(1)] _ assms(2)] by (auto simp: empty_writer_def)

lemma decode_encoding:
  assumes "fits x" and "wr_ok (enc x empty_writer)"
  shows "run_state dec (new_reader p (wr_buffer (enc x empty_writer) @ rest)) = (Inr x, new_reader p rest)"
  using readsD [OF reads_encoding [OF assms]] by (simp add: new_reader_def)

lemma prefix_free:
  assumes "fits x" and "fits y"
    and "wr_ok (enc x empty_writer)" and "wr_ok (enc y empty_writer)"
    and "wr_buffer (enc x empty_writer) @ rest = wr_buffer (enc y empty_writer) @ rest'"
  shows "x = y \<and> rest = rest'"
  using decode_encoding [OF assms(1,3), of undefined rest] decode_encoding [OF assms(2,4), of undefined rest']
    assms(5) by (simp add: new_reader_def)

lemma encoding_injective:
  assumes "fits x" and "fits y"
    and "wr_ok (enc x empty_writer)" and "wr_ok (enc y empty_writer)"
    and "wr_buffer (enc x empty_writer) = wr_buffer (enc y empty_writer)"
  shows "x = y"
  using prefix_free [OF assms(1-4), of "[]" "[]"] assms(5) by simp

end

end
