(* ===== verification/CF_Decode.thy ===== *)
theory CF_Decode
  imports CF_Reader
begin

text \<open>
  The domain decoders of \<open>src/serialization.cpp\<close> and of the journal payloads, in the order of the
  sources: one monadic definition per \<open>decode\<close>, with the early returns, the bounds of the runtime
  limits and the identity checks at the end. For each record format \<open>fits\<close> says which values it
  accepts, and the interpretation of \<open>wire_codec\<close> proves that it reads back what its encoder wrote.
\<close>

section \<open>Enumerated fields\<close>

definition r_target_class :: "target_class decoder" where
  "r_target_class = read_enum is_valid_target_class target_class_of_code TC_Claim"

definition r_critic_role :: "critic_role decoder" where
  "r_critic_role = read_enum is_valid_critic_role critic_role_of_code Role_GeneralCritic"

definition r_finding_category :: "finding_category decoder" where
  "r_finding_category = read_enum is_valid_finding_category finding_category_of_code Cat_Correctness"

definition r_severity :: "severity decoder" where
  "r_severity = read_enum is_valid_severity severity_of_code Sev_Info"

definition r_finding_outcome :: "finding_outcome decoder" where
  "r_finding_outcome = read_enum is_valid_finding_outcome finding_outcome_of_code Out_Pass"

definition r_evidence_source_type :: "evidence_source_type decoder" where
  "r_evidence_source_type = read_enum is_valid_evidence_source_type evidence_source_type_of_code Src_Instrumentation"

definition r_evidence_provenance :: "evidence_provenance decoder" where
  "r_evidence_provenance = read_enum is_valid_evidence_provenance evidence_provenance_of_code Prov_Measured"

definition r_evidence_integrity :: "evidence_integrity decoder" where
  "r_evidence_integrity = read_enum is_valid_evidence_integrity evidence_integrity_of_code Integ_Verified"

definition r_finding_state :: "finding_state decoder" where
  "r_finding_state = read_enum is_valid_finding_state finding_state_of_code FS_Current"

definition r_target_supersession :: "target_supersession decoder" where
  "r_target_supersession = read_enum is_valid_target_supersession target_supersession_of_code TS_Current"

definition r_review_state :: "review_state decoder" where
  "r_review_state = read_enum is_valid_review_state review_state_of_code RS_Declared"

definition r_review_disposition :: "review_disposition decoder" where
  "r_review_disposition = read_enum is_valid_review_disposition review_disposition_of_code RD_None"

definition r_aggregation_policy :: "aggregation_policy decoder" where
  "r_aggregation_policy = read_enum is_valid_aggregation_policy aggregation_policy_of_code Agg_AllRequiredPass"

definition r_disagreement_policy :: "disagreement_policy decoder" where
  "r_disagreement_policy = read_enum is_valid_disagreement_policy disagreement_policy_of_code Dis_ReportAndFail"

definition r_duplicate_policy :: "duplicate_policy decoder" where
  "r_duplicate_policy = read_enum is_valid_duplicate_policy duplicate_policy_of_code Dup_Reject"

definition r_challenge_policy :: "challenge_policy decoder" where
  "r_challenge_policy = read_enum is_valid_challenge_policy challenge_policy_of_code ChP_Disabled"

definition r_challenge_outcome :: "challenge_outcome decoder" where
  "r_challenge_outcome = read_enum is_valid_challenge_outcome challenge_outcome_of_code ChO_Unresolved"

definition r_predicate_kind :: "predicate_kind decoder" where
  "r_predicate_kind = read_enum is_valid_predicate_kind predicate_kind_of_code Pred_ExactTargetGenerationMatch"

definition r_confidence_basis :: "confidence_basis decoder" where
  "r_confidence_basis = read_enum is_valid_confidence_basis confidence_basis_of_code CB_NotProvided"

lemma codec_enums [codecs]:
  "codec (w_u32 (target_class_code v0)) r_target_class v0"
  "codec (w_u32 (critic_role_code v1)) r_critic_role v1"
  "codec (w_u32 (finding_category_code v2)) r_finding_category v2"
  "codec (w_u32 (severity_code v3)) r_severity v3"
  "codec (w_u32 (finding_outcome_code v4)) r_finding_outcome v4"
  "codec (w_u32 (evidence_source_type_code v5)) r_evidence_source_type v5"
  "codec (w_u32 (evidence_provenance_code v6)) r_evidence_provenance v6"
  "codec (w_u32 (evidence_integrity_code v7)) r_evidence_integrity v7"
  "codec (w_u32 (finding_state_code v8)) r_finding_state v8"
  "codec (w_u32 (target_supersession_code v9)) r_target_supersession v9"
  "codec (w_u32 (review_state_code v10)) r_review_state v10"
  "codec (w_u32 (review_disposition_code v11)) r_review_disposition v11"
  "codec (w_u32 (aggregation_policy_code v12)) r_aggregation_policy v12"
  "codec (w_u32 (disagreement_policy_code v13)) r_disagreement_policy v13"
  "codec (w_u32 (duplicate_policy_code v14)) r_duplicate_policy v14"
  "codec (w_u32 (challenge_policy_code v15)) r_challenge_policy v15"
  "codec (w_u32 (challenge_outcome_code v16)) r_challenge_outcome v16"
  "codec (w_u32 (predicate_kind_code v17)) r_predicate_kind v17"
  "codec (w_u32 (confidence_basis_code v18)) r_confidence_basis v18"
  unfolding r_target_class_def is_valid_target_class_def [abs_def] target_class_of_code_def [abs_def]
    r_critic_role_def is_valid_critic_role_def [abs_def] critic_role_of_code_def [abs_def]
    r_finding_category_def is_valid_finding_category_def [abs_def] finding_category_of_code_def [abs_def]
    r_severity_def is_valid_severity_def [abs_def] severity_of_code_def [abs_def]
    r_finding_outcome_def is_valid_finding_outcome_def [abs_def] finding_outcome_of_code_def [abs_def]
    r_evidence_source_type_def is_valid_evidence_source_type_def [abs_def] evidence_source_type_of_code_def [abs_def]
    r_evidence_provenance_def is_valid_evidence_provenance_def [abs_def] evidence_provenance_of_code_def [abs_def]
    r_evidence_integrity_def is_valid_evidence_integrity_def [abs_def] evidence_integrity_of_code_def [abs_def]
    r_finding_state_def is_valid_finding_state_def [abs_def] finding_state_of_code_def [abs_def]
    r_target_supersession_def is_valid_target_supersession_def [abs_def] target_supersession_of_code_def [abs_def]
    r_review_state_def is_valid_review_state_def [abs_def] review_state_of_code_def [abs_def]
    r_review_disposition_def is_valid_review_disposition_def [abs_def] review_disposition_of_code_def [abs_def]
    r_aggregation_policy_def is_valid_aggregation_policy_def [abs_def] aggregation_policy_of_code_def [abs_def]
    r_disagreement_policy_def is_valid_disagreement_policy_def [abs_def] disagreement_policy_of_code_def [abs_def]
    r_duplicate_policy_def is_valid_duplicate_policy_def [abs_def] duplicate_policy_of_code_def [abs_def]
    r_challenge_policy_def is_valid_challenge_policy_def [abs_def] challenge_policy_of_code_def [abs_def]
    r_challenge_outcome_def is_valid_challenge_outcome_def [abs_def] challenge_outcome_of_code_def [abs_def]
    r_predicate_kind_def is_valid_predicate_kind_def [abs_def] predicate_kind_of_code_def [abs_def]
    r_confidence_basis_def is_valid_confidence_basis_def [abs_def] confidence_basis_of_code_def [abs_def]
  by (rule target_class.codec_field
    critic_role.codec_field
    finding_category.codec_field
    severity.codec_field
    finding_outcome.codec_field
    evidence_source_type.codec_field
    evidence_provenance.codec_field
    evidence_integrity.codec_field
    finding_state.codec_field
    target_supersession.codec_field
    review_state.codec_field
    review_disposition.codec_field
    aggregation_policy.codec_field
    disagreement_policy.codec_field
    duplicate_policy.codec_field
    challenge_policy.codec_field
    challenge_outcome.codec_field
    predicate_kind.codec_field
    confidence_basis.codec_field)+

lemma codec_done: "valid \<Longrightarrow> x = v \<Longrightarrow> codec (w_seq []) (finish_read valid x) (Inr v)"
  by (simp add: codec_finish)

lemma codec_yield: "x = v \<Longrightarrow> codec (w_seq []) (State_Monad.return x) v"
  by (simp add: codec_return)

lemmas codec_rules = codec_Cons codec_try codec_done

lemmas codec_done_rules = codec_Cons codec_yield

section \<open>Collections\<close>

definition read_roles :: "u32 \<Rightarrow> critic_role set result decoder" where
  "read_roles max_items = try_read (read_list max_items r_critic_role)
     (\<lambda>xs. State_Monad.return (Inr (set xs)))"

definition read_target_classes :: "u32 \<Rightarrow> target_class set result decoder" where
  "read_target_classes max_items = try_read (read_list max_items r_target_class)
     (\<lambda>xs. State_Monad.return (Inr (set xs)))"

definition read_categories :: "u32 \<Rightarrow> finding_category set result decoder" where
  "read_categories max_items = try_read (read_list max_items r_finding_category)
     (\<lambda>xs. State_Monad.return (Inr (set xs)))"

definition read_role_list :: "u32 \<Rightarrow> critic_role list result decoder" where
  "read_role_list max_items = read_list max_items r_critic_role"

definition read_id_list :: "u32 \<Rightarrow> u64 list result decoder" where
  "read_id_list max_items = read_list max_items r_u64"

lemma codec_as_set:
  assumes "\<And>x. codec (enc x) d x" and "finite S" and "card S \<le> unat m'"
  shows "codec (w_seq [write_item_count (card S) m, w_each enc (sorted_list_of_set S)])
    (try_read (read_list m' d) (\<lambda>xs. State_Monad.return (Inr (set xs)))) (Inr S)"
proof -
  let ?e = "w_seq [write_item_count (card S) m, w_each enc (sorted_list_of_set S)]"
  have "codec (w_seq [?e]) (try_read (read_list m' d) (\<lambda>xs. State_Monad.return (Inr (set xs)))) (Inr S)"
    by (rule codec_try [OF codec_set codec_yield]) (use assms in auto)
  then show ?thesis
    by (simp add: w_seq_Cons w_seq_Nil)
qed

lemma subset_of_all:
  assumes "\<And>x :: 'a. x \<in> set all"
  shows "finite (S :: 'a set)" "card S \<le> length all"
proof -
  have sub: "S \<subseteq> set all"
    using assms by blast
  then show "finite S"
    by (rule finite_subset) simp
  show "card S \<le> length all"
    using card_mono [OF _ sub] card_length [of all] by simp
qed

lemma codec_roles [codecs]: "codec (write_roles S m) (read_roles 12) (Inr S)"
  unfolding write_roles_def read_roles_def
  using subset_of_all [OF mem_critic_role_all, of S]
  by (intro codec_as_set codecs) (simp_all add: critic_role_all_def)

lemma codec_target_classes [codecs]: "codec (write_target_classes S m) (read_target_classes 10) (Inr S)"
  unfolding write_target_classes_def read_target_classes_def
  using subset_of_all [OF mem_target_class_all, of S]
  by (intro codec_as_set codecs) (simp_all add: target_class_all_def)

lemma codec_categories [codecs]: "codec (write_categories S m) (read_categories 11) (Inr S)"
  unfolding write_categories_def read_categories_def
  using subset_of_all [OF mem_finding_category_all, of S]
  by (intro codec_as_set codecs) (simp_all add: finding_category_all_def)

lemma codec_role_list [codecs]:
  "length xs \<le> unat m' \<Longrightarrow> codec (write_role_list xs m) (read_role_list m') (Inr xs)"
  unfolding write_role_list_def read_role_list_def by (rule codec_list) (simp_all add: codecs)

lemma codec_id_list [codecs]:
  "length xs \<le> unat m' \<Longrightarrow> codec (write_id_list xs m) (read_id_list m') (Inr xs)"
  unfolding write_id_list_def read_id_list_def by (rule codec_list) (simp_all add: codecs)

section \<open>Records\<close>

definition dec_compatibility :: "compatibility result decoder" where
  "dec_compatibility = do {
     schema_name \<leftarrow> r_string kHardMaxMetadataBytes;
     producer_version \<leftarrow> r_string kHardMaxMetadataBytes;
     finish_read True
       \<lparr> cp_schema_name = schema_name, cp_producer_version = producer_version \<rparr>
   }"

definition fits_compatibility :: "compatibility \<Rightarrow> bool" where
  "fits_compatibility v \<longleftrightarrow> length (cp_schema_name v) \<le> unat kHardMaxMetadataBytes
   \<and> length (cp_producer_version v) \<le> unat kHardMaxMetadataBytes"

interpretation compatibility_codec: wire_codec enc_compatibility "dec_compatibility" "fits_compatibility"
  by unfold_locales
     (unfold enc_compatibility_def dec_compatibility_def,
      (rule codec_rules codecs | simp add: fits_compatibility_def)+)

declare compatibility_codec.matches [codecs]

definition dec_target_record :: "runtime_limits \<Rightarrow> target_record result decoder" where
  "dec_target_record lim = do {
     id \<leftarrow> r_u64;
     generation \<leftarrow> r_u64;
     target_class \<leftarrow> r_target_class;
     content_digest \<leftarrow> r_digest;
     schema_digest \<leftarrow> r_digest;
     schema_name \<leftarrow> r_string (max_metadata_string_bytes lim);
     producer \<leftarrow> r_u64;
     producer_version \<leftarrow> r_string (max_metadata_string_bytes lim);
     provenance \<leftarrow> r_string (max_metadata_string_bytes lim);
     payload \<leftarrow> r_bytes (max_target_payload_bytes lim);
     created_order \<leftarrow> r_u64;
     reviewable \<leftarrow> r_boolean;
     supersession \<leftarrow> r_target_supersession;
     superseded_by \<leftarrow> r_u64;
     supersession_reason \<leftarrow> r_string (max_metadata_string_bytes lim);
     finish_read (id_valid id \<and> id_valid generation)
       \<lparr> t_id = id, t_generation = generation, t_target_class = target_class,
         t_content_digest = content_digest, t_schema_digest = schema_digest,
         t_schema_name = schema_name, t_producer = producer, t_producer_version = producer_version,
         t_provenance = provenance, t_payload = payload, t_created_order = created_order,
         t_reviewable = reviewable, t_supersession = supersession, t_superseded_by = superseded_by,
         t_supersession_reason = supersession_reason \<rparr>
   }"

definition fits_target_record :: "runtime_limits \<Rightarrow> target_record \<Rightarrow> bool" where
  "fits_target_record lim v \<longleftrightarrow> id_valid (t_id v)
   \<and> id_valid (t_generation v)
   \<and> length (t_content_digest v) = 32
   \<and> length (t_schema_digest v) = 32
   \<and> length (t_schema_name v) \<le> unat (max_metadata_string_bytes lim)
   \<and> length (t_producer_version v) \<le> unat (max_metadata_string_bytes lim)
   \<and> length (t_provenance v) \<le> unat (max_metadata_string_bytes lim)
   \<and> length (t_payload v) \<le> unat (max_target_payload_bytes lim)
   \<and> length (t_supersession_reason v) \<le> unat (max_metadata_string_bytes lim)"

interpretation target_record_codec: wire_codec enc_target_record "dec_target_record lim" "fits_target_record lim"
  for lim
  by unfold_locales
     (unfold enc_target_record_def dec_target_record_def,
      (rule codec_rules codecs | simp add: fits_target_record_def)+)

declare target_record_codec.matches [codecs]

definition dec_critic_capability :: "runtime_limits \<Rightarrow> critic_capability result decoder" where
  "dec_critic_capability lim = do {
     try_read (read_roles 12) (\<lambda>roles. do {
     try_read (read_target_classes 10) (\<lambda>target_classes. do {
     try_read (read_categories 11) (\<lambda>finding_categories. do {
     specialization \<leftarrow> r_string kHardMaxMetadataBytes;
     implementation_version \<leftarrow> r_string kHardMaxMetadataBytes;
     capability_evidence \<leftarrow> r_digest;
     deterministic_output \<leftarrow> r_boolean;
     supports_challenge_response \<leftarrow> r_boolean;
     finish_read True
       \<lparr> cap_roles = roles, cap_target_classes = target_classes,
         cap_finding_categories = finding_categories, cap_specialization = specialization,
         cap_implementation_version = implementation_version,
         cap_capability_evidence = capability_evidence,
         cap_deterministic_output = deterministic_output,
         cap_supports_challenge_response = supports_challenge_response \<rparr>
   }) }) }) }"

definition fits_critic_capability :: "critic_capability \<Rightarrow> bool" where
  "fits_critic_capability v \<longleftrightarrow> length (cap_specialization v) \<le> unat kHardMaxMetadataBytes
   \<and> length (cap_implementation_version v) \<le> unat kHardMaxMetadataBytes
   \<and> length (cap_capability_evidence v) = 32"

interpretation critic_capability_codec: wire_codec enc_critic_capability "dec_critic_capability lim" "fits_critic_capability"
  for lim
  by unfold_locales
     (unfold enc_critic_capability_def dec_critic_capability_def,
      (rule codec_rules codecs | simp add: fits_critic_capability_def)+)

declare critic_capability_codec.matches [codecs]

definition dec_critic_registration :: "runtime_limits \<Rightarrow> critic_registration result decoder" where
  "dec_critic_registration lim = do {
     id \<leftarrow> r_u64;
     generation \<leftarrow> r_u64;
     try_read (dec_critic_capability lim) (\<lambda>capability. do {
     registrant \<leftarrow> r_u64;
     provenance \<leftarrow> r_string (max_metadata_string_bytes lim);
     try_read dec_compatibility (\<lambda>compat. do {
     registered_order \<leftarrow> r_u64;
     finish_read (id_valid id \<and> id_valid generation)
       \<lparr> c_id = id, c_generation = generation, c_capability = capability,
         c_registrant = registrant, c_provenance = provenance, c_compat = compat,
         c_registered_order = registered_order \<rparr>
   }) }) }"

definition fits_critic_registration :: "runtime_limits \<Rightarrow> critic_registration \<Rightarrow> bool" where
  "fits_critic_registration lim v \<longleftrightarrow> id_valid (c_id v)
   \<and> id_valid (c_generation v)
   \<and> fits_critic_capability (c_capability v)
   \<and> length (c_provenance v) \<le> unat (max_metadata_string_bytes lim)
   \<and> fits_compatibility (c_compat v)"

interpretation critic_registration_codec: wire_codec enc_critic_registration "dec_critic_registration lim" "fits_critic_registration lim"
  for lim
  by unfold_locales
     (unfold enc_critic_registration_def dec_critic_registration_def,
      (rule codec_rules codecs | simp add: fits_critic_registration_def)+)

declare critic_registration_codec.matches [codecs]

definition dec_worker_record :: "runtime_limits \<Rightarrow> worker_record result decoder" where
  "dec_worker_record lim = do {
     id \<leftarrow> r_u64;
     boot \<leftarrow> r_u64;
     epoch \<leftarrow> r_u64;
     critic \<leftarrow> r_u64;
     critic_generation \<leftarrow> r_u64;
     host \<leftarrow> r_u64;
     process_label \<leftarrow> r_string (max_metadata_string_bytes lim);
     ready \<leftarrow> r_boolean;
     healthy \<leftarrow> r_boolean;
     authoritative \<leftarrow> r_boolean;
     boot_order \<leftarrow> r_u64;
     readiness_order \<leftarrow> r_u64;
     readiness_digest \<leftarrow> r_digest;
     finish_read (id_valid id \<and> id_valid boot \<and> boot_order \<noteq> 0)
       \<lparr> w_id = id, w_boot = boot, w_epoch = epoch, w_critic = critic,
         w_critic_generation = critic_generation, w_host = host, w_process_label = process_label,
         w_ready = ready, w_healthy = healthy, w_authoritative = authoritative,
         w_boot_order = boot_order, w_readiness_order = readiness_order,
         w_readiness_digest = readiness_digest \<rparr>
   }"

definition fits_worker_record :: "runtime_limits \<Rightarrow> worker_record \<Rightarrow> bool" where
  "fits_worker_record lim v \<longleftrightarrow> id_valid (w_id v)
   \<and> id_valid (w_boot v)
   \<and> w_boot_order v \<noteq> 0
   \<and> length (w_process_label v) \<le> unat (max_metadata_string_bytes lim)
   \<and> length (w_readiness_digest v) = 32"

interpretation worker_record_codec: wire_codec enc_worker_record "dec_worker_record lim" "fits_worker_record lim"
  for lim
  by unfold_locales
     (unfold enc_worker_record_def dec_worker_record_def,
      (rule codec_rules codecs | simp add: fits_worker_record_def)+)

declare worker_record_codec.matches [codecs]

definition dec_confidence :: "confidence result decoder" where
  "dec_confidence = do {
     provided \<leftarrow> r_boolean;
     basis_points \<leftarrow> r_u32;
     basis \<leftarrow> r_confidence_basis;
     finish_read (basis_points \<le> 10000 \<and> (provided \<or> basis = CB_NotProvided))
       \<lparr> cf_provided = provided, cf_basis_points = basis_points, cf_basis = basis \<rparr>
   }"

definition fits_confidence :: "confidence \<Rightarrow> bool" where
  "fits_confidence v \<longleftrightarrow> cf_basis_points v \<le> 10000
   \<and> (cf_provided v \<or> cf_basis v = CB_NotProvided)"

interpretation confidence_codec: wire_codec enc_confidence "dec_confidence" "fits_confidence"
  by unfold_locales
     (unfold enc_confidence_def dec_confidence_def,
      (rule codec_rules codecs | simp add: fits_confidence_def)+)

declare confidence_codec.matches [codecs]

definition dec_evidence_record :: "runtime_limits \<Rightarrow> evidence_record result decoder" where
  "dec_evidence_record lim = do {
     id \<leftarrow> r_u64;
     generation \<leftarrow> r_u64;
     source_type \<leftarrow> r_evidence_source_type;
     provenance \<leftarrow> r_evidence_provenance;
     integrity \<leftarrow> r_evidence_integrity;
     producer \<leftarrow> r_u64;
     target \<leftarrow> r_u64;
     target_generation \<leftarrow> r_u64;
     target_digest \<leftarrow> r_digest;
     review \<leftarrow> r_u64;
     review_generation \<leftarrow> r_u64;
     critic \<leftarrow> r_u64;
     critic_generation \<leftarrow> r_u64;
     worker \<leftarrow> r_u64;
     worker_boot \<leftarrow> r_u64;
     finding \<leftarrow> r_u64;
     content_digest \<leftarrow> r_digest;
     payload \<leftarrow> r_bytes (max_evidence_payload_bytes lim);
     reference \<leftarrow> r_string (max_metadata_string_bytes lim);
     created_order \<leftarrow> r_u64;
     current \<leftarrow> r_boolean;
     superseded \<leftarrow> r_boolean;
     superseded_by \<leftarrow> r_u64;
     finish_read (id_valid id \<and> id_valid generation \<and> id_valid target)
       \<lparr> e_id = id, e_generation = generation, e_source_type = source_type,
         e_provenance = provenance, e_integrity = integrity, e_producer = producer,
         e_target = target, e_target_generation = target_generation,
         e_target_digest = target_digest, e_review = review,
         e_review_generation = review_generation, e_critic = critic,
         e_critic_generation = critic_generation, e_worker = worker, e_worker_boot = worker_boot,
         e_finding = finding, e_content_digest = content_digest, e_payload = payload,
         e_reference = reference, e_created_order = created_order, e_current = current,
         e_superseded = superseded, e_superseded_by = superseded_by \<rparr>
   }"

definition fits_evidence_record :: "runtime_limits \<Rightarrow> evidence_record \<Rightarrow> bool" where
  "fits_evidence_record lim v \<longleftrightarrow> id_valid (e_id v)
   \<and> id_valid (e_generation v)
   \<and> id_valid (e_target v)
   \<and> length (e_target_digest v) = 32
   \<and> length (e_content_digest v) = 32
   \<and> length (e_payload v) \<le> unat (max_evidence_payload_bytes lim)
   \<and> length (e_reference v) \<le> unat (max_metadata_string_bytes lim)"

interpretation evidence_record_codec: wire_codec enc_evidence_record "dec_evidence_record lim" "fits_evidence_record lim"
  for lim
  by unfold_locales
     (unfold enc_evidence_record_def dec_evidence_record_def,
      (rule codec_rules codecs | simp add: fits_evidence_record_def)+)

declare evidence_record_codec.matches [codecs]

definition dec_finding :: "runtime_limits \<Rightarrow> finding result decoder" where
  "dec_finding lim = do {
     id \<leftarrow> r_u64;
     generation \<leftarrow> r_u64;
     supersedes \<leftarrow> r_u64;
     superseded_by \<leftarrow> r_u64;
     critic \<leftarrow> r_u64;
     critic_generation \<leftarrow> r_u64;
     assignment \<leftarrow> r_u64;
     worker \<leftarrow> r_u64;
     worker_boot \<leftarrow> r_u64;
     attempt \<leftarrow> r_u64;
     review \<leftarrow> r_u64;
     review_generation \<leftarrow> r_u64;
     target \<leftarrow> r_u64;
     target_generation \<leftarrow> r_u64;
     category \<leftarrow> r_finding_category;
     severity \<leftarrow> r_severity;
     outcome \<leftarrow> r_finding_outcome;
     try_read (read_id_list (max_evidence_per_finding lim)) (\<lambda>evidence. do {
     explanation \<leftarrow> r_string (max_explanation_bytes lim);
     try_read dec_confidence (\<lambda>confidence. do {
     provenance \<leftarrow> r_string (max_metadata_string_bytes lim);
     creation_order \<leftarrow> r_u64;
     state \<leftarrow> r_finding_state;
     challenged_by \<leftarrow> r_u64;
     finding_digest \<leftarrow> r_digest;
     finish_read (id_valid id \<and> id_valid generation \<and> id_valid critic
         \<and> id_valid critic_generation \<and> id_valid review \<and> id_valid review_generation
         \<and> id_valid target \<and> id_valid target_generation)
       \<lparr> f_id = id, f_generation = generation, f_supersedes = supersedes,
         f_superseded_by = superseded_by, f_critic = critic,
         f_critic_generation = critic_generation, f_assignment = assignment, f_worker = worker,
         f_worker_boot = worker_boot, f_attempt = attempt, f_review = review,
         f_review_generation = review_generation, f_target = target,
         f_target_generation = target_generation, f_category = category, f_severity = severity,
         f_outcome = outcome, f_evidence = evidence, f_explanation = explanation,
         f_confidence = confidence, f_provenance = provenance, f_creation_order = creation_order,
         f_state = state, f_challenged_by = challenged_by, f_finding_digest = finding_digest \<rparr>
   }) }) }"

definition fits_finding :: "runtime_limits \<Rightarrow> finding \<Rightarrow> bool" where
  "fits_finding lim v \<longleftrightarrow> id_valid (f_id v)
   \<and> id_valid (f_generation v)
   \<and> id_valid (f_critic v)
   \<and> id_valid (f_critic_generation v)
   \<and> id_valid (f_review v)
   \<and> id_valid (f_review_generation v)
   \<and> id_valid (f_target v)
   \<and> id_valid (f_target_generation v)
   \<and> length (f_evidence v) \<le> unat (max_evidence_per_finding lim)
   \<and> length (f_explanation v) \<le> unat (max_explanation_bytes lim)
   \<and> fits_confidence (f_confidence v)
   \<and> length (f_provenance v) \<le> unat (max_metadata_string_bytes lim)
   \<and> length (f_finding_digest v) = 32"

interpretation finding_codec: wire_codec enc_finding "dec_finding lim" "fits_finding lim"
  for lim
  by unfold_locales
     (unfold enc_finding_def dec_finding_def,
      (rule codec_rules codecs | simp add: fits_finding_def)+)

declare finding_codec.matches [codecs]

definition dec_challenge :: "runtime_limits \<Rightarrow> challenge result decoder" where
  "dec_challenge lim = do {
     id \<leftarrow> r_u64;
     generation \<leftarrow> r_u64;
     challenged_finding \<leftarrow> r_u64;
     challenged_finding_generation \<leftarrow> r_u64;
     challenger \<leftarrow> r_u64;
     challenger_generation \<leftarrow> r_u64;
     worker \<leftarrow> r_u64;
     worker_boot \<leftarrow> r_u64;
     review \<leftarrow> r_u64;
     review_generation \<leftarrow> r_u64;
     target \<leftarrow> r_u64;
     target_generation \<leftarrow> r_u64;
     disputed_predicate \<leftarrow> r_string (max_metadata_string_bytes lim);
     rationale \<leftarrow> r_string (max_explanation_bytes lim);
     try_read (read_id_list (max_evidence_per_finding lim)) (\<lambda>evidence. do {
     creation_order \<leftarrow> r_u64;
     outcome \<leftarrow> r_challenge_outcome;
     resolved \<leftarrow> r_boolean;
     rebuttal \<leftarrow> r_u64;
     finish_read (id_valid id \<and> id_valid challenged_finding \<and> id_valid review
         \<and> id_valid target)
       \<lparr> ch_id = id, ch_generation = generation, ch_challenged_finding = challenged_finding,
         ch_challenged_finding_generation = challenged_finding_generation,
         ch_challenger = challenger, ch_challenger_generation = challenger_generation,
         ch_worker = worker, ch_worker_boot = worker_boot, ch_review = review,
         ch_review_generation = review_generation, ch_target = target,
         ch_target_generation = target_generation, ch_disputed_predicate = disputed_predicate,
         ch_rationale = rationale, ch_evidence = evidence, ch_creation_order = creation_order,
         ch_outcome = outcome, ch_resolved = resolved, ch_rebuttal = rebuttal \<rparr>
   }) }"

definition fits_challenge :: "runtime_limits \<Rightarrow> challenge \<Rightarrow> bool" where
  "fits_challenge lim v \<longleftrightarrow> id_valid (ch_id v)
   \<and> id_valid (ch_challenged_finding v)
   \<and> id_valid (ch_review v)
   \<and> id_valid (ch_target v)
   \<and> length (ch_disputed_predicate v) \<le> unat (max_metadata_string_bytes lim)
   \<and> length (ch_rationale v) \<le> unat (max_explanation_bytes lim)
   \<and> length (ch_evidence v) \<le> unat (max_evidence_per_finding lim)"

interpretation challenge_codec: wire_codec enc_challenge "dec_challenge lim" "fits_challenge lim"
  for lim
  by unfold_locales
     (unfold enc_challenge_def dec_challenge_def,
      (rule codec_rules codecs | simp add: fits_challenge_def)+)

declare challenge_codec.matches [codecs]

definition dec_rebuttal :: "runtime_limits \<Rightarrow> rebuttal result decoder" where
  "dec_rebuttal lim = do {
     id \<leftarrow> r_u64;
     challenge \<leftarrow> r_u64;
     challenge_generation \<leftarrow> r_u64;
     finding \<leftarrow> r_u64;
     author \<leftarrow> r_u64;
     author_generation \<leftarrow> r_u64;
     worker \<leftarrow> r_u64;
     worker_boot \<leftarrow> r_u64;
     review \<leftarrow> r_u64;
     review_generation \<leftarrow> r_u64;
     target \<leftarrow> r_u64;
     target_generation \<leftarrow> r_u64;
     argument \<leftarrow> r_string (max_explanation_bytes lim);
     try_read (read_id_list (max_evidence_per_finding lim)) (\<lambda>evidence. do {
     creation_order \<leftarrow> r_u64;
     finish_read (id_valid id \<and> id_valid challenge)
       \<lparr> rb_id = id, rb_challenge = challenge, rb_challenge_generation = challenge_generation,
         rb_finding = finding, rb_author = author, rb_author_generation = author_generation,
         rb_worker = worker, rb_worker_boot = worker_boot, rb_review = review,
         rb_review_generation = review_generation, rb_target = target,
         rb_target_generation = target_generation, rb_argument = argument, rb_evidence = evidence,
         rb_creation_order = creation_order \<rparr>
   }) }"

definition fits_rebuttal :: "runtime_limits \<Rightarrow> rebuttal \<Rightarrow> bool" where
  "fits_rebuttal lim v \<longleftrightarrow> id_valid (rb_id v)
   \<and> id_valid (rb_challenge v)
   \<and> length (rb_argument v) \<le> unat (max_explanation_bytes lim)
   \<and> length (rb_evidence v) \<le> unat (max_evidence_per_finding lim)"

interpretation rebuttal_codec: wire_codec enc_rebuttal "dec_rebuttal lim" "fits_rebuttal lim"
  for lim
  by unfold_locales
     (unfold enc_rebuttal_def dec_rebuttal_def,
      (rule codec_rules codecs | simp add: fits_rebuttal_def)+)

declare rebuttal_codec.matches [codecs]

definition dec_critic_assignment :: "runtime_limits \<Rightarrow> critic_assignment result decoder" where
  "dec_critic_assignment lim = do {
     id \<leftarrow> r_u64;
     review \<leftarrow> r_u64;
     review_generation \<leftarrow> r_u64;
     target \<leftarrow> r_u64;
     target_generation \<leftarrow> r_u64;
     critic \<leftarrow> r_u64;
     critic_generation \<leftarrow> r_u64;
     worker \<leftarrow> r_u64;
     worker_boot \<leftarrow> r_u64;
     role \<leftarrow> r_critic_role;
     required \<leftarrow> r_boolean;
     weight \<leftarrow> r_u32;
     assigned_order \<leftarrow> r_u64;
     active \<leftarrow> r_boolean;
     attempt \<leftarrow> r_u64;
     retirement_reason \<leftarrow> r_string (max_metadata_string_bytes lim);
     finish_read (id_valid id \<and> id_valid review \<and> id_valid critic)
       \<lparr> a_id = id, a_review = review, a_review_generation = review_generation, a_target = target,
         a_target_generation = target_generation, a_critic = critic,
         a_critic_generation = critic_generation, a_worker = worker, a_worker_boot = worker_boot,
         a_role = role, a_required = required, a_weight = weight,
         a_assigned_order = assigned_order, a_active = active, a_attempt = attempt,
         a_retirement_reason = retirement_reason \<rparr>
   }"

definition fits_critic_assignment :: "runtime_limits \<Rightarrow> critic_assignment \<Rightarrow> bool" where
  "fits_critic_assignment lim v \<longleftrightarrow> id_valid (a_id v)
   \<and> id_valid (a_review v)
   \<and> id_valid (a_critic v)
   \<and> length (a_retirement_reason v) \<le> unat (max_metadata_string_bytes lim)"

interpretation critic_assignment_codec: wire_codec enc_critic_assignment "dec_critic_assignment lim" "fits_critic_assignment lim"
  for lim
  by unfold_locales
     (unfold enc_critic_assignment_def dec_critic_assignment_def,
      (rule codec_rules codecs | simp add: fits_critic_assignment_def)+)

declare critic_assignment_codec.matches [codecs]

text \<open>Elements of the review specification.\<close>

definition r_category_minimum :: "(finding_category \<times> u32) decoder" where
  "r_category_minimum = do {
     category \<leftarrow> r_finding_category;
     minimum \<leftarrow> r_u32;
     State_Monad.return (category, minimum)
   }"

definition r_critic_weight :: "(critic_id \<times> u32) decoder" where
  "r_critic_weight = do {
     critic \<leftarrow> r_u64;
     weight \<leftarrow> r_u32;
     State_Monad.return (critic, weight)
   }"

definition r_predicate_spec :: "predicate_spec decoder" where
  "r_predicate_spec = do {
     kind \<leftarrow> r_predicate_kind;
     mandatory \<leftarrow> r_boolean;
     parameter \<leftarrow> r_u32;
     State_Monad.return \<lparr> ps_kind = kind, ps_mandatory = mandatory, ps_parameter = parameter \<rparr>
   }"

definition r_policy_table_entry :: "policy_table_entry decoder" where
  "r_policy_table_entry = do {
     outcome \<leftarrow> r_finding_outcome;
     min_severity \<leftarrow> r_severity;
     max_severity \<leftarrow> r_severity;
     min_count \<leftarrow> r_u32;
     disposition \<leftarrow> r_review_disposition;
     State_Monad.return
       \<lparr> pt_outcome = outcome, pt_min_severity = min_severity, pt_max_severity = max_severity,
         pt_min_count = min_count, pt_disposition = disposition \<rparr>
   }"

lemma codec_category_minimum:
  "codec (case p of (k, n) \<Rightarrow> w_seq [w_u32 (finding_category_code k), w_u32 n]) r_category_minimum p"
  unfolding r_category_minimum_def case_prod_beta by ((rule codec_done_rules codecs)+) simp

lemma codec_critic_weight:
  "codec (case p of (k, n) \<Rightarrow> w_seq [w_u64 k, w_u32 n]) r_critic_weight p"
  unfolding r_critic_weight_def case_prod_beta by ((rule codec_done_rules codecs)+) simp

lemma codec_predicate_spec: "codec (enc_predicate_spec p) r_predicate_spec p"
  unfolding r_predicate_spec_def enc_predicate_spec_def by ((rule codec_done_rules codecs)+) simp

lemma codec_policy_table_entry: "codec (enc_policy_table_entry p) r_policy_table_entry p"
  unfolding r_policy_table_entry_def enc_policy_table_entry_def by ((rule codec_done_rules codecs)+) simp

text \<open>
  The specification: the version is checked before anything else is read; each collection is bounded
  before its loop. The two rejections at the end do not depend on the reader's policy alone: a
  specification that grants confidence authority is refused as policy, not as damage.
\<close>

definition spec_checks :: "review_spec \<Rightarrow> review_spec result decoder" where
  "spec_checks v = try_read rd_get_status (\<lambda>_.
     if sp_confidence_has_authority v then State_Monad.return (Inl E_PolicyRejected)
     else if sp_consensus_threshold_basis_points v > 10000 then rd_malformed
     else State_Monad.return (Inr v))"

definition dec_review_spec :: "runtime_limits \<Rightarrow> review_spec result decoder" where
  "dec_review_spec lim = do {
     version \<leftarrow> r_u32;
     try_read rd_get_status (\<lambda>_. if version \<noteq> kSpecVersion then rd_malformed else do {
     name \<leftarrow> r_string (max_metadata_string_bytes lim);
     try_read (read_role_list 12) (\<lambda>required_roles. do {
     try_read (read_role_list 12) (\<lambda>optional_roles. do {
     try_read (read_roles 12) (\<lambda>roles_that_must_pass. do {
     min_critic_count \<leftarrow> r_u32;
     required_critic_count \<leftarrow> r_u32;
     quorum \<leftarrow> r_u32;
     try_read (begin_items 11) (\<lambda>count. do {
     required_min_categories \<leftarrow> r_times (unat count) r_category_minimum;
     try_read (begin_items 11) (\<lambda>count. do {
     required_finding_categories \<leftarrow> r_times (unat count) r_finding_category;
     max_critical_fails \<leftarrow> r_u32;
     allow_abstention \<leftarrow> r_boolean;
     allow_partial_failure \<leftarrow> r_boolean;
     fail_threshold \<leftarrow> r_severity;
     warn_threshold \<leftarrow> r_severity;
     warn_counts_as_failure \<leftarrow> r_boolean;
     unknown_counts_as_failure \<leftarrow> r_boolean;
     aggregation \<leftarrow> r_aggregation_policy;
     disagreement \<leftarrow> r_disagreement_policy;
     disagreement_threshold_fail \<leftarrow> r_u32;
     duplicates \<leftarrow> r_duplicate_policy;
     challenges \<leftarrow> r_challenge_policy;
     max_challenge_rounds \<leftarrow> r_u32;
     max_review_rounds \<leftarrow> r_u32;
     max_critic_retries \<leftarrow> r_u32;
     try_read (begin_items kHardMaxCriticsPerReview) (\<lambda>count. do {
     critic_weights \<leftarrow> r_times (unat count) r_critic_weight;
     default_weight \<leftarrow> r_u32;
     try_read (begin_items 64) (\<lambda>count. do {
     predicates \<leftarrow> r_times (unat count) r_predicate_spec;
     try_read (begin_items 64) (\<lambda>count. do {
     policy_table \<leftarrow> r_times (unat count) r_policy_table_entry;
     consensus_threshold_basis_points \<leftarrow> r_u32;
     confidence_has_authority \<leftarrow> r_boolean;
     deterministic_decision_required \<leftarrow> r_boolean;
     persist_findings \<leftarrow> r_boolean;
     persist_evidence_metadata \<leftarrow> r_boolean;
     persist_evidence_payload \<leftarrow> r_boolean;
     reopen_on_recovery \<leftarrow> r_boolean;
     spec_checks
       \<lparr> sp_name = name, sp_required_roles = required_roles,
         sp_optional_roles = optional_roles, sp_roles_that_must_pass = roles_that_must_pass,
         sp_min_critic_count = min_critic_count, sp_required_critic_count = required_critic_count,
         sp_quorum = quorum, sp_required_min_categories = om_of_list required_min_categories,
         sp_required_finding_categories = required_finding_categories, sp_max_critical_fails = max_critical_fails,
         sp_allow_abstention = allow_abstention, sp_allow_partial_failure = allow_partial_failure,
         sp_fail_threshold = fail_threshold, sp_warn_threshold = warn_threshold,
         sp_warn_counts_as_failure = warn_counts_as_failure, sp_unknown_counts_as_failure = unknown_counts_as_failure,
         sp_aggregation = aggregation, sp_disagreement = disagreement,
         sp_disagreement_threshold_fail = disagreement_threshold_fail, sp_duplicates = duplicates,
         sp_challenges = challenges, sp_max_challenge_rounds = max_challenge_rounds,
         sp_max_review_rounds = max_review_rounds, sp_max_critic_retries = max_critic_retries,
         sp_critic_weights = om_of_list critic_weights, sp_default_weight = default_weight,
         sp_predicates = predicates, sp_policy_table = policy_table,
         sp_consensus_threshold_basis_points = consensus_threshold_basis_points, sp_confidence_has_authority = confidence_has_authority,
         sp_deterministic_decision_required = deterministic_decision_required, sp_persist_findings = persist_findings,
         sp_persist_evidence_metadata = persist_evidence_metadata, sp_persist_evidence_payload = persist_evidence_payload,
         sp_reopen_on_recovery = reopen_on_recovery \<rparr>
   }) }) }) }) }) }) }) }) }) }"

definition fits_review_spec :: "runtime_limits \<Rightarrow> review_spec \<Rightarrow> bool" where
  "fits_review_spec lim v \<longleftrightarrow> length (sp_name v) \<le> unat (max_metadata_string_bytes lim)
   \<and> length (sp_required_roles v) \<le> 12
   \<and> length (sp_optional_roles v) \<le> 12
   \<and> length (sp_required_min_categories v) \<le> 11
   \<and> om_wf (sp_required_min_categories v)
   \<and> length (sp_required_finding_categories v) \<le> 11
   \<and> length (sp_critic_weights v) \<le> unat kHardMaxCriticsPerReview
   \<and> om_wf (sp_critic_weights v)
   \<and> length (sp_predicates v) \<le> 64
   \<and> length (sp_policy_table v) \<le> 64
   \<and> \<not> sp_confidence_has_authority v
   \<and> sp_consensus_threshold_basis_points v \<le> 10000"

lemma codec_spec_checks:
  assumes "\<not> sp_confidence_has_authority v" and "sp_consensus_threshold_basis_points v \<le> 10000" and "x = v"
  shows "codec (w_seq []) (spec_checks x) (Inr v)"
  unfolding spec_checks_def try_read_def
  by (rule codec_idle, rule reads_then [OF reads_status]) (use assms in \<open>auto simp: reads_return dest: leD\<close>)

lemma codec_begin_loop:
  assumes "length xs \<le> unat m'" and "\<And>x. x \<in> set xs \<Longrightarrow> codec (enc x) d x"
    and "codec (w_seq es) (k xs) y"
  shows "codec (w_seq (write_item_count (length xs) m # w_each enc xs # es))
    (try_read (begin_items m') (\<lambda>count. State_Monad.bind (r_times (unat count) d) k)) y"
proof -
  have "unat (of_nat (length xs) :: u32) = length xs"
    using assms(1) unat_less_4294967296 [of m'] by (simp add: unat_of_nat)
  then show ?thesis
    using assms by (intro codec_try [OF codec_item_count] codec_Cons [OF codec_times])
qed

lemma codec_checked: "codec e k y \<Longrightarrow> codec e (try_read rd_get_status (\<lambda>_. k)) y"
proof -
  assume e: "codec e k y"
  have "reads (try_read rd_get_status (\<lambda>_. k)) bs y" if "reads k bs y" for bs
    unfolding try_read_def using that by (intro reads_then [OF reads_status]) simp
  then show ?thesis
    using e unfolding codec_def by meson
qed

lemma codec_version:
  "codec (w_seq es) k y \<Longrightarrow> codec (w_seq (w_u32 kSpecVersion # es))
    (State_Monad.bind r_u32 (\<lambda>version. try_read rd_get_status (\<lambda>_.
       if version \<noteq> kSpecVersion then rd_malformed else k))) y"
  by (rule codec_Cons [OF codec_ints(2)]) (simp add: codec_checked)

interpretation review_spec_codec: wire_codec enc_review_spec "dec_review_spec lim" "fits_review_spec lim" for lim
  by unfold_locales
     (unfold enc_review_spec_def dec_review_spec_def,
      (rule codec_version codec_begin_loop codec_try codec_Cons codec_spec_checks codecs
         codec_category_minimum codec_critic_weight codec_predicate_spec codec_policy_table_entry
       | simp add: fits_review_spec_def om_of_own_list)+)

declare review_spec_codec.matches [codecs]

definition dec_review_record :: "runtime_limits \<Rightarrow> review_record result decoder" where
  "dec_review_record lim = do {
     id \<leftarrow> r_u64;
     request \<leftarrow> r_u64;
     generation \<leftarrow> r_u64;
     target \<leftarrow> r_u64;
     target_generation \<leftarrow> r_u64;
     target_digest \<leftarrow> r_digest;
     try_read (dec_review_spec lim) (\<lambda>spec. do {
     state \<leftarrow> r_review_state;
     disposition \<leftarrow> r_review_disposition;
     declared_order \<leftarrow> r_u64;
     updated_order \<leftarrow> r_u64;
     superseded_by \<leftarrow> r_u64;
     cancellation_reason \<leftarrow> r_string (max_metadata_string_bytes lim);
     status_detail \<leftarrow> r_string (max_metadata_string_bytes lim);
     rounds_used \<leftarrow> r_u32;
     authority_current \<leftarrow> r_boolean;
     finish_read (id_valid id \<and> id_valid generation \<and> id_valid target)
       \<lparr> r_id = id, r_request = request, r_generation = generation, r_target = target,
         r_target_generation = target_generation, r_target_digest = target_digest, r_spec = spec,
         r_state = state, r_disposition = disposition, r_declared_order = declared_order,
         r_updated_order = updated_order, r_superseded_by = superseded_by,
         r_cancellation_reason = cancellation_reason, r_status_detail = status_detail,
         r_rounds_used = rounds_used, r_authority_current = authority_current \<rparr>
   }) }"

definition fits_review_record :: "runtime_limits \<Rightarrow> review_record \<Rightarrow> bool" where
  "fits_review_record lim v \<longleftrightarrow> id_valid (r_id v)
   \<and> id_valid (r_generation v)
   \<and> id_valid (r_target v)
   \<and> length (r_target_digest v) = 32
   \<and> fits_review_spec lim (r_spec v)
   \<and> length (r_cancellation_reason v) \<le> unat (max_metadata_string_bytes lim)
   \<and> length (r_status_detail v) \<le> unat (max_metadata_string_bytes lim)"

interpretation review_record_codec: wire_codec enc_review_record "dec_review_record lim" "fits_review_record lim"
  for lim
  by unfold_locales
     (unfold enc_review_record_def dec_review_record_def,
      (rule codec_rules codecs | simp add: fits_review_record_def)+)

declare review_record_codec.matches [codecs]

definition dec_decision :: "decision result decoder" where
  "dec_decision = do {
     id \<leftarrow> r_u64;
     generation \<leftarrow> r_u64;
     review \<leftarrow> r_u64;
     review_generation \<leftarrow> r_u64;
     target \<leftarrow> r_u64;
     target_generation \<leftarrow> r_u64;
     disposition \<leftarrow> r_review_disposition;
     decision_digest \<leftarrow> r_digest;
     policy_digest \<leftarrow> r_digest;
     evidence_basis_digest \<leftarrow> r_digest;
     committed_order \<leftarrow> r_u64;
     epoch \<leftarrow> r_u64;
     finish_read (id_valid id \<and> id_valid review \<and> id_valid generation)
       \<lparr> d_id = id, d_generation = generation, d_review = review,
         d_review_generation = review_generation, d_target = target,
         d_target_generation = target_generation, d_disposition = disposition,
         d_decision_digest = decision_digest, d_policy_digest = policy_digest,
         d_evidence_basis_digest = evidence_basis_digest, d_committed_order = committed_order,
         d_epoch = epoch \<rparr>
   }"

definition fits_decision :: "decision \<Rightarrow> bool" where
  "fits_decision v \<longleftrightarrow> id_valid (d_id v)
   \<and> id_valid (d_review v)
   \<and> id_valid (d_generation v)
   \<and> length (d_decision_digest v) = 32
   \<and> length (d_policy_digest v) = 32
   \<and> length (d_evidence_basis_digest v) = 32"

interpretation decision_codec: wire_codec enc_decision "dec_decision" "fits_decision"
  by unfold_locales
     (unfold enc_decision_def dec_decision_def,
      (rule codec_rules codecs | simp add: fits_decision_def)+)

declare decision_codec.matches [codecs]

definition dec_authority_context :: "authority_context result decoder" where
  "dec_authority_context = do {
     epoch \<leftarrow> r_u64;
     worker \<leftarrow> r_u64;
     worker_boot \<leftarrow> r_u64;
     critic \<leftarrow> r_u64;
     critic_generation \<leftarrow> r_u64;
     review \<leftarrow> r_u64;
     review_generation \<leftarrow> r_u64;
     target \<leftarrow> r_u64;
     target_generation \<leftarrow> r_u64;
     request \<leftarrow> r_u64;
     finish_read True
       \<lparr> au_epoch = epoch, au_worker = worker, au_worker_boot = worker_boot, au_critic = critic,
         au_critic_generation = critic_generation, au_review = review,
         au_review_generation = review_generation, au_target = target,
         au_target_generation = target_generation, au_request = request \<rparr>
   }"

definition fits_authority_context :: "authority_context \<Rightarrow> bool" where
  "fits_authority_context v \<longleftrightarrow> True"

interpretation authority_context_codec: wire_codec enc_authority_context "dec_authority_context" "fits_authority_context"
  by unfold_locales
     (unfold enc_authority_context_def dec_authority_context_def,
      (rule codec_rules codecs | simp add: fits_authority_context_def)+)

declare authority_context_codec.matches [codecs]

section \<open>Journal payloads\<close>

definition dec_finding_state_change :: "runtime_limits \<Rightarrow> finding_state_change result decoder" where
  "dec_finding_state_change lim = do {
     finding \<leftarrow> r_u64;
     state \<leftarrow> r_finding_state;
     superseded_by \<leftarrow> r_u64;
     challenged_by \<leftarrow> r_u64;
     reason \<leftarrow> r_string (max_metadata_string_bytes lim);
     finish_read True
       \<lparr> fc_finding = finding, fc_state = state, fc_superseded_by = superseded_by,
         fc_challenged_by = challenged_by, fc_reason = reason \<rparr>
   }"

definition fits_finding_state_change :: "runtime_limits \<Rightarrow> finding_state_change \<Rightarrow> bool" where
  "fits_finding_state_change lim v \<longleftrightarrow> length (fc_reason v) \<le> unat (max_metadata_string_bytes lim)"

interpretation finding_state_change_codec: wire_codec enc_finding_state_change "dec_finding_state_change lim" "fits_finding_state_change lim"
  for lim
  by unfold_locales
     (unfold enc_finding_state_change_def dec_finding_state_change_def,
      (rule codec_rules codecs | simp add: fits_finding_state_change_def)+)

declare finding_state_change_codec.matches [codecs]

definition dec_review_state_change :: "runtime_limits \<Rightarrow> review_state_change result decoder" where
  "dec_review_state_change lim = do {
     review \<leftarrow> r_u64;
     review_generation \<leftarrow> r_u64;
     state \<leftarrow> r_review_state;
     disposition \<leftarrow> r_review_disposition;
     superseded_by \<leftarrow> r_u64;
     detail \<leftarrow> r_string (max_metadata_string_bytes lim);
     cancellation_reason \<leftarrow> r_string (max_metadata_string_bytes lim);
     authority_current \<leftarrow> r_boolean;
     rounds_used \<leftarrow> r_u32;
     finish_read True
       \<lparr> rv_review = review, rv_review_generation = review_generation, rv_state = state,
         rv_disposition = disposition, rv_superseded_by = superseded_by, rv_detail = detail,
         rv_cancellation_reason = cancellation_reason, rv_authority_current = authority_current,
         rv_rounds_used = rounds_used \<rparr>
   }"

definition fits_review_state_change :: "runtime_limits \<Rightarrow> review_state_change \<Rightarrow> bool" where
  "fits_review_state_change lim v \<longleftrightarrow> length (rv_detail v) \<le> unat (max_metadata_string_bytes lim)
   \<and> length (rv_cancellation_reason v) \<le> unat (max_metadata_string_bytes lim)"

interpretation review_state_change_codec: wire_codec enc_review_state_change "dec_review_state_change lim" "fits_review_state_change lim"
  for lim
  by unfold_locales
     (unfold enc_review_state_change_def dec_review_state_change_def,
      (rule codec_rules codecs | simp add: fits_review_state_change_def)+)

declare review_state_change_codec.matches [codecs]

section \<open>Journal entries\<close>

fun dec_assignments :: "runtime_limits \<Rightarrow> nat \<Rightarrow> critic_assignment list result decoder" where
  "dec_assignments lim 0 = State_Monad.return (Inr [])"
| "dec_assignments lim (Suc n) =
     try_read (dec_critic_assignment lim) (\<lambda>a.
       try_read (dec_assignments lim n) (\<lambda>rest. State_Monad.return (Inr (a # rest))))"

definition dec_assignments_added :: "runtime_limits \<Rightarrow> journal_body result decoder" where
  "dec_assignments_added lim = do {
     review \<leftarrow> r_u64;
     generation \<leftarrow> r_u64;
     count \<leftarrow> r_u32;
     try_read rd_get_status (\<lambda>_.
       if count > max_critics_per_review lim then State_Monad.return (Inl E_PersistenceCorruption)
       else try_read (dec_assignments lim (unat count)) (\<lambda>assignments.
         finish_read True (JR_AssignmentsAdded review generation assignments)))
   }"

definition dec_target_superseded :: "runtime_limits \<Rightarrow> journal_body result decoder" where
  "dec_target_superseded lim = do {
     _ \<leftarrow> r_u64;
     previous_generation \<leftarrow> r_u64;
     try_read (dec_target_record lim) (\<lambda>previous.
       try_read (dec_target_record lim) (\<lambda>target.
         finish_read True (JR_TargetSuperseded previous previous_generation target)))
   }"

text \<open>A payload is one decoded value followed by the final status.\<close>

definition dec_one :: "'a result decoder \<Rightarrow> ('a \<Rightarrow> journal_body) \<Rightarrow> journal_body result decoder" where
  "dec_one d body = try_read d (\<lambda>v. finish_read True (body v))"

definition dec_journal_payload :: "runtime_limits \<Rightarrow> u16 \<Rightarrow> journal_body result decoder" where
  "dec_journal_payload lim raw_type =
    (if raw_type = 1 then do { e \<leftarrow> r_u64; finish_read True (JR_EpochEstablished e) }
     else if raw_type = 2 then dec_one (dec_target_record lim) JR_TargetRegistered
     else if raw_type = 3 then dec_target_superseded lim
     else if raw_type = 4 then dec_one (dec_critic_registration lim) JR_CriticRegistered
     else if raw_type = 5 then dec_one (dec_worker_record lim) JR_WorkerRegistered
     else if raw_type = 6 then dec_one (dec_review_record lim) JR_ReviewDeclared
     else if raw_type = 7 then dec_assignments_added lim
     else if raw_type = 8 then dec_one (dec_finding lim) JR_FindingRecorded
     else if raw_type = 9 then dec_one (dec_finding_state_change lim) JR_FindingStateChanged
     else if raw_type = 10 then dec_one (dec_evidence_record lim) JR_EvidenceRecorded
     else if raw_type = 11 then dec_one (dec_challenge lim) JR_ChallengeRecorded
     else if raw_type = 12 then dec_one (dec_rebuttal lim) JR_RebuttalRecorded
     else if raw_type = 13 then dec_one (dec_review_state_change lim) JR_ReviewStateChanged
     else if raw_type = 14 then dec_one dec_decision JR_DecisionCommitted
     else if raw_type = 15 then dec_one (dec_critic_assignment lim) JR_AssignmentUpdated
     else State_Monad.return (Inl E_PersistenceCorruption))"

definition dec_journal_entry :: "runtime_limits \<Rightarrow> journal_body result decoder" where
  "dec_journal_entry lim = do {
     raw_type \<leftarrow> r_u16;
     try_read rd_get_status (\<lambda>_.
       if \<not> is_valid_journal_record_type raw_type then State_Monad.return (Inl E_PersistenceCorruption)
       else dec_journal_payload lim raw_type)
   }"

fun fits_journal_body :: "runtime_limits \<Rightarrow> journal_body \<Rightarrow> bool" where
  "fits_journal_body lim JR_Unspecified = False"
| "fits_journal_body lim (JR_EpochEstablished e) = True"
| "fits_journal_body lim (JR_TargetRegistered t) = fits_target_record lim t"
| "fits_journal_body lim (JR_TargetSuperseded p g t) = (fits_target_record lim p \<and> fits_target_record lim t)"
| "fits_journal_body lim (JR_CriticRegistered c) = fits_critic_registration lim c"
| "fits_journal_body lim (JR_WorkerRegistered w) = fits_worker_record lim w"
| "fits_journal_body lim (JR_ReviewDeclared r) = fits_review_record lim r"
| "fits_journal_body lim (JR_AssignmentsAdded r g assignments) =
     (length assignments \<le> unat (max_critics_per_review lim) \<and> list_all (fits_critic_assignment lim) assignments)"
| "fits_journal_body lim (JR_FindingRecorded f) = fits_finding lim f"
| "fits_journal_body lim (JR_FindingStateChanged c) = fits_finding_state_change lim c"
| "fits_journal_body lim (JR_EvidenceRecorded e) = fits_evidence_record lim e"
| "fits_journal_body lim (JR_ChallengeRecorded c) = fits_challenge lim c"
| "fits_journal_body lim (JR_RebuttalRecorded r) = fits_rebuttal lim r"
| "fits_journal_body lim (JR_ReviewStateChanged c) = fits_review_state_change lim c"
| "fits_journal_body lim (JR_DecisionCommitted d) = fits_decision d"
| "fits_journal_body lim (JR_AssignmentUpdated a) = fits_critic_assignment lim a"

lemma codec_assignments:
  "list_all (fits_critic_assignment lim) xs \<Longrightarrow> n = length xs \<Longrightarrow>
     codec (w_each enc_critic_assignment xs) (dec_assignments lim n) (Inr xs)"
proof (induction xs arbitrary: n)
  case Nil
  then show ?case
    using codec_return [of "Inr []"] by (simp add: w_each_def [abs_def] w_seq_Nil)
next
  case (Cons x xs)
  then have "codec (w_seq [enc_critic_assignment x, w_each enc_critic_assignment xs]) (dec_assignments lim n) (Inr (x # xs))"
    by (simp, intro codec_try codec_yield) (simp_all add: critic_assignment_codec.matches)
  then show ?case
    by (simp add: w_each_Cons w_seq_Cons w_seq_Nil)
qed

lemma codec_one:
  assumes "codec e d (Inr v)"
  shows "codec e (dec_one d body) (Inr (body v))"
proof -
  have "codec (w_seq [e]) (dec_one d body) (Inr (body v))"
    unfolding dec_one_def by (rule codec_try [OF assms codec_done]) simp_all
  then show ?thesis
    by (simp add: w_seq_Cons w_seq_Nil)
qed

lemma codec_assignments_added:
  assumes "length xs \<le> unat (max_critics_per_review lim)" and "list_all (fits_critic_assignment lim) xs"
  shows "codec (w_seq [w_u64 r, w_u64 g, w_u32 (of_nat (length xs)), w_each enc_critic_assignment xs])
    (dec_assignments_added lim) (Inr (JR_AssignmentsAdded r g xs))"
proof -
  have n: "unat (of_nat (length xs) :: u32) = length xs"
    using assms(1) unat_less_4294967296 [of "max_critics_per_review lim"] by (simp add: unat_of_nat)
  then have "\<not> of_nat (length xs) > max_critics_per_review lim"
    using assms(1) by (simp add: word_less_nat_alt)
  then show ?thesis
    unfolding dec_assignments_added_def
    by (intro codec_Cons [OF codec_ints(3)] codec_Cons [OF codec_ints(2)])
       (simp, rule codec_checked, rule codec_try [OF codec_assignments codec_done]; simp add: assms n)
qed

lemma codec_target_superseded:
  assumes "fits_target_record lim p" and "fits_target_record lim t"
  shows "codec (w_seq [w_u64 x, w_u64 g, enc_target_record p, enc_target_record t])
    (dec_target_superseded lim) (Inr (JR_TargetSuperseded p g t))"
  unfolding dec_target_superseded_def
  by (rule codec_Cons [OF codec_ints(3)] codec_try target_record_codec.matches assms codec_done
      | simp (no_asm))+

lemma codec_epoch: "codec (w_seq [w_u64 e]) (do { e \<leftarrow> r_u64; finish_read True (JR_EpochEstablished e) })
    (Inr (JR_EpochEstablished e))"
  by (intro codec_Cons [OF codec_ints(3)] codec_done) simp_all

lemmas payload_rules = codec_one codec_epoch codec_assignments_added codec_target_superseded

lemma codec_payload_of_body:
  "fits_journal_body lim b \<Longrightarrow>
     codec (enc_journal_payload b) (dec_journal_payload lim (journal_record_type b)) (Inr b)"
  by (cases b) (simp_all add: dec_journal_payload_def payload_rules codecs)

lemma fits_body_type: "fits_journal_body lim b \<Longrightarrow> is_valid_journal_record_type (journal_record_type b)"
  by (cases b) (simp_all add: is_valid_journal_record_type_def)

interpretation journal_body_codec: wire_codec "\<lambda>b. enc_journal_entry \<lparr> je_sequence = n, je_body = b \<rparr>"
    "dec_journal_entry lim" "fits_journal_body lim" for n lim
proof unfold_locales
  fix b assume fits: "fits_journal_body lim b"
  have "codec (w_seq [w_u16 (journal_record_type b), enc_journal_payload b]) (dec_journal_entry lim) (Inr b)"
    unfolding dec_journal_entry_def using fits_body_type [OF fits] codec_payload_of_body [OF fits]
    by (intro codec_Cons [OF codec_ints(1)]) (simp add: w_seq_Cons w_seq_Nil codec_checked)
  then show "codec (enc_journal_entry \<lparr> je_sequence = n, je_body = b \<rparr>) (dec_journal_entry lim) (Inr b)"
    by (simp add: enc_journal_entry_def)
qed

end
