(* ===== verification/CF_Open.thy ===== *)
theory CF_Open
  imports CF_Journal CF_Decode
begin

text \<open>
  Opening and rewriting the journal file (\<open>PersistentJournal::open\<close> and \<open>rewrite_all\<close> of
  \<open>src/persistence.cpp\<close>).

  The file under the path is an optional byte string; \<open>open_io\<close> says which system calls succeed. The
  scan reads record after record: header fields, bounds, checksum, sequence order, then the payload
  through the decoders, which must consume it exactly. The end marker must count and checksum what
  was read.
\<close>

section \<open>Opening\<close>

definition journal_reader_policy :: reader_policy where
  "journal_reader_policy =
    \<lparr> rp_truncated = E_PersistenceTruncated, rp_oversized = E_PersistenceCorruption,
      rp_invalid_enum = E_PersistenceCorruption, rp_malformed = E_PersistenceCorruption,
      rp_overflow = E_PersistenceCorruption \<rparr>"

record open_io =
  oi_create :: bool
  oi_read :: bool
  oi_reopen :: bool

definition field_at :: "nat \<Rightarrow> nat \<Rightarrow> bytes \<Rightarrow> 'w::len word" where
  "field_at off width data = be_value (take width (drop off data))"

definition dec_record_payload :: "runtime_limits \<Rightarrow> bytes \<Rightarrow> journal_body result" where
  "dec_record_payload lim payload =
    (case run_state (dec_journal_entry lim) (new_reader journal_reader_policy payload) of
       (Inl err, _) \<Rightarrow> Inl err
     | (Inr body, r) \<Rightarrow> if at_end r then Inr body else Inl E_PersistenceTrailingData)"

text \<open>
  One record: its entry and the bytes it occupies. \<open>previous\<close> is the sequence number of the record
  before, \<open>count\<close> the number of records read so far.
\<close>

definition scan_record :: "runtime_limits \<Rightarrow> bytes \<Rightarrow> u64 \<Rightarrow> u64 \<Rightarrow> (journal_entry \<times> nat) result" where
  "scan_record lim rest previous count =
    (if length rest < kRecordHeaderBytes then Inl E_PersistenceTruncated
     else
       let type_raw = field_at 0 2 rest :: u16;
           flags = field_at 2 2 rest :: u16;
           payload_len = field_at 4 4 rest :: u32;
           sequence = field_at 8 8 rest :: u64;
           payload_crc = field_at 16 4 rest :: u32;
           used = kRecordHeaderBytes + unat payload_len;
           payload = take (unat payload_len) (drop kRecordHeaderBytes rest)
       in if flags \<noteq> 0 then Inl E_PersistenceCorruption
          else if payload_len > kHardMaxJournalRecordBytes then Inl E_PersistenceCorruption
          else if length rest < used then Inl E_PersistenceTruncated
          else if \<not> is_valid_journal_record_type type_raw then Inl E_PersistenceCorruption
          else if crc32 payload \<noteq> payload_crc then Inl E_PersistenceChecksumMismatch
          else if sequence \<le> previous then Inl E_PersistenceCorruption
          else if count \<ge> ucast (max_persisted_records lim) then Inl E_ResourceLimitExceeded
          else map_sum id (\<lambda>body. (\<lparr> je_sequence = sequence, je_body = body \<rparr>, used))
                 (dec_record_payload lim payload))"

lemma map_sum_Inr: "map_sum id f x = Inr y \<longleftrightarrow> (\<exists>v. x = Inr v \<and> y = f v)"
  by (cases x) auto

lemma scan_record_bytes: "scan_record lim rest previous count = Inr (e, used) \<Longrightarrow> 0 < used \<and> used \<le> length rest"
  by (auto simp: scan_record_def Let_def kRecordHeaderBytes_def map_sum_Inr split: if_splits)

text \<open>
  The loop. Entries read before a fault stay in the journal object, as \<open>entries_\<close> does.
\<close>

function scan_records :: "runtime_limits \<Rightarrow> bytes \<Rightarrow> u64 \<Rightarrow> u64 \<Rightarrow> journal_entry list \<times> (u64 \<times> u64) result" where
  "scan_records lim rest previous count =
    (if rest = [] then ([], Inr (previous, count))
     else case scan_record lim rest previous count of
       Inl err \<Rightarrow> ([], Inl err)
     | Inr (e, used) \<Rightarrow>
         (case scan_records lim (drop used rest) (je_sequence e) (count + 1) of
            (es, st) \<Rightarrow> (e # es, st)))"
  by pat_completeness auto
termination
  by (relation "measure (\<lambda>(lim, rest, previous, count). length rest)")
     (auto dest: scan_record_bytes)

declare scan_records.simps [simp del]

text \<open>The state a journal object has before a file is read: \<open>open\<close> resets every field but the file.\<close>

definition reset_journal :: "string \<Rightarrow> runtime_limits \<Rightarrow> journal" where
  "reset_journal path limits = (open_in_memory limits)\<lparr> jn_path := path \<rparr>"

definition journal_load :: "open_io \<Rightarrow> journal \<Rightarrow> bytes \<Rightarrow> journal \<times> status" where
  "journal_load io j raw =
    (let lim = jn_limits j;
         trailer_offset = length raw - kTrailerBytes;
         trailer = drop trailer_offset raw;
         actual_crc = crc32 (take trailer_offset raw)
     in if \<not> oi_read io then (j, Inl E_PersistenceIoError)
        else if length raw > unat (max_persistence_file_bytes lim) then (j, Inl E_ResourceLimitExceeded)
        else if length raw < kHeaderBytes + kTrailerBytes then (j, Inl E_PersistenceTruncated)
        else if take 8 raw \<noteq> kJournalMagic then (j, Inl E_PersistenceBadMagic)
        else if (field_at 8 4 raw :: u32) \<noteq> kJournalFormatVersion then (j, Inl E_PersistenceUnsupportedVersion)
        else if take 8 trailer \<noteq> kTrailerMagic then (j, Inl E_PersistenceTrailingData)
        else if (field_at 16 4 trailer :: u32) \<noteq> actual_crc then (j, Inl E_PersistenceChecksumMismatch)
        else case scan_records lim (drop kHeaderBytes (take trailer_offset raw)) 0 0 of
          (es, Inl err) \<Rightarrow> (j\<lparr> jn_entries := es \<rparr>, Inl err)
        | (es, Inr (final, count)) \<Rightarrow>
            if count \<noteq> field_at 8 8 trailer then (j\<lparr> jn_entries := es \<rparr>, Inl E_PersistenceCorruption)
            else
              (let j1 = j\<lparr> jn_entries := es, jn_valid_end := of_nat trailer_offset,
                     jn_next_sequence := final + 1, jn_running_crc := actual_crc, jn_disk := raw \<rparr>
               in if oi_reopen io then (j1\<lparr> jn_open := True \<rparr>, success)
                  else (j1, Inl E_PersistenceIoError)))"

text \<open>A missing file is established first, then read like any other.\<close>

definition journal_open :: "open_io \<Rightarrow> string \<Rightarrow> runtime_limits \<Rightarrow> bytes option \<Rightarrow> journal \<times> status" where
  "journal_open io path limits file =
    (let j = reset_journal path limits in
     case file of
       Some raw \<Rightarrow> journal_load io j raw
     | None \<Rightarrow>
         if \<not> oi_create io then (j, Inl E_PersistenceIoError)
         else journal_load io (j\<lparr> jn_valid_end := of_nat kHeaderBytes \<rparr>) fresh_journal_file)"

section \<open>Rewriting\<close>

text \<open>
  The rewrite renumbers the entries from 1 in the bytes it writes; the entries in memory keep their
  numbers. The first entry that does not encode stops it before anything is written.
\<close>

fun rewrite_records :: "u64 \<Rightarrow> journal_entry list \<Rightarrow> bytes result" where
  "rewrite_records sequence [] = Inr []"
| "rewrite_records sequence (e # es) =
     (let stored = set_sequence sequence e in
      if \<not> wr_ok (payload_writer stored) then Inl (wr_code (payload_writer stored))
      else map_sum id (\<lambda>rest. journal_record stored @ rest) (rewrite_records (sequence + 1) es))"

record rewrite_io =
  ri_write :: bool
  ri_replace :: bool
  ri_reopen :: bool

definition journal_rewrite_all :: "rewrite_io \<Rightarrow> journal \<Rightarrow> journal \<times> status" where
  "journal_rewrite_all io j =
    (if jn_path j = [] then (j, success)
     else if jn_failed j then (j, Inl E_PersistenceUnavailable)
     else case rewrite_records 1 (jn_entries j) of
       Inl err \<Rightarrow> (j, Inl err)
     | Inr records \<Rightarrow>
         (let body = journal_header @ records;
              content = body @ journal_trailer (of_nat (length (jn_entries j))) (crc32 body)
          in if \<not> ri_write io then (j, Inl E_PersistenceIoError)
             else if \<not> ri_replace io then (j\<lparr> jn_open := False \<rparr>, Inl E_PersistenceIoError)
             else if \<not> ri_reopen io then
               (j\<lparr> jn_open := False, jn_disk := content, jn_failed := True \<rparr>, Inl E_PersistenceIoError)
             else
               (j\<lparr> jn_open := True, jn_disk := content,
                   jn_valid_end := of_nat (length content - kTrailerBytes),
                   jn_running_crc := field_at (length content - 8) 4 content,
                   jn_next_sequence := 1 + of_nat (length (jn_entries j)) \<rparr>, success)))"

section \<open>A healthy image is read back\<close>

definition readable_entry :: "runtime_limits \<Rightarrow> journal_entry \<Rightarrow> bool" where
  "readable_entry lim e \<longleftrightarrow> fits_journal_body lim (je_body e) \<and> wr_ok (payload_writer e)
   \<and> length (wr_buffer (payload_writer e)) \<le> unat kHardMaxJournalRecordBytes"

lemma record_payload_read:
  assumes "readable_entry lim e"
  shows "dec_record_payload lim (wr_buffer (payload_writer e)) = Inr (je_body e)"
proof -
  have e: "e = \<lparr> je_sequence = je_sequence e, je_body = je_body e \<rparr>"
    by simp
  have "run_state (dec_journal_entry lim) (new_reader journal_reader_policy (wr_buffer (payload_writer e) @ [])) =
      (Inr (je_body e), new_reader journal_reader_policy [])"
    using assms journal_body_codec.decode_encoding [of lim "je_body e" "je_sequence e" journal_reader_policy "[]", folded e]
    by (simp add: readable_entry_def payload_writer_def)
  then show ?thesis
    by (simp add: dec_record_payload_def at_end_def new_reader_def)
qed

lemma scan_record_image:
  assumes e: "readable_entry lim e" and "previous < je_sequence e" and "count < ucast (max_persisted_records lim)"
  shows "scan_record lim (journal_record e @ rest) previous count = Inr (e, length (journal_record e))"
proof -
  let ?p = "wr_buffer (payload_writer e)"
  have len: "unat (of_nat (length ?p) :: u32) = length ?p"
    using e unat_less_4294967296 [of kHardMaxJournalRecordBytes] by (simp add: readable_entry_def unat_of_nat)
  have small: "\<not> of_nat (length ?p) > kHardMaxJournalRecordBytes"
    using e len by (simp add: readable_entry_def word_less_nat_alt)
  have fields: "field_at 0 2 (journal_record e @ rest) = journal_record_type (je_body e)"
    "field_at 2 2 (journal_record e @ rest) = (0 :: u16)"
    "field_at 4 4 (journal_record e @ rest) = (of_nat (length ?p) :: u32)"
    "field_at 8 8 (journal_record e @ rest) = je_sequence e"
    "field_at 16 4 (journal_record e @ rest) = crc32 ?p"
    by (simp_all add: field_at_def journal_record_def Let_def)
  have payload: "drop 20 (journal_record e) = ?p"
    by (simp add: journal_record_def Let_def)
  have type: "is_valid_journal_record_type (journal_record_type (je_body e))"
    using e by (auto simp: readable_entry_def intro: fits_body_type)
  show ?thesis
    using assms small type
    by (simp add: scan_record_def Let_def fields len payload record_payload_read record_length
        kRecordHeaderBytes_def not_less not_le)
qed

lemma record_not_nil: "journal_record e \<noteq> []"
  using record_length [of e] by auto

lemma scan_records_image:
  assumes "list_all (readable_entry lim) es" and "sorted_wrt (<) (map je_sequence es)"
    and "\<forall>e \<in> set es. previous < je_sequence e"
    and "unat count + length es \<le> unat (max_persisted_records lim)"
  shows "scan_records lim (concat (map journal_record es)) previous count =
    (es, Inr (if es = [] then previous else je_sequence (List.last es), count + of_nat (length es)))"
  using assms
proof (induction es arbitrary: previous count)
  case Nil
  then show ?case
    by (simp add: scan_records.simps [of _ "[]"])
next
  case (Cons e es)
  let ?rest = "concat (map journal_record es)"
  have "unat count < unat (max_persisted_records lim)"
    using Cons.prems by simp
  then have room: "count < ucast (max_persisted_records lim)"
    by (simp add: word_less_nat_alt unat_ucast_32_64)
  then have succ: "unat (count + 1) = Suc (unat count)"
    using \<open>unat count < _\<close> unat_less_4294967296 [of "max_persisted_records lim"]
    by (intro unat_succ_u64) (auto simp: unsigned_minus_1_eq_mask mask_eq_exp_minus_1)
  have first: "scan_record lim (journal_record e @ ?rest) previous count = Inr (e, length (journal_record e))"
    using Cons.prems room by (intro scan_record_image) auto
  have "scan_records lim ?rest (je_sequence e) (count + 1) =
      (es, Inr (if es = [] then je_sequence e else je_sequence (List.last es), count + 1 + of_nat (length es)))"
    using Cons.prems succ by (intro Cons.IH) auto
  then show ?case
    using first by (subst scan_records.simps) (auto simp: record_not_nil)
qed

definition readable_journal :: "runtime_limits \<Rightarrow> journal_entry list \<Rightarrow> bool" where
  "readable_journal lim es \<longleftrightarrow> list_all (readable_entry lim) es
   \<and> sorted_wrt (<) (map je_sequence es) \<and> (\<forall>e \<in> set es. 0 < je_sequence e)
   \<and> length es \<le> unat (max_persisted_records lim)
   \<and> length (journal_image es) \<le> unat (max_persistence_file_bytes lim)"

definition sequence_after :: "journal_entry list \<Rightarrow> u64" where
  "sequence_after es = (if es = [] then 1 else je_sequence (List.last es) + 1)"

lemma body_bytes_parts:
  "length (journal_body_bytes es) = 16 + length (concat (map journal_record es))"
  "take 8 (journal_body_bytes es) = kJournalMagic"
  "drop 16 (journal_body_bytes es) = concat (map journal_record es)"
  "field_at 8 4 (journal_body_bytes es @ rest) = kJournalFormatVersion"
  by (simp_all add: journal_body_bytes_def journal_header_def kJournalMagic_def field_at_def)

lemma trailer_parts:
  "take 8 (journal_trailer n crc) = kTrailerMagic"
  "field_at 8 8 (journal_trailer n crc) = n"
  "field_at 16 4 (journal_trailer n crc) = crc"
  by (simp_all add: journal_trailer_def kTrailerMagic_def field_at_def)

lemma load_image:
  assumes io: "oi_read io" "oi_reopen io" and es: "readable_journal (jn_limits j) es"
  shows "journal_load io j (journal_image es) =
    (j\<lparr> jn_entries := es, jn_valid_end := of_nat (length (journal_body_bytes es)),
       jn_next_sequence := sequence_after es, jn_running_crc := crc32 (journal_body_bytes es),
       jn_disk := journal_image es, jn_open := True \<rparr>, success)"
proof -
  let ?body = "journal_body_bytes es"
  have split: "take (length ?body) (journal_image es) = ?body"
    "drop (length ?body) (journal_image es) = journal_trailer (of_nat (length es)) (crc32 ?body)"
    and len: "length (journal_image es) = length ?body + 24"
    by (simp_all add: journal_image_def)
  have least: "16 \<le> length ?body"
    by (simp add: body_bytes_parts)
  have head: "take 8 (journal_image es) = kJournalMagic"
    "field_at 8 4 (journal_image es) = kJournalFormatVersion"
    by (simp_all add: journal_image_def body_bytes_parts)
  have "scan_records (jn_limits j) (concat (map journal_record es)) 0 0 =
      (es, Inr (if es = [] then 0 else je_sequence (List.last es), 0 + of_nat (length es)))"
    using es by (intro scan_records_image) (auto simp: readable_journal_def)
  then show ?thesis
    using io es len least
    by (simp add: journal_load_def Let_def kTrailerBytes_def kHeaderBytes_def split head trailer_parts
        body_bytes_parts(3) readable_journal_def sequence_after_def)
qed

lemma open_image:
  assumes "oi_read io" "oi_reopen io" and "readable_journal (clamp_to_hard_ceiling limits) es"
  shows "journal_open io path limits (Some (journal_image es)) =
    ((reset_journal path limits)\<lparr> jn_entries := es, jn_valid_end := of_nat (length (journal_body_bytes es)),
       jn_next_sequence := sequence_after es, jn_running_crc := crc32 (journal_body_bytes es),
       jn_disk := journal_image es, jn_open := True \<rparr>, success)"
  using load_image [of io "reset_journal path limits" es] assms
  by (simp add: journal_open_def reset_journal_def open_in_memory_def)

lemma image_length_bound:
  "length (journal_image es) \<le> unat (max_persistence_file_bytes lim) \<Longrightarrow>
     unat (of_nat (length (journal_body_bytes es)) :: u64) = length (journal_body_bytes es)"
  using unat_less_4294967296 [of "max_persistence_file_bytes lim"]
  by (simp add: journal_image_def unat_of_nat)

lemma open_healthy_image:
  assumes "oi_read io" and "oi_reopen io"
    and "readable_journal (clamp_to_hard_ceiling limits) es"
  shows "\<exists>j. journal_open io path limits (Some (journal_image es)) = (j, Inr ())
    \<and> journal_file_ok j \<and> jn_entries j = es \<and> jn_next_sequence j = sequence_after es"
  using open_image [OF assms] image_length_bound [of es "clamp_to_hard_ceiling limits"] assms(3)
  by (simp add: journal_file_ok_def reset_journal_def open_in_memory_def readable_journal_def)

text \<open>
  C30. A journal survives a restart: opening the file image of a well-formed journal returns exactly its
  entries, a healthy open file, and the sequence number that follows the last record, so that appending
  continues where the previous run stopped.
\<close>

theorem journal_open_image:
  assumes "oi_read io" and "oi_reopen io"
    and "readable_journal (clamp_to_hard_ceiling limits) es"
  shows "\<exists>j. journal_open io path limits (Some (journal_image es)) = (j, Inr ())
    \<and> journal_file_ok j \<and> jn_entries j = es \<and> jn_next_sequence j = sequence_after es"
  by (rule open_healthy_image [OF assms])

definition io_works :: open_io where
  "io_works = \<lparr> oi_create = True, oi_read = True, oi_reopen = True \<rparr>"

definition epoch_entry :: journal_entry where
  "epoch_entry = \<lparr> je_sequence = 1, je_body = JR_EpochEstablished 1 \<rparr>"

lemma epoch_entry_payload:
  "wr_ok (payload_writer epoch_entry)" "length (wr_buffer (payload_writer epoch_entry)) = 10"
  by (simp_all add: epoch_entry_def payload_writer_def enc_journal_entry_def w_seq_def w_u64_def w_u16_def
      w_append_def w_require_def empty_writer_def)

lemma epoch_journal_readable: "readable_journal (clamp_to_hard_ceiling default_limits) [epoch_entry]"
  by (simp add: readable_journal_def readable_entry_def epoch_entry_payload journal_image_def
      journal_body_bytes_def record_length kHardMaxJournalRecordBytes_def)
     (simp add: epoch_entry_def default_limits_def clamp_to_hard_ceiling_def clamp_into_def hard_ceilings)

theorem journal_open_image_witness:
  "\<exists>j. journal_open io_works ''j'' default_limits (Some (journal_image [epoch_entry])) = (j, Inr ())
    \<and> jn_entries j = [epoch_entry]"
  using journal_open_image [of io_works, OF _ _ epoch_journal_readable, of "''j''"] by (auto simp: io_works_def)

text \<open>
  A missing journal is established as an empty one: the file written is the image of no entries, and
  the first record will have sequence number 1.
\<close>

theorem journal_open_fresh:
  assumes "oi_create io" and "oi_read io" and "oi_reopen io"
  shows "\<exists>j. journal_open io path limits None = (j, Inr ())
    \<and> journal_file_ok j \<and> jn_entries j = [] \<and> jn_next_sequence j = 1"
proof -
  let ?lim = "clamp_to_hard_ceiling limits"
  let ?j = "(reset_journal path limits)\<lparr> jn_valid_end := of_nat kHeaderBytes \<rparr>"
  have "1024 \<le> max_persistence_file_bytes ?lim"
    using clamp_into_range [of 1024 1073741824 "max_persistence_file_bytes limits"]
    by (simp add: clamp_to_hard_ceiling_def)
  then have "readable_journal (jn_limits ?j) []"
    by (simp add: readable_journal_def journal_image_def journal_body_bytes_def reset_journal_def
        open_in_memory_def word_le_nat_alt)
  from load_image [OF assms(2,3) this] show ?thesis
    using assms(1)
    by (simp add: journal_open_def Let_def fresh_journal_file_def journal_image_def journal_body_bytes_def
        journal_file_ok_def reset_journal_def open_in_memory_def sequence_after_def)
qed

theorem journal_open_fresh_witness:
  "\<exists>j. journal_open io_works ''j'' default_limits None = (j, Inr ()) \<and> jn_next_sequence j = 1"
  using journal_open_fresh [of io_works "''j''" default_limits] by (auto simp: io_works_def)

section \<open>What an accepted file guarantees\<close>

lemma scan_record_accepts:
  assumes "scan_record lim rest previous count = Inr (e, used)"
  shows "previous < je_sequence e \<and> count < ucast (max_persisted_records lim)"
  using assms by (auto simp: scan_record_def Let_def map_sum_Inr not_le split: if_splits)

lemma scan_records_accepts:
  "scan_records lim rest previous count = (es, Inr (final, n)) \<Longrightarrow>
     unat count \<le> unat (max_persisted_records lim) \<Longrightarrow>
     sorted_wrt (<) (map je_sequence es) \<and> (\<forall>e \<in> set es. previous < je_sequence e)
   \<and> unat count + length es \<le> unat (max_persisted_records lim)
   \<and> n = count + of_nat (length es) \<and> final = (if es = [] then previous else je_sequence (List.last es))"
proof (induction lim rest previous count arbitrary: es rule: scan_records.induct)
  case (1 lim rest previous count)
  show ?case
  proof (cases "rest = []")
    case True
    with 1(2,3) show ?thesis
      by (auto simp: scan_records.simps [of lim "[]"])
  next
    case False
    then obtain e used es1 where first: "scan_record lim rest previous count = Inr (e, used)"
      and rest: "scan_records lim (drop used rest) (je_sequence e) (count + 1) = (es1, Inr (final, n))"
      and es: "es = e # es1"
      using 1(2) by (subst (asm) scan_records.simps) (auto split: sum.splits prod.splits)
    have order: "previous < je_sequence e" and below: "unat count < unat (max_persisted_records lim)"
      using scan_record_accepts [OF first] by (auto simp: word_less_nat_alt)
    then have succ: "unat (count + 1) = Suc (unat count)"
      using unat_less_4294967296 [of "max_persisted_records lim"]
      by (intro unat_succ_u64) (auto simp: unsigned_minus_1_eq_mask mask_eq_exp_minus_1)
    have ih: "sorted_wrt (<) (map je_sequence es1) \<and> (\<forall>x \<in> set es1. je_sequence e < je_sequence x)
        \<and> unat (count + 1) + length es1 \<le> unat (max_persisted_records lim)
        \<and> n = count + 1 + of_nat (length es1)
        \<and> final = (if es1 = [] then je_sequence e else je_sequence (List.last es1))"
      by (rule 1(1) [OF False first]) (use rest succ below in auto)
    then show ?thesis
      using order succ by (auto simp: es intro: less_trans)
  qed
qed

lemma load_accepts:
  assumes "journal_load io j raw = (j', Inr ())"
  shows "\<exists>count final. scan_records (jn_limits j) (drop 16 (take (length raw - 24) raw)) 0 0 = (jn_entries j', Inr (final, count))
    \<and> jn_next_sequence j' = final + 1 \<and> jn_open j' \<and> jn_disk j' = raw \<and> jn_failed j' = jn_failed j
    \<and> length raw \<le> unat (max_persistence_file_bytes (jn_limits j))
    \<and> field_at 8 8 (drop (length raw - 24) raw) = count
    \<and> field_at 16 4 (drop (length raw - 24) raw) = crc32 (take (length raw - 24) raw)"
  using assms
  by (auto simp: journal_load_def Let_def kTrailerBytes_def kHeaderBytes_def split: if_splits prod.splits sum.splits)

text \<open>
  C31. Damage is never silently accepted: when a journal file opens, its end marker carries the checksum
  of everything before it and the number of the records, the records are in strictly increasing sequence
  order and within the configured bounds, and the next record continues after the last.
\<close>

theorem journal_open_sound:
  assumes "journal_open io path limits (Some raw) = (j, Inr ())"
  shows "sorted_wrt (<) (map je_sequence (jn_entries j)) \<and> (\<forall>e \<in> set (jn_entries j). 0 < je_sequence e)
    \<and> length (jn_entries j) \<le> unat (max_persisted_records (clamp_to_hard_ceiling limits))
    \<and> length raw \<le> unat (max_persistence_file_bytes (clamp_to_hard_ceiling limits))
    \<and> field_at 8 8 (drop (length raw - 24) raw) = (of_nat (length (jn_entries j)) :: u64)
    \<and> field_at 16 4 (drop (length raw - 24) raw) = crc32 (take (length raw - 24) raw)
    \<and> jn_next_sequence j = sequence_after (jn_entries j) \<and> jn_open j \<and> \<not> jn_failed j"
proof -
  let ?lim = "clamp_to_hard_ceiling limits"
  have loaded: "journal_load io (reset_journal path limits) raw = (j, Inr ())"
    using assms by (simp add: journal_open_def)
  obtain count final where scan: "scan_records ?lim (drop 16 (take (length raw - 24) raw)) 0 0 = (jn_entries j, Inr (final, count))"
    and rest: "jn_next_sequence j = final + 1" "jn_open j" "\<not> jn_failed j"
      "length raw \<le> unat (max_persistence_file_bytes ?lim)"
      "field_at 8 8 (drop (length raw - 24) raw) = count"
      "field_at 16 4 (drop (length raw - 24) raw) = crc32 (take (length raw - 24) raw)"
    using load_accepts [OF loaded] by (auto simp: reset_journal_def open_in_memory_def)
  show ?thesis
    using scan_records_accepts [OF scan] rest by (auto simp: sequence_after_def)
qed

theorem journal_open_sound_witness:
  "crc32 journal_header = field_at 16 4 (drop 16 fresh_journal_file)"
proof -
  have fresh: "fresh_journal_file = journal_image []"
    by (simp add: fresh_journal_file_def journal_image_def journal_body_bytes_def)
  have "readable_journal (clamp_to_hard_ceiling default_limits) []"
    using epoch_journal_readable
    by (simp add: readable_journal_def journal_image_def journal_body_bytes_def)
  from open_image [of io_works, OF _ _ this, of "''j''"]
  obtain j where "journal_open io_works ''j'' default_limits (Some fresh_journal_file) = (j, Inr ())"
    unfolding fresh by (auto simp: io_works_def)
  from journal_open_sound [OF this] show ?thesis
    by (simp add: fresh_journal_file_def)
qed

section \<open>Rewriting keeps the file\<close>

definition numbered_from :: "u64 \<Rightarrow> journal_entry list \<Rightarrow> bool" where
  "numbered_from n es \<longleftrightarrow> map je_sequence es = map (\<lambda>i. n + of_nat i) [0..<length es]"

text \<open>The entries as the rewrite stores them: the same bodies, numbered from \<open>n\<close>.\<close>

fun renumbered :: "u64 \<Rightarrow> journal_entry list \<Rightarrow> journal_entry list" where
  "renumbered n [] = []"
| "renumbered n (e # es) = \<lparr> je_sequence = n, je_body = je_body e \<rparr> # renumbered (n + 1) es"

lemma renumbered_bodies [simp]: "map je_body (renumbered n es) = map je_body es" "length (renumbered n es) = length es"
  by (induction n es rule: renumbered.induct) simp_all

lemma renumbered_same: "numbered_from n es \<Longrightarrow> renumbered n es = es"
proof (induction es arbitrary: n)
  case (Cons e es)
  have "map (\<lambda>i. n + of_nat i) [0..<Suc (length es)] = n # map (\<lambda>i. n + 1 + of_nat i) [0..<length es]"
    unfolding upt_conv_Cons [OF zero_less_Suc] map_Suc_upt [symmetric] by (simp add: comp_def add.assoc)
  with Cons show ?case
    by (simp add: numbered_from_def)
qed simp

lemma rewrite_records_iff:
  "rewrite_records n es = Inr records \<longleftrightarrow>
     (\<forall>e \<in> set (renumbered n es). wr_ok (payload_writer e)) \<and> records = concat (map journal_record (renumbered n es))"
proof (induction n es arbitrary: records rule: renumbered.induct)
  case (2 n e es)
  have "set_sequence n e = \<lparr> je_sequence = n, je_body = je_body e \<rparr>"
    by (simp add: set_sequence_def)
  with 2 show ?case
    by (auto simp: Let_def map_sum_Inr)
qed auto

text \<open>
  C35. Rewriting is atomic and faithful, for every journal with a file that has not failed, whatever that file
  holds: the file on disk stays exactly as it was unless every entry encodes and both the write of the temporary
  file and the replacement succeed, and is then the image of the entries in memory, numbered from 1; the entries in
  memory never change; the rewrite succeeds exactly when the new file is also reopened, which leaves it healthy (for
  less than 2^64 bytes), appending behind the last record; and a journal whose file was replaced but not reopened
  has failed.
\<close>

theorem rewrite_is_atomic:
  assumes "jn_path j \<noteq> []" and "\<not> jn_failed j"
    and "length (journal_image (renumbered 1 (jn_entries j))) < 2 ^ 64"
    and "journal_rewrite_all io j = (j', r)"
    and encodes: "encodes = (\<forall>e \<in> set (renumbered 1 (jn_entries j)). wr_ok (payload_writer e))"
  shows "jn_entries j' = jn_entries j
    \<and> jn_disk j' = (if encodes \<and> ri_write io \<and> ri_replace io then journal_image (renumbered 1 (jn_entries j)) else jn_disk j)
    \<and> is_ok r = (encodes \<and> ri_write io \<and> ri_replace io \<and> ri_reopen io)
    \<and> jn_failed j' = (encodes \<and> ri_write io \<and> ri_replace io \<and> \<not> ri_reopen io)
    \<and> (is_ok r \<longrightarrow> journal_file_ok (j'\<lparr> jn_entries := renumbered 1 (jn_entries j) \<rparr>)
        \<and> jn_next_sequence j' = 1 + of_nat (length (jn_entries j)))"
proof (cases encodes)
  case False
  then obtain err where "rewrite_records 1 (jn_entries j) = Inl err"
    using rewrite_records_iff [of 1 "jn_entries j"] encodes by (cases "rewrite_records 1 (jn_entries j)") auto
  then show ?thesis
    using assms(1,2,4) False by (auto simp: journal_rewrite_all_def)
next
  case True
  let ?es = "renumbered 1 (jn_entries j)"
  have records: "rewrite_records 1 (jn_entries j) = Inr (concat (map journal_record ?es))"
    using True encodes by (simp add: rewrite_records_iff)
  have len: "length (journal_image ?es) = length (journal_body_bytes ?es) + 24"
    by (simp add: journal_image_def)
  have image: "(journal_header @ concat (map journal_record ?es)) @ journal_trailer (of_nat (length (jn_entries j)))
      (crc32 (journal_header @ concat (map journal_record ?es))) = journal_image ?es"
    by (simp add: journal_image_def journal_body_bytes_def)
  have crc: "field_at (length (journal_image ?es) - 8) 4 (journal_image ?es) = crc32 (journal_body_bytes ?es)"
    by (simp add: len) (simp add: journal_image_def field_at_def journal_trailer_def kTrailerMagic_def)
  have fit: "unat (of_nat (length (journal_body_bytes ?es)) :: u64) = length (journal_body_bytes ?es)"
    using assms(3) len by (simp add: unat_of_nat)
  have ok: "journal_file_ok (j\<lparr> jn_open := True, jn_disk := journal_image ?es,
      jn_valid_end := of_nat (length (journal_image ?es) - kTrailerBytes),
      jn_running_crc := field_at (length (journal_image ?es) - 8) 4 (journal_image ?es),
      jn_next_sequence := 1 + of_nat (length (jn_entries j)), jn_entries := ?es \<rparr>)"
    unfolding journal_file_ok_def crc using fit assms(2) by (simp add: len kTrailerBytes_def)
  have run: "journal_rewrite_all io j =
      (if \<not> ri_write io then (j, Inl E_PersistenceIoError)
       else if \<not> ri_replace io then (j\<lparr> jn_open := False \<rparr>, Inl E_PersistenceIoError)
       else if \<not> ri_reopen io then
         (j\<lparr> jn_open := False, jn_disk := journal_image ?es, jn_failed := True \<rparr>, Inl E_PersistenceIoError)
       else
         (j\<lparr> jn_open := True, jn_disk := journal_image ?es,
             jn_valid_end := of_nat (length (journal_image ?es) - kTrailerBytes),
             jn_running_crc := field_at (length (journal_image ?es) - 8) 4 (journal_image ?es),
             jn_next_sequence := 1 + of_nat (length (jn_entries j)) \<rparr>, success))"
    using assms(1,2) by (simp add: journal_rewrite_all_def records Let_def image del: append_assoc)
  show ?thesis
    using assms(2,4) True ok unfolding run by (cases "ri_write io"; cases "ri_replace io"; cases "ri_reopen io") auto
qed

definition replace_fails :: rewrite_io where
  "replace_fails = \<lparr> ri_write = True, ri_replace = False, ri_reopen = True \<rparr>"

text \<open>A journal whose file has gone wrong keeps that file when the replacement fails, and gets a healthy one otherwise.\<close>

theorem rewrite_is_atomic_witness:
  "jn_disk (fst (journal_rewrite_all replace_fails (sample_journal\<lparr> jn_path := ''j'', jn_disk := [7] \<rparr>))) = [7]
   \<and> jn_disk (fst (journal_rewrite_all (replace_fails\<lparr> ri_replace := True \<rparr>)
        (sample_journal\<lparr> jn_path := ''j'', jn_disk := [7] \<rparr>))) = journal_image []"
proof -
  let ?j = "sample_journal\<lparr> jn_path := ''j'', jn_disk := [7] \<rparr>"
  have none: "jn_entries ?j = []" and ok: "jn_path ?j \<noteq> []" "\<not> jn_failed ?j"
    using sample_journal_ok by (simp_all add: sample_journal_def open_in_memory_def)
  have size: "length (journal_image (renumbered 1 (jn_entries ?j))) < 2 ^ 64"
    by (simp add: none journal_image_def journal_body_bytes_def)
  have disk: "jn_disk (fst (journal_rewrite_all io ?j)) =
      (if ri_write io \<and> ri_replace io then journal_image [] else jn_disk ?j)" for io
    using rewrite_is_atomic [OF ok size surjective_pairing refl, THEN conjunct2, THEN conjunct1, of io]
    unfolding none by simp
  show ?thesis
    unfolding disk by (simp add: replace_fails_def)
qed

end
