(* ===== verification/CF_Sizes.thy ===== *)
theory CF_Sizes
  imports CF_Open
begin

text \<open>
  How much an encoder writes. \<open>writes e n\<close>: on a healthy writer with room for \<open>n\<close> more bytes the
  encoder succeeds and appends at most \<open>n\<close> bytes. The rules follow the shape of the encoders, so the
  bound of a record is computed by resolution. A journal record that fits the limits of the runtime
  always encodes, below the hard record bound of the journal; the one batch record, which the journal
  does not bound by itself, needs short retirement reasons.
\<close>

definition writes :: "(writer \<Rightarrow> writer) \<Rightarrow> nat \<Rightarrow> bool" where
  "writes e n \<longleftrightarrow> (\<forall>w. wr_ok w \<longrightarrow> length (wr_buffer w) + n \<le> 4294967295 \<longrightarrow>
     wr_ok (e w) \<and> length (wr_buffer (e w)) \<le> length (wr_buffer w) + n)"

named_theorems sizes \<open>how much the writers write\<close>

lemma writesD:
  "writes e n \<Longrightarrow> wr_ok w \<Longrightarrow> length (wr_buffer w) + n \<le> 4294967295 \<Longrightarrow>
     wr_ok (e w) \<and> length (wr_buffer (e w)) \<le> length (wr_buffer w) + n"
  by (simp add: writes_def)

lemma writes_mono: "writes e m \<Longrightarrow> m \<le> n \<Longrightarrow> writes e n"
  unfolding writes_def by (meson add_le_mono1 le_trans nat_add_left_cancel_le)

lemma writes_empty: "writes e n \<Longrightarrow> n \<le> 4294967295 \<Longrightarrow>
    wr_ok (e empty_writer) \<and> length (wr_buffer (e empty_writer)) \<le> n"
  using writesD [of e n empty_writer] by (simp add: empty_writer_def)

lemma writes_comp:
  assumes "writes e m" and "writes f n"
  shows "writes (\<lambda>w. f (e w)) (m + n)"
  unfolding writes_def
proof (intro allI impI)
  fix w :: writer
  assume w: "wr_ok w" "length (wr_buffer w) + (m + n) \<le> 4294967295"
  have "wr_ok (e w) \<and> length (wr_buffer (e w)) \<le> length (wr_buffer w) + m"
    using writesD [OF assms(1) w(1)] w(2) by simp
  then show "wr_ok (f (e w)) \<and> length (wr_buffer (f (e w))) \<le> length (wr_buffer w) + (m + n)"
    using writesD [OF assms(2), of "e w"] w(2) by simp
qed

lemma writes_Nil: "writes (w_seq []) 0"
  by (simp add: writes_def w_seq_def)

lemma writes_Cons: "writes e m \<Longrightarrow> writes (w_seq es) n \<Longrightarrow> writes (w_seq (e # es)) (m + n)"
  unfolding w_seq_Cons by (rule writes_comp)

lemma writes_append: "writes (w_append bs) (length bs)"
  by (auto simp: writes_def w_append_def w_require_def Let_def)

lemma writes_ints [sizes]:
  "writes (w_u8 a) 1" "writes (w_u16 b) 2" "writes (w_u32 c) 4" "writes (w_u64 d) 8" "writes (w_boolean e) 1"
  using writes_append [of "[a]"] writes_append [of "be16 b"] writes_append [of "be32 c"]
    writes_append [of "be64 d"] writes_append [of "[if e then 1 else 0]"]
  by (simp_all add: w_u8_def w_u16_def w_u32_def w_u64_def w_boolean_def)

lemma writes_digest [sizes]: "length d = n \<Longrightarrow> writes (w_digest d) n"
  using writes_append [of d] by (auto simp: w_digest_def)

lemma writes_raw: "writes (w_raw bs) (length bs)"
  using writes_append [of bs] by (auto simp: w_raw_def writes_def)

lemma writes_bytes [sizes]: "length v \<le> unat m \<Longrightarrow> length v \<le> n \<Longrightarrow> writes (w_bytes v m) (4 + n)"
  using writes_comp [OF writes_ints(3) writes_raw, of v "of_nat (length v)"]
  by (auto simp: w_bytes_def [abs_def] intro: writes_mono)

lemma writes_string [sizes]: "length v \<le> unat m \<Longrightarrow> length v \<le> n \<Longrightarrow> writes (w_string v m) (4 + n)"
  using writes_comp [OF writes_ints(3) writes_raw, of "string_bytes v" "of_nat (length v)"]
  by (auto simp: w_string_def [abs_def] string_bytes_def intro: writes_mono)

lemma writes_each:
  "(\<And>x. x \<in> set xs \<Longrightarrow> writes (enc x) n) \<Longrightarrow> writes (w_each enc xs) (n * length xs)"
proof (induction xs)
  case Nil
  then show ?case
    by (simp add: writes_def w_each_def)
next
  case (Cons x xs)
  then show ?case
    using writes_comp [of "enc x" n "w_each enc xs" "n * length xs"] by (simp add: w_each_Cons)
qed

lemma writes_count [sizes]: "k \<le> unat m \<Longrightarrow> writes (write_item_count k m) 4"
  using writes_ints(3) [of "of_nat k"] by (auto simp: writes_def write_item_count_def)

lemma writes_id_list [sizes]: "length ids \<le> unat m \<Longrightarrow> length ids \<le> n \<Longrightarrow> writes (write_id_list ids m) (4 + 8 * n)"
  unfolding write_id_list_def
  by (rule writes_mono [OF writes_Cons [OF writes_count writes_Cons [OF writes_each [OF writes_ints(4)] writes_Nil]]])
     auto

lemma writes_role_list [sizes]:
  "length rs \<le> unat m \<Longrightarrow> length rs \<le> n \<Longrightarrow> writes (write_role_list rs m) (4 + 4 * n)"
  unfolding write_role_list_def
  by (rule writes_mono [OF writes_Cons [OF writes_count writes_Cons [OF writes_each [OF writes_ints(3)] writes_Nil]]])
     auto

lemma writes_set:
  assumes "card S \<le> unat m" and "card S \<le> n" and "\<And>x. writes (enc x) 4"
  shows "writes (w_seq [write_item_count (card S) m, w_each enc (sorted_list_of_set S)]) (4 + 4 * n)"
  by (rule writes_mono [OF writes_Cons [OF writes_count writes_Cons [OF writes_each [OF assms(3)] writes_Nil]]])
     (use assms in auto)

section \<open>Records\<close>

definition within_ceilings :: "runtime_limits \<Rightarrow> bool" where
  "within_ceilings lim \<longleftrightarrow> unat (max_metadata_string_bytes lim) \<le> 65536
   \<and> unat (max_target_payload_bytes lim) \<le> 1048576 \<and> unat (max_evidence_payload_bytes lim) \<le> 1048576
   \<and> unat (max_explanation_bytes lim) \<le> 1048576 \<and> unat (max_evidence_per_finding lim) \<le> 4096
   \<and> unat (max_critics_per_review lim) \<le> 256"

lemma clamped_codec_bounds: "within_ceilings (clamp_to_hard_ceiling lim)"
  using clamp_into_range [of 1 65536] clamp_into_range [of 1 1048576] clamp_into_range [of 1 4096]
    clamp_into_range [of 1 256]
  by (simp add: within_ceilings_def clamp_to_hard_ceiling_def hard_ceilings word_le_nat_alt)

lemma writes_fields [sizes]:
  "length v \<le> 65536 \<Longrightarrow> writes (w_string v kHardMaxMetadataBytes) 65540"
  "length v \<le> 1048576 \<Longrightarrow> writes (w_string v kHardMaxPayloadBytes) 1048580"
  "length p \<le> 1048576 \<Longrightarrow> writes (w_bytes p kHardMaxPayloadBytes) 1048580"
  "length ids \<le> 4096 \<Longrightarrow> writes (write_id_list ids kHardMaxFindingsPerReview) 32772"
  using writes_string [of v kHardMaxMetadataBytes 65536] writes_string [of v kHardMaxPayloadBytes 1048576]
    writes_bytes [of p kHardMaxPayloadBytes 1048576] writes_id_list [of ids kHardMaxFindingsPerReview 4096]
  by (simp_all add: hard_ceilings)

lemma writes_sets [sizes]:
  "writes (write_roles R 12) 52" "writes (write_roles R kHardMaxMetadataBytes) 52"
  "writes (write_target_classes T 10) 44" "writes (write_categories C 11) 48"
  using subset_of_all(2) [OF mem_critic_role_all, of R] subset_of_all(2) [OF mem_target_class_all, of T]
    subset_of_all(2) [OF mem_finding_category_all, of C]
    writes_set [of R 12 12, OF _ _ writes_ints(3)] writes_set [of R kHardMaxMetadataBytes 12, OF _ _ writes_ints(3)]
    writes_set [of T 10 10, OF _ _ writes_ints(3)] writes_set [of C 11 11, OF _ _ writes_ints(3)]
  by (simp_all add: write_roles_def write_target_classes_def write_categories_def critic_role_all_def
      target_class_all_def finding_category_all_def hard_ceilings)

lemma writes_digest32: "length d = 32 \<Longrightarrow> writes (w_digest d) 32"
  by (rule writes_digest)

lemmas size_rules = writes_Nil writes_Cons writes_digest32 writes_ints writes_fields writes_sets


lemma writes_compatibility: "fits_compatibility v \<Longrightarrow> writes (enc_compatibility v) 131080"
  by (unfold enc_compatibility_def, rule writes_mono,
      (rule size_rules | simp add: fits_compatibility_def hard_ceilings)+)

lemma writes_target_record: "fits_target_record lim v \<Longrightarrow> within_ceilings lim \<Longrightarrow> writes (enc_target_record v) 1400000"
  by (unfold enc_target_record_def, rule writes_mono,
      (rule size_rules | simp add: fits_target_record_def within_ceilings_def hard_ceilings)+)

lemma writes_critic_capability: "fits_critic_capability v \<Longrightarrow> writes (enc_critic_capability v) 140000"
  by (unfold enc_critic_capability_def, rule writes_mono,
      (rule size_rules | simp add: fits_critic_capability_def within_ceilings_def hard_ceilings)+)

lemma writes_critic_registration: "fits_critic_registration lim v \<Longrightarrow> within_ceilings lim \<Longrightarrow> writes (enc_critic_registration v) 400000"
  by (unfold enc_critic_registration_def, rule writes_mono,
      (rule size_rules writes_compatibility writes_critic_capability | simp add: fits_critic_registration_def within_ceilings_def hard_ceilings)+)

lemma writes_worker_record: "fits_worker_record lim v \<Longrightarrow> within_ceilings lim \<Longrightarrow> writes (enc_worker_record v) 70000"
  by (unfold enc_worker_record_def, rule writes_mono,
      (rule size_rules | simp add: fits_worker_record_def within_ceilings_def hard_ceilings)+)

lemma writes_confidence: "writes (enc_confidence v) 9"
  by (unfold enc_confidence_def, rule writes_mono,
      (rule size_rules | simp)+)

lemma writes_evidence_record: "fits_evidence_record lim v \<Longrightarrow> within_ceilings lim \<Longrightarrow> writes (enc_evidence_record v) 1200000"
  by (unfold enc_evidence_record_def, rule writes_mono,
      (rule size_rules | simp add: fits_evidence_record_def within_ceilings_def hard_ceilings)+)

lemma writes_finding: "fits_finding lim v \<Longrightarrow> within_ceilings lim \<Longrightarrow> writes (enc_finding v) 1300000"
  by (unfold enc_finding_def, rule writes_mono,
      (rule size_rules writes_confidence | simp add: fits_finding_def within_ceilings_def hard_ceilings)+)

lemma writes_challenge: "fits_challenge lim v \<Longrightarrow> within_ceilings lim \<Longrightarrow> writes (enc_challenge v) 1300000"
  by (unfold enc_challenge_def, rule writes_mono,
      (rule size_rules | simp add: fits_challenge_def within_ceilings_def hard_ceilings)+)

lemma writes_rebuttal: "fits_rebuttal lim v \<Longrightarrow> within_ceilings lim \<Longrightarrow> writes (enc_rebuttal v) 1300000"
  by (unfold enc_rebuttal_def, rule writes_mono,
      (rule size_rules | simp add: fits_rebuttal_def within_ceilings_def hard_ceilings)+)

lemma writes_critic_assignment: "fits_critic_assignment lim v \<Longrightarrow> within_ceilings lim \<Longrightarrow> writes (enc_critic_assignment v) 70000"
  by (unfold enc_critic_assignment_def, rule writes_mono,
      (rule size_rules | simp add: fits_critic_assignment_def within_ceilings_def hard_ceilings)+)

lemma writes_decision: "fits_decision v \<Longrightarrow> writes (enc_decision v) 300"
  by (unfold enc_decision_def, rule writes_mono,
      (rule size_rules | simp add: fits_decision_def within_ceilings_def hard_ceilings)+)

lemma writes_finding_state_change: "fits_finding_state_change lim v \<Longrightarrow> within_ceilings lim \<Longrightarrow> writes (enc_finding_state_change v) 70000"
  by (unfold enc_finding_state_change_def, rule writes_mono,
      (rule size_rules | simp add: fits_finding_state_change_def within_ceilings_def hard_ceilings)+)

lemma writes_review_state_change: "fits_review_state_change lim v \<Longrightarrow> within_ceilings lim \<Longrightarrow> writes (enc_review_state_change v) 140000"
  by (unfold enc_review_state_change_def, rule writes_mono,
      (rule size_rules | simp add: fits_review_state_change_def within_ceilings_def hard_ceilings)+)

text \<open>The specification holds bounded lists of fixed-size elements.\<close>

lemma writes_elements:
  "length xs \<le> k \<Longrightarrow> (\<And>x. x \<in> set xs \<Longrightarrow> writes (enc x) n) \<Longrightarrow> writes (w_each enc xs) (n * k)"
  by (rule writes_mono [OF writes_each]) auto

lemma writes_pair_minimum: "writes (case p of (k, n) \<Rightarrow> w_seq [w_u32 (finding_category_code k), w_u32 n]) 8"
  unfolding case_prod_beta by (rule writes_mono, (rule size_rules)+) simp

lemma writes_pair_weight: "writes (case p of (k, n) \<Rightarrow> w_seq [w_u64 k, w_u32 n]) 12"
  unfolding case_prod_beta by (rule writes_mono, (rule size_rules)+) simp

lemma writes_predicate_spec: "writes (enc_predicate_spec p) 9"
  unfolding enc_predicate_spec_def by (rule writes_mono, (rule size_rules)+) simp

lemma writes_policy_table_entry: "writes (enc_policy_table_entry p) 20"
  unfolding enc_policy_table_entry_def by (rule writes_mono, (rule size_rules)+) simp

lemma writes_role_list12: "length rs \<le> 12 \<Longrightarrow> writes (write_role_list rs 12) 52"
  using writes_role_list [of rs 12 12] by simp

lemma writes_spec_lists:
  "length ms \<le> 11 \<Longrightarrow> writes (w_each (\<lambda>(k, n). w_seq [w_u32 (finding_category_code k), w_u32 n]) ms) 88"
  "length cs \<le> 11 \<Longrightarrow> writes (w_each (\<lambda>x. w_u32 (finding_category_code x)) cs) 44"
  "length ws \<le> 256 \<Longrightarrow> writes (w_each (\<lambda>(k, n). w_seq [w_u64 k, w_u32 n]) ws) 3072"
  "length ps \<le> 64 \<Longrightarrow> writes (w_each enc_predicate_spec ps) 576"
  "length ts \<le> 64 \<Longrightarrow> writes (w_each enc_policy_table_entry ts) 1280"
  using writes_elements [of ms 11, OF _ writes_pair_minimum] writes_elements [of cs 11, OF _ writes_ints(3)]
    writes_elements [of ws 256, OF _ writes_pair_weight] writes_elements [of ps 64, OF _ writes_predicate_spec]
    writes_elements [of ts 64, OF _ writes_policy_table_entry]
  by simp_all

lemma writes_review_spec: "fits_review_spec lim v \<Longrightarrow> within_ceilings lim \<Longrightarrow> writes (enc_review_spec v) 71000"
  by (unfold enc_review_spec_def, rule writes_mono,
      (rule size_rules writes_role_list12 writes_count writes_spec_lists
       | simp add: fits_review_spec_def within_ceilings_def hard_ceilings)+)

lemma writes_review_record: "fits_review_record lim v \<Longrightarrow> within_ceilings lim \<Longrightarrow> writes (enc_review_record v) 210000"
  by (unfold enc_review_record_def, rule writes_mono,
      (rule size_rules writes_review_spec [of lim]
       | simp add: fits_review_record_def within_ceilings_def hard_ceilings)+)

section \<open>Journal records\<close>

definition short_batch :: "journal_body \<Rightarrow> bool" where
  "short_batch b \<longleftrightarrow> (case b of
     JR_AssignmentsAdded r g as \<Rightarrow> list_all (\<lambda>a. length (a_retirement_reason a) \<le> 4096) as
   | _ \<Rightarrow> True)"

lemma writes_assignment_short:
  "length (a_retirement_reason a) \<le> 4096 \<Longrightarrow> writes (enc_critic_assignment a) 5000"
  by (unfold enc_critic_assignment_def, rule writes_mono,
      (rule writes_Nil writes_Cons writes_ints writes_string [where n = 4096] | simp add: hard_ceilings)+)

lemma writes_journal_body:
  assumes "fits_journal_body lim b" and "within_ceilings lim" and "short_batch b"
  shows "writes (enc_journal_payload b) 3000000"
proof (cases b)
  case (JR_AssignmentsAdded r g as)
  have "writes (w_each enc_critic_assignment as) (5000 * 256)"
    using assms JR_AssignmentsAdded
    by (intro writes_elements writes_assignment_short)
       (auto simp: within_ceilings_def short_batch_def list_all_iff)
  then show ?thesis
    unfolding JR_AssignmentsAdded enc_journal_payload.simps
    by (rule writes_mono [OF writes_Cons [OF writes_ints(4) writes_Cons [OF writes_ints(4)
          writes_Cons [OF writes_ints(3) writes_Cons [OF _ writes_Nil]]]]]) simp
next
  case (JR_TargetSuperseded p g t)
  then show ?thesis
    using assms writes_target_record [of lim p] writes_target_record [of lim t]
    by (simp, intro writes_mono [OF writes_Cons [OF writes_ints(4) writes_Cons [OF writes_ints(4)
          writes_Cons [OF _ writes_Cons [OF _ writes_Nil]]]]]) auto
next
  case (JR_EpochEstablished e)
  then show ?thesis
    by (simp, intro writes_mono [OF writes_Cons [OF writes_ints(4) writes_Nil]]) simp
qed (use assms in \<open>auto intro: writes_mono [OF writes_target_record] writes_mono [OF writes_critic_registration]
    writes_mono [OF writes_worker_record] writes_mono [OF writes_review_record] writes_mono [OF writes_finding]
    writes_mono [OF writes_finding_state_change] writes_mono [OF writes_evidence_record]
    writes_mono [OF writes_challenge] writes_mono [OF writes_rebuttal] writes_mono [OF writes_review_state_change]
    writes_mono [OF writes_decision] writes_mono [OF writes_critic_assignment]\<close>)

lemma fitting_readable:
  assumes "fits_journal_body (clamp_to_hard_ceiling lim) (je_body e)" and "short_batch (je_body e)"
  shows "readable_entry (clamp_to_hard_ceiling lim) e"
proof -
  have "writes (enc_journal_entry e) (2 + (3000000 + 0))"
    unfolding enc_journal_entry_def
    by (rule writes_Cons [OF writes_ints(2) writes_Cons [OF writes_journal_body [OF assms(1) clamped_codec_bounds assms(2)] writes_Nil]])
  from writes_empty [OF this] show ?thesis
    using assms(1) by (simp add: readable_entry_def payload_writer_def kHardMaxJournalRecordBytes_def)
qed

text \<open>
  Whatever fits is journalled and read back: a journal body that fits the clamped limits encodes
  without an error, its record stays below the hard record bound, and the scan of the file accepts it as
  the very entry that was appended.
\<close>

theorem fitting_record_is_readable:
  assumes "fits_journal_body (clamp_to_hard_ceiling lim) (je_body e)" and "short_batch (je_body e)"
    and "previous < je_sequence e" and "count < ucast (max_persisted_records (clamp_to_hard_ceiling lim))"
  shows "wr_ok (payload_writer e)
    \<and> scan_record (clamp_to_hard_ceiling lim) (journal_record e @ rest) previous count
        = Inr (e, length (journal_record e))"
  using fitting_readable [OF assms(1,2)] assms(3,4) by (simp add: scan_record_image readable_entry_def)

theorem fitting_record_is_readable_witness:
  "scan_record (clamp_to_hard_ceiling default_limits) (journal_record epoch_entry @ [7]) 0 0 =
     Inr (epoch_entry, length (journal_record epoch_entry))"
proof -
  have "fits_journal_body (clamp_to_hard_ceiling default_limits) (je_body epoch_entry)"
    "short_batch (je_body epoch_entry)" "0 < je_sequence epoch_entry"
    by (simp_all add: epoch_entry_def short_batch_def)
  moreover have "(0 :: u64) < ucast (max_persisted_records (clamp_to_hard_ceiling default_limits))"
    by (simp add: clamp_to_hard_ceiling_def clamp_into_def default_limits_def hard_ceilings)
  ultimately show ?thesis
    using fitting_record_is_readable [of default_limits epoch_entry 0 0 "[7]"] by blast
qed

end
