(* ===== verification/CF_Policy.thy ===== *)
theory CF_Policy
  imports CF_Content CF_Limits
begin

text \<open>
  Review policy semantics (\<open>src/policy.cpp\<close>): the weight a critic carries, the effective form of a
  predicate, the summary line, the built-in specification and the validation every declared
  specification passes. \<open>admissible_spec\<close> states what validation promises the rest of the
  program; \<open>validate_review_spec\<close> is the code.
\<close>

section \<open>Queries on a specification\<close>

definition weight_of :: "review_spec \<Rightarrow> critic_id \<Rightarrow> u32" where
  "weight_of spec critic =
    (case om_get (sp_critic_weights spec) critic of
       None \<Rightarrow> if sp_default_weight spec = 0 then 1 else sp_default_weight spec
     | Some w \<Rightarrow> if w = 0 then 1 else w)"

definition is_required_role :: "review_spec \<Rightarrow> critic_role \<Rightarrow> bool" where
  "is_required_role spec role \<longleftrightarrow> List.member (sp_required_roles spec) role"

fun find_predicate :: "predicate_kind \<Rightarrow> predicate_spec list \<Rightarrow> predicate_spec option" where
  "find_predicate kind [] = None"
| "find_predicate kind (p # ps) = (if ps_kind p = kind then Some p else find_predicate kind ps)"

definition effective_predicate :: "review_spec \<Rightarrow> predicate_kind \<Rightarrow> predicate_spec" where
  "effective_predicate spec kind =
    (case find_predicate kind (sp_predicates spec) of
       Some p \<Rightarrow> p
     | None \<Rightarrow> \<lparr> ps_kind = kind, ps_mandatory = False, ps_parameter = 0 \<rparr>)"

fun join_comma :: "string list \<Rightarrow> string" where
  "join_comma [] = ''''"
| "join_comma [s] = s"
| "join_comma (s # t # ss) = s @ '','' @ join_comma (t # ss)"

definition bool_text :: "bool \<Rightarrow> string" where
  "bool_text b = (if b then ''true'' else ''false'')"

definition summarize :: "review_spec \<Rightarrow> string" where
  "summarize spec =
     ''spec='' @ sp_name spec
     @ '' aggregation='' @ aggregation_policy_name (sp_aggregation spec)
     @ '' quorum='' @ dec32 (sp_quorum spec)
     @ '' min_critics='' @ dec32 (sp_min_critic_count spec)
     @ '' required_critics='' @ dec32 (sp_required_critic_count spec)
     @ '' required_roles=['' @ join_comma (map critic_role_name (sp_required_roles spec))
     @ ''] fail_threshold='' @ severity_name (sp_fail_threshold spec)
     @ '' unknown_counts_as_failure='' @ bool_text (sp_unknown_counts_as_failure spec)
     @ '' disagreement='' @ disagreement_policy_name (sp_disagreement spec)
     @ '' duplicates='' @ duplicate_policy_name (sp_duplicates spec)
     @ '' confidence_authority=false''"

section \<open>The built-in specification\<close>

definition mk_predicate :: "predicate_kind \<Rightarrow> u32 \<Rightarrow> predicate_spec" where
  "mk_predicate kind parameter = \<lparr> ps_kind = kind, ps_mandatory = True, ps_parameter = parameter \<rparr>"

definition default_predicates :: "predicate_spec list" where
  "default_predicates =
    [mk_predicate Pred_ExactTargetGenerationMatch 0,
     mk_predicate Pred_TargetDigestMatch 0,
     mk_predicate Pred_RequiredEvidencePresent 1,
     mk_predicate Pred_EvidenceIntegrityVerified 0,
     mk_predicate Pred_EvidenceProvenanceKnown 0,
     mk_predicate Pred_RequiredRolePresent 0,
     mk_predicate Pred_MinimumIndependentCriticIdentities 1,
     mk_predicate Pred_RequiredVerifierPass 0,
     mk_predicate Pred_NoCriticalFailFindings 0,
     mk_predicate Pred_CriticGenerationCurrent 0,
     mk_predicate Pred_WorkerBootCurrent 0,
     mk_predicate Pred_CoordinatorEpochCurrent 0,
     mk_predicate Pred_RequiredCategoriesCovered 0,
     mk_predicate Pred_QuorumSatisfied 0,
     mk_predicate Pred_ConfidenceNotAuthoritative 0]"

definition default_review_spec :: review_spec where
  "default_review_spec =
    \<lparr> sp_name = ''critic-fabric-default'',
      sp_required_roles = [Role_GeneralCritic],
      sp_optional_roles = [],
      sp_roles_that_must_pass = {},
      sp_min_critic_count = 1,
      sp_required_critic_count = 1,
      sp_quorum = 1,
      sp_required_min_categories = [],
      sp_required_finding_categories = [],
      sp_max_critical_fails = 0,
      sp_allow_abstention = True,
      sp_allow_partial_failure = False,
      sp_fail_threshold = Sev_Critical,
      sp_warn_threshold = Sev_Medium,
      sp_warn_counts_as_failure = False,
      sp_unknown_counts_as_failure = False,
      sp_aggregation = Agg_AllRequiredPass,
      sp_disagreement = Dis_ReportAndFail,
      sp_disagreement_threshold_fail = 1,
      sp_duplicates = Dup_Reject,
      sp_challenges = ChP_AllowOneRound,
      sp_max_challenge_rounds = 1,
      sp_max_review_rounds = 3,
      sp_max_critic_retries = 1,
      sp_critic_weights = [],
      sp_default_weight = 1,
      sp_predicates = default_predicates,
      sp_policy_table = [],
      sp_consensus_threshold_basis_points = 6700,
      sp_confidence_has_authority = False,
      sp_deterministic_decision_required = True,
      sp_persist_findings = True,
      sp_persist_evidence_metadata = True,
      sp_persist_evidence_payload = False,
      sp_reopen_on_recovery = False \<rparr>"

section \<open>Validation\<close>

text \<open>The guards of \<open>validate_review_spec\<close> in source order; every rejection has one code.\<close>

fun validate_policy_table :: "policy_table_entry list \<Rightarrow> status" where
  "validate_policy_table [] = success"
| "validate_policy_table (e # es) =
     (if \<not> is_valid_finding_outcome (finding_outcome_code (pt_outcome e)) then Inl E_PolicyRejected
      else if severity_rank (pt_min_severity e) > severity_rank (pt_max_severity e)
        then Inl E_PolicyRejected
      else if pt_min_count e = 0 then Inl E_PolicyRejected
      else validate_policy_table es)"

fun validate_weights :: "(critic_id, u32) omap \<Rightarrow> status" where
  "validate_weights [] = success"
| "validate_weights ((k, w) # es) =
     (if \<not> id_valid k then Inl E_PolicyRejected
      else if w = 0 then Inl E_PolicyRejected
      else validate_weights es)"

fun validate_predicates :: "predicate_spec list \<Rightarrow> status" where
  "validate_predicates [] = success"
| "validate_predicates (p # ps) =
     (if \<not> is_valid_predicate_kind (predicate_kind_code (ps_kind p)) then Inl E_PolicyRejected
      else validate_predicates ps)"

definition validate_spec_scalars :: "review_spec \<Rightarrow> status" where
  "validate_spec_scalars spec = first_error
    [(sp_name spec = [], E_PolicyRejected),
     (length (sp_name spec) > unat kHardMaxMetadataBytes, E_PolicyRejected),
     (sp_min_critic_count spec = 0, E_PolicyRejected),
     (sp_required_critic_count spec > sp_min_critic_count spec, E_PolicyRejected),
     (sp_quorum spec > sp_min_critic_count spec, E_PolicyRejected),
     (sp_required_critic_count spec > 0 \<and> sp_required_roles spec = []
        \<and> sp_required_finding_categories spec = [] \<and> sp_required_min_categories spec = [],
      E_PolicyRejected),
     (sp_max_review_rounds spec = 0, E_PolicyRejected),
     (sp_max_review_rounds spec > kHardMaxReviewRounds, E_PolicyRejected),
     (sp_max_critic_retries spec > kHardMaxRetries, E_PolicyRejected),
     (sp_challenges spec = ChP_Disabled \<and> sp_max_challenge_rounds spec \<noteq> 0, E_PolicyRejected),
     (sp_challenges spec = ChP_AllowOneRound \<and> sp_max_challenge_rounds spec \<noteq> 1,
      E_PolicyRejected),
     (sp_challenges spec = ChP_AllowBoundedRounds \<and> sp_max_challenge_rounds spec = 0,
      E_PolicyRejected),
     (sp_challenges spec \<noteq> ChP_AllowBoundedRounds \<and> sp_max_challenge_rounds spec > 1,
      E_PolicyRejected),
     (sp_confidence_has_authority spec, E_PolicyRejected),
     (sp_consensus_threshold_basis_points spec > 10000, E_PolicyRejected),
     (sp_aggregation spec = Agg_ConsensusThreshold
        \<and> sp_consensus_threshold_basis_points spec = 0, E_PolicyRejected),
     (sp_aggregation spec = Agg_PolicyTable \<and> sp_policy_table spec = [], E_PolicyRejected),
     (sp_default_weight spec = 0, E_PolicyRejected)]"

definition validate_review_spec :: "review_spec \<Rightarrow> status" where
  "validate_review_spec spec =
    result_bind (validate_spec_scalars spec) (\<lambda>_.
    result_bind (validate_weights (sp_critic_weights spec)) (\<lambda>_.
    result_bind (validate_predicates (sp_predicates spec)) (\<lambda>_.
    result_bind (validate_policy_table (sp_policy_table spec)) (\<lambda>_.
    if length (sp_predicates spec) > 64 then Inl E_PolicyRejected else success))))"

section \<open>What validation promises\<close>

definition admissible_table_row :: "policy_table_entry \<Rightarrow> bool" where
  "admissible_table_row e \<longleftrightarrow>
     severity_rank (pt_min_severity e) \<le> severity_rank (pt_max_severity e) \<and> 1 \<le> pt_min_count e"

definition admissible_spec :: "review_spec \<Rightarrow> bool" where
  "admissible_spec spec \<longleftrightarrow>
     sp_name spec \<noteq> [] \<and> length (sp_name spec) \<le> 65536
   \<and> 1 \<le> sp_min_critic_count spec
   \<and> sp_required_critic_count spec \<le> sp_min_critic_count spec
   \<and> sp_quorum spec \<le> sp_min_critic_count spec
   \<and> (0 < sp_required_critic_count spec \<longrightarrow>
        sp_required_roles spec \<noteq> [] \<or> sp_required_finding_categories spec \<noteq> []
          \<or> sp_required_min_categories spec \<noteq> [])
   \<and> 1 \<le> sp_max_review_rounds spec \<and> sp_max_review_rounds spec \<le> 64
   \<and> sp_max_critic_retries spec \<le> 16
   \<and> (case sp_challenges spec of
        ChP_Disabled \<Rightarrow> sp_max_challenge_rounds spec = 0
      | ChP_AllowOneRound \<Rightarrow> sp_max_challenge_rounds spec = 1
      | ChP_AllowBoundedRounds \<Rightarrow> 1 \<le> sp_max_challenge_rounds spec)
   \<and> \<not> sp_confidence_has_authority spec
   \<and> sp_consensus_threshold_basis_points spec \<le> 10000
   \<and> (sp_aggregation spec = Agg_ConsensusThreshold \<longrightarrow>
        1 \<le> sp_consensus_threshold_basis_points spec)
   \<and> (sp_aggregation spec = Agg_PolicyTable \<longrightarrow> sp_policy_table spec \<noteq> [])
   \<and> 1 \<le> sp_default_weight spec
   \<and> (\<forall>(k, w) \<in> set (sp_critic_weights spec). id_valid k \<and> 1 \<le> w)
   \<and> (\<forall>e \<in> set (sp_policy_table spec). admissible_table_row e)
   \<and> length (sp_predicates spec) \<le> 64"

lemma u32_one_le: "(1 :: u32) \<le> x \<longleftrightarrow> x \<noteq> 0"
  by (simp add: word_le_nat_alt Suc_le_eq unat_gt_0)

lemma finding_outcome_code_valid [simp]: "is_valid_finding_outcome (finding_outcome_code v)"
  unfolding is_valid_finding_outcome_def finding_outcome.valid_iff by blast

lemma predicate_kind_code_valid [simp]: "is_valid_predicate_kind (predicate_kind_code v)"
  unfolding is_valid_predicate_kind_def predicate_kind.valid_iff by blast

lemma validate_weights_ok:
  "validate_weights ws = Inr () \<longleftrightarrow> (\<forall>(k, w) \<in> set ws. id_valid k \<and> 1 \<le> w)"
  by (induction ws rule: validate_weights.induct) (auto simp: u32_one_le)

lemma validate_table_ok:
  "validate_policy_table es = Inr () \<longleftrightarrow> (\<forall>e \<in> set es. admissible_table_row e)"
  by (induction es rule: validate_policy_table.induct)
     (auto simp: u32_one_le admissible_table_row_def)

lemma validate_predicates_ok [simp]: "validate_predicates ps = Inr ()"
  by (induction ps rule: validate_predicates.induct) auto

lemma unit_result_cases: "(r = Inr ()) \<or> (\<exists>e. r = (Inl e :: status))"
  by (cases r) auto

lemma bind_status_ok: "result_bind r f = Inr v \<longleftrightarrow> (r :: status) = Inr () \<and> f () = Inr v"
  by (cases r) auto

lemma rejects_with_policy_rejected:
  "validate_spec_scalars spec = Inl e \<Longrightarrow> e = E_PolicyRejected"
  unfolding validate_spec_scalars_def by (drule first_error_Inl) auto

lemma validation_contract: "is_ok (validate_review_spec spec) = admissible_spec spec"
proof -
  have scalars: "validate_spec_scalars spec = Inr () \<longleftrightarrow>
     sp_name spec \<noteq> [] \<and> length (sp_name spec) \<le> 65536
   \<and> 1 \<le> sp_min_critic_count spec
   \<and> sp_required_critic_count spec \<le> sp_min_critic_count spec
   \<and> sp_quorum spec \<le> sp_min_critic_count spec
   \<and> (0 < sp_required_critic_count spec \<longrightarrow>
        sp_required_roles spec \<noteq> [] \<or> sp_required_finding_categories spec \<noteq> []
          \<or> sp_required_min_categories spec \<noteq> [])
   \<and> 1 \<le> sp_max_review_rounds spec \<and> sp_max_review_rounds spec \<le> 64
   \<and> sp_max_critic_retries spec \<le> 16
   \<and> (case sp_challenges spec of
        ChP_Disabled \<Rightarrow> sp_max_challenge_rounds spec = 0
      | ChP_AllowOneRound \<Rightarrow> sp_max_challenge_rounds spec = 1
      | ChP_AllowBoundedRounds \<Rightarrow> 1 \<le> sp_max_challenge_rounds spec)
   \<and> \<not> sp_confidence_has_authority spec
   \<and> sp_consensus_threshold_basis_points spec \<le> 10000
   \<and> (sp_aggregation spec = Agg_ConsensusThreshold \<longrightarrow>
        1 \<le> sp_consensus_threshold_basis_points spec)
   \<and> (sp_aggregation spec = Agg_PolicyTable \<longrightarrow> sp_policy_table spec \<noteq> [])
   \<and> 1 \<le> sp_default_weight spec"
    unfolding validate_spec_scalars_def first_error_Inr hard_ceilings
    by (cases "sp_challenges spec") (auto simp: u32_one_le not_less)
  show ?thesis
    unfolding is_ok_iff validate_review_spec_def admissible_spec_def
    by (auto simp: bind_status_ok validate_weights_ok validate_table_ok scalars)
qed

text \<open>
  C37. Validation is exactly the admissibility contract: a specification is accepted if and only if
  every bound of the contract holds, so no inadmissible policy ever reaches a review and no
  admissible one is refused.
\<close>

theorem validate_review_spec_iff: "is_ok (validate_review_spec spec) = admissible_spec spec"
  by (rule validation_contract)

lemma default_review_spec_admissible: "admissible_spec default_review_spec"
  by (simp add: admissible_spec_def default_review_spec_def default_predicates_def)

text \<open>
  Under an accepted specification the zero-weight fallbacks of \<open>weight_of\<close> are never taken:
  the weight is the declared one, or the declared default, and is at least one.
\<close>

theorem admissible_weight_of:
  assumes "is_ok (validate_review_spec spec)"
  shows "weight_of spec critic =
      (case om_get (sp_critic_weights spec) critic of
         None \<Rightarrow> sp_default_weight spec | Some w \<Rightarrow> w)
    \<and> 1 \<le> weight_of spec critic"
proof -
  from assms have adm: "admissible_spec spec"
    by (simp add: validation_contract)
  then have default: "1 \<le> sp_default_weight spec"
    and entry: "\<And>w. om_get (sp_critic_weights spec) critic = Some w \<Longrightarrow> 1 \<le> w"
    by (auto simp: admissible_spec_def dest!: om_get_Some_mem)
  then show ?thesis
    by (auto simp: weight_of_def u32_one_le split: option.splits)
qed

theorem admissible_weight_of_witness:
  "weight_of (default_review_spec\<lparr> sp_default_weight := 3 \<rparr>) 9 = 3"
proof -
  have "is_ok (validate_review_spec (default_review_spec\<lparr> sp_default_weight := 3 \<rparr>))"
    by (simp add: validation_contract admissible_spec_def default_review_spec_def default_predicates_def)
  from admissible_weight_of [OF this, of 9] show ?thesis
    by (simp add: default_review_spec_def)
qed

end
