(* ===== verification/CF_Explain.thy ===== *)
theory CF_Explain
  imports CF_Policy
begin

text \<open>
  Explanations (\<open>include/critic_fabric/explanation.hpp\<close>, \<open>src/explain.cpp\<close>): the record an
  evaluation fills in, its canonical digest and its text rendering. The digest covers the meaning of
  an explanation and deliberately leaves out the lifecycle state, the text of the notes and the
  per-critic disagreement lists.
\<close>

section \<open>Records\<close>

record predicate_evaluation =
  pe_kind :: predicate_kind
  pe_mandatory :: bool
  pe_satisfied :: bool
  pe_parameter :: u32
  pe_detail :: string

record critic_contribution =
  cc_critic :: critic_id
  cc_critic_generation :: critic_generation
  cc_worker :: worker_id
  cc_worker_boot :: worker_boot_id
  cc_role :: critic_role
  cc_required :: bool
  cc_decisive :: bool
  cc_finding :: finding_id
  cc_outcome :: finding_outcome
  cc_severity :: severity
  cc_weight :: u32
  cc_note :: string

record quorum_report =
  q_min_critic_count :: u32
  q_required_critic_count :: u32
  q_quorum :: u32
  q_distinct_decisive_critics :: u32
  q_distinct_abstaining_critics :: u32
  q_distinct_unknown_critics :: u32
  q_required_roles_decisive :: u32
  q_uncovered_required_roles :: "critic_role list"
  q_satisfied :: bool
  q_basis :: string

record disagreement_report =
  dg_present :: bool
  dg_pass_critics :: "critic_id list"
  dg_fail_critics :: "critic_id list"
  dg_warn_critics :: "critic_id list"
  dg_abstaining_critics :: "critic_id list"
  dg_unknown_critics :: "critic_id list"
  dg_inconclusive_critics :: "critic_id list"
  dg_missing_critics :: "critic_id list"
  dg_failed_critics :: "critic_id list"
  dg_conflicting_pairs :: "string list"
  dg_disagreeing_critic_count :: u32
  dg_policy_threshold :: u32
  dg_disposition :: review_disposition

record explanation =
  ex_review :: review_id
  ex_review_generation :: review_generation
  ex_target :: target_id
  ex_target_generation :: target_generation
  ex_target_digest :: digest
  ex_target_generation_value :: u32
  ex_state :: review_state
  ex_disposition :: review_disposition
  ex_epoch :: coordinator_epoch
  ex_contributors :: "critic_contribution list"
  ex_predicates :: "predicate_evaluation list"
  ex_quorum :: quorum_report
  ex_disagreement :: disagreement_report
  ex_current_findings :: "finding_id list"
  ex_superseded_findings :: "finding_id list"
  ex_invalidated_findings :: "finding_id list"
  ex_excluded_findings :: "finding_id list"
  ex_exclusion_reasons :: "(finding_id, string) omap"
  ex_evidence_used :: "evidence_id list"
  ex_pass_count :: u32
  ex_fail_count :: u32
  ex_warn_count :: u32
  ex_abstain_count :: u32
  ex_unknown_count :: u32
  ex_not_applicable_count :: u32
  ex_inconclusive_count :: u32
  ex_max_severity :: severity
  ex_critical_fail_count :: u32
  ex_challenges :: "challenge_id list"
  ex_unresolved_challenges :: "challenge_id list"
  ex_policy_digest :: digest
  ex_explanation_digest :: digest
  ex_decision :: decision_id
  ex_decision_generation :: decision_generation
  ex_policy_result :: string
  ex_notes :: "string list"

section \<open>Initial values\<close>

text \<open>The member initialisers of the structs.\<close>

definition empty_quorum_report :: quorum_report where
  "empty_quorum_report =
    \<lparr> q_min_critic_count = 0, q_required_critic_count = 0, q_quorum = 0,
      q_distinct_decisive_critics = 0, q_distinct_abstaining_critics = 0,
      q_distinct_unknown_critics = 0, q_required_roles_decisive = 0,
      q_uncovered_required_roles = [], q_satisfied = False, q_basis = [] \<rparr>"

definition empty_disagreement_report :: disagreement_report where
  "empty_disagreement_report =
    \<lparr> dg_present = False, dg_pass_critics = [], dg_fail_critics = [], dg_warn_critics = [],
      dg_abstaining_critics = [], dg_unknown_critics = [], dg_inconclusive_critics = [],
      dg_missing_critics = [], dg_failed_critics = [], dg_conflicting_pairs = [],
      dg_disagreeing_critic_count = 0, dg_policy_threshold = 0, dg_disposition = RD_None \<rparr>"

definition empty_explanation :: explanation where
  "empty_explanation =
    \<lparr> ex_review = 0, ex_review_generation = 0, ex_target = 0, ex_target_generation = 0,
      ex_target_digest = zero_digest, ex_target_generation_value = 0, ex_state = RS_Declared,
      ex_disposition = RD_None, ex_epoch = 0, ex_contributors = [], ex_predicates = [],
      ex_quorum = empty_quorum_report, ex_disagreement = empty_disagreement_report,
      ex_current_findings = [], ex_superseded_findings = [], ex_invalidated_findings = [],
      ex_excluded_findings = [], ex_exclusion_reasons = [], ex_evidence_used = [],
      ex_pass_count = 0, ex_fail_count = 0, ex_warn_count = 0, ex_abstain_count = 0,
      ex_unknown_count = 0, ex_not_applicable_count = 0, ex_inconclusive_count = 0,
      ex_max_severity = Sev_Info, ex_critical_fail_count = 0, ex_challenges = [],
      ex_unresolved_challenges = [], ex_policy_digest = zero_digest,
      ex_explanation_digest = zero_digest, ex_decision = 0, ex_decision_generation = 0,
      ex_policy_result = [], ex_notes = [] \<rparr>"

section \<open>The canonical digest\<close>

definition kExplanationEncodingVersion :: u32 where
  "kExplanationEncodingVersion = 1"

definition w_counted_ids :: "u64 list \<Rightarrow> writer \<Rightarrow> writer" where
  "w_counted_ids ids = w_seq [w_u32 (of_nat (length ids)), w_each w_u64 ids]"

definition w_contribution :: "critic_contribution \<Rightarrow> writer \<Rightarrow> writer" where
  "w_contribution c = w_seq
    [w_u64 (cc_critic c),
     w_u64 (cc_critic_generation c),
     w_u64 (cc_worker c),
     w_u64 (cc_worker_boot c),
     w_u32 (critic_role_code (cc_role c)),
     w_boolean (cc_required c),
     w_boolean (cc_decisive c),
     w_u64 (cc_finding c),
     w_u32 (finding_outcome_code (cc_outcome c)),
     w_u32 (severity_code (cc_severity c)),
     w_u32 (cc_weight c),
     w_string (cc_note c) kHardMaxMetadataBytes]"

definition w_predicate_evaluation :: "predicate_evaluation \<Rightarrow> writer \<Rightarrow> writer" where
  "w_predicate_evaluation p = w_seq
    [w_u32 (predicate_kind_code (pe_kind p)),
     w_boolean (pe_mandatory p),
     w_boolean (pe_satisfied p),
     w_u32 (pe_parameter p),
     w_string (pe_detail p) kHardMaxMetadataBytes]"

definition w_quorum_report :: "quorum_report \<Rightarrow> writer \<Rightarrow> writer" where
  "w_quorum_report q = w_seq
    [w_u32 (q_min_critic_count q),
     w_u32 (q_required_critic_count q),
     w_u32 (q_quorum q),
     w_u32 (q_distinct_decisive_critics q),
     w_u32 (q_distinct_abstaining_critics q),
     w_u32 (q_distinct_unknown_critics q),
     w_u32 (q_required_roles_decisive q),
     w_boolean (q_satisfied q),
     w_u32 (of_nat (length (q_uncovered_required_roles q))),
     w_each (\<lambda>r. w_u32 (critic_role_code r)) (q_uncovered_required_roles q)]"

definition w_disagreement_report :: "disagreement_report \<Rightarrow> writer \<Rightarrow> writer" where
  "w_disagreement_report d = w_seq
    [w_boolean (dg_present d),
     w_u32 (dg_disagreeing_critic_count d),
     w_u32 (dg_policy_threshold d),
     w_u32 (review_disposition_code (dg_disposition d))]"

definition w_exclusion :: "(finding_id, string) omap \<Rightarrow> finding_id \<Rightarrow> writer \<Rightarrow> writer" where
  "w_exclusion reasons i = w_seq
    [w_u64 i,
     w_string (case om_get reasons i of None \<Rightarrow> [] | Some r \<Rightarrow> r) kHardMaxMetadataBytes]"

definition compute_explanation_digest :: "hash_fun \<Rightarrow> explanation \<Rightarrow> digest" where
  "compute_explanation_digest H ex = hash_writes H
    [w_u32 (content_digest_domain_code CD_Explanation),
     w_u32 kExplanationEncodingVersion,
     w_u64 (ex_review ex),
     w_u64 (ex_review_generation ex),
     w_u64 (ex_target ex),
     w_u64 (ex_target_generation ex),
     w_digest (ex_target_digest ex),
     w_u32 (review_disposition_code (ex_disposition ex)),
     w_u64 (ex_epoch ex),
     w_digest (ex_policy_digest ex),
     w_string (ex_policy_result ex) kHardMaxMetadataBytes,
     w_u32 (of_nat (length (ex_contributors ex))),
     w_each w_contribution (ex_contributors ex),
     w_u32 (of_nat (length (ex_predicates ex))),
     w_each w_predicate_evaluation (ex_predicates ex),
     w_quorum_report (ex_quorum ex),
     w_disagreement_report (ex_disagreement ex),
     w_counted_ids (ex_current_findings ex),
     w_counted_ids (ex_superseded_findings ex),
     w_counted_ids (ex_invalidated_findings ex),
     w_u32 (of_nat (length (ex_excluded_findings ex))),
     w_each (w_exclusion (ex_exclusion_reasons ex)) (ex_excluded_findings ex),
     w_counted_ids (ex_evidence_used ex),
     w_u32 (ex_pass_count ex),
     w_u32 (ex_fail_count ex),
     w_u32 (ex_warn_count ex),
     w_u32 (ex_abstain_count ex),
     w_u32 (ex_unknown_count ex),
     w_u32 (ex_not_applicable_count ex),
     w_u32 (ex_inconclusive_count ex),
     w_u32 (ex_critical_fail_count ex),
     w_u32 (severity_code (ex_max_severity ex)),
     w_counted_ids (ex_challenges ex),
     w_counted_ids (ex_unresolved_challenges ex),
     w_u64 (ex_decision ex),
     w_u64 (ex_decision_generation ex)]"

lemma explanation_digest_frame:
  "compute_explanation_digest H (ex\<lparr> ex_state := s \<rparr>) = compute_explanation_digest H ex"
  "compute_explanation_digest H (ex\<lparr> ex_notes := ns \<rparr>) = compute_explanation_digest H ex"
  "compute_explanation_digest H (ex\<lparr> ex_explanation_digest := d \<rparr>) = compute_explanation_digest H ex"
  by (simp_all add: compute_explanation_digest_def)

section \<open>Rendering\<close>

definition newline :: string where
  "newline = [CHR 0x0A]"

definition append_kv :: "string \<Rightarrow> string \<Rightarrow> string" where
  "append_kv key text = ''  '' @ key @ '': '' @ text @ newline"

definition append_kv32 :: "string \<Rightarrow> u32 \<Rightarrow> string" where
  "append_kv32 key n = append_kv key (dec32 n)"

definition append_kv64 :: "string \<Rightarrow> u64 \<Rightarrow> string" where
  "append_kv64 key n = append_kv key (dec64 n)"

fun join_ids :: "u64 list \<Rightarrow> string" where
  "join_ids [] = []"
| "join_ids [i] = ''#'' @ dec64 i"
| "join_ids (i # j # is) = ''#'' @ dec64 i @ '' '' @ join_ids (j # is)"

definition append_id_list :: "string \<Rightarrow> u64 list \<Rightarrow> string" where
  "append_id_list key ids =
    append_kv key (if join_ids ids = [] then ''(none)'' else join_ids ids)"

definition render_contribution :: "critic_contribution \<Rightarrow> string" where
  "render_contribution c =
     ''  critic #'' @ dec64 (cc_critic c)
     @ '' generation '' @ dec64 (cc_critic_generation c)
     @ '' worker #'' @ dec64 (cc_worker c)
     @ '' boot #'' @ dec64 (cc_worker_boot c)
     @ '' role '' @ critic_role_name (cc_role c)
     @ (if cc_required c then '' required'' else '' optional'')
     @ '' outcome '' @ finding_outcome_name (cc_outcome c)
     @ '' severity '' @ severity_name (cc_severity c)
     @ '' weight '' @ dec32 (cc_weight c)
     @ '' finding #'' @ dec64 (cc_finding c)
     @ (if cc_note c = [] then [] else '' note('' @ cc_note c @ '')'')
     @ newline"

definition render_predicate :: "predicate_evaluation \<Rightarrow> string" where
  "render_predicate p =
     ''  '' @ predicate_kind_name (pe_kind p)
     @ (if pe_mandatory p then '' mandatory'' else '' advisory'')
     @ (if pe_satisfied p then '' satisfied'' else '' FAILED'')
     @ '' parameter '' @ dec32 (pe_parameter p)
     @ '' ('' @ pe_detail p @ '')'' @ newline"

definition render_heading :: "explanation \<Rightarrow> string" where
  "render_heading ex =
     ''review #'' @ dec64 (ex_review ex) @ '' generation '' @ dec64 (ex_review_generation ex) @ newline
     @ append_kv64 ''coordinator_epoch'' (ex_epoch ex)
     @ append_kv ''state'' (review_state_name (ex_state ex))
     @ append_kv ''disposition'' (review_disposition_name (ex_disposition ex))
     @ append_kv ''policy_result'' (ex_policy_result ex)
     @ ''target'' @ newline
     @ append_kv64 ''id'' (ex_target ex)
     @ append_kv64 ''generation'' (ex_target_generation ex)
     @ append_kv ''digest'' (digest_to_hex (ex_target_digest ex))
     @ append_kv ''policy_digest'' (digest_to_hex (ex_policy_digest ex))
     @ append_kv ''explanation_digest'' (digest_to_hex (ex_explanation_digest ex))
     @ (if id_valid (ex_decision ex)
        then append_kv64 ''decision'' (ex_decision ex)
             @ append_kv64 ''decision_generation'' (ex_decision_generation ex)
        else append_kv ''decision'' ''(not committed)'')"

definition render_quorum :: "quorum_report \<Rightarrow> string" where
  "render_quorum q =
     ''quorum'' @ newline
     @ append_kv ''basis'' (q_basis q)
     @ append_kv32 ''required_min_critics'' (q_min_critic_count q)
     @ append_kv32 ''required_critics'' (q_required_critic_count q)
     @ append_kv32 ''quorum_required'' (q_quorum q)
     @ append_kv32 ''distinct_decisive_critics'' (q_distinct_decisive_critics q)
     @ append_kv32 ''distinct_abstaining_critics'' (q_distinct_abstaining_critics q)
     @ append_kv32 ''distinct_unknown_critics'' (q_distinct_unknown_critics q)
     @ append_kv ''satisfied'' (bool_text (q_satisfied q))
     @ concat (map (\<lambda>r. append_kv ''uncovered_required_role'' (critic_role_name r))
         (q_uncovered_required_roles q))"

definition render_disagreement :: "disagreement_report \<Rightarrow> string" where
  "render_disagreement d =
     ''disagreement'' @ newline
     @ append_kv ''present'' (bool_text (dg_present d))
     @ append_kv32 ''disagreeing_critics'' (dg_disagreeing_critic_count d)
     @ append_kv32 ''policy_threshold'' (dg_policy_threshold d)
     @ append_kv ''disposition'' (review_disposition_name (dg_disposition d))
     @ append_id_list ''pass_critics'' (dg_pass_critics d)
     @ append_id_list ''fail_critics'' (dg_fail_critics d)
     @ append_id_list ''warn_critics'' (dg_warn_critics d)
     @ append_id_list ''abstaining_critics'' (dg_abstaining_critics d)
     @ append_id_list ''unknown_critics'' (dg_unknown_critics d)
     @ append_id_list ''inconclusive_critics'' (dg_inconclusive_critics d)
     @ append_id_list ''missing_critics'' (dg_missing_critics d)
     @ append_id_list ''failed_critics'' (dg_failed_critics d)
     @ concat (map (append_kv ''conflicting_pair'') (dg_conflicting_pairs d))"

definition render_findings :: "explanation \<Rightarrow> string" where
  "render_findings ex =
     ''findings'' @ newline
     @ append_id_list ''current'' (ex_current_findings ex)
     @ append_id_list ''superseded'' (ex_superseded_findings ex)
     @ append_id_list ''invalidated'' (ex_invalidated_findings ex)
     @ append_id_list ''excluded'' (ex_excluded_findings ex)
     @ concat (map (\<lambda>(i, reason). ''  excluded #'' @ dec64 i @ '': '' @ reason @ newline)
         (ex_exclusion_reasons ex))
     @ append_id_list ''evidence_used'' (ex_evidence_used ex)
     @ append_kv32 ''pass_count'' (ex_pass_count ex)
     @ append_kv32 ''fail_count'' (ex_fail_count ex)
     @ append_kv32 ''warn_count'' (ex_warn_count ex)
     @ append_kv32 ''abstain_count'' (ex_abstain_count ex)
     @ append_kv32 ''unknown_count'' (ex_unknown_count ex)
     @ append_kv32 ''not_applicable_count'' (ex_not_applicable_count ex)
     @ append_kv32 ''inconclusive_count'' (ex_inconclusive_count ex)
     @ append_kv32 ''critical_fail_count'' (ex_critical_fail_count ex)
     @ append_kv ''max_severity'' (severity_name (ex_max_severity ex))"

definition render :: "explanation \<Rightarrow> string" where
  "render ex =
     render_heading ex
     @ ''contributors'' @ newline @ concat (map render_contribution (ex_contributors ex))
     @ ''predicates'' @ newline @ concat (map render_predicate (ex_predicates ex))
     @ render_quorum (ex_quorum ex)
     @ render_disagreement (ex_disagreement ex)
     @ render_findings ex
     @ ''challenges'' @ newline
     @ append_id_list ''challenges'' (ex_challenges ex)
     @ append_id_list ''unresolved_challenges'' (ex_unresolved_challenges ex)
     @ ''notes'' @ newline
     @ concat (map (\<lambda>note. ''  '' @ note @ newline) (ex_notes ex))
     @ ''confidence'' @ newline
     @ append_kv ''decision_authority'' ''none (advisory metadata only)''"

end
