(* ===== verification/CF_Evaluation.thy ===== *)
theory CF_Evaluation
  imports CF_Explain
begin

text \<open>
  Hard predicate evaluation and deterministic aggregation (\<open>include/critic_fabric/evaluation.hpp\<close>,
  \<open>src/evaluation.cpp\<close>). \<open>evaluate_review\<close> is the composition of the numbered phases of the
  source, one group of definitions per phase:

    \<^enum> classify the findings against live authority (\<open>exclusion_reason\<close>, \<open>current_findings\<close>);
    \<^enum> collapse them into one vote per logical critic (\<open>eval_votes\<close>);
    \<^enum> the contributors (\<open>contribution_of\<close>);
    \<^enum> the evidence in play (\<open>evidence_tally_of\<close>);
    \<^enum> quorum, disagreement and open challenges (\<open>quorum_of\<close>, \<open>disagreement_of\<close>);
    \<^enum> the hard predicates, in declaration order (\<open>check_predicate\<close>, \<open>run_predicates\<close>);
    \<^enum> the early exits; (8) aggregation (\<open>aggregate\<close>); (9) the overlays that no favourable
      aggregate escapes (\<open>apply_disagreement\<close>, \<open>final_guards\<close>).

  Tallies are 32-bit and weights 64-bit words, as in the source; pointers into the maps of the
  source are the values they point to.
\<close>

section \<open>Input and result\<close>

record live_authority_view =
  lv_epoch :: coordinator_epoch
  lv_current_target :: target_id
  lv_current_target_generation :: target_generation
  lv_current_target_digest :: digest
  lv_critic_generations :: "(critic_id, critic_generation) omap"
  lv_incumbent_workers :: "(critic_id, worker_incarnation) omap"

record evaluation_input =
  ei_review :: review_record
  ei_assignments :: "critic_assignment list"
  ei_findings :: "finding list"
  ei_evidences :: "evidence_record list"
  ei_challenges :: "challenge list"
  ei_rebuttals :: "rebuttal list"
  ei_authority :: live_authority_view
  ei_cancelled :: bool
  ei_superseded :: bool
  ei_policy_digest :: digest

record evaluation_result =
  er_disposition :: review_disposition
  er_explanation :: explanation
  er_hard_invalid :: bool
  er_primary_rejection :: error_code

record critic_vote =
  v_critic :: critic_id
  v_critic_generation :: critic_generation
  v_worker :: worker_id
  v_worker_boot :: worker_boot_id
  v_role :: critic_role
  v_required :: bool
  v_assigned :: bool
  v_weight :: u32
  v_findings :: "finding_id list"
  v_pass_count :: u32
  v_fail_count :: u32
  v_warn_count :: u32
  v_fail_at_threshold :: u32
  v_conflicted :: bool
  v_dominant :: finding_outcome
  v_max_severity :: severity
  v_decisive :: bool
  v_abstained :: bool
  v_unknown :: bool
  v_inconclusive :: bool
  v_present :: bool

definition empty_vote :: critic_vote where
  "empty_vote =
    \<lparr> v_critic = 0, v_critic_generation = 0, v_worker = 0, v_worker_boot = 0,
      v_role = Role_GeneralCritic, v_required = False, v_assigned = False, v_weight = 1,
      v_findings = [], v_pass_count = 0, v_fail_count = 0, v_warn_count = 0,
      v_fail_at_threshold = 0, v_conflicted = False, v_dominant = Out_Unknown,
      v_max_severity = Sev_Info, v_decisive = False, v_abstained = False, v_unknown = False,
      v_inconclusive = False, v_present = False \<rparr>"

definition same_incarnation :: "worker_incarnation \<Rightarrow> worker_id \<Rightarrow> worker_boot_id \<Rightarrow> bool" where
  "same_incarnation a worker boot \<longleftrightarrow> wi_id a = worker \<and> wi_boot a = boot"

definition evidence_is_usable :: "evidence_record \<Rightarrow> bool" where
  "evidence_is_usable e \<longleftrightarrow>
     e_current e \<and> \<not> e_superseded e \<and> e_integrity e = Integ_Verified
     \<and> e_provenance e \<noteq> Prov_Unknown"

section \<open>1. Classification of findings\<close>

definition exclusion_reason :: "evaluation_input \<Rightarrow> finding \<Rightarrow> string option" where
  "exclusion_reason inp f =
    (let r = ei_review inp; au = ei_authority inp in
     if f_review f \<noteq> r_id r then Some ''finding belongs to a different review''
     else if f_review_generation f \<noteq> r_generation r then Some ''stale review generation''
     else if f_target f \<noteq> r_target r then Some ''finding targets a different target''
     else if f_target_generation f \<noteq> r_target_generation r then Some ''stale target generation''
     else if f_state f \<noteq> FS_Current then Some ''finding is not current''
     else case om_get (lv_critic_generations au) (f_critic f) of
       None \<Rightarrow> Some ''critic is not registered under current authority''
     | Some g \<Rightarrow>
         if g \<noteq> f_critic_generation f then Some ''stale critic generation''
         else (case om_get (lv_incumbent_workers au) (f_critic f) of
           None \<Rightarrow> Some ''critic has no authoritative worker incarnation''
         | Some w \<Rightarrow>
             if \<not> same_incarnation w (f_worker f) (f_worker_boot f) then Some ''stale worker boot''
             else None))"

definition is_current :: "evaluation_input \<Rightarrow> finding \<Rightarrow> bool" where
  "is_current inp f \<longleftrightarrow> exclusion_reason inp f = None"

definition current_findings :: "evaluation_input \<Rightarrow> (finding_id, finding) omap" where
  "current_findings inp =
    foldl (\<lambda>m f. om_put (f_id f) f m) [] (filter (is_current inp) (ei_findings inp))"

definition excluded_findings :: "evaluation_input \<Rightarrow> finding_id list" where
  "excluded_findings inp = map f_id (filter (\<lambda>f. \<not> is_current inp f) (ei_findings inp))"

definition exclusion_reasons :: "evaluation_input \<Rightarrow> (finding_id, string) omap" where
  "exclusion_reasons inp =
    foldl (\<lambda>m f. case exclusion_reason inp f of None \<Rightarrow> m | Some r \<Rightarrow> om_put (f_id f) r m) []
      (ei_findings inp)"

definition superseded_findings :: "evaluation_input \<Rightarrow> finding_id list" where
  "superseded_findings inp =
    map f_id (filter (\<lambda>f. f_state f = FS_Superseded) (ei_findings inp))"

definition invalidated_findings :: "evaluation_input \<Rightarrow> finding_id list" where
  "invalidated_findings inp =
    map f_id (filter (\<lambda>f. f_state f = FS_Invalidated \<or> f_state f = FS_Withdrawn) (ei_findings inp))"

section \<open>2. One vote per logical critic\<close>

definition at_fail_threshold :: "review_spec \<Rightarrow> finding \<Rightarrow> bool" where
  "at_fail_threshold spec f \<longleftrightarrow>
     severity_rank (f_severity f) \<ge> severity_rank (sp_fail_threshold spec)"

definition raise_severity :: "severity \<Rightarrow> severity \<Rightarrow> severity" where
  "raise_severity s acc = (if severity_rank s > severity_rank acc then s else acc)"

definition count_outcome :: "review_spec \<Rightarrow> finding \<Rightarrow> critic_vote \<Rightarrow> critic_vote" where
  "count_outcome spec f v =
    (case f_outcome f of
       Out_Pass \<Rightarrow> v\<lparr> v_pass_count := v_pass_count v + 1 \<rparr>
     | Out_Fail \<Rightarrow> v\<lparr> v_fail_count := v_fail_count v + 1,
                     v_fail_at_threshold :=
                       (if at_fail_threshold spec f then v_fail_at_threshold v + 1
                        else v_fail_at_threshold v) \<rparr>
     | Out_Warn \<Rightarrow> v\<lparr> v_warn_count := v_warn_count v + 1 \<rparr>
     | Out_Abstain \<Rightarrow> v\<lparr> v_abstained := True \<rparr>
     | Out_Unknown \<Rightarrow> v\<lparr> v_unknown := True \<rparr>
     | Out_Inconclusive \<Rightarrow> v\<lparr> v_inconclusive := True \<rparr>
     | Out_NotApplicable \<Rightarrow> v)"

definition mark_conflict :: "critic_vote \<Rightarrow> critic_vote" where
  "mark_conflict v =
    (if v_pass_count v > 0 \<and> v_fail_count v > 0 then v\<lparr> v_conflicted := True \<rparr> else v)"

definition vote_add_finding :: "review_spec \<Rightarrow> finding \<Rightarrow> critic_vote \<Rightarrow> critic_vote" where
  "vote_add_finding spec f v =
    mark_conflict (count_outcome spec f
      (v\<lparr> v_critic := f_critic f,
          v_critic_generation := f_critic_generation f,
          v_worker := f_worker f,
          v_worker_boot := f_worker_boot f,
          v_present := True,
          v_findings := v_findings v @ [f_id f],
          v_max_severity := raise_severity (f_severity f) (v_max_severity v) \<rparr>))"

definition vote_slot :: "(critic_id, critic_vote) omap \<Rightarrow> critic_id \<Rightarrow> critic_vote" where
  "vote_slot votes critic = (case om_get votes critic of None \<Rightarrow> empty_vote | Some v \<Rightarrow> v)"

definition collapse_votes :: "review_spec \<Rightarrow> finding list \<Rightarrow> (critic_id, critic_vote) omap" where
  "collapse_votes spec findings =
    foldl (\<lambda>votes f. om_put (f_critic f) (vote_add_finding spec f (vote_slot votes (f_critic f))) votes)
      [] findings"

definition vote_attach_assignment :: "critic_assignment \<Rightarrow> critic_vote \<Rightarrow> critic_vote" where
  "vote_attach_assignment a v =
    v\<lparr> v_critic := a_critic a,
       v_critic_generation := a_critic_generation a,
       v_worker := a_worker a,
       v_worker_boot := a_worker_boot a,
       v_role := a_role a,
       v_required := a_required a,
       v_assigned := a_active a,
       v_weight := (if a_weight a = 0 then 1 else a_weight a) \<rparr>"

definition attach_assignments ::
  "critic_assignment list \<Rightarrow> (critic_id, critic_vote) omap \<Rightarrow> (critic_id, critic_vote) omap" where
  "attach_assignments assignments votes =
    foldl (\<lambda>vs a. om_put (a_critic a) (vote_attach_assignment a (vote_slot vs (a_critic a))) vs)
      votes assignments"

definition settle_vote :: "critic_vote \<Rightarrow> critic_vote" where
  "settle_vote v =
    (if v_conflicted v then v\<lparr> v_dominant := Out_Unknown, v_decisive := False \<rparr>
     else if v_fail_count v > 0 then v\<lparr> v_dominant := Out_Fail, v_decisive := True \<rparr>
     else if v_warn_count v > 0 then v\<lparr> v_dominant := Out_Warn, v_decisive := True \<rparr>
     else if v_pass_count v > 0 then v\<lparr> v_dominant := Out_Pass, v_decisive := True \<rparr>
     else v\<lparr> v_dominant := Out_Unknown, v_decisive := False \<rparr>)"

definition eval_votes :: "evaluation_input \<Rightarrow> (critic_id, critic_vote) omap" where
  "eval_votes inp =
    map (\<lambda>(k, v). (k, settle_vote v))
      (attach_assignments (ei_assignments inp)
        (collapse_votes (r_spec (ei_review inp)) (om_vals (current_findings inp))))"

section \<open>3. Contributors\<close>

definition contribution_note :: "critic_vote \<Rightarrow> string" where
  "contribution_note v =
    (if v_conflicted v then ''critic asserted both PASS and FAIL for the same target generation''
     else if \<not> v_present v then ''no current authoritative finding''
     else if \<not> v_decisive v then ''no decisive current finding''
     else [])"

definition contribution_of :: "critic_vote \<Rightarrow> critic_contribution" where
  "contribution_of v =
    \<lparr> cc_critic = v_critic v,
      cc_critic_generation = v_critic_generation v,
      cc_worker = v_worker v,
      cc_worker_boot = v_worker_boot v,
      cc_role = v_role v,
      cc_required = v_required v,
      cc_decisive = v_decisive v,
      cc_finding = (case v_findings v of [] \<Rightarrow> 0 | i # _ \<Rightarrow> i),
      cc_outcome = v_dominant v,
      cc_severity = v_max_severity v,
      cc_weight = v_weight v,
      cc_note = contribution_note v \<rparr>"

section \<open>4. Evidence in play\<close>

record evidence_tally =
  et_used :: "evidence_id list"
  et_usable :: u32
  et_unverified :: u32
  et_unknown_provenance :: u32
  et_missing :: u32

definition empty_tally :: evidence_tally where
  "empty_tally = \<lparr> et_used = [], et_usable = 0, et_unverified = 0, et_unknown_provenance = 0,
     et_missing = 0 \<rparr>"

definition referenced_evidence :: "finding list \<Rightarrow> evidence_id list" where
  "referenced_evidence findings =
    om_keys (foldl (\<lambda>m i. om_put i () m) [] (concat (map f_evidence findings)))"

definition evidence_index :: "evidence_record list \<Rightarrow> (evidence_id, evidence_record) omap" where
  "evidence_index evidences = foldl (\<lambda>m e. om_put (e_id e) e m) [] evidences"

definition tally_evidence ::
  "(evidence_id, evidence_record) omap \<Rightarrow> evidence_tally \<Rightarrow> evidence_id \<Rightarrow> evidence_tally" where
  "tally_evidence index t i =
    (case om_get index i of
       None \<Rightarrow> t\<lparr> et_missing := et_missing t + 1 \<rparr>
     | Some e \<Rightarrow>
         (let t1 = t\<lparr> et_used := et_used t @ [i] \<rparr> in
          if evidence_is_usable e then t1\<lparr> et_usable := et_usable t1 + 1 \<rparr>
          else
            (let t2 = (if e_integrity e \<noteq> Integ_Verified
                       then t1\<lparr> et_unverified := et_unverified t1 + 1 \<rparr> else t1)
             in if e_provenance e = Prov_Unknown
                then t2\<lparr> et_unknown_provenance := et_unknown_provenance t2 + 1 \<rparr> else t2)))"

definition evidence_tally_of :: "evaluation_input \<Rightarrow> evidence_tally" where
  "evidence_tally_of inp =
    foldl (tally_evidence (evidence_index (ei_evidences inp))) empty_tally
      (referenced_evidence (om_vals (current_findings inp)))"

section \<open>5. Quorum, disagreement and open challenges\<close>

datatype vote_group =
    VG_Unassigned | VG_Decisive | VG_Failed | VG_Abstaining | VG_Unknown | VG_Inconclusive | VG_Missing

definition vote_authoritative :: "live_authority_view \<Rightarrow> critic_vote \<Rightarrow> bool" where
  "vote_authoritative au v \<longleftrightarrow>
    (case om_get (lv_critic_generations au) (v_critic v) of
       None \<Rightarrow> False
     | Some g \<Rightarrow> g = v_critic_generation v
         \<and> (case om_get (lv_incumbent_workers au) (v_critic v) of
              None \<Rightarrow> False
            | Some w \<Rightarrow> same_incarnation w (v_worker v) (v_worker_boot v)))"

definition vote_group_of :: "live_authority_view \<Rightarrow> critic_vote \<Rightarrow> vote_group" where
  "vote_group_of au v =
    (if \<not> v_assigned v then VG_Unassigned
     else if v_decisive v then VG_Decisive
     else if v_conflicted v then VG_Failed
     else if v_abstained v then VG_Abstaining
     else if v_unknown v then VG_Unknown
     else if v_inconclusive v then VG_Inconclusive
     else if vote_authoritative au v then VG_Missing
     else VG_Failed)"

definition votes_in :: "live_authority_view \<Rightarrow> vote_group \<Rightarrow> critic_vote list \<Rightarrow> critic_vote list" where
  "votes_in au g votes = filter (\<lambda>v. vote_group_of au v = g) votes"

definition role_covered :: "critic_vote list \<Rightarrow> critic_role \<Rightarrow> bool" where
  "role_covered decisive role \<longleftrightarrow> list_ex (\<lambda>v. v_role v = role) decisive"

definition quorum_basis :: "review_spec \<Rightarrow> u32 \<Rightarrow> u32 \<Rightarrow> u32 \<Rightarrow> string" where
  "quorum_basis spec decisive roles abstaining =
     ''distinct decisive critics '' @ dec32 decisive @ ''/'' @ dec32 (sp_min_critic_count spec)
     @ '', quorum '' @ dec32 (sp_quorum spec)
     @ '', required roles covered '' @ dec32 roles @ ''/'' @ dec32 (sp_required_critic_count spec)
     @ '', abstaining '' @ dec32 abstaining"

definition quorum_of :: "review_spec \<Rightarrow> live_authority_view \<Rightarrow> critic_vote list \<Rightarrow> quorum_report" where
  "quorum_of spec au votes =
    (let decisive = votes_in au VG_Decisive votes;
         decisive_count = of_nat (length decisive);
         abstaining_count = of_nat (length (votes_in au VG_Abstaining votes));
         unknown_count = of_nat (length (votes_in au VG_Unknown votes));
         roles_decisive = of_nat (length (filter (role_covered decisive) (sp_required_roles spec)));
         uncovered = filter (\<lambda>r. \<not> role_covered decisive r) (sp_required_roles spec)
     in \<lparr> q_min_critic_count = sp_min_critic_count spec,
          q_required_critic_count = sp_required_critic_count spec,
          q_quorum = sp_quorum spec,
          q_distinct_decisive_critics = decisive_count,
          q_distinct_abstaining_critics = abstaining_count,
          q_distinct_unknown_critics = unknown_count,
          q_required_roles_decisive = roles_decisive,
          q_uncovered_required_roles = uncovered,
          q_satisfied = (decisive_count \<ge> sp_quorum spec
             \<and> decisive_count \<ge> sp_min_critic_count spec
             \<and> roles_decisive \<ge> sp_required_critic_count spec
             \<and> uncovered = []),
          q_basis = quorum_basis spec decisive_count roles_decisive abstaining_count \<rparr>)"

definition critics_with :: "finding_outcome \<Rightarrow> critic_vote list \<Rightarrow> critic_id list" where
  "critics_with oc votes = map v_critic (filter (\<lambda>v. v_dominant v = oc) votes)"

text \<open>
  \<open>by_outcome\<close> of the source. Looking up the three decisive outcomes for the conflicting pairs
  inserts them, so when the disagreement is counted the map holds exactly these three rows, in the
  order of their codes.
\<close>

definition by_outcome :: "critic_vote list \<Rightarrow> (finding_outcome \<times> critic_id list) list" where
  "by_outcome decisive =
    map (\<lambda>oc. (oc, critics_with oc decisive)) [Out_Pass, Out_Fail, Out_Warn]"

definition conflicting_pair ::
  "critic_vote list \<Rightarrow> (string \<times> finding_outcome) \<times> (string \<times> finding_outcome) \<Rightarrow> string list" where
  "conflicting_pair decisive p =
    (case p of ((label_l, left), (label_r, right)) \<Rightarrow>
      (let l = critics_with left decisive; r = critics_with right decisive in
       if l \<noteq> [] \<and> r \<noteq> []
       then [label_l @ '' x'' @ dec_nat (length l) @ '' vs '' @ label_r @ '' x'' @ dec_nat (length r)]
       else []))"

definition conflicting_pairs :: "critic_vote list \<Rightarrow> string list" where
  "conflicting_pairs decisive =
    (let p = (''PASS'', Out_Pass); f = (''FAIL'', Out_Fail); w = (''WARN'', Out_Warn)
     in concat (map (conflicting_pair decisive) [(p, f), (p, w), (f, w)]))"

fun largest_group :: "nat \<times> bool \<Rightarrow> nat list \<Rightarrow> nat \<times> bool" where
  "largest_group acc [] = acc"
| "largest_group (best, tie) (n # ns) =
     (if n > best then largest_group (n, False) ns
      else if n = best then largest_group (best, True) ns
      else largest_group (best, tie) ns)"

definition disagreeing_count :: "critic_vote list \<Rightarrow> u32" where
  "disagreeing_count decisive =
    (if decisive = [] then 0
     else
       (let groups = by_outcome decisive;
            bt = largest_group (0, False) (map (\<lambda>g. length (snd g)) groups)
        in if length groups \<le> 1 then 0
           else if snd bt then of_nat (length decisive)
           else of_nat (length decisive - fst bt)))"

definition disagreement_of :: "review_spec \<Rightarrow> live_authority_view \<Rightarrow> critic_vote list \<Rightarrow> disagreement_report" where
  "disagreement_of spec au votes =
    (let decisive = votes_in au VG_Decisive votes
     in \<lparr> dg_present = (disagreeing_count decisive > 0),
          dg_pass_critics = critics_with Out_Pass decisive,
          dg_fail_critics = critics_with Out_Fail decisive,
          dg_warn_critics = critics_with Out_Warn decisive,
          dg_abstaining_critics = map v_critic (votes_in au VG_Abstaining votes),
          dg_unknown_critics = map v_critic (votes_in au VG_Unknown votes),
          dg_inconclusive_critics = map v_critic (votes_in au VG_Inconclusive votes),
          dg_missing_critics = map v_critic (votes_in au VG_Missing votes),
          dg_failed_critics = map v_critic (votes_in au VG_Failed votes),
          dg_conflicting_pairs = conflicting_pairs decisive,
          dg_disagreeing_critic_count = disagreeing_count decisive,
          dg_policy_threshold = sp_disagreement_threshold_fail spec,
          dg_disposition = RD_None \<rparr>)"

definition challenge_open :: "challenge \<Rightarrow> bool" where
  "challenge_open c \<longleftrightarrow> \<not> ch_resolved c \<or> ch_outcome c = ChO_Unresolved"

definition unresolved_challenges :: "evaluation_input \<Rightarrow> challenge_id list" where
  "unresolved_challenges inp = map ch_id (filter challenge_open (ei_challenges inp))"

section \<open>6. Hard predicates\<close>

text \<open>Everything the predicates and the aggregation read, computed by the phases above.\<close>

record eval_context =
  ec_input :: evaluation_input
  ec_spec :: review_spec
  ec_current :: "finding list"
  ec_votes :: "critic_vote list"
  ec_decisive :: "critic_vote list"
  ec_quorum :: quorum_report
  ec_disagreement :: disagreement_report
  ec_tally :: evidence_tally

definition outcome_count :: "finding_outcome \<Rightarrow> finding list \<Rightarrow> u32" where
  "outcome_count oc findings = of_nat (count_if (\<lambda>f. f_outcome f = oc) findings)"

definition critical_fail_count :: "review_spec \<Rightarrow> finding list \<Rightarrow> u32" where
  "critical_fail_count spec findings =
    of_nat (count_if (\<lambda>f. f_outcome f = Out_Fail \<and> at_fail_threshold spec f) findings)"

definition context_of :: "evaluation_input \<Rightarrow> eval_context" where
  "context_of inp =
    (let spec = r_spec (ei_review inp); votes = om_vals (eval_votes inp)
     in \<lparr> ec_input = inp,
          ec_spec = spec,
          ec_current = om_vals (current_findings inp),
          ec_votes = votes,
          ec_decisive = votes_in (ei_authority inp) VG_Decisive votes,
          ec_quorum = quorum_of spec (ei_authority inp) votes,
          ec_disagreement = disagreement_of spec (ei_authority inp) votes,
          ec_tally = evidence_tally_of inp \<rparr>)"

text \<open>A check yields whether the predicate holds, the detail text and the code of a failure.\<close>

type_synonym check = "bool \<times> string \<times> error_code"

definition check_target_generation :: "eval_context \<Rightarrow> check" where
  "check_target_generation ec =
    (let inp = ec_input ec; r = ei_review inp; au = ei_authority inp;
         generation_matches = (r_target r = lv_current_target au
           \<and> (lv_current_target_generation au = 0
              \<or> r_target_generation r = lv_current_target_generation au));
         all_findings_bound = (\<forall>f \<in> set (ei_findings inp).
            \<not> (f_review f = r_id r \<and> f_review_generation f = r_generation r
               \<and> f_target_generation f \<noteq> r_target_generation r));
         satisfied = (generation_matches \<and> all_findings_bound)
     in (satisfied,
         if satisfied then ''review is bound to the current target generation''
         else ''review target generation no longer matches live target authority'',
         E_RevalidationRequired))"

definition check_target_digest :: "eval_context \<Rightarrow> check" where
  "check_target_digest ec =
    (let inp = ec_input ec; au = ei_authority inp;
         satisfied = (digest_is_zero (lv_current_target_digest au)
           \<or> r_target_digest (ei_review inp) = lv_current_target_digest au)
     in (satisfied,
         if satisfied then ''review target digest matches live target content''
         else ''review target digest no longer matches live target content'',
         E_TargetDigestMismatch))"

definition check_required_evidence :: "u32 \<Rightarrow> eval_context \<Rightarrow> check" where
  "check_required_evidence parameter ec =
    (let t = ec_tally ec; minimum = (if parameter \<noteq> 0 then parameter else 1)
     in (et_usable t \<ge> minimum \<and> et_missing t = 0,
         ''usable evidence records '' @ dec32 (et_usable t) @ '' of required '' @ dec32 minimum
           @ '', missing references '' @ dec32 (et_missing t),
         E_InsufficientEvidence))"

definition check_evidence_integrity :: "eval_context \<Rightarrow> check" where
  "check_evidence_integrity ec =
    (let t = ec_tally ec
     in (et_unverified t = 0 \<and> et_missing t = 0,
         ''evidence with unverified or failed integrity: '' @ dec32 (et_unverified t),
         E_EvidenceIntegrityFailed))"

definition check_evidence_provenance :: "eval_context \<Rightarrow> check" where
  "check_evidence_provenance ec =
    (let t = ec_tally ec
     in (et_unknown_provenance t = 0 \<and> et_missing t = 0,
         ''evidence with UNKNOWN provenance: '' @ dec32 (et_unknown_provenance t),
         E_EvidenceProvenanceUnknown))"

definition check_required_roles :: "eval_context \<Rightarrow> check" where
  "check_required_roles ec =
    (let uncovered = q_uncovered_required_roles (ec_quorum ec); satisfied = (uncovered = [])
     in (satisfied,
         if satisfied then ''all required roles produced a decisive finding''
         else ''required roles without a decisive finding: '' @ dec_nat (length uncovered),
         E_QuorumNotReached))"

definition check_minimum_critics :: "u32 \<Rightarrow> eval_context \<Rightarrow> check" where
  "check_minimum_critics parameter ec =
    (let minimum = (if parameter \<noteq> 0 then parameter else sp_min_critic_count (ec_spec ec));
         n = q_distinct_decisive_critics (ec_quorum ec)
     in (n \<ge> minimum,
         ''distinct decisive critic identities '' @ dec32 n @ '' of required '' @ dec32 minimum,
         E_QuorumNotReached))"

definition add_offender :: "string \<Rightarrow> string \<Rightarrow> string" where
  "add_offender acc s = (if acc = [] then s else acc @ '','' @ s)"

definition verifier_offenders :: "critic_vote list \<Rightarrow> critic_role \<Rightarrow> string \<Rightarrow> string" where
  "verifier_offenders decisive role acc =
    (let votes = filter (\<lambda>v. v_role v = role) decisive;
         acc1 = foldl (\<lambda>s v. if v_dominant v = Out_Fail then add_offender s (critic_role_name role) else s)
                  acc votes
     in if votes = [] then add_offender acc1 (critic_role_name role @ ''(no decisive finding)'') else acc1)"

definition verifier_ok :: "critic_vote list \<Rightarrow> critic_role \<Rightarrow> bool" where
  "verifier_ok decisive role \<longleftrightarrow>
     role_covered decisive role
     \<and> list_all (\<lambda>v. v_role v = role \<longrightarrow> v_dominant v \<noteq> Out_Fail) decisive"

definition check_required_verifiers :: "eval_context \<Rightarrow> check" where
  "check_required_verifiers ec =
    (let roles = sorted_list_of_set (sp_roles_that_must_pass (ec_spec ec));
         satisfied = list_all (verifier_ok (ec_decisive ec)) roles
     in (satisfied,
         if satisfied then ''roles that must pass have all passed''
         else ''roles that must pass did not: ''
              @ foldl (\<lambda>acc role. verifier_offenders (ec_decisive ec) role acc) [] roles,
         E_RequiredCriticFailed))"

definition check_critical_fails :: "u32 \<Rightarrow> eval_context \<Rightarrow> check" where
  "check_critical_fails parameter ec =
    (let limit = (if parameter \<noteq> 0 then parameter else sp_max_critical_fails (ec_spec ec));
         n = critical_fail_count (ec_spec ec) (ec_current ec)
     in (n \<le> limit,
         ''findings at or above the fail threshold: '' @ dec32 n @ '' of allowed '' @ dec32 limit,
         E_HardPredicateFailed))"

definition check_critic_generations :: "eval_context \<Rightarrow> check" where
  "check_critic_generations ec =
    (let inp = ec_input ec;
         satisfied = list_all (\<lambda>a. \<not> a_active a
            \<or> om_get (lv_critic_generations (ei_authority inp)) (a_critic a)
               = Some (a_critic_generation a)) (ei_assignments inp)
     in (satisfied,
         if satisfied then ''every active assignment references a current critic generation''
         else ''an active assignment references a stale critic generation'',
         E_StaleCriticGeneration))"

definition check_worker_boots :: "eval_context \<Rightarrow> check" where
  "check_worker_boots ec =
    (let inp = ec_input ec;
         satisfied = list_all (\<lambda>a. \<not> a_active a
            \<or> (case om_get (lv_incumbent_workers (ei_authority inp)) (a_critic a) of
                 None \<Rightarrow> False
               | Some w \<Rightarrow> same_incarnation w (a_worker a) (a_worker_boot a))) (ei_assignments inp)
     in (satisfied,
         if satisfied then ''every active assignment references the incumbent worker boot''
         else ''an active assignment references a superseded worker incarnation'',
         E_StaleWorkerBoot))"

definition check_epoch :: "eval_context \<Rightarrow> check" where
  "check_epoch ec =
    (let satisfied = r_authority_current (ei_review (ec_input ec))
     in (satisfied,
         if satisfied then ''review authority was established under the current coordinator epoch''
         else ''review authority predates the current coordinator epoch'',
         E_RevalidationRequired))"

definition covers_category :: "finding_category \<Rightarrow> finding \<Rightarrow> bool" where
  "covers_category category f \<longleftrightarrow> f_category f = category \<and> is_decisive_outcome (f_outcome f)"

definition check_categories :: "eval_context \<Rightarrow> check" where
  "check_categories ec =
    (let spec = ec_spec ec; current = ec_current ec;
         short = filter (\<lambda>(category, minimum).
             of_nat (count_if (covers_category category) current) < minimum)
           (sp_required_min_categories spec);
         absent = filter (\<lambda>category. \<not> list_ex (covers_category category) current)
           (sp_required_finding_categories spec);
         satisfied = (short = [] \<and> absent = [])
     in (satisfied,
         if satisfied then ''every required finding category is covered''
         else ''required finding categories not covered: ''
              @ concat (map (\<lambda>category. finding_category_name category @ '' '') (map fst short @ absent)),
         E_InsufficientEvidence))"

definition check_quorum :: "eval_context \<Rightarrow> check" where
  "check_quorum ec =
    (q_satisfied (ec_quorum ec), q_basis (ec_quorum ec), E_QuorumNotReached)"

definition check_confidence :: "eval_context \<Rightarrow> check" where
  "check_confidence ec =
    (let satisfied = (\<not> sp_confidence_has_authority (ec_spec ec))
     in (satisfied,
         if satisfied then ''confidence is advisory metadata and carries no decision authority''
         else ''policy attempted to grant confidence decision authority'',
         E_PolicyRejected))"

fun check_predicate :: "eval_context \<Rightarrow> predicate_kind \<Rightarrow> u32 \<Rightarrow> check" where
  "check_predicate ec Pred_ExactTargetGenerationMatch p = check_target_generation ec"
| "check_predicate ec Pred_TargetDigestMatch p = check_target_digest ec"
| "check_predicate ec Pred_RequiredEvidencePresent p = check_required_evidence p ec"
| "check_predicate ec Pred_EvidenceIntegrityVerified p = check_evidence_integrity ec"
| "check_predicate ec Pred_EvidenceProvenanceKnown p = check_evidence_provenance ec"
| "check_predicate ec Pred_RequiredRolePresent p = check_required_roles ec"
| "check_predicate ec Pred_MinimumIndependentCriticIdentities p = check_minimum_critics p ec"
| "check_predicate ec Pred_RequiredVerifierPass p = check_required_verifiers ec"
| "check_predicate ec Pred_NoCriticalFailFindings p = check_critical_fails p ec"
| "check_predicate ec Pred_CriticGenerationCurrent p = check_critic_generations ec"
| "check_predicate ec Pred_WorkerBootCurrent p = check_worker_boots ec"
| "check_predicate ec Pred_CoordinatorEpochCurrent p = check_epoch ec"
| "check_predicate ec Pred_RequiredCategoriesCovered p = check_categories ec"
| "check_predicate ec Pred_QuorumSatisfied p = check_quorum ec"
| "check_predicate ec Pred_ConfidenceNotAuthoritative p = check_confidence ec"

definition evaluate_predicate :: "eval_context \<Rightarrow> predicate_spec \<Rightarrow> predicate_evaluation" where
  "evaluate_predicate ec p =
    (case check_predicate ec (ps_kind p) (ps_parameter p) of (satisfied, detail, code) \<Rightarrow>
      \<lparr> pe_kind = ps_kind p, pe_mandatory = ps_mandatory p, pe_satisfied = satisfied,
        pe_parameter = ps_parameter p, pe_detail = detail \<rparr>)"

text \<open>The pair \<open>hard_invalid\<close>, \<open>primary_rejection\<close>: the first mandatory failure is the primary one.\<close>

type_synonym rejection = "bool \<times> error_code"

definition reject :: "error_code \<Rightarrow> rejection \<Rightarrow> rejection" where
  "reject code rej = (True, if snd rej = E_Ok then code else snd rej)"

definition fail_predicate :: "eval_context \<Rightarrow> rejection \<Rightarrow> predicate_spec \<Rightarrow> rejection" where
  "fail_predicate ec rej p =
    (case check_predicate ec (ps_kind p) (ps_parameter p) of (satisfied, detail, code) \<Rightarrow>
      if \<not> satisfied \<and> ps_mandatory p then reject code rej else rej)"

definition run_predicates :: "eval_context \<Rightarrow> rejection" where
  "run_predicates ec =
    (let rej = foldl (fail_predicate ec) (False, E_Ok) (sp_predicates (ec_spec ec))
     in if \<not> r_authority_current (ei_review (ec_input ec)) then reject E_RevalidationRequired rej
        else rej)"

section \<open>8. Aggregation\<close>

record vote_tally =
  vt_pass_votes :: u32
  vt_fail_votes :: u32
  vt_warn_votes :: u32
  vt_pass_weight :: u64
  vt_fail_weight :: u64
  vt_warn_weight :: u64

definition votes_for :: "finding_outcome \<Rightarrow> critic_vote list \<Rightarrow> u32" where
  "votes_for oc decisive = of_nat (count_if (\<lambda>v. v_dominant v = oc) decisive)"

definition weight_for :: "finding_outcome \<Rightarrow> critic_vote list \<Rightarrow> u64" where
  "weight_for oc decisive =
    sum_list (map (\<lambda>v. if v_dominant v = oc then ucast (v_weight v) else 0) decisive)"

definition tally_votes :: "critic_vote list \<Rightarrow> vote_tally" where
  "tally_votes decisive =
    \<lparr> vt_pass_votes = votes_for Out_Pass decisive,
      vt_fail_votes = votes_for Out_Fail decisive,
      vt_warn_votes = votes_for Out_Warn decisive,
      vt_pass_weight = weight_for Out_Pass decisive,
      vt_fail_weight = weight_for Out_Fail decisive,
      vt_warn_weight = weight_for Out_Warn decisive \<rparr>"

type_synonym verdict = "review_disposition \<times> string"

definition any_critical :: "eval_context \<Rightarrow> bool" where
  "any_critical ec \<longleftrightarrow>
     critical_fail_count (ec_spec ec) (ec_current ec) > sp_max_critical_fails (ec_spec ec)"

definition all_required_fail :: "eval_context \<Rightarrow> bool" where
  "all_required_fail ec \<longleftrightarrow>
     list_ex (\<lambda>v. v_required v \<and> v_dominant v = Out_Fail \<and> v_fail_at_threshold v > 0)
       (ec_decisive ec)"

definition all_required_pass :: "eval_context \<Rightarrow> bool" where
  "all_required_pass ec \<longleftrightarrow>
     list_all (\<lambda>v. \<not> v_required v \<or> v_dominant v = Out_Pass) (ec_decisive ec)"

definition denominator :: "eval_context \<Rightarrow> u32" where
  "denominator ec = of_nat (length (ec_decisive ec))"

fun disposition_of_rejection :: "error_code \<Rightarrow> review_disposition" where
  "disposition_of_rejection (DecisionError RevalidationRequired) = RD_RevalidationRequired"
| "disposition_of_rejection (DecisionError InsufficientEvidence) = RD_InsufficientEvidence"
| "disposition_of_rejection (FindingError EvidenceIntegrityFailed) = RD_InsufficientEvidence"
| "disposition_of_rejection (FindingError EvidenceProvenanceUnknown) = RD_InsufficientEvidence"
| "disposition_of_rejection (DecisionError QuorumNotReached) = RD_QuorumNotReached"
| "disposition_of_rejection (AuthorityError StaleCriticGeneration) = RD_RevalidationRequired"
| "disposition_of_rejection (AuthorityError StaleWorkerBoot) = RD_RevalidationRequired"
| "disposition_of_rejection (DecisionError RequiredCriticFailed) = RD_RequiredCriticFailed"
| "disposition_of_rejection (TargetError TargetDigestMismatch) = RD_RevalidationRequired"
| "disposition_of_rejection (DecisionError PolicyRejected) = RD_Unknown"
| "disposition_of_rejection _ = RD_Fail"

definition agg_all_required_pass :: "eval_context \<Rightarrow> vote_tally \<Rightarrow> verdict" where
  "agg_all_required_pass ec t =
    (let spec = ec_spec ec; q = ec_quorum ec in
     if any_critical ec then (RD_Fail, ''critical fail findings exceed the policy limit'')
     else if \<not> q_satisfied q then (RD_QuorumNotReached, q_basis q)
     else if vt_fail_weight t > 0 then
       (if all_required_fail ec
        then (RD_Fail, ''a required critic asserted FAIL at or above the fail threshold'')
        else if sp_warn_counts_as_failure spec
        then (RD_Fail, ''a decisive critic asserted FAIL and the policy treats it as failure'')
        else (RD_Fail, ''AllRequiredPass requires every required critic to pass''))
     else if vt_warn_weight t > 0 then
       (if sp_warn_counts_as_failure spec
        then (RD_Fail, ''a decisive critic asserted WARN and the policy treats WARN as failure'')
        else (RD_Warn, ''every required critic passed but a decisive critic warned''))
     else if all_required_pass ec
       then (RD_Pass, ''every required critic produced a decisive PASS under quorum'')
     else (RD_InsufficientEvidence, ''no required critic produced a decisive finding''))"

definition agg_any_critical_fail :: "eval_context \<Rightarrow> vote_tally \<Rightarrow> verdict" where
  "agg_any_critical_fail ec t =
    (let spec = ec_spec ec; q = ec_quorum ec in
     if any_critical ec then (RD_Fail, ''at least one critical FAIL finding exists'')
     else if \<not> q_satisfied q then (RD_QuorumNotReached, q_basis q)
     else if vt_fail_weight t > 0 then (RD_Fail, ''a decisive critic asserted FAIL'')
     else if vt_warn_weight t > 0
       then (if sp_warn_counts_as_failure spec then RD_Fail else RD_Warn,
             ''a decisive critic asserted WARN'')
     else (RD_Pass, ''no critical FAIL and quorum satisfied''))"

definition agg_quorum_pass :: "eval_context \<Rightarrow> vote_tally \<Rightarrow> verdict" where
  "agg_quorum_pass ec t =
    (let spec = ec_spec ec in
     if any_critical ec
       then (RD_Fail, ''critical FAIL count exceeds the policy limit before quorum applies'')
     else if vt_pass_votes t \<ge> sp_quorum spec
       then (RD_Pass, ''quorum of PASS votes reached: '' @ dec32 (vt_pass_votes t) @ ''/''
               @ dec32 (sp_quorum spec))
     else if vt_fail_votes t \<ge> sp_quorum spec
       then (RD_Fail, ''quorum of FAIL votes reached: '' @ dec32 (vt_fail_votes t) @ ''/''
               @ dec32 (sp_quorum spec))
     else (RD_QuorumNotReached, ''neither PASS nor FAIL reached quorum; denominator ''
               @ dec32 (denominator ec)))"

definition agg_weighted_review :: "eval_context \<Rightarrow> vote_tally \<Rightarrow> verdict" where
  "agg_weighted_review ec t =
    (let q = ec_quorum ec in
     if any_critical ec
       then (RD_Fail, ''critical FAIL count exceeds the policy limit; weights cannot rescue it'')
     else if \<not> q_satisfied q then (RD_QuorumNotReached, q_basis q)
     else if vt_fail_weight t > vt_pass_weight t then (RD_Fail, ''weighted FAIL exceeds weighted PASS'')
     else if vt_pass_weight t > vt_fail_weight t + vt_warn_weight t
       then (RD_Pass, ''weighted PASS exceeds weighted FAIL plus WARN'')
     else if vt_pass_weight t = vt_fail_weight t \<and> vt_fail_weight t > 0
       then (RD_Tie, ''weighted PASS and weighted FAIL are equal'')
     else (RD_Warn, ''weighted WARN prevents a PASS''))"

definition agg_required_role_pass :: "eval_context \<Rightarrow> vote_tally \<Rightarrow> verdict" where
  "agg_required_role_pass ec t =
    (let spec = ec_spec ec; q = ec_quorum ec;
         required_role_failed =
           list_ex (\<lambda>v. is_required_role spec (v_role v) \<and> v_dominant v = Out_Fail) (ec_decisive ec)
     in
     if any_critical ec \<or> required_role_failed then (RD_Fail, ''a required-role critic asserted FAIL'')
     else if \<not> q_satisfied q then (RD_QuorumNotReached, q_basis q)
     else if list_all (\<lambda>role. list_ex (\<lambda>v. v_role v = role \<and> v_dominant v = Out_Pass) (ec_decisive ec))
               (sp_required_roles spec)
       then (if vt_warn_weight t > 0 then RD_Warn else RD_Pass,
             ''every required role produced a decisive PASS'')
     else (RD_InsufficientEvidence, ''a required role produced no decisive PASS''))"

definition agg_majority :: "eval_context \<Rightarrow> vote_tally \<Rightarrow> verdict" where
  "agg_majority ec t =
    (let q = ec_quorum ec; n = denominator ec in
     if any_critical ec then (RD_Fail, ''critical FAIL count exceeds the policy limit'')
     else if \<not> q_satisfied q then (RD_QuorumNotReached, q_basis q)
     else if vt_pass_votes t * 2 > n
       then (if vt_warn_weight t > 0 then RD_Warn else RD_Pass,
             ''strict majority among '' @ dec32 n @ '' decisive critics passed'')
     else if vt_fail_votes t * 2 > n
       then (RD_Fail, ''strict majority among '' @ dec32 n @ '' decisive critics failed'')
     else (RD_Tie, ''no strict majority among '' @ dec32 n @ '' decisive critics''))"

definition consensus_needed :: "u32 \<Rightarrow> u32 \<Rightarrow> u32" where
  "consensus_needed n basis_points =
    (let product = (ucast n :: u64) * ucast basis_points
     in ucast (product div 10000) + (if product mod 10000 \<noteq> 0 then 1 else 0))"

definition agg_consensus :: "eval_context \<Rightarrow> vote_tally \<Rightarrow> verdict" where
  "agg_consensus ec t =
    (let spec = ec_spec ec; n = denominator ec in
     if any_critical ec then (RD_Fail, ''critical FAIL count exceeds the policy limit'')
     else if n = 0 then (RD_InsufficientEvidence, ''no decisive critics; consensus is undefined'')
     else
       (let needed = consensus_needed n (sp_consensus_threshold_basis_points spec);
            ratio = dec32 needed @ ''/'' @ dec32 n in
        if vt_pass_votes t \<ge> needed \<and> vt_pass_votes t > 0
          then (if vt_warn_weight t > 0 then RD_Warn else RD_Pass,
                ''PASS reached the consensus threshold '' @ ratio)
        else if vt_fail_votes t \<ge> needed \<and> vt_fail_votes t > 0
          then (RD_Fail, ''FAIL reached the consensus threshold '' @ ratio)
        else (RD_Disagreement, ''no disposition reached the consensus threshold '' @ ratio)))"

definition outcome_max_severity :: "finding_outcome \<Rightarrow> finding list \<Rightarrow> severity" where
  "outcome_max_severity oc findings =
    foldl (\<lambda>acc f. if f_outcome f = oc then raise_severity (f_severity f) acc else acc) Sev_Info findings"

definition row_matches :: "finding list \<Rightarrow> policy_table_entry \<Rightarrow> bool" where
  "row_matches findings row \<longleftrightarrow>
     \<not> outcome_count (pt_outcome row) findings < pt_min_count row
     \<and> severity_rank (outcome_max_severity (pt_outcome row) findings) \<ge> severity_rank (pt_min_severity row)
     \<and> severity_rank (outcome_max_severity (pt_outcome row) findings) \<le> severity_rank (pt_max_severity row)"

definition agg_policy_table :: "eval_context \<Rightarrow> verdict" where
  "agg_policy_table ec =
    (case find (row_matches (ec_current ec)) (sp_policy_table (ec_spec ec)) of
       Some row \<Rightarrow> (pt_disposition row, ''policy table row matched for ''
                      @ finding_outcome_name (pt_outcome row))
     | None \<Rightarrow> (RD_InsufficientEvidence, ''no policy table row matched the observed findings''))"

definition aggregate_votes :: "eval_context \<Rightarrow> verdict" where
  "aggregate_votes ec =
    (let t = tally_votes (ec_decisive ec) in
     case sp_aggregation (ec_spec ec) of
       Agg_AllRequiredPass \<Rightarrow> agg_all_required_pass ec t
     | Agg_AnyCriticalFail \<Rightarrow> agg_any_critical_fail ec t
     | Agg_QuorumPass \<Rightarrow> agg_quorum_pass ec t
     | Agg_WeightedReview \<Rightarrow> agg_weighted_review ec t
     | Agg_RequiredRolePass \<Rightarrow> agg_required_role_pass ec t
     | Agg_MajorityWithConstraints \<Rightarrow> agg_majority ec t
     | Agg_ConsensusThreshold \<Rightarrow> agg_consensus ec t
     | Agg_PolicyTable \<Rightarrow> agg_policy_table ec)"

definition aggregate :: "eval_context \<Rightarrow> rejection \<Rightarrow> verdict" where
  "aggregate ec rej =
    (if denominator ec = 0
     then (RD_InsufficientEvidence,
           ''no current decisive critic finding exists; absence of findings is not PASS'')
     else if fst rej
     then (disposition_of_rejection (snd rej),
           ''mandatory predicate failed: '' @ error_code_name (snd rej))
     else aggregate_votes ec)"

section \<open>9. Overlays\<close>

definition overlay_applies :: "disagreement_report \<Rightarrow> review_disposition \<Rightarrow> bool" where
  "overlay_applies d aggregated \<longleftrightarrow>
     dg_present d \<and>
     (aggregated = RD_Pass \<or> aggregated = RD_QuorumNotReached \<or> aggregated = RD_Tie
      \<or> aggregated = RD_InsufficientEvidence \<or> aggregated = RD_Warn)"

definition apply_disagreement ::
  "review_spec \<Rightarrow> disagreement_report \<Rightarrow> verdict \<Rightarrow> disagreement_report \<times> verdict" where
  "apply_disagreement spec d vd =
    (if overlay_applies d (fst vd) then
       (case sp_disagreement spec of
          Dis_ReportAndFail \<Rightarrow>
            (d\<lparr> dg_disposition := RD_Disagreement \<rparr>,
             (RD_Disagreement, ''decisive critics disagreed and the policy reports disagreement as failure''))
        | Dis_ReportAndWarn \<Rightarrow>
            (d\<lparr> dg_disposition := RD_Warn \<rparr>,
             (RD_Warn, ''decisive critics disagreed and the policy reports disagreement as a warning''))
        | Dis_ThresholdThenFail \<Rightarrow>
            (if dg_disagreeing_critic_count d \<ge> sp_disagreement_threshold_fail spec
             then (d\<lparr> dg_disposition := RD_Disagreement \<rparr>,
                   (RD_Disagreement, ''disagreeing critics reached the configured threshold''))
             else (d, (fst vd, ''disagreement below the configured threshold'')))
        | Dis_Escalate \<Rightarrow>
            (d\<lparr> dg_disposition := RD_Disagreement \<rparr>,
             (RD_Disagreement, ''the policy escalates any unresolved critic disagreement'')))
     else (d, vd))"

definition final_guards :: "eval_context \<Rightarrow> bool \<Rightarrow> verdict \<Rightarrow> verdict" where
  "final_guards ec hard_invalid vd =
    (let vd1 = (if fst vd = RD_Pass \<and> unresolved_challenges (ec_input ec) \<noteq> []
                then (RD_Disagreement, ''an unresolved bounded challenge prevents a PASS disposition'')
                else vd);
         vd2 = (if fst vd1 = RD_Pass \<and> outcome_count Out_Unknown (ec_current ec) > 0
                   \<and> sp_unknown_counts_as_failure (ec_spec ec)
                then (RD_Fail, ''the policy treats UNKNOWN findings as failure'')
                else vd1)
     in if fst vd2 = RD_Pass \<and> hard_invalid
        then (RD_Fail, ''mandatory predicate failure cannot be rescued by a favorable aggregate'')
        else vd2)"

section \<open>The evaluation\<close>

definition eval_policy_digest :: "hash_fun \<Rightarrow> evaluation_input \<Rightarrow> digest" where
  "eval_policy_digest H inp =
    (if digest_is_zero (ei_policy_digest inp) then compute_policy_digest H (r_spec (ei_review inp))
     else ei_policy_digest inp)"

definition votes_max_severity :: "critic_vote list \<Rightarrow> severity" where
  "votes_max_severity votes = foldl (\<lambda>acc v. raise_severity (v_max_severity v) acc) Sev_Info votes"

text \<open>The explanation as it stands when the predicates have run.\<close>

definition explain_phases :: "hash_fun \<Rightarrow> evaluation_input \<Rightarrow> explanation" where
  "explain_phases H inp =
    (let r = ei_review inp; spec = r_spec r; ec = context_of inp; current = ec_current ec
     in empty_explanation
       \<lparr> ex_review := r_id r,
         ex_review_generation := r_generation r,
         ex_target := r_target r,
         ex_target_generation := r_target_generation r,
         ex_target_digest := r_target_digest r,
         ex_target_generation_value := ucast (r_target_generation r),
         ex_state := r_state r,
         ex_epoch := lv_epoch (ei_authority inp),
         ex_policy_digest := eval_policy_digest H inp,
         ex_policy_result := summarize spec,
         ex_excluded_findings := excluded_findings inp,
         ex_exclusion_reasons := exclusion_reasons inp,
         ex_superseded_findings := superseded_findings inp,
         ex_invalidated_findings := invalidated_findings inp,
         ex_contributors := map contribution_of (ec_votes ec),
         ex_evidence_used := et_used (ec_tally ec),
         ex_quorum := ec_quorum ec,
         ex_disagreement := ec_disagreement ec,
         ex_challenges := map ch_id (ei_challenges inp),
         ex_unresolved_challenges := unresolved_challenges inp,
         ex_abstain_count := outcome_count Out_Abstain current,
         ex_unknown_count := outcome_count Out_Unknown current,
         ex_not_applicable_count := outcome_count Out_NotApplicable current,
         ex_inconclusive_count := outcome_count Out_Inconclusive current,
         ex_pass_count := outcome_count Out_Pass current,
         ex_fail_count := outcome_count Out_Fail current,
         ex_warn_count := outcome_count Out_Warn current,
         ex_critical_fail_count := critical_fail_count spec current,
         ex_current_findings := om_keys (current_findings inp),
         ex_max_severity := votes_max_severity (ec_votes ec),
         ex_predicates := map (evaluate_predicate ec) (sp_predicates spec) \<rparr>)"

definition seal_explanation :: "hash_fun \<Rightarrow> explanation \<Rightarrow> explanation" where
  "seal_explanation H ex = ex\<lparr> ex_explanation_digest := compute_explanation_digest H ex \<rparr>"

definition early_exit :: "evaluation_input \<Rightarrow> verdict option" where
  "early_exit inp =
    (if ei_cancelled inp \<or> r_state (ei_review inp) = RS_Cancelled
     then Some (RD_Cancelled, ''review was cancelled; no critic aggregate can produce a success outcome'')
     else if ei_superseded inp \<or> r_state (ei_review inp) = RS_Superseded
     then Some (RD_Superseded, ''review was superseded by a newer review generation'')
     else if r_state (ei_review inp) = RS_RevalidationRequired
     then Some (RD_RevalidationRequired,
                ''review requires revalidation before any disposition may be committed'')
     else None)"

definition finish_early :: "hash_fun \<Rightarrow> explanation \<Rightarrow> verdict \<Rightarrow> evaluation_result" where
  "finish_early H ex vd =
    \<lparr> er_disposition = fst vd,
      er_explanation = seal_explanation H (ex\<lparr> ex_disposition := fst vd, ex_notes := ex_notes ex @ [snd vd] \<rparr>),
      er_hard_invalid = False,
      er_primary_rejection = E_Ok \<rparr>"

definition finish_evaluation ::
  "hash_fun \<Rightarrow> review_spec \<Rightarrow> explanation \<Rightarrow> rejection \<Rightarrow> disagreement_report \<Rightarrow> verdict \<Rightarrow> evaluation_result" where
  "finish_evaluation H spec ex rej d vd =
    \<lparr> er_disposition = fst vd,
      er_explanation = seal_explanation H
        (ex\<lparr> ex_disagreement := d,
            ex_disposition := fst vd,
            ex_policy_result := summarize spec @ '' -> '' @ review_disposition_name (fst vd)
              @ '' ('' @ snd vd @ '')'',
            ex_notes := ex_notes ex @ [snd vd] \<rparr>),
      er_hard_invalid = fst rej,
      er_primary_rejection = snd rej \<rparr>"

definition evaluate_review :: "hash_fun \<Rightarrow> evaluation_input \<Rightarrow> evaluation_result" where
  "evaluate_review H inp =
    (let ex = explain_phases H inp; ec = context_of inp; rej = run_predicates ec
     in case early_exit inp of
          Some vd \<Rightarrow> finish_early H ex vd
        | None \<Rightarrow>
            (case apply_disagreement (ec_spec ec) (ec_disagreement ec) (aggregate ec rej) of
               (d, vd) \<Rightarrow> finish_evaluation H (ec_spec ec) ex rej d (final_guards ec (fst rej) vd)))"

end
