(* ===== verification/CF_Verdict.thy ===== *)
theory CF_Verdict
  imports CF_Evaluation
begin

text \<open>
  What an evaluation guarantees. A PASS has passed every gate; confidence carries no weight; a
  critical failure cannot be outvoted; a PASS rests on a PASS vote; disagreement cannot disappear
  behind an aggregate. The findings and votes that count are the subject of \<open>CF_Counted\<close>.
\<close>

section \<open>The disposition without the digests\<close>

definition verdict_of :: "evaluation_input \<Rightarrow> review_disposition" where
  "verdict_of inp =
    (let ec = context_of inp; rej = run_predicates ec
     in case early_exit inp of
          Some vd \<Rightarrow> fst vd
        | None \<Rightarrow> fst (final_guards ec (fst rej)
            (snd (apply_disagreement (ec_spec ec) (ec_disagreement ec) (aggregate ec rej)))))"

lemma er_disposition_eq [simp]: "er_disposition (evaluate_review H inp) = verdict_of inp"
  by (simp add: evaluate_review_def verdict_of_def finish_early_def finish_evaluation_def Let_def
      split: option.split prod.split)

lemma ec_context [simp]:
  "ec_input (context_of inp) = inp"
  "ec_spec (context_of inp) = r_spec (ei_review inp)"
  "ec_current (context_of inp) = om_vals (current_findings inp)"
  "ec_votes (context_of inp) = om_vals (eval_votes inp)"
  "ec_decisive (context_of inp) = votes_in (ei_authority inp) VG_Decisive (om_vals (eval_votes inp))"
  "ec_quorum (context_of inp) = quorum_of (r_spec (ei_review inp)) (ei_authority inp) (om_vals (eval_votes inp))"
  "ec_disagreement (context_of inp) =
     disagreement_of (r_spec (ei_review inp)) (ei_authority inp) (om_vals (eval_votes inp))"
  "ec_tally (context_of inp) = evidence_tally_of inp"
  by (simp_all add: context_of_def Let_def)

lemma explanation_fields:
  "ex_contributors (er_explanation (evaluate_review H inp)) = map contribution_of (om_vals (eval_votes inp))"
  "ex_current_findings (er_explanation (evaluate_review H inp)) = om_keys (current_findings inp)"
  "ex_predicates (er_explanation (evaluate_review H inp)) =
     map (evaluate_predicate (context_of inp)) (sp_predicates (r_spec (ei_review inp)))"
  "ex_unresolved_challenges (er_explanation (evaluate_review H inp)) = unresolved_challenges inp"
  "ex_quorum (er_explanation (evaluate_review H inp)) =
     quorum_of (r_spec (ei_review inp)) (ei_authority inp) (om_vals (eval_votes inp))"
  by (simp_all add: evaluate_review_def finish_early_def finish_evaluation_def Let_def
      explain_phases_def seal_explanation_def split: option.split prod.split)

section \<open>A sample review\<close>

definition sample_digest :: digest where
  "sample_digest = replicate 32 1"

definition sample_review :: "review_spec \<Rightarrow> review_record" where
  "sample_review spec =
    \<lparr> r_id = 1, r_request = 1, r_generation = 1, r_target = 1, r_target_generation = 1,
      r_target_digest = sample_digest, r_spec = spec, r_state = RS_Evaluating,
      r_disposition = RD_None, r_declared_order = 1, r_updated_order = 1, r_superseded_by = 0,
      r_cancellation_reason = [], r_status_detail = [], r_rounds_used = 0,
      r_authority_current = True \<rparr>"

definition sample_assignment :: "u64 \<Rightarrow> critic_assignment" where
  "sample_assignment k =
    \<lparr> a_id = k, a_review = 1, a_review_generation = 1, a_target = 1, a_target_generation = 1,
      a_critic = k, a_critic_generation = 1, a_worker = k, a_worker_boot = 1,
      a_role = Role_GeneralCritic, a_required = True, a_weight = 1, a_assigned_order = 1,
      a_active = True, a_attempt = 1, a_retirement_reason = [] \<rparr>"

definition sample_finding :: "u64 \<Rightarrow> finding_outcome \<Rightarrow> severity \<Rightarrow> finding_state \<Rightarrow> finding" where
  "sample_finding k oc sev st =
    \<lparr> f_id = k, f_generation = 1, f_supersedes = 0, f_superseded_by = 0, f_critic = k,
      f_critic_generation = 1, f_assignment = k, f_worker = k, f_worker_boot = 1, f_attempt = 1,
      f_review = 1, f_review_generation = 1, f_target = 1, f_target_generation = 1,
      f_category = Cat_Correctness, f_severity = sev, f_outcome = oc, f_evidence = [1],
      f_explanation = ''ok'', f_confidence = \<lparr> cf_provided = True, cf_basis_points = 9000, cf_basis = CB_DeclaredByCritic \<rparr>,
      f_provenance = [], f_creation_order = 1, f_state = st, f_challenged_by = 0,
      f_finding_digest = sample_digest \<rparr>"

definition sample_evidence :: evidence_record where
  "sample_evidence =
    \<lparr> e_id = 1, e_generation = 1, e_source_type = Src_TestRun, e_provenance = Prov_Measured,
      e_integrity = Integ_Verified, e_producer = 1, e_target = 1, e_target_generation = 1,
      e_target_digest = sample_digest, e_review = 1, e_review_generation = 1, e_critic = 1,
      e_critic_generation = 1, e_worker = 1, e_worker_boot = 1, e_finding = 0,
      e_content_digest = sample_digest, e_payload = [], e_reference = ''run'', e_created_order = 1,
      e_current = True, e_superseded = False, e_superseded_by = 0 \<rparr>"

definition sample_authority :: "u64 list \<Rightarrow> live_authority_view" where
  "sample_authority critics =
    \<lparr> lv_epoch = 1, lv_current_target = 1, lv_current_target_generation = 1,
      lv_current_target_digest = sample_digest,
      lv_critic_generations = map (\<lambda>k. (k, 1)) critics,
      lv_incumbent_workers = map (\<lambda>k. (k, \<lparr> wi_id = k, wi_boot = 1, wi_epoch = 1 \<rparr>)) critics \<rparr>"

definition sample_input :: "review_spec \<Rightarrow> u64 list \<Rightarrow> finding list \<Rightarrow> evaluation_input" where
  "sample_input spec critics findings =
    \<lparr> ei_review = sample_review spec,
      ei_assignments = map sample_assignment critics,
      ei_findings = findings,
      ei_evidences = [sample_evidence],
      ei_challenges = [],
      ei_rebuttals = [],
      ei_authority = sample_authority critics,
      ei_cancelled = False,
      ei_superseded = False,
      ei_policy_digest = sample_digest \<rparr>"

lemma sample_pass:
  "verdict_of (sample_input default_review_spec [1] [sample_finding 1 Out_Pass Sev_Info FS_Current]) = RD_Pass"
  by code_simp

section \<open>The gates of a PASS\<close>

lemma disposition_of_rejection_not_pass [simp]: "disposition_of_rejection e \<noteq> RD_Pass"
  by (cases e rule: disposition_of_rejection.cases) simp_all

lemma apply_disagreement_pass:
  assumes "fst (snd (apply_disagreement spec d vd)) = RD_Pass"
  shows "fst vd = RD_Pass"
    and "dg_present d \<Longrightarrow> sp_disagreement spec = Dis_ThresholdThenFail
      \<and> dg_disagreeing_critic_count d < sp_disagreement_threshold_fail spec"
  using assms
  by (auto simp: apply_disagreement_def overlay_applies_def not_le
      split: if_splits disagreement_policy.splits)

lemma final_guards_pass:
  assumes "fst (final_guards ec hard_invalid vd) = RD_Pass"
  shows "fst vd = RD_Pass" and "unresolved_challenges (ec_input ec) = []" and "\<not> hard_invalid"
    and "sp_unknown_counts_as_failure (ec_spec ec) \<Longrightarrow> \<not> outcome_count Out_Unknown (ec_current ec) > 0"
  using assms by (auto simp: final_guards_def Let_def split: if_splits)

lemma aggregate_pass:
  assumes "fst (aggregate ec rej) = RD_Pass"
  shows "denominator ec \<noteq> 0" and "\<not> fst rej" and "fst (aggregate_votes ec) = RD_Pass"
  using assms by (auto simp: aggregate_def split: if_splits)

lemma foldl_fail_predicate:
  "fst (foldl (fail_predicate ec) rej ps) \<longleftrightarrow>
     fst rej \<or> (\<exists>p \<in> set ps. ps_mandatory p \<and> \<not> fst (check_predicate ec (ps_kind p) (ps_parameter p)))"
  by (induction ps arbitrary: rej) (auto simp: fail_predicate_def reject_def split: prod.split)

lemma run_predicates_iff:
  "fst (run_predicates ec) \<longleftrightarrow>
     \<not> r_authority_current (ei_review (ec_input ec))
     \<or> (\<exists>p \<in> set (sp_predicates (ec_spec ec)).
          ps_mandatory p \<and> \<not> fst (check_predicate ec (ps_kind p) (ps_parameter p)))"
  by (auto simp: run_predicates_def Let_def reject_def foldl_fail_predicate)

lemma verdict_passD:
  assumes "verdict_of inp = RD_Pass"
  shows "early_exit inp = None"
    and "fst (aggregate (context_of inp) (run_predicates (context_of inp))) = RD_Pass"
    and "unresolved_challenges inp = []"
    and "\<not> fst (run_predicates (context_of inp))"
    and "dg_present (ec_disagreement (context_of inp)) \<Longrightarrow>
      sp_disagreement (r_spec (ei_review inp)) = Dis_ThresholdThenFail
      \<and> dg_disagreeing_critic_count (ec_disagreement (context_of inp))
          < sp_disagreement_threshold_fail (r_spec (ei_review inp))"
proof -
  have no_exit: "early_exit inp = None"
    using assms by (auto simp: verdict_of_def early_exit_def Let_def split: if_splits)
  then show "early_exit inp = None" .
  from no_exit assms have guards: "fst (final_guards (context_of inp) (fst (run_predicates (context_of inp)))
      (snd (apply_disagreement (r_spec (ei_review inp)) (ec_disagreement (context_of inp))
        (aggregate (context_of inp) (run_predicates (context_of inp)))))) = RD_Pass"
    by (simp add: verdict_of_def Let_def)
  note g = final_guards_pass [OF guards]
  note d = apply_disagreement_pass [OF g(1)]
  show "fst (aggregate (context_of inp) (run_predicates (context_of inp))) = RD_Pass"
    by (rule d(1))
  show "unresolved_challenges inp = []" "\<not> fst (run_predicates (context_of inp))"
    using g(2,3) by simp_all
  show "sp_disagreement (r_spec (ei_review inp)) = Dis_ThresholdThenFail
      \<and> dg_disagreeing_critic_count (ec_disagreement (context_of inp))
          < sp_disagreement_threshold_fail (r_spec (ei_review inp))"
    if "dg_present (ec_disagreement (context_of inp))"
    by (rule d(2) [OF that])
qed

lemma vote_group_decisive [simp]: "vote_group_of au v = VG_Decisive \<longleftrightarrow> v_assigned v \<and> v_decisive v"
  by (simp add: vote_group_of_def)

lemma set_decisive [simp]:
  "v \<in> set (votes_in au VG_Decisive votes) \<longleftrightarrow> v \<in> set votes \<and> v_assigned v \<and> v_decisive v"
  by (simp add: votes_in_def)

lemma pe_satisfied_evaluate [simp]:
  "pe_satisfied (evaluate_predicate ec p) = fst (check_predicate ec (ps_kind p) (ps_parameter p))"
  "pe_mandatory (evaluate_predicate ec p) = ps_mandatory p"
  by (simp_all add: evaluate_predicate_def split: prod.split)

text \<open>
  C1. A PASS is never returned unless every mandatory predicate in the explanation is satisfied, the
  review authority is current, no bounded challenge is unresolved, the review is neither cancelled
  nor superseded nor waiting for revalidation, and at least one decisive contributor exists.
\<close>

theorem pass_requires_all_gates:
  assumes "er_disposition (evaluate_review H inp) = RD_Pass"
  shows "(\<forall>p \<in> set (ex_predicates (er_explanation (evaluate_review H inp))). pe_mandatory p \<longrightarrow> pe_satisfied p)
    \<and> r_authority_current (ei_review inp)
    \<and> unresolved_challenges inp = []
    \<and> \<not> ei_cancelled inp \<and> \<not> ei_superseded inp
    \<and> r_state (ei_review inp) \<notin> {RS_Cancelled, RS_Superseded, RS_RevalidationRequired}
    \<and> (\<exists>c \<in> set (ex_contributors (er_explanation (evaluate_review H inp))). cc_decisive c)"
proof -
  from assms have pass: "verdict_of inp = RD_Pass"
    by simp
  note gates = verdict_passD [OF pass]
  have predicates: "\<forall>p \<in> set (sp_predicates (r_spec (ei_review inp))). ps_mandatory p \<longrightarrow>
      fst (check_predicate (context_of inp) (ps_kind p) (ps_parameter p))"
    and current: "r_authority_current (ei_review inp)"
    using gates(4) by (auto simp: run_predicates_iff)
  have "ec_decisive (context_of inp) \<noteq> []"
    using aggregate_pass(1) [OF gates(2)] by (auto simp: denominator_def)
  then obtain v where "v \<in> set (ec_decisive (context_of inp))"
    by (metis last_in_set)
  then have v: "v \<in> set (om_vals (eval_votes inp))" "cc_decisive (contribution_of v)"
    by (simp_all add: contribution_of_def)
  then have "\<exists>c \<in> set (map contribution_of (om_vals (eval_votes inp))). cc_decisive c"
    by (metis image_eqI set_map)
  with predicates current gates(1,3) show ?thesis
    by (auto simp: explanation_fields early_exit_def split: if_splits)
qed

theorem pass_requires_all_gates_witness:
  "er_disposition (evaluate_review sha256
      (sample_input default_review_spec [1] [sample_finding 1 Out_Pass Sev_Info FS_Current])) = RD_Pass
   \<and> r_authority_current (ei_review
      (sample_input default_review_spec [1] [sample_finding 1 Out_Pass Sev_Info FS_Current]))"
  using pass_requires_all_gates [of sha256
      "sample_input default_review_spec [1] [sample_finding 1 Out_Pass Sev_Info FS_Current]"] sample_pass
  by simp

text \<open>
  Disagreement is never hidden by an aggregate: when the report says decisive critics disagree,
  a PASS is possible only under the threshold policy with the count below the declared threshold.
\<close>

theorem pass_disagreement_below_threshold:
  assumes "er_disposition (evaluate_review H inp) = RD_Pass"
    and "dg_present (disagreement_of (r_spec (ei_review inp)) (ei_authority inp) (om_vals (eval_votes inp)))"
  shows "sp_disagreement (r_spec (ei_review inp)) = Dis_ThresholdThenFail
    \<and> disagreeing_count (votes_in (ei_authority inp) VG_Decisive (om_vals (eval_votes inp)))
        < sp_disagreement_threshold_fail (r_spec (ei_review inp))"
  using verdict_passD(5) [of inp] assms by (simp add: disagreement_of_def Let_def)

text \<open>A two-critic review in which one critic passes and one warns, under a threshold of three.\<close>

definition sample_split_spec :: review_spec where
  "sample_split_spec = default_review_spec
    \<lparr> sp_aggregation := Agg_WeightedReview, sp_disagreement := Dis_ThresholdThenFail,
      sp_disagreement_threshold_fail := 3 \<rparr>"

definition sample_split_input :: evaluation_input where
  "sample_split_input = (sample_input sample_split_spec [1, 2]
     [sample_finding 1 Out_Pass Sev_Info FS_Current, sample_finding 2 Out_Warn Sev_Low FS_Current])
     \<lparr> ei_assignments := [(sample_assignment 1)\<lparr> a_weight := 5 \<rparr>, sample_assignment 2] \<rparr>"

lemma sample_split_pass: "verdict_of sample_split_input = RD_Pass"
  by code_simp

lemma sample_split_present:
  "dg_present (disagreement_of (r_spec (ei_review sample_split_input)) (ei_authority sample_split_input)
     (om_vals (eval_votes sample_split_input)))"
  by code_simp

theorem pass_disagreement_below_threshold_witness:
  "er_disposition (evaluate_review sha256 sample_split_input) = RD_Pass
   \<and> sp_disagreement (r_spec (ei_review sample_split_input)) = Dis_ThresholdThenFail"
  using pass_disagreement_below_threshold [of sha256 sample_split_input] sample_split_pass sample_split_present
  by simp

section \<open>Only current, authoritative findings count\<close>

lemma fold_put_wf: "om_wf m0 \<Longrightarrow> om_wf (foldl (\<lambda>m x. om_put (key x) (val x m) m) m0 xs)"
  by (induction xs arbitrary: m0) auto

lemma current_findings_wf: "om_wf (current_findings inp)"
  unfolding current_findings_def by (rule fold_put_wf) simp

lemma om_vals_mem:
  assumes "om_wf m"
  shows "v \<in> set (om_vals m) \<longleftrightarrow> (\<exists>k. om_get m k = Some v)"
proof -
  have "v \<in> set (om_vals m) \<longleftrightarrow> (\<exists>k. (k, v) \<in> set m)"
    by (force simp: om_vals_def)
  then show ?thesis
    by (simp add: om.entries_get [OF assms])
qed

lemma find_SomeD: "find P xs = Some x \<Longrightarrow> x \<in> set xs \<and> P x"
  by (induction xs) (auto split: if_splits)

lemma om_keys_mem: "om_wf m \<Longrightarrow> k \<in> set (om_keys m) \<longleftrightarrow> om_get m k \<noteq> None"
  unfolding om_keys_def using om.set_keys by blast

lemma is_current_iff:
  "is_current inp f \<longleftrightarrow>
     f_review f = r_id (ei_review inp) \<and> f_review_generation f = r_generation (ei_review inp)
   \<and> f_target f = r_target (ei_review inp) \<and> f_target_generation f = r_target_generation (ei_review inp)
   \<and> f_state f = FS_Current
   \<and> om_get (lv_critic_generations (ei_authority inp)) (f_critic f) = Some (f_critic_generation f)
   \<and> (\<exists>w. om_get (lv_incumbent_workers (ei_authority inp)) (f_critic f) = Some w
        \<and> wi_id w = f_worker f \<and> wi_boot w = f_worker_boot f)"
  by (auto simp: is_current_def exclusion_reason_def Let_def same_incarnation_def split: option.splits)

section \<open>One logical critic, one vote\<close>

definition votes_keyed :: "(critic_id, critic_vote) omap \<Rightarrow> bool" where
  "votes_keyed votes \<longleftrightarrow> om_wf votes \<and> (\<forall>k v. om_get votes k = Some v \<longrightarrow> v_critic v = k)"

lemma count_outcome_critic [simp]: "v_critic (count_outcome spec f v) = v_critic v"
  by (cases "f_outcome f") (simp_all add: count_outcome_def)

lemma mark_conflict_critic [simp]: "v_critic (mark_conflict v) = v_critic v"
  by (simp add: mark_conflict_def)

lemma settle_vote_critic [simp]: "v_critic (settle_vote v) = v_critic v"
  by (simp add: settle_vote_def)

lemma votes_keyed_put: "votes_keyed votes \<Longrightarrow> v_critic v = k \<Longrightarrow> votes_keyed (om_put k v votes)"
  unfolding votes_keyed_def by auto

lemma votes_keyed_fold:
  assumes "votes_keyed m" and "\<And>x v. v_critic (step x v) = key x"
  shows "votes_keyed (foldl (\<lambda>m x. om_put (key x) (step x (vote_slot m (key x))) m) m xs)"
  using assms(1) by (induction xs arbitrary: m) (simp_all add: votes_keyed_put assms(2))

lemma eval_votes_keyed: "votes_keyed (eval_votes inp)"
proof -
  have "votes_keyed (attach_assignments (ei_assignments inp)
      (collapse_votes (r_spec (ei_review inp)) (om_vals (current_findings inp))))"
    unfolding attach_assignments_def collapse_votes_def
    by (intro votes_keyed_fold)
       (simp_all add: votes_keyed_def vote_attach_assignment_def vote_add_finding_def)
  then show ?thesis
    unfolding eval_votes_def votes_keyed_def by (auto simp: om_wf_map_values om_get_map_values)
qed

lemma votes_keyed_critics: "votes_keyed votes \<Longrightarrow> map v_critic (om_vals votes) = om_keys votes"
  unfolding votes_keyed_def om_vals_def om_keys_def using om.entries_get by fastforce

section \<open>Confidence carries no authority\<close>

definition with_confidence :: "(finding \<Rightarrow> confidence) \<Rightarrow> finding \<Rightarrow> finding" where
  "with_confidence g f = f\<lparr> f_confidence := g f \<rparr>"

definition reassess :: "(finding \<Rightarrow> confidence) \<Rightarrow> evaluation_input \<Rightarrow> evaluation_input" where
  "reassess g inp = inp\<lparr> ei_findings := map (with_confidence g) (ei_findings inp) \<rparr>"

lemma with_confidence_fields [simp]:
  "f_id (with_confidence g f) = f_id f" "f_critic (with_confidence g f) = f_critic f"
  "f_critic_generation (with_confidence g f) = f_critic_generation f"
  "f_worker (with_confidence g f) = f_worker f" "f_worker_boot (with_confidence g f) = f_worker_boot f"
  "f_review (with_confidence g f) = f_review f"
  "f_review_generation (with_confidence g f) = f_review_generation f"
  "f_target (with_confidence g f) = f_target f"
  "f_target_generation (with_confidence g f) = f_target_generation f"
  "f_category (with_confidence g f) = f_category f" "f_severity (with_confidence g f) = f_severity f"
  "f_outcome (with_confidence g f) = f_outcome f" "f_evidence (with_confidence g f) = f_evidence f"
  "f_state (with_confidence g f) = f_state f"
  by (simp_all add: with_confidence_def)

lemma reassess_fields [simp]:
  "ei_review (reassess g inp) = ei_review inp" "ei_assignments (reassess g inp) = ei_assignments inp"
  "ei_evidences (reassess g inp) = ei_evidences inp" "ei_challenges (reassess g inp) = ei_challenges inp"
  "ei_authority (reassess g inp) = ei_authority inp" "ei_cancelled (reassess g inp) = ei_cancelled inp"
  "ei_superseded (reassess g inp) = ei_superseded inp"
  "ei_policy_digest (reassess g inp) = ei_policy_digest inp"
  "ei_findings (reassess g inp) = map (with_confidence g) (ei_findings inp)"
  by (simp_all add: reassess_def)

lemma reassess_exclusion [simp]:
  "exclusion_reason (reassess g inp) (with_confidence g f) = exclusion_reason inp f"
  "is_current (reassess g inp) (with_confidence g f) = is_current inp f"
  by (simp_all add: exclusion_reason_def is_current_def Let_def cong: option.case_cong if_cong)

lemma om_put_map_values:
  "om_put k (h v) (map (\<lambda>(k, v). (k, h v)) m) = map (\<lambda>(k, v). (k, h v)) (om_put k v m)"
  by (induction k v m rule: om_put.induct) auto

lemma fold_put_map_values:
  assumes "\<And>x. key (h x) = key x"
  shows "foldl (\<lambda>m x. om_put (key x) x m) (map (\<lambda>(k, v). (k, h v)) m) (map h xs) =
     map (\<lambda>(k, v). (k, h v)) (foldl (\<lambda>m x. om_put (key x) x m) m xs)"
  by (induction xs arbitrary: m) (simp_all add: assms om_put_map_values)

lemma reassess_current [simp]:
  "current_findings (reassess g inp) =
     map (\<lambda>(k, f). (k, with_confidence g f)) (current_findings inp)"
  using fold_put_map_values [of f_id "with_confidence g" "[]" "filter (is_current inp) (ei_findings inp)"]
  by (simp add: current_findings_def filter_map comp_def)

lemma reassess_current_vals [simp]:
  "om_vals (map (\<lambda>(k, f). (k, with_confidence g f)) m) = map (with_confidence g) (om_vals m)"
  "om_keys (map (\<lambda>(k, f). (k, with_confidence g f)) m) = om_keys m"
  by (auto simp: om_vals_def om_keys_def)

lemma vote_add_reassess [simp]:
  "vote_add_finding spec (with_confidence g f) v = vote_add_finding spec f v"
  by (simp add: vote_add_finding_def count_outcome_def at_fail_threshold_def)

lemma collapse_reassess [simp]:
  "collapse_votes spec (map (with_confidence g) fs) = collapse_votes spec fs"
  by (simp add: collapse_votes_def foldl_map)

lemma eval_votes_reassess [simp]: "eval_votes (reassess g inp) = eval_votes inp"
  by (simp add: eval_votes_def)

lemma evidence_reassess [simp]: "evidence_tally_of (reassess g inp) = evidence_tally_of inp"
  by (simp add: evidence_tally_of_def referenced_evidence_def comp_def)

lemma count_if_map: "count_if P (map h xs) = count_if (P \<circ> h) xs"
  by (induction xs) auto

lemma covers_reassess [simp]: "covers_category c (with_confidence g f) = covers_category c f"
  by (simp add: covers_category_def)

lemma at_threshold_reassess [simp]:
  "at_fail_threshold spec (with_confidence g f) = at_fail_threshold spec f"
  by (simp add: at_fail_threshold_def)

lemma counts_reassess [simp]:
  "outcome_count oc (map (with_confidence g) fs) = outcome_count oc fs"
  "critical_fail_count spec (map (with_confidence g) fs) = critical_fail_count spec fs"
  "count_if (covers_category c) (map (with_confidence g) fs) = count_if (covers_category c) fs"
  "list_ex (covers_category c) (map (with_confidence g) fs) = list_ex (covers_category c) fs"
  "outcome_max_severity oc (map (with_confidence g) fs) = outcome_max_severity oc fs"
  by (simp_all add: outcome_count_def critical_fail_count_def count_if_map comp_def
      list_ex_iff outcome_max_severity_def foldl_map cong: if_cong)

lemma row_reassess [simp]: "row_matches (map (with_confidence g) fs) = row_matches fs"
  by (simp add: row_matches_def fun_eq_iff)

lemma lists_reassess [simp]:
  "excluded_findings (reassess g inp) = excluded_findings inp"
  "exclusion_reasons (reassess g inp) = exclusion_reasons inp"
  "superseded_findings (reassess g inp) = superseded_findings inp"
  "invalidated_findings (reassess g inp) = invalidated_findings inp"
  "unresolved_challenges (reassess g inp) = unresolved_challenges inp"
  "early_exit (reassess g inp) = early_exit inp"
  "eval_policy_digest H (reassess g inp) = eval_policy_digest H inp"
  by (simp_all add: excluded_findings_def exclusion_reasons_def superseded_findings_def
      invalidated_findings_def unresolved_challenges_def early_exit_def eval_policy_digest_def
      filter_map comp_def foldl_map cong: option.case_cong)

lemma check_predicate_reassess:
  "check_predicate (context_of (reassess g inp)) kind p = check_predicate (context_of inp) kind p"
  by (cases kind)
     (simp_all add: check_target_generation_def check_target_digest_def check_required_evidence_def
      check_evidence_integrity_def check_evidence_provenance_def check_required_roles_def
      check_minimum_critics_def check_required_verifiers_def check_critical_fails_def
      check_critic_generations_def check_worker_boots_def check_epoch_def check_categories_def
      check_quorum_def check_confidence_def Let_def)

lemma run_predicates_reassess [simp]:
  "run_predicates (context_of (reassess g inp)) = run_predicates (context_of inp)"
proof -
  have "fail_predicate (context_of (reassess g inp)) = fail_predicate (context_of inp)"
    by (simp add: fail_predicate_def fun_eq_iff check_predicate_reassess)
  then show ?thesis
    by (simp add: run_predicates_def)
qed

lemma evaluate_predicate_reassess [simp]:
  "evaluate_predicate (context_of (reassess g inp)) = evaluate_predicate (context_of inp)"
  by (simp add: evaluate_predicate_def fun_eq_iff check_predicate_reassess)

lemmas agg_defs =
  agg_all_required_pass_def agg_any_critical_fail_def agg_quorum_pass_def agg_weighted_review_def
  agg_required_role_pass_def agg_majority_def agg_consensus_def agg_policy_table_def

lemma aggregate_reassess [simp]:
  "aggregate (context_of (reassess g inp)) rej = aggregate (context_of inp) rej"
proof -
  have ec: "any_critical (context_of (reassess g inp)) = any_critical (context_of inp)"
    "all_required_fail (context_of (reassess g inp)) = all_required_fail (context_of inp)"
    "all_required_pass (context_of (reassess g inp)) = all_required_pass (context_of inp)"
    "denominator (context_of (reassess g inp)) = denominator (context_of inp)"
    by (simp_all add: any_critical_def all_required_fail_def all_required_pass_def denominator_def)
  have "aggregate_votes (context_of (reassess g inp)) = aggregate_votes (context_of inp)"
    by (cases "sp_aggregation (r_spec (ei_review inp))")
       (simp_all add: aggregate_votes_def agg_defs ec Let_def)
  then show ?thesis
    unfolding aggregate_def ec by simp
qed

lemma final_guards_reassess [simp]:
  "final_guards (context_of (reassess g inp)) h vd = final_guards (context_of inp) h vd"
  by (simp add: final_guards_def)

lemma explain_phases_reassess [simp]: "explain_phases H (reassess g inp) = explain_phases H inp"
  by (simp add: explain_phases_def Let_def)

text \<open>
  C36. Confidence is advisory: replacing the confidence of every finding by an arbitrary other value
  leaves the whole result, the disposition, the explanation and its digest, unchanged.
\<close>

theorem confidence_never_matters: "evaluate_review H (reassess g inp) = evaluate_review H inp"
  by (cases "early_exit inp") (simp_all add: evaluate_review_def Let_def)

section \<open>A critical failure cannot be outvoted\<close>

lemma any_critical_not_pass:
  assumes "any_critical ec" and "sp_aggregation (ec_spec ec) \<noteq> Agg_PolicyTable"
  shows "fst (aggregate_votes ec) = RD_Fail"
  using assms by (cases "sp_aggregation (ec_spec ec)") (simp_all add: aggregate_votes_def agg_defs Let_def)

text \<open>
  C3. Whatever the votes, the weights, the quorum or the consensus: when the current FAIL findings at
  or above the fail threshold exceed the policy limit, no aggregation other than an explicit policy
  table can return PASS.
\<close>

theorem critical_fail_never_passes:
  assumes "sp_max_critical_fails (r_spec (ei_review inp))
      < critical_fail_count (r_spec (ei_review inp)) (om_vals (current_findings inp))"
    and "sp_aggregation (r_spec (ei_review inp)) \<noteq> Agg_PolicyTable"
  shows "er_disposition (evaluate_review H inp) \<noteq> RD_Pass"
proof
  assume "er_disposition (evaluate_review H inp) = RD_Pass"
  then have "fst (aggregate_votes (context_of inp)) = RD_Pass"
    using verdict_passD(2) [THEN aggregate_pass(3)] by simp
  moreover have "fst (aggregate_votes (context_of inp)) = RD_Fail"
    by (rule any_critical_not_pass) (use assms in \<open>simp_all add: any_critical_def\<close>)
  ultimately show False
    by simp
qed

definition sample_outvoted_input :: evaluation_input where
  "sample_outvoted_input = sample_input (default_review_spec\<lparr> sp_aggregation := Agg_QuorumPass \<rparr>) [1, 2, 3]
     [sample_finding 1 Out_Pass Sev_Info FS_Current, sample_finding 2 Out_Pass Sev_Info FS_Current,
      sample_finding 3 Out_Fail Sev_Critical FS_Current]"

lemma sample_outvoted_critical:
  "critical_fail_count (r_spec (ei_review sample_outvoted_input)) (om_vals (current_findings sample_outvoted_input)) = 1"
  by code_simp

theorem critical_fail_never_passes_witness:
  "er_disposition (evaluate_review sha256 sample_outvoted_input) \<noteq> RD_Pass"
  by (rule critical_fail_never_passes)
     (simp_all only: sample_outvoted_critical, simp_all add: sample_outvoted_input_def sample_input_def
      sample_review_def default_review_spec_def)

section \<open>The consensus threshold\<close>

lemma u32_mul_no_overflow:
  assumes "unat b \<le> 10000"
  shows "unat ((ucast (a :: u32) :: u64) * ucast (b :: u32)) = unat a * unat b"
proof -
  have "unat a * unat b \<le> 4294967295 * 10000"
    using assms unat_less_4294967296 [of a] by (intro mult_mono) auto
  then show ?thesis
    by (simp add: unat_word_ariths)
qed

lemma ceil_div:
  "((m :: nat) + 9999) div 10000 = (if m mod 10000 = 0 then m div 10000 else Suc (m div 10000))"
proof -
  have split: "(m + 9999) div 10000 = m div 10000 + (m mod 10000 + 9999) div 10000"
    using div_add1_eq [of m 9999 10000] by simp
  have small: "m mod 10000 < 10000"
    by simp
  show ?thesis
  proof (cases "m mod 10000 = 0")
    case False
    then have "(m mod 10000 + 9999) div 10000 = 1"
      using small by (intro div_nat_eqI) simp_all
    with split False show ?thesis
      by simp
  qed (use split in simp)
qed

text \<open>
  The number of agreeing critics the consensus policy asks for is the exact ceiling of the
  declared fraction of the decisive critics; the 64-bit intermediate product never wraps.
\<close>

theorem consensus_needed_is_ceiling:
  assumes "unat basis_points \<le> 10000"
  shows "unat (consensus_needed n basis_points) = (unat n * unat basis_points + 9999) div 10000"
proof -
  define p :: u64 where "p = ucast n * ucast basis_points"
  have p: "unat p = unat n * unat basis_points"
    unfolding p_def by (rule u32_mul_no_overflow [OF assms])
  have bound: "unat p \<le> unat n * 10000"
    using assms p by simp
  have q: "unat (p div 10000) = unat p div 10000" and r: "unat (p mod 10000) = unat p mod 10000"
    by (simp_all add: unat_div unat_mod)
  have small: "unat p div 10000 \<le> unat n"
    using bound by (simp add: div_le_mono div_le_dividend less_eq_div_iff_mult_less_eq)
  have low: "unat (ucast (p div 10000) :: u32) = unat p div 10000"
    using small unat_less_4294967296 [of n] by (simp add: unat_ucast_64_32 q)
  show ?thesis
  proof (cases "p mod 10000 = 0")
    case True
    then have "unat p mod 10000 = 0"
      using r by simp
    then have "(unat p + 9999) div 10000 = unat p div 10000"
      by (simp add: ceil_div)
    then show ?thesis
      using True low p by (simp add: consensus_needed_def p_def Let_def)
  next
    case False
    then have nz: "unat p mod 10000 \<noteq> 0"
      using r by (metis unat_eq_zero)
    then have up: "(unat p + 9999) div 10000 = Suc (unat p div 10000)"
      by (simp add: ceil_div)
    have "10000 * (unat p div 10000) < unat p"
      using nz by (metis div_mult_mod_eq less_add_same_cancel1 mult.commute not_gr0)
    then have "unat p div 10000 < unat n"
      using bound by simp
    then have "Suc (unat p div 10000) < 4294967296"
      using unat_less_4294967296 [of n] by simp
    then have "unat ((ucast (p div 10000) :: u32) + 1) = Suc (unat p div 10000)"
      using low by (simp add: unat_word_ariths)
    then show ?thesis
      using False up p by (simp add: consensus_needed_def p_def Let_def)
  qed
qed

theorem consensus_needed_is_ceiling_witness:
  "unat (consensus_needed 5 6700) = 4"
  using consensus_needed_is_ceiling [of 6700 5] by simp

section \<open>A PASS and the PASS votes behind it\<close>

lemma votes_for_pos:
  "0 < votes_for oc decisive \<Longrightarrow> \<exists>v \<in> set decisive. v_dominant v = oc"
proof (rule ccontr)
  assume "0 < votes_for oc decisive" and "\<not> (\<exists>v \<in> set decisive. v_dominant v = oc)"
  then have "count_if (\<lambda>v. v_dominant v = oc) decisive = 0"
    using count_if_pos_iff by fast
  with \<open>0 < votes_for oc decisive\<close> show False
    by (simp add: votes_for_def)
qed

lemma weight_for_none:
  "\<forall>v \<in> set decisive. v_dominant v \<noteq> oc \<Longrightarrow> weight_for oc decisive = 0"
  by (induction decisive) (simp_all add: weight_for_def)

lemma weight_for_bound:
  "sum_list (map (\<lambda>v. if v_dominant v = oc then unat (v_weight v) else 0) vs) \<le> length vs * 4294967295"
proof (induction vs)
  case (Cons v vs)
  have "unat (v_weight v) \<le> 4294967295"
    using unat_less_4294967296 [of "v_weight v"] by simp
  with Cons show ?case
    by auto
qed simp

text \<open>The 64-bit sums of 32-bit weights do not wrap for fewer than 2^32 voters.\<close>

lemma unat_weight_for:
  assumes "length vs < 4294967296"
  shows "unat (weight_for oc vs) = sum_list (map (\<lambda>v. if v_dominant v = oc then unat (v_weight v) else 0) vs)"
  using assms
proof (induction vs)
  case Nil
  then show ?case by (simp add: weight_for_def)
next
  case (Cons v vs)
  let ?s = "\<lambda>xs. sum_list (map (\<lambda>v. if v_dominant v = oc then unat (v_weight v) else 0) xs)"
  have "?s (v # vs) \<le> length (v # vs) * 4294967295"
    by (rule weight_for_bound)
  also have "\<dots> \<le> 4294967295 * 4294967295"
    using Cons.prems by simp
  finally have "?s (v # vs) < 18446744073709551616"
    by simp
  moreover have "weight_for oc (v # vs) =
      (if v_dominant v = oc then ucast (v_weight v) else 0) + weight_for oc vs"
    by (simp add: weight_for_def)
  ultimately show ?case
    using Cons by (auto simp: unat_word_ariths)
qed

lemma weight_for_pos:
  assumes "length vs < 4294967296" and "v \<in> set vs" and "v_dominant v = oc" and "v_weight v \<noteq> 0"
  shows "0 < weight_for oc vs"
proof -
  have "0 < unat (v_weight v)"
    using assms(4) by (simp add: unat_gt_0)
  also have "\<dots> \<le> sum_list (map (\<lambda>v. if v_dominant v = oc then unat (v_weight v) else 0) vs)"
    using assms(2,3) by (intro member_le_sum_list) (auto simp: image_iff intro!: bexI [of _ v])
  finally show ?thesis
    using unat_weight_for [OF assms(1), of oc] by (simp add: word_less_nat_alt)
qed

definition votes_all :: "(critic_vote \<Rightarrow> bool) \<Rightarrow> (critic_id, critic_vote) omap \<Rightarrow> bool" where
  "votes_all P votes \<longleftrightarrow> om_wf votes \<and> (\<forall>k v. om_get votes k = Some v \<longrightarrow> P v)"

lemma votes_all_put: "votes_all P m \<Longrightarrow> P v \<Longrightarrow> votes_all P (om_put k v m)"
  by (simp add: votes_all_def)

lemma votes_all_slot: "votes_all P m \<Longrightarrow> P empty_vote \<Longrightarrow> P (vote_slot m k)"
  by (simp add: votes_all_def vote_slot_def split: option.split)

lemma votes_all_fold:
  assumes "votes_all P m" and "P empty_vote" and "\<And>x v. P v \<Longrightarrow> P (step x v)"
  shows "votes_all P (foldl (\<lambda>m x. om_put (key x) (step x (vote_slot m (key x))) m) m xs)"
  using assms(1)
  by (induction xs arbitrary: m) (simp_all add: votes_all_put votes_all_slot assms(2,3))

lemma count_outcome_weight [simp]: "v_weight (count_outcome spec f v) = v_weight v"
  by (cases "f_outcome f") (simp_all add: count_outcome_def)

lemma vote_steps_weight [simp]:
  "v_weight (vote_add_finding spec f v) = v_weight v"
  "v_weight (vote_attach_assignment a v) \<noteq> 0"
  "v_weight (settle_vote v) = v_weight v"
  by (simp_all add: vote_add_finding_def mark_conflict_def vote_attach_assignment_def settle_vote_def)

lemma om_vals_map_values: "om_vals (map (\<lambda>(k, v). (k, h v)) m) = map h (om_vals m)"
  by (auto simp: om_vals_def)

lemma eval_vote_weight:
  assumes "v \<in> set (om_vals (eval_votes inp))"
  shows "v_weight v \<noteq> 0"
proof -
  have "votes_all (\<lambda>v. v_weight v \<noteq> 0) (attach_assignments (ei_assignments inp)
      (collapse_votes (r_spec (ei_review inp)) (om_vals (current_findings inp))))"
    unfolding attach_assignments_def collapse_votes_def
    by (intro votes_all_fold) (simp_all add: votes_all_def empty_vote_def)
  with assms show ?thesis
    by (auto simp: eval_votes_def om_vals_map_values votes_all_def om_vals_mem)
qed

lemma settle_vote_dominant:
  "v_decisive (settle_vote v) \<Longrightarrow> v_dominant (settle_vote v) \<in> {Out_Pass, Out_Fail, Out_Warn}"
  by (simp add: settle_vote_def split: if_splits)

lemma eval_vote_dominant:
  assumes "v \<in> set (om_vals (eval_votes inp))" and "v_decisive v"
  shows "v_dominant v \<in> {Out_Pass, Out_Fail, Out_Warn}"
proof -
  from assms(1) obtain u where "v = settle_vote u"
    by (auto simp: eval_votes_def om_vals_map_values)
  with assms(2) settle_vote_dominant [of u] show ?thesis
    by simp
qed

lemma votes_for_member: "votes_for out vs \<noteq> 0 \<Longrightarrow> \<exists>v \<in> set vs. v_dominant v = out"
  using votes_for_pos [of out vs] by (simp add: word_gt_0)

lemma weight_for_member: "weight_for out vs \<noteq> 0 \<Longrightarrow> \<exists>v \<in> set vs. v_dominant v = out"
  using weight_for_none by blast

lemma unopposed_votes_pass:
  assumes len: "length vs < 4294967296" and some_vote: "vs \<noteq> []"
    and sane: "\<And>v. v \<in> set vs \<Longrightarrow> v_weight v \<noteq> 0 \<and> v_dominant v \<in> {Out_Pass, Out_Fail, Out_Warn}"
    and none: "weight_for Out_Fail vs = 0" "weight_for Out_Warn vs = 0"
  shows "\<exists>v \<in> set vs. v_dominant v = Out_Pass"
proof -
  obtain v where v: "v \<in> set vs"
    using some_vote by (metis last_in_set)
  have "v_dominant v \<noteq> Out_Fail" "v_dominant v \<noteq> Out_Warn"
    using weight_for_pos [OF len v] sane [OF v] none by auto
  with v sane [OF v] show ?thesis
    by auto
qed

lemma aggregate_votes_pass_vote:
  assumes pass: "fst (aggregate_votes ec) = RD_Pass"
    and table: "sp_aggregation (ec_spec ec) \<noteq> Agg_PolicyTable"
    and quorum: "sp_aggregation (ec_spec ec) = Agg_QuorumPass \<Longrightarrow> 0 < sp_quorum (ec_spec ec)"
    and roles: "sp_aggregation (ec_spec ec) = Agg_RequiredRolePass \<Longrightarrow> sp_required_roles (ec_spec ec) \<noteq> []"
    and len: "length (ec_decisive ec) < 4294967296"
    and some_vote: "ec_decisive ec \<noteq> []"
    and sane: "\<And>v. v \<in> set (ec_decisive ec) \<Longrightarrow>
      v_weight v \<noteq> 0 \<and> v_dominant v \<in> {Out_Pass, Out_Fail, Out_Warn}"
  shows "\<exists>v \<in> set (ec_decisive ec). v_dominant v = Out_Pass"
proof -
  have no_adverse: "\<exists>v \<in> set (ec_decisive ec). v_dominant v = Out_Pass"
    if "weight_for Out_Fail (ec_decisive ec) = 0" "weight_for Out_Warn (ec_decisive ec) = 0"
    by (rule unopposed_votes_pass [OF len some_vote _ that]) (rule sane)
  note voted = votes_for_member [of Out_Pass "ec_decisive ec"]
    and weighed = weight_for_member [of Out_Pass "ec_decisive ec"]
  show ?thesis
  proof (cases "sp_aggregation (ec_spec ec)")
    case Agg_AllRequiredPass
    with pass have "weight_for Out_Fail (ec_decisive ec) = 0" "weight_for Out_Warn (ec_decisive ec) = 0"
      by (auto simp: aggregate_votes_def agg_all_required_pass_def tally_votes_def Let_def word_gt_0
          split: if_splits)
    then show ?thesis by (rule no_adverse)
  next
    case Agg_AnyCriticalFail
    with pass have "weight_for Out_Fail (ec_decisive ec) = 0" "weight_for Out_Warn (ec_decisive ec) = 0"
      by (auto simp: aggregate_votes_def agg_any_critical_fail_def tally_votes_def Let_def word_gt_0
          split: if_splits)
    then show ?thesis by (rule no_adverse)
  next
    case Agg_QuorumPass
    with pass quorum have "votes_for Out_Pass (ec_decisive ec) \<noteq> 0"
      by (auto simp: aggregate_votes_def agg_quorum_pass_def tally_votes_def Let_def split: if_splits)
    then show ?thesis by (rule voted)
  next
    case Agg_WeightedReview
    with pass have "weight_for Out_Pass (ec_decisive ec) \<noteq> 0"
      by (auto simp: aggregate_votes_def agg_weighted_review_def tally_votes_def Let_def split: if_splits)
    then show ?thesis by (rule weighed)
  next
    case Agg_RequiredRolePass
    with pass roles show ?thesis
      by (cases "sp_required_roles (ec_spec ec)")
         (auto simp: aggregate_votes_def agg_required_role_pass_def Let_def list_ex_iff split: if_splits)
  next
    case Agg_MajorityWithConstraints
    with pass have "votes_for Out_Pass (ec_decisive ec) \<noteq> 0"
      by (auto simp: aggregate_votes_def agg_majority_def tally_votes_def Let_def split: if_splits)
    then show ?thesis by (rule voted)
  next
    case Agg_ConsensusThreshold
    with pass have "votes_for Out_Pass (ec_decisive ec) \<noteq> 0"
      by (auto simp: aggregate_votes_def agg_consensus_def tally_votes_def Let_def split: if_splits)
    then show ?thesis by (rule voted)
  next
    case Agg_PolicyTable
    with table show ?thesis by simp
  qed
qed

lemma decisive_length: "length (ec_decisive (context_of inp)) \<le> length (eval_votes inp)"
  by (simp add: votes_in_def om_vals_def)

text \<open>
  C28. A PASS rests on at least one decisive PASS vote, for every aggregation but the policy table,
  provided a quorum policy asks for at least one vote and a required-role policy names a role.
\<close>

theorem pass_rests_on_a_pass_vote:
  assumes "er_disposition (evaluate_review H inp) = RD_Pass"
    and "sp_aggregation (r_spec (ei_review inp)) \<noteq> Agg_PolicyTable"
    and "sp_aggregation (r_spec (ei_review inp)) = Agg_QuorumPass \<Longrightarrow> 0 < sp_quorum (r_spec (ei_review inp))"
    and "sp_aggregation (r_spec (ei_review inp)) = Agg_RequiredRolePass \<Longrightarrow>
      sp_required_roles (r_spec (ei_review inp)) \<noteq> []"
    and "length (eval_votes inp) < 4294967296"
  shows "\<exists>c \<in> set (ex_contributors (er_explanation (evaluate_review H inp))).
    cc_decisive c \<and> cc_outcome c = Out_Pass"
proof -
  let ?ec = "context_of inp"
  have "fst (aggregate ?ec (run_predicates ?ec)) = RD_Pass"
    by (rule verdict_passD(2)) (use assms(1) in simp)
  note agg = aggregate_pass [OF this]
  have "\<exists>v \<in> set (ec_decisive ?ec). v_dominant v = Out_Pass"
    using agg(1,3) assms(2-5) decisive_length [of inp]
    by (intro aggregate_votes_pass_vote)
       (auto simp: denominator_def eval_vote_weight dest: eval_vote_dominant)
  then obtain v where "v \<in> set (om_vals (eval_votes inp))" "v_decisive v" "v_dominant v = Out_Pass"
    by auto
  then have "contribution_of v \<in> set (map contribution_of (om_vals (eval_votes inp)))"
    "cc_decisive (contribution_of v) \<and> cc_outcome (contribution_of v) = Out_Pass"
    by (auto simp: contribution_of_def)
  then show ?thesis
    unfolding explanation_fields by blast
qed

lemma sample_spec:
  "r_spec (ei_review (sample_input spec critics findings)) = spec"
  "sp_aggregation default_review_spec = Agg_AllRequiredPass"
  by (simp_all add: sample_input_def sample_review_def default_review_spec_def)

lemma sample_votes_length:
  "length (eval_votes (sample_input default_review_spec [1] [sample_finding 1 Out_Pass Sev_Info FS_Current])) = 1"
  by code_simp

theorem pass_rests_on_a_pass_vote_witness:
  "\<exists>c \<in> set (ex_contributors (er_explanation (evaluate_review sha256
      (sample_input default_review_spec [1] [sample_finding 1 Out_Pass Sev_Info FS_Current])))).
    cc_decisive c \<and> cc_outcome c = Out_Pass"
  by (rule pass_rests_on_a_pass_vote)
     (simp_all add: sample_pass sample_votes_length sample_spec)

section \<open>Disagreement is detected\<close>

lemma largest_group_disagrees:
  assumes "0 < p + f + w"
  shows "0 < (if snd (largest_group (0, False) [p, f, w]) then p + f + w
              else p + f + w - fst (largest_group (0, False) [p, f, w]))
    \<longleftrightarrow> (0 < p \<and> 0 < f) \<or> (0 < p \<and> 0 < w) \<or> (0 < f \<and> 0 < w)"
  using assms by auto

lemma largest_group_le: "fst (largest_group (b, t) ns) \<le> max b (foldr max ns 0)"
  by (induction "(b, t)" ns arbitrary: b t rule: largest_group.induct) (auto simp: max_def)

lemma critics_with_pos: "critics_with oc vs \<noteq> [] \<longleftrightarrow> (\<exists>v \<in> set vs. v_dominant v = oc)"
  by (auto simp: critics_with_def filter_empty_conv)

lemma critics_with_partition:
  assumes "\<forall>v \<in> set vs. v_dominant v \<in> {Out_Pass, Out_Fail, Out_Warn}"
  shows "length vs = length (critics_with Out_Pass vs) + length (critics_with Out_Fail vs)
    + length (critics_with Out_Warn vs)"
  using assms by (induction vs) (auto simp: critics_with_def)

lemma of_nat_u32_pos: "n < 4294967296 \<Longrightarrow> (0 :: u32) < of_nat n \<longleftrightarrow> 0 < n"
  by (simp add: word_less_nat_alt unat_of_nat)

lemma two_outcomes:
  assumes "\<forall>v \<in> set vs. v_dominant v \<in> {Out_Pass, Out_Fail, Out_Warn}"
  shows "((\<exists>v \<in> set vs. v_dominant v = Out_Pass) \<and> (\<exists>v \<in> set vs. v_dominant v = Out_Fail)
      \<or> (\<exists>v \<in> set vs. v_dominant v = Out_Pass) \<and> (\<exists>v \<in> set vs. v_dominant v = Out_Warn)
      \<or> (\<exists>v \<in> set vs. v_dominant v = Out_Fail) \<and> (\<exists>v \<in> set vs. v_dominant v = Out_Warn))
    \<longleftrightarrow> (\<exists>u \<in> set vs. \<exists>v \<in> set vs. v_dominant u \<noteq> v_dominant v)"
proof -
  let ?D = "v_dominant ` set vs"
  have member: "(\<exists>v \<in> set vs. v_dominant v = oc) \<longleftrightarrow> oc \<in> ?D" for oc
    by auto
  have differ: "(\<exists>u \<in> set vs. \<exists>v \<in> set vs. v_dominant u \<noteq> v_dominant v) \<longleftrightarrow> (\<exists>x \<in> ?D. \<exists>y \<in> ?D. x \<noteq> y)"
    by simp
  have main: "(Out_Pass \<in> D \<and> Out_Fail \<in> D \<or> Out_Pass \<in> D \<and> Out_Warn \<in> D \<or> Out_Fail \<in> D \<and> Out_Warn \<in> D)
      \<longleftrightarrow> (\<exists>x \<in> D. \<exists>y \<in> D. x \<noteq> y)" if "D \<subseteq> {Out_Pass, Out_Fail, Out_Warn}" for D
  proof
    assume "\<exists>x \<in> D. \<exists>y \<in> D. x \<noteq> y"
    then obtain x y where xy: "x \<in> D" "y \<in> D" "x \<noteq> y"
      by blast
    then have "x \<in> {Out_Pass, Out_Fail, Out_Warn}" "y \<in> {Out_Pass, Out_Fail, Out_Warn}"
      using that by blast+
    then show "Out_Pass \<in> D \<and> Out_Fail \<in> D \<or> Out_Pass \<in> D \<and> Out_Warn \<in> D \<or> Out_Fail \<in> D \<and> Out_Warn \<in> D"
      using xy by (elim insertE emptyE) simp_all
  qed (elim disjE conjE; (rule bexI, rule bexI, rule finding_outcome.distinct | assumption)+)
  have "?D \<subseteq> {Out_Pass, Out_Fail, Out_Warn}"
    using assms by blast
  then show ?thesis
    unfolding member differ by (rule main)
qed

lemma disagreeing_count_pos:
  assumes sane: "\<forall>v \<in> set vs. v_dominant v \<in> {Out_Pass, Out_Fail, Out_Warn}"
    and len: "length vs < 4294967296"
  shows "0 < disagreeing_count vs \<longleftrightarrow> (\<exists>u \<in> set vs. \<exists>v \<in> set vs. v_dominant u \<noteq> v_dominant v)"
proof (cases "vs = []")
  case False
  let ?p = "length (critics_with Out_Pass vs)" and ?f = "length (critics_with Out_Fail vs)"
    and ?w = "length (critics_with Out_Warn vs)"
  let ?g = "largest_group (0, False) [?p, ?f, ?w]"
  have n: "length vs = ?p + ?f + ?w"
    by (rule critics_with_partition [OF sane])
  have "disagreeing_count vs = of_nat (if snd ?g then length vs else length vs - fst ?g)"
    using False by (simp add: disagreeing_count_def by_outcome_def Let_def del: largest_group.simps)
  then have "0 < disagreeing_count vs \<longleftrightarrow> 0 < (if snd ?g then length vs else length vs - fst ?g)"
    using len by (simp add: of_nat_u32_pos del: largest_group.simps)
  also have "\<dots> \<longleftrightarrow> (0 < ?p \<and> 0 < ?f) \<or> (0 < ?p \<and> 0 < ?w) \<or> (0 < ?f \<and> 0 < ?w)"
    unfolding n by (rule largest_group_disagrees) (use False n in auto)
  also have "\<dots> \<longleftrightarrow> (\<exists>u \<in> set vs. \<exists>v \<in> set vs. v_dominant u \<noteq> v_dominant v)"
    unfolding length_greater_0_conv critics_with_pos by (rule two_outcomes [OF sane])
  finally show ?thesis .
qed (simp add: disagreeing_count_def)

lemma disagreement_frame:
  "dg_present (ex_disagreement (er_explanation (evaluate_review H inp))) =
     dg_present (ec_disagreement (context_of inp))"
proof -
  have overlay: "dg_present (fst (apply_disagreement spec d vd)) = dg_present d" for spec d vd
    by (simp add: apply_disagreement_def split: disagreement_policy.split)
  show ?thesis
    using overlay
    by (simp add: evaluate_review_def finish_early_def finish_evaluation_def Let_def
        explain_phases_def seal_explanation_def split: option.split prod.split) (metis fst_conv)
qed

text \<open>
  C26. The explanation reports disagreement exactly when two decisive critics hold different
  outcomes: neither a tie, nor a minority of one, nor the aggregate can make it disappear.
\<close>

theorem disagreement_reported_iff:
  assumes "length (eval_votes inp) < 4294967296"
  shows "dg_present (ex_disagreement (er_explanation (evaluate_review H inp))) \<longleftrightarrow>
    (\<exists>u \<in> set (ec_decisive (context_of inp)). \<exists>v \<in> set (ec_decisive (context_of inp)).
       v_dominant u \<noteq> v_dominant v)"
proof -
  have "length (ec_decisive (context_of inp)) < 4294967296"
    using assms decisive_length [of inp] by simp
  then have "0 < disagreeing_count (ec_decisive (context_of inp)) \<longleftrightarrow>
      (\<exists>u \<in> set (ec_decisive (context_of inp)). \<exists>v \<in> set (ec_decisive (context_of inp)).
         v_dominant u \<noteq> v_dominant v)"
    by (intro disagreeing_count_pos ballI) (rule eval_vote_dominant [of _ inp], simp_all)
  then show ?thesis
    unfolding disagreement_frame by (simp add: disagreement_of_def Let_def)
qed

lemma sample_split_length: "length (eval_votes sample_split_input) = 2"
  by code_simp

theorem disagreement_reported_iff_witness:
  "\<exists>u \<in> set (ec_decisive (context_of sample_split_input)).
     \<exists>v \<in> set (ec_decisive (context_of sample_split_input)). v_dominant u \<noteq> v_dominant v"
  using disagreement_reported_iff [of sample_split_input sha256] sample_split_present sample_split_length
  by (simp add: disagreement_frame)

end
