(* ===== verification/CF_Lifecycle.thy ===== *)
theory CF_Lifecycle
  imports CF_Errors
begin

text \<open>
  The guarded review state machine (\<open>include/critic_fabric/lifecycle.hpp\<close>, \<open>src/lifecycle.cpp\<close>)
  and the path to EVALUATING that a commit records (\<open>coordinator.cpp\<close>).

  \<open>legal_transition\<close> is the table of the source; \<open>review_path\<close> are the state sequences it allows.
\<close>

fun legal_targets :: "review_state \<Rightarrow> review_state list" where
  "legal_targets RS_Declared =
     [RS_Assigning, RS_Cancelled, RS_Failed, RS_Superseded, RS_RevalidationRequired]"
| "legal_targets RS_Assigning =
     [RS_Assigned, RS_Cancelled, RS_Failed, RS_Superseded, RS_RevalidationRequired]"
| "legal_targets RS_Assigned =
     [RS_Reviewing, RS_Cancelled, RS_Failed, RS_Superseded, RS_RevalidationRequired]"
| "legal_targets RS_Reviewing =
     [RS_FindingsReceived, RS_Cancelled, RS_Failed, RS_Superseded, RS_RevalidationRequired]"
| "legal_targets RS_FindingsReceived =
     [RS_Validating, RS_Cancelled, RS_Failed, RS_Superseded, RS_RevalidationRequired]"
| "legal_targets RS_Validating =
     [RS_Challenged, RS_Evaluating, RS_Cancelled, RS_Failed, RS_Superseded, RS_RevalidationRequired]"
| "legal_targets RS_Challenged =
     [RS_RebuttalPending, RS_Evaluating, RS_Cancelled, RS_Failed, RS_Superseded,
      RS_RevalidationRequired]"
| "legal_targets RS_RebuttalPending =
     [RS_Evaluating, RS_Cancelled, RS_Failed, RS_Superseded, RS_RevalidationRequired]"
| "legal_targets RS_Evaluating =
     [RS_Resolved, RS_Cancelled, RS_Failed, RS_Superseded, RS_RevalidationRequired]"
| "legal_targets RS_Resolved =
     [RS_Committed, RS_Evaluating, RS_RevalidationRequired, RS_Cancelled, RS_Superseded, RS_Failed]"
| "legal_targets RS_RevalidationRequired =
     [RS_Assigning, RS_Cancelled, RS_Superseded, RS_Failed, RS_Retired, RS_Resolved]"
| "legal_targets RS_Committed = [RS_Superseded, RS_Retired]"
| "legal_targets RS_Cancelled = [RS_Retired]"
| "legal_targets RS_Superseded = [RS_Retired]"
| "legal_targets RS_Failed = [RS_Retired, RS_Superseded]"
| "legal_targets RS_Retired = []"

definition legal_transition :: "review_state \<Rightarrow> review_state \<Rightarrow> bool" where
  "legal_transition source dest \<longleftrightarrow> dest \<in> set (legal_targets source)"

definition is_terminal_review_state :: "review_state \<Rightarrow> bool" where
  "is_terminal_review_state s \<longleftrightarrow>
    s \<in> set [RS_Committed, RS_Cancelled, RS_Superseded, RS_Failed, RS_Retired]"

definition accepts_critic_input :: "review_state \<Rightarrow> bool" where
  "accepts_critic_input s \<longleftrightarrow>
    s \<in> set [RS_Assigned, RS_Reviewing, RS_FindingsReceived, RS_Validating, RS_Challenged,
             RS_RebuttalPending, RS_Evaluating, RS_RevalidationRequired]"

definition is_resolved_review_state :: "review_state \<Rightarrow> bool" where
  "is_resolved_review_state s \<longleftrightarrow> s = RS_Resolved"

definition is_abnormal_review_state :: "review_state \<Rightarrow> bool" where
  "is_abnormal_review_state s \<longleftrightarrow>
    s \<in> set [RS_Cancelled, RS_Superseded, RS_Failed, RS_RevalidationRequired, RS_Retired]"

definition validate_review_transition :: "review_state \<Rightarrow> review_state \<Rightarrow> status" where
  "validate_review_transition source dest =
    (if source = dest then Inl E_InvalidStateTransition
     else if \<not> legal_transition source dest then Inl E_InvalidStateTransition
     else success)"

fun disposition_for_state :: "review_state \<Rightarrow> review_disposition" where
  "disposition_for_state RS_Cancelled = RD_Cancelled"
| "disposition_for_state RS_Superseded = RD_Superseded"
| "disposition_for_state RS_RevalidationRequired = RD_RevalidationRequired"
| "disposition_for_state _ = RD_None"

definition is_recoverable_review_state :: "review_state \<Rightarrow> bool" where
  "is_recoverable_review_state s \<longleftrightarrow>
    (case s of RS_Committed \<Rightarrow> True | RS_Cancelled \<Rightarrow> True | RS_Superseded \<Rightarrow> True
     | RS_Failed \<Rightarrow> True | RS_Retired \<Rightarrow> True | _ \<Rightarrow> False)"

fun path_to_evaluating :: "review_state \<Rightarrow> review_state list" where
  "path_to_evaluating RS_Declared =
     [RS_Assigning, RS_Assigned, RS_Reviewing, RS_FindingsReceived, RS_Validating, RS_Evaluating]"
| "path_to_evaluating RS_Assigning =
     [RS_Assigned, RS_Reviewing, RS_FindingsReceived, RS_Validating, RS_Evaluating]"
| "path_to_evaluating RS_Assigned = [RS_Reviewing, RS_FindingsReceived, RS_Validating, RS_Evaluating]"
| "path_to_evaluating RS_Reviewing = [RS_FindingsReceived, RS_Validating, RS_Evaluating]"
| "path_to_evaluating RS_FindingsReceived = [RS_Validating, RS_Evaluating]"
| "path_to_evaluating RS_Validating = [RS_Evaluating]"
| "path_to_evaluating RS_Challenged = [RS_Evaluating]"
| "path_to_evaluating RS_RebuttalPending = [RS_Evaluating]"
| "path_to_evaluating RS_Evaluating = []"
| "path_to_evaluating _ = []"

section \<open>Paths through the state machine\<close>

fun review_path :: "review_state \<Rightarrow> review_state list \<Rightarrow> bool" where
  "review_path s [] = True"
| "review_path s (t # ts) = (is_ok (validate_review_transition s t) \<and> review_path t ts)"

lemma validate_ok_iff:
  "is_ok (validate_review_transition s t) \<longleftrightarrow> s \<noteq> t \<and> legal_transition s t"
  by (simp add: validate_review_transition_def)

lemma legal_irrefl: "\<not> legal_transition s s"
  by (cases s) (simp_all add: legal_transition_def)

lemma validate_ok_legal: "is_ok (validate_review_transition s t) \<longleftrightarrow> legal_transition s t"
  using legal_irrefl validate_ok_iff by blast

lemma recoverable_iff_terminal: "is_recoverable_review_state s \<longleftrightarrow> is_terminal_review_state s"
  by (cases s) (simp_all add: is_recoverable_review_state_def is_terminal_review_state_def)

lemma terminal_step: "legal_transition s t \<Longrightarrow> is_terminal_review_state s \<Longrightarrow> is_terminal_review_state t"
  by (cases s) (auto simp: legal_transition_def is_terminal_review_state_def)

lemma review_path_append:
  "review_path s (xs @ ys) \<longleftrightarrow> review_path s xs \<and> review_path (last (s # xs)) ys"
  by (induction s xs rule: review_path.induct) auto

text \<open>
  Terminal states are closed: along any sequence of legal transitions that starts in a
  terminal state (committed, cancelled, superseded, failed, retired), every state is terminal, and
  none of them is COMMITTED, so a closed review can neither reopen nor become committed later.
\<close>

theorem terminal_states_closed:
  assumes "review_path s path" and "is_terminal_review_state s"
  shows "list_all (\<lambda>t. is_terminal_review_state t \<and> t \<noteq> RS_Committed) path"
  using assms
proof (induction s path rule: review_path.induct)
  case (1 s)
  then show ?case by simp
next
  case (2 s t ts)
  then have legal: "legal_transition s t"
    by (simp add: validate_ok_legal)
  then have "is_terminal_review_state t"
    using "2.prems"(2) by (rule terminal_step)
  moreover have "t \<noteq> RS_Committed"
    using legal "2.prems"(2) by (cases s) (auto simp: legal_transition_def is_terminal_review_state_def)
  ultimately show ?case
    using 2 by simp
qed

theorem terminal_states_closed_witness:
  "review_path RS_Committed [RS_Superseded, RS_Retired] \<and> is_terminal_review_state RS_Committed \<and>
   list_all (\<lambda>t. is_terminal_review_state t \<and> t \<noteq> RS_Committed) [RS_Superseded, RS_Retired]"
proof -
  have p: "review_path RS_Committed [RS_Superseded, RS_Retired]"
    by (simp add: validate_review_transition_def legal_transition_def)
  have t: "is_terminal_review_state RS_Committed"
    by (simp add: is_terminal_review_state_def)
  show ?thesis
    using terminal_states_closed [OF p t] p t by simp
qed

text \<open>
  A commit is always preceded by a resolution: on any legal path from a declared review to
  COMMITTED, the state right before COMMITTED is RESOLVED, whatever the path did before.
\<close>

theorem committed_only_from_resolved:
  assumes "review_path RS_Declared (path @ [RS_Committed])"
  shows "path \<noteq> [] \<and> last path = RS_Resolved"
proof -
  have "legal_transition (last (RS_Declared # path)) RS_Committed"
    using assms by (simp add: review_path_append validate_ok_legal)
  then have "last (RS_Declared # path) = RS_Resolved"
    by (cases "last (RS_Declared # path)") (simp_all add: legal_transition_def)
  then show ?thesis
    by (cases path) auto
qed

theorem committed_only_from_resolved_witness:
  "last [RS_Assigning, RS_Assigned, RS_Reviewing, RS_FindingsReceived, RS_Validating, RS_Evaluating,
     RS_Resolved] = RS_Resolved"
proof -
  have "review_path RS_Declared ([RS_Assigning, RS_Assigned, RS_Reviewing, RS_FindingsReceived,
      RS_Validating, RS_Evaluating, RS_Resolved] @ [RS_Committed])"
    by (simp add: validate_review_transition_def legal_transition_def)
  from committed_only_from_resolved [OF this] show ?thesis
    by blast
qed

text \<open>The states a commit may start from: those it does not refuse and that are not resting places
  of a finished commit.\<close>

definition committable_state :: "review_state \<Rightarrow> bool" where
  "committable_state s \<longleftrightarrow> \<not> is_terminal_review_state s \<and> s \<noteq> RS_RevalidationRequired \<and> s \<noteq> RS_Resolved"

text \<open>
  The states that a commit journals form a legal path: from every open state other than
  RESOLVED and REVALIDATION_REQUIRED, \<open>path_to_evaluating\<close> followed by RESOLVED and COMMITTED is a
  sequence of legal transitions.
\<close>

theorem commit_path_legal:
  assumes "committable_state s"
  shows "review_path s (path_to_evaluating s @ [RS_Resolved, RS_Committed])"
  using assms
  by (cases s) (simp_all add: committable_state_def is_terminal_review_state_def
      validate_review_transition_def legal_transition_def)

theorem commit_path_legal_witness:
  "review_path RS_FindingsReceived [RS_Validating, RS_Evaluating, RS_Resolved, RS_Committed]"
proof -
  have "committable_state RS_FindingsReceived"
    by (simp add: committable_state_def is_terminal_review_state_def)
  from commit_path_legal [OF this] show ?thesis by simp
qed

end
