(* ===== verification/CF_Requests.thy ===== *)
theory CF_Requests
  imports CF_Records
begin

text \<open>
  The request structs that the public operations of the coordinator take, from the same headers as
  the records of \<open>CF_Records\<close>.
\<close>

record register_target_request =
  rt_id :: target_id
  rt_target_class :: target_class
  rt_schema_name :: string
  rt_payload :: bytes
  rt_producer :: producer_id
  rt_producer_version :: string
  rt_provenance :: string
  rt_reviewable :: bool
  rt_epoch :: coordinator_epoch
  rt_request :: request_id

record register_critic_request =
  rc_id :: critic_id
  rc_capability :: critic_capability
  rc_registrant :: producer_id
  rc_provenance :: string
  rc_compat :: compatibility
  rc_advance_generation :: bool
  rc_epoch :: coordinator_epoch
  rc_request :: request_id

record register_worker_request =
  rw_id :: worker_id
  rw_boot :: worker_boot_id
  rw_critic :: critic_id
  rw_critic_generation :: critic_generation
  rw_host :: producer_id
  rw_process_label :: string
  rw_epoch :: coordinator_epoch
  rw_request :: request_id

record declare_readiness_request =
  dr_id :: worker_id
  dr_boot :: worker_boot_id
  dr_critic :: critic_id
  dr_critic_generation :: critic_generation
  dr_ready :: bool
  dr_healthy :: bool
  dr_capability_evidence :: digest
  dr_epoch :: coordinator_epoch
  dr_request :: request_id

record submit_finding_request =
  sf_category :: finding_category
  sf_severity :: severity
  sf_outcome :: finding_outcome
  sf_evidence :: "evidence_id list"
  sf_explanation :: string
  sf_confidence :: confidence
  sf_provenance :: string
  sf_supersedes :: finding_id
  sf_epoch :: coordinator_epoch
  sf_request :: request_id
  sf_review :: review_id
  sf_review_generation :: review_generation
  sf_target :: target_id
  sf_target_generation :: target_generation
  sf_critic :: critic_id
  sf_critic_generation :: critic_generation
  sf_worker :: worker_id
  sf_worker_boot :: worker_boot_id

record submit_evidence_request =
  se_source_type :: evidence_source_type
  se_provenance :: evidence_provenance
  se_integrity :: evidence_integrity
  se_producer :: producer_id
  se_reference :: string
  se_payload :: bytes
  se_finding :: finding_id
  se_epoch :: coordinator_epoch
  se_request :: request_id
  se_review :: review_id
  se_review_generation :: review_generation
  se_target :: target_id
  se_target_generation :: target_generation
  se_critic :: critic_id
  se_critic_generation :: critic_generation
  se_worker :: worker_id
  se_worker_boot :: worker_boot_id

record submit_challenge_request =
  sc_challenged_finding :: finding_id
  sc_challenged_finding_generation :: finding_generation
  sc_disputed_predicate :: string
  sc_rationale :: string
  sc_evidence :: "evidence_id list"
  sc_epoch :: coordinator_epoch
  sc_request :: request_id
  sc_review :: review_id
  sc_review_generation :: review_generation
  sc_target :: target_id
  sc_target_generation :: target_generation
  sc_critic :: critic_id
  sc_critic_generation :: critic_generation
  sc_worker :: worker_id
  sc_worker_boot :: worker_boot_id

record submit_rebuttal_request =
  sr_challenge :: challenge_id
  sr_challenge_generation :: challenge_generation
  sr_outcome :: challenge_outcome
  sr_argument :: string
  sr_evidence :: "evidence_id list"
  sr_epoch :: coordinator_epoch
  sr_request :: request_id
  sr_review :: review_id
  sr_review_generation :: review_generation
  sr_target :: target_id
  sr_target_generation :: target_generation
  sr_critic :: critic_id
  sr_critic_generation :: critic_generation
  sr_worker :: worker_id
  sr_worker_boot :: worker_boot_id

record declare_review_request =
  dv_request :: review_request_id
  dv_target :: target_id
  dv_target_generation :: target_generation
  dv_spec :: review_spec
  dv_epoch :: coordinator_epoch

record requested_assignment =
  ra_critic :: critic_id
  ra_critic_generation :: critic_generation
  ra_worker :: worker_id
  ra_worker_boot :: worker_boot_id
  ra_role :: critic_role
  ra_required :: bool

record assign_critics_request =
  ac_review :: review_id
  ac_review_generation :: review_generation
  ac_assignments :: "requested_assignment list"
  ac_epoch :: coordinator_epoch
  ac_request :: request_id

record cancel_review_request =
  cn_review :: review_id
  cn_review_generation :: review_generation
  cn_reason :: string
  cn_epoch :: coordinator_epoch
  cn_request :: request_id

record supersede_target_request =
  st_target :: target_id
  st_target_class :: target_class
  st_schema_name :: string
  st_payload :: bytes
  st_producer :: producer_id
  st_producer_version :: string
  st_provenance :: string
  st_reason :: string
  st_epoch :: coordinator_epoch
  st_request :: request_id

record commit_review_request =
  cm_review :: review_id
  cm_review_generation :: review_generation
  cm_target_generation :: target_generation
  cm_epoch :: coordinator_epoch
  cm_request :: request_id
  cm_include_rendered_explanation :: bool

end
