(* ===== verification/CF_State.thy ===== *)
theory CF_State
  imports CF_Journal CF_Verdict CF_Lifecycle CF_Requests
begin

text \<open>
  The state of the coordinator (\<open>include/critic_fabric/coordinator.hpp\<close>) and its single mutation
  path (\<open>src/coordinator.cpp\<close>, \<open>apply_entry_locked\<close>, \<open>append_entries\<close>, \<open>rebuild_derived_locked\<close>).

  Every mutating operation validates, computes journal entries, numbers them from the journal's next
  sequence, applies them to the state and appends them to the journal, in this order; \<open>publish\<close> is
  this common tail. Operations hold the commit lock throughout, so each is one atomic step of the
  model. \<open>durable_of\<close> is the part of the state that entries determine.
\<close>

section \<open>Configuration and state\<close>

record coordinator_config =
  cfg_limits :: runtime_limits
  cfg_persistence_path :: string
  cfg_coordinator_id :: producer_id
  cfg_process_label :: string

record recovery_report =
  rr_epoch :: coordinator_epoch
  rr_durable_state_recovered :: bool
  rr_journal_records :: u64
  rr_targets_recovered :: u32
  rr_critics_recovered :: u32
  rr_workers_recovered :: u32
  rr_reviews_recovered :: u32
  rr_reviews_in_flight_at_shutdown :: u32
  rr_reviews_moved_to_revalidation :: u32
  rr_decisions_recovered :: u32
  rr_findings_recovered :: u32
  rr_dynamic_authority_cleared :: u32

record review_slot =
  sl_record :: review_record
  sl_policy_digest :: digest
  sl_assignments :: "(critic_assignment_id, critic_assignment) omap"
  sl_findings :: "(finding_id, finding) omap"
  sl_evidences :: "(evidence_id, evidence_record) omap"
  sl_challenges :: "(challenge_id, challenge) omap"
  sl_rebuttals :: "(rebuttal_id, rebuttal) omap"
  sl_decision :: "decision option"

text \<open>The maps the journal entries write.\<close>

record durable_state =
  du_epoch :: coordinator_epoch
  du_targets :: "(target_id, target_record) omap"
  du_target_history :: "(target_id, (target_generation, target_record) omap) omap"
  du_critics :: "(critic_id, critic_registration) omap"
  du_workers :: "(worker_id, worker_record) omap"
  du_incumbents :: "(critic_id, worker_id) omap"
  du_reviews :: "(review_id, review_slot) omap"
  du_review_requests :: "(review_request_id, review_id) omap"

record id_counters =
  ct_order :: u64
  ct_target_id :: u64
  ct_critic_id :: u64
  ct_worker_id :: u64
  ct_review_id :: u64
  ct_assignment_id :: u64
  ct_finding_id :: u64
  ct_evidence_id :: u64
  ct_challenge_id :: u64
  ct_rebuttal_id :: u64
  ct_decision_id :: u64
  ct_boot_order :: u64

record coordinator =
  co_config :: coordinator_config
  co_limits :: runtime_limits
  co_journal :: journal
  co_persistence_failed :: bool
  co_started :: bool
  co_recovery :: recovery_report
  co_state :: durable_state
  co_next :: id_counters

definition empty_state :: durable_state where
  "empty_state =
    \<lparr> du_epoch = 0, du_targets = [], du_target_history = [], du_critics = [], du_workers = [],
      du_incumbents = [], du_reviews = [], du_review_requests = [] \<rparr>"

definition first_counters :: id_counters where
  "first_counters =
    \<lparr> ct_order = 1, ct_target_id = 1, ct_critic_id = 1, ct_worker_id = 1, ct_review_id = 1,
      ct_assignment_id = 1, ct_finding_id = 1, ct_evidence_id = 1, ct_challenge_id = 1,
      ct_rebuttal_id = 1, ct_decision_id = 1, ct_boot_order = 1 \<rparr>"

definition empty_report :: recovery_report where
  "empty_report =
    \<lparr> rr_epoch = 0, rr_durable_state_recovered = False, rr_journal_records = 0,
      rr_targets_recovered = 0, rr_critics_recovered = 0, rr_workers_recovered = 0,
      rr_reviews_recovered = 0, rr_reviews_in_flight_at_shutdown = 0,
      rr_reviews_moved_to_revalidation = 0, rr_decisions_recovered = 0,
      rr_findings_recovered = 0, rr_dynamic_authority_cleared = 0 \<rparr>"

definition new_coordinator :: "coordinator_config \<Rightarrow> coordinator" where
  "new_coordinator config =
    \<lparr> co_config = config, co_limits = clamp_to_hard_ceiling (cfg_limits config),
      co_journal = open_in_memory default_limits, co_persistence_failed = False,
      co_started = False, co_recovery = empty_report, co_state = empty_state,
      co_next = first_counters \<rparr>"

section \<open>Lookups\<close>

definition find_slot :: "durable_state \<Rightarrow> review_id \<Rightarrow> review_slot option" where
  "find_slot st i = om_get (du_reviews st) i"

definition put_slot :: "review_id \<Rightarrow> review_slot \<Rightarrow> durable_state \<Rightarrow> durable_state" where
  "put_slot i sl st = st\<lparr> du_reviews := om_put i sl (du_reviews st) \<rparr>"

definition find_active_assignment :: "review_slot \<Rightarrow> critic_id \<Rightarrow> critic_assignment option" where
  "find_active_assignment sl critic =
    find (\<lambda>a. a_critic a = critic \<and> a_active a \<and> a_review_generation a = r_generation (sl_record sl))
      (om_vals (sl_assignments sl))"

definition finding_state_is_current :: "finding_state \<Rightarrow> bool" where
  "finding_state_is_current s \<longleftrightarrow> s = FS_Current \<or> s = FS_Challenged \<or> s = FS_Upheld"

definition assignment_is_discharged :: "(finding_id, finding) omap \<Rightarrow> critic_assignment_id \<Rightarrow> bool" where
  "assignment_is_discharged findings i \<longleftrightarrow>
     list_ex (\<lambda>f. f_assignment f = i \<and> finding_state_is_current (f_state f)) (om_vals findings)"

definition same_evidence_set :: "evidence_id list \<Rightarrow> evidence_id list \<Rightarrow> bool" where
  "same_evidence_set a b \<longleftrightarrow> length a = length b \<and> sort a = sort b"

section \<open>Entry application\<close>

definition empty_slot :: "review_record \<Rightarrow> digest \<Rightarrow> review_slot" where
  "empty_slot r d =
    \<lparr> sl_record = r, sl_policy_digest = d, sl_assignments = [], sl_findings = [], sl_evidences = [],
      sl_challenges = [], sl_rebuttals = [], sl_decision = None \<rparr>"

definition on_slot :: "review_id \<Rightarrow> (review_slot \<Rightarrow> review_slot) \<Rightarrow> durable_state \<Rightarrow> durable_state" where
  "on_slot i change st =
    (case find_slot st i of None \<Rightarrow> st | Some sl \<Rightarrow> put_slot i (change sl) st)"

definition apply_target_superseded ::
  "target_record \<Rightarrow> target_record \<Rightarrow> durable_state \<Rightarrow> durable_state" where
  "apply_target_superseded previous t st =
    (let history = (case om_get (du_target_history st) (t_id previous) of None \<Rightarrow> [] | Some h \<Rightarrow> h);
         st1 = (if id_valid (t_id previous) \<and> id_valid (t_generation previous)
                then st\<lparr> du_target_history := om_put (t_id previous)
                       (om_put (t_generation previous) previous history) (du_target_history st) \<rparr>
                else st)
     in st1\<lparr> du_targets := om_put (t_id t) t (du_targets st1) \<rparr>)"

definition apply_worker_registered :: "worker_record \<Rightarrow> durable_state \<Rightarrow> durable_state" where
  "apply_worker_registered w st =
    (let st1 = st\<lparr> du_workers := om_put (w_id w) w (du_workers st) \<rparr>;
         enthrone = st1\<lparr> du_incumbents := om_put (w_critic w) (w_id w) (du_incumbents st1) \<rparr>
     in case om_get (du_incumbents st1) (w_critic w) of
          None \<Rightarrow> enthrone
        | Some i \<Rightarrow>
            (let existing_order = (case om_get (du_workers st1) i of None \<Rightarrow> 0 | Some x \<Rightarrow> w_boot_order x)
             in if w_boot_order w > existing_order then enthrone else st1))"

definition apply_review_declared :: "hash_fun \<Rightarrow> review_record \<Rightarrow> durable_state \<Rightarrow> durable_state" where
  "apply_review_declared H r st =
    (let digest = compute_policy_digest H (r_spec r);
         sl = (case find_slot st (r_id r) of
                 None \<Rightarrow> empty_slot r digest
               | Some sl \<Rightarrow> sl\<lparr> sl_record := r, sl_policy_digest := digest \<rparr>);
         st1 = put_slot (r_id r) sl st
     in st1\<lparr> du_review_requests := om_put (r_request r) (r_id r) (du_review_requests st1) \<rparr>)"

definition apply_assignments_added :: "critic_assignment list \<Rightarrow> review_slot \<Rightarrow> review_slot" where
  "apply_assignments_added as sl =
    sl\<lparr> sl_assignments := foldl (\<lambda>m a. om_put (a_id a) a m) (sl_assignments sl) as \<rparr>"

definition apply_assignment_updated :: "critic_assignment \<Rightarrow> review_slot \<Rightarrow> review_slot" where
  "apply_assignment_updated a sl =
    (case om_get (sl_assignments sl) (a_id a) of
       None \<Rightarrow> sl
     | Some _ \<Rightarrow> sl\<lparr> sl_assignments := om_put (a_id a) a (sl_assignments sl) \<rparr>)"

definition link_evidence ::
  "finding_id \<Rightarrow> (evidence_id, evidence_record) omap \<Rightarrow> evidence_id \<Rightarrow> (evidence_id, evidence_record) omap" where
  "link_evidence fid m i =
    (case om_get m i of
       None \<Rightarrow> m
     | Some e \<Rightarrow> if \<not> id_valid (e_finding e) then om_put i (e\<lparr> e_finding := fid \<rparr>) m else m)"

definition apply_finding_recorded :: "finding \<Rightarrow> review_slot \<Rightarrow> review_slot" where
  "apply_finding_recorded f sl =
    sl\<lparr> sl_findings := om_put (f_id f) f (sl_findings sl),
        sl_evidences := foldl (link_evidence (f_id f)) (sl_evidences sl) (f_evidence f) \<rparr>"

definition update_finding_state :: "finding_state_change \<Rightarrow> finding \<Rightarrow> finding" where
  "update_finding_state fc f =
    (let f1 = f\<lparr> f_state := fc_state fc \<rparr>;
         f2 = (if id_valid (fc_superseded_by fc) then f1\<lparr> f_supersedes := fc_superseded_by fc \<rparr> else f1)
     in if id_valid (fc_challenged_by fc) then f2\<lparr> f_challenged_by := fc_challenged_by fc \<rparr> else f2)"

definition apply_finding_state_changed :: "finding_state_change \<Rightarrow> durable_state \<Rightarrow> durable_state" where
  "apply_finding_state_changed fc st =
    (case find (\<lambda>(i, sl). om_get (sl_findings sl) (fc_finding fc) \<noteq> None) (du_reviews st) of
       None \<Rightarrow> st
     | Some (i, sl) \<Rightarrow>
         (case om_get (sl_findings sl) (fc_finding fc) of
            None \<Rightarrow> st
          | Some f \<Rightarrow> put_slot i (sl\<lparr> sl_findings :=
              om_put (fc_finding fc) (update_finding_state fc f) (sl_findings sl) \<rparr>) st))"

definition apply_evidence_recorded :: "evidence_record \<Rightarrow> review_slot \<Rightarrow> review_slot" where
  "apply_evidence_recorded e sl =
    (let findings =
           (if id_valid (e_finding e) then
              (case om_get (sl_findings sl) (e_finding e) of
                 None \<Rightarrow> sl_findings sl
               | Some f \<Rightarrow>
                   if List.member (f_evidence f) (e_id e) then sl_findings sl
                   else om_put (e_finding e) (f\<lparr> f_evidence := f_evidence f @ [e_id e] \<rparr>) (sl_findings sl))
            else sl_findings sl)
     in sl\<lparr> sl_findings := findings, sl_evidences := om_put (e_id e) e (sl_evidences sl) \<rparr>)"

definition apply_review_state_changed ::
  "u64 \<Rightarrow> review_state_change \<Rightarrow> review_slot \<Rightarrow> review_slot" where
  "apply_review_state_changed sequence rv sl =
    (let r = sl_record sl in
     if r_generation r = rv_review_generation rv then
       sl\<lparr> sl_record := r\<lparr> r_state := rv_state rv,
            r_disposition := rv_disposition rv,
            r_superseded_by := rv_superseded_by rv,
            r_status_detail := (if rv_detail rv \<noteq> [] then rv_detail rv else r_status_detail r),
            r_cancellation_reason := rv_cancellation_reason rv,
            r_authority_current := rv_authority_current rv,
            r_rounds_used := rv_rounds_used rv,
            r_updated_order := sequence \<rparr> \<rparr>
     else sl)"

definition apply_decision_committed :: "decision \<Rightarrow> review_slot \<Rightarrow> review_slot" where
  "apply_decision_committed d sl =
    (if r_generation (sl_record sl) = d_review_generation d then sl\<lparr> sl_decision := Some d \<rparr> else sl)"

fun apply_body :: "hash_fun \<Rightarrow> u64 \<Rightarrow> journal_body \<Rightarrow> durable_state \<Rightarrow> durable_state" where
  "apply_body H sequence (JR_EpochEstablished ep) st = st\<lparr> du_epoch := ep \<rparr>"
| "apply_body H sequence (JR_TargetRegistered t) st = st\<lparr> du_targets := om_put (t_id t) t (du_targets st) \<rparr>"
| "apply_body H sequence (JR_TargetSuperseded previous g t) st = apply_target_superseded previous t st"
| "apply_body H sequence (JR_CriticRegistered c) st = st\<lparr> du_critics := om_put (c_id c) c (du_critics st) \<rparr>"
| "apply_body H sequence (JR_WorkerRegistered w) st = apply_worker_registered w st"
| "apply_body H sequence (JR_ReviewDeclared r) st = apply_review_declared H r st"
| "apply_body H sequence (JR_AssignmentsAdded i g as) st = on_slot i (apply_assignments_added as) st"
| "apply_body H sequence (JR_AssignmentUpdated a) st = on_slot (a_review a) (apply_assignment_updated a) st"
| "apply_body H sequence (JR_FindingRecorded f) st = on_slot (f_review f) (apply_finding_recorded f) st"
| "apply_body H sequence (JR_FindingStateChanged fc) st = apply_finding_state_changed fc st"
| "apply_body H sequence (JR_EvidenceRecorded e) st = on_slot (e_review e) (apply_evidence_recorded e) st"
| "apply_body H sequence (JR_ChallengeRecorded c) st =
     on_slot (ch_review c) (\<lambda>sl. sl\<lparr> sl_challenges := om_put (ch_id c) c (sl_challenges sl) \<rparr>) st"
| "apply_body H sequence (JR_RebuttalRecorded r) st =
     on_slot (rb_review r) (\<lambda>sl. sl\<lparr> sl_rebuttals := om_put (rb_id r) r (sl_rebuttals sl) \<rparr>) st"
| "apply_body H sequence (JR_ReviewStateChanged rv) st =
     on_slot (rv_review rv) (apply_review_state_changed sequence rv) st"
| "apply_body H sequence (JR_DecisionCommitted d) st = on_slot (d_review d) (apply_decision_committed d) st"
| "apply_body H sequence JR_Unspecified st = st"

definition apply_entry :: "hash_fun \<Rightarrow> journal_entry \<Rightarrow> durable_state \<Rightarrow> durable_state" where
  "apply_entry H e st = apply_body H (je_sequence e) (je_body e) st"

definition apply_entries :: "hash_fun \<Rightarrow> journal_entry list \<Rightarrow> durable_state \<Rightarrow> durable_state" where
  "apply_entries H es st = foldl (\<lambda>s e. apply_entry H e s) st es"

section \<open>Publishing\<close>

fun assign_sequences :: "journal_body list \<Rightarrow> u64 \<Rightarrow> journal_entry list" where
  "assign_sequences [] n = []"
| "assign_sequences (b # bs) n = \<lparr> je_sequence = n, je_body = b \<rparr> # assign_sequences bs (n + 1)"

definition append_entries :: "env \<Rightarrow> journal_entry list \<Rightarrow> coordinator \<Rightarrow> coordinator \<times> status" where
  "append_entries env es c =
    (case append_all (journal_append env) (co_journal c) es of
       (j, Inr _) \<Rightarrow> (c\<lparr> co_journal := j \<rparr>, success)
     | (j, Inl err) \<Rightarrow> (c\<lparr> co_journal := j, co_persistence_failed := True \<rparr>, Inl err))"

text \<open>The tail every mutating operation ends with.\<close>

definition publish :: "env \<Rightarrow> journal_body list \<Rightarrow> coordinator \<Rightarrow> coordinator \<times> status" where
  "publish env bodies c =
    (let es = assign_sequences bodies (jn_next_sequence (co_journal c));
         c1 = c\<lparr> co_state := apply_entries (env_hash env) es (co_state c) \<rparr>
     in append_entries env es c1)"

definition finish :: "'a \<Rightarrow> coordinator \<times> status \<Rightarrow> coordinator \<times> 'a result" where
  "finish a cs = (case cs of (c, Inr _) \<Rightarrow> (c, Inr a) | (c, Inl err) \<Rightarrow> (c, Inl err))"

definition bump :: "(id_counters \<Rightarrow> id_counters) \<Rightarrow> coordinator \<Rightarrow> coordinator" where
  "bump h c = c\<lparr> co_next := h (co_next c) \<rparr>"

end
