(* ===== verification/CF_Authority.thy ===== *)
theory CF_Authority
  imports CF_State
begin

text \<open>
  Authority (\<open>src/coordinator.cpp\<close>, lines 594-963): the check every critic message passes, the
  fencing of a worker incarnation, the revalidation and supersession of reviews, and the detached
  view of live authority an evaluation runs on.
\<close>

section \<open>The authority check\<close>

definition check_review_open :: "review_record \<Rightarrow> status" where
  "check_review_open r =
    (case r_state r of
       RS_Cancelled \<Rightarrow> Inl E_ReviewCancelled
     | RS_Superseded \<Rightarrow> Inl E_ReviewSuperseded
     | RS_Committed \<Rightarrow> Inl E_ResultAlreadyCommitted
     | RS_Retired \<Rightarrow> Inl E_ReviewClosed
     | RS_Failed \<Rightarrow> Inl E_ReviewClosed
     | _ \<Rightarrow> if \<not> accepts_critic_input (r_state r) then Inl E_ReviewNotOpen else success)"

definition check_target_live :: "durable_state \<Rightarrow> authority_context \<Rightarrow> review_record \<Rightarrow> status" where
  "check_target_live st au r =
    (case om_get (du_targets st) (au_target au) of
       None \<Rightarrow> Inl E_TargetUnknown
     | Some t \<Rightarrow> first_error
        [(t_supersession t \<noteq> TS_Current, E_TargetSuperseded),
         (t_generation t \<noteq> r_target_generation r, E_StaleTargetGeneration)])"

definition check_worker_live :: "durable_state \<Rightarrow> authority_context \<Rightarrow> status" where
  "check_worker_live st au =
    (case om_get (du_critics st) (au_critic au) of
       None \<Rightarrow> Inl E_CriticNotRegistered
     | Some c \<Rightarrow>
         if c_generation c \<noteq> au_critic_generation au then Inl E_StaleCriticGeneration
         else (case om_get (du_workers st) (au_worker au) of
           None \<Rightarrow> Inl E_WorkerNotRegistered
         | Some w \<Rightarrow> first_error
             [(w_boot w \<noteq> au_worker_boot au, E_StaleWorkerBoot),
              (w_critic w \<noteq> au_critic au, E_CriticNotAuthoritative),
              (w_critic_generation w \<noteq> au_critic_generation au, E_StaleCriticGeneration),
              (om_get (du_incumbents st) (au_critic au) \<noteq> Some (au_worker au), E_CriticNotAuthoritative),
              (\<not> w_ready w \<or> \<not> w_healthy w \<or> \<not> w_authoritative w, E_CriticNotAuthoritative)]))"

definition check_assignment ::
  "authority_context \<Rightarrow> review_slot \<Rightarrow> critic_assignment result" where
  "check_assignment au sl =
    (case find_active_assignment sl (au_critic au) of
       None \<Rightarrow> Inl E_CriticNotAuthoritative
     | Some a \<Rightarrow>
         if a_worker a \<noteq> au_worker au \<or> a_worker_boot a \<noteq> au_worker_boot au
         then Inl E_CriticNotAuthoritative
         else if a_critic_generation a \<noteq> au_critic_generation au then Inl E_StaleCriticGeneration
         else Inr a)"

definition check_authority ::
  "durable_state \<Rightarrow> authority_context \<Rightarrow> (review_slot \<times> critic_assignment) result" where
  "check_authority st au =
    (if au_epoch au \<noteq> du_epoch st then Inl E_StaleCoordinatorEpoch
     else case find_slot st (au_review au) of
       None \<Rightarrow> Inl E_ReviewUnknown
     | Some sl \<Rightarrow>
         if r_generation (sl_record sl) \<noteq> au_review_generation au then Inl E_StaleReviewGeneration
         else if r_target (sl_record sl) \<noteq> au_target au
              \<or> r_target_generation (sl_record sl) \<noteq> au_target_generation au
         then Inl E_TargetMismatch
         else
           result_bind (check_review_open (sl_record sl)) (\<lambda>_.
           result_bind (check_target_live st au (sl_record sl)) (\<lambda>_.
           result_bind (check_worker_live st au) (\<lambda>_.
           result_bind (check_assignment au sl) (\<lambda>a. Inr (sl, a))))))"

section \<open>Fencing and revalidation\<close>

definition revalidate_review :: "review_slot \<Rightarrow> string \<Rightarrow> journal_body list" where
  "revalidate_review sl reason =
    (let r = sl_record sl in
     if is_recoverable_review_state (r_state r) then []
     else [JR_ReviewStateChanged
       \<lparr> rv_review = r_id r, rv_review_generation = r_generation r,
         rv_state = RS_RevalidationRequired, rv_disposition = RD_RevalidationRequired,
         rv_superseded_by = 0, rv_detail = reason, rv_cancellation_reason = [],
         rv_authority_current = False, rv_rounds_used = r_rounds_used r \<rparr>])"

definition retire_assignment :: "string \<Rightarrow> critic_assignment \<Rightarrow> critic_assignment" where
  "retire_assignment reason a = a\<lparr> a_active := False, a_retirement_reason := reason \<rparr>"

definition retirements ::
  "(critic_assignment \<Rightarrow> bool) \<Rightarrow> string \<Rightarrow> review_slot \<Rightarrow> journal_body list" where
  "retirements applies reason sl =
    (let retired = map (retire_assignment reason) (filter applies (om_vals (sl_assignments sl)))
     in map JR_AssignmentUpdated retired
        @ (if retired = [] then [] else revalidate_review sl reason))"

definition held_by_worker :: "worker_record \<Rightarrow> review_slot \<Rightarrow> critic_assignment \<Rightarrow> bool" where
  "held_by_worker w sl a \<longleftrightarrow>
     a_active a \<and> a_worker a = w_id w \<and> a_worker_boot a = w_boot w
     \<and> \<not> assignment_is_discharged (sl_findings sl) (a_id a)"

definition fence_worker_entries :: "durable_state \<Rightarrow> string \<Rightarrow> worker_id \<Rightarrow> journal_body list result" where
  "fence_worker_entries st reason worker =
    (case om_get (du_workers st) worker of
       None \<Rightarrow> Inl E_WorkerNotRegistered
     | Some w \<Rightarrow>
         if \<not> w_authoritative w \<and> \<not> w_ready w \<and> \<not> w_healthy w then Inr []
         else Inr (JR_WorkerRegistered (w\<lparr> w_ready := False, w_healthy := False, w_authoritative := False \<rparr>)
           # concat (map (\<lambda>sl. retirements (held_by_worker w sl) reason sl) (om_vals (du_reviews st)))))"

fun fence_workers :: "durable_state \<Rightarrow> string \<Rightarrow> worker_id list \<Rightarrow> journal_body list result" where
  "fence_workers st reason [] = Inr []"
| "fence_workers st reason (w # ws) =
     result_bind (fence_worker_entries st reason w) (\<lambda>here.
     result_bind (fence_workers st reason ws) (\<lambda>rest. Inr (here @ rest)))"

section \<open>Supersession of a target generation\<close>

definition invalidate_findings :: "review_slot \<Rightarrow> journal_body list" where
  "invalidate_findings sl =
    map (\<lambda>(i, f). JR_FindingStateChanged
        \<lparr> fc_finding = i, fc_state = FS_Invalidated, fc_superseded_by = 0, fc_challenged_by = 0,
          fc_reason = ''target generation superseded'' \<rparr>)
      (filter (\<lambda>(i, f). finding_state_is_current (f_state f)) (sl_findings sl))"

definition retire_review :: "review_slot \<Rightarrow> journal_body list" where
  "retire_review sl =
    (let r = sl_record sl;
         change = (\<lambda>state disposition detail. JR_ReviewStateChanged
           \<lparr> rv_review = r_id r, rv_review_generation = r_generation r, rv_state = state,
             rv_disposition = disposition, rv_superseded_by = 0, rv_detail = detail,
             rv_cancellation_reason = [], rv_authority_current = False,
             rv_rounds_used = r_rounds_used r \<rparr>)
     in if is_terminal_review_state (r_state r) then
          (if \<not> r_authority_current r then []
           else [change (r_state r) (r_disposition r)
             ''target generation advanced; this historical outcome remains inspectable but no longer describes the current target generation''])
        else [change RS_Superseded RD_Superseded
             ''target generation advanced; a fresh review is required for the new generation''])"

definition supersede_reviews_for_target ::
  "durable_state \<Rightarrow> target_id \<Rightarrow> target_generation \<Rightarrow> journal_body list" where
  "supersede_reviews_for_target st target previous_generation =
    concat (map (\<lambda>sl. invalidate_findings sl @ retire_review sl)
      (filter (\<lambda>sl. r_target (sl_record sl) = target
          \<and> r_target_generation (sl_record sl) = previous_generation) (om_vals (du_reviews st))))"

section \<open>Views\<close>

definition referenced_critics :: "review_slot \<Rightarrow> critic_id list" where
  "referenced_critics sl =
    om_keys (foldl (\<lambda>m k. om_put k () m) []
      (map a_critic (om_vals (sl_assignments sl)) @ map f_critic (om_vals (sl_findings sl))))"

definition critic_generation_entry :: "durable_state \<Rightarrow> critic_id \<Rightarrow> (critic_id \<times> critic_generation) list" where
  "critic_generation_entry st critic =
    (case om_get (du_critics st) critic of None \<Rightarrow> [] | Some c \<Rightarrow> [(critic, c_generation c)])"

definition incumbent_entry :: "durable_state \<Rightarrow> critic_id \<Rightarrow> (critic_id \<times> worker_incarnation) list" where
  "incumbent_entry st critic =
    (case om_get (du_incumbents st) critic of
       None \<Rightarrow> []
     | Some i \<Rightarrow> (case om_get (du_workers st) i of
         None \<Rightarrow> []
       | Some w \<Rightarrow> [(critic, \<lparr> wi_id = w_id w, wi_boot = w_boot w, wi_epoch = w_epoch w \<rparr>)]))"

definition build_authority_view :: "durable_state \<Rightarrow> review_slot \<Rightarrow> live_authority_view" where
  "build_authority_view st sl =
    (let target = om_get (du_targets st) (r_target (sl_record sl)); critics = referenced_critics sl
     in \<lparr> lv_epoch = du_epoch st,
          lv_current_target = (case target of None \<Rightarrow> 0 | Some t \<Rightarrow> t_id t),
          lv_current_target_generation = (case target of None \<Rightarrow> 0 | Some t \<Rightarrow> t_generation t),
          lv_current_target_digest = (case target of None \<Rightarrow> zero_digest | Some t \<Rightarrow> t_content_digest t),
          lv_critic_generations = concat (map (critic_generation_entry st) critics),
          lv_incumbent_workers = concat (map (incumbent_entry st) critics) \<rparr>)"

definition build_evaluation_input :: "durable_state \<Rightarrow> review_slot \<Rightarrow> evaluation_input" where
  "build_evaluation_input st sl =
    \<lparr> ei_review = sl_record sl,
      ei_assignments = om_vals (sl_assignments sl),
      ei_findings = om_vals (sl_findings sl),
      ei_evidences = om_vals (sl_evidences sl),
      ei_challenges = om_vals (sl_challenges sl),
      ei_rebuttals = om_vals (sl_rebuttals sl),
      ei_authority = build_authority_view st sl,
      ei_cancelled = (r_state (sl_record sl) = RS_Cancelled),
      ei_superseded = (r_state (sl_record sl) = RS_Superseded),
      ei_policy_digest = sl_policy_digest sl \<rparr>"

text \<open>\<open>ReviewSnapshot\<close>: a detached copy of a slot with the digest of its canonical encoding.\<close>

record review_snapshot =
  sn_review :: review_record
  sn_assignments :: "critic_assignment list"
  sn_findings :: "finding list"
  sn_evidences :: "evidence_record list"
  sn_challenges :: "challenge list"
  sn_rebuttals :: "rebuttal list"
  sn_decision :: "decision option"
  sn_state_digest :: digest

definition slot_writes :: "review_slot \<Rightarrow> (writer \<Rightarrow> writer) list" where
  "slot_writes sl =
    [w_u32 (content_digest_domain_code CD_State),
     enc_review_record (sl_record sl),
     w_u32 (of_nat (length (sl_assignments sl))),
     w_each enc_critic_assignment (om_vals (sl_assignments sl)),
     w_u32 (of_nat (length (sl_findings sl))),
     w_each enc_finding (om_vals (sl_findings sl)),
     w_u32 (of_nat (length (sl_evidences sl))),
     w_each enc_evidence_record (om_vals (sl_evidences sl)),
     w_u32 (of_nat (length (sl_challenges sl))),
     w_each enc_challenge (om_vals (sl_challenges sl)),
     w_u32 (of_nat (length (sl_rebuttals sl))),
     w_each enc_rebuttal (om_vals (sl_rebuttals sl)),
     w_boolean (sl_decision sl \<noteq> None),
     w_each enc_decision (case sl_decision sl of None \<Rightarrow> [] | Some d \<Rightarrow> [d])]"

definition build_snapshot :: "hash_fun \<Rightarrow> review_slot \<Rightarrow> review_snapshot" where
  "build_snapshot H sl =
    \<lparr> sn_review = sl_record sl,
      sn_assignments = om_vals (sl_assignments sl),
      sn_findings = om_vals (sl_findings sl),
      sn_evidences = om_vals (sl_evidences sl),
      sn_challenges = om_vals (sl_challenges sl),
      sn_rebuttals = om_vals (sl_rebuttals sl),
      sn_decision = sl_decision sl,
      sn_state_digest = hash_writes H (slot_writes sl) \<rparr>"

text \<open>The context as a line of text.\<close>

definition authority_text :: "authority_context \<Rightarrow> string" where
  "authority_text au = concat
    [''epoch='', dec64 (au_epoch au), '' worker='', dec64 (au_worker au), '' boot='', dec64 (au_worker_boot au),
     '' critic='', dec64 (au_critic au), ''/'', dec64 (au_critic_generation au),
     '' review='', dec64 (au_review au), ''/'', dec64 (au_review_generation au),
     '' target='', dec64 (au_target au), ''/'', dec64 (au_target_generation au),
     '' request='', dec64 (au_request au)]"

end
