(* ===== verification/CF_Registration.thy ===== *)
theory CF_Registration
  imports CF_Authority
begin

text \<open>
  Targets, critics and workers (\<open>src/coordinator.cpp\<close>, lines 574-592 and 965-1500): registration,
  supersession of a target generation, readiness, fencing and the queries. An operation takes the
  environment, the request and the coordinator and returns the coordinator after the step with the
  result; identities and orders taken from the counters stay consumed when a later guard rejects.
\<close>

section \<open>Common guards\<close>

definition mutation_guard :: "coordinator \<Rightarrow> status" where
  "mutation_guard c = first_error
    [(\<not> co_started c, E_InternalError),
     (co_persistence_failed c, E_PersistenceUnavailable)]"

definition fail_with :: "error_code \<Rightarrow> coordinator \<Rightarrow> coordinator \<times> 'a result" where
  "fail_with err c = (c, Inl err)"

definition over :: "'a list \<Rightarrow> u32 \<Rightarrow> bool" where
  "over xs bound \<longleftrightarrow> length xs > unat bound"

definition next_order :: "coordinator \<Rightarrow> u64 \<times> coordinator" where
  "next_order c = (ct_order (co_next c), bump (\<lambda>n. n\<lparr> ct_order := ct_order n + 1 \<rparr>) c)"

definition allocate_target_id :: "coordinator \<Rightarrow> target_id \<times> coordinator" where
  "allocate_target_id c =
    (ct_target_id (co_next c), bump (\<lambda>n. n\<lparr> ct_target_id := ct_target_id n + 1 \<rparr>) c)"

definition allocate_critic_id :: "coordinator \<Rightarrow> critic_id \<times> coordinator" where
  "allocate_critic_id c =
    (ct_critic_id (co_next c), bump (\<lambda>n. n\<lparr> ct_critic_id := ct_critic_id n + 1 \<rparr>) c)"

definition allocate_worker_id :: "coordinator \<Rightarrow> worker_id \<times> coordinator" where
  "allocate_worker_id c =
    (ct_worker_id (co_next c), bump (\<lambda>n. n\<lparr> ct_worker_id := ct_worker_id n + 1 \<rparr>) c)"

definition next_boot_order :: "coordinator \<Rightarrow> u64 \<times> coordinator" where
  "next_boot_order c =
    (ct_boot_order (co_next c), bump (\<lambda>n. n\<lparr> ct_boot_order := ct_boot_order n + 1 \<rparr>) c)"

section \<open>Targets\<close>

definition target_request_too_large :: "runtime_limits \<Rightarrow> register_target_request \<Rightarrow> bool" where
  "target_request_too_large l q \<longleftrightarrow>
     over (rt_payload q) (max_target_payload_bytes l)
   \<or> over (rt_schema_name q) (max_metadata_string_bytes l)
   \<or> over (rt_provenance q) (max_metadata_string_bytes l)
   \<or> over (rt_producer_version q) (max_metadata_string_bytes l)"

definition target_of_request :: "hash_fun \<Rightarrow> target_id \<Rightarrow> register_target_request \<Rightarrow> target_record" where
  "target_of_request H i q =
    (let t = \<lparr> t_id = i, t_generation = 0, t_target_class = rt_target_class q,
               t_content_digest = zero_digest, t_schema_digest = H (string_bytes (rt_schema_name q)),
               t_schema_name = rt_schema_name q, t_producer = rt_producer q,
               t_producer_version = rt_producer_version q, t_provenance = rt_provenance q,
               t_payload = rt_payload q, t_created_order = 0, t_reviewable = rt_reviewable q,
               t_supersession = TS_Current, t_superseded_by = 0, t_supersession_reason = [] \<rparr>
     in t\<lparr> t_content_digest := compute_target_content_digest H t \<rparr>)"

definition same_target_content :: "target_record \<Rightarrow> target_record \<Rightarrow> bool" where
  "same_target_content existing t \<longleftrightarrow>
     t_content_digest existing = t_content_digest t
   \<and> t_target_class existing = t_target_class t
   \<and> t_schema_name existing = t_schema_name t
   \<and> t_reviewable existing = t_reviewable t
   \<and> t_supersession existing = TS_Current"

definition register_target ::
  "env \<Rightarrow> register_target_request \<Rightarrow> coordinator \<Rightarrow> coordinator \<times> target_record result" where
  "register_target env q c =
    (case mutation_guard c of Inl err \<Rightarrow> fail_with err c
     | Inr _ \<Rightarrow>
       (let st = co_state c; l = co_limits c in
        if rt_epoch q \<noteq> du_epoch st then fail_with E_StaleCoordinatorEpoch c
        else if target_request_too_large l q then fail_with E_ResourceLimitExceeded c
        else
          (let ic = (if id_valid (rt_id q) then (rt_id q, c) else allocate_target_id c);
               t = target_of_request (env_hash env) (fst ic) q;
               c1 = snd ic
           in case om_get (du_targets st) (t_id t) of
                None \<Rightarrow>
                  (if length (du_targets st) \<ge> unat (max_retained_targets l)
                   then fail_with E_ResourceLimitExceeded c1
                   else
                     (let oc = next_order c1;
                          t1 = t\<lparr> t_generation := first_generation, t_created_order := fst oc \<rparr>
                      in finish t1 (publish env [JR_TargetRegistered t1] (snd oc))))
              | Some existing \<Rightarrow>
                  (if same_target_content existing t then (c1, Inr existing)
                   else if advance_would_overflow (t_generation existing)
                   then fail_with E_ResourceLimitExceeded c1
                   else
                     (let oc = next_order c1;
                          t1 = t\<lparr> t_generation := advance (t_generation existing),
                                  t_created_order := fst oc \<rparr>
                      in finish t1 (publish env
                           (JR_TargetSuperseded existing (t_generation existing) t1
                            # supersede_reviews_for_target st (t_id t1) (t_generation existing))
                           (snd oc)))))))"

definition supersede_target ::
  "env \<Rightarrow> supersede_target_request \<Rightarrow> coordinator \<Rightarrow> coordinator \<times> target_record result" where
  "supersede_target env q c =
    (if \<not> id_valid (st_target q) then fail_with E_InvalidIdentity c
     else register_target env
       \<lparr> rt_id = st_target q, rt_target_class = st_target_class q, rt_schema_name = st_schema_name q,
         rt_payload = st_payload q, rt_producer = st_producer q,
         rt_producer_version = st_producer_version q, rt_provenance = st_provenance q,
         rt_reviewable = True, rt_epoch = st_epoch q, rt_request = st_request q \<rparr> c)"

definition query_target :: "target_id \<Rightarrow> coordinator \<Rightarrow> target_record result" where
  "query_target i c =
    (case om_get (du_targets (co_state c)) i of None \<Rightarrow> Inl E_TargetUnknown | Some t \<Rightarrow> Inr t)"

definition query_target_generation ::
  "target_id \<Rightarrow> target_generation \<Rightarrow> coordinator \<Rightarrow> target_record result" where
  "query_target_generation i g c =
    (let history =
           (case om_get (du_target_history (co_state c)) i of
              None \<Rightarrow> Inl E_TargetUnknown
            | Some h \<Rightarrow> (case om_get h g of None \<Rightarrow> Inl E_TargetUnknown | Some t \<Rightarrow> Inr t))
     in case om_get (du_targets (co_state c)) i of
          None \<Rightarrow> history
        | Some t \<Rightarrow> if t_generation t = g then Inr t else history)"

section \<open>Critics\<close>

definition capabilities_equal :: "critic_capability \<Rightarrow> critic_capability \<Rightarrow> bool" where
  "capabilities_equal a b \<longleftrightarrow>
     cap_roles a = cap_roles b \<and> cap_target_classes a = cap_target_classes b
   \<and> cap_finding_categories a = cap_finding_categories b
   \<and> cap_specialization a = cap_specialization b
   \<and> cap_implementation_version a = cap_implementation_version b
   \<and> cap_capability_evidence a = cap_capability_evidence b
   \<and> cap_deterministic_output a = cap_deterministic_output b
   \<and> cap_supports_challenge_response a = cap_supports_challenge_response b"

definition critic_request_guard :: "durable_state \<Rightarrow> runtime_limits \<Rightarrow> register_critic_request \<Rightarrow> status" where
  "critic_request_guard st l q =
    (let cap = rc_capability q in first_error
      [(rc_epoch q \<noteq> du_epoch st, E_StaleCoordinatorEpoch),
       (cap_roles cap = {}, E_CriticCapabilityMismatch),
       (cap_target_classes cap = {}, E_CriticCapabilityMismatch),
       (cap_finding_categories cap = {}, E_CriticCapabilityMismatch),
       (over (cap_specialization cap) (max_metadata_string_bytes l)
        \<or> over (cap_implementation_version cap) (max_metadata_string_bytes l)
        \<or> over (rc_provenance q) (max_metadata_string_bytes l)
        \<or> over (cp_schema_name (rc_compat q)) (max_metadata_string_bytes l)
        \<or> over (cp_producer_version (rc_compat q)) (max_metadata_string_bytes l),
        E_ResourceLimitExceeded)])"

definition critic_of_request :: "critic_id \<Rightarrow> register_critic_request \<Rightarrow> critic_registration" where
  "critic_of_request i q =
    \<lparr> c_id = i, c_generation = 0, c_capability = rc_capability q, c_registrant = rc_registrant q,
      c_provenance = rc_provenance q, c_compat = rc_compat q, c_registered_order = 0 \<rparr>"

definition workers_of_critic :: "durable_state \<Rightarrow> critic_id \<Rightarrow> worker_id list" where
  "workers_of_critic st critic = map fst (filter (\<lambda>(i, w). w_critic w = critic) (du_workers st))"

definition critic_advanced_reason :: string where
  "critic_advanced_reason = ''critic implementation generation advanced; revalidation is required''"

text \<open>Every incarnation and every active assignment of the previous generation is retired.\<close>

definition retire_critic_generation :: "durable_state \<Rightarrow> critic_id \<Rightarrow> journal_body list result" where
  "retire_critic_generation st critic =
    result_bind (fence_workers st critic_advanced_reason (workers_of_critic st critic)) (\<lambda>fences.
      Inr (fences @ concat (map
        (\<lambda>sl. retirements (\<lambda>a. a_active a \<and> a_critic a = critic) critic_advanced_reason sl)
        (om_vals (du_reviews st)))))"

definition register_critic ::
  "env \<Rightarrow> register_critic_request \<Rightarrow> coordinator \<Rightarrow> coordinator \<times> critic_registration result" where
  "register_critic env q c =
    (case mutation_guard c of Inl err \<Rightarrow> fail_with err c
     | Inr _ \<Rightarrow>
     (case critic_request_guard (co_state c) (co_limits c) q of Inl err \<Rightarrow> fail_with err c
      | Inr _ \<Rightarrow>
        (let st = co_state c;
             ic = (if id_valid (rc_id q) then (rc_id q, c) else allocate_critic_id c);
             r = critic_of_request (fst ic) q;
             c1 = snd ic
         in case om_get (du_critics st) (c_id r) of
              None \<Rightarrow>
                (let oc = next_order c1;
                     r1 = r\<lparr> c_generation := first_generation, c_registered_order := fst oc \<rparr>
                 in finish r1 (publish env [JR_CriticRegistered r1] (snd oc)))
            | Some existing \<Rightarrow>
                (if \<not> rc_advance_generation q \<and> capabilities_equal (c_capability existing) (c_capability r)
                    \<and> c_compat existing = c_compat r
                 then (c1, Inr existing)
                 else if advance_would_overflow (c_generation existing)
                 then fail_with E_ResourceLimitExceeded c1
                 else
                   (let oc = next_order c1;
                        r1 = r\<lparr> c_generation := advance (c_generation existing),
                                c_registered_order := fst oc \<rparr>
                    in case retire_critic_generation st (c_id r1) of
                         Inl err \<Rightarrow> fail_with err (snd oc)
                       | Inr retired \<Rightarrow>
                           finish r1 (publish env (JR_CriticRegistered r1 # retired) (snd oc)))))))"

definition query_critic :: "critic_id \<Rightarrow> coordinator \<Rightarrow> critic_registration result" where
  "query_critic i c =
    (case om_get (du_critics (co_state c)) i of None \<Rightarrow> Inl E_CriticNotRegistered | Some r \<Rightarrow> Inr r)"

section \<open>Workers\<close>

definition worker_request_guard :: "durable_state \<Rightarrow> runtime_limits \<Rightarrow> register_worker_request \<Rightarrow> status" where
  "worker_request_guard st l q = first_error
    [(rw_epoch q \<noteq> du_epoch st, E_StaleCoordinatorEpoch),
     (\<not> id_valid (rw_boot q), E_InvalidIdentity),
     (over (rw_process_label q) (max_metadata_string_bytes l), E_ResourceLimitExceeded),
     (om_get (du_critics st) (rw_critic q) = None, E_CriticNotRegistered),
     (map_option c_generation (om_get (du_critics st) (rw_critic q)) \<noteq> Some (rw_critic_generation q),
      E_StaleCriticGeneration)]"

definition worker_of_request :: "durable_state \<Rightarrow> worker_id \<Rightarrow> u64 \<Rightarrow> u64 \<Rightarrow> register_worker_request \<Rightarrow> worker_record" where
  "worker_of_request st i order boot_order q =
    \<lparr> w_id = i, w_boot = rw_boot q, w_epoch = du_epoch st, w_critic = rw_critic q,
      w_critic_generation = rw_critic_generation q, w_host = rw_host q,
      w_process_label = rw_process_label q, w_ready = False, w_healthy = False,
      w_authoritative = False, w_boot_order = boot_order, w_readiness_order = order,
      w_readiness_digest = zero_digest \<rparr>"

definition competing_workers :: "durable_state \<Rightarrow> worker_id \<Rightarrow> critic_id \<Rightarrow> worker_id list" where
  "competing_workers st i critic =
    map fst (filter (\<lambda>(k, w). k \<noteq> i \<and> w_critic w = critic \<and> w_authoritative w) (du_workers st))"

definition register_fresh_worker ::
  "env \<Rightarrow> register_worker_request \<Rightarrow> worker_id \<Rightarrow> coordinator \<Rightarrow> coordinator \<times> worker_record result" where
  "register_fresh_worker env q i c =
    (let st = co_state c;
         oc = next_order c;
         known = (om_get (du_workers st) i \<noteq> None);
         own_fence = (if known
           then fence_worker_entries st ''worker re-registered under a fresh boot identity; revalidation is required'' i
           else Inr [])
     in if \<not> known \<and> length (du_workers st) \<ge> unat (max_worker_connections (co_limits c))
        then fail_with E_ResourceLimitExceeded (snd oc)
        else
          (let bc = next_boot_order (snd oc);
               w = worker_of_request st i (fst oc) (fst bc) q;
               c1 = snd bc
           in case own_fence of Inl err \<Rightarrow> fail_with err c1
              | Inr own \<Rightarrow>
                if ct_boot_order (co_next c1) = 0 then fail_with E_ResourceLimitExceeded c1
                else (case fence_workers st ''another worker incarnation claimed this critic identity''
                        (competing_workers st i (rw_critic q)) of
                    Inl err \<Rightarrow> fail_with err c1
                  | Inr fences \<Rightarrow>
                      finish w (publish env (own @ fences @ [JR_WorkerRegistered w]) c1))))"

definition register_worker ::
  "env \<Rightarrow> register_worker_request \<Rightarrow> coordinator \<Rightarrow> coordinator \<times> worker_record result" where
  "register_worker env q c =
    (case mutation_guard c of Inl err \<Rightarrow> fail_with err c
     | Inr _ \<Rightarrow>
     (case worker_request_guard (co_state c) (co_limits c) q of Inl err \<Rightarrow> fail_with err c
      | Inr _ \<Rightarrow>
        (let ic = (if id_valid (rw_id q) then (rw_id q, c) else allocate_worker_id c)
         in case om_get (du_workers (co_state c)) (fst ic) of
              None \<Rightarrow> register_fresh_worker env q (fst ic) (snd ic)
            | Some w \<Rightarrow>
                (if w_boot w = rw_boot q then
                   (if w_critic w \<noteq> rw_critic q \<or> w_critic_generation w \<noteq> rw_critic_generation q
                    then fail_with E_DuplicateWorkerIdentity (snd ic)
                    else (snd ic, Inr w))
                 else register_fresh_worker env q (fst ic) (snd ic)))))"

definition readiness_guard :: "durable_state \<Rightarrow> declare_readiness_request \<Rightarrow> worker_record result" where
  "readiness_guard st q =
    (if dr_epoch q \<noteq> du_epoch st then Inl E_StaleCoordinatorEpoch
     else case om_get (du_workers st) (dr_id q) of
       None \<Rightarrow> Inl E_WorkerNotRegistered
     | Some w \<Rightarrow>
         if w_boot w \<noteq> dr_boot q then Inl E_StaleWorkerBoot
         else if w_critic w \<noteq> dr_critic q then Inl E_CriticNotAuthoritative
         else (case om_get (du_critics st) (dr_critic q) of
           None \<Rightarrow> Inl E_CriticNotRegistered
         | Some r \<Rightarrow>
             if c_generation r \<noteq> dr_critic_generation q
                \<or> w_critic_generation w \<noteq> dr_critic_generation q
             then Inl E_StaleCriticGeneration
             else if om_get (du_incumbents st) (dr_critic q) \<noteq> Some (dr_id q)
             then Inl E_CriticNotAuthoritative
             else if dr_ready q \<and> dr_capability_evidence q \<noteq> cap_capability_evidence (c_capability r)
             then Inl E_CriticCapabilityMismatch
             else Inr w))"

definition declare_readiness ::
  "env \<Rightarrow> declare_readiness_request \<Rightarrow> coordinator \<Rightarrow> coordinator \<times> worker_record result" where
  "declare_readiness env q c =
    (case mutation_guard c of Inl err \<Rightarrow> fail_with err c
     | Inr _ \<Rightarrow>
     (case readiness_guard (co_state c) q of Inl err \<Rightarrow> fail_with err c
      | Inr w \<Rightarrow>
        (let oc = next_order c;
             w1 = w\<lparr> w_epoch := du_epoch (co_state c), w_ready := dr_ready q, w_healthy := dr_healthy q,
                     w_authoritative := (dr_ready q \<and> dr_healthy q), w_readiness_order := fst oc,
                     w_readiness_digest := dr_capability_evidence q \<rparr>
         in finish w1 (publish env [JR_WorkerRegistered w1] (snd oc)))))"

definition fence_critic :: "env \<Rightarrow> critic_id \<Rightarrow> string \<Rightarrow> coordinator \<Rightarrow> coordinator \<times> status" where
  "fence_critic env critic reason c =
    (if \<not> co_started c then (c, Inl E_InternalError)
     else if om_get (du_critics (co_state c)) critic = None then (c, Inl E_CriticNotRegistered)
     else case fence_workers (co_state c) reason (workers_of_critic (co_state c) critic) of
       Inl err \<Rightarrow> (c, Inl err)
     | Inr bodies \<Rightarrow> publish env bodies c)"

definition fence_worker :: "env \<Rightarrow> worker_id \<Rightarrow> string \<Rightarrow> coordinator \<Rightarrow> coordinator \<times> status" where
  "fence_worker env worker reason c =
    (if \<not> co_started c then (c, Inl E_InternalError)
     else case fence_worker_entries (co_state c) reason worker of
       Inl err \<Rightarrow> (c, Inl err)
     | Inr bodies \<Rightarrow> publish env bodies c)"

definition query_worker :: "worker_id \<Rightarrow> coordinator \<Rightarrow> worker_record result" where
  "query_worker i c =
    (case om_get (du_workers (co_state c)) i of None \<Rightarrow> Inl E_WorkerNotRegistered | Some w \<Rightarrow> Inr w)"

definition list_workers :: "coordinator \<Rightarrow> worker_record list" where
  "list_workers c = om_vals (du_workers (co_state c))"

end
