(* ===== verification/CF_Review.thy ===== *)
theory CF_Review
  imports CF_Registration
begin

text \<open>
  The life of a review (\<open>src/coordinator.cpp\<close>, lines 1502-2434): declaration, assignment of critics,
  and the critic output that passes the authority check: evidence, findings, challenges and rebuttals.
  Each operation is split into its guards, the record it builds and the entries it publishes.
\<close>

section \<open>Declaration\<close>

definition in_flight_reviews :: "durable_state \<Rightarrow> u32" where
  "in_flight_reviews st =
    of_nat (count_if (\<lambda>sl. \<not> is_terminal_review_state (r_state (sl_record sl))) (om_vals (du_reviews st)))"

definition declare_target_guard :: "durable_state \<Rightarrow> declare_review_request \<Rightarrow> target_record result" where
  "declare_target_guard st q =
    (case om_get (du_targets st) (dv_target q) of
       None \<Rightarrow> Inl E_TargetUnknown
     | Some t \<Rightarrow>
         result_bind (first_error
           [(t_generation t \<noteq> dv_target_generation q, E_StaleTargetGeneration),
            (t_supersession t \<noteq> TS_Current, E_TargetSuperseded),
            (\<not> t_reviewable t, E_TargetNotReviewable)]) (\<lambda>_.
         result_bind (validate_review_spec (dv_spec q)) (\<lambda>_. Inr t)))"

definition declare_capacity_guard :: "durable_state \<Rightarrow> runtime_limits \<Rightarrow> status" where
  "declare_capacity_guard st l = first_error
    [(in_flight_reviews st \<ge> max_concurrent_reviews l, E_ResourceLimitExceeded),
     (length (du_reviews st) \<ge> unat (max_retained_reviews l), E_ResourceLimitExceeded)]"

definition declared_record :: "review_id \<Rightarrow> u64 \<Rightarrow> target_record \<Rightarrow> declare_review_request \<Rightarrow> review_record" where
  "declared_record i order t q =
    \<lparr> r_id = i, r_request = dv_request q, r_generation = first_generation, r_target = dv_target q,
      r_target_generation = dv_target_generation q, r_target_digest = t_content_digest t,
      r_spec = dv_spec q, r_state = RS_Declared, r_disposition = RD_None, r_declared_order = order,
      r_updated_order = order, r_superseded_by = 0, r_cancellation_reason = [], r_status_detail = [],
      r_rounds_used = 0, r_authority_current = True \<rparr>"

definition next_review_id :: "coordinator \<Rightarrow> review_id \<times> coordinator" where
  "next_review_id c =
    (ct_review_id (co_next c), bump (\<lambda>n. n\<lparr> ct_review_id := ct_review_id n + 1 \<rparr>) c)"

definition declare_review ::
  "env \<Rightarrow> declare_review_request \<Rightarrow> coordinator \<Rightarrow> coordinator \<times> review_record result" where
  "declare_review env q c =
    (case mutation_guard c of Inl err \<Rightarrow> fail_with err c
     | Inr _ \<Rightarrow>
       (let st = co_state c in
        if dv_epoch q \<noteq> du_epoch st then fail_with E_StaleCoordinatorEpoch c
        else if \<not> id_valid (dv_request q) then fail_with E_InvalidIdentity c
        else case om_get (du_review_requests st) (dv_request q) of
          Some i \<Rightarrow>
            (case find_slot st i of
               None \<Rightarrow> fail_with E_ReviewAlreadyExists c
             | Some sl \<Rightarrow>
                 if r_target (sl_record sl) = dv_target q
                    \<and> r_target_generation (sl_record sl) = dv_target_generation q
                 then (c, Inr (sl_record sl))
                 else fail_with E_ReviewAlreadyExists c)
        | None \<Rightarrow>
            (case declare_target_guard st q of Inl err \<Rightarrow> fail_with err c
             | Inr t \<Rightarrow>
             (case declare_capacity_guard st (co_limits c) of Inl err \<Rightarrow> fail_with err c
              | Inr _ \<Rightarrow>
                (let ic = next_review_id c; oc = next_order (snd ic);
                     r = declared_record (fst ic) (fst oc) t q
                 in finish r (publish env [JR_ReviewDeclared r] (snd oc)))))))"

section \<open>Assignment\<close>

definition assign_state_guard :: "review_record \<Rightarrow> status" where
  "assign_state_guard r =
    (case r_state r of
       RS_Cancelled \<Rightarrow> Inl E_ReviewCancelled
     | RS_Superseded \<Rightarrow> Inl E_ReviewSuperseded
     | RS_Committed \<Rightarrow> Inl E_ResultAlreadyCommitted
     | RS_Failed \<Rightarrow> Inl E_ReviewClosed
     | RS_Retired \<Rightarrow> Inl E_ReviewClosed
     | _ \<Rightarrow> success)"

definition active_assignments :: "review_slot \<Rightarrow> nat" where
  "active_assignments sl = count_if a_active (om_vals (sl_assignments sl))"

definition assign_batch_guard ::
  "runtime_limits \<Rightarrow> review_slot \<Rightarrow> target_record \<Rightarrow> assign_critics_request \<Rightarrow> status" where
  "assign_batch_guard l sl t q = first_error
    [(t_generation t \<noteq> r_target_generation (sl_record sl), E_StaleTargetGeneration),
     (ac_assignments q = [], E_PolicyRejected),
     (\<not> distinct (map ra_critic (ac_assignments q)), E_DuplicateCriticIdentity),
     (active_assignments sl + length (ac_assignments q) > unat (max_critics_per_review l),
      E_ResourceLimitExceeded)]"

definition assign_guard ::
  "durable_state \<Rightarrow> runtime_limits \<Rightarrow> assign_critics_request \<Rightarrow> (review_slot \<times> target_record) result" where
  "assign_guard st l q =
    (if ac_epoch q \<noteq> du_epoch st then Inl E_StaleCoordinatorEpoch
     else case find_slot st (ac_review q) of
       None \<Rightarrow> Inl E_ReviewUnknown
     | Some sl \<Rightarrow>
         if r_generation (sl_record sl) \<noteq> ac_review_generation q then Inl E_StaleReviewGeneration
         else
           result_bind (assign_state_guard (sl_record sl)) (\<lambda>_.
           (case om_get (du_targets st) (r_target (sl_record sl)) of
              None \<Rightarrow> Inl E_TargetUnknown
            | Some t \<Rightarrow> result_bind (assign_batch_guard l sl t q) (\<lambda>_. Inr (sl, t)))))"

definition assign_critic_guard ::
  "durable_state \<Rightarrow> review_slot \<Rightarrow> target_record \<Rightarrow> requested_assignment \<Rightarrow> status" where
  "assign_critic_guard st sl t ra =
    (case om_get (du_critics st) (ra_critic ra) of
       None \<Rightarrow> Inl E_CriticNotRegistered
     | Some r \<Rightarrow>
         (let cap = c_capability r in first_error
           [(c_generation r \<noteq> ra_critic_generation ra, E_StaleCriticGeneration),
            (find_active_assignment sl (ra_critic ra) \<noteq> None, E_DuplicateCriticIdentity),
            (ra_role ra \<notin> cap_roles cap, E_CriticCapabilityMismatch),
            (t_target_class t \<notin> cap_target_classes cap, E_CriticCapabilityMismatch),
            (list_ex (\<lambda>(category, n). category \<notin> cap_finding_categories cap)
               (sp_required_min_categories (r_spec (sl_record sl))), E_CriticCapabilityMismatch)]))"

definition assign_worker_guard :: "durable_state \<Rightarrow> requested_assignment \<Rightarrow> status" where
  "assign_worker_guard st ra =
    (case om_get (du_workers st) (ra_worker ra) of
       None \<Rightarrow> Inl E_WorkerNotRegistered
     | Some w \<Rightarrow> first_error
        [(w_boot w \<noteq> ra_worker_boot ra, E_StaleWorkerBoot),
         (w_critic w \<noteq> ra_critic ra \<or> w_critic_generation w \<noteq> ra_critic_generation ra,
          E_CriticNotAuthoritative),
         (om_get (du_incumbents st) (ra_critic ra) \<noteq> Some (ra_worker ra), E_CriticNotAuthoritative),
         (\<not> w_ready w \<or> \<not> w_healthy w \<or> \<not> w_authoritative w, E_RequiredCriticUnavailable)])"

definition assignment_of_request ::
  "review_slot \<Rightarrow> critic_assignment_id \<Rightarrow> u64 \<Rightarrow> requested_assignment \<Rightarrow> critic_assignment" where
  "assignment_of_request sl i order ra =
    (let r = sl_record sl in
     \<lparr> a_id = i, a_review = r_id r, a_review_generation = r_generation r, a_target = r_target r,
       a_target_generation = r_target_generation r, a_critic = ra_critic ra,
       a_critic_generation = ra_critic_generation ra, a_worker = ra_worker ra,
       a_worker_boot = ra_worker_boot ra, a_role = ra_role ra,
       a_required = (ra_required ra \<or> is_required_role (r_spec r) (ra_role ra)),
       a_weight = weight_of (r_spec r) (ra_critic ra), a_assigned_order = order, a_active = True,
       a_attempt = first_generation, a_retirement_reason = [] \<rparr>)"

definition next_assignment_id :: "coordinator \<Rightarrow> critic_assignment_id \<times> coordinator" where
  "next_assignment_id c =
    (ct_assignment_id (co_next c), bump (\<lambda>n. n\<lparr> ct_assignment_id := ct_assignment_id n + 1 \<rparr>) c)"

text \<open>The loop over the batch; counters taken before a rejection stay consumed.\<close>

fun create_assignments ::
  "review_slot \<Rightarrow> target_record \<Rightarrow> requested_assignment list \<Rightarrow> coordinator \<Rightarrow> coordinator \<times> critic_assignment list result"
where
  "create_assignments sl t [] c = (c, Inr [])"
| "create_assignments sl t (ra # ras) c =
     (case result_bind (assign_critic_guard (co_state c) sl t ra)
             (\<lambda>_. assign_worker_guard (co_state c) ra) of
        Inl err \<Rightarrow> (c, Inl err)
      | Inr _ \<Rightarrow>
          (let ic = next_assignment_id c; oc = next_order (snd ic);
               a = assignment_of_request sl (fst ic) (fst oc) ra
           in case create_assignments sl t ras (snd oc) of
                (c1, Inl err) \<Rightarrow> (c1, Inl err)
              | (c1, Inr rest) \<Rightarrow> (c1, Inr (a # rest))))"

definition state_change :: "review_record \<Rightarrow> review_state \<Rightarrow> review_disposition \<Rightarrow> string \<Rightarrow> review_state_change" where
  "state_change r next disposition detail =
    \<lparr> rv_review = r_id r, rv_review_generation = r_generation r, rv_state = next,
      rv_disposition = disposition, rv_superseded_by = 0, rv_detail = detail,
      rv_cancellation_reason = [], rv_authority_current = True, rv_rounds_used = r_rounds_used r \<rparr>"

definition assign_entries :: "review_record \<Rightarrow> critic_assignment list \<Rightarrow> journal_body list" where
  "assign_entries r created =
    (let push = (\<lambda>next detail. JR_ReviewStateChanged (state_change r next RD_None detail)) in
     (if r_state r = RS_Declared then [push RS_Assigning ''assigning critics''] else [])
     @ [JR_AssignmentsAdded (r_id r) (r_generation r) created]
     @ (if r_state r = RS_Declared \<or> r_state r = RS_Assigning \<or> r_state r = RS_RevalidationRequired
        then (if r_state r = RS_RevalidationRequired
              then [push RS_Assigning ''revalidation: reassigning critics under current authority'']
              else [])
             @ [push RS_Assigned ''critics assigned; review may accept findings'']
        else []))"

definition assign_critics ::
  "env \<Rightarrow> assign_critics_request \<Rightarrow> coordinator \<Rightarrow> coordinator \<times> critic_assignment list result" where
  "assign_critics env q c =
    (case mutation_guard c of Inl err \<Rightarrow> fail_with err c
     | Inr _ \<Rightarrow>
     (case assign_guard (co_state c) (co_limits c) q of Inl err \<Rightarrow> fail_with err c
      | Inr (sl, t) \<Rightarrow>
        (case create_assignments sl t (ac_assignments q) c of
           (c1, Inl err) \<Rightarrow> fail_with err c1
         | (c1, Inr created) \<Rightarrow>
             finish created (publish env (assign_entries (sl_record sl) created) c1))))"

section \<open>Evidence\<close>

definition authority_of_evidence :: "submit_evidence_request \<Rightarrow> authority_context" where
  "authority_of_evidence q =
    \<lparr> au_epoch = se_epoch q, au_worker = se_worker q, au_worker_boot = se_worker_boot q,
      au_critic = se_critic q, au_critic_generation = se_critic_generation q, au_review = se_review q,
      au_review_generation = se_review_generation q, au_target = se_target q,
      au_target_generation = se_target_generation q, au_request = se_request q \<rparr>"

definition evidence_bounds_guard ::
  "runtime_limits \<Rightarrow> review_slot \<Rightarrow> submit_evidence_request \<Rightarrow> status" where
  "evidence_bounds_guard l sl q = first_error
    [(over (se_payload q) (max_evidence_payload_bytes l) \<or> over (se_reference q) (max_metadata_string_bytes l),
      E_ResourceLimitExceeded),
     (length (sl_evidences sl) \<ge> unat (max_evidence_records_per_review l), E_ResourceLimitExceeded)]"

definition evidence_finding_guard :: "review_slot \<Rightarrow> submit_evidence_request \<Rightarrow> status" where
  "evidence_finding_guard sl q =
    (if \<not> id_valid (se_finding q) then success
     else case om_get (sl_findings sl) (se_finding q) of
       None \<Rightarrow> Inl E_FindingUnknown
     | Some f \<Rightarrow> first_error
        [(f_critic f \<noteq> se_critic q, E_MalformedEvidence),
         (\<not> finding_state_is_current (f_state f), E_FindingSuperseded)])"

definition evidence_of_request ::
  "hash_fun \<Rightarrow> review_slot \<Rightarrow> evidence_id \<Rightarrow> u64 \<Rightarrow> submit_evidence_request \<Rightarrow> evidence_record" where
  "evidence_of_request H sl i order q =
    (let r = sl_record sl;
         e = \<lparr> e_id = i, e_generation = first_generation, e_source_type = se_source_type q,
               e_provenance = se_provenance q, e_integrity = se_integrity q, e_producer = se_producer q,
               e_target = r_target r, e_target_generation = r_target_generation r,
               e_target_digest = r_target_digest r, e_review = r_id r,
               e_review_generation = r_generation r, e_critic = se_critic q,
               e_critic_generation = se_critic_generation q, e_worker = se_worker q,
               e_worker_boot = se_worker_boot q, e_finding = 0, e_content_digest = zero_digest,
               e_payload = se_payload q, e_reference = se_reference q, e_created_order = order,
               e_current = True, e_superseded = False, e_superseded_by = 0 \<rparr>
     in e\<lparr> e_content_digest := compute_evidence_content_digest H e,
          e_finding := (if id_valid (se_finding q) then se_finding q else 0) \<rparr>)"

definition next_evidence_id :: "coordinator \<Rightarrow> evidence_id \<times> coordinator" where
  "next_evidence_id c =
    (ct_evidence_id (co_next c), bump (\<lambda>n. n\<lparr> ct_evidence_id := ct_evidence_id n + 1 \<rparr>) c)"

definition submit_evidence ::
  "env \<Rightarrow> submit_evidence_request \<Rightarrow> coordinator \<Rightarrow> coordinator \<times> evidence_record result" where
  "submit_evidence env q c =
    (case mutation_guard c of Inl err \<Rightarrow> fail_with err c
     | Inr _ \<Rightarrow>
     (case check_authority (co_state c) (authority_of_evidence q) of Inl err \<Rightarrow> fail_with err c
      | Inr (sl, a) \<Rightarrow>
      (case evidence_bounds_guard (co_limits c) sl q of Inl err \<Rightarrow> fail_with err c
       | Inr _ \<Rightarrow>
         (let ic = next_evidence_id c; oc = next_order (snd ic);
              e = evidence_of_request (env_hash env) sl (fst ic) (fst oc) q
          in case evidence_finding_guard sl q of
               Inl err \<Rightarrow> fail_with err (snd oc)
             | Inr _ \<Rightarrow> finish e (publish env [JR_EvidenceRecorded e] (snd oc))))))"

end
