(* ===== verification/CF_Findings.thy ===== *)
theory CF_Findings
  imports CF_Review
begin

text \<open>
  Findings, challenges and rebuttals (\<open>src/coordinator.cpp\<close>, lines 1897-2434). A finding may only
  rest on current evidence of the same critic, may not contradict a current finding of that critic on
  the same evidence, and may supersede one of its own; a challenge disputes a finding of another
  critic for a bounded number of rounds; the author of the finding answers it by a rebuttal.
\<close>

section \<open>Findings\<close>

definition authority_of_finding :: "submit_finding_request \<Rightarrow> authority_context" where
  "authority_of_finding q =
    \<lparr> au_epoch = sf_epoch q, au_worker = sf_worker q, au_worker_boot = sf_worker_boot q,
      au_critic = sf_critic q, au_critic_generation = sf_critic_generation q, au_review = sf_review q,
      au_review_generation = sf_review_generation q, au_target = sf_target q,
      au_target_generation = sf_target_generation q, au_request = sf_request q \<rparr>"

definition finding_bounds_guard ::
  "runtime_limits \<Rightarrow> review_slot \<Rightarrow> submit_finding_request \<Rightarrow> status" where
  "finding_bounds_guard l sl q = first_error
    [(over (sf_explanation q) (max_explanation_bytes l) \<or> over (sf_provenance q) (max_metadata_string_bytes l),
      E_ResourceLimitExceeded),
     (over (sf_evidence q) (max_evidence_per_finding l), E_ResourceLimitExceeded),
     (length (sl_findings sl) \<ge> unat (max_findings_per_review l), E_ResourceLimitExceeded)]"

definition finding_evidence_guard :: "review_slot \<Rightarrow> submit_finding_request \<Rightarrow> evidence_id \<Rightarrow> status" where
  "finding_evidence_guard sl q i =
    (case om_get (sl_evidences sl) i of
       None \<Rightarrow> Inl E_MalformedFinding
     | Some e \<Rightarrow>
         (let r = sl_record sl in first_error
           [(\<not> e_current e \<or> e_superseded e, E_EvidenceNotCurrent),
            (e_review e \<noteq> r_id r \<or> e_review_generation e \<noteq> r_generation r, E_EvidenceNotCurrent),
            (e_target e \<noteq> r_target r \<or> e_target_generation e \<noteq> r_target_generation r, E_TargetMismatch),
            (e_critic e \<noteq> sf_critic q \<or> e_critic_generation e \<noteq> sf_critic_generation q,
             E_EvidenceNotCurrent),
            (id_valid (e_finding e)
             \<and> (case om_get (sl_findings sl) (e_finding e) of
                  None \<Rightarrow> True
                | Some f \<Rightarrow> f_critic f \<noteq> sf_critic q),
             E_MalformedFinding)]))"

fun all_guards :: "('a \<Rightarrow> status) \<Rightarrow> 'a list \<Rightarrow> status" where
  "all_guards g [] = success"
| "all_guards g (x # xs) = result_bind (g x) (\<lambda>_. all_guards g xs)"

definition candidate_finding ::
  "hash_fun \<Rightarrow> review_slot \<Rightarrow> critic_assignment \<Rightarrow> submit_finding_request \<Rightarrow> finding" where
  "candidate_finding H sl a q =
    (let r = sl_record sl;
         f = \<lparr> f_id = 0, f_generation = 0, f_supersedes = 0, f_superseded_by = 0,
               f_critic = sf_critic q, f_critic_generation = sf_critic_generation q,
               f_assignment = a_id a, f_worker = sf_worker q, f_worker_boot = sf_worker_boot q,
               f_attempt = a_attempt a, f_review = r_id r, f_review_generation = r_generation r,
               f_target = r_target r, f_target_generation = r_target_generation r,
               f_category = sf_category q, f_severity = sf_severity q, f_outcome = sf_outcome q,
               f_evidence = sf_evidence q, f_explanation = sf_explanation q,
               f_confidence = sf_confidence q, f_provenance = sf_provenance q, f_creation_order = 0,
               f_state = FS_Current, f_challenged_by = 0, f_finding_digest = zero_digest \<rparr>
     in f\<lparr> f_finding_digest := compute_finding_digest H f \<rparr>)"

definition contradicts :: "finding \<Rightarrow> finding \<Rightarrow> bool" where
  "contradicts existing candidate \<longleftrightarrow>
     f_category existing = f_category candidate
   \<and> same_evidence_set (f_evidence existing) (f_evidence candidate)
   \<and> is_decisive_outcome (f_outcome existing)
   \<and> is_decisive_outcome (f_outcome candidate)
   \<and> f_outcome existing \<noteq> f_outcome candidate"

text \<open>
  The scan for duplicates and contradictions: \<open>Inr None\<close> lets the submission go on, \<open>Inr (Some f)\<close>
  answers it with the finding already recorded.
\<close>

fun scan_existing ::
  "review_slot \<Rightarrow> finding \<Rightarrow> finding list \<Rightarrow> finding option result" where
  "scan_existing sl candidate [] = Inr None"
| "scan_existing sl candidate (f # fs) =
     (if f_critic f \<noteq> f_critic candidate \<or> f_review_generation f \<noteq> r_generation (sl_record sl)
         \<or> \<not> finding_state_is_current (f_state f)
      then scan_existing sl candidate fs
      else if f_finding_digest f = f_finding_digest candidate then
        (case sp_duplicates (r_spec (sl_record sl)) of
           Dup_Reject \<Rightarrow> Inl E_DuplicateFinding
         | Dup_IdempotentIgnore \<Rightarrow> Inr (Some f)
         | Dup_KeepDistinct \<Rightarrow> scan_existing sl candidate fs)
      else if contradicts f candidate then Inl E_ConflictingFinding
      else scan_existing sl candidate fs)"

text \<open>The generation of the new finding, and the entry that supersedes the old one if any.\<close>

definition supersede_finding ::
  "review_slot \<Rightarrow> submit_finding_request \<Rightarrow> (finding_generation \<times> journal_body list) result" where
  "supersede_finding sl q =
    (if \<not> id_valid (sf_supersedes q) then Inr (first_generation, [])
     else case om_get (sl_findings sl) (sf_supersedes q) of
       None \<Rightarrow> Inl E_FindingUnknown
     | Some f \<Rightarrow>
         result_bind (first_error
           [(f_critic f \<noteq> sf_critic q, E_MalformedFinding),
            (\<not> finding_state_is_current (f_state f), E_FindingSuperseded),
            (advance_would_overflow (f_generation f), E_ResourceLimitExceeded)]) (\<lambda>_.
         Inr (advance (f_generation f),
           [JR_FindingStateChanged
             \<lparr> fc_finding = sf_supersedes q, fc_state = FS_Superseded, fc_superseded_by = 0,
               fc_challenged_by = 0,
               fc_reason = ''superseded by a later finding generation from the same critic'' \<rparr>])))"

definition findings_received_entry :: "review_record \<Rightarrow> journal_body list" where
  "findings_received_entry r =
    (if r_state r = RS_Assigned \<or> r_state r = RS_Reviewing
     then [JR_ReviewStateChanged (state_change r RS_FindingsReceived RD_None ''critic findings received'')]
     else [])"

definition next_finding_id :: "coordinator \<Rightarrow> finding_id \<times> coordinator" where
  "next_finding_id c =
    (ct_finding_id (co_next c), bump (\<lambda>n. n\<lparr> ct_finding_id := ct_finding_id n + 1 \<rparr>) c)"

definition finding_guards ::
  "durable_state \<Rightarrow> runtime_limits \<Rightarrow> submit_finding_request \<Rightarrow> (review_slot \<times> critic_assignment) result" where
  "finding_guards st l q =
    result_bind (check_authority st (authority_of_finding q)) (\<lambda>sa.
    result_bind (finding_bounds_guard l (fst sa) q) (\<lambda>_.
    result_bind (all_guards (finding_evidence_guard (fst sa) q) (sf_evidence q)) (\<lambda>_. Inr sa)))"

definition record_finding ::
  "env \<Rightarrow> review_slot \<Rightarrow> finding \<Rightarrow> finding_generation \<times> finding_id \<times> journal_body list \<Rightarrow>
     coordinator \<Rightarrow> coordinator \<times> finding result" where
  "record_finding env sl candidate how c =
    (case how of (generation, supersedes, bodies) \<Rightarrow>
      (let ic = next_finding_id c; oc = next_order (snd ic);
           f = candidate\<lparr> f_generation := generation, f_supersedes := supersedes, f_id := fst ic,
                 f_creation_order := fst oc, f_state := FS_Current \<rparr>;
           f1 = f\<lparr> f_finding_digest := compute_finding_digest (env_hash env) f \<rparr>
       in finish f1 (publish env
            (bodies @ [JR_FindingRecorded f1] @ findings_received_entry (sl_record sl)) (snd oc))))"

definition submit_finding ::
  "env \<Rightarrow> submit_finding_request \<Rightarrow> coordinator \<Rightarrow> coordinator \<times> finding result" where
  "submit_finding env q c =
    (case mutation_guard c of Inl err \<Rightarrow> fail_with err c
     | Inr _ \<Rightarrow>
     (case finding_guards (co_state c) (co_limits c) q of Inl err \<Rightarrow> fail_with err c
      | Inr (sl, a) \<Rightarrow>
      (let candidate = candidate_finding (env_hash env) sl a q in
       case scan_existing sl candidate (om_vals (sl_findings sl)) of
         Inl err \<Rightarrow> fail_with err c
       | Inr (Some f) \<Rightarrow> (c, Inr f)
       | Inr None \<Rightarrow>
           (case supersede_finding sl q of
              Inl err \<Rightarrow> fail_with err c
            | Inr (generation, bodies) \<Rightarrow>
                record_finding env sl candidate
                  (generation, if id_valid (sf_supersedes q) then sf_supersedes q else 0, bodies) c))))"

section \<open>Challenges\<close>

definition authority_of_challenge :: "submit_challenge_request \<Rightarrow> authority_context" where
  "authority_of_challenge q =
    \<lparr> au_epoch = sc_epoch q, au_worker = sc_worker q, au_worker_boot = sc_worker_boot q,
      au_critic = sc_critic q, au_critic_generation = sc_critic_generation q, au_review = sc_review q,
      au_review_generation = sc_review_generation q, au_target = sc_target q,
      au_target_generation = sc_target_generation q, au_request = sc_request q \<rparr>"

definition challenge_bounds_guard ::
  "runtime_limits \<Rightarrow> review_slot \<Rightarrow> submit_challenge_request \<Rightarrow> status" where
  "challenge_bounds_guard l sl q = first_error
    [(sp_challenges (r_spec (sl_record sl)) = ChP_Disabled, E_ChallengeDisabled),
     (over (sc_disputed_predicate q) (max_metadata_string_bytes l)
      \<or> over (sc_rationale q) (max_explanation_bytes l), E_ResourceLimitExceeded),
     (over (sc_evidence q) (max_evidence_per_finding l), E_ResourceLimitExceeded),
     (length (sl_challenges sl) \<ge> unat (max_challenges_per_review l), E_ResourceLimitExceeded)]"

definition rounds_against :: "review_slot \<Rightarrow> finding_id \<Rightarrow> u32" where
  "rounds_against sl i =
    of_nat (count_if (\<lambda>ch. ch_challenged_finding ch = i) (om_vals (sl_challenges sl)))"

definition challenged_finding_guard :: "review_slot \<Rightarrow> submit_challenge_request \<Rightarrow> finding result" where
  "challenged_finding_guard sl q =
    (case om_get (sl_findings sl) (sc_challenged_finding q) of
       None \<Rightarrow> Inl E_FindingUnknown
     | Some f \<Rightarrow>
         (let r = sl_record sl in
          result_bind (first_error
            [(f_generation f \<noteq> sc_challenged_finding_generation q, E_StaleChallenge),
             (\<not> finding_state_is_current (f_state f), E_StaleChallenge),
             (f_review_generation f \<noteq> r_generation r
              \<or> f_target_generation f \<noteq> r_target_generation r, E_StaleChallenge),
             (f_critic f = sc_critic q, E_InvalidChallenge),
             (rounds_against sl (sc_challenged_finding q) \<ge> sp_max_challenge_rounds (r_spec r),
              E_ChallengeLimitExceeded)]) (\<lambda>_. Inr f)))"

definition cited_evidence_guard :: "error_code \<Rightarrow> review_slot \<Rightarrow> evidence_id \<Rightarrow> status" where
  "cited_evidence_guard err sl i =
    (case om_get (sl_evidences sl) i of
       None \<Rightarrow> Inl err
     | Some e \<Rightarrow> first_error [(\<not> e_current e \<or> e_superseded e, err)])"

definition challenge_of_request ::
  "review_slot \<Rightarrow> finding \<Rightarrow> challenge_id \<Rightarrow> u64 \<Rightarrow> submit_challenge_request \<Rightarrow> challenge" where
  "challenge_of_request sl f i order q =
    (let r = sl_record sl in
     \<lparr> ch_id = i, ch_generation = ucast (rounds_against sl (sc_challenged_finding q)) + 1,
       ch_challenged_finding = f_id f, ch_challenged_finding_generation = f_generation f,
       ch_challenger = sc_critic q, ch_challenger_generation = sc_critic_generation q,
       ch_worker = sc_worker q, ch_worker_boot = sc_worker_boot q, ch_review = r_id r,
       ch_review_generation = r_generation r, ch_target = r_target r,
       ch_target_generation = r_target_generation r, ch_disputed_predicate = sc_disputed_predicate q,
       ch_rationale = sc_rationale q, ch_evidence = sc_evidence q, ch_creation_order = order,
       ch_outcome = ChO_Unresolved, ch_resolved = False, ch_rebuttal = 0 \<rparr>)"

definition challenge_entries :: "review_record \<Rightarrow> challenge \<Rightarrow> journal_body list" where
  "challenge_entries r ch =
    [JR_ChallengeRecorded ch,
     JR_FindingStateChanged
       \<lparr> fc_finding = ch_challenged_finding ch, fc_state = FS_Challenged, fc_superseded_by = 0,
         fc_challenged_by = ch_id ch, fc_reason = ''challenged by another authoritative critic'' \<rparr>]
    @ (if r_state r \<noteq> RS_Challenged
       then [JR_ReviewStateChanged (state_change r RS_Challenged RD_None
              ''a finding was challenged; the review is in a bounded challenge round'')]
       else [])"

definition next_challenge_id :: "coordinator \<Rightarrow> challenge_id \<times> coordinator" where
  "next_challenge_id c =
    (ct_challenge_id (co_next c), bump (\<lambda>n. n\<lparr> ct_challenge_id := ct_challenge_id n + 1 \<rparr>) c)"

definition challenge_guards ::
  "durable_state \<Rightarrow> runtime_limits \<Rightarrow> submit_challenge_request \<Rightarrow> (review_slot \<times> finding) result" where
  "challenge_guards st l q =
    result_bind (check_authority st (authority_of_challenge q)) (\<lambda>sa.
    result_bind (challenge_bounds_guard l (fst sa) q) (\<lambda>_.
    result_bind (challenged_finding_guard (fst sa) q) (\<lambda>f.
    result_bind (all_guards (cited_evidence_guard E_InvalidChallenge (fst sa)) (sc_evidence q)) (\<lambda>_.
      Inr (fst sa, f)))))"

definition submit_challenge ::
  "env \<Rightarrow> submit_challenge_request \<Rightarrow> coordinator \<Rightarrow> coordinator \<times> challenge result" where
  "submit_challenge env q c =
    (case mutation_guard c of Inl err \<Rightarrow> fail_with err c
     | Inr _ \<Rightarrow>
     (case challenge_guards (co_state c) (co_limits c) q of Inl err \<Rightarrow> fail_with err c
      | Inr (sl, f) \<Rightarrow>
        (let ic = next_challenge_id c; oc = next_order (snd ic);
             ch = challenge_of_request sl f (fst ic) (fst oc) q
         in finish ch (publish env (challenge_entries (sl_record sl) ch) (snd oc)))))"

section \<open>Rebuttals\<close>

definition authority_of_rebuttal :: "submit_rebuttal_request \<Rightarrow> authority_context" where
  "authority_of_rebuttal q =
    \<lparr> au_epoch = sr_epoch q, au_worker = sr_worker q, au_worker_boot = sr_worker_boot q,
      au_critic = sr_critic q, au_critic_generation = sr_critic_generation q, au_review = sr_review q,
      au_review_generation = sr_review_generation q, au_target = sr_target q,
      au_target_generation = sr_target_generation q, au_request = sr_request q \<rparr>"

definition rebuttal_bounds_guard ::
  "runtime_limits \<Rightarrow> review_slot \<Rightarrow> submit_rebuttal_request \<Rightarrow> status" where
  "rebuttal_bounds_guard l sl q = first_error
    [(sp_challenges (r_spec (sl_record sl)) = ChP_Disabled, E_ChallengeDisabled),
     (over (sr_argument q) (max_explanation_bytes l), E_ResourceLimitExceeded),
     (over (sr_evidence q) (max_evidence_per_finding l), E_ResourceLimitExceeded)]"

definition rebuttals_of :: "review_slot \<Rightarrow> challenge_id \<Rightarrow> u32" where
  "rebuttals_of sl i = of_nat (count_if (\<lambda>rb. rb_challenge rb = i) (om_vals (sl_rebuttals sl)))"

definition rebutted_challenge_guard ::
  "runtime_limits \<Rightarrow> review_slot \<Rightarrow> submit_rebuttal_request \<Rightarrow> challenge result" where
  "rebutted_challenge_guard l sl q =
    (case om_get (sl_challenges sl) (sr_challenge q) of
       None \<Rightarrow> Inl E_ChallengeUnknown
     | Some ch \<Rightarrow>
         (let r = sl_record sl in
          result_bind (first_error
            [(ch_generation ch \<noteq> sr_challenge_generation q, E_StaleRebuttal),
             (ch_review_generation ch \<noteq> r_generation r
              \<or> ch_target_generation ch \<noteq> r_target_generation r, E_StaleRebuttal),
             (ch_resolved ch, E_StaleRebuttal)]) (\<lambda>_.
          (case om_get (sl_findings sl) (ch_challenged_finding ch) of
             None \<Rightarrow> Inl E_FindingUnknown
           | Some f \<Rightarrow>
               result_bind (first_error
                 [(f_critic f \<noteq> sr_critic q, E_InvalidRebuttal),
                  (\<not> finding_state_is_current (f_state f), E_StaleChallenge),
                  (rebuttals_of sl (ch_id ch) \<ge> max_rebuttals_per_challenge l,
                   E_ResourceLimitExceeded)]) (\<lambda>_. Inr ch)))))"

definition rebuttal_of_request ::
  "review_slot \<Rightarrow> challenge \<Rightarrow> rebuttal_id \<Rightarrow> u64 \<Rightarrow> submit_rebuttal_request \<Rightarrow> rebuttal" where
  "rebuttal_of_request sl ch i order q =
    (let r = sl_record sl in
     \<lparr> rb_id = i, rb_challenge = ch_id ch, rb_challenge_generation = ch_generation ch,
       rb_finding = ch_challenged_finding ch, rb_author = sr_critic q,
       rb_author_generation = sr_critic_generation q, rb_worker = sr_worker q,
       rb_worker_boot = sr_worker_boot q, rb_review = r_id r,
       rb_review_generation = r_generation r, rb_target = r_target r,
       rb_target_generation = r_target_generation r, rb_argument = sr_argument q,
       rb_evidence = sr_evidence q, rb_creation_order = order \<rparr>)"

fun finding_state_after :: "challenge_outcome \<Rightarrow> finding_state" where
  "finding_state_after ChO_Upheld = FS_Upheld"
| "finding_state_after ChO_Modified = FS_Superseded"
| "finding_state_after ChO_Superseded = FS_Superseded"
| "finding_state_after ChO_Invalidated = FS_Invalidated"
| "finding_state_after ChO_Unresolved = FS_Challenged"

definition rebuttal_entries ::
  "review_record \<Rightarrow> challenge \<Rightarrow> rebuttal \<Rightarrow> challenge_outcome \<Rightarrow> journal_body list" where
  "rebuttal_entries r ch rb oc =
    (let detail = ''challenge rebuttal resolved as '' @ challenge_outcome_name oc in
     [JR_RebuttalRecorded rb,
      JR_ChallengeRecorded (ch\<lparr> ch_outcome := oc, ch_resolved := True, ch_rebuttal := rb_id rb \<rparr>),
      JR_FindingStateChanged
        \<lparr> fc_finding = ch_challenged_finding ch, fc_state = finding_state_after oc,
          fc_superseded_by = 0, fc_challenged_by = ch_id ch, fc_reason = detail \<rparr>,
      JR_ReviewStateChanged ((state_change r RS_Evaluating RD_None detail)
        \<lparr> rv_rounds_used := r_rounds_used r + 1 \<rparr>)])"

definition next_rebuttal_id :: "coordinator \<Rightarrow> rebuttal_id \<times> coordinator" where
  "next_rebuttal_id c =
    (ct_rebuttal_id (co_next c), bump (\<lambda>n. n\<lparr> ct_rebuttal_id := ct_rebuttal_id n + 1 \<rparr>) c)"

definition rebuttal_guards ::
  "durable_state \<Rightarrow> runtime_limits \<Rightarrow> submit_rebuttal_request \<Rightarrow> (review_slot \<times> challenge) result" where
  "rebuttal_guards st l q =
    result_bind (check_authority st (authority_of_rebuttal q)) (\<lambda>sa.
    result_bind (rebuttal_bounds_guard l (fst sa) q) (\<lambda>_.
    result_bind (rebutted_challenge_guard l (fst sa) q) (\<lambda>ch.
    result_bind (all_guards (cited_evidence_guard E_InvalidRebuttal (fst sa)) (sr_evidence q)) (\<lambda>_.
      Inr (fst sa, ch)))))"

definition submit_rebuttal ::
  "env \<Rightarrow> submit_rebuttal_request \<Rightarrow> coordinator \<Rightarrow> coordinator \<times> rebuttal result" where
  "submit_rebuttal env q c =
    (case mutation_guard c of Inl err \<Rightarrow> fail_with err c
     | Inr _ \<Rightarrow>
     (case rebuttal_guards (co_state c) (co_limits c) q of Inl err \<Rightarrow> fail_with err c
      | Inr (sl, ch) \<Rightarrow>
        (let ic = next_rebuttal_id c; oc = next_order (snd ic);
             rb = rebuttal_of_request sl ch (fst ic) (fst oc) q
         in finish rb (publish env (rebuttal_entries (sl_record sl) ch rb (sr_outcome q)) (snd oc)))))"

end
