(* ===== verification/CF_Commit.thy ===== *)
theory CF_Commit
  imports CF_Findings
begin

text \<open>
  The authoritative result (\<open>src/coordinator.cpp\<close>, lines 2436-2793): committing and cancelling a
  review, the read-only queries, and the canonical digest of the authoritative state.
\<close>

section \<open>Commit\<close>

definition commit_state_guard :: "review_record \<Rightarrow> status" where
  "commit_state_guard r =
    (case r_state r of
       RS_Cancelled \<Rightarrow> Inl E_ReviewCancelled
     | RS_Superseded \<Rightarrow> Inl E_ReviewSuperseded
     | RS_Failed \<Rightarrow> Inl E_ReviewClosed
     | RS_Retired \<Rightarrow> Inl E_ReviewClosed
     | RS_RevalidationRequired \<Rightarrow> Inl E_RevalidationRequired
     | _ \<Rightarrow> success)"

definition commit_guard :: "durable_state \<Rightarrow> commit_review_request \<Rightarrow> review_slot result" where
  "commit_guard st q =
    (if cm_epoch q \<noteq> du_epoch st then Inl E_StaleCoordinatorEpoch
     else case find_slot st (cm_review q) of
       None \<Rightarrow> Inl E_ReviewUnknown
     | Some sl \<Rightarrow>
         (let r = sl_record sl in
          if r_generation r \<noteq> cm_review_generation q then Inl E_StaleReviewGeneration
          else if r_target_generation r \<noteq> cm_target_generation q then Inl E_StaleTargetGeneration
          else result_bind (commit_state_guard r) (\<lambda>_. Inr sl)))"

definition commit_policy_digest :: "hash_fun \<Rightarrow> review_slot \<Rightarrow> digest" where
  "commit_policy_digest H sl =
    (if digest_is_zero (sl_policy_digest sl) then compute_policy_digest H (r_spec (sl_record sl))
     else sl_policy_digest sl)"

text \<open>A decision already held is returned when the recomputed result has the same digest.\<close>

definition recommit :: "hash_fun \<Rightarrow> evaluation_result \<Rightarrow> review_slot \<Rightarrow> decision \<Rightarrow> decision result" where
  "recommit H ev sl d =
    (let recomputed = d\<lparr> d_disposition := er_disposition ev,
           d_policy_digest := commit_policy_digest H sl,
           d_evidence_basis_digest := compute_evidence_basis_digest H (sl_findings sl) (sl_evidences sl) \<rparr>
     in if compute_decision_digest H recomputed = d_decision_digest d then Inr d
        else Inl E_ConflictingReviewCommit)"

definition new_decision ::
  "hash_fun \<Rightarrow> durable_state \<Rightarrow> evaluation_result \<Rightarrow> review_slot \<Rightarrow> decision_id \<Rightarrow> u64 \<Rightarrow> decision" where
  "new_decision H st ev sl i order =
    (let r = sl_record sl;
         d = \<lparr> d_id = i, d_generation = first_generation, d_review = r_id r,
               d_review_generation = r_generation r, d_target = r_target r,
               d_target_generation = r_target_generation r, d_disposition = er_disposition ev,
               d_decision_digest = zero_digest, d_policy_digest = commit_policy_digest H sl,
               d_evidence_basis_digest =
                 compute_evidence_basis_digest H (sl_findings sl) (sl_evidences sl),
               d_committed_order = order, d_epoch = du_epoch st \<rparr>
     in d\<lparr> d_decision_digest := compute_decision_digest H d \<rparr>)"

definition commit_entries :: "evaluation_result \<Rightarrow> review_record \<Rightarrow> decision \<Rightarrow> journal_body list" where
  "commit_entries ev r d =
    map (\<lambda>next. JR_ReviewStateChanged (state_change r next
        (if next = RS_Evaluating then er_disposition ev else RD_None)
        ''aggregating authoritative critic output'')) (path_to_evaluating (r_state r))
    @ [JR_ReviewStateChanged (state_change r RS_Resolved (er_disposition ev)
         (ex_policy_result (er_explanation ev))),
       JR_DecisionCommitted d,
       JR_ReviewStateChanged (state_change r RS_Committed (er_disposition ev)
         ''authoritative review result committed'')]"

definition next_decision_id :: "coordinator \<Rightarrow> decision_id \<times> coordinator" where
  "next_decision_id c =
    (ct_decision_id (co_next c), bump (\<lambda>n. n\<lparr> ct_decision_id := ct_decision_id n + 1 \<rparr>) c)"

definition evaluate_slot :: "hash_fun \<Rightarrow> durable_state \<Rightarrow> review_slot \<Rightarrow> evaluation_result" where
  "evaluate_slot H st sl = evaluate_review H (build_evaluation_input st sl)"

definition commit_review ::
  "env \<Rightarrow> commit_review_request \<Rightarrow> coordinator \<Rightarrow> coordinator \<times> decision result" where
  "commit_review env q c =
    (case mutation_guard c of Inl err \<Rightarrow> fail_with err c
     | Inr _ \<Rightarrow>
     (case commit_guard (co_state c) q of Inl err \<Rightarrow> fail_with err c
      | Inr sl \<Rightarrow>
        (let H = env_hash env; ev = evaluate_slot H (co_state c) sl in
         case sl_decision sl of
           Some d \<Rightarrow> (c, recommit H ev sl d)
         | None \<Rightarrow>
             (if r_state (sl_record sl) = RS_Committed then fail_with E_ResultAlreadyCommitted c
              else
                (let ic = next_decision_id c; oc = next_order (snd ic);
                     d = new_decision H (co_state c) ev sl (fst ic) (fst oc)
                 in finish d (publish env (commit_entries ev (sl_record sl) d) (snd oc)))))))"

section \<open>Cancellation\<close>

definition cancel_guard ::
  "durable_state \<Rightarrow> runtime_limits \<Rightarrow> cancel_review_request \<Rightarrow> review_slot result" where
  "cancel_guard st l q =
    (if cn_epoch q \<noteq> du_epoch st then Inl E_StaleCoordinatorEpoch
     else if over (cn_reason q) (max_metadata_string_bytes l) then Inl E_ResourceLimitExceeded
     else case find_slot st (cn_review q) of
       None \<Rightarrow> Inl E_ReviewUnknown
     | Some sl \<Rightarrow>
         if r_generation (sl_record sl) \<noteq> cn_review_generation q then Inl E_StaleReviewGeneration
         else Inr sl)"

definition cancel_change :: "review_record \<Rightarrow> string \<Rightarrow> journal_body" where
  "cancel_change r reason = JR_ReviewStateChanged
    \<lparr> rv_review = r_id r, rv_review_generation = r_generation r, rv_state = RS_Cancelled,
      rv_disposition = RD_Cancelled, rv_superseded_by = 0, rv_detail = ''review cancelled'',
      rv_cancellation_reason = reason, rv_authority_current = False,
      rv_rounds_used = r_rounds_used r \<rparr>"

definition record_after :: "coordinator \<Rightarrow> review_id \<Rightarrow> review_record \<Rightarrow> review_record" where
  "record_after c i r = (case find_slot (co_state c) i of None \<Rightarrow> r | Some sl \<Rightarrow> sl_record sl)"

definition cancel_review ::
  "env \<Rightarrow> cancel_review_request \<Rightarrow> coordinator \<Rightarrow> coordinator \<times> review_record result" where
  "cancel_review env q c =
    (case mutation_guard c of Inl err \<Rightarrow> fail_with err c
     | Inr _ \<Rightarrow>
     (case cancel_guard (co_state c) (co_limits c) q of Inl err \<Rightarrow> fail_with err c
      | Inr sl \<Rightarrow>
        (let r = sl_record sl in
         case r_state r of
           RS_Cancelled \<Rightarrow> (c, Inr r)
         | RS_Committed \<Rightarrow> fail_with E_ReviewClosed c
         | RS_Superseded \<Rightarrow> fail_with E_ReviewSuperseded c
         | RS_Retired \<Rightarrow> fail_with E_ReviewClosed c
         | RS_Failed \<Rightarrow> fail_with E_ReviewClosed c
         | _ \<Rightarrow>
             (let cs = publish env [cancel_change r (cn_reason q)] c
              in finish (record_after (fst cs) (cn_review q) r) cs))))"

section \<open>Queries\<close>

definition query_review :: "hash_fun \<Rightarrow> review_id \<Rightarrow> coordinator \<Rightarrow> review_snapshot result" where
  "query_review H i c =
    (case find_slot (co_state c) i of None \<Rightarrow> Inl E_ReviewUnknown | Some sl \<Rightarrow> Inr (build_snapshot H sl))"

definition query_decision :: "review_id \<Rightarrow> review_generation \<Rightarrow> coordinator \<Rightarrow> decision result" where
  "query_decision i g c =
    (case find_slot (co_state c) i of
       None \<Rightarrow> Inl E_ReviewUnknown
     | Some sl \<Rightarrow>
         if r_generation (sl_record sl) \<noteq> g then Inl E_StaleReviewGeneration
         else (case sl_decision sl of None \<Rightarrow> Inl E_DecisionUnknown | Some d \<Rightarrow> Inr d))"

definition evaluate_review_now :: "hash_fun \<Rightarrow> review_id \<Rightarrow> coordinator \<Rightarrow> evaluation_result result" where
  "evaluate_review_now H i c =
    (case find_slot (co_state c) i of
       None \<Rightarrow> Inl E_ReviewUnknown
     | Some sl \<Rightarrow> Inr (evaluate_slot H (co_state c) sl))"

definition explain_review :: "hash_fun \<Rightarrow> review_id \<Rightarrow> coordinator \<Rightarrow> explanation result" where
  "explain_review H i c =
    result_bind (evaluate_review_now H i c) (\<lambda>ev. Inr (er_explanation ev))"

definition summary_of :: "review_slot \<Rightarrow> review_summary" where
  "summary_of sl =
    (let r = sl_record sl in
     \<lparr> rs_id = r_id r, rs_generation = r_generation r, rs_target = r_target r,
       rs_target_generation = r_target_generation r, rs_state = r_state r,
       rs_disposition = r_disposition r, rs_finding_count = of_nat (length (sl_findings sl)),
       rs_current_finding_count =
         of_nat (count_if (\<lambda>f. finding_state_is_current (f_state f)) (om_vals (sl_findings sl))),
       rs_assignment_count = of_nat (count_if a_active (om_vals (sl_assignments sl))),
       rs_has_decision = (sl_decision sl \<noteq> None) \<rparr>)"

definition list_reviews :: "coordinator \<Rightarrow> review_summary list" where
  "list_reviews c = map summary_of (om_vals (du_reviews (co_state c)))"

definition list_findings :: "review_id \<Rightarrow> coordinator \<Rightarrow> finding list" where
  "list_findings i c =
    (case find_slot (co_state c) i of None \<Rightarrow> [] | Some sl \<Rightarrow> om_vals (sl_findings sl))"

section \<open>The digest of the authoritative state\<close>

definition w_slot :: "review_slot \<Rightarrow> writer \<Rightarrow> writer" where
  "w_slot sl = w_seq
    [enc_review_record (sl_record sl),
     w_u32 (of_nat (length (sl_assignments sl))),
     w_each enc_critic_assignment (om_vals (sl_assignments sl)),
     w_u32 (of_nat (length (sl_findings sl))),
     w_each enc_finding (om_vals (sl_findings sl)),
     w_u32 (of_nat (length (sl_evidences sl))),
     w_each enc_evidence_record (om_vals (sl_evidences sl)),
     w_u32 (of_nat (length (sl_challenges sl))),
     w_each enc_challenge (om_vals (sl_challenges sl)),
     w_u32 (of_nat (length (sl_rebuttals sl))),
     w_each enc_rebuttal (om_vals (sl_rebuttals sl)),
     w_boolean (sl_decision sl \<noteq> None),
     w_each enc_decision (case sl_decision sl of None \<Rightarrow> [] | Some d \<Rightarrow> [d])]"

definition authoritative_state_digest :: "hash_fun \<Rightarrow> durable_state \<Rightarrow> digest" where
  "authoritative_state_digest H st = hash_writes H
    [w_u32 (content_digest_domain_code CD_State),
     w_u32 (of_nat (length (du_targets st))),
     w_each enc_target_record (om_vals (du_targets st)),
     w_u32 (of_nat (length (du_critics st))),
     w_each enc_critic_registration (om_vals (du_critics st)),
     w_u32 (of_nat (length (du_reviews st))),
     w_each w_slot (om_vals (du_reviews st))]"

lemma state_digest_frame:
  "authoritative_state_digest H (st\<lparr> du_epoch := ep \<rparr>) = authoritative_state_digest H st"
  "authoritative_state_digest H (st\<lparr> du_workers := ws \<rparr>) = authoritative_state_digest H st"
  "authoritative_state_digest H (st\<lparr> du_incumbents := is \<rparr>) = authoritative_state_digest H st"
  by (simp_all add: authoritative_state_digest_def)

end
