(* ===== verification/CF_Recovery.thy ===== *)
theory CF_Recovery
  imports CF_Commit
begin

text \<open>
  Start, recovery and stop (\<open>src/coordinator.cpp\<close>, lines 370-572). Recovery replays the journal
  through the same entry application as live operation, rebuilds the counters, establishes a fresh
  epoch, clears every dynamic worker flag and moves each review that was in flight to
  REVALIDATION_REQUIRED.

  \<open>start\<close> takes the outcome of opening the journal file as an argument: the journal as read, or the
  error. Opening in memory is \<open>open_in_memory\<close>.
\<close>

section \<open>Counters from the recovered maps\<close>

definition max_of :: "u64 list \<Rightarrow> u64" where
  "max_of xs = foldl max 0 xs"

definition slot_orders :: "review_slot \<Rightarrow> u64 list" where
  "slot_orders sl =
    [r_updated_order (sl_record sl), r_declared_order (sl_record sl)]
    @ map a_assigned_order (om_vals (sl_assignments sl))
    @ map f_creation_order (om_vals (sl_findings sl))
    @ map e_created_order (om_vals (sl_evidences sl))
    @ map ch_creation_order (om_vals (sl_challenges sl))
    @ map rb_creation_order (om_vals (sl_rebuttals sl))
    @ (case sl_decision sl of None \<Rightarrow> [] | Some d \<Rightarrow> [d_committed_order d])"

definition state_orders :: "durable_state \<Rightarrow> u64 list" where
  "state_orders st =
    map t_created_order (om_vals (du_targets st))
    @ concat (map (\<lambda>h. map t_created_order (om_vals h)) (om_vals (du_target_history st)))
    @ map c_registered_order (om_vals (du_critics st))
    @ map w_readiness_order (om_vals (du_workers st))
    @ concat (map slot_orders (om_vals (du_reviews st)))"

definition slot_keys :: "(review_slot \<Rightarrow> u64 list) \<Rightarrow> durable_state \<Rightarrow> u64 list" where
  "slot_keys keys st = concat (map keys (om_vals (du_reviews st)))"

definition rebuild_derived :: "durable_state \<Rightarrow> id_counters \<Rightarrow> id_counters" where
  "rebuild_derived st n =
    \<lparr> ct_order = max_of (state_orders st) + 1,
      ct_target_id = max_of (om_keys (du_targets st)) + 1,
      ct_critic_id = max_of (om_keys (du_critics st)) + 1,
      ct_worker_id = max_of (om_keys (du_workers st)) + 1,
      ct_review_id = max_of (om_keys (du_reviews st)) + 1,
      ct_assignment_id = max_of (slot_keys (\<lambda>sl. om_keys (sl_assignments sl)) st) + 1,
      ct_finding_id = max_of (slot_keys (\<lambda>sl. om_keys (sl_findings sl)) st) + 1,
      ct_evidence_id = max_of (slot_keys (\<lambda>sl. om_keys (sl_evidences sl)) st) + 1,
      ct_challenge_id = max_of (slot_keys (\<lambda>sl. om_keys (sl_challenges sl)) st) + 1,
      ct_rebuttal_id = max_of (slot_keys (\<lambda>sl. om_keys (sl_rebuttals sl)) st) + 1,
      ct_decision_id = max_of (slot_keys
        (\<lambda>sl. case sl_decision sl of None \<Rightarrow> [] | Some d \<Rightarrow> [d_id d]) st) + 1,
      ct_boot_order = foldl max (ct_boot_order n)
        (map (\<lambda>w. w_boot_order w + 1) (om_vals (du_workers st))) \<rparr>"

section \<open>Recovery\<close>

fun last_epoch :: "coordinator_epoch \<Rightarrow> journal_entry list \<Rightarrow> coordinator_epoch" where
  "last_epoch previous [] = previous"
| "last_epoch previous (e # es) =
     last_epoch (case je_body e of JR_EpochEstablished ep \<Rightarrow> ep | _ \<Rightarrow> previous) es"

definition fresh_epoch :: "coordinator_epoch \<Rightarrow> coordinator_epoch" where
  "fresh_epoch previous = (if id_valid previous then advance previous else first_generation)"

definition clear_worker :: "worker_record \<Rightarrow> worker_record" where
  "clear_worker w = w\<lparr> w_ready := False, w_healthy := False, w_authoritative := False \<rparr>"

definition clear_workers :: "durable_state \<Rightarrow> durable_state" where
  "clear_workers st = st\<lparr> du_workers := map (\<lambda>(k, w). (k, clear_worker w)) (du_workers st) \<rparr>"

definition restart_reason :: string where
  "restart_reason = ''coordinator restarted: dynamic worker authority was cleared and must be re-established before this review may produce a disposition''"

definition recovery_bodies :: "coordinator_epoch \<Rightarrow> durable_state \<Rightarrow> journal_body list" where
  "recovery_bodies epoch st =
    JR_EpochEstablished epoch
    # concat (map (\<lambda>sl. revalidate_review sl restart_reason) (om_vals (du_reviews st)))"

definition had_authority :: "worker_record \<Rightarrow> bool" where
  "had_authority w \<longleftrightarrow> w_ready w \<or> w_healthy w \<or> w_authoritative w"

definition recovery_report_of :: "bool \<Rightarrow> coordinator_epoch \<Rightarrow> journal \<Rightarrow> durable_state \<Rightarrow> recovery_report" where
  "recovery_report_of durable epoch j st =
    (let slots = om_vals (du_reviews st);
         moved = of_nat (count_if (\<lambda>sl. \<not> is_recoverable_review_state (r_state (sl_record sl))) slots)
     in \<lparr> rr_epoch = epoch,
          rr_durable_state_recovered = durable,
          rr_journal_records = of_nat (length (jn_entries j)),
          rr_targets_recovered = of_nat (length (du_targets st)),
          rr_critics_recovered = of_nat (length (du_critics st)),
          rr_workers_recovered = of_nat (length (du_workers st)),
          rr_reviews_recovered = of_nat (length slots),
          rr_reviews_in_flight_at_shutdown = moved,
          rr_reviews_moved_to_revalidation = moved,
          rr_decisions_recovered = of_nat (count_if (\<lambda>sl. sl_decision sl \<noteq> None) slots),
          rr_findings_recovered = sum_list (map (\<lambda>sl. of_nat (length (sl_findings sl))) slots),
          rr_dynamic_authority_cleared =
            of_nat (count_if had_authority (om_vals (du_workers st))) \<rparr>)"

definition replay :: "hash_fun \<Rightarrow> journal_entry list \<Rightarrow> durable_state" where
  "replay H es = apply_entries H es empty_state"

text \<open>
  The block under the state lock. The state is already replaced when the epoch space turns out to be
  exhausted.
\<close>

definition recover :: "env \<Rightarrow> bool \<Rightarrow> journal \<Rightarrow> coordinator \<Rightarrow> coordinator \<times> journal_entry list result" where
  "recover env durable j c =
    (let st = replay (env_hash env) (jn_entries j);
         c1 = c\<lparr> co_journal := j, co_state := st, co_next := rebuild_derived st first_counters \<rparr>;
         previous = last_epoch 0 (jn_entries j)
     in if advance_would_overflow previous then fail_with E_ResourceLimitExceeded c1
        else
          (let epoch = fresh_epoch previous;
               st1 = clear_workers (st\<lparr> du_epoch := epoch \<rparr>);
               es = assign_sequences (recovery_bodies epoch st1) (jn_next_sequence j)
           in (c1\<lparr> co_state := apply_entries (env_hash env) es st1,
                  co_recovery := recovery_report_of durable epoch j st \<rparr>, Inr es)))"

definition start_with :: "env \<Rightarrow> journal result \<Rightarrow> coordinator \<Rightarrow> coordinator \<times> status" where
  "start_with env opened c =
    (if co_started c then (c, Inl E_InternalError)
     else case opened of
       Inl err \<Rightarrow> (c, Inl err)
     | Inr j \<Rightarrow>
         (case recover env (jn_open j) j c of
            (c1, Inl err) \<Rightarrow> (c1, Inl err)
          | (c1, Inr es) \<Rightarrow>
              (case append_entries env es c1 of
                 (c2, Inl err) \<Rightarrow> (c2, Inl err)
               | (c2, Inr _) \<Rightarrow> (c2\<lparr> co_started := True \<rparr>, success))))"

definition start_in_memory :: "env \<Rightarrow> coordinator \<Rightarrow> coordinator \<times> status" where
  "start_in_memory env c = start_with env (Inr (open_in_memory (co_limits c))) c"

definition stop :: "coordinator \<Rightarrow> coordinator \<times> status" where
  "stop c = (c\<lparr> co_journal := journal_close (co_journal c), co_started := False \<rparr>, success)"

end
