(* ===== verification/CF_Fencing.thy ===== *)
theory CF_Fencing
  imports CF_Recovery
begin

text \<open>
  The authority check against its specification. \<open>authoritative\<close> says declaratively who may speak for
  a critic in a review; \<open>check_authority\<close> is the ordered chain of guards of the code. The two agree,
  every critic operation rests on it, and a rejected message leaves the durable state alone.
\<close>

section \<open>Specification\<close>

definition live_incarnation :: "durable_state \<Rightarrow> authority_context \<Rightarrow> bool" where
  "live_incarnation st au \<longleftrightarrow>
     (\<exists>c w. om_get (du_critics st) (au_critic au) = Some c \<and> c_generation c = au_critic_generation au
        \<and> om_get (du_workers st) (au_worker au) = Some w \<and> w_boot w = au_worker_boot au
        \<and> w_critic w = au_critic au \<and> w_critic_generation w = au_critic_generation au
        \<and> om_get (du_incumbents st) (au_critic au) = Some (au_worker au)
        \<and> w_ready w \<and> w_healthy w \<and> w_authoritative w)"

definition bound_to_live_target :: "durable_state \<Rightarrow> authority_context \<Rightarrow> review_record \<Rightarrow> bool" where
  "bound_to_live_target st au r \<longleftrightarrow>
     r_target r = au_target au \<and> r_target_generation r = au_target_generation au
   \<and> (\<exists>t. om_get (du_targets st) (au_target au) = Some t \<and> t_supersession t = TS_Current
        \<and> t_generation t = r_target_generation r)"

definition holds_assignment :: "authority_context \<Rightarrow> review_slot \<Rightarrow> critic_assignment \<Rightarrow> bool" where
  "holds_assignment au sl a \<longleftrightarrow>
     find_active_assignment sl (au_critic au) = Some a \<and> a_worker a = au_worker au
   \<and> a_worker_boot a = au_worker_boot au \<and> a_critic_generation a = au_critic_generation au"

definition authoritative :: "durable_state \<Rightarrow> authority_context \<Rightarrow> review_slot \<Rightarrow> critic_assignment \<Rightarrow> bool" where
  "authoritative st au sl a \<longleftrightarrow>
     au_epoch au = du_epoch st
   \<and> find_slot st (au_review au) = Some sl
   \<and> r_generation (sl_record sl) = au_review_generation au
   \<and> accepts_critic_input (r_state (sl_record sl))
   \<and> bound_to_live_target st au (sl_record sl)
   \<and> live_incarnation st au
   \<and> holds_assignment au sl a"

lemma check_review_open_iff: "check_review_open r = Inr u \<longleftrightarrow> accepts_critic_input (r_state r)"
  by (cases "r_state r") (simp_all add: check_review_open_def accepts_critic_input_def)

lemma check_target_live_iff:
  "check_target_live st au r = Inr u \<longleftrightarrow>
     (\<exists>t. om_get (du_targets st) (au_target au) = Some t \<and> t_supersession t = TS_Current
        \<and> t_generation t = r_target_generation r)"
  by (auto simp: check_target_live_def split: option.splits)

lemma check_worker_live_iff: "check_worker_live st au = Inr u \<longleftrightarrow> live_incarnation st au"
proof (cases "om_get (du_critics st) (au_critic au)")
  case (Some c)
  then show ?thesis
    by (cases "om_get (du_workers st) (au_worker au)")
       (auto simp: check_worker_live_def live_incarnation_def)
qed (simp add: check_worker_live_def live_incarnation_def)

lemma check_assignment_iff: "check_assignment au sl = Inr a \<longleftrightarrow> holds_assignment au sl a"
  by (auto simp: check_assignment_def holds_assignment_def split: option.splits)

lemma check_authority_authoritative: "check_authority st au = Inr (sl, a) \<longleftrightarrow> authoritative st au sl a"
proof (cases "au_epoch au = du_epoch st")
  case epoch: True
  show ?thesis
  proof (cases "find_slot st (au_review au)")
    case (Some s)
    then show ?thesis
      by (auto simp: check_authority_def authoritative_def epoch result_bind_Inr_iff check_review_open_iff
          check_target_live_iff check_worker_live_iff check_assignment_iff bound_to_live_target_def)
  qed (simp add: check_authority_def authoritative_def epoch)
qed (simp add: check_authority_def authoritative_def)

text \<open>
  C6. The authority check accepts exactly the messages the specification calls authoritative: current
  epoch, current review generation in an input-accepting state, live target generation, registered
  critic generation, the incumbent and ready boot of its worker, and an active assignment of that
  incarnation. It returns the slot and the assignment it found.
\<close>

theorem check_authority_iff: "check_authority st au = Inr (sl, a) \<longleftrightarrow> authoritative st au sl a"
  by (rule check_authority_authoritative)

lemma accepts_input_open: "accepts_critic_input s \<Longrightarrow> \<not> is_terminal_review_state s"
  by (cases s) (simp_all add: accepts_critic_input_def is_terminal_review_state_def)

lemma check_authority_slot:
  "check_authority st au = Inr (sl, a) \<Longrightarrow>
     find_slot st (au_review au) = Some sl \<and> \<not> is_terminal_review_state (r_state (sl_record sl))"
  unfolding check_authority_authoritative authoritative_def using accepts_input_open by blast

section \<open>A message from a stale incarnation\<close>

text \<open>
  A message that carries another epoch, another worker boot than the registered one, or that
  comes from a worker that is not the incumbent of its critic, is never authoritative.
\<close>

theorem stale_messages_rejected:
  assumes "au_epoch au \<noteq> du_epoch st
    \<or> map_option w_boot (om_get (du_workers st) (au_worker au)) \<noteq> Some (au_worker_boot au)
    \<or> om_get (du_incumbents st) (au_critic au) \<noteq> Some (au_worker au)
    \<or> map_option c_generation (om_get (du_critics st) (au_critic au)) \<noteq> Some (au_critic_generation au)
    \<or> map_option t_generation (om_get (du_targets st) (au_target au)) \<noteq> Some (au_target_generation au)"
  shows "\<not> is_ok (check_authority st au)"
proof
  assume "is_ok (check_authority st au)"
  then obtain sl a where "check_authority st au = Inr (sl, a)"
    by (auto simp: is_ok_iff)
  then have "authoritative st au sl a"
    by (simp add: check_authority_authoritative)
  with assms show False
    by (auto simp: authoritative_def live_incarnation_def bound_to_live_target_def)
qed

definition sample_authority_context :: authority_context where
  "sample_authority_context =
    \<lparr> au_epoch = 1, au_worker = 5, au_worker_boot = 9, au_critic = 7, au_critic_generation = 1,
      au_review = 1, au_review_generation = 1, au_target = 1, au_target_generation = 1,
      au_request = 1 \<rparr>"

theorem stale_messages_rejected_witness:
  "\<not> is_ok (check_authority (empty_state\<lparr> du_epoch := 2 \<rparr>) sample_authority_context)"
  by (rule stale_messages_rejected) (simp add: sample_authority_context_def)

end
