(* ===== verification/CF_System.thy ===== *)
theory CF_System
  imports CF_Fencing
begin

text \<open>
  The coordinator as a whole: its public commands, one function \<open>exec\<close> that runs a command, and
  the shape every run has. A command either only consumes identities, or publishes a list of journal
  entries, and every published entry is admissible in the state it was computed from (\<open>body_ok\<close>): a
  decision only for an open review that holds none, a state change of a terminal review only to the
  same state, a declaration only under a fresh identity, and authority is withdrawn only together with a state
  that cannot be committed. The invariants of the system follow from
  this shape.
\<close>

section \<open>Commands\<close>

datatype command =
    Cmd_Start "journal result"
  | Cmd_Stop
  | Cmd_AllocateTarget
  | Cmd_AllocateCritic
  | Cmd_AllocateWorker
  | Cmd_RegisterTarget register_target_request
  | Cmd_SupersedeTarget supersede_target_request
  | Cmd_RegisterCritic register_critic_request
  | Cmd_RegisterWorker register_worker_request
  | Cmd_DeclareReadiness declare_readiness_request
  | Cmd_FenceCritic critic_id string
  | Cmd_FenceWorker worker_id string
  | Cmd_DeclareReview declare_review_request
  | Cmd_AssignCritics assign_critics_request
  | Cmd_SubmitEvidence submit_evidence_request
  | Cmd_SubmitFinding submit_finding_request
  | Cmd_SubmitChallenge submit_challenge_request
  | Cmd_SubmitRebuttal submit_rebuttal_request
  | Cmd_CommitReview commit_review_request
  | Cmd_CancelReview cancel_review_request

definition respond :: "coordinator \<times> 'a result \<Rightarrow> coordinator \<times> status" where
  "respond cr = (fst cr, map_sum id (\<lambda>_. ()) (snd cr))"

fun exec :: "env \<Rightarrow> command \<Rightarrow> coordinator \<Rightarrow> coordinator \<times> status" where
  "exec env (Cmd_Start opened) c = start_with env opened c"
| "exec env Cmd_Stop c = stop c"
| "exec env Cmd_AllocateTarget c = (snd (allocate_target_id c), success)"
| "exec env Cmd_AllocateCritic c = (snd (allocate_critic_id c), success)"
| "exec env Cmd_AllocateWorker c = (snd (allocate_worker_id c), success)"
| "exec env (Cmd_RegisterTarget q) c = respond (register_target env q c)"
| "exec env (Cmd_SupersedeTarget q) c = respond (supersede_target env q c)"
| "exec env (Cmd_RegisterCritic q) c = respond (register_critic env q c)"
| "exec env (Cmd_RegisterWorker q) c = respond (register_worker env q c)"
| "exec env (Cmd_DeclareReadiness q) c = respond (declare_readiness env q c)"
| "exec env (Cmd_FenceCritic critic reason) c = fence_critic env critic reason c"
| "exec env (Cmd_FenceWorker worker reason) c = fence_worker env worker reason c"
| "exec env (Cmd_DeclareReview q) c = respond (declare_review env q c)"
| "exec env (Cmd_AssignCritics q) c = respond (assign_critics env q c)"
| "exec env (Cmd_SubmitEvidence q) c = respond (submit_evidence env q c)"
| "exec env (Cmd_SubmitFinding q) c = respond (submit_finding env q c)"
| "exec env (Cmd_SubmitChallenge q) c = respond (submit_challenge env q c)"
| "exec env (Cmd_SubmitRebuttal q) c = respond (submit_rebuttal env q c)"
| "exec env (Cmd_CommitReview q) c = respond (commit_review env q c)"
| "exec env (Cmd_CancelReview q) c = respond (cancel_review env q c)"

text \<open>Starting and stopping aside, a command runs on the state of a running coordinator.\<close>

fun keeps_running :: "command \<Rightarrow> bool" where
  "keeps_running (Cmd_Start _) = False"
| "keeps_running Cmd_Stop = False"
| "keeps_running _ = True"

section \<open>Admissible entries\<close>

fun body_ok :: "durable_state \<Rightarrow> id_counters \<Rightarrow> journal_body \<Rightarrow> bool" where
  "body_ok st n (JR_ReviewDeclared r) \<longleftrightarrow>
     find_slot st (r_id r) = None \<and> r_id r < ct_review_id n \<and> r_authority_current r"
| "body_ok st n (JR_DecisionCommitted d) \<longleftrightarrow>
     (\<exists>sl. find_slot st (d_review d) = Some sl \<and> sl_decision sl = None
        \<and> \<not> is_terminal_review_state (r_state (sl_record sl)))"
| "body_ok st n (JR_ReviewStateChanged rv) \<longleftrightarrow>
     (\<exists>sl. find_slot st (rv_review rv) = Some sl
        \<and> (rv_authority_current rv \<or> is_terminal_review_state (rv_state rv) \<or> rv_state rv = RS_RevalidationRequired)
        \<and> (is_terminal_review_state (r_state (sl_record sl)) \<longrightarrow>
             rv_state rv = r_state (sl_record sl) \<and> \<not> rv_authority_current rv))"
| "body_ok st n _ \<longleftrightarrow> True"

definition bodies_ok :: "durable_state \<Rightarrow> journal_body list \<Rightarrow> id_counters \<Rightarrow> bool" where
  "bodies_ok st bs n \<longleftrightarrow> (\<forall>b \<in> set bs. body_ok st n b)"

lemma bodies_ok_simps [simp]:
  "bodies_ok st [] n"
  "bodies_ok st (b # bs) n \<longleftrightarrow> body_ok st n b \<and> bodies_ok st bs n"
  "bodies_ok st (bs @ cs) n \<longleftrightarrow> bodies_ok st bs n \<and> bodies_ok st cs n"
  "bodies_ok st (concat bss) n \<longleftrightarrow> (\<forall>bs \<in> set bss. bodies_ok st bs n)"
  by (auto simp: bodies_ok_def)

section \<open>Well-formed coordinators\<close>

definition slots_keyed :: "durable_state \<Rightarrow> bool" where
  "slots_keyed st \<longleftrightarrow> om_wf (du_reviews st)
    \<and> (\<forall>i sl. find_slot st i = Some sl \<longrightarrow> r_id (sl_record sl) = i)"

definition review_ids_fresh :: "durable_state \<Rightarrow> id_counters \<Rightarrow> bool" where
  "review_ids_fresh st n \<longleftrightarrow> (\<forall>i sl. find_slot st i = Some sl \<longrightarrow> i < ct_review_id n)"

definition coordinator_wf :: "coordinator \<Rightarrow> bool" where
  "coordinator_wf c \<longleftrightarrow> slots_keyed (co_state c) \<and> review_ids_fresh (co_state c) (co_next c)"

text \<open>The 64-bit space of review identities is not exhausted.\<close>

definition review_space_left :: "coordinator \<Rightarrow> bool" where
  "review_space_left c \<longleftrightarrow> ct_review_id (co_next c) \<noteq> - 1"

section \<open>The shape of a run\<close>

definition quiet :: "coordinator \<Rightarrow> coordinator \<Rightarrow> bool" where
  "quiet c c1 \<longleftrightarrow> (\<exists>n. c1 = c\<lparr> co_next := n \<rparr> \<and> ct_review_id (co_next c) \<le> ct_review_id n)"

definition outcome ::
  "env \<Rightarrow> (journal_body list \<Rightarrow> id_counters \<Rightarrow> bool) \<Rightarrow> coordinator \<Rightarrow> coordinator \<times> status \<Rightarrow> bool" where
  "outcome env P c cs \<longleftrightarrow>
     quiet c (fst cs)
   \<or> (\<exists>c1 bodies s. quiet c c1 \<and> P bodies (co_next c1) \<and> publish env bodies c1 = (fst cs, s)
        \<and> is_ok s = is_ok (snd cs))"

lemma quiet_refl [simp]: "quiet c c"
  unfolding quiet_def by (intro exI [of _ "co_next c"]) simp

lemma quiet_state:
  "quiet c c1 \<Longrightarrow> co_state c1 = co_state c \<and> co_journal c1 = co_journal c \<and> co_limits c1 = co_limits c
     \<and> co_persistence_failed c1 = co_persistence_failed c \<and> co_started c1 = co_started c"
  by (auto simp: quiet_def)

lemma quiet_review_ids: "quiet c c1 \<Longrightarrow> ct_review_id (co_next c) \<le> ct_review_id (co_next c1)"
  by (auto simp: quiet_def)

lemma quiet_bump:
  assumes "quiet c c1" and "ct_review_id (h (co_next c1)) = ct_review_id (co_next c1)"
  shows "quiet c (bump h c1)"
  using assms by (auto simp: quiet_def bump_def)

lemma quiet_counters [intro]:
  assumes "quiet c c1"
  shows "quiet c (snd (next_order c1))" "quiet c (snd (allocate_target_id c1))"
    "quiet c (snd (allocate_critic_id c1))" "quiet c (snd (allocate_worker_id c1))"
    "quiet c (snd (next_boot_order c1))" "quiet c (snd (next_assignment_id c1))"
    "quiet c (snd (next_evidence_id c1))" "quiet c (snd (next_finding_id c1))"
    "quiet c (snd (next_challenge_id c1))" "quiet c (snd (next_rebuttal_id c1))"
    "quiet c (snd (next_decision_id c1))"
  using assms
  by (simp_all add: next_order_def allocate_target_id_def allocate_critic_id_def allocate_worker_id_def
      next_boot_order_def next_assignment_id_def next_evidence_id_def next_finding_id_def
      next_challenge_id_def next_rebuttal_id_def next_decision_id_def quiet_bump)

lemma outcome_quiet: "quiet c c1 \<Longrightarrow> outcome env P c (c1, s)"
  by (simp add: outcome_def)

lemma outcome_fail [intro]: "quiet c c1 \<Longrightarrow> outcome env P c (respond (fail_with e c1))"
  by (simp add: outcome_def respond_def fail_with_def)

lemma outcome_return [intro]: "quiet c c1 \<Longrightarrow> outcome env P c (respond (c1, r))"
  by (simp add: outcome_def respond_def)

lemma outcome_publish:
  "quiet c c1 \<Longrightarrow> P bodies (co_next c1) \<Longrightarrow> outcome env P c (publish env bodies c1)"
  unfolding outcome_def by (metis prod.collapse)

lemma is_ok_finish: "is_ok (snd (respond (finish a cs))) = is_ok (snd cs)"
  by (cases cs; cases "snd cs") (auto simp: respond_def finish_def)

lemma fst_finish: "fst (respond (finish a cs)) = fst cs"
  by (cases cs; cases "snd cs") (auto simp: respond_def finish_def)

lemma outcome_finish [intro]:
  "quiet c c1 \<Longrightarrow> P bodies (co_next c1) \<Longrightarrow> outcome env P c (respond (finish a (publish env bodies c1)))"
  unfolding outcome_def fst_finish is_ok_finish by (metis prod.collapse)

lemma outcome_sum:
  assumes "\<And>e. x = Inl e \<Longrightarrow> outcome env P c (respond (f e))"
    and "\<And>a. x = Inr a \<Longrightarrow> outcome env P c (respond (g a))"
  shows "outcome env P c (respond (case x of Inl e \<Rightarrow> f e | Inr a \<Rightarrow> g a))"
  using assms by (cases x) auto

lemma outcome_option:
  assumes "x = None \<Longrightarrow> outcome env P c (respond f)"
    and "\<And>a. x = Some a \<Longrightarrow> outcome env P c (respond (g a))"
  shows "outcome env P c (respond (case x of None \<Rightarrow> f | Some a \<Rightarrow> g a))"
  using assms by (cases x) auto

lemma outcome_if:
  assumes "b \<Longrightarrow> outcome env P c (respond x)" and "\<not> b \<Longrightarrow> outcome env P c (respond y)"
  shows "outcome env P c (respond (if b then x else y))"
  using assms by simp

lemma outcome_pair:
  assumes "\<And>a b. x = (a, b) \<Longrightarrow> outcome env P c (respond (f a b))"
  shows "outcome env P c (respond (case x of (a, b) \<Rightarrow> f a b))"
  using assms by (cases x) auto

lemma quiet_pick: "quiet c (snd x) \<Longrightarrow> quiet c (snd y) \<Longrightarrow> quiet c (snd (if b then x else y))"
  by simp

lemma quiet_pair: "quiet c c1 \<Longrightarrow> quiet c (snd (i, c1))"
  by simp

lemmas outcome_rules =
  outcome_sum outcome_option outcome_if outcome_pair outcome_fail outcome_return outcome_finish
  quiet_counters quiet_pick quiet_pair quiet_refl

section \<open>Every operation has this shape\<close>

lemma slot_of_vals:
  assumes "slots_keyed st" and "sl \<in> set (om_vals (du_reviews st))"
  shows "find_slot st (r_id (sl_record sl)) = Some sl"
proof -
  from assms obtain i where "find_slot st i = Some sl"
    by (auto simp: slots_keyed_def om_vals_mem find_slot_def)
  with assms(1) show ?thesis
    unfolding slots_keyed_def by metis
qed

lemma terminal_is_recoverable: "is_terminal_review_state s = is_recoverable_review_state s"
  by (cases s) (simp_all add: is_terminal_review_state_def is_recoverable_review_state_def)

lemma revalidate_ok:
  assumes "find_slot st (r_id (sl_record sl)) = Some sl"
  shows "bodies_ok st (revalidate_review sl reason) n"
  using assms by (auto simp: revalidate_review_def Let_def terminal_is_recoverable)

lemma bodies_ok_assignment_updates [simp]:
  "bodies_ok st (map JR_AssignmentUpdated as) n"
  "bodies_ok st (map (JR_AssignmentUpdated \<circ> g) as) n"
  by (simp_all add: bodies_ok_def)

lemma bodies_ok_invalidations [simp]: "bodies_ok st (invalidate_findings sl) n"
  by (auto simp: bodies_ok_def invalidate_findings_def)

lemma retirements_ok:
  assumes "slots_keyed st" and "sl \<in> set (om_vals (du_reviews st))"
  shows "bodies_ok st (retirements applies reason sl) n"
  using revalidate_ok [OF slot_of_vals [OF assms]] by (simp add: retirements_def Let_def)

lemma retire_review_ok:
  assumes "slots_keyed st" and "sl \<in> set (om_vals (du_reviews st))"
  shows "bodies_ok st (retire_review sl) n"
  using slot_of_vals [OF assms] by (auto simp: retire_review_def Let_def is_terminal_review_state_def)

lemma supersede_reviews_ok:
  assumes "slots_keyed st"
  shows "bodies_ok st (supersede_reviews_for_target st t g) n"
  using retire_review_ok [OF assms] by (auto simp: supersede_reviews_for_target_def)

lemma fence_entries_ok:
  assumes "slots_keyed st" and "fence_worker_entries st reason w = Inr bs"
  shows "bodies_ok st bs n"
  using assms(2) retirements_ok [OF assms(1)]
  by (auto simp: fence_worker_entries_def split: option.splits if_splits)

lemma fence_workers_ok:
  assumes "slots_keyed st"
  shows "fence_workers st reason ws = Inr bs \<Longrightarrow> bodies_ok st bs n"
  by (induction ws arbitrary: bs) (auto simp: result_bind_Inr_iff fence_entries_ok [OF assms])

lemma retire_generation_ok:
  assumes "slots_keyed st" and "retire_critic_generation st critic = Inr bs"
  shows "bodies_ok st bs n"
  using assms(2) fence_workers_ok [OF assms(1)] retirements_ok [OF assms(1)]
  by (auto simp: retire_critic_generation_def result_bind_Inr_iff)

lemma register_target_outcome:
  assumes "slots_keyed (co_state c)"
  shows "outcome env (bodies_ok (co_state c)) c (respond (register_target env q c))"
  unfolding register_target_def Let_def
  by (intro outcome_rules) (simp_all add: supersede_reviews_ok [OF assms])

lemma supersede_target_outcome:
  assumes "slots_keyed (co_state c)"
  shows "outcome env (bodies_ok (co_state c)) c (respond (supersede_target env q c))"
  unfolding supersede_target_def by (intro outcome_rules register_target_outcome [OF assms])

lemma register_critic_outcome:
  assumes "slots_keyed (co_state c)"
  shows "outcome env (bodies_ok (co_state c)) c (respond (register_critic env q c))"
  unfolding register_critic_def Let_def
  by (intro outcome_rules) (simp_all add: retire_generation_ok [OF assms])

lemma register_fresh_worker_outcome:
  assumes keyed: "slots_keyed (co_state c)" and c1: "quiet c c1"
  shows "outcome env (bodies_ok (co_state c)) c (respond (register_fresh_worker env q i c1))"
  unfolding register_fresh_worker_def Let_def
  using quiet_state [OF c1]
  by (intro outcome_rules c1)
     (simp_all add: fence_workers_ok [OF keyed] fence_entries_ok [OF keyed] split: if_splits)

lemma register_worker_outcome:
  assumes "slots_keyed (co_state c)"
  shows "outcome env (bodies_ok (co_state c)) c (respond (register_worker env q c))"
  unfolding register_worker_def Let_def
  by (intro outcome_rules register_fresh_worker_outcome [OF assms])

lemma declare_readiness_outcome:
  "outcome env (bodies_ok (co_state c)) c (respond (declare_readiness env q c))"
  unfolding declare_readiness_def Let_def by (intro outcome_rules) simp

lemma outcome_error: "outcome env P c (c, Inl e)"
  by (simp add: outcome_def)

lemma fence_worker_outcome:
  assumes "slots_keyed (co_state c)"
  shows "outcome env (bodies_ok (co_state c)) c (fence_worker env worker reason c)"
  using fence_entries_ok [OF assms]
  by (cases "fence_worker_entries (co_state c) reason worker")
     (simp_all add: fence_worker_def outcome_error outcome_publish)

lemma fence_critic_outcome:
  assumes "slots_keyed (co_state c)"
  shows "outcome env (bodies_ok (co_state c)) c (fence_critic env critic reason c)"
  using fence_workers_ok [OF assms]
  by (cases "fence_workers (co_state c) reason (workers_of_critic (co_state c) critic)")
     (simp_all add: fence_critic_def outcome_error outcome_publish)

lemma next_review_id_quiet:
  assumes "review_space_left c"
  shows "quiet c (snd (next_review_id c))"
    and "fst (next_review_id c) < ct_review_id (co_next (snd (next_review_id c)))"
  using assms
  by (auto simp: quiet_def next_review_id_def bump_def review_space_left_def word_le_nat_alt
      word_less_nat_alt unat_succ_u64)

lemma next_order_review_id: "ct_review_id (co_next (snd (next_order c))) = ct_review_id (co_next c)"
  by (simp add: next_order_def bump_def)

lemma declare_review_outcome:
  assumes wf: "coordinator_wf c" and room: "review_space_left c"
  shows "outcome env (bodies_ok (co_state c)) c (respond (declare_review env q c))"
proof -
  have fresh: "find_slot (co_state c) (fst (next_review_id c)) = None"
    using wf unfolding coordinator_wf_def review_ids_fresh_def next_review_id_def
    by (metis fst_conv not_None_eq order_less_irrefl)
  show ?thesis
    unfolding declare_review_def Let_def
    by (intro outcome_rules next_review_id_quiet(1) [OF room])
       (simp add: declared_record_def fresh next_order_review_id next_review_id_quiet(2) [OF room])
qed

lemma create_assignments_quiet:
  "create_assignments sl t ras c = (c1, r) \<Longrightarrow> quiet c c1"
proof (induction sl t ras c arbitrary: c1 r rule: create_assignments.induct)
  case (2 sl t ra ras c)
  show ?case
  proof (cases "result_bind (assign_critic_guard (co_state c) sl t ra) (\<lambda>_. assign_worker_guard (co_state c) ra)")
    case (Inr u)
    let ?c2 = "snd (next_order (snd (next_assignment_id c)))"
    obtain c3 r3 where rest: "create_assignments sl t ras ?c2 = (c3, r3)"
      by fastforce
    have "c1 = c3"
      using 2(2) Inr rest by (auto simp: Let_def split: sum.splits)
    moreover have "quiet ?c2 c3"
      using 2(1) [OF Inr refl refl _ rest] by simp
    moreover have "quiet c ?c2"
      by (auto intro!: quiet_counters)
    ultimately show ?thesis
      by (auto simp: quiet_def)
  qed (use 2(2) in auto)
qed simp

lemma state_change_ok:
  assumes "slots_keyed st" and "find_slot st i = Some sl" and "\<not> is_terminal_review_state (r_state (sl_record sl))"
  shows "body_ok st n (JR_ReviewStateChanged ((state_change (sl_record sl) next disposition detail)
    \<lparr> rv_rounds_used := rounds \<rparr>))"
    and "body_ok st n (JR_ReviewStateChanged (state_change (sl_record sl) next disposition detail))"
  using assms by (auto simp: state_change_def slots_keyed_def)

lemma assign_guard_slot:
  "assign_guard st l q = Inr (sl, t) \<Longrightarrow>
     find_slot st (ac_review q) = Some sl \<and> \<not> is_terminal_review_state (r_state (sl_record sl))"
  by (cases "r_state (sl_record sl)")
     (auto simp: assign_guard_def result_bind_Inr_iff assign_state_guard_def is_terminal_review_state_def
       split: option.splits if_splits)

lemma assign_entries_ok:
  assumes "slots_keyed st" and "find_slot st i = Some sl" and "\<not> is_terminal_review_state (r_state (sl_record sl))"
  shows "bodies_ok st (assign_entries (sl_record sl) created) n"
  using state_change_ok(2) [OF assms] by (simp add: assign_entries_def Let_def)

lemma assign_guard_entries_ok:
  assumes "slots_keyed st" and "assign_guard st l q = Inr (sl, t)"
  shows "bodies_ok st (assign_entries (sl_record sl) created) n"
  using assign_guard_slot [OF assms(2)] assign_entries_ok [OF assms(1)] by blast

lemma assign_critics_outcome:
  assumes "slots_keyed (co_state c)"
  shows "outcome env (bodies_ok (co_state c)) c (respond (assign_critics env q c))"
  unfolding assign_critics_def
  by (intro outcome_rules)
     (auto dest: create_assignments_quiet intro: assign_guard_entries_ok [OF assms])

lemma submit_evidence_outcome:
  "outcome env (bodies_ok (co_state c)) c (respond (submit_evidence env q c))"
  unfolding submit_evidence_def Let_def by (intro outcome_rules) simp

lemma findings_received_ok:
  assumes "slots_keyed st" and "find_slot st i = Some sl" and "\<not> is_terminal_review_state (r_state (sl_record sl))"
  shows "bodies_ok st (findings_received_entry (sl_record sl)) n"
  using state_change_ok(2) [OF assms] by (simp add: findings_received_entry_def)

lemma supersede_finding_ok: "supersede_finding sl q = Inr (g, bs) \<Longrightarrow> bodies_ok st bs n"
  by (auto simp: supersede_finding_def result_bind_Inr_iff split: option.splits if_splits)

lemma finding_guards_slot:
  "finding_guards st l q = Inr (sl, a) \<Longrightarrow> check_authority st (authority_of_finding q) = Inr (sl, a)"
  by (auto simp: finding_guards_def result_bind_Inr_iff)

lemma finding_entries_ok:
  assumes "slots_keyed st" and "finding_guards st l q = Inr (sl, a)" and "supersede_finding sl q = Inr (g, bs)"
  shows "bodies_ok st (bs @ [JR_FindingRecorded f] @ findings_received_entry (sl_record sl)) n"
proof -
  have "find_slot st (au_review (authority_of_finding q)) = Some sl"
    "\<not> is_terminal_review_state (r_state (sl_record sl))"
    using check_authority_slot [OF finding_guards_slot [OF assms(2)]] by blast+
  then show ?thesis
    using supersede_finding_ok [OF assms(3)] findings_received_ok [OF assms(1)] by simp
qed

lemma submit_finding_outcome:
  assumes "slots_keyed (co_state c)"
  shows "outcome env (bodies_ok (co_state c)) c (respond (submit_finding env q c))"
  unfolding submit_finding_def record_finding_def Let_def prod.case
  by (intro outcome_rules; hypsubst; erule (1) finding_entries_ok [OF assms])

lemma challenge_guards_slot:
  "challenge_guards st l q = Inr (sl, f) \<Longrightarrow>
     \<exists>a. check_authority st (authority_of_challenge q) = Inr (sl, a)"
  by (auto simp: challenge_guards_def result_bind_Inr_iff)

lemma challenge_entries_ok:
  assumes "slots_keyed st" and "challenge_guards st l q = Inr (sl, f)"
  shows "bodies_ok st (challenge_entries (sl_record sl) ch) n"
proof -
  have "find_slot st (au_review (authority_of_challenge q)) = Some sl"
    "\<not> is_terminal_review_state (r_state (sl_record sl))"
    using challenge_guards_slot [OF assms(2)] check_authority_slot by blast+
  from state_change_ok(2) [OF assms(1) this] show ?thesis
    by (simp add: challenge_entries_def)
qed

lemma submit_challenge_outcome:
  assumes "slots_keyed (co_state c)"
  shows "outcome env (bodies_ok (co_state c)) c (respond (submit_challenge env q c))"
  unfolding submit_challenge_def Let_def
  by (intro outcome_rules; hypsubst; erule challenge_entries_ok [OF assms])

lemma rebuttal_guards_slot:
  "rebuttal_guards st l q = Inr (sl, ch) \<Longrightarrow>
     \<exists>a. check_authority st (authority_of_rebuttal q) = Inr (sl, a)"
  by (auto simp: rebuttal_guards_def result_bind_Inr_iff)

lemma rebuttal_entries_ok:
  assumes "slots_keyed st" and "rebuttal_guards st l q = Inr (sl, ch)"
  shows "bodies_ok st (rebuttal_entries (sl_record sl) ch rb oc) n"
proof -
  have "find_slot st (au_review (authority_of_rebuttal q)) = Some sl"
    "\<not> is_terminal_review_state (r_state (sl_record sl))"
    using rebuttal_guards_slot [OF assms(2)] check_authority_slot by blast+
  from state_change_ok(1) [OF assms(1) this] show ?thesis
    by (simp add: rebuttal_entries_def Let_def)
qed

lemma submit_rebuttal_outcome:
  assumes "slots_keyed (co_state c)"
  shows "outcome env (bodies_ok (co_state c)) c (respond (submit_rebuttal env q c))"
  unfolding submit_rebuttal_def Let_def
  by (intro outcome_rules; hypsubst; erule rebuttal_entries_ok [OF assms])

lemma commit_guard_slot:
  "commit_guard st q = Inr sl \<Longrightarrow> find_slot st (cm_review q) = Some sl
     \<and> r_state (sl_record sl) \<notin> {RS_Cancelled, RS_Superseded, RS_Failed, RS_Retired, RS_RevalidationRequired}"
  by (cases "r_state (sl_record sl)")
     (auto simp: commit_guard_def Let_def result_bind_Inr_iff commit_state_guard_def
       split: option.splits if_splits)

lemma commit_entries_ok:
  assumes keyed: "slots_keyed st" and slot: "find_slot st i = Some sl"
    and live: "\<not> is_terminal_review_state (r_state (sl_record sl))" and "sl_decision sl = None"
    and "d_review d = r_id (sl_record sl)"
  shows "bodies_ok st (commit_entries ev (sl_record sl) d) n"
proof -
  have "find_slot st (r_id (sl_record sl)) = Some sl"
    using keyed slot by (metis slots_keyed_def)
  with assms(4,5) live have "body_ok st n (JR_DecisionCommitted d)"
    by simp
  with state_change_ok(2) [OF keyed slot live] show ?thesis
    unfolding commit_entries_def by (auto simp: bodies_ok_def simp del: body_ok.simps)
qed

lemma commit_guard_entries_ok:
  assumes "slots_keyed st" and "commit_guard st q = Inr sl" and "sl_decision sl = None"
    and "r_state (sl_record sl) \<noteq> RS_Committed"
  shows "bodies_ok st (commit_entries ev (sl_record sl) (new_decision H st2 ev sl j order)) n"
  using commit_guard_slot [OF assms(2)] assms(3,4)
  by (intro commit_entries_ok [OF assms(1)])
     (auto simp: new_decision_def Let_def is_terminal_review_state_def)

lemma commit_review_outcome:
  assumes "slots_keyed (co_state c)"
  shows "outcome env (bodies_ok (co_state c)) c (respond (commit_review env q c))"
  unfolding commit_review_def Let_def
  by (intro outcome_rules; rule commit_guard_entries_ok [OF assms]; assumption)

lemma cancel_guard_slot: "cancel_guard st l q = Inr sl \<Longrightarrow> find_slot st (cn_review q) = Some sl"
  by (auto simp: cancel_guard_def split: option.splits if_splits)

lemma cancel_change_ok:
  assumes "slots_keyed st" and "find_slot st i = Some sl" and "\<not> is_terminal_review_state (r_state (sl_record sl))"
  shows "body_ok st n (cancel_change (sl_record sl) reason)"
  using assms by (auto simp: cancel_change_def slots_keyed_def is_terminal_review_state_def)

lemma cancel_review_outcome:
  assumes "slots_keyed (co_state c)"
  shows "outcome env (bodies_ok (co_state c)) c (respond (cancel_review env q c))"
proof (cases "mutation_guard c")
  case (Inr u)
  show ?thesis
  proof (cases "cancel_guard (co_state c) (co_limits c) q")
    case guard: (Inr sl)
    note ok = cancel_change_ok [OF assms cancel_guard_slot [OF guard]]
    show ?thesis
      unfolding cancel_review_def Let_def Inr guard sum.case
      by (cases "r_state (sl_record sl)")
         (auto simp: is_terminal_review_state_def intro!: outcome_fail outcome_return outcome_finish ok)
  qed (simp add: cancel_review_def Inr outcome_fail)
qed (simp add: cancel_review_def outcome_fail)

text \<open>Starting replaces the state; every other command has the shape.\<close>

lemma exec_outcome:
  assumes wf: "coordinator_wf c" and room: "review_space_left c" and cmd: "keeps_running cmd"
  shows "outcome env (bodies_ok (co_state c)) c (exec env cmd c)"
proof -
  have keyed: "slots_keyed (co_state c)"
    using wf by (simp add: coordinator_wf_def)
  show ?thesis
    using cmd
    by (cases cmd)
       (simp_all add: register_target_outcome [OF keyed] supersede_target_outcome [OF keyed]
         register_critic_outcome [OF keyed] register_worker_outcome [OF keyed] declare_readiness_outcome
         fence_critic_outcome [OF keyed] fence_worker_outcome [OF keyed]
         declare_review_outcome [OF wf room] assign_critics_outcome [OF keyed] submit_evidence_outcome
         submit_finding_outcome [OF keyed] submit_challenge_outcome [OF keyed]
         submit_rebuttal_outcome [OF keyed] commit_review_outcome [OF keyed] cancel_review_outcome [OF keyed]
         outcome_quiet quiet_counters)
qed

end
