(* ===== verification/CF_Invariants.thy ===== *)
theory CF_Invariants
  imports CF_System
begin

text \<open>
  Invariants of the coordinator: what one journal entry may do to a review slot, what a whole batch
  may do when its entries are admissible, the well-formedness invariant and the reachable
  coordinators.
\<close>

section \<open>One entry and one slot\<close>

lemma find_slot_put [simp]: "find_slot (put_slot i sl st) j = (if j = i then Some sl else find_slot st j)"
  by (simp add: find_slot_def put_slot_def)

lemma find_slot_on_slot [simp]:
  "find_slot (on_slot i g st) j = (if j = i then map_option g (find_slot st i) else find_slot st j)"
  by (cases "find_slot st i") (simp_all add: on_slot_def)

text \<open>The record and the decision of a slot after an entry.\<close>

fun record_after_body :: "u64 \<Rightarrow> journal_body \<Rightarrow> review_slot \<Rightarrow> review_record" where
  "record_after_body n (JR_ReviewStateChanged rv) sl = sl_record (apply_review_state_changed n rv sl)"
| "record_after_body n (JR_ReviewDeclared r) sl = r"
| "record_after_body n _ sl = sl_record sl"

fun decision_after_body :: "journal_body \<Rightarrow> review_slot \<Rightarrow> decision option" where
  "decision_after_body (JR_DecisionCommitted d) sl = sl_decision (apply_decision_committed d sl)"
| "decision_after_body _ sl = sl_decision sl"

text \<open>The review an entry may write the record or the decision of.\<close>

fun body_review :: "journal_body \<Rightarrow> review_id option" where
  "body_review (JR_ReviewDeclared r) = Some (r_id r)"
| "body_review (JR_ReviewStateChanged rv) = Some (rv_review rv)"
| "body_review (JR_DecisionCommitted d) = Some (d_review d)"
| "body_review _ = None"

lemma find_slot_target_superseded [simp]:
  "find_slot (apply_target_superseded p t st) i = find_slot st i"
  by (simp add: apply_target_superseded_def Let_def find_slot_def)

lemma find_slot_worker_registered [simp]:
  "find_slot (apply_worker_registered w st) i = find_slot st i"
  by (simp add: apply_worker_registered_def Let_def find_slot_def split: option.splits)

lemma find_slot_fields [simp]:
  "find_slot (st\<lparr> du_epoch := ep \<rparr>) i = find_slot st i"
  "find_slot (st\<lparr> du_targets := ts \<rparr>) i = find_slot st i"
  "find_slot (st\<lparr> du_critics := cs \<rparr>) i = find_slot st i"
  "find_slot (st\<lparr> du_workers := ws \<rparr>) i = find_slot st i"
  "find_slot (st\<lparr> du_review_requests := rs \<rparr>) i = find_slot st i"
  by (simp_all add: find_slot_def)

lemma find_slot_declared:
  "find_slot (apply_review_declared H r st) i =
     (if i = r_id r then Some (case find_slot st i of
          None \<Rightarrow> empty_slot r (compute_policy_digest H (r_spec r))
        | Some sl \<Rightarrow> sl\<lparr> sl_record := r, sl_policy_digest := compute_policy_digest H (r_spec r) \<rparr>)
      else find_slot st i)"
  by (simp add: apply_review_declared_def Let_def)

lemma finding_change_slot:
  assumes "om_wf (du_reviews st)" and "find_slot st i = Some sl"
  shows "\<exists>fs. find_slot (apply_finding_state_changed fc st) i = Some (sl\<lparr> sl_findings := fs \<rparr>)"
proof (cases "find (\<lambda>(i, sl). om_get (sl_findings sl) (fc_finding fc) \<noteq> None) (du_reviews st)")
  case None
  with assms(2) show ?thesis
    by (intro exI [of _ "sl_findings sl"]) (simp add: apply_finding_state_changed_def)
next
  case (Some p)
  obtain j slj where p: "p = (j, slj)" by fastforce
  with Some obtain f where f: "om_get (sl_findings slj) (fc_finding fc) = Some f"
    and mem: "(j, slj) \<in> set (du_reviews st)"
    by (auto dest!: find_SomeD)
  have "find_slot st j = Some slj"
    using om.entries_get [OF assms(1)] mem by (simp add: find_slot_def)
  with assms(2) Some p f show ?thesis
    by (cases "j = i")
       (auto simp: apply_finding_state_changed_def intro: exI [of _ "sl_findings sl"])
qed

lemma slot_fields [simp]:
  "sl_record (apply_assignments_added as sl) = sl_record sl"
  "sl_decision (apply_assignments_added as sl) = sl_decision sl"
  "sl_record (apply_assignment_updated a sl) = sl_record sl"
  "sl_decision (apply_assignment_updated a sl) = sl_decision sl"
  "sl_record (apply_finding_recorded f sl) = sl_record sl"
  "sl_decision (apply_finding_recorded f sl) = sl_decision sl"
  "sl_record (apply_evidence_recorded e sl) = sl_record sl"
  "sl_decision (apply_evidence_recorded e sl) = sl_decision sl"
  "sl_record (apply_decision_committed d sl) = sl_record sl"
  "sl_decision (apply_review_state_changed n rv sl) = sl_decision sl"
  by (auto simp: apply_assignments_added_def apply_assignment_updated_def apply_finding_recorded_def
      apply_evidence_recorded_def apply_decision_committed_def apply_review_state_changed_def Let_def
      split: option.splits)

lemma slot_after_body:
  assumes "om_wf (du_reviews st)" and "find_slot st i = Some sl"
  shows "\<exists>sl1. find_slot (apply_body H n b st) i = Some sl1
    \<and> sl_record sl1 = (if body_review b = Some i then record_after_body n b sl else sl_record sl)
    \<and> sl_decision sl1 = (if body_review b = Some i then decision_after_body b sl else sl_decision sl)"
proof (cases b)
  case (JR_FindingStateChanged fc)
  then show ?thesis
    using finding_change_slot [OF assms, of fc] by auto
qed (use assms(2) in \<open>auto simp: find_slot_declared\<close>)

lemma finding_change_none:
  assumes "om_wf (du_reviews st)" and "find_slot st i = None"
  shows "find_slot (apply_finding_state_changed fc st) i = None"
proof (cases "find (\<lambda>(i, sl). om_get (sl_findings sl) (fc_finding fc) \<noteq> None) (du_reviews st)")
  case (Some p)
  obtain j slj where p: "p = (j, slj)" by fastforce
  with Some have "(j, slj) \<in> set (du_reviews st)"
    by (auto dest!: find_SomeD)
  then have "find_slot st j = Some slj"
    using om.entries_get [OF assms(1)] by (simp add: find_slot_def)
  with assms(2) Some p show ?thesis
    by (auto simp: apply_finding_state_changed_def split: option.splits)
qed (use assms(2) in \<open>simp add: apply_finding_state_changed_def\<close>)

lemma no_slot_after_body:
  assumes "om_wf (du_reviews st)" and "find_slot st i = None"
    and "\<And>r. b = JR_ReviewDeclared r \<Longrightarrow> r_id r \<noteq> i"
  shows "find_slot (apply_body H n b st) i = None"
proof (cases b)
  case (JR_FindingStateChanged fc)
  then show ?thesis
    using finding_change_none [OF assms(1,2)] by simp
qed (use assms(2,3) in \<open>auto simp: find_slot_declared\<close>)

lemma new_slot_declared:
  assumes "om_wf (du_reviews st)" and "find_slot st i = None"
    and "find_slot (apply_body H n b st) i = Some sl"
  obtains r where "b = JR_ReviewDeclared r" and "r_id r = i"
  using no_slot_after_body [OF assms(1,2)] assms(3) by (metis option.distinct(1))

section \<open>Keyed slots\<close>

lemma reviews_wf_after_body:
  "om_wf (du_reviews st) \<Longrightarrow> om_wf (du_reviews (apply_body H n b st))"
  by (cases b) (auto simp: apply_target_superseded_def apply_worker_registered_def
      apply_review_declared_def on_slot_def put_slot_def apply_finding_state_changed_def Let_def
      split: option.splits)

lemma record_id_after_body:
  "body_review b = Some (r_id (sl_record sl)) \<Longrightarrow> r_id (record_after_body n b sl) = r_id (sl_record sl)"
  by (cases b) (simp_all add: apply_review_state_changed_def Let_def)

lemma slots_keyed_after_body:
  assumes "slots_keyed st"
  shows "slots_keyed (apply_body H n b st)"
proof -
  have wf: "om_wf (du_reviews st)" and key: "\<And>i sl. find_slot st i = Some sl \<Longrightarrow> r_id (sl_record sl) = i"
    using assms by (auto simp: slots_keyed_def)
  have "r_id (sl_record sl1) = i" if found: "find_slot (apply_body H n b st) i = Some sl1" for i sl1
  proof (cases "find_slot st i")
    case None
    with wf found obtain r where "b = JR_ReviewDeclared r" "r_id r = i"
      by (metis new_slot_declared)
    with found None show ?thesis
      by (auto simp: find_slot_declared empty_slot_def)
  next
    case (Some sl)
    then show ?thesis
      using slot_after_body [OF wf Some, of H n b] found key [OF Some] record_id_after_body [of b sl n]
      by auto
  qed
  with reviews_wf_after_body [OF wf] show ?thesis
    by (simp add: slots_keyed_def)
qed

section \<open>Batches\<close>

lemma apply_entries_simps [simp]:
  "apply_entries H [] st = st"
  "apply_entries H (e # es) st = apply_entries H es (apply_body H (je_sequence e) (je_body e) st)"
  "apply_entries H (es @ fs) st = apply_entries H fs (apply_entries H es st)"
  by (simp_all add: apply_entries_def apply_entry_def)

lemma apply_entries_invariant:
  assumes "Q st" and "\<And>e st. e \<in> set es \<Longrightarrow> Q st \<Longrightarrow> Q (apply_body H (je_sequence e) (je_body e) st)"
  shows "Q (apply_entries H es st)"
  using assms
proof (induction es arbitrary: st)
  case (Cons e es)
  then have "Q (apply_body H (je_sequence e) (je_body e) st)"
    by simp
  from Cons.IH [OF this] Cons.prems(2) show ?case
    by (simp del: apply_body.simps)
qed simp

lemma assign_sequences_bodies: "e \<in> set (assign_sequences bs n) \<Longrightarrow> je_body e \<in> set bs"
  by (induction bs n rule: assign_sequences.induct) auto

lemma apply_batch_invariant:
  assumes "Q st" and "\<And>b n st. b \<in> set bs \<Longrightarrow> Q st \<Longrightarrow> Q (apply_body H n b st)"
  shows "Q (apply_entries H (assign_sequences bs n) st)"
  using assms by (metis apply_entries_invariant assign_sequences_bodies)

lemma slots_keyed_after_entries: "slots_keyed st \<Longrightarrow> slots_keyed (apply_entries H es st)"
  by (rule apply_entries_invariant) (auto simp: slots_keyed_after_body)

lemma slots_keyed_empty: "slots_keyed empty_state"
  by (simp add: slots_keyed_def empty_state_def find_slot_def)

text \<open>A decision once held survives every admissible batch.\<close>

definition holds_decision :: "review_id \<Rightarrow> decision \<Rightarrow> durable_state \<Rightarrow> bool" where
  "holds_decision i d st \<longleftrightarrow> (\<exists>sl. find_slot st i = Some sl \<and> sl_decision sl = Some d)"

lemma decision_after_batch:
  assumes keyed: "slots_keyed st" and held: "holds_decision i d st" and ok: "bodies_ok st bs m"
  shows "holds_decision i d (apply_entries H (assign_sequences bs n) st)"
proof -
  have "slots_keyed st2 \<and> holds_decision i d st2"
    if "st2 = apply_entries H (assign_sequences bs n) st" for st2
    unfolding that
  proof (rule apply_batch_invariant [where Q = "\<lambda>s. slots_keyed s \<and> holds_decision i d s"])
    fix b k s
    assume b: "b \<in> set bs" and s: "slots_keyed s \<and> holds_decision i d s"
    from b ok have "body_ok st m b"
      by (simp add: bodies_ok_def)
    with held have stable: "decision_after_body b sl = sl_decision sl" if "body_review b = Some i" for sl
      using that by (cases b) (auto simp: holds_decision_def)
    from s obtain sl where sl: "find_slot s i = Some sl" "sl_decision sl = Some d"
      and wf: "om_wf (du_reviews s)"
      by (auto simp: holds_decision_def slots_keyed_def)
    obtain sl1 where "find_slot (apply_body H k b s) i = Some sl1"
      "sl_decision sl1 = (if body_review b = Some i then decision_after_body b sl else sl_decision sl)"
      using slot_after_body [OF wf sl(1)] by blast
    with stable sl(2) s show "slots_keyed (apply_body H k b s) \<and> holds_decision i d (apply_body H k b s)"
      by (auto simp: holds_decision_def slots_keyed_after_body)
  qed (use keyed held in simp)
  then show ?thesis by simp
qed

text \<open>A terminal review keeps its state, and authority it lost stays lost.\<close>

definition closed_as :: "review_id \<Rightarrow> review_state \<Rightarrow> durable_state \<Rightarrow> bool" where
  "closed_as i s st \<longleftrightarrow> is_terminal_review_state s
     \<and> (\<exists>sl. find_slot st i = Some sl \<and> r_state (sl_record sl) = s)"

definition not_authoritative :: "review_id \<Rightarrow> durable_state \<Rightarrow> bool" where
  "not_authoritative i st \<longleftrightarrow>
     (\<exists>sl. find_slot st i = Some sl \<and> \<not> r_authority_current (sl_record sl))"

lemma closed_after_batch:
  assumes keyed: "slots_keyed st" and closed: "closed_as i s st" and ok: "bodies_ok st bs m"
  shows "closed_as i s (apply_entries H (assign_sequences bs n) st)
    \<and> (not_authoritative i st \<longrightarrow> not_authoritative i (apply_entries H (assign_sequences bs n) st))"
proof -
  let ?Q = "\<lambda>x. slots_keyed x \<and> closed_as i s x \<and> (not_authoritative i st \<longrightarrow> not_authoritative i x)"
  have "?Q (apply_entries H (assign_sequences bs n) st)"
  proof (rule apply_batch_invariant [where Q = ?Q])
    fix b k x
    assume b: "b \<in> set bs" and x: "?Q x"
    from b ok have ok1: "body_ok st m b"
      by (simp add: bodies_ok_def)
    from x obtain sl where sl: "find_slot x i = Some sl" "r_state (sl_record sl) = s"
      and wf: "om_wf (du_reviews x)"
      by (auto simp: closed_as_def slots_keyed_def)
    have step: "r_state (record_after_body k b sl) = s
        \<and> (\<not> r_authority_current (sl_record sl) \<longrightarrow> \<not> r_authority_current (record_after_body k b sl))"
      if "body_review b = Some i"
      using that ok1 closed sl(2)
      by (cases b) (auto simp: closed_as_def apply_review_state_changed_def Let_def)
    obtain sl1 where sl1: "find_slot (apply_body H k b x) i = Some sl1"
      "sl_record sl1 = (if body_review b = Some i then record_after_body k b sl else sl_record sl)"
      using slot_after_body [OF wf sl(1)] by blast
    have "not_authoritative i st \<longrightarrow> \<not> r_authority_current (sl_record sl)"
      using x sl(1) by (auto simp: not_authoritative_def)
    with x sl sl1 step show "?Q (apply_body H k b x)"
      by (auto simp: closed_as_def not_authoritative_def slots_keyed_after_body)
  qed (use keyed closed in simp)
  then show ?thesis by simp
qed

text \<open>The identities of reviews stay below the counter.\<close>

lemma ids_fresh_after_batch:
  assumes keyed: "slots_keyed st" and fresh: "review_ids_fresh st m" and ok: "bodies_ok st bs m"
  shows "review_ids_fresh (apply_entries H (assign_sequences bs n) st) m"
proof -
  have "slots_keyed (apply_entries H (assign_sequences bs n) st)
      \<and> review_ids_fresh (apply_entries H (assign_sequences bs n) st) m"
  proof (rule apply_batch_invariant [where Q = "\<lambda>x. slots_keyed x \<and> review_ids_fresh x m"])
    fix b k x
    assume b: "b \<in> set bs" and x: "slots_keyed x \<and> review_ids_fresh x m"
    then have wf: "om_wf (du_reviews x)"
      by (simp add: slots_keyed_def)
    from b ok have ok1: "body_ok st m b"
      by (simp add: bodies_ok_def)
    have "i < ct_review_id m" if found: "find_slot (apply_body H k b x) i = Some sl1" for i sl1
    proof (cases "find_slot x i")
      case None
      with wf found obtain r where "b = JR_ReviewDeclared r" "r_id r = i"
        by (metis new_slot_declared)
      with ok1 show ?thesis by simp
    qed (use x in \<open>auto simp: review_ids_fresh_def\<close>)
    with x show "slots_keyed (apply_body H k b x) \<and> review_ids_fresh (apply_body H k b x) m"
      by (auto simp: review_ids_fresh_def slots_keyed_after_body)
  qed (use keyed fresh in simp)
  then show ?thesis by simp
qed

section \<open>Publishing\<close>

lemma publish_effect:
  assumes "publish env bs c = (c1, r)"
  shows "co_state c1 = apply_entries (env_hash env) (assign_sequences bs (jn_next_sequence (co_journal c))) (co_state c)
    \<and> co_next c1 = co_next c \<and> co_limits c1 = co_limits c \<and> co_started c1 = co_started c
    \<and> co_persistence_failed c1 = (co_persistence_failed c \<or> \<not> is_ok r)"
  using assms
  by (auto simp: publish_def append_entries_def Let_def split: prod.splits sum.splits)

lemma publish_state:
  "co_state (fst (publish env bs c)) =
     apply_entries (env_hash env) (assign_sequences bs (jn_next_sequence (co_journal c))) (co_state c)"
  "co_next (fst (publish env bs c)) = co_next c"
  using publish_effect [of env bs c] by (metis prod.collapse)+

text \<open>
  What every admissible batch keeps, every command that keeps the coordinator running keeps.
\<close>

lemma outcome_invariant:
  assumes "outcome env (bodies_ok (co_state c)) c cs" and "Q (co_state c)"
    and "\<And>bs m n. bodies_ok (co_state c) bs m \<Longrightarrow>
      Q (apply_entries (env_hash env) (assign_sequences bs n) (co_state c))"
  shows "Q (co_state (fst cs))"
  using assms(1) unfolding outcome_def
proof (elim disjE exE conjE)
  assume "quiet c (fst cs)"
  with assms(2) show ?thesis
    by (simp add: quiet_state)
next
  fix c1 bs s
  assume "quiet c c1" and "bodies_ok (co_state c) bs (co_next c1)" and "publish env bs c1 = (fst cs, s)"
  with assms(3) show ?thesis
    using publish_effect by (simp add: quiet_state)
qed

lemma fresh_mono:
  "review_ids_fresh st n \<Longrightarrow> ct_review_id n \<le> ct_review_id m \<Longrightarrow> review_ids_fresh st m"
  by (meson order_less_le_trans review_ids_fresh_def)

lemma outcome_wf:
  assumes wf: "coordinator_wf c" and shape: "outcome env (bodies_ok (co_state c)) c cs"
  shows "coordinator_wf (fst cs)"
  using shape unfolding outcome_def
proof (elim disjE exE conjE)
  assume "quiet c (fst cs)"
  with wf show ?thesis
    using quiet_state quiet_review_ids fresh_mono unfolding coordinator_wf_def by metis
next
  fix c1 bs s
  assume q: "quiet c c1" and ok: "bodies_ok (co_state c) bs (co_next c1)"
    and pub: "publish env bs c1 = (fst cs, s)"
  have "review_ids_fresh (co_state c) (co_next c1)"
    using wf quiet_review_ids [OF q] fresh_mono by (auto simp: coordinator_wf_def)
  with wf ok show ?thesis
    using publish_effect [OF pub] q
    by (simp add: coordinator_wf_def quiet_state ids_fresh_after_batch slots_keyed_after_entries)
qed

end
