(* ===== verification/CF_Reachable.thy ===== *)
theory CF_Reachable
  imports CF_Invariants
begin

text \<open>
  The reachable coordinators: a new coordinator and what any sequence of commands makes of it, with
  any behaviour of the file system. Two invariants hold throughout: the coordinator is well-formed,
  and as long as no append has failed its state is what the journal says, up to the liveness of
  workers, which is deliberately forgotten by a restart.
\<close>

section \<open>Ranges\<close>

definition declares_in_range :: "journal_entry \<Rightarrow> bool" where
  "declares_in_range e \<longleftrightarrow> (case je_body e of JR_ReviewDeclared r \<Rightarrow> r_id r \<noteq> - 1 | _ \<Rightarrow> True)"

fun in_range :: "command \<Rightarrow> coordinator \<Rightarrow> bool" where
  "in_range (Cmd_Start (Inr j)) c \<longleftrightarrow> (\<forall>e \<in> set (jn_entries j). declares_in_range e)"
| "in_range _ c \<longleftrightarrow> review_space_left c"

definition world :: "hash_fun \<Rightarrow> (u64 \<Rightarrow> append_io) \<Rightarrow> env" where
  "world H io = \<lparr> env_hash = H, env_io = io \<rparr>"

inductive reachable :: "hash_fun \<Rightarrow> coordinator \<Rightarrow> bool" for H where
  created: "reachable H (new_coordinator config)"
| step: "reachable H c \<Longrightarrow> in_range cmd c \<Longrightarrow> reachable H (fst (exec (world H io) cmd c))"

section \<open>Recovery keeps the coordinator well-formed\<close>

lemma foldl_max_base: "m \<le> foldl max m xs" for m :: u64
proof (induction xs arbitrary: m)
  case (Cons x xs)
  show ?case
    using Cons.IH [of "max m x"] by simp
qed simp

lemma max_of_upper: "x \<in> set xs \<Longrightarrow> x \<le> foldl max m xs" for m :: u64
proof (induction xs arbitrary: m)
  case (Cons y ys)
  then show ?case
    using foldl_max_base [of "max m y" ys] by auto
qed simp

lemma max_of_mem: "max_of xs = 0 \<or> max_of xs \<in> set xs"
proof -
  have "foldl max m xs = m \<or> foldl max m xs \<in> set xs" for m :: u64
    by (induction xs arbitrary: m) (auto simp: max_def)
  then show ?thesis
    by (auto simp: max_of_def)
qed

lemma below_max_of:
  assumes "x \<in> set xs" and "- 1 \<notin> set xs"
  shows "x < max_of xs + 1"
proof -
  have "max_of xs \<noteq> - 1"
    using max_of_mem [of xs] assms(2) by fastforce
  moreover have "x \<le> max_of xs"
    using max_of_upper [OF assms(1)] by (simp add: max_of_def)
  ultimately show ?thesis
    by (simp add: word_le_nat_alt word_less_nat_alt unat_succ_u64)
qed

lemma replay_ids:
  assumes "\<forall>e \<in> set es. declares_in_range e"
  shows "slots_keyed (replay H es) \<and> (\<forall>i sl. find_slot (replay H es) i = Some sl \<longrightarrow> i \<noteq> - 1)"
  unfolding replay_def
proof (rule apply_entries_invariant
    [where Q = "\<lambda>st. slots_keyed st \<and> (\<forall>i sl. find_slot st i = Some sl \<longrightarrow> i \<noteq> - 1)"])
  show "slots_keyed empty_state \<and> (\<forall>i sl. find_slot empty_state i = Some sl \<longrightarrow> i \<noteq> - 1)"
    using slots_keyed_empty by (simp add: find_slot_def empty_state_def)
  fix e st
  assume e: "e \<in> set es" and st: "slots_keyed st \<and> (\<forall>i sl. find_slot st i = Some sl \<longrightarrow> i \<noteq> - 1)"
  then have wf: "om_wf (du_reviews st)"
    by (simp add: slots_keyed_def)
  have "i \<noteq> - 1" if found: "find_slot (apply_body H (je_sequence e) (je_body e) st) i = Some sl" for i sl
  proof (cases "find_slot st i")
    case None
    with wf found obtain r where "je_body e = JR_ReviewDeclared r" "r_id r = i"
      by (metis new_slot_declared)
    with assms e show ?thesis
      by (auto simp: declares_in_range_def)
  qed (use st in auto)
  with st show "slots_keyed (apply_body H (je_sequence e) (je_body e) st)
      \<and> (\<forall>i sl. find_slot (apply_body H (je_sequence e) (je_body e) st) i = Some sl \<longrightarrow> i \<noteq> - 1)"
    by (auto simp: slots_keyed_after_body)
qed

lemma rebuilt_ids_fresh:
  assumes "slots_keyed st" and "\<forall>i sl. find_slot st i = Some sl \<longrightarrow> i \<noteq> - 1"
  shows "review_ids_fresh st (rebuild_derived st n)"
proof -
  have keys: "i \<in> set (om_keys (du_reviews st)) \<longleftrightarrow> find_slot st i \<noteq> None" for i
    using assms(1) by (simp add: slots_keyed_def om_keys_mem find_slot_def)
  have "- 1 \<notin> set (om_keys (du_reviews st))"
    using keys assms(2) by auto
  then show ?thesis
    using keys below_max_of by (auto simp: review_ids_fresh_def rebuild_derived_def)
qed

lemma slots_keyed_clear [simp]:
  "slots_keyed (clear_workers st) = slots_keyed st"
  "slots_keyed (st\<lparr> du_epoch := ep \<rparr>) = slots_keyed st"
  by (simp_all add: slots_keyed_def clear_workers_def)

lemma find_slot_clear [simp]: "find_slot (clear_workers st) i = find_slot st i"
  by (simp add: clear_workers_def)

lemma review_ids_fresh_clear [simp]:
  "review_ids_fresh (clear_workers st) n = review_ids_fresh st n"
  "review_ids_fresh (st\<lparr> du_epoch := ep \<rparr>) n = review_ids_fresh st n"
  by (simp_all add: review_ids_fresh_def)

lemma recovery_bodies_ok:
  assumes "slots_keyed st"
  shows "bodies_ok st (recovery_bodies epoch st) n"
  using revalidate_ok [OF slot_of_vals [OF assms]] by (auto simp: recovery_bodies_def)

lemma append_entries_fields:
  "append_entries env es c = (c1, r) \<Longrightarrow> co_state c1 = co_state c \<and> co_next c1 = co_next c
     \<and> co_persistence_failed c1 = (co_persistence_failed c \<or> \<not> is_ok r)"
  by (auto simp: append_entries_def split: prod.splits sum.splits)

lemma recover_wf:
  assumes "\<forall>e \<in> set (jn_entries j). declares_in_range e"
  shows "coordinator_wf (fst (recover env durable j c))"
proof -
  note ids = replay_ids [OF assms, of "env_hash env"]
  then have fresh: "review_ids_fresh (replay (env_hash env) (jn_entries j))
      (rebuild_derived (replay (env_hash env) (jn_entries j)) first_counters)"
    using rebuilt_ids_fresh by blast
  show ?thesis
    using ids fresh
    by (simp add: recover_def Let_def coordinator_wf_def fail_with_def slots_keyed_after_entries
        ids_fresh_after_batch [OF _ _ recovery_bodies_ok])
qed

lemma start_wf:
  assumes "coordinator_wf c" and "\<And>j. opened = Inr j \<Longrightarrow> \<forall>e \<in> set (jn_entries j). declares_in_range e"
  shows "coordinator_wf (fst (start_with env opened c))"
proof (cases "co_started c \<or> \<not> is_ok opened")
  case True
  with assms(1) show ?thesis
    by (auto simp: start_with_def split: sum.splits)
next
  case False
  then obtain j where j: "opened = Inr j" "\<not> co_started c"
    by (auto simp: is_ok_iff)
  note wf = recover_wf [OF assms(2) [OF j(1)], of env "jn_open j" c]
  show ?thesis
    using wf append_entries_fields unfolding start_with_def j sum.case
    by (auto simp: j(2) coordinator_wf_def split: prod.splits sum.splits)
qed

lemma exec_wf:
  assumes "coordinator_wf c" and "in_range cmd c"
  shows "coordinator_wf (fst (exec env cmd c))"
proof (cases "keeps_running cmd")
  case True
  then have "review_space_left c"
    using assms(2) by (cases cmd) auto
  with True show ?thesis
    using outcome_wf exec_outcome assms(1) by blast
next
  case False
  show ?thesis
  proof (cases cmd)
    case (Cmd_Start opened)
    then show ?thesis
      using assms by (cases opened) (auto intro!: start_wf)
  qed (use False assms(1) in \<open>auto simp: stop_def coordinator_wf_def\<close>)
qed

lemma new_coordinator_wf: "coordinator_wf (new_coordinator config)"
  using slots_keyed_empty
  by (simp add: coordinator_wf_def new_coordinator_def review_ids_fresh_def find_slot_def empty_state_def)

lemma reachable_wf: "reachable H c \<Longrightarrow> coordinator_wf c"
  by (induction rule: reachable.induct) (simp_all add: new_coordinator_wf exec_wf)

section \<open>The state is what the journal says\<close>

definition clear_all :: "(worker_id, worker_record) omap \<Rightarrow> (worker_id, worker_record) omap" where
  "clear_all ws = map (\<lambda>(k, w). (k, clear_worker w)) ws"

lemma clear_workers_eq: "clear_workers st = st\<lparr> du_workers := clear_all (du_workers st) \<rparr>"
  by (simp add: clear_workers_def clear_all_def)

lemma clear_worker_simps [simp]:
  "clear_worker (clear_worker w) = clear_worker w"
  "w_boot_order (clear_worker w) = w_boot_order w"
  by (simp_all add: clear_worker_def)

lemma clear_all_simps [simp]:
  "clear_all (clear_all ws) = clear_all ws"
  "om_get (clear_all ws) i = map_option clear_worker (om_get ws i)"
  "clear_all (om_put i w ws) = om_put i (clear_worker w) (clear_all ws)"
  by (simp_all add: clear_all_def om_put_map_values om_get_map_values [where f = "\<lambda>_. clear_worker"])
     (simp add: case_prod_beta)

lemma on_slot_workers: "on_slot i g (st\<lparr> du_workers := ws \<rparr>) = (on_slot i g st)\<lparr> du_workers := ws \<rparr>"
  by (simp add: on_slot_def put_slot_def split: option.splits)

lemma on_slot_du_workers [simp]: "du_workers (on_slot i g st) = du_workers st"
  by (simp add: on_slot_def put_slot_def split: option.splits)

text \<open>Entry application does not look at the liveness of workers.\<close>

lemma apply_worker_registered_clear:
  "clear_workers (apply_worker_registered w (clear_workers st)) = clear_workers (apply_worker_registered w st)"
  by (auto simp: apply_worker_registered_def clear_workers_eq Let_def split: option.splits)

lemma apply_body_clear:
  "clear_workers (apply_body H n b (clear_workers st)) = clear_workers (apply_body H n b st)"
proof (cases b)
  case (JR_WorkerRegistered w)
  then show ?thesis
    by (simp add: apply_worker_registered_clear)
qed (simp_all add: clear_workers_eq on_slot_workers apply_target_superseded_def
    apply_review_declared_def apply_finding_state_changed_def put_slot_def Let_def find_slot_def
    split: option.splits)

definition same_durable :: "durable_state \<Rightarrow> durable_state \<Rightarrow> bool" where
  "same_durable st st2 \<longleftrightarrow> clear_workers st = clear_workers st2"

lemma same_durable_body:
  "same_durable st st2 \<Longrightarrow> same_durable (apply_body H n b st) (apply_body H n b st2)"
  unfolding same_durable_def by (metis apply_body_clear)

lemma same_durable_entries:
  "same_durable st st2 \<Longrightarrow> same_durable (apply_entries H es st) (apply_entries H es st2)"
proof (induction es arbitrary: st st2)
  case (Cons e es)
  show ?case
    using Cons.IH [OF same_durable_body [OF Cons.prems]] by simp
qed simp

lemma set_sequence_same: "set_sequence n \<lparr> je_sequence = m, je_body = b \<rparr> = \<lparr> je_sequence = n, je_body = b \<rparr>"
  by (simp add: set_sequence_def)

lemma stamp_assigned [simp]: "jl.stamp_all n (assign_sequences bs n) = assign_sequences bs n"
  by (induction bs n rule: assign_sequences.induct) (simp_all add: jl.stamp_all.simps set_sequence_same)

definition journal_agrees :: "hash_fun \<Rightarrow> coordinator \<Rightarrow> bool" where
  "journal_agrees H c \<longleftrightarrow>
     (\<not> co_persistence_failed c \<longrightarrow> same_durable (co_state c) (replay H (jn_entries (co_journal c))))"

lemma append_entries_journal:
  assumes "append_entries env (assign_sequences bs (jn_next_sequence (co_journal c))) c = (c1, Inr u)"
  shows "jn_entries (co_journal c1) =
    jn_entries (co_journal c) @ assign_sequences bs (jn_next_sequence (co_journal c))"
  using assms jl.append_all_ok [of env "co_journal c"]
  by (auto simp: append_entries_def split: prod.splits sum.splits)

lemma publish_journal:
  assumes "publish env bs c = (c1, Inr u)"
  shows "jn_entries (co_journal c1) =
    jn_entries (co_journal c) @ assign_sequences bs (jn_next_sequence (co_journal c))"
proof -
  let ?c = "c\<lparr> co_state := apply_entries (env_hash env)
    (assign_sequences bs (jn_next_sequence (co_journal c))) (co_state c) \<rparr>"
  have "append_entries env (assign_sequences bs (jn_next_sequence (co_journal ?c))) ?c = (c1, Inr u)"
    using assms by (simp add: publish_def Let_def)
  from append_entries_journal [OF this] show ?thesis
    by simp
qed

lemma replay_append: "replay H (es @ fs) = apply_entries H fs (replay H es)"
  by (simp add: replay_def)

lemma publish_agrees:
  assumes "journal_agrees (env_hash env) c" and "publish env bs c = (c1, r)"
  shows "journal_agrees (env_hash env) c1"
proof (cases r)
  case (Inl e)
  then show ?thesis
    using publish_effect [OF assms(2)] by (simp add: journal_agrees_def)
next
  case (Inr u)
  show ?thesis
    using assms publish_effect [OF assms(2)] publish_journal [of env bs c c1 u]
    by (auto simp: Inr journal_agrees_def replay_append intro: same_durable_entries)
qed

lemma outcome_agrees:
  assumes "journal_agrees (env_hash env) c" and "outcome env P c cs"
  shows "journal_agrees (env_hash env) (fst cs)"
  using assms(2) unfolding outcome_def
proof (elim disjE exE conjE)
  assume "quiet c (fst cs)"
  with assms(1) show ?thesis
    by (simp add: journal_agrees_def quiet_state)
next
  fix c1 bs s
  assume "quiet c c1" and pub: "publish env bs c1 = (fst cs, s)"
  with assms(1) have "journal_agrees (env_hash env) c1"
    by (simp add: journal_agrees_def quiet_state)
  then show ?thesis
    using publish_agrees pub by blast
qed

lemma recover_agrees:
  assumes "recover env durable j c = (c1, Inr es)" and "append_entries env es c1 = (c2, r)"
  shows "journal_agrees (env_hash env) c2"
proof (cases r)
  case (Inl e)
  then show ?thesis
    using append_entries_fields [OF assms(2)] by (simp add: journal_agrees_def)
next
  case (Inr u)
  define st where "st = replay (env_hash env) (jn_entries j)"
  define epoch where "epoch = fresh_epoch (last_epoch 0 (jn_entries j))"
  define st1 where "st1 = clear_workers (st\<lparr> du_epoch := epoch \<rparr>)"
  have es: "es = assign_sequences (recovery_bodies epoch st1) (jn_next_sequence (co_journal c1))"
    and c1: "co_journal c1 = j" "co_state c1 = apply_entries (env_hash env) es st1"
    using assms(1) by (auto simp: recover_def Let_def fail_with_def st_def epoch_def st1_def split: if_splits)
  have "jn_entries (co_journal c2) = jn_entries j @ es"
    using append_entries_journal [of env _ c1 c2 u] assms(2) es Inr c1(1) by simp
  moreover have "same_durable (apply_entries (env_hash env) es st1) (apply_entries (env_hash env) es st)"
  proof -
    obtain rest where "recovery_bodies epoch st1 = JR_EpochEstablished epoch # rest"
      by (simp add: recovery_bodies_def)
    then obtain n fs where "es = \<lparr> je_sequence = n, je_body = JR_EpochEstablished epoch \<rparr> # fs"
      using es by simp
    moreover have "same_durable (st1\<lparr> du_epoch := epoch \<rparr>) (st\<lparr> du_epoch := epoch \<rparr>)"
      by (simp add: same_durable_def st1_def clear_workers_eq)
    ultimately show ?thesis
      by (simp add: same_durable_entries)
  qed
  ultimately show ?thesis
    using append_entries_fields [OF assms(2)] c1(2)
    by (simp add: journal_agrees_def replay_append st_def)
qed

lemma start_agrees:
  assumes "journal_agrees (env_hash env) c"
  shows "journal_agrees (env_hash env) (fst (start_with env opened c))"
proof (cases "co_started c \<or> \<not> is_ok opened")
  case True
  with assms show ?thesis
    by (auto simp: start_with_def split: sum.splits)
next
  case False
  then obtain j where j: "opened = Inr j" "\<not> co_started c"
    by (auto simp: is_ok_iff)
  obtain c1 r1 where rec: "recover env (jn_open j) j c = (c1, r1)"
    by fastforce
  show ?thesis
  proof (cases r1)
    case (Inl e)
    with rec have "co_state c1 = replay (env_hash env) (jn_entries j)" "co_journal c1 = j"
      by (auto simp: recover_def Let_def fail_with_def split: if_splits)
    with j rec Inl show ?thesis
      by (simp add: start_with_def journal_agrees_def same_durable_def)
  next
    case (Inr es)
    obtain c2 r2 where app: "append_entries env es c1 = (c2, r2)"
      by fastforce
    show ?thesis
      using recover_agrees [OF rec [unfolded Inr] app] j rec Inr app
      by (cases r2) (simp_all add: start_with_def journal_agrees_def)
  qed
qed

lemma exec_agrees:
  assumes "coordinator_wf c" and "in_range cmd c" and "journal_agrees (env_hash env) c"
  shows "journal_agrees (env_hash env) (fst (exec env cmd c))"
proof (cases "keeps_running cmd")
  case True
  then have "review_space_left c"
    using assms(2) by (cases cmd) auto
  with True show ?thesis
    using outcome_agrees exec_outcome assms(1,3) by blast
next
  case False
  then show ?thesis
    using assms(3) start_agrees
    by (cases cmd) (auto simp: stop_def journal_close_def journal_agrees_def)
qed

lemma new_coordinator_agrees: "journal_agrees H (new_coordinator config)"
  by (simp add: journal_agrees_def new_coordinator_def open_in_memory_def replay_def same_durable_def)

lemma reachable_agrees: "reachable H c \<Longrightarrow> journal_agrees H c"
proof (induction rule: reachable.induct)
  case (step c cmd io)
  then show ?case
    using exec_agrees [of c cmd "world H io"] reachable_wf by (simp add: world_def)
qed (rule new_coordinator_agrees)

end
