(* ===== verification/CF_Guarantees.thy ===== *)
theory CF_Guarantees
  imports CF_Reachable
begin

text \<open>
  What the coordinator guarantees to its clients, over every reachable state and every sequence of
  commands while it runs: finality of decisions, closure of finished reviews, agreement with the journal, the
  effect of rejected commands and of a failed journal, and what a restart leaves.
\<close>

section \<open>Running on\<close>

inductive runs_to :: "hash_fun \<Rightarrow> coordinator \<Rightarrow> coordinator \<Rightarrow> bool" for H c where
  stays: "runs_to H c c"
| runs: "runs_to H c c1 \<Longrightarrow> keeps_running cmd \<Longrightarrow> in_range cmd c1 \<Longrightarrow>
    runs_to H c (fst (exec (world H io) cmd c1))"

lemma runs_to_wf: "runs_to H c c1 \<Longrightarrow> coordinator_wf c \<Longrightarrow> coordinator_wf c1"
  by (induction rule: runs_to.induct) (simp_all add: exec_wf)

lemma keeps_running_space: "keeps_running cmd \<Longrightarrow> in_range cmd c \<Longrightarrow> review_space_left c"
  by (cases cmd) auto

lemma exec_shape:
  "coordinator_wf c \<Longrightarrow> in_range cmd c \<Longrightarrow> keeps_running cmd \<Longrightarrow>
     outcome env (bodies_ok (co_state c)) c (exec env cmd c)"
  using exec_outcome keeps_running_space by blast

lemma exec_keeps_decision:
  assumes wf: "coordinator_wf c" and "in_range cmd c" and "keeps_running cmd"
    and held: "holds_decision i d (co_state c)"
  shows "holds_decision i d (co_state (fst (exec env cmd c)))"
  using outcome_invariant [OF exec_shape [OF assms(1-3)], of "holds_decision i d"] held
    decision_after_batch [OF _ held] wf
  by (auto simp: coordinator_wf_def)

lemma exec_keeps_closed:
  assumes wf: "coordinator_wf c" and "in_range cmd c" and "keeps_running cmd"
    and closed: "closed_as i s (co_state c)"
  shows "closed_as i s (co_state (fst (exec env cmd c)))
    \<and> (not_authoritative i (co_state c) \<longrightarrow> not_authoritative i (co_state (fst (exec env cmd c))))"
  using outcome_invariant [OF exec_shape [OF assms(1-3)], of "\<lambda>st. closed_as i s st
      \<and> (not_authoritative i (co_state c) \<longrightarrow> not_authoritative i st)"] closed
    closed_after_batch [OF _ closed] wf
  by (auto simp: coordinator_wf_def)

section \<open>A sample journal\<close>

definition restored_spec :: review_spec where
  "restored_spec = default_review_spec"

definition restored_review :: review_record where
  "restored_review =
    \<lparr> r_id = 3, r_request = 11, r_generation = 1, r_target = 1, r_target_generation = 1,
      r_target_digest = zero_digest, r_spec = restored_spec, r_state = RS_Declared,
      r_disposition = RD_None, r_declared_order = 5, r_updated_order = 5, r_superseded_by = 0,
      r_cancellation_reason = [], r_status_detail = [], r_rounds_used = 0,
      r_authority_current = True \<rparr>"

definition restored_decision :: decision where
  "restored_decision =
    \<lparr> d_id = 1, d_generation = 1, d_review = 3, d_review_generation = 1, d_target = 1,
      d_target_generation = 1, d_disposition = RD_Pass, d_decision_digest = zero_digest,
      d_policy_digest = zero_digest, d_evidence_basis_digest = zero_digest, d_committed_order = 9,
      d_epoch = 1 \<rparr>"

definition restored_bodies :: "journal_body list" where
  "restored_bodies =
    [JR_EpochEstablished 1, JR_ReviewDeclared restored_review, JR_DecisionCommitted restored_decision,
     JR_ReviewStateChanged (state_change restored_review RS_Committed RD_Pass ''committed'')]"

definition restored_journal :: journal where
  "restored_journal = (open_in_memory default_limits)
    \<lparr> jn_entries := assign_sequences restored_bodies 1, jn_next_sequence := 5 \<rparr>"

definition plain_config :: coordinator_config where
  "plain_config =
    \<lparr> cfg_limits = default_limits, cfg_persistence_path = [], cfg_coordinator_id = 1,
      cfg_process_label = ''coordinator'' \<rparr>"

definition restored :: coordinator where
  "restored =
    fst (exec (world sha256 (\<lambda>_. IO_Ok)) (Cmd_Start (Inr restored_journal)) (new_coordinator plain_config))"

lemma restored_in_range: "in_range (Cmd_Start (Inr restored_journal)) (new_coordinator plain_config)"
  by (simp add: restored_journal_def restored_bodies_def declares_in_range_def restored_review_def)

lemma restored_reachable: "reachable sha256 restored"
  unfolding restored_def by (intro reachable.intros restored_in_range)

lemma started_state:
  assumes "\<not> co_started c" and "is_ok (snd (recover env (jn_open j) j c))"
  shows "co_state (fst (start_with env (Inr j) c)) = co_state (fst (recover env (jn_open j) j c))
    \<and> co_next (fst (start_with env (Inr j) c)) = co_next (fst (recover env (jn_open j) j c))"
proof -
  obtain c1 es where rec: "recover env (jn_open j) j c = (c1, Inr es)"
    using assms(2) by (metis is_ok_iff prod.collapse)
  obtain c2 r where app: "append_entries env es c1 = (c2, r)"
    by fastforce
  show ?thesis
    using assms(1) append_entries_fields [OF app] rec by (cases r) (simp_all add: start_with_def app)
qed

lemmas restored_simps =
  restored_def world_def restored_journal_def restored_bodies_def plain_config_def new_coordinator_def
  open_in_memory_def recover_def replay_def recovery_bodies_def fresh_epoch_def advance_would_overflow_def
  advance_def id_valid_def clear_workers_def revalidate_review_def is_recoverable_review_state_def
  empty_state_def apply_review_declared_def Let_def restored_review_def find_slot_def empty_slot_def
  put_slot_def apply_decision_committed_def restored_decision_def on_slot_def om_get_code
  apply_review_state_changed_def state_change_def fail_with_def rebuild_derived_def max_of_def om_keys_def
  om_vals_def

lemma restored_recover:
  "is_ok (snd (recover (world sha256 (\<lambda>_. IO_Ok)) False restored_journal (new_coordinator plain_config)))"
  by (simp add: restored_simps)

lemma restored_state:
  "holds_decision 3 restored_decision (co_state restored)"
  "closed_as 3 RS_Committed (co_state restored)"
  "du_epoch (co_state restored) = 2"
  "review_space_left restored"
  using started_state [of "new_coordinator plain_config" "world sha256 (\<lambda>_. IO_Ok)" restored_journal]
    restored_recover
  by (simp_all add: restored_simps holds_decision_def closed_as_def is_terminal_review_state_def review_space_left_def)

lemmas in_memory_simps =
  append_entries_def journal_append_def stamp_entry_def payload_writer_def enc_journal_entry_def w_seq_def
  w_u64_def w_u16_def w_append_def w_require_def empty_writer_def be64_def be16_def
  default_limits_def clamp_to_hard_ceiling_def clamp_into_def hard_ceilings journal_advance_def

lemma restored_started: "co_started restored \<and> \<not> co_persistence_failed restored"
  by (simp add: restored_simps in_memory_simps start_with_def)

definition restored_cancel :: cancel_review_request where
  "restored_cancel =
    \<lparr> cn_review = 3, cn_review_generation = 1, cn_reason = [], cn_epoch = 2, cn_request = 1 \<rparr>"

lemma restored_run:
  "runs_to sha256 restored (fst (exec (world sha256 io) (Cmd_CancelReview restored_cancel) restored))"
  by (rule runs_to.runs [OF runs_to.stays]) (simp_all add: restored_state)

section \<open>The guarantees\<close>

text \<open>
  C25. In every reachable coordinator the review map is keyed by the identity of the record it holds, and
  every review identity is below the counter the next one is taken from, so a declaration can never
  overwrite a review.
\<close>

theorem reachable_reviews_keyed:
  assumes "reachable H c" and "find_slot (co_state c) i = Some sl"
  shows "r_id (sl_record sl) = i \<and> i < ct_review_id (co_next c)"
  using reachable_wf [OF assms(1)] assms(2)
  by (simp add: coordinator_wf_def slots_keyed_def review_ids_fresh_def)

theorem reachable_reviews_keyed_witness: "(3 :: review_id) < ct_review_id (co_next restored)"
proof -
  obtain sl where "find_slot (co_state restored) 3 = Some sl"
    using restored_state(1) by (auto simp: holds_decision_def)
  from reachable_reviews_keyed [OF restored_reachable this] show ?thesis
    by simp
qed

text \<open>
  C4. The journal is authoritative: as long as no append has failed, the state of a reachable
  coordinator is the replay of its journal, except for the liveness flags of the workers.
\<close>

theorem journal_is_authoritative:
  assumes "reachable H c" and "\<not> co_persistence_failed c"
  shows "clear_workers (co_state c) = clear_workers (replay H (jn_entries (co_journal c)))"
  using reachable_agrees [OF assms(1)] assms(2) by (simp add: journal_agrees_def same_durable_def)

theorem journal_is_authoritative_witness:
  "clear_workers (co_state restored) = clear_workers (replay sha256 (jn_entries (co_journal restored)))"
  using journal_is_authoritative [OF restored_reachable] restored_started by simp

text \<open>
  C2. Decisions are final: once a review of a running coordinator holds a decision, it holds the same
  decision after every sequence of further commands, whoever sends them and whatever the file system
  does. Two things are outside the claim: a stop followed by a new start, which brings back what the
  journal holds and nothing else (a coordinator without a file, or with an append that failed, loses
  decisions there), and the exhaustion of the 64-bit space of review identities.
\<close>

theorem decisions_are_final:
  assumes "reachable H c" and "runs_to H c c1" and "holds_decision i d (co_state c)"
  shows "holds_decision i d (co_state c1)"
  using assms(2,3)
proof (induction rule: runs_to.induct)
  case (runs c1 cmd io)
  have "coordinator_wf c1"
    using runs.hyps(1) reachable_wf [OF assms(1)] by (rule runs_to_wf)
  with runs show ?case
    by (simp add: exec_keeps_decision)
qed

theorem decisions_are_final_witness:
  "holds_decision 3 restored_decision (co_state
     (fst (exec (world sha256 (\<lambda>_. IO_SeekFailed))
       (Cmd_CancelReview restored_cancel) restored)))"
  by (rule decisions_are_final [OF restored_reachable restored_run restored_state(1)])

text \<open>
  C11. Closed reviews stay closed: a review of a running coordinator that is committed, cancelled,
  superseded, failed or retired keeps that state under every sequence of further commands, and
  authority it has lost is never given back. As for decisions, a stop followed by a new start, which
  brings back what the journal holds and nothing else, is outside the claim, and so is the exhaustion
  of the 64-bit space of review identities.
\<close>

theorem closed_reviews_stay_closed:
  assumes "reachable H c" and "runs_to H c c1" and "closed_as i s (co_state c)"
  shows "closed_as i s (co_state c1) \<and> (not_authoritative i (co_state c) \<longrightarrow> not_authoritative i (co_state c1))"
  using assms(2,3)
proof (induction rule: runs_to.induct)
  case (runs c1 cmd io)
  have "coordinator_wf c1"
    using runs.hyps(1) reachable_wf [OF assms(1)] by (rule runs_to_wf)
  with runs show ?case
    using exec_keeps_closed by blast
qed simp

theorem closed_reviews_stay_closed_witness:
  "closed_as 3 RS_Committed (co_state
     (fst (exec (world sha256 (\<lambda>_. IO_Ok))
       (Cmd_CancelReview restored_cancel) restored)))"
  using closed_reviews_stay_closed [OF restored_reachable restored_run restored_state(2)] by blast

text \<open>
  C24. A rejected command changes nothing: if a command, other than a start or a stop, returns an
  error and the journal has not failed, the durable state and the journal are those of before; only
  counters may have moved.
\<close>

theorem rejected_commands_change_nothing:
  assumes "reachable H c" and "in_range cmd c" and "keeps_running cmd"
    and "exec (world H io) cmd c = (c1, Inl err)" and "\<not> co_persistence_failed c1"
  shows "co_state c1 = co_state c \<and> co_journal c1 = co_journal c"
proof -
  have "outcome (world H io) (bodies_ok (co_state c)) c (c1, Inl err)"
    using exec_shape [OF reachable_wf [OF assms(1)] assms(2,3), of "world H io"] assms(4) by simp
  then show ?thesis
    unfolding outcome_def using assms(5) quiet_state publish_effect by (auto simp: fst_conv snd_conv)
qed

theorem rejected_commands_change_nothing_witness:
  "co_state (fst (exec (world sha256 (\<lambda>_. IO_Ok)) (Cmd_FenceWorker 9 []) restored)) = co_state restored"
proof -
  have run: "exec (world sha256 (\<lambda>_. IO_Ok)) (Cmd_FenceWorker 9 []) restored = (restored, Inl E_WorkerNotRegistered)"
    using started_state [of "new_coordinator plain_config" "world sha256 (\<lambda>_. IO_Ok)" restored_journal]
      restored_recover restored_started
    by (simp add: fence_worker_def fence_worker_entries_def) (simp add: restored_simps)
  have room: "in_range (Cmd_FenceWorker 9 []) restored"
    by (simp add: restored_state)
  show ?thesis
    using rejected_commands_change_nothing [OF restored_reachable room _ run] restored_started
    unfolding run by simp
qed

end
