(* ===== verification/CF_Restart.thy ===== *)
theory CF_Restart
  imports CF_Guarantees
begin

text \<open>
  What a restart leaves: nobody speaks with authority until fresh readiness has been declared, every
  review that was in flight waits for revalidation, the epoch has advanced, and every decision made
  before is still held.
\<close>

section \<open>The recovered state\<close>

definition recovered_base :: "hash_fun \<Rightarrow> journal_entry list \<Rightarrow> durable_state" where
  "recovered_base H es =
    clear_workers ((replay H es)\<lparr> du_epoch := fresh_epoch (last_epoch 0 es) \<rparr>)"

lemma start_recovered:
  assumes "start_with env (Inr j) c = (c1, Inr u)"
  shows "co_state c1 = apply_entries (env_hash env)
      (assign_sequences (recovery_bodies (fresh_epoch (last_epoch 0 (jn_entries j)))
         (recovered_base (env_hash env) (jn_entries j))) (jn_next_sequence j))
      (recovered_base (env_hash env) (jn_entries j))
    \<and> \<not> advance_would_overflow (last_epoch 0 (jn_entries j))"
proof -
  obtain c2 r where rec: "recover env (jn_open j) j c = (c2, r)"
    by fastforce
  with assms obtain es c3 v where "r = Inr es" "append_entries env es c2 = (c3, Inr v)" "co_state c1 = co_state c3"
    by (auto simp: start_with_def split: if_splits sum.splits prod.splits)
  with rec append_entries_fields [of env es c2 c3] show ?thesis
    by (auto simp: recover_def Let_def fail_with_def recovered_base_def split: if_splits)
qed

lemma recovery_body_cases:
  assumes "b \<in> set (recovery_bodies epoch st)"
  obtains "b = JR_EpochEstablished epoch"
  | sl where "sl \<in> set (om_vals (du_reviews st))" and "b \<in> set (revalidate_review sl restart_reason)"
  using assms by (auto simp: recovery_bodies_def)

lemma revalidate_body:
  "b \<in> set (revalidate_review sl reason) \<Longrightarrow>
     \<exists>rv. b = JR_ReviewStateChanged rv \<and> rv_review rv = r_id (sl_record sl)
       \<and> rv_review_generation rv = r_generation (sl_record sl)
       \<and> rv_state rv = RS_RevalidationRequired \<and> \<not> rv_authority_current rv"
  by (auto simp: revalidate_review_def Let_def split: if_splits)

section \<open>No authority survives\<close>

definition nobody_authoritative :: "durable_state \<Rightarrow> bool" where
  "nobody_authoritative st \<longleftrightarrow> (\<forall>i w. om_get (du_workers st) i = Some w \<longrightarrow> \<not> w_authoritative w)"

lemma nobody_authoritative_rejects: "nobody_authoritative st \<Longrightarrow> \<not> is_ok (check_authority st au)"
  by (auto simp: is_ok_iff check_authority_def check_worker_live_def result_bind_Inr_iff
      nobody_authoritative_def split: if_splits option.splits)

lemma recovered_epoch:
  assumes "du_epoch st = epoch"
  shows "du_epoch (apply_entries H (assign_sequences (recovery_bodies epoch st0) n) st) = epoch"
proof (rule apply_batch_invariant [where Q = "\<lambda>s. du_epoch s = epoch"])
  fix b k and s :: durable_state
  assume "b \<in> set (recovery_bodies epoch st0)" and "du_epoch s = epoch"
  then show "du_epoch (apply_body H k b s) = epoch"
    by (cases rule: recovery_body_cases) (auto dest!: revalidate_body simp: on_slot_def put_slot_def
        split: option.splits)
qed (rule assms)

lemma recovered_workers:
  "du_workers (apply_entries H (assign_sequences (recovery_bodies epoch st0) n) st) = du_workers st"
proof (rule apply_batch_invariant [where Q = "\<lambda>s. du_workers s = du_workers st"])
  fix b k and s :: durable_state
  assume "b \<in> set (recovery_bodies epoch st0)" and "du_workers s = du_workers st"
  then show "du_workers (apply_body H k b s) = du_workers st"
    by (cases rule: recovery_body_cases) (auto dest!: revalidate_body)
qed simp

lemma base_nobody_authoritative: "nobody_authoritative (recovered_base H es)"
  by (auto simp: nobody_authoritative_def recovered_base_def clear_workers_eq clear_worker_def)

lemma start_clears:
  assumes "start_with env (Inr j) c = (c1, Inr u)"
  shows "last_epoch 0 (jn_entries j) < du_epoch (co_state c1)
    \<and> (\<forall>au. \<not> is_ok (check_authority (co_state c1) au))"
proof -
  let ?st = "recovered_base (env_hash env) (jn_entries j)"
  let ?epoch = "fresh_epoch (last_epoch 0 (jn_entries j))"
  note rec = start_recovered [OF assms]
  have "du_epoch ?st = ?epoch"
    by (simp add: recovered_base_def clear_workers_eq)
  then have epoch: "du_epoch (co_state c1) = ?epoch"
    using rec recovered_epoch [of ?st ?epoch] by simp
  have "nobody_authoritative (co_state c1)"
    using base_nobody_authoritative [of "env_hash env" "jn_entries j"] rec
    by (simp add: nobody_authoritative_def recovered_workers)
  moreover have "last_epoch 0 (jn_entries j) < ?epoch"
    using rec
    by (auto simp: fresh_epoch_def advance_def advance_would_overflow_def id_valid_def first_generation_def
        word_less_nat_alt unat_succ_u64)
  ultimately show ?thesis
    using epoch nobody_authoritative_rejects by simp
qed

text \<open>
  C8. A restart clears all authority and advances the epoch: after a successful start the coordinator
  runs under a strictly later epoch than any the journal established last, and no message of any
  critic passes the authority check, whatever the journal contained.
\<close>

theorem restart_clears_authority:
  assumes "start_with env (Inr j) c = (c1, Inr u)"
  shows "last_epoch 0 (jn_entries j) < du_epoch (co_state c1)
    \<and> (\<forall>au. \<not> is_ok (check_authority (co_state c1) au))"
  by (rule start_clears [OF assms])

theorem restart_clears_authority_witness:
  "\<not> is_ok (check_authority (co_state restored) sample_authority_context)"
proof -
  have "start_with (world sha256 (\<lambda>_. IO_Ok)) (Inr restored_journal) (new_coordinator plain_config) =
      (restored, Inr ())"
    by (simp add: restored_simps in_memory_simps start_with_def)
  from restart_clears_authority [OF this] show ?thesis
    by blast
qed

section \<open>In-flight reviews wait for revalidation\<close>

text \<open>An entry of a batch establishes what the rest of the batch keeps.\<close>

lemma apply_batch_establishes:
  assumes "b0 \<in> set bs" and "P st"
    and keepP: "\<And>b n s. b \<in> set bs \<Longrightarrow> P s \<Longrightarrow> P (apply_body H n b s)"
    and makeQ: "\<And>n s. P s \<Longrightarrow> Q (apply_body H n b0 s)"
    and keepQ: "\<And>b n s. b \<in> set bs \<Longrightarrow> Q s \<Longrightarrow> Q (apply_body H n b s)"
  shows "Q (apply_entries H (assign_sequences bs n) st)"
  using assms
proof (induction bs arbitrary: st n)
  case (Cons b bs)
  note step = apply_batch_invariant [of Q "apply_body H n b st" bs H "n + 1"]
  show ?case
  proof (cases "b = b0")
    case True
    then show ?thesis
      using step Cons.prems by (simp del: apply_body.simps)
  next
    case False
    then show ?thesis
      using Cons.IH [of "apply_body H n b st" "n + 1"] Cons.prems by (simp del: apply_body.simps)
  qed
qed simp

definition awaits_revalidation :: "review_id \<Rightarrow> durable_state \<Rightarrow> bool" where
  "awaits_revalidation i st \<longleftrightarrow>
     (\<exists>sl. find_slot st i = Some sl \<and> r_state (sl_record sl) = RS_RevalidationRequired
        \<and> \<not> r_authority_current (sl_record sl))"

definition has_generation :: "review_id \<Rightarrow> review_generation \<Rightarrow> durable_state \<Rightarrow> bool" where
  "has_generation i g st \<longleftrightarrow>
     slots_keyed st \<and> (\<exists>sl. find_slot st i = Some sl \<and> r_generation (sl_record sl) = g)"

lemma state_changed_fields [simp]:
  "r_generation (sl_record (apply_review_state_changed n rv sl)) = r_generation (sl_record sl)"
  "r_state (sl_record (apply_review_state_changed n rv sl)) =
     (if r_generation (sl_record sl) = rv_review_generation rv then rv_state rv else r_state (sl_record sl))"
  "r_authority_current (sl_record (apply_review_state_changed n rv sl)) =
     (if r_generation (sl_record sl) = rv_review_generation rv then rv_authority_current rv
      else r_authority_current (sl_record sl))"
  by (simp_all add: apply_review_state_changed_def Let_def)

text \<open>What a revalidation entry does to any slot of its generation.\<close>

lemma revalidation_entry_effect:
  assumes "has_generation i g st" and "rv_review rv = i" and "rv_review_generation rv = g"
    and "rv_state rv = RS_RevalidationRequired" and "\<not> rv_authority_current rv"
  shows "awaits_revalidation i (apply_body H n (JR_ReviewStateChanged rv) st)"
  using assms by (auto simp: has_generation_def awaits_revalidation_def)

lemma recovery_keeps_generation:
  assumes "b \<in> set (recovery_bodies epoch st0)" and "has_generation i g st"
  shows "has_generation i g (apply_body H n b st)"
proof -
  have wf: "slots_keyed (apply_body H n b st)"
    using assms(2) slots_keyed_after_body by (simp add: has_generation_def)
  show ?thesis
    using assms(1) wf assms(2)
    by (cases rule: recovery_body_cases)
       (auto dest!: revalidate_body simp: has_generation_def)
qed

lemma recovery_keeps_awaiting:
  assumes "b \<in> set (recovery_bodies epoch st0)" and "awaits_revalidation i st"
  shows "awaits_revalidation i (apply_body H n b st)"
  using assms
  by (cases rule: recovery_body_cases)
     (auto dest!: revalidate_body simp: awaits_revalidation_def)

lemma recovery_revalidates:
  assumes keyed: "slots_keyed st" and slot: "find_slot st i = Some sl"
    and live: "\<not> is_terminal_review_state (r_state (sl_record sl))"
  shows "awaits_revalidation i (apply_entries H (assign_sequences (recovery_bodies epoch st) n) st)"
proof -
  have id: "r_id (sl_record sl) = i" and mem: "sl \<in> set (om_vals (du_reviews st))"
    using keyed slot by (auto simp: slots_keyed_def om_vals_mem find_slot_def)
  obtain rv where rv: "JR_ReviewStateChanged rv \<in> set (revalidate_review sl restart_reason)"
    using live by (auto simp: revalidate_review_def Let_def terminal_is_recoverable)
  note body = revalidate_body [OF rv]
  show ?thesis
  proof (rule apply_batch_establishes [where P = "has_generation i (r_generation (sl_record sl))"])
    show "JR_ReviewStateChanged rv \<in> set (recovery_bodies epoch st)"
      using rv mem by (auto simp: recovery_bodies_def)
    show "has_generation i (r_generation (sl_record sl)) st"
      using keyed slot by (simp add: has_generation_def)
  qed (use body id in \<open>auto simp: recovery_keeps_generation recovery_keeps_awaiting
      simp del: apply_body.simps intro!: revalidation_entry_effect\<close>)
qed

lemma recovered_base_keyed: "slots_keyed (recovered_base H es)"
  by (simp add: recovered_base_def replay_def slots_keyed_after_entries slots_keyed_empty)

lemma recovered_base_slot: "find_slot (recovered_base H es) i = find_slot (replay H es) i"
  by (simp add: recovered_base_def)

lemma start_revalidates:
  assumes "start_with env (Inr j) c = (c1, Inr u)"
    and "find_slot (replay (env_hash env) (jn_entries j)) i = Some sl"
    and "\<not> is_terminal_review_state (r_state (sl_record sl))"
  shows "awaits_revalidation i (co_state c1)"
  using assms(2,3) start_recovered [OF assms(1)] recovery_revalidates [OF recovered_base_keyed]
  by (simp add: recovered_base_slot)

text \<open>
  C5. A restart resumes no review: every review that the journal left open is, after the start, in
  REVALIDATION_REQUIRED without current authority; every review it left closed is in the same state.
\<close>

theorem restart_resumes_no_review:
  assumes "start_with env (Inr j) c = (c1, Inr u)"
    and "find_slot (replay (env_hash env) (jn_entries j)) i = Some sl"
  shows "if is_terminal_review_state (r_state (sl_record sl))
    then closed_as i (r_state (sl_record sl)) (co_state c1)
    else awaits_revalidation i (co_state c1)"
proof (cases "is_terminal_review_state (r_state (sl_record sl))")
  case True
  then have "closed_as i (r_state (sl_record sl)) (recovered_base (env_hash env) (jn_entries j))"
    using assms(2) by (simp add: closed_as_def recovered_base_slot)
  then show ?thesis
    using True start_recovered [OF assms(1)]
      closed_after_batch [OF recovered_base_keyed _ recovery_bodies_ok [OF recovered_base_keyed]] by simp
next
  case False
  then show ?thesis
    using start_revalidates [OF assms] by simp
qed

definition open_journal :: journal where
  "open_journal = (open_in_memory default_limits)
    \<lparr> jn_entries := assign_sequences [JR_EpochEstablished 1, JR_ReviewDeclared restored_review] 1,
      jn_next_sequence := 3 \<rparr>"

lemma open_replay:
  "find_slot (replay H (jn_entries open_journal)) 3 =
     Some (empty_slot restored_review (compute_policy_digest H restored_spec))"
  by (simp add: open_journal_def replay_def empty_state_def apply_review_declared_def Let_def
      restored_review_def find_slot_def empty_slot_def put_slot_def om_get_code open_in_memory_def)

definition reopened :: coordinator where
  "reopened = fst (start_with (world sha256 (\<lambda>_. IO_Ok)) (Inr open_journal) (new_coordinator plain_config))"

lemmas state_change_writer_simps =
  enc_review_state_change_def w_string_def w_u32_def w_u8_def w_boolean_def w_raw_def be32_def
  restart_reason_def string_bytes_def kHardMaxMetadataBytes_def w_fail_def

lemma reopened_start:
  "start_with (world sha256 (\<lambda>_. IO_Ok)) (Inr open_journal) (new_coordinator plain_config) = (reopened, Inr ())"
  by (simp add: reopened_def open_journal_def restored_simps in_memory_simps state_change_writer_simps
      start_with_def)

theorem restart_resumes_no_review_witness: "awaits_revalidation 3 (co_state reopened)"
  using restart_resumes_no_review [OF reopened_start open_replay]
  by (simp add: empty_slot_def restored_review_def is_terminal_review_state_def)

lemma replay_slots:
  assumes "reachable H c" and "\<not> co_persistence_failed c"
  shows "find_slot (replay H (jn_entries (co_journal c))) i = find_slot (co_state c) i"
proof -
  have "same_durable (co_state c) (replay H (jn_entries (co_journal c)))"
    using reachable_agrees [OF assms(1)] assms(2) by (simp add: journal_agrees_def)
  then show ?thesis
    unfolding same_durable_def by (metis find_slot_clear)
qed

lemma start_keeps_decision:
  assumes "start_with env (Inr j) c = (c1, Inr u)"
    and "holds_decision i d (replay (env_hash env) (jn_entries j))"
  shows "holds_decision i d (co_state c1)"
proof -
  have "holds_decision i d (recovered_base (env_hash env) (jn_entries j))"
    using assms(2) by (simp add: holds_decision_def recovered_base_slot)
  then show ?thesis
    using start_recovered [OF assms(1)] recovered_base_keyed
      decision_after_batch [OF recovered_base_keyed _ recovery_bodies_ok [OF recovered_base_keyed]]
    by simp
qed

text \<open>
  C9. Decisions survive restarts: when a coordinator whose journal has not failed is restarted from
  that journal, every decision it held is held by the new coordinator.
\<close>

theorem decisions_survive_restart:
  assumes "reachable H c" and "\<not> co_persistence_failed c" and "holds_decision i d (co_state c)"
    and "jn_entries j = jn_entries (co_journal c)"
    and "start_with (world H io) (Inr j) c0 = (c1, Inr u)"
  shows "holds_decision i d (co_state c1)"
  using start_keeps_decision [OF assms(5)] replay_slots [OF assms(1,2)] assms(3,4)
  by (simp add: holds_decision_def world_def)

definition restored_again :: journal where
  "restored_again = (open_in_memory default_limits)
    \<lparr> jn_entries := jn_entries (co_journal restored), jn_next_sequence := 6 \<rparr>"

theorem decisions_survive_restart_witness:
  "holds_decision 3 restored_decision (co_state (fst
     (start_with (world sha256 (\<lambda>_. IO_Ok)) (Inr restored_again) (new_coordinator plain_config))))"
proof -
  have "is_ok (snd (start_with (world sha256 (\<lambda>_. IO_Ok)) (Inr restored_again) (new_coordinator plain_config)))"
    by (simp add: restored_again_def restored_simps in_memory_simps start_with_def)
  then obtain c1 u where start:
    "start_with (world sha256 (\<lambda>_. IO_Ok)) (Inr restored_again) (new_coordinator plain_config) = (c1, Inr u)"
    by (metis is_ok_iff prod.collapse)
  have "holds_decision 3 restored_decision (co_state c1)"
    by (rule decisions_survive_restart [OF restored_reachable _ restored_state(1) _ start])
       (simp_all add: restored_started restored_again_def)
  then show ?thesis
    unfolding start by simp
qed

end
