(* ===== verification/CF_Durable.thy ===== *)
theory CF_Durable
  imports CF_Sizes CF_Restart
begin

text \<open>
  The coordinator on its journal file: \<open>Coordinator::start\<close> with the journal it opens, and what a
  process that dies leaves for the next one. The file is the only thing that survives; everything the
  guarantees of the restart say of a journal holds of the journal read back from that file.
\<close>

section \<open>Starting from the file\<close>

definition opened :: "journal \<times> status \<Rightarrow> journal result" where
  "opened p = (case p of (j, Inl err) \<Rightarrow> Inl err | (j, Inr _) \<Rightarrow> Inr j)"

definition coordinator_start ::
  "open_io \<Rightarrow> env \<Rightarrow> bytes option \<Rightarrow> coordinator \<Rightarrow> coordinator \<times> status" where
  "coordinator_start io env file c =
    (let path = cfg_persistence_path (co_config c) in
     if path = [] then start_in_memory env c
     else start_with env (opened (journal_open io path (co_limits c) file)) c)"

definition survives :: "journal \<Rightarrow> coordinator \<Rightarrow> bool" where
  "survives j c \<longleftrightarrow> journal_file_ok j \<and> cfg_persistence_path (co_config c) \<noteq> []
   \<and> readable_journal (co_limits c) (jn_entries j) \<and> clamp_to_hard_ceiling (co_limits c) = co_limits c"

lemma start_from_file:
  assumes "survives j c" and "coordinator_start io env (Some (jn_disk j)) c = (c1, Inr u)"
  shows "\<exists>j1. start_with env (Inr j1) c = (c1, Inr u) \<and> jn_entries j1 = jn_entries j
    \<and> journal_file_ok j1 \<and> jn_next_sequence j1 = sequence_after (jn_entries j)"
proof -
  let ?path = "cfg_persistence_path (co_config c)"
  have disk: "jn_disk j = journal_image (jn_entries j)"
    and readable: "readable_journal (clamp_to_hard_ceiling (co_limits c)) (jn_entries j)"
    using assms(1) by (simp_all add: survives_def journal_file_ok_def)
  have started: "start_with env (opened (journal_open io ?path (co_limits c) (Some (jn_disk j)))) c = (c1, Inr u)"
    using assms by (simp add: coordinator_start_def survives_def)
  then obtain j1 where j1: "journal_open io ?path (co_limits c) (Some (jn_disk j)) = (j1, Inr ())"
    by (cases "journal_open io ?path (co_limits c) (Some (jn_disk j))")
       (auto simp: opened_def start_with_def split: if_splits sum.splits)
  have io: "oi_read io" "oi_reopen io"
    using j1 by (auto simp: journal_open_def journal_load_def Let_def split: if_splits prod.splits sum.splits)
  show ?thesis
    using open_healthy_image [OF io readable, of ?path] started j1 by (auto simp: disk opened_def)
qed

text \<open>
  C29. A crash loses nothing that was journalled: when a coordinator whose journal file is healthy dies at
  any point and a new process starts from the file, it holds every decision the old one held, every
  review that was open awaits revalidation, no message is authoritative, and the epoch is later than
  every epoch the journal established last.
\<close>

theorem restart_from_disk:
  assumes run: "reachable H c" and healthy: "\<not> co_persistence_failed c" and disk: "survives (co_journal c) c0"
    and start: "coordinator_start io (world H w) (Some (jn_disk (co_journal c))) c0 = (c1, Inr u)"
  shows "(\<forall>i d. holds_decision i d (co_state c) \<longrightarrow> holds_decision i d (co_state c1))
    \<and> (\<forall>i sl. find_slot (co_state c) i = Some sl \<longrightarrow> \<not> is_terminal_review_state (r_state (sl_record sl)) \<longrightarrow>
          awaits_revalidation i (co_state c1))
    \<and> (\<forall>au. \<not> is_ok (check_authority (co_state c1) au))
    \<and> last_epoch 0 (jn_entries (co_journal c)) < du_epoch (co_state c1)"
proof -
  obtain j1 where j1: "start_with (world H w) (Inr j1) c0 = (c1, Inr u)" "jn_entries j1 = jn_entries (co_journal c)"
    using start_from_file [OF disk start] by blast
  have slots: "find_slot (replay H (jn_entries j1)) i = find_slot (co_state c) i" for i
    using replay_slots [OF run healthy] j1(2) by simp
  show ?thesis
    using start_keeps_decision [OF j1(1)] start_revalidates [OF j1(1)] start_clears [OF j1(1)] slots j1(2)
    by (auto simp: holds_decision_def world_def)
qed

section \<open>A healthy file always starts\<close>

definition encodes :: "journal_body \<Rightarrow> bool" where
  "encodes b \<longleftrightarrow> (\<forall>n. wr_ok (payload_writer \<lparr> je_sequence = n, je_body = b \<rparr>))"

lemma encodes_bounded: "writes (enc_journal_payload b) n \<Longrightarrow> n \<le> 4000000000 \<Longrightarrow> encodes b"
  unfolding encodes_def payload_writer_def enc_journal_entry_def
  using writes_empty [OF writes_Cons [OF writes_ints(2) writes_Cons [OF _ writes_Nil]]] by auto

lemma recovery_bodies_encode: "b \<in> set (recovery_bodies epoch st) \<Longrightarrow> encodes b"
proof (erule recovery_body_cases)
  show "b = JR_EpochEstablished epoch \<Longrightarrow> encodes b"
    using writes_Cons [OF writes_ints(4) writes_Nil, of epoch] by (intro encodes_bounded) auto
next
  fix sl assume "b \<in> set (revalidate_review sl restart_reason)"
  then obtain rv where b: "b = JR_ReviewStateChanged rv" "rv_detail rv = restart_reason" "rv_cancellation_reason rv = []"
    by (auto simp: revalidate_review_def Let_def split: if_splits)
  have "writes (enc_review_state_change rv) 140000"
    unfolding enc_review_state_change_def
    by (rule writes_mono, (rule size_rules | simp add: b restart_reason_def)+)
  then show "encodes b"
    using b(1) by (intro encodes_bounded) auto
qed

lemma append_succeeds:
  assumes "\<not> jn_failed j" and "length (jn_entries j) < unat (max_persisted_records (jn_limits j))"
    and "encodes (je_body e)" and "env_io env = (\<lambda>_. IO_Ok)"
  shows "\<exists>j1. journal_append env j e = (j1, Inr ()) \<and> \<not> jn_failed j1 \<and> jn_limits j1 = jn_limits j
    \<and> length (jn_entries j1) = Suc (length (jn_entries j))"
proof -
  have "stamp_entry j e = \<lparr> je_sequence = jn_next_sequence j, je_body = je_body e \<rparr>"
    by (simp add: stamp_entry_def)
  then have "wr_ok (payload_writer (stamp_entry j e))"
    using assms(3) by (simp add: encodes_def)
  then show ?thesis
    using assms by (simp add: journal_append_def Let_def journal_advance_def)
qed

lemma append_all_succeeds:
  assumes "\<not> jn_failed j" and "length (jn_entries j) + length es \<le> unat (max_persisted_records (jn_limits j))"
    and "\<forall>e \<in> set es. encodes (je_body e)" and "env_io env = (\<lambda>_. IO_Ok)"
  shows "\<exists>j1. append_all (journal_append env) j es = (j1, Inr ())"
  using assms
proof (induction es arbitrary: j)
  case (Cons e es)
  then obtain j1 where "journal_append env j e = (j1, Inr ())" "\<not> jn_failed j1" "jn_limits j1 = jn_limits j"
    "length (jn_entries j1) = Suc (length (jn_entries j))"
    using append_succeeds [of j e env] by auto
  then show ?case
    using Cons.IH [of j1] Cons.prems by auto
qed simp

lemma assigned_bodies: "e \<in> set (assign_sequences bs n) \<Longrightarrow> je_body e \<in> set bs"
  by (induction bs n rule: assign_sequences.induct) auto

lemma assigned_length [simp]: "length (assign_sequences bs n) = length bs"
  by (induction bs n rule: assign_sequences.induct) auto

lemma start_succeeds:
  assumes disk: "survives j c" and "\<not> co_started c" and "oi_read io" and "oi_reopen io"
    and works: "env_io env = (\<lambda>_. IO_Ok)" and epoch: "\<not> advance_would_overflow (last_epoch 0 (jn_entries j))"
    and room: "length (jn_entries j) + length (recovery_bodies (fresh_epoch (last_epoch 0 (jn_entries j)))
      (recovered_base (env_hash env) (jn_entries j))) \<le> unat (max_persisted_records (co_limits c))"
  shows "is_ok (snd (coordinator_start io env (Some (jn_disk j)) c))"
proof -
  let ?path = "cfg_persistence_path (co_config c)" and ?es = "jn_entries j"
  let ?bodies = "recovery_bodies (fresh_epoch (last_epoch 0 ?es)) (recovered_base (env_hash env) ?es)"
  have image: "jn_disk j = journal_image ?es" "readable_journal (clamp_to_hard_ceiling (co_limits c)) ?es"
    and limits: "clamp_to_hard_ceiling (co_limits c) = co_limits c" and path: "?path \<noteq> []"
    using disk by (simp_all add: survives_def journal_file_ok_def)
  obtain j1 where j1: "journal_open io ?path (co_limits c) (Some (jn_disk j)) = (j1, Inr ())"
    "jn_entries j1 = ?es" "jn_limits j1 = co_limits c" "\<not> jn_failed j1" "jn_open j1"
    using open_image [OF assms(3,4) image(2), of ?path]
    by (simp add: image(1) limits reset_journal_def open_in_memory_def)
  define es where "es = assign_sequences ?bodies (jn_next_sequence j1)"
  obtain c1 where rec: "recover env True j1 c = (c1, Inr es)" "co_journal c1 = j1"
    using epoch j1(2) by (simp add: recover_def Let_def es_def recovered_base_def)
  have "\<exists>j2. append_all (journal_append env) j1 es = (j2, Inr ())"
    by (rule append_all_succeeds)
       (use j1 room works in \<open>auto simp: es_def dest!: assigned_bodies intro: recovery_bodies_encode\<close>)
  then have "is_ok (snd (append_entries env es c1))"
    by (auto simp: append_entries_def rec(2) is_ok_iff)
  then show ?thesis
    using j1(1,5) path rec(1) assms(2)
    by (auto simp: coordinator_start_def opened_def start_with_def is_ok_iff split: prod.splits)
qed

text \<open>
  A restart never gets stuck on its own records: from a healthy, readable file, with a working file
  system, an epoch left and room for the recovery records, the coordinator starts. The recovery records
  always encode.
\<close>

theorem restart_succeeds:
  assumes disk: "survives j c" and "\<not> co_started c" and "oi_read io" and "oi_reopen io"
    and works: "env_io env = (\<lambda>_. IO_Ok)" and epoch: "\<not> advance_would_overflow (last_epoch 0 (jn_entries j))"
    and room: "length (jn_entries j) + length (recovery_bodies (fresh_epoch (last_epoch 0 (jn_entries j)))
      (recovered_base (env_hash env) (jn_entries j))) \<le> unat (max_persisted_records (co_limits c))"
  shows "is_ok (snd (coordinator_start io env (Some (jn_disk j)) c))"
  by (rule start_succeeds [OF assms])

section \<open>A coordinator on a file\<close>

lemma image_length:
  "list_all (readable_entry lim) es \<Longrightarrow> length (journal_image es) \<le> 40 + 8388628 * length es"
proof (induction es)
  case Nil
  then show ?case
    by (simp add: journal_image_def journal_body_bytes_def)
next
  case (Cons e es)
  then show ?case
    by (simp add: journal_image_def journal_body_bytes_def record_length readable_entry_def
        kHardMaxJournalRecordBytes_def)
qed

definition durable_config :: coordinator_config where
  "durable_config = plain_config\<lparr> cfg_persistence_path := ''journal'' \<rparr>"

definition old_entries :: "journal_entry list" where
  "old_entries = assign_sequences restored_bodies 1"

definition old_file :: journal where
  "old_file = (open_in_memory default_limits)
    \<lparr> jn_open := True, jn_disk := journal_image old_entries, jn_entries := old_entries,
      jn_next_sequence := 5, jn_valid_end := of_nat (length (journal_body_bytes old_entries)),
      jn_running_crc := crc32 (journal_body_bytes old_entries) \<rparr>"

definition all_entries :: "journal_entry list" where
  "all_entries = old_entries @ [\<lparr> je_sequence = 5, je_body = JR_EpochEstablished 2 \<rparr>]"

definition on_disk :: coordinator where
  "on_disk = fst (exec (world sha256 (\<lambda>_. IO_Ok)) (Cmd_Start (Inr old_file)) (new_coordinator durable_config))"

lemma restored_review_fits: "fits_review_record (clamp_to_hard_ceiling default_limits) restored_review"
  by (simp add: fits_review_record_def fits_review_spec_def restored_review_def restored_spec_def
      default_review_spec_def default_predicates_def clamp_to_hard_ceiling_def clamp_into_def
      default_limits_def hard_ceilings id_valid_def zero_digest_def om_wf_def)

lemma all_entries_readable: "readable_journal (clamp_to_hard_ceiling default_limits) all_entries"
proof -
  let ?lim = "clamp_to_hard_ceiling default_limits"
  have "list_all (\<lambda>e. fits_journal_body ?lim (je_body e) \<and> short_batch (je_body e)) all_entries"
    by (simp add: all_entries_def old_entries_def restored_bodies_def restored_review_fits short_batch_def
        fits_decision_def restored_decision_def id_valid_def zero_digest_def fits_review_state_change_def
        state_change_def)
       (simp add: restored_review_def clamp_to_hard_ceiling_def clamp_into_def default_limits_def hard_ceilings)
  then have readable: "list_all (readable_entry ?lim) all_entries"
    using fitting_readable by (simp add: list_all_iff)
  have "length all_entries = 5"
    by (simp add: all_entries_def old_entries_def restored_bodies_def)
  then show ?thesis
    using readable image_length [OF readable]
    by (simp add: readable_journal_def)
       (simp add: all_entries_def old_entries_def restored_bodies_def clamp_to_hard_ceiling_def clamp_into_def
        default_limits_def hard_ceilings)
qed

lemma old_entries_readable: "readable_journal (clamp_to_hard_ceiling default_limits) old_entries"
  using all_entries_readable
  by (simp add: all_entries_def readable_journal_def sorted_wrt_append journal_image_def journal_body_bytes_def)

lemma old_file_ok: "journal_file_ok old_file"
  using image_length_bound [of old_entries "clamp_to_hard_ceiling default_limits"] old_entries_readable
  by (simp add: journal_file_ok_def old_file_def open_in_memory_def readable_journal_def)

definition new_epoch :: journal_entry where
  "new_epoch = \<lparr> je_sequence = 5, je_body = JR_EpochEstablished 2 \<rparr>"

lemma on_disk_append:
  "journal_append (world sha256 (\<lambda>_. IO_Ok)) old_file new_epoch =
     (fst (journal_append (world sha256 (\<lambda>_. IO_Ok)) old_file new_epoch), Inr ())"
  by (simp add: journal_append_def old_file_def new_epoch_def old_entries_def restored_bodies_def world_def
      in_memory_simps Let_def open_in_memory_def)

lemma on_disk_journal:
  "journal_file_ok (fst (journal_append (world sha256 (\<lambda>_. IO_Ok)) old_file new_epoch))
   \<and> jn_entries (fst (journal_append (world sha256 (\<lambda>_. IO_Ok)) old_file new_epoch)) = all_entries"
proof -
  have stamp: "stamp_entry old_file new_epoch = new_epoch"
    by (simp add: stamp_entry_def old_file_def new_epoch_def open_in_memory_def)
  have "unat (jn_valid_end old_file) = length (journal_body_bytes old_entries)"
    using old_file_ok by (simp add: journal_file_ok_def old_file_def)
  moreover have "length (journal_body_bytes old_entries) \<le> 4294967295"
    using old_entries_readable unat_less_4294967296 [of "max_persistence_file_bytes (clamp_to_hard_ceiling default_limits)"]
    by (simp add: readable_journal_def journal_image_def)
  moreover have "length (journal_record new_epoch) = 30"
    by (simp add: record_length new_epoch_def in_memory_simps)
  ultimately have room: "unat (jn_valid_end old_file) + length (journal_record (stamp_entry old_file new_epoch)) < 2 ^ 64"
    by (simp add: stamp)
  show ?thesis
    using append_keeps_file [OF old_file_ok on_disk_append room]
    by (simp add: stamp) (simp add: all_entries_def new_epoch_def old_file_def)
qed

lemma on_disk_recover:
  "recover (world sha256 (\<lambda>_. IO_Ok)) True old_file (new_coordinator durable_config) =
     (fst (recover (world sha256 (\<lambda>_. IO_Ok)) True old_file (new_coordinator durable_config)), Inr [new_epoch])"
  "co_journal (fst (recover env True old_file (new_coordinator durable_config))) = old_file"
  "\<not> co_persistence_failed (fst (recover env True old_file (new_coordinator durable_config)))"
  "holds_decision 3 restored_decision (co_state (fst (recover (world sha256 (\<lambda>_. IO_Ok)) True old_file
     (new_coordinator durable_config))))"
  by (simp_all add: restored_simps old_file_def old_entries_def durable_config_def new_epoch_def holds_decision_def)

lemma on_disk_state:
  "co_journal on_disk = fst (journal_append (world sha256 (\<lambda>_. IO_Ok)) old_file new_epoch)
   \<and> \<not> co_persistence_failed on_disk \<and> holds_decision 3 restored_decision (co_state on_disk)"
proof -
  let ?env = "world sha256 (\<lambda>_. IO_Ok)"
  obtain c1 where c1: "recover ?env True old_file (new_coordinator durable_config) = (c1, Inr [new_epoch])"
    "co_journal c1 = old_file" "\<not> co_persistence_failed c1" "holds_decision 3 restored_decision (co_state c1)"
    using on_disk_recover by (metis fst_conv)
  obtain j2 where j2: "journal_append ?env old_file new_epoch = (j2, Inr ())"
    using on_disk_append by blast
  then have "append_entries ?env [new_epoch] c1 = (c1\<lparr> co_journal := j2 \<rparr>, Inr ())"
    by (simp add: append_entries_def c1)
  then have "start_with ?env (Inr old_file) (new_coordinator durable_config) =
      (c1\<lparr> co_journal := j2, co_started := True \<rparr>, Inr ())"
    using c1(1) by (simp add: start_with_def new_coordinator_def old_file_def)
  then show ?thesis
    using c1 j2 by (simp add: on_disk_def)
qed

lemma on_disk_reachable: "reachable sha256 on_disk"
  unfolding on_disk_def
  by (intro reachable.intros)
     (simp add: old_file_def old_entries_def restored_bodies_def declares_in_range_def restored_review_def)

lemma durable_limits:
  "co_limits (new_coordinator durable_config) = clamp_to_hard_ceiling default_limits"
  "clamp_to_hard_ceiling (clamp_to_hard_ceiling default_limits) = clamp_to_hard_ceiling default_limits"
  by (simp_all add: new_coordinator_def durable_config_def plain_config_def clamp_to_hard_ceiling_def
      clamp_into_def default_limits_def hard_ceilings)

lemma on_disk_survives: "survives (co_journal on_disk) (new_coordinator durable_config)"
  using on_disk_state on_disk_journal all_entries_readable
  by (simp add: survives_def durable_limits) (simp add: new_coordinator_def durable_config_def)

lemma second_start:
  "\<not> co_started (new_coordinator durable_config)" "oi_read io_works" "oi_reopen io_works"
  "env_io (world sha256 (\<lambda>_. IO_Ok)) = (\<lambda>_. IO_Ok)"
  "\<not> advance_would_overflow (last_epoch 0 (jn_entries (co_journal on_disk)))"
  "length (jn_entries (co_journal on_disk))
     + length (recovery_bodies (fresh_epoch (last_epoch 0 (jn_entries (co_journal on_disk))))
         (recovered_base (env_hash (world sha256 (\<lambda>_. IO_Ok))) (jn_entries (co_journal on_disk))))
     \<le> unat (max_persisted_records (co_limits (new_coordinator durable_config)))"
proof -
  have entries: "jn_entries (co_journal on_disk) = all_entries"
    using on_disk_state on_disk_journal by simp
  show "\<not> co_started (new_coordinator durable_config)" "oi_read io_works" "oi_reopen io_works"
    "env_io (world sha256 (\<lambda>_. IO_Ok)) = (\<lambda>_. IO_Ok)"
    by (simp_all add: new_coordinator_def io_works_def world_def)
  show "\<not> advance_would_overflow (last_epoch 0 (jn_entries (co_journal on_disk)))"
    unfolding entries by (simp add: all_entries_def old_entries_def restored_bodies_def advance_would_overflow_def)
  show "length (jn_entries (co_journal on_disk))
     + length (recovery_bodies (fresh_epoch (last_epoch 0 (jn_entries (co_journal on_disk))))
         (recovered_base (env_hash (world sha256 (\<lambda>_. IO_Ok))) (jn_entries (co_journal on_disk))))
     \<le> unat (max_persisted_records (co_limits (new_coordinator durable_config)))"
    unfolding entries durable_limits
    by (simp add: restored_simps all_entries_def old_entries_def recovered_base_def)
       (simp add: clamp_to_hard_ceiling_def clamp_into_def default_limits_def hard_ceilings)
qed

theorem restart_succeeds_witness:
  "is_ok (snd (coordinator_start io_works (world sha256 (\<lambda>_. IO_Ok)) (Some (jn_disk (co_journal on_disk)))
     (new_coordinator durable_config)))"
  by (rule restart_succeeds [OF on_disk_survives second_start])

theorem restart_from_disk_witness:
  "\<exists>c1. coordinator_start io_works (world sha256 (\<lambda>_. IO_Ok)) (Some (jn_disk (co_journal on_disk)))
      (new_coordinator durable_config) = (c1, Inr ()) \<and> holds_decision 3 restored_decision (co_state c1)"
proof -
  let ?start = "coordinator_start io_works (world sha256 (\<lambda>_. IO_Ok)) (Some (jn_disk (co_journal on_disk)))
      (new_coordinator durable_config)"
  have "is_ok (snd ?start)"
    by (rule start_succeeds [OF on_disk_survives second_start])
  then obtain c1 where start: "?start = (c1, Inr ())"
    by (cases ?start) (auto simp: is_ok_iff)
  have "holds_decision 3 restored_decision (co_state c1)"
    using restart_from_disk [OF on_disk_reachable _ on_disk_survives start] on_disk_state by blast
  with start show ?thesis
    by blast
qed

end
