(* ===== verification/CF_Overlong.thy ===== *)
theory CF_Overlong
  imports CF_Durable
begin

text \<open>
  Records the journal accepts and the next start refuses. A writer bounds a string by the hard ceiling, a
  reader by the configured \<open>max_metadata_string_bytes\<close>; a record between the two bounds is appended, and
  the file that holds it never opens again under the same limits.

  \<open>spoils e d\<close> is the counterpart of \<open>codec\<close>: whatever \<open>e\<close> wrote, \<open>d\<close> refuses it. Its rules follow
  those of \<open>codec\<close> field by field up to the string that is too long.
\<close>

section \<open>Fields a decoder refuses\<close>

text \<open>A reader that has failed stays failed, and the decoder reports it.\<close>

definition idles :: "'a decoder \<Rightarrow> bool" where
  "idles d \<longleftrightarrow> (\<forall>r. \<not> rd_ok r \<longrightarrow> (\<exists>x. run_state d r = (x, r)))"

definition gives_up :: "'a result decoder \<Rightarrow> bool" where
  "gives_up d \<longleftrightarrow> (\<forall>r. \<not> rd_ok r \<longrightarrow> (\<exists>err r'. run_state d r = (Inl err, r')))"

lemma failed_field: "\<not> rd_ok r \<Longrightarrow> run_state (rd_field n zero f) r = (zero, r)"
  by (simp add: rd_field_def rd_need_def)

lemma idles_fields: "idles r_u32" "idles r_u64" "idles r_boolean" "idles (r_string m)"
  by (auto simp: idles_def r_u32_def r_u64_def r_boolean_def r_u8_def r_string_def failed_field rd_is_ok_def)

lemma gives_up_bind: "idles d \<Longrightarrow> (\<And>x. gives_up (k x)) \<Longrightarrow> gives_up (State_Monad.bind d k)"
  unfolding idles_def gives_up_def by (metis run_state_bind split_conv)

lemma gives_up_finish: "gives_up (finish_read valid x)"
  by (simp add: gives_up_def finish_read_def try_read_def rd_get_status_def rd_status_def)

text \<open>\<open>refuses d bs\<close>: the decoder reports an error on every input that begins with \<open>bs\<close>.\<close>

definition refuses :: "'a result decoder \<Rightarrow> bytes \<Rightarrow> bool" where
  "refuses d bs \<longleftrightarrow> (\<forall>r rest. rd_ok r \<longrightarrow> rd_rest r = bs @ rest \<longrightarrow> (\<exists>err r'. run_state d r = (Inl err, r')))"

lemma refuses_bind:
  assumes d: "reads d bs x" and k: "refuses (k x) cs"
  shows "refuses (State_Monad.bind d k) (bs @ cs)"
  unfolding refuses_def
proof (intro allI impI)
  fix r :: reader and rest
  assume r: "rd_ok r" "rd_rest r = (bs @ cs) @ rest"
  have "run_state d r = (x, r\<lparr> rd_rest := cs @ rest \<rparr>)"
    using readsD [OF d r(1), of "cs @ rest"] r(2) by simp
  moreover have "\<exists>err r'. run_state (k x) (r\<lparr> rd_rest := cs @ rest \<rparr>) = (Inl err, r')"
    using k r(1) unfolding refuses_def by (metis reader.select_convs(1) reader.select_convs(2) reader.surjective reader.update_convs(1))
  ultimately show "\<exists>err r'. run_state (State_Monad.bind d k) r = (Inl err, r')"
    by simp
qed

lemma refuses_string:
  assumes long: "unat m < length v" and size: "length v < 2 ^ 32" and k: "\<And>x. gives_up (k x)"
  shows "refuses (State_Monad.bind (r_string m) k) (be32 (of_nat (length v)))"
  unfolding refuses_def
proof (intro allI impI)
  fix r :: reader and rest
  assume r: "rd_ok r" "rd_rest r = be32 (of_nat (length v)) @ rest"
  have "unat (of_nat (length v) :: u32) = length v"
    using size by (simp add: unat_of_nat)
  then have over: "m < of_nat (length v)"
    using long by (simp add: word_less_nat_alt)
  have "run_state r_u32 r = (of_nat (length v), r\<lparr> rd_rest := rest \<rparr>)"
    by (rule readsD [OF reads_ints(2) r])
  then have "\<exists>x r'. run_state (r_string m) r = (x, r') \<and> \<not> rd_ok r'"
    using r(1) over by (simp add: r_string_def rd_is_ok_def rd_raise_def set_fault_def)
  then show "\<exists>err r'. run_state (State_Monad.bind (r_string m) k) r = (Inl err, r')"
    using k by (auto simp: gives_up_def)
qed

lemma refuses_try:
  assumes "refuses d bs"
  shows "refuses (try_read d k) bs"
  unfolding refuses_def
proof (intro allI impI)
  fix r :: reader and rest
  assume "rd_ok r" "rd_rest r = bs @ rest"
  with assms obtain err r' where "run_state d r = (Inl err, r')"
    unfolding refuses_def by blast
  then show "\<exists>err r'. run_state (try_read d k) r = (Inl err, r')"
    by (simp add: try_read_def)
qed

lemma refuses_more:
  assumes "refuses d bs"
  shows "refuses d (bs @ cs)"
  unfolding refuses_def
proof (intro allI impI)
  fix r :: reader and rest
  assume "rd_ok r" "rd_rest r = (bs @ cs) @ rest"
  then show "\<exists>err r'. run_state d r = (Inl err, r')"
    using assms [unfolded refuses_def, rule_format, of r "cs @ rest"] by simp
qed

text \<open>\<open>spoils e d\<close>, the counterpart of \<open>codec\<close>: whatever \<open>e\<close> wrote, \<open>d\<close> refuses it.\<close>

definition spoils :: "(writer \<Rightarrow> writer) \<Rightarrow> 'a result decoder \<Rightarrow> bool" where
  "spoils e d \<longleftrightarrow> w_step e \<and> (\<forall>w. wr_ok w \<longrightarrow> wr_ok (e w) \<longrightarrow>
     (\<exists>bs. wr_buffer (e w) = wr_buffer w @ bs \<and> refuses d bs))"

lemma spoils_Cons:
  assumes e: "codec e d x" and f: "spoils (w_seq es) (k x)"
  shows "spoils (w_seq (e # es)) (State_Monad.bind d k)"
  unfolding spoils_def w_seq_Cons
proof (intro conjI allI impI)
  have steps: "w_step e" "w_step (w_seq es)"
    using codec_step [OF e] f by (simp_all add: spoils_def)
  show "w_step (\<lambda>w. w_seq es (e w))"
    by (rule w_step_comp [OF steps])
  fix w assume w: "wr_ok w" "wr_ok (w_seq es (e w))"
  have mid: "wr_ok (e w)"
    by (rule w_step_ok [OF steps(2) w(2)])
  obtain bs where bs: "wr_buffer (e w) = wr_buffer w @ bs" "reads d bs x"
    using codecD [OF e w(1) mid] by blast
  obtain cs where cs: "wr_buffer (w_seq es (e w)) = wr_buffer (e w) @ cs" "refuses (k x) cs"
    using f mid w(2) unfolding spoils_def by blast
  show "\<exists>bs. wr_buffer (w_seq es (e w)) = wr_buffer w @ bs \<and> refuses (State_Monad.bind d k) bs"
    using bs(1) cs(1) refuses_bind [where k = k, OF bs(2) cs(2)] by auto
qed

lemma spoils_string:
  assumes long: "unat m < length v" and step: "\<forall>f \<in> set es. w_step f" and k: "\<And>x. gives_up (k x)"
  shows "spoils (w_seq (w_string v n # es)) (State_Monad.bind (r_string m) k)"
  unfolding spoils_def w_seq_Cons
proof (intro conjI allI impI)
  show "w_step (\<lambda>w. w_seq es (w_string v n w))"
    by (rule w_step_comp [OF w_step_string w_step_seq [OF step]])
  fix w assume w: "wr_ok w" "wr_ok (w_seq es (w_string v n w))"
  have mid: "wr_ok (w_string v n w)"
    by (rule w_step_ok [OF w_step_seq [OF step] w(2)])
  then have small: "length v \<le> unat n"
    using w(1) by (auto simp: w_string_def w_fail_def split: if_splits)
  then have size: "length v < 2 ^ 32"
    using unat_less_4294967296 [of n] by simp
  let ?len = "w_u32 (of_nat (length v)) w"
  have split: "w_string v n w = w_raw (string_bytes v) ?len"
    using small by (simp add: w_string_def)
  have "wr_ok ?len"
    using mid split w_step_ok [OF w_step_raw] by metis
  then have "wr_buffer ?len = wr_buffer w @ be32 (of_nat (length v))"
    unfolding w_u32_def by (rule w_append_ok)
  moreover obtain bs where "wr_buffer (w_raw (string_bytes v) ?len) = wr_buffer ?len @ bs"
    using w_step_raw [of "string_bytes v"] unfolding w_step_def w_extends_def by blast
  ultimately have "wr_buffer (w_string v n w) = wr_buffer w @ be32 (of_nat (length v)) @ bs"
    by (simp add: split)
  moreover obtain cs where "wr_buffer (w_seq es (w_string v n w)) = wr_buffer (w_string v n w) @ cs"
    using w_step_seq [OF step] unfolding w_step_def w_extends_def by blast
  ultimately show "\<exists>bs. wr_buffer (w_seq es (w_string v n w)) = wr_buffer w @ bs
      \<and> refuses (State_Monad.bind (r_string m) k) bs"
    using refuses_more [OF refuses_string [OF long size k]] by auto
qed

lemma spoils_try: "spoils e d \<Longrightarrow> spoils e (try_read d k)"
  unfolding spoils_def using refuses_try by blast

section \<open>A state change with too long a detail\<close>

lemma overlong_detail_spoils:
  assumes "unat (max_metadata_string_bytes lim) < length (rv_detail v)"
  shows "spoils (enc_review_state_change v) (dec_review_state_change lim)"
  unfolding enc_review_state_change_def dec_review_state_change_def
  by (intro spoils_Cons [OF codec_ints(3)] spoils_Cons [OF codec_ints(3)])
     (rule codecs spoils_Cons spoils_string gives_up_bind idles_fields gives_up_finish assms | simp add: w_steps)+

lemma spoils_checked:
  assumes "spoils e k"
  shows "spoils e (try_read rd_get_status (\<lambda>_. k))"
proof -
  have "refuses (try_read rd_get_status (\<lambda>_. k)) bs" if "refuses k bs" for bs
    using refuses_bind [OF reads_status, of "case_sum (\<lambda>err. State_Monad.return (Inl err)) (\<lambda>_. k)" bs] that
    by (simp add: try_read_def)
  with assms show ?thesis
    unfolding spoils_def by meson
qed

lemma spoils_payload:
  assumes "unat (max_metadata_string_bytes lim) < length (rv_detail v)"
  shows "spoils (enc_journal_entry \<lparr> je_sequence = n, je_body = JR_ReviewStateChanged v \<rparr>) (dec_journal_entry lim)"
proof -
  have "spoils (enc_review_state_change v) (dec_one (dec_review_state_change lim) JR_ReviewStateChanged)"
    unfolding dec_one_def by (rule spoils_try [OF overlong_detail_spoils [OF assms]])
  then have "spoils (w_seq [w_u16 13, enc_review_state_change v]) (dec_journal_entry lim)"
    unfolding dec_journal_entry_def
    by (intro spoils_Cons [OF codec_ints(1)])
       (simp add: w_seq_Cons w_seq_Nil spoils_checked is_valid_journal_record_type_def dec_journal_payload_def)
  then show ?thesis
    by (simp add: enc_journal_entry_def)
qed

lemma spoiled_payload_refused:
  assumes "spoils (enc_journal_entry e) (dec_journal_entry lim)" and "wr_ok (payload_writer e)"
  shows "\<not> is_ok (dec_record_payload lim (wr_buffer (payload_writer e)))"
proof -
  have "wr_ok empty_writer" "wr_buffer empty_writer = []"
    by (simp_all add: empty_writer_def)
  then have "refuses (dec_journal_entry lim) (wr_buffer (payload_writer e))"
    using assms unfolding spoils_def payload_writer_def by (metis append_Nil)
  then obtain err r' where
    "run_state (dec_journal_entry lim) (new_reader journal_reader_policy (wr_buffer (payload_writer e))) = (Inl err, r')"
    unfolding refuses_def new_reader_def by (metis append_Nil2 reader.select_convs(1,2))
  then show ?thesis
    by (simp add: dec_record_payload_def)
qed

lemma overlong_payload_refused:
  assumes "je_body e = JR_ReviewStateChanged v" and "unat (max_metadata_string_bytes lim) < length (rv_detail v)"
    and "wr_ok (payload_writer e)"
  shows "\<not> is_ok (dec_record_payload lim (wr_buffer (payload_writer e)))"
proof -
  have "e = \<lparr> je_sequence = je_sequence e, je_body = JR_ReviewStateChanged v \<rparr>"
    using assms(1) by simp
  with spoils_payload [OF assms(2), of "je_sequence e"] assms(3) spoiled_payload_refused show ?thesis
    by metis
qed

section \<open>A file with such a record does not open\<close>

definition scannable :: "runtime_limits \<Rightarrow> journal_entry \<Rightarrow> bool" where
  "scannable lim e \<longleftrightarrow> is_ok (dec_record_payload lim (wr_buffer (payload_writer e)))"

lemma scan_record_decodes:
  assumes scan: "scan_record lim (journal_record e @ rest) previous count = Inr (e', used)"
    and size: "length (wr_buffer (payload_writer e)) < 2 ^ 32"
  shows "scannable lim e \<and> used = length (journal_record e)"
proof -
  let ?p = "wr_buffer (payload_writer e)"
  have len: "unat (of_nat (length ?p) :: u32) = length ?p"
    using size by (simp add: unat_of_nat)
  have field: "field_at 4 4 (journal_record e @ rest) = (of_nat (length ?p) :: u32)"
    by (simp add: field_at_def journal_record_def Let_def)
  have payload: "take (length ?p) (drop 20 (journal_record e @ rest)) = ?p"
    by (simp add: journal_record_def Let_def)
  show ?thesis
    using scan payload
    by (auto simp: scan_record_def Let_def field len kRecordHeaderBytes_def map_sum_Inr scannable_def
        is_ok_iff record_length simp del: drop_append take_append split: if_splits)
qed

lemma scan_records_decodes:
  assumes "scan_records lim (concat (map journal_record es)) previous count = (es', Inr done)"
    and "\<forall>e \<in> set es. length (wr_buffer (payload_writer e)) < 2 ^ 32"
  shows "\<forall>e \<in> set es. scannable lim e"
  using assms
proof (induction es arbitrary: previous count es')
  case (Cons e es)
  let ?rest = "concat (map journal_record es)"
  obtain e1 used es1 where first: "scan_record lim (journal_record e @ ?rest) previous count = Inr (e1, used)"
    and more: "scan_records lim (drop used (journal_record e @ ?rest)) (je_sequence e1) (count + 1) = (es1, Inr done)"
    using Cons.prems(1)
    by (subst (asm) scan_records.simps) (auto simp: record_not_nil split: sum.splits prod.splits)
  have "scannable lim e" "used = length (journal_record e)"
    using scan_record_decodes [OF first] Cons.prems(2) by simp_all
  with Cons.IH [of "je_sequence e1" "count + 1" es1] more Cons.prems(2) show ?case
    by simp
qed simp

lemma record_in_image: "e \<in> set es \<Longrightarrow> length (wr_buffer (payload_writer e)) \<le> length (journal_image es)"
proof (induction es)
  case (Cons x xs)
  then show ?case
    by (auto simp: journal_image_def journal_body_bytes_def record_length)
qed simp

lemma open_decodes:
  assumes "journal_open io path limits (Some (journal_image es)) = (j, Inr u)" and "e \<in> set es"
  shows "scannable (clamp_to_hard_ceiling limits) e"
proof -
  let ?lim = "clamp_to_hard_ceiling limits"
  have loaded: "journal_load io (reset_journal path limits) (journal_image es) = (j, Inr ())"
    using assms(1) by (simp add: journal_open_def)
  have body: "take (length (journal_image es) - 24) (journal_image es) = journal_body_bytes es"
    by (simp add: journal_image_def)
  obtain count final where scan: "scan_records ?lim (concat (map journal_record es)) 0 0 = (jn_entries j, Inr (final, count))"
    and size: "length (journal_image es) \<le> unat (max_persistence_file_bytes ?lim)"
    using load_accepts [OF loaded] by (auto simp: reset_journal_def open_in_memory_def body body_bytes_parts(3))
  have "\<forall>x \<in> set es. length (wr_buffer (payload_writer x)) < 2 ^ 32"
    using record_in_image size unat_less_4294967296 [of "max_persistence_file_bytes ?lim"]
    by (auto intro: le_less_trans dest: order_trans)
  with scan_records_decodes [OF scan] assms(2) show ?thesis
    by blast
qed

lemma start_opens:
  assumes "is_ok (snd (coordinator_start io env (Some raw) c))" and "cfg_persistence_path (co_config c) \<noteq> []"
  shows "\<exists>j. journal_open io (cfg_persistence_path (co_config c)) (co_limits c) (Some raw) = (j, Inr ())"
  using assms
  by (cases "journal_open io (cfg_persistence_path (co_config c)) (co_limits c) (Some raw)")
     (auto simp: coordinator_start_def opened_def start_with_def split: if_splits sum.splits)

text \<open>No coordinator starts on a file that holds such a record.\<close>

lemma unreadable_record_blocks_start:
  assumes "journal_file_ok j" and "cfg_persistence_path (co_config c) \<noteq> []" and "e \<in> set (jn_entries j)"
    and "\<not> scannable (clamp_to_hard_ceiling (co_limits c)) e"
  shows "\<not> is_ok (snd (coordinator_start io env (Some (jn_disk j)) c))"
proof
  assume start: "is_ok (snd (coordinator_start io env (Some (jn_disk j)) c))"
  have "jn_disk j = journal_image (jn_entries j)"
    using assms(1) by (simp add: journal_file_ok_def)
  then obtain j1 where "journal_open io (cfg_persistence_path (co_config c)) (co_limits c)
      (Some (journal_image (jn_entries j))) = (j1, Inr ())"
    using start_opens [OF start assms(2)] by auto
  from open_decodes [OF this assms(3)] assms(4) show False
    by simp
qed

end
