(* ===== verification/CF_Committed.thy ===== *)
theory CF_Committed
  imports CF_Overlong
begin

text \<open>
  A commit and its records in the journal file: every record of the batch encodes, so a commit that
  passes the guards goes through; the review then holds the decision and is COMMITTED; and the detail
  of its RESOLVED record, which begins with the summary of the specification, can be longer than what a
  start on the file accepts.
\<close>

section \<open>Every appended record encodes\<close>

lemma append_encodes:
  "journal_append env j e = (j1, Inr u) \<Longrightarrow> wr_ok (payload_writer (stamp_entry j e))
   \<and> jn_entries j1 = jn_entries j @ [stamp_entry j e]"
  by (auto simp: journal_append_def Let_def journal_advance_def w_status_def split: if_splits append_io.splits)

lemma append_all_encodes:
  "append_all (journal_append env) j es = (j1, Inr u) \<Longrightarrow>
     \<exists>new. jn_entries j1 = jn_entries j @ new \<and> (\<forall>e \<in> set new. wr_ok (payload_writer e))"
proof (induction es arbitrary: j)
  case (Cons x xs)
  then obtain j2 where step: "journal_append env j x = (j2, Inr ())"
    and more: "append_all (journal_append env) j2 xs = (j1, Inr u)"
    by (auto split: prod.splits sum.splits)
  show ?case
    using Cons.IH [OF more] append_encodes [OF step] by auto
qed simp

lemma body_assigned: "b \<in> set bs \<Longrightarrow> \<exists>e \<in> set (assign_sequences bs n). je_body e = b"
  by (induction bs n rule: assign_sequences.induct) auto

lemma publish_encodes:
  assumes "publish env bs c = (c1, Inr u)" and "b \<in> set bs"
  shows "\<exists>e \<in> set (jn_entries (co_journal c1)). je_body e = b \<and> wr_ok (payload_writer e)"
proof -
  have "append_all (journal_append env) (co_journal c) (assign_sequences bs (jn_next_sequence (co_journal c)))
      = (co_journal c1, Inr ())"
    using assms(1) by (auto simp: publish_def append_entries_def Let_def split: prod.splits sum.splits)
  then obtain new where "jn_entries (co_journal c1) = jn_entries (co_journal c) @ new"
    "\<forall>e \<in> set new. wr_ok (payload_writer e)"
    using append_all_encodes by blast
  with publish_journal [OF assms(1)] body_assigned [OF assms(2)] show ?thesis
    by fastforce
qed

lemma commit_publishes:
  assumes "commit_review env q c = (c1, Inr d)" and "find_slot (co_state c) (cm_review q) = Some sl"
    and "sl_decision sl = None"
  shows "\<exists>c2. publish env (commit_entries (evaluate_slot (env_hash env) (co_state c) sl) (sl_record sl) d) c2
    = (c1, Inr ())"
  using assms
  by (auto simp: commit_review_def fail_with_def Let_def finish_def commit_guard_def next_decision_id_def result_bind_Inr_iff
      next_order_def bump_def split: sum.splits if_splits prod.splits option.splits)

section \<open>A commit goes through\<close>

lemma commit_entries_size:
  assumes "length (ex_policy_result (er_explanation ev)) \<le> 65536" and "length (d_decision_digest d) = 32"
    and "length (d_policy_digest d) = 32" and "length (d_evidence_basis_digest d) = 32"
    and b: "b \<in> set (commit_entries ev r d)"
  shows "writes (enc_journal_payload b) 140000"
proof -
  have change: "writes (enc_review_state_change (state_change r s disp detail)) 140000" if "length detail \<le> 65536" for s disp detail
    unfolding enc_review_state_change_def
    by (rule writes_mono, (rule size_rules | simp add: state_change_def that)+)
  have "writes (enc_decision d) 140000"
    unfolding enc_decision_def by (rule writes_mono, (rule size_rules | simp add: assms)+)
  with b change assms(1) show ?thesis
    by (auto simp: commit_entries_def)
qed

lemma commit_reaches_journal:
  assumes "mutation_guard c = Inr ()" and "commit_guard (co_state c) q = Inr sl"
    and "sl_decision sl = None" and "r_state (sl_record sl) \<noteq> RS_Committed"
  shows "\<exists>d c2. commit_review env q c = finish d (publish env
      (commit_entries (evaluate_slot (env_hash env) (co_state c) sl) (sl_record sl) d) c2)
    \<and> co_journal c2 = co_journal c \<and> co_state c2 = co_state c
    \<and> (\<exists>i order. d = new_decision (env_hash env) (co_state c)
        (evaluate_slot (env_hash env) (co_state c) sl) sl i order)"
  using assms
  by (auto simp: commit_review_def Let_def next_decision_id_def next_order_def bump_def intro!: exI)

lemma publish_succeeds:
  assumes "\<not> jn_failed (co_journal c)"
    and "length (jn_entries (co_journal c)) + length bs \<le> unat (max_persisted_records (jn_limits (co_journal c)))"
    and "\<forall>b \<in> set bs. encodes b" and "env_io env = (\<lambda>_. IO_Ok)"
  shows "\<exists>c1. publish env bs c = (c1, Inr ())"
proof -
  have "\<exists>j1. append_all (journal_append env) (co_journal c) (assign_sequences bs (jn_next_sequence (co_journal c)))
      = (j1, Inr ())"
    by (rule append_all_succeeds) (use assms in \<open>auto dest: assigned_bodies\<close>)
  then show ?thesis
    by (auto simp: publish_def append_entries_def Let_def)
qed

lemma new_decision_digests:
  assumes "\<forall>bs. length (H bs) = 32" and "length (sl_policy_digest sl) = 32"
  shows "length (d_decision_digest (new_decision H st ev sl i order)) = 32"
    and "length (d_policy_digest (new_decision H st ev sl i order)) = 32"
    and "length (d_evidence_basis_digest (new_decision H st ev sl i order)) = 32"
  using assms
  by (simp_all add: new_decision_def Let_def commit_policy_digest_def compute_decision_digest_def
      compute_policy_digest_def compute_evidence_basis_digest_def hash_writes_def)

text \<open>What the batch of a commit does to the review: it holds the decision and is COMMITTED.\<close>

lemma assign_append:
  "assign_sequences (bs @ cs) n = assign_sequences bs n @ assign_sequences cs (n + of_nat (length bs))"
  by (induction bs n rule: assign_sequences.induct) (simp_all add: add.assoc)

lemma commit_entries_parts:
  obtains before where "commit_entries ev r d = before @ [JR_DecisionCommitted d,
      JR_ReviewStateChanged (state_change r RS_Committed (er_disposition ev) ''authoritative review result committed'')]"
    and "\<forall>b \<in> set before. \<exists>v. b = JR_ReviewStateChanged v"
  by (rule that [of "butlast (butlast (commit_entries ev r d))"])
     (auto simp: commit_entries_def butlast_append dest!: in_set_butlastD)

lemma committed_after_batch:
  assumes "has_generation (r_id r) (r_generation r) st" and "d_review d = r_id r"
    and "d_review_generation d = r_generation r"
  shows "holds_decision (r_id r) d (apply_entries H (assign_sequences (commit_entries ev r d) n) st)
    \<and> closed_as (r_id r) RS_Committed (apply_entries H (assign_sequences (commit_entries ev r d) n) st)"
proof -
  obtain before where parts: "commit_entries ev r d = before @ [JR_DecisionCommitted d,
      JR_ReviewStateChanged (state_change r RS_Committed (er_disposition ev) ''authoritative review result committed'')]"
    and changes: "\<forall>b \<in> set before. \<exists>v. b = JR_ReviewStateChanged v"
    by (rule commit_entries_parts)
  define st1 where "st1 = apply_entries H (assign_sequences before n) st"
  have "has_generation (r_id r) (r_generation r) st1"
    unfolding st1_def
  proof (rule apply_batch_invariant [where Q = "has_generation (r_id r) (r_generation r)", OF assms(1)])
    fix b n x assume "b \<in> set before" and x: "has_generation (r_id r) (r_generation r) x"
    with changes obtain v where "b = JR_ReviewStateChanged v"
      by blast
    with x slots_keyed_after_body [of x H n b] show "has_generation (r_id r) (r_generation r) (apply_body H n b x)"
      by (auto simp: has_generation_def)
  qed
  then obtain sl where "find_slot st1 (r_id r) = Some sl" "r_generation (sl_record sl) = r_generation r"
    by (auto simp: has_generation_def)
  then show ?thesis
    using assms(2,3)
    by (simp add: parts assign_append st1_def [symmetric] holds_decision_def closed_as_def state_change_def
        apply_decision_committed_def is_terminal_review_state_def)
qed

lemma commit_goes_through:
  assumes "mutation_guard c = Inr ()" and guard: "commit_guard (co_state c) q = Inr sl"
    and "sl_decision sl = None" and "r_state (sl_record sl) \<noteq> RS_Committed"
    and "\<not> jn_failed (co_journal c)" and keyed: "slots_keyed (co_state c)"
    and room: "length (jn_entries (co_journal c)) + length (path_to_evaluating (r_state (sl_record sl))) + 3
      \<le> unat (max_persisted_records (jn_limits (co_journal c)))"
    and "env_io env = (\<lambda>_. IO_Ok)" and digests: "\<forall>bs. length (env_hash env bs) = 32" "length (sl_policy_digest sl) = 32"
    and result: "length (ex_policy_result (er_explanation (evaluate_slot (env_hash env) (co_state c) sl))) \<le> 65536"
  shows "\<exists>c1 d. commit_review env q c = (c1, Inr d)
    \<and> d_disposition d = er_disposition (evaluate_slot (env_hash env) (co_state c) sl)
    \<and> holds_decision (cm_review q) d (co_state c1) \<and> closed_as (cm_review q) RS_Committed (co_state c1)"
proof -
  let ?ev = "evaluate_slot (env_hash env) (co_state c) sl" and ?r = "sl_record sl"
  obtain d c2 i order where c2: "commit_review env q c = finish d (publish env (commit_entries ?ev ?r d) c2)"
    "co_journal c2 = co_journal c" "co_state c2 = co_state c"
    and d: "d = new_decision (env_hash env) (co_state c) ?ev sl i order"
    using commit_reaches_journal [OF assms(1-4), of env] by blast
  have "writes (enc_journal_payload b) 140000" if "b \<in> set (commit_entries ?ev ?r d)" for b
    by (rule commit_entries_size [OF result _ _ _ that]) (simp_all add: d new_decision_digests [OF digests])
  then have "\<forall>b \<in> set (commit_entries ?ev ?r d). encodes b"
    using encodes_bounded [of _ 140000] by simp
  moreover have "length (commit_entries ?ev ?r d) = length (path_to_evaluating (r_state ?r)) + 3"
    by (simp add: commit_entries_def)
  ultimately obtain c1 where c1: "publish env (commit_entries ?ev ?r d) c2 = (c1, Inr ())"
    using publish_succeeds [of c2 "commit_entries ?ev ?r d" env] c2(2) assms(5,8) room by auto
  have slot: "find_slot (co_state c) (cm_review q) = Some sl"
    using guard by (auto simp: commit_guard_def Let_def result_bind_Inr_iff split: if_splits option.splits)
  then have id: "r_id ?r = cm_review q"
    using keyed by (simp add: slots_keyed_def)
  have "has_generation (r_id ?r) (r_generation ?r) (co_state c2)"
    using keyed slot by (simp add: has_generation_def id c2(3))
  from committed_after_batch [OF this, of d] publish_effect [OF c1] c1 c2(1) show ?thesis
    by (auto simp: finish_def d new_decision_def Let_def id)
qed

text \<open>
  C33. A commit never gets stuck: a request that passes the guards, on a review without a decision, with a
  working file system, room for at most nine records and a policy summary within the hard ceiling, returns
  a decision with the evaluated disposition; the review holds it and is COMMITTED.
\<close>

theorem commit_succeeds:
  assumes "mutation_guard c = Inr ()" and "commit_guard (co_state c) q = Inr sl"
    and "sl_decision sl = None" and "r_state (sl_record sl) \<noteq> RS_Committed"
    and "\<not> jn_failed (co_journal c)" and "slots_keyed (co_state c)"
    and "length (jn_entries (co_journal c)) + length (path_to_evaluating (r_state (sl_record sl))) + 3
      \<le> unat (max_persisted_records (jn_limits (co_journal c)))"
    and "env_io env = (\<lambda>_. IO_Ok)" and "\<forall>bs. length (env_hash env bs) = 32" and "length (sl_policy_digest sl) = 32"
    and "length (ex_policy_result (er_explanation (evaluate_slot (env_hash env) (co_state c) sl))) \<le> 65536"
  shows "\<exists>c1 d. commit_review env q c = (c1, Inr d)
    \<and> d_disposition d = er_disposition (evaluate_slot (env_hash env) (co_state c) sl)
    \<and> holds_decision (cm_review q) d (co_state c1) \<and> closed_as (cm_review q) RS_Committed (co_state c1)"
  by (rule commit_goes_through [OF assms])

lemma append_all_keeps_file:
  "journal_file_ok j \<Longrightarrow> append_all (journal_append env) j es = (j1, Inr u) \<Longrightarrow>
     (\<forall>e \<in> set es. writes (enc_journal_payload (je_body e)) 140000) \<Longrightarrow>
     unat (jn_valid_end j) + 150000 * length es < 2 ^ 64 \<Longrightarrow> journal_file_ok j1"
proof (induction es arbitrary: j)
  case (Cons e es)
  let ?r = "journal_record (stamp_entry j e)"
  obtain j2 where step: "journal_append env j e = (j2, Inr ())"
    and more: "append_all (journal_append env) j2 es = (j1, Inr u)"
    using Cons.prems(2) by (auto split: prod.splits sum.splits)
  have "writes (enc_journal_entry (stamp_entry j e)) (2 + (140000 + 0))"
    unfolding enc_journal_entry_def
    by (intro writes_Cons writes_ints writes_Nil) (use Cons.prems(3) in \<open>simp add: stamp_entry_def\<close>)
  then have size: "length ?r \<le> 150000"
    using writes_empty by (fastforce simp: record_length payload_writer_def)
  then have j2: "journal_file_ok j2" "jn_entries j2 = jn_entries j @ [stamp_entry j e]"
    using append_keeps_file [OF Cons.prems(1) step] Cons.prems(4) by simp_all
  then have "unat (jn_valid_end j2) = unat (jn_valid_end j) + length ?r"
    using Cons.prems(1) by (simp add: journal_file_ok_def body_bytes_snoc)
  with Cons.IH [OF j2(1) more] Cons.prems(3,4) size show ?case
    by simp
qed simp

lemma path_short: "length (path_to_evaluating s) \<le> 6"
  by (cases s) simp_all

lemma commit_keeps_file:
  assumes "commit_review env q c = (c1, Inr d)"
    and "mutation_guard c = Inr ()" and "commit_guard (co_state c) q = Inr sl"
    and "sl_decision sl = None" and "r_state (sl_record sl) \<noteq> RS_Committed"
    and disk: "journal_file_ok (co_journal c)" "unat (jn_valid_end (co_journal c)) < 2 ^ 63"
    and digests: "\<forall>bs. length (env_hash env bs) = 32" "length (sl_policy_digest sl) = 32"
    and result: "length (ex_policy_result (er_explanation (evaluate_slot (env_hash env) (co_state c) sl))) \<le> 65536"
  shows "journal_file_ok (co_journal c1)"
proof -
  let ?ev = "evaluate_slot (env_hash env) (co_state c) sl"
  obtain d' c2 i order where c2: "commit_review env q c = finish d' (publish env (commit_entries ?ev (sl_record sl) d') c2)"
    "co_journal c2 = co_journal c" and d': "d' = new_decision (env_hash env) (co_state c) ?ev sl i order"
    using commit_reaches_journal [OF assms(2-5), of env] by blast
  let ?es = "assign_sequences (commit_entries ?ev (sl_record sl) d') (jn_next_sequence (co_journal c))"
  have appended: "append_all (journal_append env) (co_journal c) ?es = (co_journal c1, Inr ())"
    using assms(1) c2
    by (auto simp: finish_def publish_def append_entries_def Let_def split: prod.splits sum.splits)
  have "writes (enc_journal_payload b) 140000" if "b \<in> set (commit_entries ?ev (sl_record sl) d')" for b
    by (rule commit_entries_size [OF result _ _ _ that]) (simp_all add: d' new_decision_digests [OF digests])
  then have "\<forall>e \<in> set ?es. writes (enc_journal_payload (je_body e)) 140000"
    using assigned_bodies by blast
  moreover have "length ?es \<le> 9"
    using path_short [of "r_state (sl_record sl)"] by (simp add: commit_entries_def)
  ultimately show ?thesis
    using append_all_keeps_file [OF disk(1) appended] disk(2) by simp
qed

section \<open>A commit the next start cannot read\<close>

lemma policy_result_long:
  "length (summarize (r_spec (ei_review inp))) \<le> length (ex_policy_result (er_explanation (evaluate_review H inp)))"
  by (simp add: evaluate_review_def finish_early_def finish_evaluation_def Let_def explain_phases_def ec_context
      seal_explanation_def split: option.splits prod.splits)

lemma overlong_commit_unreadable:
  assumes commit: "commit_review env q c = (c1, Inr d)"
    and slot: "find_slot (co_state c) (cm_review q) = Some sl" "sl_decision sl = None"
    and long: "unat (max_metadata_string_bytes (clamp_to_hard_ceiling (co_limits c0)))
      < length (summarize (r_spec (sl_record sl)))"
    and disk: "journal_file_ok (co_journal c1)" "cfg_persistence_path (co_config c0) \<noteq> []"
  shows "\<not> is_ok (snd (coordinator_start io env' (Some (jn_disk (co_journal c1))) c0))"
proof -
  let ?lim = "clamp_to_hard_ceiling (co_limits c0)" and ?ev = "evaluate_slot (env_hash env) (co_state c) sl"
  let ?v = "state_change (sl_record sl) RS_Resolved (er_disposition ?ev) (ex_policy_result (er_explanation ?ev))"
  obtain e where e: "e \<in> set (jn_entries (co_journal c1))" "je_body e = JR_ReviewStateChanged ?v"
    "wr_ok (payload_writer e)"
    using commit_publishes [OF commit slot] publish_encodes [of env _ _ c1 "()" "JR_ReviewStateChanged ?v"]
    by (fastforce simp: commit_entries_def)
  have "unat (max_metadata_string_bytes ?lim) < length (rv_detail ?v)"
    using long policy_result_long [of "build_evaluation_input (co_state c) sl" "env_hash env"]
    by (simp add: state_change_def evaluate_slot_def build_evaluation_input_def)
  then have "\<not> scannable ?lim e"
    using overlong_payload_refused [OF e(2) _ e(3)] by (simp add: scannable_def)
  from unreadable_record_blocks_start [OF disk e(1) this] show ?thesis .
qed

text \<open>
  C32. A commit can make the journal unreadable: the RESOLVED record carries the policy summary, which begins
  with the summary of the specification. When that is longer than \<open>max_metadata_string_bytes\<close> of the next
  coordinator, a commit that passes the guards, with a working file system, a healthy file and room,
  32-byte digests, and a result of the evaluation within the hard ceiling of 65536 bytes, still succeeds:
  the review holds its decision and is COMMITTED, and the file is the exact image of the journal; but no
  coordinator with those limits starts from that file, whatever its file system does.
\<close>

theorem commit_blocks_restart:
  assumes "mutation_guard c = Inr ()" and "commit_guard (co_state c) q = Inr sl"
    and "sl_decision sl = None" and "r_state (sl_record sl) \<noteq> RS_Committed" and "slots_keyed (co_state c)"
    and "journal_file_ok (co_journal c)" and "unat (jn_valid_end (co_journal c)) < 2 ^ 63"
    and "length (jn_entries (co_journal c)) + length (path_to_evaluating (r_state (sl_record sl))) + 3
      \<le> unat (max_persisted_records (jn_limits (co_journal c)))"
    and "env_io env = (\<lambda>_. IO_Ok)" and "\<forall>bs. length (env_hash env bs) = 32" and "length (sl_policy_digest sl) = 32"
    and "length (ex_policy_result (er_explanation (evaluate_slot (env_hash env) (co_state c) sl))) \<le> 65536"
    and "unat (max_metadata_string_bytes (clamp_to_hard_ceiling (co_limits c0)))
      < length (summarize (r_spec (sl_record sl)))"
    and "cfg_persistence_path (co_config c0) \<noteq> []"
  shows "\<exists>c1 d. commit_review env q c = (c1, Inr d)
    \<and> holds_decision (cm_review q) d (co_state c1) \<and> closed_as (cm_review q) RS_Committed (co_state c1)
    \<and> jn_disk (co_journal c1) = journal_image (jn_entries (co_journal c1))
    \<and> (\<forall>io env'. \<not> is_ok (snd (coordinator_start io env' (Some (jn_disk (co_journal c1))) c0)))"
proof -
  have open_file: "\<not> jn_failed (co_journal c)"
    using assms(6) by (simp add: journal_file_ok_def)
  obtain c1 d where run: "commit_review env q c = (c1, Inr d)" "holds_decision (cm_review q) d (co_state c1)"
      "closed_as (cm_review q) RS_Committed (co_state c1)"
    using commit_goes_through [OF assms(1-4) open_file assms(5,8-12)] by blast
  have on_disk: "journal_file_ok (co_journal c1)"
    by (rule commit_keeps_file [OF run(1) assms(1-4,6,7,10-12)])
  have slot: "find_slot (co_state c) (cm_review q) = Some sl"
    using assms(2) by (auto simp: commit_guard_def Let_def result_bind_Inr_iff split: if_splits option.splits)
  have "\<not> is_ok (snd (coordinator_start io env' (Some (jn_disk (co_journal c1))) c0))" for io env'
    by (rule overlong_commit_unreadable [OF run(1) slot assms(3,13) on_disk assms(14)])
  with run on_disk show ?thesis
    by (auto simp: journal_file_ok_def)
qed

section \<open>A commit, concretely\<close>

lemma disposition_name_short: "length (review_disposition_name v) \<le> 40"
  by (cases v) (simp_all add: review_disposition_name_def enum_lookup_def k_review_disposition_def)

lemma overlay_text_short: "length (snd (snd (apply_disagreement spec d vd))) \<le> max 100 (length (snd vd))"
  by (auto simp: apply_disagreement_def split: disagreement_policy.splits)

lemma guard_text_short: "length (snd (final_guards ec h vd)) \<le> max 100 (length (snd vd))"
  by (auto simp: final_guards_def Let_def)

lemma policy_result_short:
  assumes "eval_votes inp = []"
  shows "length (ex_policy_result (er_explanation (evaluate_review H inp)))
    \<le> length (summarize (r_spec (ei_review inp))) + 200"
proof -
  let ?ec = "context_of inp"
  have none: "denominator ?ec = 0"
    using assms by (simp add: denominator_def votes_in_def om_vals_def)
  have agg: "length (snd (aggregate ?ec rej)) \<le> 100" for rej
    by (simp add: aggregate_def none)
  let ?vd = "final_guards ?ec (fst (run_predicates ?ec))
    (snd (apply_disagreement (ec_spec ?ec) (ec_disagreement ?ec) (aggregate ?ec (run_predicates ?ec))))"
  have "length (snd (snd (apply_disagreement (ec_spec ?ec) (ec_disagreement ?ec) (aggregate ?ec (run_predicates ?ec))))) \<le> 100"
    using overlay_text_short [of "ec_spec ?ec" "ec_disagreement ?ec" "aggregate ?ec (run_predicates ?ec)"]
      agg [of "run_predicates ?ec"] by (simp add: max_absorb1)
  then have "length (snd ?vd) \<le> 100"
    using guard_text_short [of ?ec "fst (run_predicates ?ec)" "snd (apply_disagreement (ec_spec ?ec) (ec_disagreement ?ec)
      (aggregate ?ec (run_predicates ?ec)))"] by (simp add: max_absorb1)
  then have "length (review_disposition_name (fst ?vd)) + length (snd ?vd) \<le> 140"
    using disposition_name_short [of "fst ?vd"] by simp
  then show ?thesis
    by (auto simp: evaluate_review_def finish_early_def finish_evaluation_def Let_def explain_phases_def
        seal_explanation_def split: option.splits prod.splits)
qed

definition wordy_spec :: review_spec where
  "wordy_spec = default_review_spec\<lparr> sp_name := replicate 1000 CHR ''n'' \<rparr>"

definition wordy_slot :: review_slot where
  "wordy_slot =
    \<lparr> sl_record = sample_review wordy_spec, sl_policy_digest = sample_digest, sl_assignments = [],
      sl_findings = [], sl_evidences = [], sl_challenges = [], sl_rebuttals = [], sl_decision = None \<rparr>"

definition wordy :: coordinator where
  "wordy = (new_coordinator durable_config)
    \<lparr> co_started := True, co_journal := sample_journal,
      co_state := empty_state\<lparr> du_epoch := 1, du_reviews := [(1, wordy_slot)] \<rparr> \<rparr>"

definition wordy_commit :: commit_review_request where
  "wordy_commit =
    \<lparr> cm_review = 1, cm_review_generation = 1, cm_target_generation = 1, cm_epoch = 1,
      cm_request = 1, cm_include_rendered_explanation = False \<rparr>"

lemma wordy_admissible: "admissible_spec wordy_spec"
  by (simp add: admissible_spec_def wordy_spec_def default_review_spec_def default_predicates_def)

lemma wordy_summary: "1024 < length (summarize wordy_spec) \<and> length (summarize wordy_spec) \<le> 2000"
  by (simp add: summarize_def wordy_spec_def default_review_spec_def dec32_def dec_nat.simps bool_text_def
      aggregation_policy_name_def k_aggregation_policy_def critic_role_name_def k_critic_role_def
      severity_name_def k_severity_def disagreement_policy_name_def k_disagreement_policy_def
      duplicate_policy_name_def k_duplicate_policy_def enum_lookup_def)

lemma wordy_guards:
  "mutation_guard wordy = Inr ()" "commit_guard (co_state wordy) wordy_commit = Inr wordy_slot"
  "find_slot (co_state wordy) (cm_review wordy_commit) = Some wordy_slot" "sl_decision wordy_slot = None"
  "r_state (sl_record wordy_slot) = RS_Evaluating" "co_journal wordy = sample_journal"
  "r_spec (sl_record wordy_slot) = wordy_spec" "length (sl_policy_digest wordy_slot) = 32"
  by (simp_all add: mutation_guard_def wordy_def new_coordinator_def commit_guard_def wordy_commit_def
      find_slot_def wordy_slot_def sample_review_def commit_state_guard_def sample_digest_def om_get_code)

lemma wordy_votes: "eval_votes (build_evaluation_input (co_state wordy) wordy_slot) = []"
  by (simp add: eval_votes_def build_evaluation_input_def wordy_slot_def om_vals_def current_findings_def
      collapse_votes_def attach_assignments_def)

lemma wordy_keyed: "slots_keyed (co_state wordy)"
  by (auto simp: slots_keyed_def wordy_def new_coordinator_def find_slot_def wordy_slot_def sample_review_def
      om_wf_def om_get_code split: if_splits)

lemma wordy_result:
  "length (ex_policy_result (er_explanation (evaluate_slot (env_hash sample_env) (co_state wordy) wordy_slot))) \<le> 65536"
  using policy_result_short [OF wordy_votes, of "env_hash sample_env"] wordy_summary
  by (simp add: evaluate_slot_def build_evaluation_input_def wordy_guards)

lemma wordy_journal:
  "\<not> jn_failed (co_journal wordy)" "env_io sample_env = (\<lambda>_. IO_Ok)"
  "length (jn_entries (co_journal wordy)) + length (path_to_evaluating (r_state (sl_record wordy_slot))) + 3
    \<le> unat (max_persisted_records (jn_limits (co_journal wordy)))"
  "journal_file_ok (co_journal wordy)" "unat (jn_valid_end (co_journal wordy)) < 2 ^ 63"
  by (simp_all add: wordy_guards sample_journal_ok)
     (simp_all add: sample_journal_def open_in_memory_def clamp_to_hard_ceiling_def clamp_into_def
      default_limits_def hard_ceilings sample_env_def)

lemma wordy_digests: "\<forall>bs. length (env_hash sample_env bs) = 32"
  by (simp add: sample_env_def sha256_length)

lemma wordy_uncommitted: "r_state (sl_record wordy_slot) \<noteq> RS_Committed"
  by (simp add: wordy_guards)

lemmas wordy_facts = wordy_guards(1,2,4) wordy_uncommitted

theorem commit_succeeds_witness:
  "\<exists>c1 d. commit_review sample_env wordy_commit wordy = (c1, Inr d) \<and> holds_decision 1 d (co_state c1)"
  using commit_succeeds [OF wordy_facts wordy_journal(1) wordy_keyed wordy_journal(3,2) wordy_digests wordy_guards(8)
      wordy_result]
  by (auto simp: wordy_commit_def)

theorem commit_blocks_restart_witness:
  "\<exists>c1 d. commit_review sample_env wordy_commit wordy = (c1, Inr d) \<and> holds_decision 1 d (co_state c1)
    \<and> \<not> is_ok (snd (coordinator_start io_works sample_env (Some (jn_disk (co_journal c1))) (new_coordinator durable_config)))"
proof -
  have "unat (max_metadata_string_bytes (clamp_to_hard_ceiling (co_limits (new_coordinator durable_config)))) = 1024"
    by (simp add: durable_limits) (simp add: clamp_to_hard_ceiling_def clamp_into_def default_limits_def hard_ceilings)
  then have "unat (max_metadata_string_bytes (clamp_to_hard_ceiling (co_limits (new_coordinator durable_config))))
      < length (summarize (r_spec (sl_record wordy_slot)))"
    using wordy_summary by (simp add: wordy_guards)
  moreover have "cfg_persistence_path (co_config (new_coordinator durable_config)) \<noteq> []"
    by (simp add: new_coordinator_def durable_config_def)
  ultimately show ?thesis
    using commit_blocks_restart [OF wordy_facts wordy_keyed wordy_journal(4,5,3,2) wordy_digests wordy_guards(8)
        wordy_result, of "new_coordinator durable_config"]
    by (auto simp: wordy_commit_def)
qed

end
