(* ===== verification/CF_Frame.thy ===== *)
theory CF_Frame
  imports CF_Decode
begin

unbundle bit_operations_syntax

text \<open>
  The framed binary protocol (\<open>include/critic_fabric/protocol.hpp\<close>, \<open>src/protocol.cpp\<close>): message
  types and the frame codec. A frame is a fixed header of 108 bytes and a payload; the checksum in the
  header covers the 104 bytes before it and the payload.

  The theorems say that the codec reads back what it wrote, that it accepts nothing else, and that it
  rejects every frame with a short burst of damaged bytes.
\<close>

section \<open>Message types\<close>

datatype message_type =
    MT_Invalid
  | MT_Hello
  | MT_HelloAck
  | MT_RegisterTarget
  | MT_RegisterTargetAck
  | MT_SupersedeTarget
  | MT_SupersedeTargetAck
  | MT_RegisterCritic
  | MT_RegisterCriticAck
  | MT_RegisterWorker
  | MT_RegisterWorkerAck
  | MT_DeclareReadiness
  | MT_DeclareReadinessAck
  | MT_DeclareReview
  | MT_DeclareReviewAck
  | MT_AssignCritics
  | MT_AssignCriticsAck
  | MT_SubmitEvidence
  | MT_SubmitEvidenceAck
  | MT_SubmitFinding
  | MT_SubmitFindingAck
  | MT_SubmitChallenge
  | MT_SubmitChallengeAck
  | MT_SubmitRebuttal
  | MT_SubmitRebuttalAck
  | MT_CommitReview
  | MT_CommitReviewAck
  | MT_CancelReview
  | MT_CancelReviewAck
  | MT_QueryReview
  | MT_QueryReviewAck
  | MT_QueryDecision
  | MT_QueryDecisionAck
  | MT_ExplainReview
  | MT_ExplainReviewAck
  | MT_ListReviews
  | MT_ListReviewsAck
  | MT_QueryAssignments
  | MT_QueryAssignmentsAck
  | MT_AssignmentNotice
  | MT_FenceWorker
  | MT_FenceWorkerAck
  | MT_QueryWorkers
  | MT_QueryWorkersAck
  | MT_QueryTarget
  | MT_QueryTargetAck
  | MT_ErrorResponse
  | MT_Shutdown

fun message_type_code :: "message_type \<Rightarrow> u16" where
  "message_type_code MT_Invalid = 0"
| "message_type_code MT_Hello = 1"
| "message_type_code MT_HelloAck = 2"
| "message_type_code MT_RegisterTarget = 10"
| "message_type_code MT_RegisterTargetAck = 11"
| "message_type_code MT_SupersedeTarget = 12"
| "message_type_code MT_SupersedeTargetAck = 13"
| "message_type_code MT_RegisterCritic = 20"
| "message_type_code MT_RegisterCriticAck = 21"
| "message_type_code MT_RegisterWorker = 22"
| "message_type_code MT_RegisterWorkerAck = 23"
| "message_type_code MT_DeclareReadiness = 24"
| "message_type_code MT_DeclareReadinessAck = 25"
| "message_type_code MT_DeclareReview = 30"
| "message_type_code MT_DeclareReviewAck = 31"
| "message_type_code MT_AssignCritics = 32"
| "message_type_code MT_AssignCriticsAck = 33"
| "message_type_code MT_SubmitEvidence = 40"
| "message_type_code MT_SubmitEvidenceAck = 41"
| "message_type_code MT_SubmitFinding = 50"
| "message_type_code MT_SubmitFindingAck = 51"
| "message_type_code MT_SubmitChallenge = 52"
| "message_type_code MT_SubmitChallengeAck = 53"
| "message_type_code MT_SubmitRebuttal = 54"
| "message_type_code MT_SubmitRebuttalAck = 55"
| "message_type_code MT_CommitReview = 60"
| "message_type_code MT_CommitReviewAck = 61"
| "message_type_code MT_CancelReview = 62"
| "message_type_code MT_CancelReviewAck = 63"
| "message_type_code MT_QueryReview = 70"
| "message_type_code MT_QueryReviewAck = 71"
| "message_type_code MT_QueryDecision = 72"
| "message_type_code MT_QueryDecisionAck = 73"
| "message_type_code MT_ExplainReview = 74"
| "message_type_code MT_ExplainReviewAck = 75"
| "message_type_code MT_ListReviews = 76"
| "message_type_code MT_ListReviewsAck = 77"
| "message_type_code MT_QueryAssignments = 78"
| "message_type_code MT_QueryAssignmentsAck = 79"
| "message_type_code MT_AssignmentNotice = 80"
| "message_type_code MT_FenceWorker = 82"
| "message_type_code MT_FenceWorkerAck = 83"
| "message_type_code MT_QueryWorkers = 84"
| "message_type_code MT_QueryWorkersAck = 85"
| "message_type_code MT_QueryTarget = 86"
| "message_type_code MT_QueryTargetAck = 87"
| "message_type_code MT_ErrorResponse = 90"
| "message_type_code MT_Shutdown = 91"

fun message_type_name :: "message_type \<Rightarrow> string" where
  "message_type_name MT_Invalid = ''INVALID''"
| "message_type_name MT_Hello = ''HELLO''"
| "message_type_name MT_HelloAck = ''HELLO_ACK''"
| "message_type_name MT_RegisterTarget = ''REGISTER_TARGET''"
| "message_type_name MT_RegisterTargetAck = ''REGISTER_TARGET_ACK''"
| "message_type_name MT_SupersedeTarget = ''SUPERSEDE_TARGET''"
| "message_type_name MT_SupersedeTargetAck = ''SUPERSEDE_TARGET_ACK''"
| "message_type_name MT_RegisterCritic = ''REGISTER_CRITIC''"
| "message_type_name MT_RegisterCriticAck = ''REGISTER_CRITIC_ACK''"
| "message_type_name MT_RegisterWorker = ''REGISTER_WORKER''"
| "message_type_name MT_RegisterWorkerAck = ''REGISTER_WORKER_ACK''"
| "message_type_name MT_DeclareReadiness = ''DECLARE_READINESS''"
| "message_type_name MT_DeclareReadinessAck = ''DECLARE_READINESS_ACK''"
| "message_type_name MT_DeclareReview = ''DECLARE_REVIEW''"
| "message_type_name MT_DeclareReviewAck = ''DECLARE_REVIEW_ACK''"
| "message_type_name MT_AssignCritics = ''ASSIGN_CRITICS''"
| "message_type_name MT_AssignCriticsAck = ''ASSIGN_CRITICS_ACK''"
| "message_type_name MT_SubmitEvidence = ''SUBMIT_EVIDENCE''"
| "message_type_name MT_SubmitEvidenceAck = ''SUBMIT_EVIDENCE_ACK''"
| "message_type_name MT_SubmitFinding = ''SUBMIT_FINDING''"
| "message_type_name MT_SubmitFindingAck = ''SUBMIT_FINDING_ACK''"
| "message_type_name MT_SubmitChallenge = ''SUBMIT_CHALLENGE''"
| "message_type_name MT_SubmitChallengeAck = ''SUBMIT_CHALLENGE_ACK''"
| "message_type_name MT_SubmitRebuttal = ''SUBMIT_REBUTTAL''"
| "message_type_name MT_SubmitRebuttalAck = ''SUBMIT_REBUTTAL_ACK''"
| "message_type_name MT_CommitReview = ''COMMIT_REVIEW''"
| "message_type_name MT_CommitReviewAck = ''COMMIT_REVIEW_ACK''"
| "message_type_name MT_CancelReview = ''CANCEL_REVIEW''"
| "message_type_name MT_CancelReviewAck = ''CANCEL_REVIEW_ACK''"
| "message_type_name MT_QueryReview = ''QUERY_REVIEW''"
| "message_type_name MT_QueryReviewAck = ''QUERY_REVIEW_ACK''"
| "message_type_name MT_QueryDecision = ''QUERY_DECISION''"
| "message_type_name MT_QueryDecisionAck = ''QUERY_DECISION_ACK''"
| "message_type_name MT_ExplainReview = ''EXPLAIN_REVIEW''"
| "message_type_name MT_ExplainReviewAck = ''EXPLAIN_REVIEW_ACK''"
| "message_type_name MT_ListReviews = ''LIST_REVIEWS''"
| "message_type_name MT_ListReviewsAck = ''LIST_REVIEWS_ACK''"
| "message_type_name MT_QueryAssignments = ''QUERY_ASSIGNMENTS''"
| "message_type_name MT_QueryAssignmentsAck = ''QUERY_ASSIGNMENTS_ACK''"
| "message_type_name MT_AssignmentNotice = ''ASSIGNMENT_NOTICE''"
| "message_type_name MT_FenceWorker = ''FENCE_WORKER''"
| "message_type_name MT_FenceWorkerAck = ''FENCE_WORKER_ACK''"
| "message_type_name MT_QueryWorkers = ''QUERY_WORKERS''"
| "message_type_name MT_QueryWorkersAck = ''QUERY_WORKERS_ACK''"
| "message_type_name MT_QueryTarget = ''QUERY_TARGET''"
| "message_type_name MT_QueryTargetAck = ''QUERY_TARGET_ACK''"
| "message_type_name MT_ErrorResponse = ''ERROR_RESPONSE''"
| "message_type_name MT_Shutdown = ''SHUTDOWN''"

definition message_type_all :: "message_type list" where
  "message_type_all =
    [
     MT_Invalid, MT_Hello, MT_HelloAck, MT_RegisterTarget, MT_RegisterTargetAck,
     MT_SupersedeTarget, MT_SupersedeTargetAck, MT_RegisterCritic, MT_RegisterCriticAck,
     MT_RegisterWorker, MT_RegisterWorkerAck, MT_DeclareReadiness, MT_DeclareReadinessAck,
     MT_DeclareReview, MT_DeclareReviewAck, MT_AssignCritics, MT_AssignCriticsAck,
     MT_SubmitEvidence, MT_SubmitEvidenceAck, MT_SubmitFinding, MT_SubmitFindingAck,
     MT_SubmitChallenge, MT_SubmitChallengeAck, MT_SubmitRebuttal, MT_SubmitRebuttalAck,
     MT_CommitReview, MT_CommitReviewAck, MT_CancelReview, MT_CancelReviewAck,
     MT_QueryReview, MT_QueryReviewAck, MT_QueryDecision, MT_QueryDecisionAck,
     MT_ExplainReview, MT_ExplainReviewAck, MT_ListReviews, MT_ListReviewsAck,
     MT_QueryAssignments, MT_QueryAssignmentsAck, MT_AssignmentNotice, MT_FenceWorker,
     MT_FenceWorkerAck, MT_QueryWorkers, MT_QueryWorkersAck, MT_QueryTarget,
     MT_QueryTargetAck, MT_ErrorResponse, MT_Shutdown]"

definition message_type_of_code :: "u16 \<Rightarrow> message_type option" where
  "message_type_of_code raw = find (\<lambda>t. message_type_code t = raw) message_type_all"

definition is_valid_message_type :: "u16 \<Rightarrow> bool" where
  "is_valid_message_type raw \<longleftrightarrow>
     (case message_type_of_code raw of None \<Rightarrow> False | Some t \<Rightarrow> t \<noteq> MT_Invalid)"

lemma message_type_in_all: "t \<in> set message_type_all"
  by (cases t) (simp_all add: message_type_all_def)

lemma message_codes_distinct: "distinct (map message_type_code message_type_all)"
  by (simp add: message_type_all_def)

lemma message_type_of_code_iff: "message_type_of_code raw = Some t \<longleftrightarrow> message_type_code t = raw"
proof
  assume "message_type_of_code raw = Some t"
  then show "message_type_code t = raw"
    by (auto simp: message_type_of_code_def find_Some_iff)
next
  assume eq: "message_type_code t = raw"
  then have "find (\<lambda>t. message_type_code t = raw) message_type_all \<noteq> None"
    using message_type_in_all [of t] by (auto simp: find_None_iff)
  then obtain u where u: "find (\<lambda>t. message_type_code t = raw) message_type_all = Some u"
    by blast
  then have "message_type_code u = message_type_code t"
    using eq by (auto simp: find_Some_iff)
  then have "u = t"
    using message_codes_distinct message_type_in_all by (auto simp: distinct_map dest: inj_onD)
  with u show "message_type_of_code raw = Some t"
    by (simp add: message_type_of_code_def)
qed

lemma message_type_of_own_code [simp]: "message_type_of_code (message_type_code t) = Some t"
  by (simp add: message_type_of_code_iff)

lemma valid_message_type_iff [simp]: "is_valid_message_type (message_type_code t) \<longleftrightarrow> t \<noteq> MT_Invalid"
  by (simp add: is_valid_message_type_def)

section \<open>Frames\<close>

record frame_header =
  fh_version :: u16
  fh_type :: message_type
  fh_flags :: u32
  fh_payload_length :: u32
  fh_correlation :: request_id
  fh_authority :: authority_context
  fh_checksum :: u32

record frame =
  fr_header :: frame_header
  fr_payload :: bytes

definition kFrameMagic :: bytes where
  "kFrameMagic = [0x43, 0x46, 0x42, 0x31]"

definition kFrameHeaderBytes :: nat where
  "kFrameHeaderBytes = 108"

definition kChecksumCoverageBytes :: nat where
  "kChecksumCoverageBytes = 104"

definition kProtocolVersion :: u16 where
  "kProtocolVersion = 1"

definition kMaximumFlags :: u32 where
  "kMaximumFlags = 0"

text \<open>The member initialisers of \<open>AuthorityContext\<close> and \<open>FrameHeader\<close>.\<close>

definition no_authority :: authority_context where
  "no_authority =
    \<lparr> au_epoch = 0, au_worker = 0, au_worker_boot = 0, au_critic = 0, au_critic_generation = 0,
      au_review = 0, au_review_generation = 0, au_target = 0, au_target_generation = 0,
      au_request = 0 \<rparr>"

definition default_header :: frame_header where
  "default_header =
    \<lparr> fh_version = 1, fh_type = MT_Invalid, fh_flags = 0, fh_payload_length = 0,
      fh_correlation = 0, fh_authority = no_authority, fh_checksum = 0 \<rparr>"

definition encode_authority_fields :: "authority_context \<Rightarrow> writer \<Rightarrow> writer" where
  "encode_authority_fields au = w_seq
    [w_u64 (au_epoch au), w_u64 (au_worker au), w_u64 (au_worker_boot au), w_u64 (au_critic au),
     w_u64 (au_critic_generation au), w_u64 (au_review au), w_u64 (au_review_generation au),
     w_u64 (au_target au), w_u64 (au_target_generation au), w_u64 (au_request au)]"

text \<open>The bytes before the checksum, once the guards have passed.\<close>

definition covered_header :: "frame \<Rightarrow> bytes \<Rightarrow> bytes" where
  "covered_header f authority =
    (let h = fr_header f
     in kFrameMagic @ be16 (fh_version h) @ be16 (message_type_code (fh_type h)) @ be32 (fh_flags h)
        @ be32 (of_nat (length (fr_payload f))) @ be64 (fh_correlation h) @ authority)"

definition frame_encode :: "runtime_limits \<Rightarrow> frame \<Rightarrow> bytes result" where
  "frame_encode lim f =
    (let h = fr_header f;
         authority = encode_authority_fields (fh_authority h) empty_writer
     in result_bind (first_error
          [(\<not> is_valid_message_type (message_type_code (fh_type h)), E_ProtocolUnknownMessageType),
           (fh_version h \<noteq> kProtocolVersion, E_ProtocolBadVersion),
           (fh_flags h > kMaximumFlags, E_ProtocolError),
           (length (fr_payload f) > unat (max_frame_bytes lim), E_ProtocolOversized),
           (\<not> wr_ok authority \<or> length (wr_buffer authority) \<noteq> 80, E_InternalError)])
        (\<lambda>_. let covered = covered_header f (wr_buffer authority);
                 full_crc = crc32_append (crc32 covered) (fr_payload f)
             in Inr (covered @ be32 full_crc @ fr_payload f)))"

definition be_at :: "nat \<Rightarrow> nat \<Rightarrow> bytes \<Rightarrow> 'w::len word" where
  "be_at offset count data = be_value (take count (drop offset data))"

definition read_authority :: "authority_context result decoder" where
  "read_authority = do {
     epoch \<leftarrow> r_u64;
     worker \<leftarrow> r_u64;
     worker_boot \<leftarrow> r_u64;
     critic \<leftarrow> r_u64;
     critic_generation \<leftarrow> r_u64;
     review \<leftarrow> r_u64;
     review_generation \<leftarrow> r_u64;
     target \<leftarrow> r_u64;
     target_generation \<leftarrow> r_u64;
     request \<leftarrow> r_u64;
     finish_read True
       \<lparr> au_epoch = epoch, au_worker = worker, au_worker_boot = worker_boot, au_critic = critic,
         au_critic_generation = critic_generation, au_review = review,
         au_review_generation = review_generation, au_target = target,
         au_target_generation = target_generation, au_request = request \<rparr>
   }"

text \<open>\<open>None\<close> is the null pointer, which an empty vector may hand out as its data.\<close>

definition decode_header :: "runtime_limits \<Rightarrow> bytes option \<Rightarrow> frame_header result" where
  "decode_header lim source =
    (case source of
       None \<Rightarrow> Inl E_ProtocolError
     | Some data \<Rightarrow>
         if length data < kFrameHeaderBytes then Inl E_ProtocolTruncated
         else if take 4 data \<noteq> kFrameMagic then Inl E_ProtocolBadMagic
         else if (be_at 4 2 data :: u16) \<noteq> kProtocolVersion then Inl E_ProtocolBadVersion
         else if \<not> is_valid_message_type (be_at 6 2 data) then Inl E_ProtocolUnknownMessageType
         else if (be_at 8 4 data :: u32) > kMaximumFlags then Inl E_ProtocolError
         else if (be_at 12 4 data :: u32) > max_frame_bytes lim then Inl E_ProtocolOversized
         else result_bind (fst (run_state read_authority (new_reader wire_policy (take 80 (drop 24 data)))))
           (\<lambda>authority. Inr
             \<lparr> fh_version = be_at 4 2 data, fh_type = the (message_type_of_code (be_at 6 2 data)),
               fh_flags = be_at 8 4 data, fh_payload_length = be_at 12 4 data,
               fh_correlation = be_at 16 8 data, fh_authority = authority,
               fh_checksum = be_at 104 4 data \<rparr>))"

definition decode_payload :: "runtime_limits \<Rightarrow> frame_header \<Rightarrow> bytes \<Rightarrow> bytes result" where
  "decode_payload lim h data =
    (let expected = kFrameHeaderBytes + unat (fh_payload_length h);
         payload = take (unat (fh_payload_length h)) (drop kFrameHeaderBytes data)
     in if length data < expected then Inl E_ProtocolTruncated
        else if length data > expected then Inl E_ProtocolTrailingGarbage
        else if fh_payload_length h > max_frame_bytes lim then Inl E_ProtocolOversized
        else if crc32_append (crc32 (take kChecksumCoverageBytes data)) payload \<noteq> fh_checksum h
          then Inl E_ProtocolBadChecksum
        else Inr payload)"

definition vector_data :: "bytes \<Rightarrow> bytes option" where
  "vector_data buffer = (if buffer = [] then None else Some buffer)"

definition frame_decode :: "runtime_limits \<Rightarrow> bytes \<Rightarrow> frame result" where
  "frame_decode lim buffer =
    result_bind (decode_header lim (vector_data buffer)) (\<lambda>h.
      if length buffer < kFrameHeaderBytes + unat (fh_payload_length h) then Inl E_ProtocolTruncated
      else if length buffer > kFrameHeaderBytes + unat (fh_payload_length h) then Inl E_ProtocolTrailingGarbage
      else result_bind (decode_payload lim h buffer) (\<lambda>payload.
        Inr \<lparr> fr_header = h, fr_payload = payload \<rparr>))"

section \<open>Bytes and words determine each other\<close>

lemma be_value_snoc: "be_value (bs @ [b]) = push_bit 8 (be_value bs) OR (ucast b :: 'w::len word)"
  by (simp add: be_value_def)

lemma byte_bits: "bit (b :: u8) i \<Longrightarrow> i < 8"
  using bit_imp_le_length [of b i] by simp

lemma be_value_bound:
  "8 * length bs \<le> LENGTH('w) \<Longrightarrow> bit (be_value bs :: 'w::len word) i \<Longrightarrow> i < 8 * length bs"
proof (induction bs arbitrary: i rule: rev_induct)
  case Nil
  then show ?case by (simp add: be_value_def)
next
  case (snoc b bs)
  show ?case
  proof (cases "i < 8")
    case False
    have "\<not> bit b i"
      using False byte_bits by blast
    then have "bit (be_value bs :: 'w word) (i - 8)"
      using snoc.prems(2) False by (auto simp: be_value_snoc bit_simps)
    then have "i - 8 < 8 * length bs"
      using snoc.IH snoc.prems(1) by simp
    with False show ?thesis by simp
  qed simp
qed

lemma be_value_inject:
  assumes "length xs = length ys" and "8 * length xs \<le> LENGTH('w)"
    and "(be_value xs :: 'w::len word) = be_value ys"
  shows "xs = ys"
  using assms
proof (induction xs arbitrary: ys rule: rev_induct)
  case Nil
  then show ?case by simp
next
  case (snoc x xs)
  obtain y zs where ys: "ys = zs @ [y]"
    using snoc.prems(1) by (cases ys rule: rev_cases) auto
  let ?v = "\<lambda>bs. be_value bs :: 'w word"
  have bits: "(8 \<le> i \<and> bit (?v xs) (i - 8) \<or> bit x i) = (8 \<le> i \<and> bit (?v zs) (i - 8) \<or> bit y i)"
    if "i < LENGTH('w)" for i
    using arg_cong [OF snoc.prems(3), of "\<lambda>w. bit w i"] that by (auto simp: ys be_value_snoc bit_simps)
  have "x = y"
  proof (rule bit_word_eqI)
    fix i assume "i < LENGTH(8)"
    then show "bit x i = bit y i"
      using bits [of i] snoc.prems(2) by simp
  qed
  moreover have "?v xs = ?v zs"
  proof (rule bit_word_eqI)
    fix i assume i: "i < LENGTH('w)"
    show "bit (?v xs) i = bit (?v zs) i"
    proof (cases "i + 8 < LENGTH('w)")
      case True
      have "\<not> bit x (i + 8)" "\<not> bit y (i + 8)"
        using byte_bits [of x "i + 8"] byte_bits [of y "i + 8"] by auto
      then show ?thesis
        using bits [OF True] by simp
    next
      case False
      then have "\<not> bit (?v xs) i" "\<not> bit (?v zs) i"
        using be_value_bound [where 'w = 'w and bs = xs and i = i]
          be_value_bound [where 'w = 'w and bs = zs and i = i] snoc.prems(1,2)
        by (auto simp: ys)
      then show ?thesis by simp
    qed
  qed
  ultimately show ?case
    using snoc.IH [of zs] snoc.prems(1,2) by (simp add: ys)
qed

lemma be_of_value:
  "length xs = 2 \<Longrightarrow> be16 (be_value xs) = xs"
  "length xs = 4 \<Longrightarrow> be32 (be_value xs) = xs"
  "length xs = 8 \<Longrightarrow> be64 (be_value xs) = xs"
  by (rule be_value_inject [where 'w = 16], simp_all) (rule be_value_inject [where 'w = 32], simp_all,
      rule be_value_inject [where 'w = 64], simp_all)

section \<open>The fields of a frame\<close>

definition authority_bytes :: "authority_context \<Rightarrow> bytes" where
  "authority_bytes au =
    be64 (au_epoch au) @ be64 (au_worker au) @ be64 (au_worker_boot au) @ be64 (au_critic au)
    @ be64 (au_critic_generation au) @ be64 (au_review au) @ be64 (au_review_generation au)
    @ be64 (au_target au) @ be64 (au_target_generation au) @ be64 (au_request au)"

lemma authority_length [simp]: "length (authority_bytes au) = 80"
  by (simp add: authority_bytes_def)

lemma authority_written:
  "encode_authority_fields au empty_writer = \<lparr> wr_buffer = authority_bytes au, wr_ok = True, wr_code = E_Ok \<rparr>"
  by (simp add: encode_authority_fields_def authority_bytes_def w_seq_def w_u64_def w_append_def
      w_require_def empty_writer_def Let_def)

lemma authority_read:
  "fst (run_state read_authority (new_reader p (authority_bytes au))) = Inr au"
proof -
  have "codec (encode_authority_fields au) read_authority (Inr au)"
    unfolding encode_authority_fields_def read_authority_def
    by (rule codec_rules codecs | simp)+
  then have "reads read_authority (authority_bytes au) (Inr au)"
    using codecD [of "encode_authority_fields au" read_authority "Inr au" empty_writer]
    by (simp only: authority_written) (simp add: empty_writer_def)
  then show ?thesis
    using readsD [of read_authority "authority_bytes au" "Inr au" "new_reader p (authority_bytes au)" "[]"]
    by (simp add: authority_written new_reader_def)
qed

lemma split_bytes: "n \<le> length xs \<Longrightarrow> \<exists>ys zs. xs = ys @ zs \<and> length ys = n"
  by (rule exI [of _ "take n xs"], rule exI [of _ "drop n xs"]) simp

lemma split_word:
  "2 \<le> length xs \<Longrightarrow> \<exists>v zs. xs = be16 v @ zs"
  "4 \<le> length xs \<Longrightarrow> \<exists>v zs. xs = be32 v @ zs"
  "8 \<le> length xs \<Longrightarrow> \<exists>v zs. xs = be64 v @ zs"
  using split_bytes be_of_value by metis+

lemma split_authority:
  assumes "80 \<le> length xs"
  shows "\<exists>au zs. xs = authority_bytes au @ zs"
proof -
  obtain a0 x0 where x0: "xs = be64 a0 @ x0" using assms split_word(3) [of xs] by auto
  obtain a1 x1 where x1: "x0 = be64 a1 @ x1" using assms x0 split_word(3) [of x0] by auto
  obtain a2 x2 where x2: "x1 = be64 a2 @ x2" using assms x0 x1 split_word(3) [of x1] by auto
  obtain a3 x3 where x3: "x2 = be64 a3 @ x3" using assms x0 x1 x2 split_word(3) [of x2] by auto
  obtain a4 x4 where x4: "x3 = be64 a4 @ x4" using assms x0 x1 x2 x3 split_word(3) [of x3] by auto
  obtain a5 x5 where x5: "x4 = be64 a5 @ x5" using assms x0 x1 x2 x3 x4 split_word(3) [of x4] by auto
  obtain a6 x6 where x6: "x5 = be64 a6 @ x6" using assms x0 x1 x2 x3 x4 x5 split_word(3) [of x5] by auto
  obtain a7 x7 where x7: "x6 = be64 a7 @ x7" using assms x0 x1 x2 x3 x4 x5 x6 split_word(3) [of x6] by auto
  obtain a8 x8 where x8: "x7 = be64 a8 @ x8" using assms x0 x1 x2 x3 x4 x5 x6 x7 split_word(3) [of x7] by auto
  obtain a9 x9 where x9: "x8 = be64 a9 @ x9" using assms x0 x1 x2 x3 x4 x5 x6 x7 x8 split_word(3) [of x8] by auto
  have "xs = authority_bytes \<lparr> au_epoch = a0, au_worker = a1, au_worker_boot = a2, au_critic = a3,
      au_critic_generation = a4, au_review = a5, au_review_generation = a6, au_target = a7,
      au_target_generation = a8, au_request = a9 \<rparr> @ x9"
    by (simp add: authority_bytes_def x0 x1 x2 x3 x4 x5 x6 x7 x8 x9)
  then show ?thesis by blast
qed

lemma kFrameMagic_length [simp]: "length kFrameMagic = 4"
  by (simp add: kFrameMagic_def)

text \<open>The shape of a frame: any 108 bytes or more are the fields of a header and a payload.\<close>

definition frame_bytes ::
  "bytes \<Rightarrow> u16 \<Rightarrow> u16 \<Rightarrow> u32 \<Rightarrow> u32 \<Rightarrow> u64 \<Rightarrow> authority_context \<Rightarrow> u32 \<Rightarrow> bytes \<Rightarrow> bytes" where
  "frame_bytes magic version type flags len correlation au checksum payload =
    magic @ be16 version @ be16 type @ be32 flags @ be32 len @ be64 correlation @ authority_bytes au
    @ be32 checksum @ payload"

lemma frame_bytes_cases:
  assumes "kFrameHeaderBytes \<le> length data"
  obtains m v t fl n co au ck payload where
    "data = frame_bytes m v t fl n co au ck payload" "length m = 4"
proof -
  have big: "108 \<le> length data" using assms by (simp add: kFrameHeaderBytes_def)
  then obtain m x0 where x0: "data = m @ x0" "length m = 4" using split_bytes [of 4 data] by auto
  then obtain v x1 where x1: "x0 = be16 v @ x1" using big split_word(1) [of x0] by auto
  then obtain t x2 where x2: "x1 = be16 t @ x2" using big x0 split_word(1) [of x1] by auto
  then obtain fl x3 where x3: "x2 = be32 fl @ x3" using big x0 x1 split_word(2) [of x2] by auto
  then obtain n x4 where x4: "x3 = be32 n @ x4" using big x0 x1 x2 split_word(2) [of x3] by auto
  then obtain co x5 where x5: "x4 = be64 co @ x5" using big x0 x1 x2 x3 split_word(3) [of x4] by auto
  then obtain au x6 where x6: "x5 = authority_bytes au @ x6"
    using big x0 x1 x2 x3 x4 split_authority [of x5] by auto
  then obtain ck payload where "x6 = be32 ck @ payload"
    using big x0 x1 x2 x3 x4 x5 split_word(2) [of x6] by auto
  then show thesis
    using that [of m v t fl n co au ck payload] x0 x1 x2 x3 x4 x5 x6 by (simp add: frame_bytes_def)
qed

lemma frame_bytes_fields:
  assumes "length m = 4"
  shows "length (frame_bytes m v t fl n co au ck payload) = kFrameHeaderBytes + length payload"
    "take 4 (frame_bytes m v t fl n co au ck payload) = m"
    "be_at 4 2 (frame_bytes m v t fl n co au ck payload) = v"
    "be_at 6 2 (frame_bytes m v t fl n co au ck payload) = t"
    "be_at 8 4 (frame_bytes m v t fl n co au ck payload) = fl"
    "be_at 12 4 (frame_bytes m v t fl n co au ck payload) = n"
    "be_at 16 8 (frame_bytes m v t fl n co au ck payload) = co"
    "take 80 (drop 24 (frame_bytes m v t fl n co au ck payload)) = authority_bytes au"
    "be_at 104 4 (frame_bytes m v t fl n co au ck payload) = ck"
    "drop kFrameHeaderBytes (frame_bytes m v t fl n co au ck payload) = payload"
    "take kChecksumCoverageBytes (frame_bytes m v t fl n co au ck payload) =
       m @ be16 v @ be16 t @ be32 fl @ be32 n @ be64 co @ authority_bytes au"
  using assms by (simp_all add: frame_bytes_def be_at_def kFrameHeaderBytes_def kChecksumCoverageBytes_def)

lemmas frame_simps = frame_bytes_fields authority_read

lemma decode_header_bytes:
  assumes "length m = 4"
  shows "decode_header lim (Some (frame_bytes m v t fl n co au ck payload)) =
    (if m \<noteq> kFrameMagic then Inl E_ProtocolBadMagic
     else if v \<noteq> kProtocolVersion then Inl E_ProtocolBadVersion
     else if \<not> is_valid_message_type t then Inl E_ProtocolUnknownMessageType
     else if fl > kMaximumFlags then Inl E_ProtocolError
     else if n > max_frame_bytes lim then Inl E_ProtocolOversized
     else Inr \<lparr> fh_version = v, fh_type = the (message_type_of_code t), fh_flags = fl,
       fh_payload_length = n, fh_correlation = co, fh_authority = au, fh_checksum = ck \<rparr>)"
  using assms by (simp add: decode_header_def frame_simps)

section \<open>What the codec accepts\<close>

text \<open>A frame with the length and the checksum the encoder computes.\<close>

definition seal_frame :: "frame \<Rightarrow> frame" where
  "seal_frame f =
    f\<lparr> fr_header := (fr_header f)
        \<lparr> fh_payload_length := of_nat (length (fr_payload f)),
          fh_checksum := crc32 (covered_header f (authority_bytes (fh_authority (fr_header f))) @ fr_payload f) \<rparr> \<rparr>"

lemma frame_encode_iff:
  "frame_encode lim f = Inr bs \<longleftrightarrow>
     fh_type (fr_header f) \<noteq> MT_Invalid \<and> fh_version (fr_header f) = kProtocolVersion
     \<and> fh_flags (fr_header f) = 0 \<and> length (fr_payload f) \<le> unat (max_frame_bytes lim)
     \<and> bs = frame_bytes kFrameMagic kProtocolVersion (message_type_code (fh_type (fr_header f))) 0
         (of_nat (length (fr_payload f))) (fh_correlation (fr_header f)) (fh_authority (fr_header f))
         (fh_checksum (fr_header (seal_frame f))) (fr_payload f)"
  by (auto simp: frame_encode_def authority_written result_bind_Inr_iff first_error_Inr kMaximumFlags_def
      word_gt_0 covered_header_def frame_bytes_def seal_frame_def crc32_continue Let_def)

lemma seal_frame_encode: "frame_encode lim f = Inr bs \<Longrightarrow> frame_decode lim bs = Inr (seal_frame f)"
proof -
  assume "frame_encode lim f = Inr bs"
  then have f: "fh_type (fr_header f) \<noteq> MT_Invalid" "fh_version (fr_header f) = kProtocolVersion"
      "fh_flags (fr_header f) = 0" "length (fr_payload f) \<le> unat (max_frame_bytes lim)"
    and bs: "bs = frame_bytes kFrameMagic kProtocolVersion (message_type_code (fh_type (fr_header f))) 0
         (of_nat (length (fr_payload f))) (fh_correlation (fr_header f)) (fh_authority (fr_header f))
         (fh_checksum (fr_header (seal_frame f))) (fr_payload f)"
    by (simp_all add: frame_encode_iff)
  have len: "unat (of_nat (length (fr_payload f)) :: u32) = length (fr_payload f)"
    using f(4) unat_less_4294967296 [of "max_frame_bytes lim"] by (simp add: unat_of_nat)
  then have "\<not> (of_nat (length (fr_payload f)) :: u32) > max_frame_bytes lim"
    using f(4) by (simp add: word_less_nat_alt)
  moreover have "kFrameHeaderBytes \<noteq> 0"
    by (simp add: kFrameHeaderBytes_def)
  moreover from this have "bs \<noteq> []"
    using bs frame_bytes_fields(1) [OF kFrameMagic_length] by (metis add_is_0 length_0_conv)
  ultimately show "frame_decode lim bs = Inr (seal_frame f)"
    using f len
    by (simp add: bs frame_decode_def vector_data_def decode_header_bytes kMaximumFlags_def
        frame_bytes_fields decode_payload_def Let_def crc32_continue seal_frame_def covered_header_def)
qed

lemma frame_decode_encode:
  assumes "frame_decode lim bs = Inr f"
  shows "frame_encode lim f = Inr bs \<and> seal_frame f = f"
proof -
  obtain h where h: "decode_header lim (vector_data bs) = Inr h"
      "length bs = kFrameHeaderBytes + unat (fh_payload_length h)" "fr_header f = h"
      "decode_payload lim h bs = Inr (fr_payload f)"
    using assms by (auto simp: frame_decode_def result_bind_Inr_iff split: if_splits)
  then have "vector_data bs = Some bs"
    by (auto simp: vector_data_def decode_header_def split: if_splits)
  note h = h [unfolded this]
  obtain m v t fl n co au ck payload where bs: "bs = frame_bytes m v t fl n co au ck payload" "length m = 4"
    using frame_bytes_cases h(2) by (metis le_add1)
  have m: "m = kFrameMagic" "v = kProtocolVersion" "fl = 0" "n \<le> max_frame_bytes lim" "is_valid_message_type t"
    and hd: "h = \<lparr> fh_version = v, fh_type = the (message_type_of_code t), fh_flags = fl,
       fh_payload_length = n, fh_correlation = co, fh_authority = au, fh_checksum = ck \<rparr>"
    using h(1) bs(2) by (auto simp: bs decode_header_bytes kMaximumFlags_def word_gt_0 split: if_splits)
  obtain ty where ty: "message_type_code ty = t" "ty \<noteq> MT_Invalid" "the (message_type_of_code t) = ty"
    using m(5) by (auto simp: is_valid_message_type_def message_type_of_code_iff split: option.splits)
  have len: "length payload = unat n"
    using h(2) bs by (simp add: hd frame_bytes_fields)
  have pay: "fr_payload f = payload" "crc32 (m @ be16 v @ be16 t @ be32 fl @ be32 n @ be64 co @ authority_bytes au @ payload) = ck"
    using h(4) bs(2) len by (auto simp: bs decode_payload_def frame_bytes_fields hd Let_def crc32_continue split: if_splits)
  have f: "f = \<lparr> fr_header = h, fr_payload = payload \<rparr>"
    using h(3) pay(1) by simp
  have n: "of_nat (length payload) = n"
    by (simp add: len)
  have seal: "seal_frame f = f"
    using pay(2) ty by (simp add: f seal_frame_def hd n m covered_header_def)
  moreover have "length payload \<le> unat (max_frame_bytes lim)"
    using m(4) by (simp add: len word_le_nat_alt)
  ultimately show ?thesis
    using ty m unfolding frame_encode_iff seal by (simp add: f hd n bs)
qed

text \<open>
  C20. The frame codec accepts exactly what it writes: a buffer decodes to a frame if and only if the
  frame encodes to that buffer and carries the length and the checksum the encoder computes. In
  particular every encoded frame is read back, and no two buffers decode to the same frame.
\<close>

theorem frame_decode_iff: "frame_decode lim bs = Inr f \<longleftrightarrow> frame_encode lim f = Inr bs \<and> seal_frame f = f"
  using frame_decode_encode seal_frame_encode by metis

section \<open>Damaged frames\<close>

text \<open>
  The register of the CRC is linear: a step of eight bits takes the register and the next byte
  together, and no step loses information. So the register after up to four bytes determines them.
\<close>

lemma xor_eq_0: "a XOR b = 0 \<Longrightarrow> a = (b :: u32)"
  by (metis xor.assoc xor.right_neutral xor_self_eq)

lemma xor_cancel: "a XOR c = b XOR c \<Longrightarrow> a = (b :: u32)" "c XOR a = c XOR b \<Longrightarrow> a = (b :: u32)"
  by (metis xor.assoc xor.right_neutral xor_self_eq) (metis xor.assoc xor.left_neutral xor_self_eq)

lemma crc_step_bit: "crc_step c = (if bit c 0 then 0xEDB88320 XOR drop_bit 1 c else drop_bit 1 c)"
proof -
  have "(c AND 1 \<noteq> 0) = bit c 0"
    by (simp add: and_one_eq bit_0 odd_iff_mod_2_eq_one)
  then show ?thesis
    unfolding crc_step_def by simp
qed

lemma crc_step_xor: "crc_step (a XOR b) = crc_step a XOR crc_step b"
  by (auto simp: crc_step_bit bit_simps xor.assoc xor.left_commute intro!: bit_word_eqI)

lemma crc_step_0 [simp]: "crc_step 0 = 0"
  by (simp add: crc_step_def)

lemma crc_steps_xor: "(crc_step ^^ n) (a XOR b) = (crc_step ^^ n) a XOR (crc_step ^^ n) b"
  by (induction n) (simp_all add: crc_step_xor)

lemma crc_step_even: "\<not> bit c 0 \<Longrightarrow> crc_step c = drop_bit 1 c"
  by (simp add: crc_step_bit)

lemma crc_step_eq_0: "crc_step c = 0 \<Longrightarrow> c = 0"
proof (cases "bit c 0")
  case True
  assume "crc_step c = 0"
  moreover have "crc_step c = 0xEDB88320 XOR drop_bit 1 c"
    using True by (simp add: crc_step_bit)
  moreover have "bit (0xEDB88320 XOR drop_bit 1 c) 31"
    using bit_imp_le_length [of c 32] by (auto simp: bit_simps)
  ultimately show ?thesis
    by simp
next
  case False
  assume "crc_step c = 0"
  with False have "drop_bit 1 c = 0"
    by (simp add: crc_step_even)
  then have "\<not> bit (drop_bit 1 c) i" for i
    by simp
  then have "\<not> bit c (Suc i)" for i
    by (simp add: bit_simps)
  with False have "\<not> bit c i" for i
    by (cases i) auto
  then show "c = 0"
    by (intro bit_word_eqI) simp
qed

lemma crc_steps_inject: "(crc_step ^^ n) a = (crc_step ^^ n) b \<Longrightarrow> a = b"
proof -
  have zero: "(crc_step ^^ n) c = 0 \<Longrightarrow> c = 0" for c
    by (induction n) (auto dest: crc_step_eq_0)
  assume "(crc_step ^^ n) a = (crc_step ^^ n) b"
  then have "(crc_step ^^ n) (a XOR b) = 0"
    by (simp add: crc_steps_xor)
  then show "a = b"
    using zero xor_eq_0 by blast
qed

lemma crc_steps_high: "(\<And>i. i < n \<Longrightarrow> \<not> bit c i) \<Longrightarrow> (crc_step ^^ n) c = drop_bit n c"
proof (induction n arbitrary: c)
  case (Suc n)
  have "(crc_step ^^ Suc n) c = (crc_step ^^ n) (drop_bit 1 c)"
    using Suc.prems [of 0] by (simp add: funpow_Suc_right crc_step_even del: funpow.simps)
  also have "\<dots> = drop_bit n (drop_bit 1 c)"
    using Suc.prems by (intro Suc.IH) (simp add: bit_simps)
  finally show ?case
    by simp
qed simp

lemma crc_byte_steps: "crc_byte c b = (crc_step ^^ 8) (c XOR ucast b)"
proof -
  let ?x = "c XOR ucast b"
  have m: "(255 :: u32) = mask 8"
    by (simp add: mask_eq_exp_minus_1)
  have low: "\<not> bit b (8 + i)" for i
    using byte_bits [of b "8 + i"] by auto
  have high: "bit c (8 + n) \<Longrightarrow> n < 24" for n
    using bit_imp_le_length [of c "8 + n"] by simp
  have small: "unat (?x AND 255) < 256"
    using word_and_le1 [of ?x 255] by (simp add: word_le_nat_alt)
  have "crc_byte c b = (crc_step ^^ 8) (?x AND 255) XOR drop_bit 8 c"
    using small by (simp add: crc_byte_def crc_table_def crc_table_entry_def)
  also have "drop_bit 8 c = drop_bit 8 (?x AND NOT 255)"
    using low high unfolding m by (auto simp: bit_simps intro!: bit_word_eqI)
  also have "\<dots> = (crc_step ^^ 8) (?x AND NOT 255)"
    unfolding m by (rule crc_steps_high [symmetric]) (auto simp: bit_simps)
  also have "(crc_step ^^ 8) (?x AND 255) XOR (crc_step ^^ 8) (?x AND NOT 255)
      = (crc_step ^^ 8) ((?x AND 255) XOR (?x AND NOT 255))"
    by (rule crc_steps_xor [symmetric])
  also have "(?x AND 255) XOR (?x AND NOT 255) = ?x"
    by (auto simp: bit_simps intro!: bit_word_eqI)
  finally show ?thesis .
qed

fun pack_bytes :: "bytes \<Rightarrow> u32" where
  "pack_bytes [] = 0"
| "pack_bytes (b # bs) = ucast b XOR push_bit 8 (pack_bytes bs)"

lemma pack_bytes_bound: "bit (pack_bytes bs) i \<Longrightarrow> i < 8 * length bs"
proof (induction bs arbitrary: i)
  case (Cons b bs)
  show ?case
  proof (cases "i < 8")
    case False
    then have "bit (pack_bytes bs) (i - 8)"
      using Cons.prems byte_bits [of b i] by (auto simp: bit_simps)
    then show ?thesis
      using Cons.IH [of "i - 8"] False by simp
  qed simp
qed simp

lemma pack_bytes_inject:
  "length xs = length ys \<Longrightarrow> length xs \<le> 4 \<Longrightarrow> pack_bytes xs = pack_bytes ys \<Longrightarrow> xs = ys"
proof (induction xs arbitrary: ys)
  case (Cons x xs)
  then obtain y zs where ys: "ys = y # zs"
    by (cases ys) auto
  have bits: "bit x i \<noteq> (8 \<le> i \<and> bit (pack_bytes xs) (i - 8))
      \<longleftrightarrow> bit y i \<noteq> (8 \<le> i \<and> bit (pack_bytes zs) (i - 8))" if "i < 32" for i
    using arg_cong [OF Cons.prems(3), of "\<lambda>w. bit w i"] that by (auto simp: ys bit_simps)
  have "x = y"
  proof (rule bit_word_eqI)
    fix i assume "i < LENGTH(8)"
    then show "bit x i = bit y i"
      using bits [of i] by simp
  qed
  moreover have "pack_bytes xs = pack_bytes zs"
  proof (rule bit_word_eqI)
    fix i assume "i < LENGTH(32)"
    show "bit (pack_bytes xs) i = bit (pack_bytes zs) i"
    proof (cases "i < 24")
      case True
      then show ?thesis
        using bits [of "i + 8"] byte_bits [of x "i + 8"] byte_bits [of y "i + 8"] by auto
    next
      case False
      then show ?thesis
        using pack_bytes_bound [of xs i] pack_bytes_bound [of zs i] Cons.prems(1,2) by (auto simp: ys)
    qed
  qed
  ultimately show ?case
    using Cons.IH [of zs] Cons.prems(1,2) by (simp add: ys)
qed simp

lemma crc_bytes_packed:
  "length bs \<le> 4 \<Longrightarrow> foldl crc_byte c bs = (crc_step ^^ (8 * length bs)) (c XOR pack_bytes bs)"
proof (induction bs arbitrary: c)
  case (Cons b bs)
  have short: "\<not> bit (push_bit 8 (pack_bytes bs)) i" if "i < 8" for i
    using that by (simp add: bit_simps)
  have shifted: "drop_bit 8 (push_bit 8 (pack_bytes bs)) = pack_bytes bs"
    using pack_bytes_bound [of bs] Cons.prems
    by (intro bit_word_eqI) (force simp: bit_simps)
  have "foldl crc_byte c (b # bs) = (crc_step ^^ (8 * length bs)) ((crc_step ^^ 8) (c XOR ucast b) XOR pack_bytes bs)"
    using Cons.IH [of "crc_byte c b"] Cons.prems by (simp only: foldl_Cons crc_byte_steps [of c b]) simp
  also have "pack_bytes bs = (crc_step ^^ 8) (push_bit 8 (pack_bytes bs))"
    using crc_steps_high [of 8 "push_bit 8 (pack_bytes bs)"] short shifted by simp
  also have "(crc_step ^^ 8) (c XOR ucast b) XOR (crc_step ^^ 8) (push_bit 8 (pack_bytes bs))
      = (crc_step ^^ 8) (c XOR pack_bytes (b # bs))"
    by (simp add: crc_steps_xor [symmetric] xor.assoc)
  also have "(crc_step ^^ (8 * length bs)) ((crc_step ^^ 8) (c XOR pack_bytes (b # bs)))
      = (crc_step ^^ (8 * length bs + 8)) (c XOR pack_bytes (b # bs))"
    by (simp only: funpow_add comp_def)
  also have "8 * length bs + 8 = 8 * length (b # bs)"
    by simp
  finally show ?case .
qed simp

lemma crc_bytes_inject: "foldl crc_byte a bs = foldl crc_byte b bs \<Longrightarrow> a = b"
proof (induction bs arbitrary: a b)
  case (Cons x bs)
  then have "crc_byte a x = crc_byte b x"
    by simp
  then have "a XOR ucast x = b XOR ucast x"
    unfolding crc_byte_steps by (rule crc_steps_inject)
  then show ?case
    by (rule xor_cancel)
qed simp

lemma crc32_burst:
  assumes "length xs = length ys" and "length xs \<le> 4" and "xs \<noteq> ys"
  shows "crc32 (p @ xs @ q) \<noteq> crc32 (p @ ys @ q)"
proof
  let ?c = "foldl crc_byte 0xFFFFFFFF p"
  assume "crc32 (p @ xs @ q) = crc32 (p @ ys @ q)"
  then have "foldl crc_byte (foldl crc_byte ?c xs) q XOR 0xFFFFFFFF = foldl crc_byte (foldl crc_byte ?c ys) q XOR 0xFFFFFFFF"
    by (simp add: crc32_def)
  then have "foldl crc_byte (foldl crc_byte ?c xs) q = foldl crc_byte (foldl crc_byte ?c ys) q"
    by (rule xor_cancel)
  then have "foldl crc_byte ?c xs = foldl crc_byte ?c ys"
    by (rule crc_bytes_inject)
  then have "(crc_step ^^ (8 * length ys)) (?c XOR pack_bytes xs) = (crc_step ^^ (8 * length ys)) (?c XOR pack_bytes ys)"
    using assms(1,2) by (simp only: crc_bytes_packed)
  then have "?c XOR pack_bytes xs = ?c XOR pack_bytes ys"
    by (rule crc_steps_inject)
  then have "pack_bytes xs = pack_bytes ys"
    by (rule xor_cancel)
  then show False
    using pack_bytes_inject assms by blast
qed

lemma decoded_checksum:
  assumes "frame_decode lim bs = Inr f"
  shows "crc32 (take 104 bs @ drop 108 bs) = be_at 104 4 bs"
proof -
  have "bs = frame_bytes kFrameMagic kProtocolVersion (message_type_code (fh_type (fr_header f))) 0
      (of_nat (length (fr_payload f))) (fh_correlation (fr_header f)) (fh_authority (fr_header f))
      (fh_checksum (fr_header (seal_frame f))) (fr_payload f)"
    and f: "fh_version (fr_header f) = kProtocolVersion" "fh_flags (fr_header f) = 0"
    using frame_decode_encode [OF assms] by (simp_all add: frame_encode_iff)
  then show ?thesis
    using frame_bytes_fields [OF kFrameMagic_length, unfolded kFrameHeaderBytes_def kChecksumCoverageBytes_def]
    by (simp add: seal_frame_def covered_header_def Let_def)
qed

lemma be_at_inject:
  assumes "be_at 104 4 bs = (be_at 104 4 cs :: u32)" and "length bs = length cs" and "108 \<le> length bs"
  shows "take 4 (drop 104 bs) = take 4 (drop 104 cs)"
  by (rule be_value_inject [where 'w = 32]) (use assms in \<open>simp_all add: be_at_def\<close>)

lemma decoded_length: "frame_decode lim bs = Inr f \<Longrightarrow> 108 \<le> length bs"
  by (auto simp: frame_decode_def result_bind_Inr_iff kFrameHeaderBytes_def split: if_splits)

text \<open>
  C19. Damage is detected: when up to four adjacent bytes of an encoded frame are changed, all before
  the checksum, all inside it or all in the payload, the receiver rejects the frame. A damaged length,
  type or authority field is caught like a damaged payload.
\<close>

theorem damaged_frames_rejected:
  assumes "frame_encode lim f = Inr (p @ xs @ q)"
    and "length xs = length ys" and "length xs \<le> 4" and "xs \<noteq> ys"
    and "length p + length xs \<le> 104 \<or> 104 \<le> length p \<and> length p + length xs \<le> 108 \<or> 108 \<le> length p"
  shows "frame_decode lim (p @ ys @ q) \<noteq> Inr g"
proof
  assume bad: "frame_decode lim (p @ ys @ q) = Inr g"
  note good = seal_frame_encode [OF assms(1)]
  have big: "108 \<le> length (p @ xs @ q)" "108 \<le> length (p @ ys @ q)"
    using decoded_length [OF good] decoded_length [OF bad] .
  note sums = decoded_checksum [OF good] decoded_checksum [OF bad]
  consider (header) "length p + length xs \<le> 104" | (checksum) "104 \<le> length p" "length p + length xs \<le> 108"
    | (payload) "108 \<le> length p"
    using assms(5) by blast
  then show False
  proof cases
    case header
    let ?r = "take (104 - (length p + length xs)) q @ drop (108 - (length p + length xs)) q"
    have "crc32 (p @ xs @ ?r) = crc32 (p @ ys @ ?r)"
      using sums header assms(2) big by (simp add: be_at_def)
    then show False
      using crc32_burst [OF assms(2,3,4)] by blast
  next
    case checksum
    have "be_at 104 4 (p @ xs @ q) = (be_at 104 4 (p @ ys @ q) :: u32)"
      using sums checksum assms(2) by simp
    then have "take 4 (drop 104 (p @ xs @ q)) = take 4 (drop 104 (p @ ys @ q))"
      by (rule be_at_inject) (use assms(2) big(1) in simp_all)
    then show False
      using checksum assms(2,4) by simp
  next
    case payload
    let ?p = "take 104 p @ drop 108 p"
    have "crc32 (?p @ xs @ q) = crc32 (?p @ ys @ q)"
      using sums payload by (simp add: be_at_def)
    then show False
      using crc32_burst [OF assms(2,3,4)] by blast
  qed
qed

text \<open>A handshake frame with the last byte of its length field flipped.\<close>

definition hello_frame :: frame where
  "hello_frame = \<lparr> fr_header = default_header\<lparr> fh_type := MT_Hello, fh_correlation := 1 \<rparr>, fr_payload = [] \<rparr>"

theorem damaged_frames_rejected_witness:
  "\<exists>p q. frame_encode default_limits hello_frame = Inr (p @ [0] @ q)
     \<and> frame_decode default_limits (p @ [1] @ q) \<noteq> Inr hello_frame"
proof -
  let ?p = "kFrameMagic @ be16 1 @ be16 1 @ be32 0 @ [0, 0, 0]"
  obtain q where q: "frame_encode default_limits hello_frame = Inr (?p @ [0] @ q)"
    by (simp add: frame_encode_iff hello_frame_def default_header_def kProtocolVersion_def frame_bytes_def be32_def)
  have "frame_decode default_limits (?p @ [1] @ q) \<noteq> Inr hello_frame"
    by (rule damaged_frames_rejected [OF q]) (simp_all add: kFrameMagic_def)
  with q show ?thesis by blast
qed

end
