(* ===== verification/CF_Bodies.thy ===== *)
theory CF_Bodies
  imports CF_Frame CF_Authority
begin

text \<open>
  The payload codecs of \<open>src/protocol.cpp\<close>: the status envelope, the request of every operation, the
  review snapshot and the review summary. As for the journal records, \<open>fits\<close> says which values a
  decoder accepts, and each format is an interpretation of \<open>wire_codec\<close>: it is read back exactly, its
  encoding is injective and no encoding is a prefix of another.

  The wrappers that pass a domain record through (\<open>encode(writer, value, limits)\<close> for assignments,
  workers, decisions and so on) are the domain codecs themselves.
\<close>

section \<open>Evidence references\<close>

definition encode_id_list :: "evidence_id list \<Rightarrow> u32 \<Rightarrow> writer \<Rightarrow> writer" where
  "encode_id_list ids max_items w =
    (if length ids > unat max_items then w_fail E_ResourceLimitExceeded w
     else w_each w_u64 ids (w_u32 (of_nat (length ids)) w))"

definition decode_id_list :: "u32 \<Rightarrow> evidence_id list result decoder" where
  "decode_id_list max_items = do {
     count \<leftarrow> r_u32;
     try_read rd_get_status (\<lambda>_.
       if count > max_items then State_Monad.return (Inl E_ProtocolOversized)
       else do {
         ids \<leftarrow> r_times (unat count) r_u64;
         finish_read True ids
       })
   }"

lemma w_seq_single: "w_seq [e] = e"
  by (simp add: fun_eq_iff w_seq_def)

lemma codec_last: "codec e d x \<Longrightarrow> codec (w_seq []) (k x) y \<Longrightarrow> codec e (State_Monad.bind d k) y"
  using codec_Cons [of e d x "[]" k y] by (simp add: w_seq_single)

lemma codec_try_last: "codec e d (Inr x) \<Longrightarrow> codec (w_seq []) (k x) y \<Longrightarrow> codec e (try_read d k) y"
  using codec_try [of e d x "[]" k y] by (simp add: w_seq_single)

lemma codec_guarded: "codec e k y \<Longrightarrow> codec e (try_read rd_get_status (\<lambda>_. k)) y"
  using codec_bind [OF codec_idle [OF reads_status], of e "\<lambda>res. case res of Inl err \<Rightarrow> State_Monad.return (Inl err) | Inr x \<Rightarrow> k" y]
  by (simp add: try_read_def w_seq_Nil)

text \<open>A count, the check of its bound, and the elements; the count is not sticky in the reader.\<close>

lemma unat_of_bounded: "n \<le> unat (m :: u32) \<Longrightarrow> unat (of_nat n :: u32) = n"
  using unat_less_4294967296 [of m] by (simp add: unat_of_nat)

lemma codec_counted:
  assumes "n \<le> unat m" and "codec e (k (of_nat n)) y"
  shows "codec (\<lambda>w. e (w_u32 (of_nat n) w)) (do {
     count \<leftarrow> r_u32;
     try_read rd_get_status (\<lambda>_.
       if count > m then State_Monad.return (Inl err) else k count) }) y"
proof -
  have "\<not> (of_nat n :: u32) > m"
    using unat_of_bounded [OF assms(1)] assms(1) by (simp add: word_less_nat_alt)
  then show ?thesis
    using codec_guarded [OF assms(2)] by (intro codec_bind [OF codec_ints(2)]) simp
qed

lemma codec_evidence_ids [codecs]:
  assumes "length ids \<le> unat m"
  shows "codec (encode_id_list ids m) (decode_id_list m) (Inr ids)"
proof -
  have "codec (w_each w_u64 ids)
      (do { xs \<leftarrow> r_times (unat (of_nat (length ids) :: u32)) r_u64; finish_read True xs }) (Inr ids)"
    by (rule codec_last [OF codec_times]) (simp_all add: codec_ints codec_finish unat_of_bounded [OF assms])
  then have "codec (\<lambda>w. w_each w_u64 ids (w_u32 (of_nat (length ids)) w)) (decode_id_list m) (Inr ids)"
    unfolding decode_id_list_def
    by (rule codec_counted [OF assms, where k = "\<lambda>count. do { ids \<leftarrow> r_times (unat count) r_u64; finish_read True ids }"])
  then show ?thesis
    using assms by (simp add: encode_id_list_def [abs_def])
qed

section \<open>Requests\<close>

record fence_worker_request =
  fw_worker :: worker_id
  fw_reason :: string
  fw_epoch :: coordinator_epoch
  fw_request :: request_id

definition enc_register_target_request :: "runtime_limits \<Rightarrow> register_target_request \<Rightarrow> writer \<Rightarrow> writer" where
  "enc_register_target_request lim v = w_seq
    [w_u64 (rt_id v), w_u32 (target_class_code (rt_target_class v)),
     w_string (rt_schema_name v) (max_metadata_string_bytes lim),
     w_bytes (rt_payload v) (max_target_payload_bytes lim), w_u64 (rt_producer v),
     w_string (rt_producer_version v) (max_metadata_string_bytes lim),
     w_string (rt_provenance v) (max_metadata_string_bytes lim), w_boolean (rt_reviewable v),
     w_u64 (rt_epoch v), w_u64 (rt_request v)]"

definition dec_register_target_request :: "runtime_limits \<Rightarrow> register_target_request result decoder" where
  "dec_register_target_request lim = do {
     id \<leftarrow> r_u64;
     target_class \<leftarrow> r_target_class;
     schema_name \<leftarrow> r_string (max_metadata_string_bytes lim);
     payload \<leftarrow> r_bytes (max_target_payload_bytes lim);
     producer \<leftarrow> r_u64;
     producer_version \<leftarrow> r_string (max_metadata_string_bytes lim);
     provenance \<leftarrow> r_string (max_metadata_string_bytes lim);
     reviewable \<leftarrow> r_boolean;
     epoch \<leftarrow> r_u64;
     request \<leftarrow> r_u64;
     finish_read True
       \<lparr> rt_id = id, rt_target_class = target_class, rt_schema_name = schema_name,
         rt_payload = payload, rt_producer = producer, rt_producer_version = producer_version,
         rt_provenance = provenance, rt_reviewable = reviewable, rt_epoch = epoch,
         rt_request = request \<rparr>
   }"

definition fits_register_target_request :: "runtime_limits \<Rightarrow> register_target_request \<Rightarrow> bool" where
  "fits_register_target_request lim v \<longleftrightarrow> length (rt_schema_name v) \<le> unat (max_metadata_string_bytes lim)
   \<and> length (rt_payload v) \<le> unat (max_target_payload_bytes lim)
   \<and> length (rt_producer_version v) \<le> unat (max_metadata_string_bytes lim)
   \<and> length (rt_provenance v) \<le> unat (max_metadata_string_bytes lim)"

interpretation register_target_request_codec: wire_codec "enc_register_target_request lim" "dec_register_target_request lim" "fits_register_target_request lim"
  for lim
  by unfold_locales
     (unfold enc_register_target_request_def dec_register_target_request_def,
      (rule codec_rules codecs | simp add: fits_register_target_request_def)+)

declare register_target_request_codec.matches [codecs]

definition enc_supersede_target_request :: "runtime_limits \<Rightarrow> supersede_target_request \<Rightarrow> writer \<Rightarrow> writer" where
  "enc_supersede_target_request lim v = w_seq
    [w_u64 (st_target v), w_u32 (target_class_code (st_target_class v)),
     w_string (st_schema_name v) (max_metadata_string_bytes lim),
     w_bytes (st_payload v) (max_target_payload_bytes lim), w_u64 (st_producer v),
     w_string (st_producer_version v) (max_metadata_string_bytes lim),
     w_string (st_provenance v) (max_metadata_string_bytes lim),
     w_string (st_reason v) (max_metadata_string_bytes lim), w_u64 (st_epoch v),
     w_u64 (st_request v)]"

definition dec_supersede_target_request :: "runtime_limits \<Rightarrow> supersede_target_request result decoder" where
  "dec_supersede_target_request lim = do {
     target \<leftarrow> r_u64;
     target_class \<leftarrow> r_target_class;
     schema_name \<leftarrow> r_string (max_metadata_string_bytes lim);
     payload \<leftarrow> r_bytes (max_target_payload_bytes lim);
     producer \<leftarrow> r_u64;
     producer_version \<leftarrow> r_string (max_metadata_string_bytes lim);
     provenance \<leftarrow> r_string (max_metadata_string_bytes lim);
     reason \<leftarrow> r_string (max_metadata_string_bytes lim);
     epoch \<leftarrow> r_u64;
     request \<leftarrow> r_u64;
     finish_read True
       \<lparr> st_target = target, st_target_class = target_class, st_schema_name = schema_name,
         st_payload = payload, st_producer = producer, st_producer_version = producer_version,
         st_provenance = provenance, st_reason = reason, st_epoch = epoch, st_request = request \<rparr>
   }"

definition fits_supersede_target_request :: "runtime_limits \<Rightarrow> supersede_target_request \<Rightarrow> bool" where
  "fits_supersede_target_request lim v \<longleftrightarrow> length (st_schema_name v) \<le> unat (max_metadata_string_bytes lim)
   \<and> length (st_payload v) \<le> unat (max_target_payload_bytes lim)
   \<and> length (st_producer_version v) \<le> unat (max_metadata_string_bytes lim)
   \<and> length (st_provenance v) \<le> unat (max_metadata_string_bytes lim)
   \<and> length (st_reason v) \<le> unat (max_metadata_string_bytes lim)"

interpretation supersede_target_request_codec: wire_codec "enc_supersede_target_request lim" "dec_supersede_target_request lim" "fits_supersede_target_request lim"
  for lim
  by unfold_locales
     (unfold enc_supersede_target_request_def dec_supersede_target_request_def,
      (rule codec_rules codecs | simp add: fits_supersede_target_request_def)+)

declare supersede_target_request_codec.matches [codecs]

definition enc_register_critic_request :: "runtime_limits \<Rightarrow> register_critic_request \<Rightarrow> writer \<Rightarrow> writer" where
  "enc_register_critic_request lim v = w_seq
    [w_u64 (rc_id v), enc_critic_capability (rc_capability v), w_u64 (rc_registrant v),
     w_string (rc_provenance v) (max_metadata_string_bytes lim),
     enc_compatibility (rc_compat v), w_boolean (rc_advance_generation v), w_u64 (rc_epoch v),
     w_u64 (rc_request v)]"

definition dec_register_critic_request :: "runtime_limits \<Rightarrow> register_critic_request result decoder" where
  "dec_register_critic_request lim = do {
     id \<leftarrow> r_u64;
     try_read (dec_critic_capability lim) (\<lambda>capability. do {
     registrant \<leftarrow> r_u64;
     provenance \<leftarrow> r_string (max_metadata_string_bytes lim);
     try_read dec_compatibility (\<lambda>compat. do {
     advance_generation \<leftarrow> r_boolean;
     epoch \<leftarrow> r_u64;
     request \<leftarrow> r_u64;
     finish_read True
       \<lparr> rc_id = id, rc_capability = capability, rc_registrant = registrant,
         rc_provenance = provenance, rc_compat = compat,
         rc_advance_generation = advance_generation, rc_epoch = epoch, rc_request = request \<rparr>
   }) }) }"

definition fits_register_critic_request :: "runtime_limits \<Rightarrow> register_critic_request \<Rightarrow> bool" where
  "fits_register_critic_request lim v \<longleftrightarrow> fits_critic_capability (rc_capability v)
   \<and> length (rc_provenance v) \<le> unat (max_metadata_string_bytes lim)
   \<and> fits_compatibility (rc_compat v)"

interpretation register_critic_request_codec: wire_codec "enc_register_critic_request lim" "dec_register_critic_request lim" "fits_register_critic_request lim"
  for lim
  by unfold_locales
     (unfold enc_register_critic_request_def dec_register_critic_request_def,
      (rule codec_rules codecs | simp add: fits_register_critic_request_def)+)

declare register_critic_request_codec.matches [codecs]

definition enc_register_worker_request :: "runtime_limits \<Rightarrow> register_worker_request \<Rightarrow> writer \<Rightarrow> writer" where
  "enc_register_worker_request lim v = w_seq
    [w_u64 (rw_id v), w_u64 (rw_boot v), w_u64 (rw_critic v), w_u64 (rw_critic_generation v),
     w_u64 (rw_host v), w_string (rw_process_label v) (max_metadata_string_bytes lim),
     w_u64 (rw_epoch v), w_u64 (rw_request v)]"

definition dec_register_worker_request :: "runtime_limits \<Rightarrow> register_worker_request result decoder" where
  "dec_register_worker_request lim = do {
     id \<leftarrow> r_u64;
     boot \<leftarrow> r_u64;
     critic \<leftarrow> r_u64;
     critic_generation \<leftarrow> r_u64;
     host \<leftarrow> r_u64;
     process_label \<leftarrow> r_string (max_metadata_string_bytes lim);
     epoch \<leftarrow> r_u64;
     request \<leftarrow> r_u64;
     finish_read True
       \<lparr> rw_id = id, rw_boot = boot, rw_critic = critic, rw_critic_generation = critic_generation,
         rw_host = host, rw_process_label = process_label, rw_epoch = epoch, rw_request = request \<rparr>
   }"

definition fits_register_worker_request :: "runtime_limits \<Rightarrow> register_worker_request \<Rightarrow> bool" where
  "fits_register_worker_request lim v \<longleftrightarrow> length (rw_process_label v) \<le> unat (max_metadata_string_bytes lim)"

interpretation register_worker_request_codec: wire_codec "enc_register_worker_request lim" "dec_register_worker_request lim" "fits_register_worker_request lim"
  for lim
  by unfold_locales
     (unfold enc_register_worker_request_def dec_register_worker_request_def,
      (rule codec_rules codecs | simp add: fits_register_worker_request_def)+)

declare register_worker_request_codec.matches [codecs]

definition enc_declare_readiness_request :: "runtime_limits \<Rightarrow> declare_readiness_request \<Rightarrow> writer \<Rightarrow> writer" where
  "enc_declare_readiness_request lim v = w_seq
    [w_u64 (dr_id v), w_u64 (dr_boot v), w_u64 (dr_critic v), w_u64 (dr_critic_generation v),
     w_boolean (dr_ready v), w_boolean (dr_healthy v), w_digest (dr_capability_evidence v),
     w_u64 (dr_epoch v), w_u64 (dr_request v)]"

definition dec_declare_readiness_request :: "runtime_limits \<Rightarrow> declare_readiness_request result decoder" where
  "dec_declare_readiness_request lim = do {
     id \<leftarrow> r_u64;
     boot \<leftarrow> r_u64;
     critic \<leftarrow> r_u64;
     critic_generation \<leftarrow> r_u64;
     ready \<leftarrow> r_boolean;
     healthy \<leftarrow> r_boolean;
     capability_evidence \<leftarrow> r_digest;
     epoch \<leftarrow> r_u64;
     request \<leftarrow> r_u64;
     finish_read True
       \<lparr> dr_id = id, dr_boot = boot, dr_critic = critic, dr_critic_generation = critic_generation,
         dr_ready = ready, dr_healthy = healthy, dr_capability_evidence = capability_evidence,
         dr_epoch = epoch, dr_request = request \<rparr>
   }"

definition fits_declare_readiness_request :: "runtime_limits \<Rightarrow> declare_readiness_request \<Rightarrow> bool" where
  "fits_declare_readiness_request lim v \<longleftrightarrow> length (dr_capability_evidence v) = 32"

interpretation declare_readiness_request_codec: wire_codec "enc_declare_readiness_request lim" "dec_declare_readiness_request lim" "fits_declare_readiness_request lim"
  for lim
  by unfold_locales
     (unfold enc_declare_readiness_request_def dec_declare_readiness_request_def,
      (rule codec_rules codecs | simp add: fits_declare_readiness_request_def)+)

declare declare_readiness_request_codec.matches [codecs]

definition enc_declare_review_request :: "runtime_limits \<Rightarrow> declare_review_request \<Rightarrow> writer \<Rightarrow> writer" where
  "enc_declare_review_request lim v = w_seq
    [w_u64 (dv_request v), w_u64 (dv_target v), w_u64 (dv_target_generation v),
     enc_review_spec (dv_spec v), w_u64 (dv_epoch v)]"

definition dec_declare_review_request :: "runtime_limits \<Rightarrow> declare_review_request result decoder" where
  "dec_declare_review_request lim = do {
     request \<leftarrow> r_u64;
     target \<leftarrow> r_u64;
     target_generation \<leftarrow> r_u64;
     try_read (dec_review_spec lim) (\<lambda>spec. do {
     epoch \<leftarrow> r_u64;
     finish_read True
       \<lparr> dv_request = request, dv_target = target, dv_target_generation = target_generation,
         dv_spec = spec, dv_epoch = epoch \<rparr>
   }) }"

definition fits_declare_review_request :: "runtime_limits \<Rightarrow> declare_review_request \<Rightarrow> bool" where
  "fits_declare_review_request lim v \<longleftrightarrow> fits_review_spec lim (dv_spec v)"

interpretation declare_review_request_codec: wire_codec "enc_declare_review_request lim" "dec_declare_review_request lim" "fits_declare_review_request lim"
  for lim
  by unfold_locales
     (unfold enc_declare_review_request_def dec_declare_review_request_def,
      (rule codec_rules codecs | simp add: fits_declare_review_request_def)+)

declare declare_review_request_codec.matches [codecs]

definition enc_requested_assignment :: "requested_assignment \<Rightarrow> writer \<Rightarrow> writer" where
  "enc_requested_assignment v = w_seq
    [w_u64 (ra_critic v), w_u64 (ra_critic_generation v), w_u64 (ra_worker v),
     w_u64 (ra_worker_boot v), w_u32 (critic_role_code (ra_role v)), w_boolean (ra_required v)]"

definition dec_requested_assignment :: "requested_assignment result decoder" where
  "dec_requested_assignment = do {
     critic \<leftarrow> r_u64;
     critic_generation \<leftarrow> r_u64;
     worker \<leftarrow> r_u64;
     worker_boot \<leftarrow> r_u64;
     role \<leftarrow> r_critic_role;
     required \<leftarrow> r_boolean;
     finish_read True
       \<lparr> ra_critic = critic, ra_critic_generation = critic_generation, ra_worker = worker,
         ra_worker_boot = worker_boot, ra_role = role, ra_required = required \<rparr>
   }"

interpretation requested_assignment_codec:
  wire_codec enc_requested_assignment dec_requested_assignment "\<lambda>_. True"
  by unfold_locales
     (unfold enc_requested_assignment_def dec_requested_assignment_def, (rule codec_rules codecs | simp)+)

declare requested_assignment_codec.matches [codecs]

text \<open>A loop over decoded elements that returns at the first failure.\<close>

fun read_each :: "nat \<Rightarrow> 'a result decoder \<Rightarrow> 'a list result decoder" where
  "read_each 0 d = State_Monad.return (Inr [])"
| "read_each (Suc n) d = try_read d (\<lambda>x. try_read (read_each n d) (\<lambda>xs. State_Monad.return (Inr (x # xs))))"

lemma codec_each:
  assumes "\<And>x. x \<in> set xs \<Longrightarrow> codec (enc x) d (Inr x)"
  shows "codec (w_each enc xs) (read_each (length xs) d) (Inr xs)"
  using assms
proof (induction xs)
  case Nil
  then show ?case
    using codec_return [of "Inr []"] by (simp add: w_each_def [abs_def] w_seq_Nil)
next
  case (Cons x xs)
  have "codec (w_seq [enc x, w_each enc xs]) (read_each (Suc (length xs)) d) (Inr (x # xs))"
    unfolding read_each.simps
  proof (rule codec_try)
    show "codec (enc x) d (Inr x)"
      using Cons.prems by simp
    show "codec (w_seq [w_each enc xs])
        (try_read (read_each (length xs) d) (\<lambda>xs. State_Monad.return (Inr (x # xs)))) (Inr (x # xs))"
      unfolding w_seq_single
      by (rule codec_try_last [where x = xs]) (use Cons in \<open>simp_all add: codec_return\<close>)
  qed
  then show ?case
    by (simp add: w_seq_Cons w_seq_Nil w_each_Cons)
qed

text \<open>A batch over its bound fails the writer, so the fields after it are not written either.\<close>

definition encode_batch :: "('a \<Rightarrow> writer \<Rightarrow> writer) \<Rightarrow> 'a list \<Rightarrow> u32 \<Rightarrow> writer \<Rightarrow> writer" where
  "encode_batch enc xs max_items w =
    (if length xs > unat max_items then w_fail E_ResourceLimitExceeded w
     else w_each enc xs (w_u32 (of_nat (length xs)) w))"

definition read_bounded :: "u32 \<Rightarrow> 'a result decoder \<Rightarrow> 'a list result decoder" where
  "read_bounded max_items d = do {
     count \<leftarrow> r_u32;
     try_read rd_get_status (\<lambda>_.
       if count > max_items then State_Monad.return (Inl E_ProtocolOversized)
       else read_each (unat count) d)
   }"

lemma codec_bounded [codecs]:
  assumes "length xs \<le> unat m" and "\<And>x. x \<in> set xs \<Longrightarrow> codec (enc x) d (Inr x)"
  shows "codec (\<lambda>w. w_each enc xs (w_u32 (of_nat (length xs)) w)) (read_bounded m d) (Inr xs)"
  unfolding read_bounded_def
  by (rule codec_counted [OF assms(1), where k = "\<lambda>count. read_each (unat count) d"])
     (simp add: unat_of_bounded [OF assms(1)] codec_each assms(2))

lemma codec_batch [codecs]:
  assumes "length xs \<le> unat m" and "\<And>x. x \<in> set xs \<Longrightarrow> codec (enc x) d (Inr x)"
  shows "codec (encode_batch enc xs m) (read_bounded m d) (Inr xs)"
  using codec_bounded [OF assms] assms(1) by (simp add: encode_batch_def [abs_def])

definition enc_assign_critics_request :: "runtime_limits \<Rightarrow> assign_critics_request \<Rightarrow> writer \<Rightarrow> writer" where
  "enc_assign_critics_request lim v = w_seq
    [w_u64 (ac_review v), w_u64 (ac_review_generation v),
     encode_batch enc_requested_assignment (ac_assignments v) (max_critics_per_review lim),
     w_u64 (ac_epoch v), w_u64 (ac_request v)]"

definition dec_assign_critics_request :: "runtime_limits \<Rightarrow> assign_critics_request result decoder" where
  "dec_assign_critics_request lim = do {
     review \<leftarrow> r_u64;
     review_generation \<leftarrow> r_u64;
     try_read (read_bounded (max_critics_per_review lim) dec_requested_assignment) (\<lambda>assignments. do {
     epoch \<leftarrow> r_u64;
     request \<leftarrow> r_u64;
     finish_read True
       \<lparr> ac_review = review, ac_review_generation = review_generation,
         ac_assignments = assignments, ac_epoch = epoch, ac_request = request \<rparr>
   }) }"

definition fits_assign_critics_request :: "runtime_limits \<Rightarrow> assign_critics_request \<Rightarrow> bool" where
  "fits_assign_critics_request lim v \<longleftrightarrow> length (ac_assignments v) \<le> unat (max_critics_per_review lim)"

interpretation assign_critics_request_codec:
  wire_codec "enc_assign_critics_request lim" "dec_assign_critics_request lim" "fits_assign_critics_request lim"
  for lim
  by unfold_locales
     (unfold enc_assign_critics_request_def dec_assign_critics_request_def,
      (rule codec_rules codecs | simp add: fits_assign_critics_request_def)+)

declare assign_critics_request_codec.matches [codecs]

definition enc_submit_evidence_request :: "runtime_limits \<Rightarrow> submit_evidence_request \<Rightarrow> writer \<Rightarrow> writer" where
  "enc_submit_evidence_request lim v = w_seq
    [w_u32 (evidence_source_type_code (se_source_type v)),
     w_u32 (evidence_provenance_code (se_provenance v)),
     w_u32 (evidence_integrity_code (se_integrity v)), w_u64 (se_producer v),
     w_string (se_reference v) (max_metadata_string_bytes lim),
     w_bytes (se_payload v) (max_evidence_payload_bytes lim), w_u64 (se_finding v),
     w_u64 (se_epoch v), w_u64 (se_request v), w_u64 (se_review v),
     w_u64 (se_review_generation v), w_u64 (se_target v), w_u64 (se_target_generation v),
     w_u64 (se_critic v), w_u64 (se_critic_generation v), w_u64 (se_worker v),
     w_u64 (se_worker_boot v)]"

definition dec_submit_evidence_request :: "runtime_limits \<Rightarrow> submit_evidence_request result decoder" where
  "dec_submit_evidence_request lim = do {
     source_type \<leftarrow> r_evidence_source_type;
     provenance \<leftarrow> r_evidence_provenance;
     integrity \<leftarrow> r_evidence_integrity;
     producer \<leftarrow> r_u64;
     reference \<leftarrow> r_string (max_metadata_string_bytes lim);
     payload \<leftarrow> r_bytes (max_evidence_payload_bytes lim);
     finding \<leftarrow> r_u64;
     epoch \<leftarrow> r_u64;
     request \<leftarrow> r_u64;
     review \<leftarrow> r_u64;
     review_generation \<leftarrow> r_u64;
     target \<leftarrow> r_u64;
     target_generation \<leftarrow> r_u64;
     critic \<leftarrow> r_u64;
     critic_generation \<leftarrow> r_u64;
     worker \<leftarrow> r_u64;
     worker_boot \<leftarrow> r_u64;
     finish_read True
       \<lparr> se_source_type = source_type, se_provenance = provenance, se_integrity = integrity,
         se_producer = producer, se_reference = reference, se_payload = payload,
         se_finding = finding, se_epoch = epoch, se_request = request, se_review = review,
         se_review_generation = review_generation, se_target = target,
         se_target_generation = target_generation, se_critic = critic,
         se_critic_generation = critic_generation, se_worker = worker,
         se_worker_boot = worker_boot \<rparr>
   }"

definition fits_submit_evidence_request :: "runtime_limits \<Rightarrow> submit_evidence_request \<Rightarrow> bool" where
  "fits_submit_evidence_request lim v \<longleftrightarrow> length (se_reference v) \<le> unat (max_metadata_string_bytes lim)
   \<and> length (se_payload v) \<le> unat (max_evidence_payload_bytes lim)"

interpretation submit_evidence_request_codec: wire_codec "enc_submit_evidence_request lim" "dec_submit_evidence_request lim" "fits_submit_evidence_request lim"
  for lim
  by unfold_locales
     (unfold enc_submit_evidence_request_def dec_submit_evidence_request_def,
      (rule codec_rules codecs | simp add: fits_submit_evidence_request_def)+)

declare submit_evidence_request_codec.matches [codecs]

definition enc_submit_finding_request :: "runtime_limits \<Rightarrow> submit_finding_request \<Rightarrow> writer \<Rightarrow> writer" where
  "enc_submit_finding_request lim v = w_seq
    [w_u32 (finding_category_code (sf_category v)), w_u32 (severity_code (sf_severity v)),
     w_u32 (finding_outcome_code (sf_outcome v)),
     encode_id_list (sf_evidence v) (max_evidence_per_finding lim),
     w_string (sf_explanation v) (max_explanation_bytes lim), enc_confidence (sf_confidence v),
     w_string (sf_provenance v) (max_metadata_string_bytes lim), w_u64 (sf_supersedes v),
     w_u64 (sf_epoch v), w_u64 (sf_request v), w_u64 (sf_review v),
     w_u64 (sf_review_generation v), w_u64 (sf_target v), w_u64 (sf_target_generation v),
     w_u64 (sf_critic v), w_u64 (sf_critic_generation v), w_u64 (sf_worker v),
     w_u64 (sf_worker_boot v)]"

definition dec_submit_finding_request :: "runtime_limits \<Rightarrow> submit_finding_request result decoder" where
  "dec_submit_finding_request lim = do {
     category \<leftarrow> r_finding_category;
     severity \<leftarrow> r_severity;
     outcome \<leftarrow> r_finding_outcome;
     try_read (decode_id_list (max_evidence_per_finding lim)) (\<lambda>evidence. do {
     explanation \<leftarrow> r_string (max_explanation_bytes lim);
     try_read dec_confidence (\<lambda>confidence. do {
     provenance \<leftarrow> r_string (max_metadata_string_bytes lim);
     supersedes \<leftarrow> r_u64;
     epoch \<leftarrow> r_u64;
     request \<leftarrow> r_u64;
     review \<leftarrow> r_u64;
     review_generation \<leftarrow> r_u64;
     target \<leftarrow> r_u64;
     target_generation \<leftarrow> r_u64;
     critic \<leftarrow> r_u64;
     critic_generation \<leftarrow> r_u64;
     worker \<leftarrow> r_u64;
     worker_boot \<leftarrow> r_u64;
     finish_read True
       \<lparr> sf_category = category, sf_severity = severity, sf_outcome = outcome,
         sf_evidence = evidence, sf_explanation = explanation, sf_confidence = confidence,
         sf_provenance = provenance, sf_supersedes = supersedes, sf_epoch = epoch,
         sf_request = request, sf_review = review, sf_review_generation = review_generation,
         sf_target = target, sf_target_generation = target_generation, sf_critic = critic,
         sf_critic_generation = critic_generation, sf_worker = worker,
         sf_worker_boot = worker_boot \<rparr>
   }) }) }"

definition fits_submit_finding_request :: "runtime_limits \<Rightarrow> submit_finding_request \<Rightarrow> bool" where
  "fits_submit_finding_request lim v \<longleftrightarrow> length (sf_evidence v) \<le> unat (max_evidence_per_finding lim)
   \<and> length (sf_explanation v) \<le> unat (max_explanation_bytes lim)
   \<and> fits_confidence (sf_confidence v)
   \<and> length (sf_provenance v) \<le> unat (max_metadata_string_bytes lim)"

interpretation submit_finding_request_codec: wire_codec "enc_submit_finding_request lim" "dec_submit_finding_request lim" "fits_submit_finding_request lim"
  for lim
  by unfold_locales
     (unfold enc_submit_finding_request_def dec_submit_finding_request_def,
      (rule codec_rules codecs | simp add: fits_submit_finding_request_def)+)

declare submit_finding_request_codec.matches [codecs]

definition enc_submit_challenge_request :: "runtime_limits \<Rightarrow> submit_challenge_request \<Rightarrow> writer \<Rightarrow> writer" where
  "enc_submit_challenge_request lim v = w_seq
    [w_u64 (sc_challenged_finding v), w_u64 (sc_challenged_finding_generation v),
     w_string (sc_disputed_predicate v) (max_metadata_string_bytes lim),
     w_string (sc_rationale v) (max_explanation_bytes lim),
     encode_id_list (sc_evidence v) (max_evidence_per_finding lim), w_u64 (sc_epoch v),
     w_u64 (sc_request v), w_u64 (sc_review v), w_u64 (sc_review_generation v),
     w_u64 (sc_target v), w_u64 (sc_target_generation v), w_u64 (sc_critic v),
     w_u64 (sc_critic_generation v), w_u64 (sc_worker v), w_u64 (sc_worker_boot v)]"

definition dec_submit_challenge_request :: "runtime_limits \<Rightarrow> submit_challenge_request result decoder" where
  "dec_submit_challenge_request lim = do {
     challenged_finding \<leftarrow> r_u64;
     challenged_finding_generation \<leftarrow> r_u64;
     disputed_predicate \<leftarrow> r_string (max_metadata_string_bytes lim);
     rationale \<leftarrow> r_string (max_explanation_bytes lim);
     try_read (decode_id_list (max_evidence_per_finding lim)) (\<lambda>evidence. do {
     epoch \<leftarrow> r_u64;
     request \<leftarrow> r_u64;
     review \<leftarrow> r_u64;
     review_generation \<leftarrow> r_u64;
     target \<leftarrow> r_u64;
     target_generation \<leftarrow> r_u64;
     critic \<leftarrow> r_u64;
     critic_generation \<leftarrow> r_u64;
     worker \<leftarrow> r_u64;
     worker_boot \<leftarrow> r_u64;
     finish_read True
       \<lparr> sc_challenged_finding = challenged_finding,
         sc_challenged_finding_generation = challenged_finding_generation,
         sc_disputed_predicate = disputed_predicate, sc_rationale = rationale,
         sc_evidence = evidence, sc_epoch = epoch, sc_request = request, sc_review = review,
         sc_review_generation = review_generation, sc_target = target,
         sc_target_generation = target_generation, sc_critic = critic,
         sc_critic_generation = critic_generation, sc_worker = worker,
         sc_worker_boot = worker_boot \<rparr>
   }) }"

definition fits_submit_challenge_request :: "runtime_limits \<Rightarrow> submit_challenge_request \<Rightarrow> bool" where
  "fits_submit_challenge_request lim v \<longleftrightarrow> length (sc_disputed_predicate v) \<le> unat (max_metadata_string_bytes lim)
   \<and> length (sc_rationale v) \<le> unat (max_explanation_bytes lim)
   \<and> length (sc_evidence v) \<le> unat (max_evidence_per_finding lim)"

interpretation submit_challenge_request_codec: wire_codec "enc_submit_challenge_request lim" "dec_submit_challenge_request lim" "fits_submit_challenge_request lim"
  for lim
  by unfold_locales
     (unfold enc_submit_challenge_request_def dec_submit_challenge_request_def,
      (rule codec_rules codecs | simp add: fits_submit_challenge_request_def)+)

declare submit_challenge_request_codec.matches [codecs]

definition enc_submit_rebuttal_request :: "runtime_limits \<Rightarrow> submit_rebuttal_request \<Rightarrow> writer \<Rightarrow> writer" where
  "enc_submit_rebuttal_request lim v = w_seq
    [w_u64 (sr_challenge v), w_u64 (sr_challenge_generation v),
     w_u32 (challenge_outcome_code (sr_outcome v)),
     w_string (sr_argument v) (max_explanation_bytes lim),
     encode_id_list (sr_evidence v) (max_evidence_per_finding lim), w_u64 (sr_epoch v),
     w_u64 (sr_request v), w_u64 (sr_review v), w_u64 (sr_review_generation v),
     w_u64 (sr_target v), w_u64 (sr_target_generation v), w_u64 (sr_critic v),
     w_u64 (sr_critic_generation v), w_u64 (sr_worker v), w_u64 (sr_worker_boot v)]"

definition dec_submit_rebuttal_request :: "runtime_limits \<Rightarrow> submit_rebuttal_request result decoder" where
  "dec_submit_rebuttal_request lim = do {
     challenge \<leftarrow> r_u64;
     challenge_generation \<leftarrow> r_u64;
     outcome \<leftarrow> r_challenge_outcome;
     argument \<leftarrow> r_string (max_explanation_bytes lim);
     try_read (decode_id_list (max_evidence_per_finding lim)) (\<lambda>evidence. do {
     epoch \<leftarrow> r_u64;
     request \<leftarrow> r_u64;
     review \<leftarrow> r_u64;
     review_generation \<leftarrow> r_u64;
     target \<leftarrow> r_u64;
     target_generation \<leftarrow> r_u64;
     critic \<leftarrow> r_u64;
     critic_generation \<leftarrow> r_u64;
     worker \<leftarrow> r_u64;
     worker_boot \<leftarrow> r_u64;
     finish_read True
       \<lparr> sr_challenge = challenge, sr_challenge_generation = challenge_generation,
         sr_outcome = outcome, sr_argument = argument, sr_evidence = evidence, sr_epoch = epoch,
         sr_request = request, sr_review = review, sr_review_generation = review_generation,
         sr_target = target, sr_target_generation = target_generation, sr_critic = critic,
         sr_critic_generation = critic_generation, sr_worker = worker,
         sr_worker_boot = worker_boot \<rparr>
   }) }"

definition fits_submit_rebuttal_request :: "runtime_limits \<Rightarrow> submit_rebuttal_request \<Rightarrow> bool" where
  "fits_submit_rebuttal_request lim v \<longleftrightarrow> length (sr_argument v) \<le> unat (max_explanation_bytes lim)
   \<and> length (sr_evidence v) \<le> unat (max_evidence_per_finding lim)"

interpretation submit_rebuttal_request_codec: wire_codec "enc_submit_rebuttal_request lim" "dec_submit_rebuttal_request lim" "fits_submit_rebuttal_request lim"
  for lim
  by unfold_locales
     (unfold enc_submit_rebuttal_request_def dec_submit_rebuttal_request_def,
      (rule codec_rules codecs | simp add: fits_submit_rebuttal_request_def)+)

declare submit_rebuttal_request_codec.matches [codecs]

definition enc_commit_review_request :: "runtime_limits \<Rightarrow> commit_review_request \<Rightarrow> writer \<Rightarrow> writer" where
  "enc_commit_review_request lim v = w_seq
    [w_u64 (cm_review v), w_u64 (cm_review_generation v), w_u64 (cm_target_generation v),
     w_u64 (cm_epoch v), w_u64 (cm_request v), w_boolean (cm_include_rendered_explanation v)]"

definition dec_commit_review_request :: "runtime_limits \<Rightarrow> commit_review_request result decoder" where
  "dec_commit_review_request lim = do {
     review \<leftarrow> r_u64;
     review_generation \<leftarrow> r_u64;
     target_generation \<leftarrow> r_u64;
     epoch \<leftarrow> r_u64;
     request \<leftarrow> r_u64;
     include_rendered_explanation \<leftarrow> r_boolean;
     finish_read True
       \<lparr> cm_review = review, cm_review_generation = review_generation,
         cm_target_generation = target_generation, cm_epoch = epoch, cm_request = request,
         cm_include_rendered_explanation = include_rendered_explanation \<rparr>
   }"

definition fits_commit_review_request :: "runtime_limits \<Rightarrow> commit_review_request \<Rightarrow> bool" where
  "fits_commit_review_request lim v \<longleftrightarrow> True"

interpretation commit_review_request_codec: wire_codec "enc_commit_review_request lim" "dec_commit_review_request lim" "fits_commit_review_request lim"
  for lim
  by unfold_locales
     (unfold enc_commit_review_request_def dec_commit_review_request_def,
      (rule codec_rules codecs | simp add: fits_commit_review_request_def)+)

declare commit_review_request_codec.matches [codecs]

definition enc_cancel_review_request :: "runtime_limits \<Rightarrow> cancel_review_request \<Rightarrow> writer \<Rightarrow> writer" where
  "enc_cancel_review_request lim v = w_seq
    [w_u64 (cn_review v), w_u64 (cn_review_generation v),
     w_string (cn_reason v) (max_metadata_string_bytes lim), w_u64 (cn_epoch v),
     w_u64 (cn_request v)]"

definition dec_cancel_review_request :: "runtime_limits \<Rightarrow> cancel_review_request result decoder" where
  "dec_cancel_review_request lim = do {
     review \<leftarrow> r_u64;
     review_generation \<leftarrow> r_u64;
     reason \<leftarrow> r_string (max_metadata_string_bytes lim);
     epoch \<leftarrow> r_u64;
     request \<leftarrow> r_u64;
     finish_read True
       \<lparr> cn_review = review, cn_review_generation = review_generation, cn_reason = reason,
         cn_epoch = epoch, cn_request = request \<rparr>
   }"

definition fits_cancel_review_request :: "runtime_limits \<Rightarrow> cancel_review_request \<Rightarrow> bool" where
  "fits_cancel_review_request lim v \<longleftrightarrow> length (cn_reason v) \<le> unat (max_metadata_string_bytes lim)"

interpretation cancel_review_request_codec: wire_codec "enc_cancel_review_request lim" "dec_cancel_review_request lim" "fits_cancel_review_request lim"
  for lim
  by unfold_locales
     (unfold enc_cancel_review_request_def dec_cancel_review_request_def,
      (rule codec_rules codecs | simp add: fits_cancel_review_request_def)+)

declare cancel_review_request_codec.matches [codecs]

definition enc_fence_worker_request :: "runtime_limits \<Rightarrow> fence_worker_request \<Rightarrow> writer \<Rightarrow> writer" where
  "enc_fence_worker_request lim v = w_seq
    [w_u64 (fw_worker v), w_string (fw_reason v) (max_metadata_string_bytes lim),
     w_u64 (fw_epoch v), w_u64 (fw_request v)]"

definition dec_fence_worker_request :: "runtime_limits \<Rightarrow> fence_worker_request result decoder" where
  "dec_fence_worker_request lim = do {
     worker \<leftarrow> r_u64;
     reason \<leftarrow> r_string (max_metadata_string_bytes lim);
     epoch \<leftarrow> r_u64;
     request \<leftarrow> r_u64;
     finish_read True
       \<lparr> fw_worker = worker, fw_reason = reason, fw_epoch = epoch, fw_request = request \<rparr>
   }"

definition fits_fence_worker_request :: "runtime_limits \<Rightarrow> fence_worker_request \<Rightarrow> bool" where
  "fits_fence_worker_request lim v \<longleftrightarrow> length (fw_reason v) \<le> unat (max_metadata_string_bytes lim)"

interpretation fence_worker_request_codec: wire_codec "enc_fence_worker_request lim" "dec_fence_worker_request lim" "fits_fence_worker_request lim"
  for lim
  by unfold_locales
     (unfold enc_fence_worker_request_def dec_fence_worker_request_def,
      (rule codec_rules codecs | simp add: fits_fence_worker_request_def)+)

declare fence_worker_request_codec.matches [codecs]

section \<open>Answers\<close>

definition enc_review_summary :: "runtime_limits \<Rightarrow> review_summary \<Rightarrow> writer \<Rightarrow> writer" where
  "enc_review_summary lim v = w_seq
    [w_u64 (rs_id v), w_u64 (rs_generation v), w_u64 (rs_target v),
     w_u64 (rs_target_generation v), w_u32 (review_state_code (rs_state v)),
     w_u32 (review_disposition_code (rs_disposition v)), w_u32 (rs_finding_count v),
     w_u32 (rs_current_finding_count v), w_u32 (rs_assignment_count v),
     w_boolean (rs_has_decision v)]"

definition dec_review_summary :: "runtime_limits \<Rightarrow> review_summary result decoder" where
  "dec_review_summary lim = do {
     id \<leftarrow> r_u64;
     generation \<leftarrow> r_u64;
     target \<leftarrow> r_u64;
     target_generation \<leftarrow> r_u64;
     state \<leftarrow> r_review_state;
     disposition \<leftarrow> r_review_disposition;
     finding_count \<leftarrow> r_u32;
     current_finding_count \<leftarrow> r_u32;
     assignment_count \<leftarrow> r_u32;
     has_decision \<leftarrow> r_boolean;
     finish_read True
       \<lparr> rs_id = id, rs_generation = generation, rs_target = target,
         rs_target_generation = target_generation, rs_state = state, rs_disposition = disposition,
         rs_finding_count = finding_count, rs_current_finding_count = current_finding_count,
         rs_assignment_count = assignment_count, rs_has_decision = has_decision \<rparr>
   }"

definition fits_review_summary :: "runtime_limits \<Rightarrow> review_summary \<Rightarrow> bool" where
  "fits_review_summary lim v \<longleftrightarrow> True"

interpretation review_summary_codec: wire_codec "enc_review_summary lim" "dec_review_summary lim" "fits_review_summary lim"
  for lim
  by unfold_locales
     (unfold enc_review_summary_def dec_review_summary_def,
      (rule codec_rules codecs | simp add: fits_review_summary_def)+)

declare review_summary_codec.matches [codecs]

text \<open>The snapshot writes its counts unchecked and truncated; the reader bounds each of them.\<close>

definition w_counted :: "('a \<Rightarrow> writer \<Rightarrow> writer) \<Rightarrow> 'a list \<Rightarrow> writer \<Rightarrow> writer" where
  "w_counted enc xs w = w_each enc xs (w_u32 (of_nat (length xs)) w)"

lemma codec_counted_list [codecs]:
  assumes "length xs \<le> unat m" and "\<And>x. x \<in> set xs \<Longrightarrow> codec (enc x) d (Inr x)"
  shows "codec (w_counted enc xs) (read_bounded m d) (Inr xs)"
  using codec_bounded [OF assms] by (simp add: w_counted_def [abs_def])

definition w_optional :: "('a \<Rightarrow> writer \<Rightarrow> writer) \<Rightarrow> 'a option \<Rightarrow> writer \<Rightarrow> writer" where
  "w_optional enc x = w_seq
    [w_boolean (x \<noteq> None), case x of None \<Rightarrow> (\<lambda>w. w) | Some a \<Rightarrow> enc a]"

definition read_optional :: "'a result decoder \<Rightarrow> 'a option result decoder" where
  "read_optional d = do {
     present \<leftarrow> r_boolean;
     try_read (if present then try_read d (\<lambda>x. State_Monad.return (Inr (Some x)))
               else State_Monad.return (Inr None)) (\<lambda>x. finish_read True x)
   }"

lemma codec_optional [codecs]:
  assumes "\<And>a. x = Some a \<Longrightarrow> codec (enc a) d (Inr a)"
  shows "codec (w_optional enc x) (read_optional d) (Inr x)"
proof (cases x)
  case None
  then show ?thesis
    unfolding w_optional_def read_optional_def
    by (intro codec_Cons [OF codec_boolean] codec_try [where x = None])
       (simp_all add: codec_finish codec_return w_seq_Nil [symmetric])
next
  case (Some a)
  have "codec (enc a) (try_read d (\<lambda>x. State_Monad.return (Inr (Some x)))) (Inr (Some a))"
    by (rule codec_try_last [OF assms [OF Some]]) (simp add: codec_return)
  then show ?thesis
    unfolding w_optional_def read_optional_def Some
    by (intro codec_Cons [OF codec_boolean] codec_try [where x = "Some a"]) (simp_all add: codec_finish)
qed

definition enc_review_snapshot :: "review_snapshot \<Rightarrow> writer \<Rightarrow> writer" where
  "enc_review_snapshot v = w_seq
    [enc_review_record (sn_review v),
     w_counted enc_critic_assignment (sn_assignments v),
     w_counted enc_finding (sn_findings v),
     w_counted enc_evidence_record (sn_evidences v),
     w_counted enc_challenge (sn_challenges v),
     w_counted enc_rebuttal (sn_rebuttals v),
     w_optional enc_decision (sn_decision v),
     w_digest (sn_state_digest v)]"

definition dec_review_snapshot :: "runtime_limits \<Rightarrow> review_snapshot result decoder" where
  "dec_review_snapshot lim =
     try_read (dec_review_record lim) (\<lambda>review.
     try_read (read_bounded (max_critics_per_review lim * 4) (dec_critic_assignment lim)) (\<lambda>assignments.
     try_read (read_bounded (max_findings_per_review lim * 4) (dec_finding lim)) (\<lambda>findings.
     try_read (read_bounded (max_evidence_records_per_review lim * 4) (dec_evidence_record lim)) (\<lambda>evidences.
     try_read (read_bounded (max_challenges_per_review lim * 4) (dec_challenge lim)) (\<lambda>challenges.
     try_read (read_bounded (max_challenges_per_review lim * 4) (dec_rebuttal lim)) (\<lambda>rebuttals.
     try_read (read_optional dec_decision) (\<lambda>decision. do {
     state_digest \<leftarrow> r_digest;
     finish_read True
       \<lparr> sn_review = review, sn_assignments = assignments, sn_findings = findings,
         sn_evidences = evidences, sn_challenges = challenges, sn_rebuttals = rebuttals,
         sn_decision = decision, sn_state_digest = state_digest \<rparr>
   })))))))"

definition fits_review_snapshot :: "runtime_limits \<Rightarrow> review_snapshot \<Rightarrow> bool" where
  "fits_review_snapshot lim v \<longleftrightarrow> fits_review_record lim (sn_review v)
   \<and> length (sn_assignments v) \<le> unat (max_critics_per_review lim * 4)
   \<and> list_all (fits_critic_assignment lim) (sn_assignments v)
   \<and> length (sn_findings v) \<le> unat (max_findings_per_review lim * 4)
   \<and> list_all (fits_finding lim) (sn_findings v)
   \<and> length (sn_evidences v) \<le> unat (max_evidence_records_per_review lim * 4)
   \<and> list_all (fits_evidence_record lim) (sn_evidences v)
   \<and> length (sn_challenges v) \<le> unat (max_challenges_per_review lim * 4)
   \<and> list_all (fits_challenge lim) (sn_challenges v)
   \<and> length (sn_rebuttals v) \<le> unat (max_challenges_per_review lim * 4)
   \<and> list_all (fits_rebuttal lim) (sn_rebuttals v)
   \<and> (case sn_decision v of None \<Rightarrow> True | Some d \<Rightarrow> fits_decision d)
   \<and> length (sn_state_digest v) = 32"

interpretation review_snapshot_codec:
  wire_codec enc_review_snapshot "dec_review_snapshot lim" "fits_review_snapshot lim"
  for lim
  by unfold_locales
     (unfold enc_review_snapshot_def dec_review_snapshot_def,
      (rule codec_rules codecs | simp add: fits_review_snapshot_def list_all_iff)+)

declare review_snapshot_codec.matches [codecs]

section \<open>The status envelope\<close>

text \<open>
  The code travels as its number. The reader only checks that it does not exceed the largest code, so a
  number between two groups of codes is accepted without naming one.
\<close>

record status_envelope =
  en_code :: u32
  en_detail :: string

definition enc_status_envelope :: "status_envelope \<Rightarrow> writer \<Rightarrow> writer" where
  "enc_status_envelope v = w_seq
    [w_u32 (en_code v), w_string (en_detail v) kHardMaxMetadataBytes]"

definition dec_status_envelope :: "runtime_limits \<Rightarrow> status_envelope result decoder" where
  "dec_status_envelope lim = do {
     raw \<leftarrow> r_u32;
     try_read rd_get_status (\<lambda>_.
       if raw > error_code_num E_InternalError then State_Monad.return (Inl E_ProtocolInvalidEnum)
       else do {
         detail \<leftarrow> r_string (max_metadata_string_bytes lim);
         finish_read True \<lparr> en_code = raw, en_detail = detail \<rparr>
       })
   }"

definition fits_status_envelope :: "runtime_limits \<Rightarrow> status_envelope \<Rightarrow> bool" where
  "fits_status_envelope lim v \<longleftrightarrow> en_code v \<le> error_code_num E_InternalError
   \<and> length (en_detail v) \<le> unat (max_metadata_string_bytes lim)"

lemma codec_status_envelope [codecs]:
  assumes "fits_status_envelope lim v"
  shows "codec (enc_status_envelope v) (dec_status_envelope lim) (Inr v)"
proof -
  have small: "\<not> en_code v > error_code_num E_InternalError"
    using assms by (auto simp: fits_status_envelope_def)
  have "codec (w_string (en_detail v) kHardMaxMetadataBytes)
      (do { detail \<leftarrow> r_string (max_metadata_string_bytes lim);
            finish_read True \<lparr> en_code = en_code v, en_detail = detail \<rparr> }) (Inr v)"
    by (rule codec_last [OF codec_string]) (use assms in \<open>simp_all add: fits_status_envelope_def codec_done\<close>)
  from codec_guarded [OF this] show ?thesis
    unfolding enc_status_envelope_def dec_status_envelope_def
    by (intro codec_Cons [OF codec_ints(2)]) (simp only: small w_seq_single if_False)
qed

interpretation status_envelope_codec:
  wire_codec enc_status_envelope "dec_status_envelope lim" "fits_status_envelope lim"
  for lim
  by unfold_locales (rule codec_status_envelope)

end
