(* ===== verification/CF_Client.thy ===== *)
theory CF_Client
  imports CF_Bodies
begin

text \<open>
  The coordinator client (\<open>CoordinatorClient\<close> of \<open>include/critic_fabric/transport.hpp\<close> and
  \<open>src/transport.cpp\<close>): one request at a time, frames read from the server until the answer arrives,
  typed answers decoded from the status envelope and the body behind it.

  The socket is the bytes the server sends before it closes the connection and the bytes written to
  it, so waiting for a frame that never comes ends when those bytes are used up. The code of an answer
  is the number on the wire, which need not name an error code; results of the client carry it.
\<close>

section \<open>Client state\<close>

record client =
  cl_limits :: runtime_limits
  cl_connected :: bool
  cl_epoch :: coordinator_epoch
  cl_incoming :: bytes
  cl_sent :: bytes
  cl_writable :: bool
  cl_push_handler :: bool
  cl_pushed :: "frame list"

type_synonym 'a remote = "u32 + 'a"

definition local_failure :: "'a result \<Rightarrow> 'a remote" where
  "local_failure r = map_sum error_code_num id r"

text \<open>A client right after \<open>connect\<close>.\<close>

definition connected_client :: "runtime_limits \<Rightarrow> bytes \<Rightarrow> client" where
  "connected_client limits stream =
    \<lparr> cl_limits = clamp_to_hard_ceiling limits, cl_connected = True, cl_epoch = 0,
      cl_incoming = stream, cl_sent = [], cl_writable = True, cl_push_handler = False, cl_pushed = [] \<rparr>"

section \<open>Frames out and in\<close>

definition socket_write :: "bytes \<Rightarrow> client \<Rightarrow> client \<times> status" where
  "socket_write bs cl =
    (if cl_writable cl then (cl\<lparr> cl_sent := cl_sent cl @ bs \<rparr>, success)
     else (cl, Inl E_ProtocolConnectionClosed))"

definition request_frame :: "message_type \<Rightarrow> authority_context \<Rightarrow> bytes \<Rightarrow> frame" where
  "request_frame ty au payload =
    \<lparr> fr_header = default_header\<lparr> fh_type := ty, fh_correlation := au_request au, fh_authority := au \<rparr>,
      fr_payload = payload \<rparr>"

definition client_send :: "message_type \<Rightarrow> authority_context \<Rightarrow> bytes \<Rightarrow> client \<Rightarrow> client \<times> status" where
  "client_send ty au payload cl =
    (if \<not> cl_connected cl then (cl, Inl E_ProtocolConnectionClosed)
     else case frame_encode (cl_limits cl) (request_frame ty au payload) of
       Inl err \<Rightarrow> (cl, Inl err)
     | Inr bs \<Rightarrow> socket_write bs cl)"

definition client_send_raw :: "bytes \<Rightarrow> client \<Rightarrow> client \<times> status" where
  "client_send_raw bs cl =
    (if \<not> cl_connected cl then (cl, Inl E_ProtocolConnectionClosed)
     else if length bs > unat (max_frame_bytes (cl_limits cl)) then (cl, Inl E_ProtocolOversized)
     else socket_write bs cl)"

definition disconnected :: "client \<Rightarrow> client" where
  "disconnected cl = cl\<lparr> cl_connected := False, cl_incoming := [] \<rparr>"

text \<open>A stream that ends early disconnects the client; a frame that is refused does not.\<close>

definition client_receive :: "client \<Rightarrow> client \<times> frame result" where
  "client_receive cl =
    (if \<not> cl_connected cl then (cl, Inl E_ProtocolConnectionClosed)
     else if length (cl_incoming cl) < kFrameHeaderBytes
       then (disconnected cl, Inl E_ProtocolConnectionClosed)
     else case decode_header (cl_limits cl) (Some (take kFrameHeaderBytes (cl_incoming cl))) of
       Inl err \<Rightarrow> (cl\<lparr> cl_incoming := drop kFrameHeaderBytes (cl_incoming cl) \<rparr>, Inl err)
     | Inr h \<Rightarrow>
         (let whole = kFrameHeaderBytes + unat (fh_payload_length h) in
          if length (cl_incoming cl) < whole then (disconnected cl, Inl E_ProtocolConnectionClosed)
          else (cl\<lparr> cl_incoming := drop whole (cl_incoming cl) \<rparr>,
                frame_decode (cl_limits cl) (take whole (cl_incoming cl)))))"

lemma client_receive_consumes:
  assumes "client_receive cl = (cl1, Inr f)"
  shows "length (cl_incoming cl1) < length (cl_incoming cl)"
  using assms
  by (auto simp: client_receive_def Let_def kFrameHeaderBytes_def split: if_splits sum.splits)

text \<open>
  The wait for an answer. An assignment notice that arrives in between goes to the push handler, and
  nowhere when there is none. Every round reads a frame, so the wait ends with the stream.
\<close>

definition push_frame :: "frame \<Rightarrow> client \<Rightarrow> client" where
  "push_frame f cl = (if cl_push_handler cl then cl\<lparr> cl_pushed := cl_pushed cl @ [f] \<rparr> else cl)"

function await_answer :: "message_type \<Rightarrow> client \<Rightarrow> client \<times> frame result" where
  "await_answer expected cl =
    (case client_receive cl of
       (cl1, Inl err) \<Rightarrow> (cl1, Inl err)
     | (cl1, Inr f) \<Rightarrow>
         if fh_type (fr_header f) = MT_ErrorResponse then (cl1, Inr f)
         else if fh_type (fr_header f) = expected then (cl1, Inr f)
         else if fh_type (fr_header f) = MT_AssignmentNotice then await_answer expected (push_frame f cl1)
         else (cl1, Inl E_ProtocolError))"
  by pat_completeness auto

termination
  by (relation "measure (\<lambda>(expected, cl). length (cl_incoming cl))")
     (auto simp: push_frame_def dest: client_receive_consumes [OF sym])

declare await_answer.simps [simp del]

definition client_exchange ::
  "message_type \<Rightarrow> authority_context \<Rightarrow> bytes \<Rightarrow> message_type \<Rightarrow> client \<Rightarrow> client \<times> frame result" where
  "client_exchange ty au payload expected cl =
    (case client_send ty au payload cl of
       (cl1, Inl err) \<Rightarrow> (cl1, Inl err)
     | (cl1, Inr _) \<Rightarrow> await_answer expected cl1)"

text \<open>The public form of the exchange, under the mutex that serialises requests.\<close>

definition client_transact ::
  "message_type \<Rightarrow> authority_context \<Rightarrow> bytes \<Rightarrow> message_type \<Rightarrow> client \<Rightarrow> client \<times> frame result" where
  "client_transact ty au payload expected cl = client_exchange ty au payload expected cl"

section \<open>Typed answers\<close>

definition decode_typed_response :: "runtime_limits \<Rightarrow> 'a result decoder \<Rightarrow> frame \<Rightarrow> 'a remote" where
  "decode_typed_response lim dec f =
    (case run_state (dec_status_envelope lim) (new_reader wire_policy (fr_payload f)) of
       (Inl err, _) \<Rightarrow> Inl (error_code_num err)
     | (Inr envelope, r) \<Rightarrow>
         if en_code envelope \<noteq> error_code_num E_Ok then Inl (en_code envelope)
         else (case run_state dec r of
             (Inl err, _) \<Rightarrow> Inl (error_code_num err)
           | (Inr v, r1) \<Rightarrow>
               if \<not> at_end r1 then Inl (error_code_num E_ProtocolTrailingGarbage) else Inr v))"

definition decode_list_response :: "runtime_limits \<Rightarrow> 'a result decoder \<Rightarrow> u32 \<Rightarrow> frame \<Rightarrow> 'a list remote" where
  "decode_list_response lim dec max_items = decode_typed_response lim (read_bounded max_items dec)"

text \<open>The macro of the source: encode, exchange, decode.\<close>

definition client_request ::
  "('q \<Rightarrow> writer \<Rightarrow> writer) \<Rightarrow> ('q \<Rightarrow> authority_context) \<Rightarrow> message_type \<Rightarrow> message_type
   \<Rightarrow> 'a result decoder \<Rightarrow> 'q \<Rightarrow> client \<Rightarrow> client \<times> 'a remote" where
  "client_request enc authority_of ty ack dec q cl =
    (let body = enc q empty_writer in
     if \<not> wr_ok body then (cl, Inl (error_code_num (wr_code body)))
     else case client_exchange ty (authority_of q) (wr_buffer body) ack cl of
       (cl1, Inl err) \<Rightarrow> (cl1, Inl (error_code_num err))
     | (cl1, Inr f) \<Rightarrow> (cl1, decode_typed_response (cl_limits cl1) dec f))"

section \<open>The authority a request is sent under\<close>

definition authority_of_register_target :: "register_target_request \<Rightarrow> authority_context" where
  "authority_of_register_target q = no_authority\<lparr> au_epoch := rt_epoch q, au_request := rt_request q \<rparr>"

definition authority_of_supersede_target :: "supersede_target_request \<Rightarrow> authority_context" where
  "authority_of_supersede_target q = no_authority\<lparr> au_epoch := st_epoch q, au_request := st_request q \<rparr>"

definition authority_of_register_critic :: "register_critic_request \<Rightarrow> authority_context" where
  "authority_of_register_critic q = no_authority\<lparr> au_epoch := rc_epoch q, au_request := rc_request q \<rparr>"

definition authority_of_register_worker :: "register_worker_request \<Rightarrow> authority_context" where
  "authority_of_register_worker q = no_authority\<lparr> au_epoch := rw_epoch q, au_request := rw_request q, au_worker := rw_id q,
     au_worker_boot := rw_boot q, au_critic := rw_critic q,
     au_critic_generation := rw_critic_generation q \<rparr>"

definition authority_of_declare_readiness :: "declare_readiness_request \<Rightarrow> authority_context" where
  "authority_of_declare_readiness q = no_authority\<lparr> au_epoch := dr_epoch q, au_request := dr_request q, au_worker := dr_id q,
     au_worker_boot := dr_boot q, au_critic := dr_critic q,
     au_critic_generation := dr_critic_generation q \<rparr>"

definition authority_of_declare_review :: "declare_review_request \<Rightarrow> authority_context" where
  "authority_of_declare_review q = no_authority\<lparr> au_epoch := dv_epoch q, au_target := dv_target q,
     au_target_generation := dv_target_generation q \<rparr>"

definition authority_of_assign_critics :: "assign_critics_request \<Rightarrow> authority_context" where
  "authority_of_assign_critics q = no_authority\<lparr> au_epoch := ac_epoch q, au_request := ac_request q, au_review := ac_review q,
     au_review_generation := ac_review_generation q \<rparr>"

definition authority_of_submit_evidence :: "submit_evidence_request \<Rightarrow> authority_context" where
  "authority_of_submit_evidence q = no_authority\<lparr> au_epoch := se_epoch q, au_request := se_request q, au_review := se_review q,
     au_review_generation := se_review_generation q, au_target := se_target q,
     au_target_generation := se_target_generation q, au_critic := se_critic q,
     au_critic_generation := se_critic_generation q, au_worker := se_worker q,
     au_worker_boot := se_worker_boot q \<rparr>"

definition authority_of_submit_finding :: "submit_finding_request \<Rightarrow> authority_context" where
  "authority_of_submit_finding q = no_authority\<lparr> au_epoch := sf_epoch q, au_request := sf_request q, au_review := sf_review q,
     au_review_generation := sf_review_generation q, au_target := sf_target q,
     au_target_generation := sf_target_generation q, au_critic := sf_critic q,
     au_critic_generation := sf_critic_generation q, au_worker := sf_worker q,
     au_worker_boot := sf_worker_boot q \<rparr>"

definition authority_of_submit_challenge :: "submit_challenge_request \<Rightarrow> authority_context" where
  "authority_of_submit_challenge q = no_authority\<lparr> au_epoch := sc_epoch q, au_request := sc_request q, au_review := sc_review q,
     au_review_generation := sc_review_generation q, au_target := sc_target q,
     au_target_generation := sc_target_generation q, au_critic := sc_critic q,
     au_critic_generation := sc_critic_generation q, au_worker := sc_worker q,
     au_worker_boot := sc_worker_boot q \<rparr>"

definition authority_of_submit_rebuttal :: "submit_rebuttal_request \<Rightarrow> authority_context" where
  "authority_of_submit_rebuttal q = no_authority\<lparr> au_epoch := sr_epoch q, au_request := sr_request q, au_review := sr_review q,
     au_review_generation := sr_review_generation q, au_target := sr_target q,
     au_target_generation := sr_target_generation q, au_critic := sr_critic q,
     au_critic_generation := sr_critic_generation q, au_worker := sr_worker q,
     au_worker_boot := sr_worker_boot q \<rparr>"

definition authority_of_commit_review :: "commit_review_request \<Rightarrow> authority_context" where
  "authority_of_commit_review q = no_authority\<lparr> au_epoch := cm_epoch q, au_request := cm_request q, au_review := cm_review q,
     au_review_generation := cm_review_generation q,
     au_target_generation := cm_target_generation q \<rparr>"

definition authority_of_cancel_review :: "cancel_review_request \<Rightarrow> authority_context" where
  "authority_of_cancel_review q = no_authority\<lparr> au_epoch := cn_epoch q, au_request := cn_request q, au_review := cn_review q,
     au_review_generation := cn_review_generation q \<rparr>"

section \<open>Operations\<close>

definition client_register_target :: "register_target_request \<Rightarrow> client \<Rightarrow> client \<times> target_record remote" where
  "client_register_target q cl = client_request (enc_register_target_request (cl_limits cl)) authority_of_register_target
     MT_RegisterTarget MT_RegisterTargetAck (dec_target_record (cl_limits cl)) q cl"

definition client_supersede_target :: "supersede_target_request \<Rightarrow> client \<Rightarrow> client \<times> target_record remote" where
  "client_supersede_target q cl = client_request (enc_supersede_target_request (cl_limits cl)) authority_of_supersede_target
     MT_SupersedeTarget MT_SupersedeTargetAck (dec_target_record (cl_limits cl)) q cl"

definition client_register_critic :: "register_critic_request \<Rightarrow> client \<Rightarrow> client \<times> critic_registration remote" where
  "client_register_critic q cl = client_request (enc_register_critic_request (cl_limits cl)) authority_of_register_critic
     MT_RegisterCritic MT_RegisterCriticAck (dec_critic_registration (cl_limits cl)) q cl"

definition client_register_worker :: "register_worker_request \<Rightarrow> client \<Rightarrow> client \<times> worker_record remote" where
  "client_register_worker q cl = client_request (enc_register_worker_request (cl_limits cl)) authority_of_register_worker
     MT_RegisterWorker MT_RegisterWorkerAck (dec_worker_record (cl_limits cl)) q cl"

definition client_declare_readiness :: "declare_readiness_request \<Rightarrow> client \<Rightarrow> client \<times> worker_record remote" where
  "client_declare_readiness q cl = client_request (enc_declare_readiness_request (cl_limits cl)) authority_of_declare_readiness
     MT_DeclareReadiness MT_DeclareReadinessAck (dec_worker_record (cl_limits cl)) q cl"

definition client_declare_review :: "declare_review_request \<Rightarrow> client \<Rightarrow> client \<times> review_record remote" where
  "client_declare_review q cl = client_request (enc_declare_review_request (cl_limits cl)) authority_of_declare_review
     MT_DeclareReview MT_DeclareReviewAck (dec_review_record (cl_limits cl)) q cl"

definition client_submit_evidence :: "submit_evidence_request \<Rightarrow> client \<Rightarrow> client \<times> evidence_record remote" where
  "client_submit_evidence q cl = client_request (enc_submit_evidence_request (cl_limits cl)) authority_of_submit_evidence
     MT_SubmitEvidence MT_SubmitEvidenceAck (dec_evidence_record (cl_limits cl)) q cl"

definition client_submit_finding :: "submit_finding_request \<Rightarrow> client \<Rightarrow> client \<times> finding remote" where
  "client_submit_finding q cl = client_request (enc_submit_finding_request (cl_limits cl)) authority_of_submit_finding
     MT_SubmitFinding MT_SubmitFindingAck (dec_finding (cl_limits cl)) q cl"

definition client_submit_challenge :: "submit_challenge_request \<Rightarrow> client \<Rightarrow> client \<times> challenge remote" where
  "client_submit_challenge q cl = client_request (enc_submit_challenge_request (cl_limits cl)) authority_of_submit_challenge
     MT_SubmitChallenge MT_SubmitChallengeAck (dec_challenge (cl_limits cl)) q cl"

definition client_submit_rebuttal :: "submit_rebuttal_request \<Rightarrow> client \<Rightarrow> client \<times> rebuttal remote" where
  "client_submit_rebuttal q cl = client_request (enc_submit_rebuttal_request (cl_limits cl)) authority_of_submit_rebuttal
     MT_SubmitRebuttal MT_SubmitRebuttalAck (dec_rebuttal (cl_limits cl)) q cl"

definition client_commit_review :: "commit_review_request \<Rightarrow> client \<Rightarrow> client \<times> decision remote" where
  "client_commit_review q cl = client_request (enc_commit_review_request (cl_limits cl)) authority_of_commit_review
     MT_CommitReview MT_CommitReviewAck dec_decision q cl"

definition client_cancel_review :: "cancel_review_request \<Rightarrow> client \<Rightarrow> client \<times> review_record remote" where
  "client_cancel_review q cl = client_request (enc_cancel_review_request (cl_limits cl)) authority_of_cancel_review
     MT_CancelReview MT_CancelReviewAck (dec_review_record (cl_limits cl)) q cl"

definition client_assign_critics ::
  "assign_critics_request \<Rightarrow> client \<Rightarrow> client \<times> critic_assignment list remote" where
  "client_assign_critics q cl = client_request (enc_assign_critics_request (cl_limits cl))
     authority_of_assign_critics MT_AssignCritics MT_AssignCriticsAck
     (read_bounded 4096 (dec_critic_assignment (cl_limits cl))) q cl"

text \<open>Queries carry no authority.\<close>

definition client_query ::
  "(writer \<Rightarrow> writer) \<Rightarrow> message_type \<Rightarrow> message_type \<Rightarrow> (frame \<Rightarrow> 'a remote) \<Rightarrow> client \<Rightarrow> client \<times> 'a remote" where
  "client_query body ty ack dec cl =
    (case client_exchange ty no_authority (wr_buffer (body empty_writer)) ack cl of
       (cl1, Inl err) \<Rightarrow> (cl1, Inl (error_code_num err))
     | (cl1, Inr f) \<Rightarrow> (cl1, dec f))"

definition client_query_review :: "review_id \<Rightarrow> review_generation \<Rightarrow> client \<Rightarrow> client \<times> review_snapshot remote" where
  "client_query_review review generation cl = client_query (w_seq [w_u64 review, w_u64 generation])
     MT_QueryReview MT_QueryReviewAck
     (decode_typed_response (cl_limits cl) (dec_review_snapshot (cl_limits cl))) cl"

definition client_query_decision :: "review_id \<Rightarrow> review_generation \<Rightarrow> client \<Rightarrow> client \<times> decision remote" where
  "client_query_decision review generation cl = client_query (w_seq [w_u64 review, w_u64 generation])
     MT_QueryDecision MT_QueryDecisionAck (decode_typed_response (cl_limits cl) dec_decision) cl"

definition client_list_reviews :: "client \<Rightarrow> client \<times> review_summary list remote" where
  "client_list_reviews cl = client_query (\<lambda>w. w) MT_ListReviews MT_ListReviewsAck
     (decode_list_response (cl_limits cl) (dec_review_summary (cl_limits cl)) 4096) cl"

definition client_query_target :: "target_id \<Rightarrow> client \<Rightarrow> client \<times> target_record remote" where
  "client_query_target target cl = client_query (w_u64 target) MT_QueryTarget MT_QueryTargetAck
     (decode_typed_response (cl_limits cl) (dec_target_record (cl_limits cl))) cl"

definition client_list_workers :: "client \<Rightarrow> client \<times> worker_record list remote" where
  "client_list_workers cl = client_query (\<lambda>w. w) MT_QueryWorkers MT_QueryWorkersAck
     (decode_list_response (cl_limits cl) (dec_worker_record (cl_limits cl)) 4096) cl"

definition client_query_assignments :: "worker_id \<Rightarrow> client \<Rightarrow> client \<times> critic_assignment list remote" where
  "client_query_assignments worker cl = client_query (w_u64 worker)
     MT_QueryAssignments MT_QueryAssignmentsAck
     (decode_list_response (cl_limits cl) (dec_critic_assignment (cl_limits cl)) 4096) cl"

text \<open>
  The handshake keeps the epoch even when the field is truncated: the reader then yields zero. A fence
  request is sent without a look at the state of its writer, and the answer to a shutdown is not read.
\<close>

definition client_hello :: "request_id \<Rightarrow> client \<Rightarrow> client \<times> unit remote" where
  "client_hello correlation cl =
    (case client_exchange MT_Hello (no_authority\<lparr> au_request := correlation \<rparr>) [] MT_HelloAck cl of
       (cl1, Inl err) \<Rightarrow> (cl1, Inl (error_code_num err))
     | (cl1, Inr f) \<Rightarrow>
         (case run_state (dec_status_envelope (cl_limits cl1)) (new_reader wire_policy (fr_payload f)) of
            (Inl err, _) \<Rightarrow> (cl1, Inl (error_code_num err))
          | (Inr envelope, r) \<Rightarrow>
              if en_code envelope \<noteq> error_code_num E_Ok then (cl1, Inl (en_code envelope))
              else (let (epoch, r1) = run_state r_u64 r in
                (cl1\<lparr> cl_epoch := epoch \<rparr>, local_failure (rd_status r1)))))"

definition client_fence_worker :: "worker_id \<Rightarrow> string \<Rightarrow> request_id \<Rightarrow> client \<Rightarrow> client \<times> unit remote" where
  "client_fence_worker worker reason correlation cl =
    (let q = \<lparr> fw_worker = worker, fw_reason = reason, fw_epoch = cl_epoch cl, fw_request = correlation \<rparr>;
         body = enc_fence_worker_request (cl_limits cl) q empty_writer;
         au = no_authority\<lparr> au_epoch := cl_epoch cl, au_request := correlation \<rparr>
     in case client_exchange MT_FenceWorker au (wr_buffer body) MT_FenceWorkerAck cl of
          (cl1, Inl err) \<Rightarrow> (cl1, Inl (error_code_num err))
        | (cl1, Inr f) \<Rightarrow>
            (case run_state (dec_status_envelope (cl_limits cl1)) (new_reader wire_policy (fr_payload f)) of
               (Inl err, _) \<Rightarrow> (cl1, Inl (error_code_num err))
             | (Inr envelope, _) \<Rightarrow>
                 if en_code envelope \<noteq> error_code_num E_Ok then (cl1, Inl (en_code envelope))
                 else (cl1, Inr ())))"

definition client_shutdown_server :: "request_id \<Rightarrow> client \<Rightarrow> client \<times> status" where
  "client_shutdown_server correlation cl =
    (case client_exchange MT_Shutdown (no_authority\<lparr> au_epoch := cl_epoch cl, au_request := correlation \<rparr>)
        [] MT_Shutdown cl of
       (cl1, Inl err) \<Rightarrow> (cl1, Inl err)
     | (cl1, Inr _) \<Rightarrow> (cl1, success))"

end
