(* ===== verification/CF_Server.thy ===== *)
theory CF_Server
  imports CF_Bodies CF_Guarantees
begin

text \<open>
  The coordinator server (\<open>CoordinatorServer\<close> of \<open>include/critic_fabric/transport.hpp\<close> and
  \<open>src/transport.cpp\<close>): connections, the registry of worker connections, and the dispatch of a frame to
  the coordinator.

  A socket is the bytes its peer sends before it stops and the bytes written to it; a connection is
  known by the order it was accepted in. \<open>serve_step\<close> is one iteration of the loop of a connection
  thread, \<open>serve\<close> the loop. The text that accompanies an error code is an argument, since results of the
  coordinator carry the code alone.
\<close>

section \<open>Server state\<close>

type_synonym connection_id = nat

record connection =
  cx_incoming :: bytes
  cx_outgoing :: bytes
  cx_writable :: bool
  cx_closed :: bool
  cx_workers :: "worker_id list"

record server =
  sv_coordinator :: coordinator
  sv_limits :: runtime_limits
  sv_fence_on_disconnect :: bool
  sv_connections :: "(connection_id, connection) omap"
  sv_workers :: "(worker_id, connection_id) omap"
  sv_stopping :: bool
  sv_shutdown_requested :: bool

type_synonym texts = "coordinator \<Rightarrow> bytes \<Rightarrow> error_code \<Rightarrow> string"

definition new_server :: "coordinator \<Rightarrow> runtime_limits \<Rightarrow> bool \<Rightarrow> server" where
  "new_server c limits fence_on_disconnect =
    \<lparr> sv_coordinator = c, sv_limits = clamp_to_hard_ceiling limits,
      sv_fence_on_disconnect = fence_on_disconnect, sv_connections = [], sv_workers = [],
      sv_stopping = False, sv_shutdown_requested = False \<rparr>"

definition new_connection :: "bytes \<Rightarrow> connection" where
  "new_connection sent =
    \<lparr> cx_incoming = sent, cx_outgoing = [], cx_writable = True, cx_closed = False, cx_workers = [] \<rparr>"

definition on_connection :: "connection_id \<Rightarrow> (connection \<Rightarrow> connection) \<Rightarrow> server \<Rightarrow> server" where
  "on_connection i change s =
    (case om_get (sv_connections s) i of
       None \<Rightarrow> s
     | Some cx \<Rightarrow> s\<lparr> sv_connections := om_put i (change cx) (sv_connections s) \<rparr>)"

text \<open>
  The branch of the accept loop: a socket beyond the bound is closed at once. The registry keeps the
  connections whose loop has ended, so they count as well.
\<close>

definition accept_connection :: "bytes \<Rightarrow> server \<Rightarrow> server \<times> bool" where
  "accept_connection sent s =
    (if length (sv_connections s) \<ge> unat (max_worker_connections (sv_limits s)) then (s, False)
     else (s\<lparr> sv_connections := om_put (length (sv_connections s)) (new_connection sent) (sv_connections s) \<rparr>, True))"

section \<open>Sending\<close>

definition write_all :: "bytes \<Rightarrow> connection \<Rightarrow> connection \<times> status" where
  "write_all bs cx =
    (if cx_writable cx then (cx\<lparr> cx_outgoing := cx_outgoing cx @ bs \<rparr>, success)
     else (cx, Inl E_ProtocolConnectionClosed))"

definition send_frame :: "connection_id \<Rightarrow> frame \<Rightarrow> server \<Rightarrow> server \<times> status" where
  "send_frame i f s =
    (case om_get (sv_connections s) i of
       None \<Rightarrow> (s, Inl E_ProtocolConnectionClosed)
     | Some cx \<Rightarrow>
         if cx_closed cx then (s, Inl E_ProtocolConnectionClosed)
         else (case frame_encode (sv_limits s) f of
             Inl err \<Rightarrow> (s, Inl err)
           | Inr bs \<Rightarrow> (let (cx1, status) = write_all bs cx in (on_connection i (\<lambda>_. cx1) s, status))))"

definition envelope_bytes :: "u32 \<Rightarrow> string \<Rightarrow> bytes" where
  "envelope_bytes code detail =
    wr_buffer (enc_status_envelope \<lparr> en_code = code, en_detail = detail \<rparr> empty_writer)"

definition error_reply :: "error_code \<Rightarrow> string \<Rightarrow> request_id \<Rightarrow> frame" where
  "error_reply code detail correlation =
    \<lparr> fr_header = default_header\<lparr> fh_type := MT_ErrorResponse, fh_correlation := correlation \<rparr>,
      fr_payload = envelope_bytes (error_code_num code) detail \<rparr>"

section \<open>The registry of worker connections\<close>

definition bind_worker :: "connection_id \<Rightarrow> worker_id \<Rightarrow> server \<Rightarrow> server" where
  "bind_worker i w s =
    (let s1 = on_connection i (\<lambda>cx. cx\<lparr> cx_workers := cx_workers cx @ [w] \<rparr>) s
     in s1\<lparr> sv_workers := om_put w i (sv_workers s1) \<rparr>)"

definition find_worker_connection :: "worker_id \<Rightarrow> server \<Rightarrow> connection_id option" where
  "find_worker_connection w s =
    (case om_get (sv_workers s) w of
       None \<Rightarrow> None
     | Some i \<Rightarrow> if om_get (sv_connections s) i = None then None else Some i)"

text \<open>Entries of the registry that still lead to the connection are erased.\<close>

definition unbind_worker :: "connection_id \<Rightarrow> worker_id \<Rightarrow> server \<Rightarrow> server" where
  "unbind_worker i w s =
    (if om_get (sv_workers s) w = Some i
     then s\<lparr> sv_workers := filter (\<lambda>(k, _). k \<noteq> w) (sv_workers s) \<rparr> else s)"

definition lost_connection_reason :: string where
  "lost_connection_reason = ''worker connection was lost''"

definition fence_lost_worker :: "env \<Rightarrow> worker_id \<Rightarrow> server \<Rightarrow> server" where
  "fence_lost_worker env w s =
    s\<lparr> sv_coordinator := fst (fence_worker env w lost_connection_reason (sv_coordinator s)) \<rparr>"

definition forget_connection :: "env \<Rightarrow> connection_id \<Rightarrow> bool \<Rightarrow> server \<Rightarrow> server" where
  "forget_connection env i fencing s =
    (let registered = (case om_get (sv_connections s) i of None \<Rightarrow> [] | Some cx \<Rightarrow> cx_workers cx);
         s1 = on_connection i (\<lambda>cx. cx\<lparr> cx_workers := [] \<rparr>) s;
         s2 = foldl (\<lambda>s w. unbind_worker i w s) s1 registered
     in if \<not> fencing then s2 else foldl (\<lambda>s w. fence_lost_worker env w s) s2 registered)"

text \<open>Every active assignee of the review that has a connection is told about its assignment.\<close>

definition assignment_notice :: "critic_assignment \<Rightarrow> frame" where
  "assignment_notice a =
    \<lparr> fr_header = default_header\<lparr> fh_type := MT_AssignmentNotice, fh_correlation := a_id a \<rparr>,
      fr_payload = wr_buffer (w_seq
        [enc_status_envelope \<lparr> en_code = error_code_num E_Ok, en_detail = [] \<rparr>,
         enc_critic_assignment a] empty_writer) \<rparr>"

definition notify_assignment :: "critic_assignment \<Rightarrow> server \<Rightarrow> server" where
  "notify_assignment a s =
    (if \<not> a_active a then s
     else case find_worker_connection (a_worker a) s of
       None \<Rightarrow> s
     | Some i \<Rightarrow> fst (send_frame i (assignment_notice a) s))"

definition notify_assignments :: "env \<Rightarrow> review_id \<Rightarrow> review_generation \<Rightarrow> server \<Rightarrow> server" where
  "notify_assignments env review generation s =
    (case query_review (env_hash env) review (sv_coordinator s) of
       Inl _ \<Rightarrow> s
     | Inr snapshot \<Rightarrow>
         if r_generation (sn_review snapshot) \<noteq> generation then s
         else foldl (\<lambda>s a. notify_assignment a s) s (sn_assignments snapshot))"

section \<open>Handlers\<close>

text \<open>
  A handler reads its request from the payload and yields an error code, or the type and the body of
  the acknowledgement, and leaves the reader where it stopped. The typed handlers share their shape:
  decode, take the epoch and the request identity from the frame header, run the operation, encode
  the result.
\<close>

type_synonym handler = "reader \<Rightarrow> server \<Rightarrow> server \<times> (message_type \<times> writer) result \<times> reader"

definition run_typed ::
  "'q result decoder \<Rightarrow> ('q \<Rightarrow> 'q) \<Rightarrow> ('q \<Rightarrow> coordinator \<Rightarrow> coordinator \<times> 'a result)
   \<Rightarrow> ('q \<Rightarrow> 'a \<Rightarrow> server \<Rightarrow> server) \<Rightarrow> ('a \<Rightarrow> writer \<Rightarrow> writer) \<Rightarrow> message_type \<Rightarrow> handler" where
  "run_typed dec stamp run after enc ack r s =
    (case run_state dec r of
       (Inl err, r1) \<Rightarrow> (s, Inl err, r1)
     | (Inr q, r1) \<Rightarrow>
         (case run (stamp q) (sv_coordinator s) of
            (c, Inl err) \<Rightarrow> (s\<lparr> sv_coordinator := c \<rparr>, Inl err, r1)
          | (c, Inr a) \<Rightarrow> (after q a (s\<lparr> sv_coordinator := c \<rparr>), Inr (ack, enc a empty_writer), r1)))"

definition no_effect :: "'q \<Rightarrow> 'a \<Rightarrow> server \<Rightarrow> server" where
  "no_effect q a s = s"

definition handle_hello :: handler where
  "handle_hello r s =
    (if \<not> at_end r then (s, Inl E_ProtocolTrailingGarbage, r)
     else (s, Inr (MT_HelloAck, w_u64 (du_epoch (co_state (sv_coordinator s))) empty_writer), r))"

definition handle_register_target :: "env \<Rightarrow> runtime_limits \<Rightarrow> frame_header \<Rightarrow> handler" where
  "handle_register_target env lim h = run_typed (dec_register_target_request lim)
     (\<lambda>q. q\<lparr> rt_epoch := au_epoch (fh_authority h), rt_request := fh_correlation h \<rparr>)
     (register_target env) no_effect enc_target_record MT_RegisterTargetAck"

definition handle_supersede_target :: "env \<Rightarrow> runtime_limits \<Rightarrow> frame_header \<Rightarrow> handler" where
  "handle_supersede_target env lim h = run_typed (dec_supersede_target_request lim)
     (\<lambda>q. q\<lparr> st_epoch := au_epoch (fh_authority h), st_request := fh_correlation h \<rparr>)
     (supersede_target env) no_effect enc_target_record MT_SupersedeTargetAck"

definition handle_register_critic :: "env \<Rightarrow> runtime_limits \<Rightarrow> frame_header \<Rightarrow> handler" where
  "handle_register_critic env lim h = run_typed (dec_register_critic_request lim)
     (\<lambda>q. q\<lparr> rc_epoch := au_epoch (fh_authority h), rc_request := fh_correlation h \<rparr>)
     (register_critic env) no_effect enc_critic_registration MT_RegisterCriticAck"

definition handle_register_worker :: "env \<Rightarrow> connection_id \<Rightarrow> runtime_limits \<Rightarrow> frame_header \<Rightarrow> handler" where
  "handle_register_worker env i lim h = run_typed (dec_register_worker_request lim)
     (\<lambda>q. q\<lparr> rw_epoch := au_epoch (fh_authority h), rw_request := fh_correlation h \<rparr>)
     (register_worker env) (\<lambda>q w. bind_worker i (w_id w)) enc_worker_record MT_RegisterWorkerAck"

definition handle_declare_readiness :: "env \<Rightarrow> connection_id \<Rightarrow> runtime_limits \<Rightarrow> frame_header \<Rightarrow> handler" where
  "handle_declare_readiness env i lim h = run_typed (dec_declare_readiness_request lim)
     (\<lambda>q. q\<lparr> dr_epoch := au_epoch (fh_authority h), dr_request := fh_correlation h \<rparr>)
     (declare_readiness env) (\<lambda>q w. bind_worker i (w_id w)) enc_worker_record MT_DeclareReadinessAck"

definition handle_declare_review :: "env \<Rightarrow> runtime_limits \<Rightarrow> frame_header \<Rightarrow> handler" where
  "handle_declare_review env lim h = run_typed (dec_declare_review_request lim)
     (\<lambda>q. q\<lparr> dv_epoch := au_epoch (fh_authority h) \<rparr>)
     (declare_review env) no_effect enc_review_record MT_DeclareReviewAck"

definition handle_assign_critics :: "env \<Rightarrow> runtime_limits \<Rightarrow> frame_header \<Rightarrow> handler" where
  "handle_assign_critics env lim h = run_typed (dec_assign_critics_request lim)
     (\<lambda>q. q\<lparr> ac_epoch := au_epoch (fh_authority h), ac_request := fh_correlation h \<rparr>)
     (assign_critics env) (\<lambda>q as. notify_assignments env (ac_review q) (ac_review_generation q)) (w_counted enc_critic_assignment) MT_AssignCriticsAck"

definition handle_submit_evidence :: "env \<Rightarrow> runtime_limits \<Rightarrow> frame_header \<Rightarrow> handler" where
  "handle_submit_evidence env lim h = run_typed (dec_submit_evidence_request lim)
     (\<lambda>q. q\<lparr> se_epoch := au_epoch (fh_authority h), se_request := fh_correlation h \<rparr>)
     (submit_evidence env) no_effect enc_evidence_record MT_SubmitEvidenceAck"

definition handle_submit_finding :: "env \<Rightarrow> runtime_limits \<Rightarrow> frame_header \<Rightarrow> handler" where
  "handle_submit_finding env lim h = run_typed (dec_submit_finding_request lim)
     (\<lambda>q. q\<lparr> sf_epoch := au_epoch (fh_authority h), sf_request := fh_correlation h \<rparr>)
     (submit_finding env) no_effect enc_finding MT_SubmitFindingAck"

definition handle_submit_challenge :: "env \<Rightarrow> runtime_limits \<Rightarrow> frame_header \<Rightarrow> handler" where
  "handle_submit_challenge env lim h = run_typed (dec_submit_challenge_request lim)
     (\<lambda>q. q\<lparr> sc_epoch := au_epoch (fh_authority h), sc_request := fh_correlation h \<rparr>)
     (submit_challenge env) no_effect enc_challenge MT_SubmitChallengeAck"

definition handle_submit_rebuttal :: "env \<Rightarrow> runtime_limits \<Rightarrow> frame_header \<Rightarrow> handler" where
  "handle_submit_rebuttal env lim h = run_typed (dec_submit_rebuttal_request lim)
     (\<lambda>q. q\<lparr> sr_epoch := au_epoch (fh_authority h), sr_request := fh_correlation h \<rparr>)
     (submit_rebuttal env) no_effect enc_rebuttal MT_SubmitRebuttalAck"

definition handle_commit_review :: "env \<Rightarrow> runtime_limits \<Rightarrow> frame_header \<Rightarrow> handler" where
  "handle_commit_review env lim h = run_typed (dec_commit_review_request lim)
     (\<lambda>q. q\<lparr> cm_epoch := au_epoch (fh_authority h), cm_request := fh_correlation h \<rparr>)
     (commit_review env) no_effect enc_decision MT_CommitReviewAck"

definition handle_cancel_review :: "env \<Rightarrow> runtime_limits \<Rightarrow> frame_header \<Rightarrow> handler" where
  "handle_cancel_review env lim h = run_typed (dec_cancel_review_request lim)
     (\<lambda>q. q\<lparr> cn_epoch := au_epoch (fh_authority h), cn_request := fh_correlation h \<rparr>)
     (cancel_review env) no_effect enc_review_record MT_CancelReviewAck"

text \<open>Queries name their subject by plain 64-bit fields and check the end of the payload first.\<close>

definition run_query :: "'k decoder \<Rightarrow> ('k \<Rightarrow> coordinator \<Rightarrow> writer result) \<Rightarrow> message_type \<Rightarrow> handler" where
  "run_query d reply ack r s =
    (case run_state d r of (k, r1) \<Rightarrow>
       if \<not> rd_ok r1 then (s, Inl (rd_code r1), r1)
       else if \<not> at_end r1 then (s, Inl E_ProtocolTrailingGarbage, r1)
       else (case reply k (sv_coordinator s) of
           Inl err \<Rightarrow> (s, Inl err, r1)
         | Inr body \<Rightarrow> (s, Inr (ack, body), r1)))"

definition read_pair :: "(u64 \<times> u64) decoder" where
  "read_pair = do {
     review \<leftarrow> r_u64;
     generation \<leftarrow> r_u64;
     State_Monad.return (review, generation)
   }"

definition handle_query_review :: "env \<Rightarrow> handler" where
  "handle_query_review env = run_query read_pair (\<lambda>(review, generation) c.
     result_bind (query_review (env_hash env) review c) (\<lambda>snapshot.
       if generation \<noteq> 0 \<and> r_generation (sn_review snapshot) \<noteq> generation
       then Inl E_StaleReviewGeneration
       else Inr (enc_review_snapshot snapshot empty_writer))) MT_QueryReviewAck"

definition handle_query_decision :: handler where
  "handle_query_decision = run_query read_pair (\<lambda>(review, generation) c.
     result_bind (query_decision review generation c) (\<lambda>d.
       Inr (enc_decision d empty_writer))) MT_QueryDecisionAck"

definition assignments_of_worker :: "hash_fun \<Rightarrow> worker_id \<Rightarrow> coordinator \<Rightarrow> critic_assignment list" where
  "assignments_of_worker H w c = concat (map
     (\<lambda>summary. case query_review H (rs_id summary) c of
        Inl _ \<Rightarrow> []
      | Inr snapshot \<Rightarrow> filter (\<lambda>a. a_worker a = w \<and> a_active a) (sn_assignments snapshot))
     (list_reviews c))"

definition handle_query_assignments :: "env \<Rightarrow> handler" where
  "handle_query_assignments env = run_query r_u64 (\<lambda>worker c.
     Inr (w_counted enc_critic_assignment (assignments_of_worker (env_hash env) worker c) empty_writer))
     MT_QueryAssignmentsAck"

definition handle_query_target :: handler where
  "handle_query_target = run_query r_u64 (\<lambda>target c.
     result_bind (query_target target c) (\<lambda>t. Inr (enc_target_record t empty_writer))) MT_QueryTargetAck"

definition handle_query_workers :: handler where
  "handle_query_workers r s =
    (s, Inr (MT_QueryWorkersAck, w_counted enc_worker_record (list_workers (sv_coordinator s)) empty_writer), r)"

definition handle_list_reviews :: "runtime_limits \<Rightarrow> handler" where
  "handle_list_reviews lim r s =
    (s, Inr (MT_ListReviewsAck,
       w_counted (enc_review_summary lim) (list_reviews (sv_coordinator s)) empty_writer), r)"

definition handle_fence_worker :: "env \<Rightarrow> runtime_limits \<Rightarrow> frame_header \<Rightarrow> handler" where
  "handle_fence_worker env lim h r s =
    (case run_state (dec_fence_worker_request lim) r of
       (Inl err, r1) \<Rightarrow> (s, Inl err, r1)
     | (Inr q, r1) \<Rightarrow>
         if au_epoch (fh_authority h) \<noteq> du_epoch (co_state (sv_coordinator s))
         then (s, Inl E_StaleCoordinatorEpoch, r1)
         else (case fence_worker env (fw_worker q) (fw_reason q) (sv_coordinator s) of
             (c, Inl err) \<Rightarrow> (s\<lparr> sv_coordinator := c \<rparr>, Inl err, r1)
           | (c, Inr _) \<Rightarrow>
               (s\<lparr> sv_coordinator := c \<rparr>, Inr (MT_FenceWorkerAck, w_boolean True empty_writer), r1)))"

definition handle_shutdown :: handler where
  "handle_shutdown r s = (s, Inr (MT_Shutdown, w_boolean True empty_writer), r)"

definition handle_unknown :: handler where
  "handle_unknown r s = (s, Inl E_ProtocolUnknownMessageType, r)"

section \<open>Dispatch\<close>

definition handler_of :: "env \<Rightarrow> connection_id \<Rightarrow> runtime_limits \<Rightarrow> frame_header \<Rightarrow> handler" where
  "handler_of env i lim h =
    (case fh_type h of
       MT_Hello \<Rightarrow> handle_hello
     | MT_RegisterTarget \<Rightarrow> handle_register_target env lim h
     | MT_SupersedeTarget \<Rightarrow> handle_supersede_target env lim h
     | MT_RegisterCritic \<Rightarrow> handle_register_critic env lim h
     | MT_RegisterWorker \<Rightarrow> handle_register_worker env i lim h
     | MT_DeclareReadiness \<Rightarrow> handle_declare_readiness env i lim h
     | MT_DeclareReview \<Rightarrow> handle_declare_review env lim h
     | MT_AssignCritics \<Rightarrow> handle_assign_critics env lim h
     | MT_SubmitEvidence \<Rightarrow> handle_submit_evidence env lim h
     | MT_SubmitFinding \<Rightarrow> handle_submit_finding env lim h
     | MT_SubmitChallenge \<Rightarrow> handle_submit_challenge env lim h
     | MT_SubmitRebuttal \<Rightarrow> handle_submit_rebuttal env lim h
     | MT_CommitReview \<Rightarrow> handle_commit_review env lim h
     | MT_CancelReview \<Rightarrow> handle_cancel_review env lim h
     | MT_QueryReview \<Rightarrow> handle_query_review env
     | MT_QueryDecision \<Rightarrow> handle_query_decision
     | MT_QueryAssignments \<Rightarrow> handle_query_assignments env
     | MT_QueryTarget \<Rightarrow> handle_query_target
     | MT_QueryWorkers \<Rightarrow> handle_query_workers
     | MT_ListReviews \<Rightarrow> handle_list_reviews lim
     | MT_FenceWorker \<Rightarrow> handle_fence_worker env lim h
     | MT_Shutdown \<Rightarrow> handle_shutdown
     | _ \<Rightarrow> handle_unknown)"

text \<open>A request that was carried out is still refused when its payload has bytes left.\<close>

definition conclude :: "(message_type \<times> writer) result \<Rightarrow> reader \<Rightarrow> (message_type \<times> writer) result" where
  "conclude answer r =
    (case answer of
       Inl err \<Rightarrow> Inl err
     | Inr ack \<Rightarrow> if \<not> at_end r then Inl E_ProtocolTrailingGarbage else Inr ack)"

definition reply_frame ::
  "frame_header \<Rightarrow> (error_code \<Rightarrow> string) \<Rightarrow> (message_type \<times> writer) result \<Rightarrow> frame" where
  "reply_frame h text answer =
    (let (ty, payload) =
       (case answer of
          Inl err \<Rightarrow> (MT_ErrorResponse, envelope_bytes (error_code_num err) (text err))
        | Inr (ack, body) \<Rightarrow> (ack, envelope_bytes (error_code_num E_Ok) [] @ wr_buffer body))
     in \<lparr> fr_header =
            \<lparr> fh_version = kProtocolVersion, fh_type = ty, fh_flags = 0,
              fh_payload_length = of_nat (length payload), fh_correlation = fh_correlation h,
              fh_authority = fh_authority h, fh_checksum = 0 \<rparr>,
          fr_payload = payload \<rparr>)"

definition dispatch :: "env \<Rightarrow> texts \<Rightarrow> connection_id \<Rightarrow> frame \<Rightarrow> server \<Rightarrow> server \<times> frame" where
  "dispatch env texts i request s =
    (case handler_of env i (sv_limits s) (fr_header request) (new_reader wire_policy (fr_payload request)) s of
       (s1, answer, r) \<Rightarrow>
         (s1, reply_frame (fr_header request) (texts (sv_coordinator s) (fr_payload request)) (conclude answer r)))"

section \<open>The loop of a connection\<close>

definition refuse :: "connection_id \<Rightarrow> error_code \<Rightarrow> string \<Rightarrow> request_id \<Rightarrow> server \<Rightarrow> server \<times> bool" where
  "refuse i code detail correlation s = (fst (send_frame i (error_reply code detail correlation) s), False)"

definition consume :: "connection_id \<Rightarrow> nat \<Rightarrow> server \<Rightarrow> server" where
  "consume i count = on_connection i (\<lambda>cx. cx\<lparr> cx_incoming := drop count (cx_incoming cx) \<rparr>)"

text \<open>
  One iteration: the flag says whether the loop goes on. The header is read and checked before the
  payload is read; a peer that stops early ends the loop without an answer.
\<close>

definition answer_request :: "env \<Rightarrow> texts \<Rightarrow> connection_id \<Rightarrow> frame \<Rightarrow> server \<Rightarrow> server \<times> bool" where
  "answer_request env texts i request s =
    (let (s1, response) = dispatch env texts i request s in
     case send_frame i response s1 of
       (s2, Inl _) \<Rightarrow> (s2, False)
     | (s2, Inr _) \<Rightarrow>
         if fh_type (fr_header request) = MT_Shutdown then (s2\<lparr> sv_shutdown_requested := True \<rparr>, False)
         else (s2, True))"

definition serve_step :: "env \<Rightarrow> texts \<Rightarrow> connection_id \<Rightarrow> server \<Rightarrow> server \<times> bool" where
  "serve_step env texts i s =
    (case om_get (sv_connections s) i of
       None \<Rightarrow> (s, False)
     | Some cx \<Rightarrow>
         if sv_stopping s \<or> cx_closed cx then (s, False)
         else if length (cx_incoming cx) < kFrameHeaderBytes then (consume i kFrameHeaderBytes s, False)
         else (let header_bytes = take kFrameHeaderBytes (cx_incoming cx) in
           case decode_header (sv_limits s) (Some header_bytes) of
             Inl err \<Rightarrow> refuse i err (texts (sv_coordinator s) header_bytes err) 0 (consume i kFrameHeaderBytes s)
           | Inr h \<Rightarrow>
               (let whole = kFrameHeaderBytes + unat (fh_payload_length h);
                    s1 = consume i whole s
                in if length (cx_incoming cx) < whole then (s1, False)
                   else case frame_decode (sv_limits s) (take whole (cx_incoming cx)) of
                     Inl err \<Rightarrow> refuse i err (texts (sv_coordinator s) header_bytes err) (fh_correlation h) s1
                   | Inr request \<Rightarrow> answer_request env texts i request s1)))"

definition finish_connection :: "env \<Rightarrow> connection_id \<Rightarrow> server \<Rightarrow> server" where
  "finish_connection env i s =
    forget_connection env i (sv_fence_on_disconnect s) (on_connection i (\<lambda>cx. cx\<lparr> cx_closed := True \<rparr>) s)"

end
