(* ===== verification/CF_Serving.thy ===== *)
theory CF_Serving
  imports CF_Server
begin

text \<open>
  What the server does to the coordinator. A handler runs at most one command of the coordinator and
  leaves every input stream alone, so the loop of a connection terminates, and every run of the server
  is a run of its coordinator: what holds of the coordinator under any sequence of commands holds
  behind the network. The end of a connection silences the workers it carried.
\<close>

section \<open>Connections\<close>

definition incoming :: "connection_id \<Rightarrow> server \<Rightarrow> bytes option" where
  "incoming i s = map_option cx_incoming (om_get (sv_connections s) i)"

text \<open>A step that leaves the input streams, the configuration and the size of the registry alone.\<close>

definition same_streams :: "server \<Rightarrow> server \<Rightarrow> bool" where
  "same_streams s s1 \<longleftrightarrow> (\<forall>i. incoming i s1 = incoming i s) \<and> sv_limits s1 = sv_limits s
   \<and> sv_fence_on_disconnect s1 = sv_fence_on_disconnect s
   \<and> length (sv_connections s) \<le> length (sv_connections s1)"

definition same_coordinator :: "server \<Rightarrow> server \<Rightarrow> bool" where
  "same_coordinator s s1 \<longleftrightarrow> sv_coordinator s1 = sv_coordinator s"

definition unobserved :: "server \<Rightarrow> server \<Rightarrow> bool" where
  "unobserved s s1 \<longleftrightarrow> same_streams s s1 \<and> same_coordinator s s1"

lemma unobserved_refl [simp]: "unobserved s s"
  by (simp add: unobserved_def same_streams_def same_coordinator_def)

lemma unobserved_trans [trans]: "unobserved s s1 \<Longrightarrow> unobserved s1 s2 \<Longrightarrow> unobserved s s2"
  by (auto simp: unobserved_def same_streams_def same_coordinator_def)

lemma unobserved_fold: "(\<And>s x. unobserved s (f s x)) \<Longrightarrow> unobserved s (foldl f s xs)"
proof (induction xs arbitrary: s)
  case (Cons x xs)
  then show ?case
    using unobserved_trans [of s "f s x" "foldl f (f s x) xs"] by simp
qed simp

lemma om_put_length: "length m \<le> length (om_put k v m)"
  by (induction k v m rule: om_put.induct) auto

lemma incoming_on_connection:
  "incoming j (on_connection i f s) =
     (if j = i then map_option (\<lambda>cx. cx_incoming (f cx)) (om_get (sv_connections s) i) else incoming j s)"
  by (simp add: incoming_def on_connection_def om_simps split: option.splits)

lemma on_connection_fields [simp]:
  "sv_coordinator (on_connection i f s) = sv_coordinator s"
  "sv_limits (on_connection i f s) = sv_limits s"
  "sv_fence_on_disconnect (on_connection i f s) = sv_fence_on_disconnect s"
  "sv_workers (on_connection i f s) = sv_workers s"
  "sv_stopping (on_connection i f s) = sv_stopping s"
  by (simp_all add: on_connection_def split: option.splits)

lemma on_connection_length: "length (sv_connections s) \<le> length (sv_connections (on_connection i f s))"
  by (simp add: on_connection_def om_put_length split: option.splits)

lemma unobserved_on_connection:
  assumes "\<And>cx. om_get (sv_connections s) i = Some cx \<Longrightarrow> cx_incoming (f cx) = cx_incoming cx"
  shows "unobserved s (on_connection i f s)"
proof -
  have "incoming j (on_connection i f s) = incoming j s" for j
    unfolding incoming_on_connection using assms
    by (cases "om_get (sv_connections s) i") (auto simp: incoming_def)
  then show ?thesis
    by (simp add: unobserved_def same_streams_def same_coordinator_def on_connection_length)
qed

lemma unobserved_send: "unobserved s (fst (send_frame i f s))"
proof (cases "om_get (sv_connections s) i")
  case (Some cx)
  have "unobserved s (on_connection i (\<lambda>_. cx1) s)" if "write_all bs cx = (cx1, r)" for bs cx1 r
    using that Some by (intro unobserved_on_connection) (auto simp: write_all_def split: if_splits)
  with Some show ?thesis
    by (auto simp: send_frame_def split: sum.splits prod.splits)
qed (simp add: send_frame_def)

lemma unobserved_bind: "unobserved s (bind_worker i w s)"
proof -
  have "unobserved s (on_connection i (\<lambda>cx. cx\<lparr> cx_workers := cx_workers cx @ [w] \<rparr>) s)"
    by (rule unobserved_on_connection) simp
  then show ?thesis
    by (simp add: bind_worker_def Let_def unobserved_def same_streams_def same_coordinator_def incoming_def)
qed

lemma bind_worker_coordinator [simp]: "sv_coordinator (bind_worker i w s) = sv_coordinator s"
  using unobserved_bind by (simp add: unobserved_def same_coordinator_def)

lemma unobserved_notify: "unobserved s (notify_assignments env review g s)"
proof -
  have one: "unobserved s (notify_assignment a s)" for a s
    by (simp add: notify_assignment_def unobserved_send split: option.splits)
  show ?thesis
    by (simp add: notify_assignments_def unobserved_fold one split: sum.splits)
qed

section \<open>Handlers run at most one command\<close>

definition runs_at_most_one :: "env \<Rightarrow> coordinator \<Rightarrow> coordinator \<Rightarrow> bool" where
  "runs_at_most_one env c c1 \<longleftrightarrow> c1 = c \<or> (\<exists>cmd. keeps_running cmd \<and> c1 = fst (exec env cmd c))"

definition serves :: "env \<Rightarrow> server \<Rightarrow> server \<Rightarrow> bool" where
  "serves env s s1 \<longleftrightarrow> same_streams s s1 \<and> runs_at_most_one env (sv_coordinator s) (sv_coordinator s1)"

lemma serves_unobserved: "unobserved s s1 \<Longrightarrow> serves env s s1"
  by (simp add: serves_def unobserved_def same_coordinator_def runs_at_most_one_def)

lemma serves_then: "serves env s s1 \<Longrightarrow> unobserved s1 s2 \<Longrightarrow> serves env s s2"
  by (auto simp: serves_def unobserved_def same_streams_def same_coordinator_def)

lemma serves_command:
  "keeps_running cmd \<Longrightarrow> serves env s (s\<lparr> sv_coordinator := fst (exec env cmd (sv_coordinator s)) \<rparr>)"
  by (auto simp: serves_def same_streams_def incoming_def runs_at_most_one_def)

lemma serves_typed:
  assumes run: "\<And>q c. fst (run q c) = fst (exec env (cmd q) c)" and "\<And>q. keeps_running (cmd q)"
    and after: "\<And>q a s. unobserved s (after q a s)"
  shows "serves env s (fst (run_typed dec stamp run after enc ack r s))"
proof (cases "run_state dec r")
  case (Pair res r1)
  show ?thesis
  proof (cases res)
    case (Inl err)
    with Pair show ?thesis
      by (simp add: run_typed_def serves_unobserved)
  next
    case (Inr q)
    obtain c a where c: "run (stamp q) (sv_coordinator s) = (c, a)"
      by fastforce
    then have "c = fst (exec env (cmd (stamp q)) (sv_coordinator s))"
      using run [of "stamp q" "sv_coordinator s"] by simp
    then have "serves env s (s\<lparr> sv_coordinator := c \<rparr>)"
      using serves_command [of "cmd (stamp q)"] assms(2) by simp
    with after show ?thesis
      using Pair Inr c serves_then by (cases a) (auto simp: run_typed_def)
  qed
qed

lemma serves_query: "serves env s (fst (run_query d reply ack r s))"
  by (simp add: run_query_def serves_unobserved split: prod.splits sum.splits)

lemma serves_fence_command:
  "serves env s (s\<lparr> sv_coordinator := fst (fence_worker env w reason (sv_coordinator s)) \<rparr>)"
  using serves_command [of "Cmd_FenceWorker w reason"] by simp

lemma fst_respond [simp]: "fst (respond cr) = fst cr"
  by (simp add: respond_def)

lemma serves_handlers:
  "serves env s (fst (handle_hello r s))"
  "serves env s (fst (handle_register_target env lim h r s))"
  "serves env s (fst (handle_supersede_target env lim h r s))"
  "serves env s (fst (handle_register_critic env lim h r s))"
  "serves env s (fst (handle_register_worker env i lim h r s))"
  "serves env s (fst (handle_declare_readiness env i lim h r s))"
  "serves env s (fst (handle_declare_review env lim h r s))"
  "serves env s (fst (handle_assign_critics env lim h r s))"
  "serves env s (fst (handle_submit_evidence env lim h r s))"
  "serves env s (fst (handle_submit_finding env lim h r s))"
  "serves env s (fst (handle_submit_challenge env lim h r s))"
  "serves env s (fst (handle_submit_rebuttal env lim h r s))"
  "serves env s (fst (handle_commit_review env lim h r s))"
  "serves env s (fst (handle_cancel_review env lim h r s))"
  "serves env s (fst (handle_query_review env r s))"
  "serves env s (fst (handle_query_decision r s))"
  "serves env s (fst (handle_query_assignments env r s))"
  "serves env s (fst (handle_query_target r s))"
  "serves env s (fst (handle_query_workers r s))"
  "serves env s (fst (handle_list_reviews lim r s))"
  "serves env s (fst (handle_shutdown r s))"
  "serves env s (fst (handle_unknown r s))"
  unfolding handle_register_target_def handle_supersede_target_def handle_register_critic_def
    handle_register_worker_def handle_declare_readiness_def handle_declare_review_def
    handle_assign_critics_def handle_submit_evidence_def handle_submit_finding_def
    handle_submit_challenge_def handle_submit_rebuttal_def handle_commit_review_def
    handle_cancel_review_def handle_query_review_def handle_query_decision_def
    handle_query_assignments_def handle_query_target_def
  by (rule serves_query
    serves_typed [where cmd = Cmd_RegisterTarget] serves_typed [where cmd = Cmd_SupersedeTarget]
    serves_typed [where cmd = Cmd_RegisterCritic] serves_typed [where cmd = Cmd_RegisterWorker]
    serves_typed [where cmd = Cmd_DeclareReadiness] serves_typed [where cmd = Cmd_DeclareReview]
    serves_typed [where cmd = Cmd_AssignCritics] serves_typed [where cmd = Cmd_SubmitEvidence]
    serves_typed [where cmd = Cmd_SubmitFinding] serves_typed [where cmd = Cmd_SubmitChallenge]
    serves_typed [where cmd = Cmd_SubmitRebuttal] serves_typed [where cmd = Cmd_CommitReview]
    serves_typed [where cmd = Cmd_CancelReview]
    | simp add: handle_hello_def handle_query_workers_def handle_list_reviews_def handle_shutdown_def
      handle_unknown_def no_effect_def serves_unobserved unobserved_bind unobserved_notify; fail)+


lemma serves_fence_worker: "serves env s (fst (handle_fence_worker env lim h r s))"
proof -
  have "serves env s (s\<lparr> sv_coordinator := c \<rparr>)"
    if "fence_worker env w reason (sv_coordinator s) = (c, res)" for c res w reason
    using serves_fence_command [of env s w reason] that by simp
  then show ?thesis
    by (auto simp: handle_fence_worker_def serves_unobserved split: prod.splits sum.splits)
qed

lemma serves_dispatch: "serves env s (fst (dispatch env texts i request s))"
proof -
  have "serves env s (fst (handler_of env i lim h r s))" for lim h r
    unfolding handler_of_def
    by (cases "fh_type h") (simp_all add: serves_handlers serves_fence_worker)
  then show ?thesis
    by (simp add: dispatch_def split_beta)
qed

section \<open>The loop ends\<close>

definition pending :: "connection_id \<Rightarrow> server \<Rightarrow> nat" where
  "pending i s = (case incoming i s of None \<Rightarrow> 0 | Some bs \<Rightarrow> length bs)"

lemma serves_pending: "serves env s s1 \<Longrightarrow> pending i s1 = pending i s"
  by (simp add: serves_def same_streams_def pending_def)

lemma serves_refuse: "serves env s (fst (refuse i code detail correlation s))"
  by (simp add: refuse_def unobserved_send serves_unobserved)

lemma unobserved_flag: "unobserved s (s\<lparr> sv_shutdown_requested := b \<rparr>)"
  by (simp add: unobserved_def same_streams_def same_coordinator_def incoming_def)

lemma serves_answer: "serves env s (fst (answer_request env texts i request s))"
proof -
  obtain s1 response where d: "dispatch env texts i request s = (s1, response)"
    by fastforce
  obtain s2 r where sent: "send_frame i response s1 = (s2, r)"
    by fastforce
  have "serves env s s1"
    using serves_dispatch [where env = env and s = s and texts = texts and i = i and request = request] d by simp
  moreover have "unobserved s1 s2"
    using unobserved_send [where s = s1 and i = i and f = response] sent by simp
  ultimately have "serves env s s2"
    by (rule serves_then)
  then show ?thesis
    using d sent serves_then [OF _ unobserved_flag] by (auto simp: answer_request_def split: sum.splits)
qed

lemma consume_effect:
  "same_coordinator s (consume i n s)" "pending i (consume i n s) = pending i s - n"
  by (simp_all add: consume_def same_coordinator_def pending_def incoming_on_connection)
     (simp add: incoming_def split: option.splits)

lemma serve_step_consumes:
  assumes "serve_step env texts i s = (s1, True)"
  shows "pending i s1 + kFrameHeaderBytes \<le> pending i s"
proof -
  obtain cx where cx: "om_get (sv_connections s) i = Some cx"
    using assms by (auto simp: serve_step_def split: option.splits)
  then have pend: "pending i s = length (cx_incoming cx)"
    by (simp add: pending_def incoming_def)
  obtain h :: frame_header and request where len: "kFrameHeaderBytes + unat (fh_payload_length h) \<le> length (cx_incoming cx)"
    and answer: "answer_request env texts i request (consume i (kFrameHeaderBytes + unat (fh_payload_length h)) s) = (s1, True)"
    using assms cx by (auto simp: serve_step_def refuse_def Let_def not_less split: if_splits sum.splits)
  have "pending i s1 = pending i s - (kFrameHeaderBytes + unat (fh_payload_length h))"
    using serves_pending [OF serves_answer] answer by (metis consume_effect(2) fst_conv)
  with len show ?thesis
    by (simp add: pend)
qed

lemma serve_step_shrinks: "serve_step env texts i s = (s1, True) \<Longrightarrow> pending i s1 < pending i s"
  using serve_step_consumes [of env texts i s s1] by (simp add: kFrameHeaderBytes_def)

lemma consume_same [simp]: "sv_coordinator (consume i n s) = sv_coordinator s"
  by (simp add: consume_def)

lemma serve_step_runs:
  "runs_at_most_one env (sv_coordinator s) (sv_coordinator (fst (serve_step env texts i s)))"
proof -
  have same: "runs_at_most_one env c c" for c
    by (simp add: runs_at_most_one_def)
  have refused: "sv_coordinator (fst (refuse i code detail correlation s)) = sv_coordinator s"
    for code detail correlation and s :: server
    using unobserved_send [of s i "error_reply code detail correlation"]
    by (simp add: refuse_def unobserved_def same_coordinator_def)
  have answered: "runs_at_most_one env (sv_coordinator s) (sv_coordinator (fst (answer_request env texts i request s)))"
    for request and s :: server
    using serves_answer by (simp add: serves_def)
  show ?thesis
    using answered [of "consume i n s" for n]
    by (auto simp: serve_step_def Let_def same refused split: option.splits sum.splits)
qed

text \<open>The loop of a connection thread; every round consumes at least the header of a frame.\<close>

function serve :: "env \<Rightarrow> texts \<Rightarrow> connection_id \<Rightarrow> server \<Rightarrow> server" where
  "serve env texts i s =
    (case serve_step env texts i s of (s1, again) \<Rightarrow>
       if again then serve env texts i s1 else finish_connection env i s1)"
  by pat_completeness auto

termination
  by (relation "measure (\<lambda>(env, texts, i, s). pending i s)") (auto dest: serve_step_shrinks [OF sym])

declare serve.simps [simp del]

section \<open>The end of a connection\<close>

definition workers_keyed :: "durable_state \<Rightarrow> bool" where
  "workers_keyed st \<longleftrightarrow> (\<forall>i w. om_get (du_workers st) i = Some w \<longrightarrow> w_id w = i)"

definition silenced :: "worker_id \<Rightarrow> durable_state \<Rightarrow> bool" where
  "silenced i st \<longleftrightarrow> (\<forall>w. om_get (du_workers st) i = Some w \<longrightarrow> \<not> w_authoritative w)"

lemma silenced_rejects: "silenced (au_worker au) st \<Longrightarrow> \<not> is_ok (check_authority st au)"
  by (auto simp: is_ok_iff check_authority_def check_worker_live_def result_bind_Inr_iff silenced_def
      split: if_splits option.splits)

lemma finding_change_workers [simp]: "du_workers (apply_finding_state_changed fc st) = du_workers st"
  by (simp add: apply_finding_state_changed_def put_slot_def split: option.splits prod.splits)

text \<open>Only a worker registration writes the worker map.\<close>

lemma body_workers:
  "du_workers (apply_body H n b st) =
     (case b of JR_WorkerRegistered w \<Rightarrow> om_put (w_id w) w (du_workers st) | _ \<Rightarrow> du_workers st)"
  by (cases b) (simp_all add: apply_target_superseded_def apply_worker_registered_def
      apply_review_declared_def put_slot_def Let_def split: option.splits)

lemma keyed_after_body: "workers_keyed st \<Longrightarrow> workers_keyed (apply_body H n b st)"
  by (auto simp: workers_keyed_def body_workers om_simps split: journal_body.splits if_splits)

lemma keyed_after_entries: "workers_keyed st \<Longrightarrow> workers_keyed (apply_entries H es st)"
  by (induction es arbitrary: st) (simp_all add: apply_entry_def keyed_after_body)

lemma fence_bodies:
  assumes "fence_worker_entries st reason i = Inr bodies" and "b \<in> set bodies"
  shows "case b of JR_WorkerRegistered w \<Rightarrow> \<not> w_authoritative w | _ \<Rightarrow> True"
  using assms
  by (auto simp: fence_worker_entries_def retirements_def revalidate_review_def Let_def
      split: option.splits if_splits)

lemma silenced_after_body:
  "silenced i st \<Longrightarrow> (case b of JR_WorkerRegistered w \<Rightarrow> \<not> w_authoritative w | _ \<Rightarrow> True) \<Longrightarrow>
     silenced i (apply_body H n b st)"
  by (auto simp: silenced_def body_workers om_simps split: journal_body.splits if_splits)

lemma silenced_after_fence:
  assumes "fence_worker_entries st reason i = Inr bodies" and "silenced j st0"
  shows "silenced j (apply_entries H (assign_sequences bodies n) st0)"
  by (rule apply_batch_invariant [where Q = "silenced j"])
     (use assms fence_bodies silenced_after_body in blast)+

lemma fence_worker_state:
  assumes "workers_keyed (co_state c)"
  shows "workers_keyed (co_state (fst (fence_worker env i reason c)))
    \<and> co_started (fst (fence_worker env i reason c)) = co_started c
    \<and> co_next (fst (fence_worker env i reason c)) = co_next c
    \<and> (silenced j (co_state c) \<longrightarrow> silenced j (co_state (fst (fence_worker env i reason c))))
    \<and> (co_started c \<longrightarrow> silenced i (co_state (fst (fence_worker env i reason c))))"
proof (cases "co_started c \<and> is_ok (fence_worker_entries (co_state c) reason i)")
  case False
  then show ?thesis
    using assms
    by (auto simp: fence_worker_def is_ok_iff silenced_def fence_worker_entries_def
        split: sum.splits option.splits if_splits)
next
  case True
  then obtain bodies where bodies: "fence_worker_entries (co_state c) reason i = Inr bodies"
    by (auto simp: is_ok_iff)
  obtain c1 r where pub: "publish env bodies c = (c1, r)"
    by fastforce
  let ?n = "jn_next_sequence (co_journal c)"
  let ?fenced = "\<lambda>st. apply_entries (env_hash env) (assign_sequences bodies ?n) st"
  obtain w where w: "om_get (du_workers (co_state c)) i = Some w"
    using bodies by (auto simp: fence_worker_entries_def split: option.splits)
  have "silenced i (?fenced (co_state c))"
  proof (cases "\<not> w_authoritative w")
    case True
    then have "silenced i (co_state c)"
      using w by (simp add: silenced_def)
    then show ?thesis
      by (rule silenced_after_fence [OF bodies])
  next
    case False
    let ?b = "JR_WorkerRegistered (w\<lparr> w_ready := False, w_healthy := False, w_authoritative := False \<rparr>)"
    obtain rest where rest: "bodies = ?b # rest"
      using bodies w False by (auto simp: fence_worker_entries_def)
    have "w_id w = i"
      using assms w by (simp add: workers_keyed_def)
    then have "silenced i (apply_body (env_hash env) ?n ?b (co_state c))"
      unfolding silenced_def body_workers by (simp add: om_simps)
    then have "silenced i (apply_entries (env_hash env) (assign_sequences rest (?n + 1))
        (apply_body (env_hash env) ?n ?b (co_state c)))"
      by (rule apply_batch_invariant [where Q = "silenced i"])
         (use fence_bodies [OF bodies] silenced_after_body in \<open>auto simp: rest\<close>)
    then show ?thesis
      by (simp add: rest apply_entry_def del: apply_body.simps)
  qed
  then show ?thesis
    using True bodies pub publish_effect [OF pub] assms silenced_after_fence [OF bodies]
    by (simp add: fence_worker_def keyed_after_entries)
qed


definition fence_all :: "env \<Rightarrow> worker_id list \<Rightarrow> coordinator \<Rightarrow> coordinator" where
  "fence_all env ws c = foldl (\<lambda>c w. fst (fence_worker env w lost_connection_reason c)) c ws"

definition carried_workers :: "connection_id \<Rightarrow> server \<Rightarrow> worker_id list" where
  "carried_workers i s = (case om_get (sv_connections s) i of None \<Rightarrow> [] | Some cx \<Rightarrow> cx_workers cx)"

lemma fold_fences:
  "sv_coordinator (foldl (\<lambda>s w. fence_lost_worker env w s) s ws) = fence_all env ws (sv_coordinator s)"
  by (induction ws arbitrary: s) (simp_all add: fence_all_def fence_lost_worker_def)

lemma fold_unbind: "sv_coordinator (foldl (\<lambda>s w. unbind_worker i w s) s ws) = sv_coordinator s"
  by (induction ws arbitrary: s) (simp_all add: unbind_worker_def)

lemma finish_connection_coordinator:
  "sv_coordinator (finish_connection env i s) =
     (if sv_fence_on_disconnect s then fence_all env (carried_workers i s) (sv_coordinator s)
      else sv_coordinator s)"
  by (simp add: finish_connection_def forget_connection_def fold_fences fold_unbind Let_def
      carried_workers_def on_connection_def om_simps split: option.splits)

lemma finish_connection_registry:
  assumes "om_get (sv_workers s) w \<noteq> Some i"
  shows "om_get (sv_workers (finish_connection env i s)) w = om_get (sv_workers s) w"
proof -
  have fence: "sv_workers (foldl (\<lambda>s w. fence_lost_worker env w s) s1 ws) = sv_workers s1" for s1 ws
    by (induction ws arbitrary: s1) (simp_all add: fence_lost_worker_def)
  have other: "om_get (filter (\<lambda>(k, _). k \<noteq> v) m) w = om_get m w" if "v \<noteq> w" for v and m :: "(worker_id, connection_id) omap"
    using that by (induction m) (auto simp: om_get_code)
  have step: "om_get (sv_workers (unbind_worker i v s1)) w = om_get (sv_workers s1) w"
    if "om_get (sv_workers s1) w \<noteq> Some i" for s1 v
    using that other by (cases "v = w") (simp_all add: unbind_worker_def)
  have "om_get (sv_workers (foldl (\<lambda>s w. unbind_worker i w s) s1 ws)) w = om_get (sv_workers s1) w"
    if "om_get (sv_workers s1) w \<noteq> Some i" for s1 ws
    using that by (induction ws arbitrary: s1) (simp_all add: step)
  then show ?thesis
    using assms by (simp add: finish_connection_def forget_connection_def Let_def fence)
qed

lemma fence_all_silences:
  assumes "workers_keyed (co_state c)" and "co_started c"
  shows "workers_keyed (co_state (fence_all env ws c)) \<and> co_started (fence_all env ws c)
    \<and> (\<forall>w. w \<in> set ws \<or> silenced w (co_state c) \<longrightarrow> silenced w (co_state (fence_all env ws c)))"
  using assms
proof (induction ws arbitrary: c)
  case (Cons v ws)
  let ?c1 = "fst (fence_worker env v lost_connection_reason c)"
  have "workers_keyed (co_state ?c1)" "co_started ?c1" "silenced v (co_state ?c1)"
    and "\<forall>w. silenced w (co_state c) \<longrightarrow> silenced w (co_state ?c1)"
    using fence_worker_state [OF Cons.prems(1), of env v lost_connection_reason] Cons.prems(2) by auto
  with Cons.IH [of ?c1] show ?case
    by (auto simp: fence_all_def)
qed (simp add: fence_all_def)

lemma fence_all_space: "review_space_left (fence_all env ws c) = review_space_left c"
proof (induction ws arbitrary: c)
  case (Cons w ws)
  have "co_next (fst (fence_worker env w lost_connection_reason c)) = co_next c"
    using publish_state(2) by (simp add: fence_worker_def split: sum.splits)
  then show ?case
    using Cons [of "fst (fence_worker env w lost_connection_reason c)"]
    by (simp add: fence_all_def review_space_left_def)
qed (simp add: fence_all_def)

section \<open>Runs of the server\<close>

text \<open>
  What can happen around a server: sockets are accepted, peers send more bytes or stop reading, a
  connection thread completes a round or ends, the process that hosts the server uses the coordinator
  directly, the server is told to stop. The threads of the connections interleave in any order.
\<close>

inductive server_run :: "hash_fun \<Rightarrow> server \<Rightarrow> server \<Rightarrow> bool" for H s where
  idle: "server_run H s s"
| accepts: "server_run H s s1 \<Longrightarrow> server_run H s (fst (accept_connection sent s1))"
| receives: "server_run H s s1 \<Longrightarrow>
    server_run H s (on_connection i (\<lambda>cx. cx\<lparr> cx_incoming := cx_incoming cx @ bs \<rparr>) s1)"
| hangs_up: "server_run H s s1 \<Longrightarrow> server_run H s (on_connection i (\<lambda>cx. cx\<lparr> cx_writable := False \<rparr>) s1)"
| serves: "server_run H s s1 \<Longrightarrow> serve_step (world H io) texts i s1 = (s2, True) \<Longrightarrow>
    review_space_left (sv_coordinator s1) \<Longrightarrow> server_run H s s2"
| ends: "server_run H s s1 \<Longrightarrow> serve_step (world H io) texts i s1 = (s2, False) \<Longrightarrow>
    review_space_left (sv_coordinator s1) \<Longrightarrow> review_space_left (sv_coordinator s2) \<Longrightarrow>
    server_run H s (finish_connection (world H io) i s2)"
| hosts: "server_run H s s1 \<Longrightarrow> keeps_running cmd \<Longrightarrow> in_range cmd (sv_coordinator s1) \<Longrightarrow>
    server_run H s (s1\<lparr> sv_coordinator := fst (exec (world H io) cmd (sv_coordinator s1)) \<rparr>)"
| stopping: "server_run H s s1 \<Longrightarrow> server_run H s (s1\<lparr> sv_stopping := True \<rparr>)"

lemma keeps_running_range: "keeps_running cmd \<Longrightarrow> review_space_left c \<Longrightarrow> in_range cmd c"
  by (cases cmd) auto

lemma runs_to_fence_all:
  "runs_to H c c1 \<Longrightarrow> review_space_left c1 \<Longrightarrow> runs_to H c (fence_all (world H io) ws c1)"
proof (induction ws arbitrary: c1)
  case (Cons w ws)
  let ?c2 = "fst (exec (world H io) (Cmd_FenceWorker w lost_connection_reason) c1)"
  have "runs_to H c ?c2"
    using Cons.prems by (intro runs_to.runs) simp_all
  moreover have "review_space_left ?c2"
    using fence_all_space [of "world H io" "[w]" c1] Cons.prems(2) by (simp add: fence_all_def)
  ultimately show ?case
    using Cons.IH [of ?c2] by (simp add: fence_all_def)
qed (simp add: fence_all_def)

lemma serve_step_refines:
  assumes "runs_to H c (sv_coordinator s1)" and "serve_step (world H io) texts i s1 = (s2, again)"
    and "review_space_left (sv_coordinator s1)"
  shows "runs_to H c (sv_coordinator s2)"
proof -
  have "runs_at_most_one (world H io) (sv_coordinator s1) (sv_coordinator s2)"
    using serve_step_runs [where env = "world H io" and s = s1 and texts = texts and i = i] assms(2) by simp
  then consider "sv_coordinator s2 = sv_coordinator s1"
    | cmd where "keeps_running cmd" "sv_coordinator s2 = fst (exec (world H io) cmd (sv_coordinator s1))"
    by (auto simp: runs_at_most_one_def)
  then show ?thesis
  proof cases
    case 1
    then show ?thesis using assms(1) by simp
  next
    case (2 cmd)
    then show ?thesis
      unfolding 2(2) by (intro runs_to.runs assms(1) keeps_running_range assms(3))
  qed
qed

lemma server_run_refines: "server_run H s s1 \<Longrightarrow> runs_to H (sv_coordinator s) (sv_coordinator s1)"
proof (induction rule: server_run.induct)
  case (accepts s1 sent)
  then show ?case
    by (simp add: accept_connection_def)
next
  case (ends s1 io texts i s2)
  have "runs_to H (sv_coordinator s) (sv_coordinator s2)"
    by (rule serve_step_refines [OF ends(5,2,3)])
  then show ?case
    using runs_to_fence_all ends(4) by (simp add: finish_connection_coordinator)
qed (auto intro: runs_to.intros serve_step_refines)

section \<open>The registry of connections\<close>

definition registry_kept :: "server \<Rightarrow> server \<Rightarrow> bool" where
  "registry_kept s s1 \<longleftrightarrow> sv_limits s1 = sv_limits s \<and> length (sv_connections s) \<le> length (sv_connections s1)"

lemma registry_kept_trans: "registry_kept s s1 \<Longrightarrow> registry_kept s1 s2 \<Longrightarrow> registry_kept s s2"
  by (auto simp: registry_kept_def)

lemma registry_kept_refl [simp]: "registry_kept s s"
  by (simp add: registry_kept_def)

lemma registry_kept_on_connection: "registry_kept s (on_connection i f s)"
  by (simp add: registry_kept_def on_connection_length)

lemma registry_kept_serves: "serves env s s1 \<Longrightarrow> registry_kept s s1"
  by (simp add: serves_def same_streams_def registry_kept_def)

lemma registry_kept_fold: "(\<And>s x. registry_kept s (f s x)) \<Longrightarrow> registry_kept s (foldl f s xs)"
proof (induction xs arbitrary: s)
  case (Cons x xs)
  then show ?case
    using registry_kept_trans [of s "f s x" "foldl f (f s x) xs"] by simp
qed simp

lemma registry_kept_forget: "registry_kept s (forget_connection env i fencing s)"
proof -
  have unbind: "registry_kept s1 (foldl (\<lambda>s w. unbind_worker i w s) s1 ws)" for s1 ws
    by (rule registry_kept_fold) (simp add: registry_kept_def unbind_worker_def)
  have fence: "registry_kept s1 (foldl (\<lambda>s w. fence_lost_worker env w s) s1 ws)" for s1 ws
    by (rule registry_kept_fold) (simp add: registry_kept_def fence_lost_worker_def)
  note unbound = registry_kept_trans [OF registry_kept_on_connection unbind]
  show ?thesis
    by (simp add: forget_connection_def Let_def unbound registry_kept_trans [OF unbound fence])
qed

lemma registry_kept_finish: "registry_kept s (finish_connection env i s)"
  unfolding finish_connection_def
  by (rule registry_kept_trans [OF registry_kept_on_connection registry_kept_forget])

lemma registry_kept_step: "registry_kept s (fst (serve_step env texts i s))"
proof -
  have consumed: "registry_kept s (consume i n s)" for n
    unfolding consume_def by (rule registry_kept_on_connection)
  have "registry_kept s (fst (refuse i code detail correlation (consume i n s)))" for code detail correlation n
    by (rule registry_kept_trans [OF consumed registry_kept_serves [OF serves_refuse]])
  moreover have "registry_kept s (fst (answer_request env texts i request (consume i n s)))" for request n
    by (rule registry_kept_trans [OF consumed registry_kept_serves [OF serves_answer]])
  ultimately show ?thesis
    by (auto simp: serve_step_def Let_def consumed split: option.splits sum.splits)
qed

lemma registry_kept_accept: "registry_kept s (fst (accept_connection sent s))"
  by (simp add: accept_connection_def registry_kept_def om_put_length)

lemma registry_kept_run: "server_run H s s1 \<Longrightarrow> registry_kept s s1"
proof (induction rule: server_run.induct)
  case (accepts s1 sent)
  show ?case
    by (rule registry_kept_trans [OF accepts.IH registry_kept_accept])
next
  case (receives s1 i bs)
  show ?case
    by (rule registry_kept_trans [OF receives.IH registry_kept_on_connection])
next
  case (hangs_up s1 i)
  show ?case
    by (rule registry_kept_trans [OF hangs_up.IH registry_kept_on_connection])
next
  case (serves s1 io texts i s2)
  have "registry_kept s1 s2"
    using registry_kept_step [of s1 "world H io" texts i] serves.hyps by simp
  then show ?case
    by (rule registry_kept_trans [OF serves.IH])
next
  case (ends s1 io texts i s2)
  have "registry_kept s1 s2"
    using registry_kept_step [of s1 "world H io" texts i] ends.hyps by simp
  then show ?case
    by (rule registry_kept_trans [OF registry_kept_trans [OF ends.IH] registry_kept_finish])
qed (simp_all add: registry_kept_def)

lemma incoming_serves: "serves env s s1 \<Longrightarrow> incoming j s1 = incoming j s"
  by (simp add: serves_def same_streams_def)

lemma incoming_consume: "incoming j s \<noteq> None \<Longrightarrow> incoming j (consume i n s) \<noteq> None"
  by (cases "j = i") (auto simp: consume_def incoming_def on_connection_def om_simps split: option.splits)

lemma serve_step_connection:
  assumes "incoming j s \<noteq> None"
  shows "incoming j (fst (serve_step env texts i s)) \<noteq> None"
proof -
  have "incoming j (fst (refuse i code detail correlation (consume i n s))) \<noteq> None" for code detail correlation n
    unfolding incoming_serves [OF serves_refuse] by (rule incoming_consume [OF assms])
  moreover have "incoming j (fst (answer_request env texts i request (consume i n s))) \<noteq> None" for request n
    unfolding incoming_serves [OF serves_answer] by (rule incoming_consume [OF assms])
  ultimately show ?thesis
    using assms incoming_consume [OF assms]
    by (auto simp: serve_step_def Let_def simp del: not_None_eq split: option.splits sum.splits)
qed

lemma finish_connection_closes:
  assumes "incoming i s \<noteq> None"
  shows "\<exists>cx. om_get (sv_connections (finish_connection env i s)) i = Some cx \<and> cx_closed cx \<and> cx_workers cx = []"
proof -
  have fence: "sv_connections (foldl (\<lambda>s w. fence_lost_worker env w s) s ws) = sv_connections s" for s ws
    by (induction ws arbitrary: s) (simp_all add: fence_lost_worker_def)
  have unbind: "sv_connections (foldl (\<lambda>s w. unbind_worker i w s) s ws) = sv_connections s" for s ws
    by (induction ws arbitrary: s) (simp_all add: unbind_worker_def)
  show ?thesis
    using assms
    by (auto simp: finish_connection_def forget_connection_def Let_def fence unbind on_connection_def
        om_simps incoming_def)
qed

section \<open>Every connection thread ends\<close>

text \<open>The loop cut off after a number of rounds, and whether it still wants another one.\<close>

primrec serve_rounds :: "nat \<Rightarrow> env \<Rightarrow> texts \<Rightarrow> connection_id \<Rightarrow> server \<Rightarrow> server \<times> bool" where
  "serve_rounds 0 env texts i s = (s, True)"
| "serve_rounds (Suc n) env texts i s =
    (case serve_step env texts i s of (s1, again) \<Rightarrow>
       if again then serve_rounds n env texts i s1 else (s1, False))"

lemma rounds_suffice:
  "pending i s < n * kFrameHeaderBytes \<Longrightarrow> \<exists>s1. serve_rounds n env texts i s = (s1, False)
     \<and> serve env texts i s = finish_connection env i s1"
proof (induction n arbitrary: s)
  case (Suc n)
  obtain s1 again where step: "serve_step env texts i s = (s1, again)"
    by fastforce
  show ?case
  proof (cases again)
    case True
    then have "pending i s1 < n * kFrameHeaderBytes"
      using serve_step_consumes [of env texts i s s1] step Suc.prems by simp
    from Suc.IH [OF this] show ?thesis
      using step True by (subst serve.simps) simp
  next
    case False
    then show ?thesis
      using step by (subst serve.simps) simp
  qed
qed simp

lemma rounds_connection: "incoming j s \<noteq> None \<Longrightarrow> incoming j (fst (serve_rounds n env texts i s)) \<noteq> None"
proof (induction n arbitrary: s)
  case (Suc n)
  then show ?case
    using serve_step_connection [OF Suc.prems, of env texts i]
    by (cases "serve_step env texts i s") (simp del: not_None_eq)
qed simp

text \<open>
  C18. A connection thread always ends, whatever its peer sends: a stream of n bytes is served in at most
  n div 108 + 1 rounds, because every round that continues consumes at least one frame header, and the
  thread leaves its connection closed and carrying no worker.
\<close>

theorem serve_ends:
  assumes "incoming i s \<noteq> None"
  shows "\<exists>s1. serve_rounds (pending i s div kFrameHeaderBytes + 1) env texts i s = (s1, False)
    \<and> serve env texts i s = finish_connection env i s1
    \<and> map_option (\<lambda>cx. (cx_closed cx, cx_workers cx)) (om_get (sv_connections (serve env texts i s)) i)
        = Some (True, [])"
proof -
  let ?n = "pending i s div kFrameHeaderBytes + 1"
  have "pending i s < ?n * kFrameHeaderBytes"
    using div_less_iff_less_mult [of kFrameHeaderBytes "pending i s" ?n] by (simp add: kFrameHeaderBytes_def)
  then obtain s1 where s1: "serve_rounds ?n env texts i s = (s1, False)"
      "serve env texts i s = finish_connection env i s1"
    using rounds_suffice by blast
  have "incoming i s1 \<noteq> None"
    using rounds_connection [OF assms, of ?n env texts i] s1(1) by simp
  then obtain cx where "om_get (sv_connections (finish_connection env i s1)) i = Some cx" "cx_closed cx" "cx_workers cx = []"
    using finish_connection_closes by blast
  with s1 show ?thesis
    by simp
qed

section \<open>The traffic of a server is a run of its coordinator\<close>

lemma runs_to_fields:
  assumes "runs_to H c c1" and "coordinator_wf c" and "workers_keyed (co_state c)"
  shows "workers_keyed (co_state c1) \<and> co_started c1 = co_started c"
  using assms
proof (induction rule: runs_to.induct)
  case (runs c1 cmd io)
  have wf: "coordinator_wf c1"
    by (rule runs_to_wf [OF runs.hyps(1) runs.prems(1)])
  note shape = exec_shape [OF wf runs.hyps(3,2), of "world H io"]
  have "workers_keyed (co_state (fst (exec (world H io) cmd c1)))"
    by (rule outcome_invariant [OF shape]) (use runs keyed_after_entries in auto)
  moreover have "co_started (fst (exec (world H io) cmd c1)) = co_started c1"
    using shape unfolding outcome_def
    by (elim disjE exE conjE) (simp_all add: quiet_state publish_effect)
  ultimately show ?case
    using runs by simp
qed simp

text \<open>A worker that registered on one connection and again, under the same identity, on another.\<close>

definition moved_worker :: worker_record where
  "moved_worker =
    \<lparr> w_id = 7, w_boot = 2, w_epoch = 2, w_critic = 5, w_critic_generation = 1, w_host = 1, w_process_label = [],
      w_ready = True, w_healthy = True, w_authoritative = True, w_boot_order = 1, w_readiness_order = 1,
      w_readiness_digest = zero_digest \<rparr>"

definition moved_coordinator :: coordinator where
  "moved_coordinator = restored\<lparr> co_state := (co_state restored)\<lparr> du_workers := [(7, moved_worker)] \<rparr> \<rparr>"

definition no_texts :: texts where
  "no_texts c bs err = []"

definition moved_server :: server where
  "moved_server = (new_server moved_coordinator default_limits True)
    \<lparr> sv_connections := [(0, (new_connection [])\<lparr> cx_workers := [7] \<rparr>), (1, (new_connection [])\<lparr> cx_workers := [7] \<rparr>)],
      sv_workers := [(7, 1)] \<rparr>"

lemma moved_server_simps:
  "sv_coordinator moved_server = moved_coordinator" "carried_workers 0 moved_server = [7]"
  "om_get (sv_workers moved_server) 7 = Some 1" "sv_fence_on_disconnect moved_server"
  "workers_keyed (co_state moved_coordinator)" "co_started moved_coordinator" "coordinator_wf moved_coordinator"
  "review_space_left moved_coordinator" "length (sv_connections moved_server) = 2"
  "incoming 0 moved_server = Some []" "pending 0 moved_server = 0"
  using reachable_wf [OF restored_reachable] restored_started restored_state(4)
  by (simp_all add: moved_server_def new_server_def moved_coordinator_def carried_workers_def om_get_code
      workers_keyed_def moved_worker_def coordinator_wf_def slots_keyed_def review_ids_fresh_def find_slot_def
      review_space_left_def new_connection_def incoming_def pending_def)

lemma moved_server_step: "serve_step env texts 0 moved_server = (consume 0 kFrameHeaderBytes moved_server, False)"
  by (simp add: serve_step_def moved_server_def new_server_def om_get_code new_connection_def kFrameHeaderBytes_def)

theorem serve_ends_witness:
  "map_option (\<lambda>cx. (cx_closed cx, cx_workers cx))
     (om_get (sv_connections (serve (world sha256 (\<lambda>_. IO_Ok)) no_texts 0 moved_server)) 0) = Some (True, [])"
proof -
  have "incoming 0 moved_server \<noteq> None"
    by (simp add: moved_server_simps)
  from serve_ends [OF this, of "world sha256 (\<lambda>_. IO_Ok)" no_texts] show ?thesis
    by blast
qed

text \<open>
  C13. The server refines the coordinator: however its connection threads interleave, whatever their
  peers send and whenever they vanish, the coordinator behind it goes through a run of ordinary
  commands, one at a time, so every guarantee about such runs holds for a coordinator behind a socket.
\<close>

theorem server_refines_coordinator:
  assumes "server_run H s s1"
  shows "runs_to H (sv_coordinator s) (sv_coordinator s1)"
  by (rule server_run_refines [OF assms])

theorem server_refines_coordinator_witness:
  "runs_to sha256 moved_coordinator
     (sv_coordinator (finish_connection (world sha256 (\<lambda>_. IO_Ok)) 0 (consume 0 kFrameHeaderBytes moved_server)))"
proof -
  have "server_run sha256 moved_server (finish_connection (world sha256 (\<lambda>_. IO_Ok)) 0 (consume 0 kFrameHeaderBytes moved_server))"
    by (rule server_run.ends [OF server_run.idle moved_server_step]) (simp_all add: moved_server_simps)
  from server_refines_coordinator [OF this] show ?thesis
    by (simp add: moved_server_simps)
qed

definition moved_context :: authority_context where
  "moved_context = sample_authority_context\<lparr> au_worker := 7 \<rparr>"

text \<open>
  Connections are counted and never given back: once a server has accepted as many connections as
  its limit allows it refuses every later one, even when all of the accepted ones have closed.
\<close>

theorem closed_connections_still_count:
  assumes "server_run H s s1" and "length (sv_connections s) \<ge> unat (max_worker_connections (sv_limits s))"
  shows "accept_connection sent s1 = (s1, False)"
  using registry_kept_run [OF assms(1)] assms(2) by (simp add: registry_kept_def accept_connection_def)

theorem closed_connections_still_count_witness:
  "accept_connection [] (finish_connection (world sha256 (\<lambda>_. IO_Ok)) 0 (consume 0 kFrameHeaderBytes
      (moved_server\<lparr> sv_limits := default_limits\<lparr> max_worker_connections := 2 \<rparr> \<rparr>)))
   = (finish_connection (world sha256 (\<lambda>_. IO_Ok)) 0 (consume 0 kFrameHeaderBytes
      (moved_server\<lparr> sv_limits := default_limits\<lparr> max_worker_connections := 2 \<rparr> \<rparr>)), False)"
proof -
  let ?s = "moved_server\<lparr> sv_limits := default_limits\<lparr> max_worker_connections := 2 \<rparr> \<rparr>"
  have "serve_step (world sha256 (\<lambda>_. IO_Ok)) texts 0 ?s = (consume 0 kFrameHeaderBytes ?s, False)" for texts
    by (simp add: serve_step_def moved_server_def new_server_def om_get_code new_connection_def kFrameHeaderBytes_def)
  then have "server_run sha256 ?s (finish_connection (world sha256 (\<lambda>_. IO_Ok)) 0 (consume 0 kFrameHeaderBytes ?s))"
    by (rule server_run.ends [OF server_run.idle]) (simp_all add: moved_server_simps)
  from closed_connections_still_count [OF this] show ?thesis
    by (simp add: moved_server_simps)
qed

end
