(* ===== verification/CF_Remote.thy ===== *)
theory CF_Remote
  imports CF_Client CF_Serving CF_Sizes
begin

text \<open>
  Client and server together. A request that fits the limits both sides run under reaches the
  coordinator unchanged, and the client gets what the operation of the coordinator returned: its value,
  or the number of its error code. The contract of such an operation is the locale \<open>remote_operation\<close>,
  interpreted for every typed request that answers with one record.

  The theory also shows where the wire is not transparent: a request with bytes left over is carried
  out and then refused.
\<close>

section \<open>A frame on a stream\<close>

lemma take_frame_bytes:
  "length m = 4 \<Longrightarrow> take kFrameHeaderBytes (frame_bytes m v t fl n co au ck payload) = frame_bytes m v t fl n co au ck []"
  by (simp add: frame_bytes_def kFrameHeaderBytes_def)

lemma frame_on_stream:
  assumes "frame_encode lim f = Inr bs"
  shows "kFrameHeaderBytes \<le> length bs"
    and "decode_header lim (Some (take kFrameHeaderBytes (bs @ rest))) = Inr (fr_header (seal_frame f))"
    and "kFrameHeaderBytes + unat (fh_payload_length (fr_header (seal_frame f))) = length bs"
    and "frame_decode lim bs = Inr (seal_frame f)"
proof -
  have dec: "frame_decode lim bs = Inr (seal_frame f)"
    by (rule seal_frame_encode [OF assms])
  then obtain h where h: "decode_header lim (vector_data bs) = Inr h" "fr_header (seal_frame f) = h"
      "kFrameHeaderBytes + unat (fh_payload_length h) = length bs"
    unfolding frame_decode_def result_bind_Inr_iff
    by (auto simp: result_bind_Inr_iff split: if_splits dest!: sym [of _ "seal_frame f"])
  have bs: "bs = frame_bytes kFrameMagic kProtocolVersion (message_type_code (fh_type (fr_header f))) 0
      (of_nat (length (fr_payload f))) (fh_correlation (fr_header f)) (fh_authority (fr_header f))
      (fh_checksum (fr_header (seal_frame f))) (fr_payload f)"
    using assms by (simp add: frame_encode_iff)
  show big: "kFrameHeaderBytes \<le> length bs"
    using h(3) by simp
  then have "vector_data bs = Some bs"
    by (auto simp: vector_data_def kFrameHeaderBytes_def)
  then have "decode_header lim (Some bs) = Inr h"
    using h(1) by simp
  moreover have "decode_header lim (Some (take kFrameHeaderBytes bs)) = decode_header lim (Some bs)"
    unfolding bs take_frame_bytes [OF kFrameMagic_length] by (simp only: decode_header_bytes [OF kFrameMagic_length])
  ultimately show "decode_header lim (Some (take kFrameHeaderBytes (bs @ rest))) = Inr (fr_header (seal_frame f))"
    using big h(2) by simp
  show "kFrameHeaderBytes + unat (fh_payload_length (fr_header (seal_frame f))) = length bs"
    using h by simp
  show "frame_decode lim bs = Inr (seal_frame f)"
    by (rule dec)
qed

lemma client_receive_frame:
  assumes "cl_connected cl" and "frame_encode (cl_limits cl) f = Inr bs" and "cl_incoming cl = bs @ rest"
  shows "client_receive cl = (cl\<lparr> cl_incoming := rest \<rparr>, Inr (seal_frame f))"
  using frame_on_stream [OF assms(2)] assms(1,3)
  by (simp add: client_receive_def Let_def)

lemma serve_step_frame:
  assumes "om_get (sv_connections s) i = Some cx" and "\<not> sv_stopping s" and "\<not> cx_closed cx"
    and "frame_encode (sv_limits s) f = Inr bs" and "cx_incoming cx = bs @ rest"
  shows "serve_step env texts i s = answer_request env texts i (seal_frame f) (consume i (length bs) s)"
  using frame_on_stream [OF assms(4)] assms(1,2,3,5)
  by (simp add: serve_step_def Let_def)

lemma seal_frame_fields [simp]:
  "fr_payload (seal_frame f) = fr_payload f"
  "fh_type (fr_header (seal_frame f)) = fh_type (fr_header f)"
  "fh_correlation (fr_header (seal_frame f)) = fh_correlation (fr_header f)"
  "fh_authority (fr_header (seal_frame f)) = fh_authority (fr_header f)"
  by (simp_all add: seal_frame_def)

section \<open>Envelopes\<close>

definition text_fits :: "runtime_limits \<Rightarrow> string \<Rightarrow> bool" where
  "text_fits lim text \<longleftrightarrow> length text \<le> unat (max_metadata_string_bytes lim)
   \<and> length text \<le> unat kHardMaxMetadataBytes \<and> 8 + length text \<le> unat (max_frame_bytes lim)"

lemma envelope_written:
  assumes "length detail \<le> unat kHardMaxMetadataBytes"
  shows "enc_status_envelope \<lparr> en_code = code, en_detail = detail \<rparr> empty_writer =
    \<lparr> wr_buffer = be32 code @ be32 (of_nat (length detail)) @ string_bytes detail,
      wr_ok = True, wr_code = E_Ok \<rparr>"
proof -
  have "length detail \<le> 65536"
    using assms by (simp add: kHardMaxMetadataBytes_def)
  then show ?thesis
    using assms
    by (auto simp: enc_status_envelope_def w_seq_def w_u32_def w_string_def w_raw_def w_append_def
        w_require_def empty_writer_def Let_def string_bytes_def)
qed

lemma envelope_length: "length detail \<le> unat kHardMaxMetadataBytes \<Longrightarrow> length (envelope_bytes code detail) = 8 + length detail"
  by (simp add: envelope_bytes_def envelope_written)

lemma envelope_read:
  assumes "code \<le> error_code_num E_InternalError" and "length detail \<le> unat (max_metadata_string_bytes lim)"
    and "length detail \<le> unat kHardMaxMetadataBytes"
  shows "run_state (dec_status_envelope lim) (new_reader p (envelope_bytes code detail @ rest)) =
    (Inr \<lparr> en_code = code, en_detail = detail \<rparr>, new_reader p rest)"
  unfolding envelope_bytes_def
  by (rule status_envelope_codec.decode_encoding)
     (use assms in \<open>simp_all add: fits_status_envelope_def envelope_written\<close>)

lemma error_code_range:
  "error_code_num e \<le> error_code_num E_InternalError \<and> (error_code_num e = error_code_num E_Ok \<longleftrightarrow> e = E_Ok)"
  by (cases e; (simp; fail)?; rename_tac x; case_tac x; simp)

lemmas error_code_num_max = error_code_range [THEN conjunct1]
  and error_code_num_Ok = error_code_range [THEN conjunct2]

section \<open>The contract of a remote operation\<close>

text \<open>The streams and flags of every connection and the limits are as before.\<close>

definition same_sockets :: "server \<Rightarrow> server \<Rightarrow> bool" where
  "same_sockets s s1 \<longleftrightarrow> sv_limits s1 = sv_limits s
   \<and> (\<forall>i. map_option (\<lambda>cx. (cx_incoming cx, cx_outgoing cx, cx_writable cx, cx_closed cx)) (om_get (sv_connections s1) i)
        = map_option (\<lambda>cx. (cx_incoming cx, cx_outgoing cx, cx_writable cx, cx_closed cx)) (om_get (sv_connections s) i))"

lemma same_sockets_refl [simp]: "same_sockets s s"
  by (simp add: same_sockets_def)

lemma same_sockets_coordinator [simp]:
  "same_sockets s (s1\<lparr> sv_coordinator := c \<rparr>) = same_sockets s s1"
  "same_sockets (s\<lparr> sv_coordinator := c \<rparr>) s1 = same_sockets s s1"
  by (simp_all add: same_sockets_def)

lemma same_sockets_trans: "same_sockets s s1 \<Longrightarrow> same_sockets s1 s2 \<Longrightarrow> same_sockets s s2"
  by (simp add: same_sockets_def)

lemma same_sockets_on_connection:
  assumes "\<And>cx. cx_incoming (f cx) = cx_incoming cx \<and> cx_outgoing (f cx) = cx_outgoing cx \<and> cx_writable (f cx) = cx_writable cx \<and> cx_closed (f cx) = cx_closed cx"
  shows "same_sockets s (on_connection i f s)"
  using assms by (simp add: same_sockets_def on_connection_def om_simps split: option.splits)

lemma same_sockets_bind: "same_sockets s (bind_worker i w s)"
proof -
  have "same_sockets s (on_connection i (\<lambda>cx. cx\<lparr> cx_workers := cx_workers cx @ [w] \<rparr>) s)"
    by (rule same_sockets_on_connection) simp
  then show ?thesis
    by (simp add: bind_worker_def Let_def same_sockets_def)
qed

lemma same_sockets_connection:
  assumes "same_sockets s s1" and "om_get (sv_connections s) i = Some cx"
  obtains cx1 where "om_get (sv_connections s1) i = Some cx1" "cx_incoming cx1 = cx_incoming cx"
    "cx_outgoing cx1 = cx_outgoing cx" "cx_writable cx1 = cx_writable cx" "cx_closed cx1 = cx_closed cx"
proof -
  have "map_option (\<lambda>cx. (cx_incoming cx, cx_outgoing cx, cx_writable cx, cx_closed cx)) (om_get (sv_connections s1) i)
      = Some (cx_incoming cx, cx_outgoing cx, cx_writable cx, cx_closed cx)"
    using assms by (simp add: same_sockets_def)
  then show thesis
    using that by (auto simp: map_option_eq_Some)
qed

locale remote_operation =
  request: wire_codec enc_q dec_q fits_q + answer: wire_codec enc_a dec_a fits_a
  for enc_q :: "'q \<Rightarrow> writer \<Rightarrow> writer" and dec_q fits_q
    and enc_a :: "'a \<Rightarrow> writer \<Rightarrow> writer" and dec_a fits_a +
  fixes lim :: runtime_limits
    and authority_of :: "'q \<Rightarrow> authority_context"
    and ty ack :: message_type
    and stamp :: "frame_header \<Rightarrow> 'q \<Rightarrow> 'q"
    and run :: "env \<Rightarrow> 'q \<Rightarrow> coordinator \<Rightarrow> coordinator \<times> 'a result"
    and after :: "connection_id \<Rightarrow> 'q \<Rightarrow> 'a \<Rightarrow> server \<Rightarrow> server"
  assumes types: "ty \<noteq> MT_Invalid" "ty \<noteq> MT_Shutdown" "ack \<noteq> MT_Invalid" "ack \<noteq> MT_ErrorResponse"
    and handled: "fh_type h = ty \<Longrightarrow>
      handler_of env i lim h = run_typed dec_q (stamp h) (run env) (after i) enc_a ack"
    and stamped: "fh_authority h = authority_of q \<Longrightarrow> fh_correlation h = au_request (authority_of q) \<Longrightarrow>
      stamp h q = q"
    and after_sockets: "same_sockets s (after i q a s)"
    and after_coordinator: "sv_coordinator (after i q a s) = sv_coordinator s"
begin

definition call_frame :: "'q \<Rightarrow> frame" where
  "call_frame q = request_frame ty (authority_of q) (wr_buffer (enc_q q empty_writer))"

definition answer_fits :: "(error_code \<Rightarrow> string) \<Rightarrow> 'a result \<Rightarrow> bool" where
  "answer_fits text res \<longleftrightarrow>
    (case res of
       Inl err \<Rightarrow> err \<noteq> E_Ok \<and> text_fits lim (text err)
     | Inr a \<Rightarrow> fits_a a \<and> wr_ok (enc_a a empty_writer)
         \<and> 8 + length (wr_buffer (enc_a a empty_writer)) \<le> unat (max_frame_bytes lim))"

definition answer_frame :: "'q \<Rightarrow> (error_code \<Rightarrow> string) \<Rightarrow> 'a result \<Rightarrow> frame" where
  "answer_frame q text res = reply_frame (fr_header (seal_frame (call_frame q))) text
     (map_sum id (\<lambda>a. (ack, enc_a a empty_writer)) res)"

lemma dispatch_call:
  assumes "fits_q q" and "wr_ok (enc_q q empty_writer)" and "sv_limits s = lim"
    and "run env q (sv_coordinator s) = (c1, res)"
  obtains s1 where "dispatch env texts i (seal_frame (call_frame q)) s =
      (s1, answer_frame q (texts (sv_coordinator s) (fr_payload (call_frame q))) res)"
    "sv_coordinator s1 = c1" "same_sockets s s1"
proof -
  have dec: "run_state dec_q (new_reader wire_policy (wr_buffer (enc_q q empty_writer))) =
      (Inr q, new_reader wire_policy [])"
    using request.decode_encoding [OF assms(1,2), of wire_policy "[]"] by simp
  have stamp: "stamp (fr_header (seal_frame (call_frame q))) q = q"
    by (rule stamped) (simp_all add: call_frame_def request_frame_def)
  have "fh_type (fr_header (seal_frame (call_frame q))) = ty"
    by (simp add: call_frame_def request_frame_def)
  note handler = handled [OF this]
  have done_reading: "at_end (new_reader wire_policy [])"
    by (simp add: at_end_def new_reader_def)
  let ?s = "s\<lparr> sv_coordinator := c1 \<rparr>"
  let ?s1 = "case res of Inl err \<Rightarrow> ?s | Inr a \<Rightarrow> after i q a ?s"
  have payload: "fr_payload (call_frame q) = wr_buffer (enc_q q empty_writer)"
    by (simp add: call_frame_def request_frame_def)
  have "dispatch env texts i (seal_frame (call_frame q)) s =
      (?s1, answer_frame q (texts (sv_coordinator s) (fr_payload (call_frame q))) res)"
    unfolding dispatch_def assms(3) handler seal_frame_fields payload
    by (cases res) (simp_all add: run_typed_def dec stamp assms(4) conclude_def answer_frame_def done_reading)
  moreover have "sv_coordinator ?s1 = c1" "same_sockets s ?s1"
    using after_sockets [of ?s i q] by (simp_all add: after_coordinator split: sum.split)
  ultimately show thesis
    by (rule that)
qed

lemma answer_encodes:
  assumes "answer_fits text res"
  obtains out where "frame_encode lim (answer_frame q text res) = Inr out"
  using assms types
  by (cases res)
     (auto simp: frame_encode_iff answer_frame_def reply_frame_def answer_fits_def text_fits_def
        envelope_length)

lemma answer_decodes:
  assumes "answer_fits text res"
  shows "decode_typed_response lim dec_a (seal_frame (answer_frame q text res)) = local_failure res"
proof (cases res)
  case (Inl err)
  then show ?thesis
    using assms envelope_read [of "error_code_num err" "text err" lim wire_policy "[]"] error_code_num_max
    by (simp add: answer_fits_def text_fits_def answer_frame_def reply_frame_def decode_typed_response_def
        local_failure_def error_code_num_Ok del: error_code_num.simps)
next
  case (Inr a)
  have "run_state dec_a (new_reader wire_policy (wr_buffer (enc_a a empty_writer))) =
      (Inr a, new_reader wire_policy [])"
    using answer.decode_encoding [of a wire_policy "[]"] assms Inr by (simp add: answer_fits_def)
  then show ?thesis
    using Inr envelope_read [of "error_code_num E_Ok" "[]" lim wire_policy "wr_buffer (enc_a a empty_writer)"]
      error_code_num_max
    by (simp add: answer_frame_def reply_frame_def decode_typed_response_def local_failure_def at_end_def
        new_reader_def del: error_code_num.simps)
qed

text \<open>A client whose stream starts with the answer gets the result, and is left behind the answer.\<close>

lemma client_call:
  assumes q: "wr_ok (enc_q q empty_writer)" "frame_encode lim (call_frame q) = Inr bs"
    and fits: "answer_fits text res" and out: "frame_encode lim (answer_frame q text res) = Inr out"
    and cl: "cl_connected cl" "cl_writable cl" "cl_limits cl = lim" "cl_incoming cl = out @ later"
  shows "client_request enc_q authority_of ty ack dec_a q cl =
    (cl\<lparr> cl_sent := cl_sent cl @ bs, cl_incoming := later \<rparr>, local_failure res)"
proof -
  let ?cl = "cl\<lparr> cl_sent := cl_sent cl @ bs \<rparr>" and ?answer = "answer_frame q text res"
  have "client_send ty (authority_of q) (wr_buffer (enc_q q empty_writer)) cl = (?cl, success)"
    using q(2) cl by (simp add: client_send_def call_frame_def [symmetric] socket_write_def)
  moreover have "await_answer ack ?cl = (?cl\<lparr> cl_incoming := later \<rparr>, Inr (seal_frame ?answer))"
  proof -
    have "client_receive ?cl = (?cl\<lparr> cl_incoming := later \<rparr>, Inr (seal_frame ?answer))"
      by (rule client_receive_frame) (use cl out in simp_all)
    moreover have "fh_type (fr_header (seal_frame ?answer)) \<in> {MT_ErrorResponse, ack}"
      by (cases res) (simp_all add: answer_frame_def reply_frame_def)
    ultimately show ?thesis
      by (subst await_answer.simps) auto
  qed
  ultimately have "client_exchange ty (authority_of q) (wr_buffer (enc_q q empty_writer)) ack cl =
      (?cl\<lparr> cl_incoming := later \<rparr>, Inr (seal_frame ?answer))"
    by (simp add: client_exchange_def)
  then show ?thesis
    using q(1) cl(3) answer_decodes [OF fits, of q] by (simp add: client_request_def Let_def)
qed

text \<open>The call: the server runs the operation once, and every client on that stream gets its result.\<close>

lemma remote_call:
  assumes q: "fits_q q" "wr_ok (enc_q q empty_writer)" "frame_encode lim (call_frame q) = Inr bs"
    and s: "om_get (sv_connections s) i = Some cx" "\<not> sv_stopping s" "\<not> cx_closed cx" "cx_writable cx"
      "sv_limits s = lim" "cx_incoming cx = bs @ later_requests"
    and res: "run env q (sv_coordinator s) = (c1, res)"
    and fits: "answer_fits (texts (sv_coordinator s) (wr_buffer (enc_q q empty_writer))) res"
  obtains s1 cx1 out where "serve_step env texts i s = (s1, True)" "sv_coordinator s1 = c1"
    "om_get (sv_connections s1) i = Some cx1" "cx_outgoing cx1 = cx_outgoing cx @ out"
    "cx_incoming cx1 = later_requests"
    "\<And>cl later. cl_connected cl \<Longrightarrow> cl_writable cl \<Longrightarrow> cl_limits cl = lim \<Longrightarrow> cl_incoming cl = out @ later \<Longrightarrow>
       client_request enc_q authority_of ty ack dec_a q cl =
         (cl\<lparr> cl_sent := cl_sent cl @ bs, cl_incoming := later \<rparr>, local_failure res)"
proof -
  let ?s0 = "consume i (length bs) s"
  let ?answer = "answer_frame q (texts (sv_coordinator s) (wr_buffer (enc_q q empty_writer))) res"
  have s0: "om_get (sv_connections ?s0) i = Some (cx\<lparr> cx_incoming := later_requests \<rparr>)" "sv_limits ?s0 = lim"
    using s(1,5,6) by (simp_all add: consume_def on_connection_def om_simps)
  have run0: "run env q (sv_coordinator ?s0) = (c1, res)"
    using res by simp
  have payload: "fr_payload (call_frame q) = wr_buffer (enc_q q empty_writer)"
    by (simp add: call_frame_def request_frame_def)
  obtain s1 where s1: "dispatch env texts i (seal_frame (call_frame q)) ?s0 = (s1, ?answer)"
      "sv_coordinator s1 = c1" "same_sockets ?s0 s1"
    by (rule dispatch_call [OF q(1,2) s0(2) run0, of texts i, unfolded payload consume_same])
  obtain cx0 where cx0: "om_get (sv_connections s1) i = Some cx0" "cx_incoming cx0 = later_requests"
      "cx_outgoing cx0 = cx_outgoing cx" "cx_writable cx0" "\<not> cx_closed cx0"
    by (rule same_sockets_connection [OF s1(3) s0(1)]) (use s(3,4) in simp)
  have lim1: "sv_limits s1 = lim"
    using s0(2) s1(3) by (simp add: same_sockets_def)
  obtain out where out: "frame_encode lim ?answer = Inr out"
    by (rule answer_encodes [OF fits])
  let ?s2 = "on_connection i (\<lambda>_. cx0\<lparr> cx_outgoing := cx_outgoing cx0 @ out \<rparr>) s1"
  have "serve_step env texts i s = answer_request env texts i (seal_frame (call_frame q)) ?s0"
    by (rule serve_step_frame) (use s q(3) in auto)
  also have "\<dots> = (?s2, True)"
    using s1(1) cx0 lim1 out types
    by (simp add: answer_request_def send_frame_def write_all_def call_frame_def request_frame_def)
  finally have step: "serve_step env texts i s = (?s2, True)" .
  note client = client_call [OF q(2,3) fits out]
  with step s1(2) cx0(1-3) show thesis
    by (intro that [of ?s2 "cx0\<lparr> cx_outgoing := cx_outgoing cx0 @ out \<rparr>" out])
       (simp_all add: on_connection_def om_simps)
qed

text \<open>Bytes behind the request are noticed only after the operation has run.\<close>

lemma dispatch_trailing:
  assumes "fits_q q" and "wr_ok (enc_q q empty_writer)" and "sv_limits s = lim"
    and "run env q (sv_coordinator s) = (c1, Inr a)" and "extra \<noteq> []"
    and "fh_type (fr_header f) = ty" and "fh_authority (fr_header f) = authority_of q"
    and "fh_correlation (fr_header f) = au_request (authority_of q)"
    and "fr_payload f = wr_buffer (enc_q q empty_writer) @ extra"
  shows "sv_coordinator (fst (dispatch env texts i f s)) = c1
    \<and> fh_type (fr_header (snd (dispatch env texts i f s))) = MT_ErrorResponse
    \<and> fr_payload (snd (dispatch env texts i f s)) =
        envelope_bytes (error_code_num E_ProtocolTrailingGarbage)
          (texts (sv_coordinator s) (fr_payload f) E_ProtocolTrailingGarbage)"
proof -
  have "run_state dec_q (new_reader wire_policy (fr_payload f)) = (Inr q, new_reader wire_policy extra)"
    unfolding assms(9) by (rule request.decode_encoding [OF assms(1,2)])
  moreover have "\<not> at_end (new_reader wire_policy extra)"
    using assms(5) by (simp add: at_end_def new_reader_def)
  ultimately show ?thesis
    by (simp add: dispatch_def handled [OF assms(6)] assms(3,4) run_typed_def stamped [OF assms(7,8)]
        conclude_def reply_frame_def after_coordinator)
qed

end

section \<open>The typed requests\<close>

interpretation remote_register_target: remote_operation
  "enc_register_target_request lim" "dec_register_target_request lim" "fits_register_target_request lim"
  enc_target_record "dec_target_record lim" "fits_target_record lim" lim
  authority_of_register_target MT_RegisterTarget MT_RegisterTargetAck
  "\<lambda>h q. q\<lparr> rt_epoch := au_epoch (fh_authority h), rt_request := fh_correlation h \<rparr>"
  register_target "\<lambda>i. no_effect"
  for lim
  by unfold_locales (simp_all add: handler_of_def handle_register_target_def authority_of_register_target_def no_authority_def no_effect_def)

interpretation remote_supersede_target: remote_operation
  "enc_supersede_target_request lim" "dec_supersede_target_request lim" "fits_supersede_target_request lim"
  enc_target_record "dec_target_record lim" "fits_target_record lim" lim
  authority_of_supersede_target MT_SupersedeTarget MT_SupersedeTargetAck
  "\<lambda>h q. q\<lparr> st_epoch := au_epoch (fh_authority h), st_request := fh_correlation h \<rparr>"
  supersede_target "\<lambda>i. no_effect"
  for lim
  by unfold_locales (simp_all add: handler_of_def handle_supersede_target_def authority_of_supersede_target_def no_authority_def no_effect_def)

interpretation remote_register_critic: remote_operation
  "enc_register_critic_request lim" "dec_register_critic_request lim" "fits_register_critic_request lim"
  enc_critic_registration "dec_critic_registration lim" "fits_critic_registration lim" lim
  authority_of_register_critic MT_RegisterCritic MT_RegisterCriticAck
  "\<lambda>h q. q\<lparr> rc_epoch := au_epoch (fh_authority h), rc_request := fh_correlation h \<rparr>"
  register_critic "\<lambda>i. no_effect"
  for lim
  by unfold_locales (simp_all add: handler_of_def handle_register_critic_def authority_of_register_critic_def no_authority_def no_effect_def)

interpretation remote_register_worker: remote_operation
  "enc_register_worker_request lim" "dec_register_worker_request lim" "fits_register_worker_request lim"
  enc_worker_record "dec_worker_record lim" "fits_worker_record lim" lim
  authority_of_register_worker MT_RegisterWorker MT_RegisterWorkerAck
  "\<lambda>h q. q\<lparr> rw_epoch := au_epoch (fh_authority h), rw_request := fh_correlation h \<rparr>"
  register_worker "\<lambda>i q w. bind_worker i (w_id w)"
  for lim
  by unfold_locales (simp_all add: handler_of_def handle_register_worker_def authority_of_register_worker_def no_authority_def same_sockets_bind)

interpretation remote_declare_readiness: remote_operation
  "enc_declare_readiness_request lim" "dec_declare_readiness_request lim" "fits_declare_readiness_request lim"
  enc_worker_record "dec_worker_record lim" "fits_worker_record lim" lim
  authority_of_declare_readiness MT_DeclareReadiness MT_DeclareReadinessAck
  "\<lambda>h q. q\<lparr> dr_epoch := au_epoch (fh_authority h), dr_request := fh_correlation h \<rparr>"
  declare_readiness "\<lambda>i q w. bind_worker i (w_id w)"
  for lim
  by unfold_locales (simp_all add: handler_of_def handle_declare_readiness_def authority_of_declare_readiness_def no_authority_def same_sockets_bind)

interpretation remote_declare_review: remote_operation
  "enc_declare_review_request lim" "dec_declare_review_request lim" "fits_declare_review_request lim"
  enc_review_record "dec_review_record lim" "fits_review_record lim" lim
  authority_of_declare_review MT_DeclareReview MT_DeclareReviewAck
  "\<lambda>h q. q\<lparr> dv_epoch := au_epoch (fh_authority h) \<rparr>"
  declare_review "\<lambda>i. no_effect"
  for lim
  by unfold_locales (simp_all add: handler_of_def handle_declare_review_def authority_of_declare_review_def no_authority_def no_effect_def)

interpretation remote_submit_evidence: remote_operation
  "enc_submit_evidence_request lim" "dec_submit_evidence_request lim" "fits_submit_evidence_request lim"
  enc_evidence_record "dec_evidence_record lim" "fits_evidence_record lim" lim
  authority_of_submit_evidence MT_SubmitEvidence MT_SubmitEvidenceAck
  "\<lambda>h q. q\<lparr> se_epoch := au_epoch (fh_authority h), se_request := fh_correlation h \<rparr>"
  submit_evidence "\<lambda>i. no_effect"
  for lim
  by unfold_locales (simp_all add: handler_of_def handle_submit_evidence_def authority_of_submit_evidence_def no_authority_def no_effect_def)

interpretation remote_submit_finding: remote_operation
  "enc_submit_finding_request lim" "dec_submit_finding_request lim" "fits_submit_finding_request lim"
  enc_finding "dec_finding lim" "fits_finding lim" lim
  authority_of_submit_finding MT_SubmitFinding MT_SubmitFindingAck
  "\<lambda>h q. q\<lparr> sf_epoch := au_epoch (fh_authority h), sf_request := fh_correlation h \<rparr>"
  submit_finding "\<lambda>i. no_effect"
  for lim
  by unfold_locales (simp_all add: handler_of_def handle_submit_finding_def authority_of_submit_finding_def no_authority_def no_effect_def)

interpretation remote_submit_challenge: remote_operation
  "enc_submit_challenge_request lim" "dec_submit_challenge_request lim" "fits_submit_challenge_request lim"
  enc_challenge "dec_challenge lim" "fits_challenge lim" lim
  authority_of_submit_challenge MT_SubmitChallenge MT_SubmitChallengeAck
  "\<lambda>h q. q\<lparr> sc_epoch := au_epoch (fh_authority h), sc_request := fh_correlation h \<rparr>"
  submit_challenge "\<lambda>i. no_effect"
  for lim
  by unfold_locales (simp_all add: handler_of_def handle_submit_challenge_def authority_of_submit_challenge_def no_authority_def no_effect_def)

interpretation remote_submit_rebuttal: remote_operation
  "enc_submit_rebuttal_request lim" "dec_submit_rebuttal_request lim" "fits_submit_rebuttal_request lim"
  enc_rebuttal "dec_rebuttal lim" "fits_rebuttal lim" lim
  authority_of_submit_rebuttal MT_SubmitRebuttal MT_SubmitRebuttalAck
  "\<lambda>h q. q\<lparr> sr_epoch := au_epoch (fh_authority h), sr_request := fh_correlation h \<rparr>"
  submit_rebuttal "\<lambda>i. no_effect"
  for lim
  by unfold_locales (simp_all add: handler_of_def handle_submit_rebuttal_def authority_of_submit_rebuttal_def no_authority_def no_effect_def)

interpretation remote_commit_review: remote_operation
  "enc_commit_review_request lim" "dec_commit_review_request lim" "fits_commit_review_request lim"
  enc_decision dec_decision fits_decision lim
  authority_of_commit_review MT_CommitReview MT_CommitReviewAck
  "\<lambda>h q. q\<lparr> cm_epoch := au_epoch (fh_authority h), cm_request := fh_correlation h \<rparr>"
  commit_review "\<lambda>i. no_effect"
  for lim
  by unfold_locales (simp_all add: handler_of_def handle_commit_review_def authority_of_commit_review_def no_authority_def no_effect_def)

interpretation remote_cancel_review: remote_operation
  "enc_cancel_review_request lim" "dec_cancel_review_request lim" "fits_cancel_review_request lim"
  enc_review_record "dec_review_record lim" "fits_review_record lim" lim
  authority_of_cancel_review MT_CancelReview MT_CancelReviewAck
  "\<lambda>h q. q\<lparr> cn_epoch := au_epoch (fh_authority h), cn_request := fh_correlation h \<rparr>"
  cancel_review "\<lambda>i. no_effect"
  for lim
  by unfold_locales (simp_all add: handler_of_def handle_cancel_review_def authority_of_cancel_review_def no_authority_def no_effect_def)


end
