(* ===== verification/CF_EndToEnd.thy ===== *)
theory CF_EndToEnd
  imports CF_Remote CF_Restart
begin

text \<open>
  Calls through the whole stack: the client encodes a request, the server reads the frame, the
  coordinator runs the operation, and the client decodes the answer. The theory states for the commit of
  a review that the two ends and the wire between them add nothing and lose nothing, and for the
  cancellation what happens to a request with bytes left over.
\<close>

section \<open>Sizes and requests\<close>

definition commit_payload :: "runtime_limits \<Rightarrow> commit_review_request \<Rightarrow> bytes" where
  "commit_payload lim q = wr_buffer (enc_commit_review_request lim q empty_writer)"

definition cancel_payload :: "runtime_limits \<Rightarrow> cancel_review_request \<Rightarrow> bytes" where
  "cancel_payload lim q = wr_buffer (enc_cancel_review_request lim q empty_writer)"

lemma commit_written:
  "wr_ok (enc_commit_review_request lim q empty_writer)" "length (commit_payload lim q) = 41"
  by (simp_all add: commit_payload_def enc_commit_review_request_def w_seq_def w_u64_def w_boolean_def w_u8_def
      w_append_def w_require_def empty_writer_def)

lemma cancel_written: "wr_ok (enc_cancel_review_request lim restored_cancel empty_writer)"
  by (simp add: enc_cancel_review_request_def w_seq_def w_u64_def w_string_def w_u32_def w_raw_def w_append_def
      w_require_def empty_writer_def restored_cancel_def)

lemma decision_written:
  assumes "length (d_decision_digest d) = 32" and "length (d_policy_digest d) = 32" and "length (d_evidence_basis_digest d) = 32"
  shows "wr_ok (enc_decision d empty_writer) \<and> length (wr_buffer (enc_decision d empty_writer)) = 164"
  using assms
  by (simp add: enc_decision_def w_seq_def w_u64_def w_u32_def w_digest_def w_raw_def w_append_def w_require_def
      empty_writer_def)

section \<open>A commit over the wire\<close>

lemma commit_encodes:
  assumes "41 \<le> unat (max_frame_bytes lim)"
  obtains bs where "frame_encode lim (remote_commit_review.call_frame lim q) = Inr bs"
  using assms commit_written(2) [of lim q]
  by (simp add: frame_encode_iff remote_commit_review.call_frame_def request_frame_def default_header_def
      commit_payload_def kProtocolVersion_def)

lemma commit_answer_fits:
  assumes "172 \<le> unat (max_frame_bytes lim)"
    and "case res of Inl err \<Rightarrow> err \<noteq> E_Ok \<and> text_fits lim (text err) | Inr d \<Rightarrow> fits_decision d"
  shows "remote_commit_review.answer_fits lim text res"
  using assms decision_written
  by (auto simp: remote_commit_review.answer_fits_def fits_decision_def split: sum.splits)

text \<open>
  C14. A commit over the wire is a commit: whatever the coordinator answers to a commit, its decision or
  its error, is what the client call returns; the coordinator has run that one command with the client's
  request unchanged; the server has taken the request off its stream, leaving what was sent behind it for the
  next round, and has written one answer; and the client is left right behind that answer on its own stream.
  Client and server run under the same limits, the answer fits them (a decision with its digests, or an error
  with a detail text the limits admit), and the connection is open and writable.
\<close>

theorem remote_commit_transparent:
  assumes "om_get (sv_connections s) i = Some cx" and "\<not> sv_stopping s" and "\<not> cx_closed cx"
    and "cx_writable cx"
    and "172 \<le> unat (max_frame_bytes (sv_limits s))"
    and "commit_review env q (sv_coordinator s) = (c1, res)"
    and "case res of
        Inl err \<Rightarrow> err \<noteq> E_Ok \<and>
          text_fits (sv_limits s) (texts (sv_coordinator s) (commit_payload (sv_limits s) q) err)
      | Inr d \<Rightarrow> fits_decision d"
  shows "\<exists>bs s1 cx1 out.
      serve_step env texts i (on_connection i (\<lambda>cx. cx\<lparr> cx_incoming := bs @ rest \<rparr>) s) = (s1, True)
    \<and> sv_coordinator s1 = c1
    \<and> om_get (sv_connections s1) i = Some cx1 \<and> cx_incoming cx1 = rest \<and> cx_outgoing cx1 = cx_outgoing cx @ out
    \<and> (\<forall>cl later. cl_connected cl \<and> cl_writable cl \<and> cl_limits cl = sv_limits s \<and> cl_incoming cl = out @ later
        \<longrightarrow> client_commit_review q cl =
              (cl\<lparr> cl_sent := cl_sent cl @ bs, cl_incoming := later \<rparr>, local_failure res))"
proof -
  let ?lim = "sv_limits s"
  obtain bs where bs: "frame_encode ?lim (remote_commit_review.call_frame ?lim q) = Inr bs"
    by (rule commit_encodes [of ?lim q]) (use assms(5) in simp)
  let ?s = "on_connection i (\<lambda>cx. cx\<lparr> cx_incoming := bs @ rest \<rparr>) s"
  have s: "om_get (sv_connections ?s) i = Some (cx\<lparr> cx_incoming := bs @ rest \<rparr>)"
    using assms(1) by (simp add: on_connection_def om_simps)
  have q: "fits_commit_review_request ?lim q" "wr_ok (enc_commit_review_request ?lim q empty_writer)"
    by (simp_all add: fits_commit_review_request_def commit_written)
  have fits: "remote_commit_review.answer_fits ?lim
      (texts (sv_coordinator ?s) (wr_buffer (enc_commit_review_request ?lim q empty_writer))) res"
    unfolding commit_payload_def [symmetric] on_connection_fields by (rule commit_answer_fits [OF assms(5,7)])
  have run: "commit_review env q (sv_coordinator ?s) = (c1, res)"
    using assms(6) by simp
  show ?thesis
  proof (rule remote_commit_review.remote_call
      [where texts = texts and later_requests = rest, OF q bs s _ _ _ _ _ run fits])
    fix s1 cx1 out
    assume out: "serve_step env texts i ?s = (s1, True)" "sv_coordinator s1 = c1"
        "om_get (sv_connections s1) i = Some cx1"
        "cx_outgoing cx1 = cx_outgoing (cx\<lparr> cx_incoming := bs @ rest \<rparr>) @ out" "cx_incoming cx1 = rest"
      and client: "\<And>cl later. cl_connected cl \<Longrightarrow> cl_writable cl \<Longrightarrow> cl_limits cl = ?lim \<Longrightarrow> cl_incoming cl = out @ later \<Longrightarrow>
        client_request (enc_commit_review_request ?lim) authority_of_commit_review MT_CommitReview
          MT_CommitReviewAck dec_decision q cl =
        (cl\<lparr> cl_sent := cl_sent cl @ bs, cl_incoming := later \<rparr>, local_failure res)"
    show ?thesis
      by (rule exI [of _ bs], rule exI [of _ s1], rule exI [of _ cx1], rule exI [of _ out])
         (simp add: out client client_commit_review_def)
  qed (use assms in simp_all)
qed

text \<open>A coordinator that already holds the decision answers a second commit with it.\<close>

definition restored_commit :: commit_review_request where
  "restored_commit =
    \<lparr> cm_review = 3, cm_review_generation = 1, cm_target_generation = 1, cm_epoch = 2, cm_request = 4,
      cm_include_rendered_explanation = False \<rparr>"

lemma restored_slot:
  obtains sl where "find_slot (co_state restored) 3 = Some sl" "sl_decision sl = Some restored_decision"
    "r_generation (sl_record sl) = 1" "r_target_generation (sl_record sl) = 1" "r_state (sl_record sl) = RS_Committed"
proof -
  have "\<exists>sl. find_slot (co_state restored) 3 = Some sl \<and> sl_decision sl = Some restored_decision
    \<and> r_generation (sl_record sl) = 1 \<and> r_target_generation (sl_record sl) = 1 \<and> r_state (sl_record sl) = RS_Committed"
    using started_state [of "new_coordinator plain_config" "world sha256 (\<lambda>_. IO_Ok)" restored_journal]
      restored_recover
    by (simp add: restored_simps)
  with that show thesis
    by blast
qed

lemma restored_recommits:
  "commit_review (world (\<lambda>_. zero_digest) io) restored_commit restored = (restored, Inr restored_decision)"
proof -
  obtain sl where "find_slot (co_state restored) 3 = Some sl" "sl_decision sl = Some restored_decision"
    "r_generation (sl_record sl) = 1" "r_target_generation (sl_record sl) = 1" "r_state (sl_record sl) = RS_Committed"
    by (rule restored_slot)
  then show ?thesis
    using restored_started restored_state(3)
    by (simp add: commit_review_def mutation_guard_def commit_guard_def restored_commit_def commit_state_guard_def
        Let_def recommit_def compute_decision_digest_def hash_writes_def world_def restored_decision_def)
qed

definition serving_restored :: server where
  "serving_restored = (new_server restored default_limits True)\<lparr> sv_connections := [(0, new_connection [])] \<rparr>"

theorem remote_commit_transparent_witness:
  "\<exists>bs s1 out.
      serve_step (world (\<lambda>_. zero_digest) (\<lambda>_. IO_Ok)) no_texts 0
        (on_connection 0 (\<lambda>cx. cx\<lparr> cx_incoming := bs \<rparr>) serving_restored) = (s1, True)
    \<and> sv_coordinator s1 = restored
    \<and> map_option (\<lambda>cx. (cx_incoming cx, cx_outgoing cx)) (om_get (sv_connections s1) 0) = Some ([], out)
    \<and> snd (client_commit_review restored_commit (connected_client default_limits out)) = Inr restored_decision"
proof -
  let ?env = "world (\<lambda>_. zero_digest) (\<lambda>_. IO_Ok)"
  have server: "om_get (sv_connections serving_restored) 0 = Some (new_connection [])"
      "\<not> sv_stopping serving_restored" "sv_coordinator serving_restored = restored"
      "sv_limits serving_restored = clamp_to_hard_ceiling default_limits"
    by (simp_all add: serving_restored_def new_server_def om_get_code)
  have frames: "172 \<le> unat (max_frame_bytes (clamp_to_hard_ceiling default_limits))"
    by (simp add: default_limits_def clamp_to_hard_ceiling_def clamp_into_def hard_ceilings)
  have fits: "fits_decision restored_decision"
    by (simp add: fits_decision_def restored_decision_def id_valid_def zero_digest_def)
  have client: "cl_connected (connected_client default_limits out)" "cl_writable (connected_client default_limits out)"
      "cl_limits (connected_client default_limits out) = clamp_to_hard_ceiling default_limits"
      "cl_incoming (connected_client default_limits out) = out @ []" for out
    by (simp_all add: connected_client_def)
  from remote_commit_transparent [OF server(1,2), of ?env restored_commit restored "Inr restored_decision" no_texts "[]"]
  obtain bs s1 cx1 out where step: "serve_step ?env no_texts 0
        (on_connection 0 (\<lambda>cx. cx\<lparr> cx_incoming := bs \<rparr>) serving_restored) = (s1, True)"
      "sv_coordinator s1 = restored" "om_get (sv_connections s1) 0 = Some cx1" "cx_incoming cx1 = []"
      "cx_outgoing cx1 = out"
    and answers: "\<And>cl later. cl_connected cl \<Longrightarrow> cl_writable cl \<Longrightarrow> cl_limits cl = clamp_to_hard_ceiling default_limits \<Longrightarrow>
        cl_incoming cl = out @ later \<Longrightarrow> client_commit_review restored_commit cl =
          (cl\<lparr> cl_sent := cl_sent cl @ bs, cl_incoming := later \<rparr>, local_failure (Inr restored_decision))"
    using restored_recommits frames fits unfolding server(3,4) by (auto simp: new_connection_def)
  have "snd (client_commit_review restored_commit (connected_client default_limits out)) = Inr restored_decision"
    by (simp add: answers [OF client] local_failure_def)
  with step show ?thesis
    by auto
qed

section \<open>A cancellation with bytes left over\<close>

definition overlong_cancel :: "runtime_limits \<Rightarrow> cancel_review_request \<Rightarrow> bytes \<Rightarrow> frame" where
  "overlong_cancel lim q extra =
    request_frame MT_CancelReview (authority_of_cancel_review q) (cancel_payload lim q @ extra)"

text \<open>
  C39. A request is carried out before its end is checked: a cancellation with extra bytes behind it, in a
  frame with a correct length and checksum, cancels the review exactly as a well-formed one does, and is
  then answered with ProtocolTrailingGarbage, so that the client takes it for refused.
\<close>

theorem refused_cancel_still_cancels:
  assumes "length (cn_reason q) \<le> unat (max_metadata_string_bytes (sv_limits s))"
    and "wr_ok (enc_cancel_review_request (sv_limits s) q empty_writer)"
    and "cancel_review env q (sv_coordinator s) = (c1, Inr r)" and "extra \<noteq> []"
  shows "sv_coordinator (fst (dispatch env texts i (overlong_cancel (sv_limits s) q extra) s)) = c1
    \<and> fh_type (fr_header (snd (dispatch env texts i (overlong_cancel (sv_limits s) q extra) s))) = MT_ErrorResponse
    \<and> (\<exists>detail. fr_payload (snd (dispatch env texts i (overlong_cancel (sv_limits s) q extra) s)) =
          envelope_bytes (error_code_num E_ProtocolTrailingGarbage) detail)"
proof -
  let ?f = "overlong_cancel (sv_limits s) q extra"
  have q: "fits_cancel_review_request (sv_limits s) q"
    using assms(1) by (simp add: fits_cancel_review_request_def)
  have f: "fh_type (fr_header ?f) = MT_CancelReview" "fh_authority (fr_header ?f) = authority_of_cancel_review q"
    "fh_correlation (fr_header ?f) = au_request (authority_of_cancel_review q)"
    "fr_payload ?f = wr_buffer (enc_cancel_review_request (sv_limits s) q empty_writer) @ extra"
    by (simp_all add: overlong_cancel_def request_frame_def cancel_payload_def)
  from remote_cancel_review.dispatch_trailing [OF q assms(2) refl assms(3,4) f, of texts i] show ?thesis
    by blast
qed

definition serving_reopened :: server where
  "serving_reopened = new_server reopened default_limits True"

lemma reopened_cancels: "is_ok (snd (cancel_review (world sha256 (\<lambda>_. IO_Ok)) restored_cancel reopened))"
  by (simp add: cancel_review_def mutation_guard_def cancel_guard_def restored_cancel_def cancel_change_def
      over_def publish_def finish_def record_after_def reopened_def open_journal_def restored_simps in_memory_simps state_change_writer_simps
      start_with_def)

theorem refused_cancel_still_cancels_witness:
  "fh_type (fr_header (snd (dispatch (world sha256 (\<lambda>_. IO_Ok)) no_texts 0
      (overlong_cancel (sv_limits serving_reopened) restored_cancel [0]) serving_reopened))) = MT_ErrorResponse
   \<and> sv_coordinator (fst (dispatch (world sha256 (\<lambda>_. IO_Ok)) no_texts 0
      (overlong_cancel (sv_limits serving_reopened) restored_cancel [0]) serving_reopened))
      = fst (cancel_review (world sha256 (\<lambda>_. IO_Ok)) restored_cancel reopened)"
proof -
  obtain c1 r where run: "cancel_review (world sha256 (\<lambda>_. IO_Ok)) restored_cancel reopened = (c1, Inr r)"
    using reopened_cancels by (metis is_ok_iff prod.collapse)
  then have "cancel_review (world sha256 (\<lambda>_. IO_Ok)) restored_cancel (sv_coordinator serving_reopened) = (c1, Inr r)"
    by (simp add: serving_reopened_def new_server_def)
  moreover have "length (cn_reason restored_cancel) \<le> unat (max_metadata_string_bytes (sv_limits serving_reopened))"
    by (simp add: restored_cancel_def)
  ultimately show ?thesis
    using refused_cancel_still_cancels [of restored_cancel serving_reopened "world sha256 (\<lambda>_. IO_Ok)" c1 r "[0]" no_texts 0]
      run cancel_written by simp
qed

end
