(* ===== verification/CF_Worker.thy ===== *)
theory CF_Worker
  imports CF_Remote CF_Content CF_Verdict
begin

text \<open>
  The worker runtime (\<open>include/critic_fabric/worker.hpp\<close>, \<open>synthetic_critic.hpp\<close> and
  \<open>src/worker.cpp\<close>): the synthetic critic, the boot identity of a process, and the life of a worker,
  from the handshake over registration and readiness to the assignments it services.

  The hash is a parameter. What the process takes from the operating system, its process id and the
  clock, and the position of its boot identity in the process are arguments. The gate a harness may hold
  before publication and the callback in front of it change nothing a worker sends and are left out.
\<close>

section \<open>The synthetic critic\<close>

datatype synthetic_behavior =
  SB_Pass | SB_Fail | SB_Warn | SB_Abstain | SB_Unknown | SB_NotApplicable | SB_Inconclusive

fun outcome_of :: "synthetic_behavior \<Rightarrow> finding_outcome" where
  "outcome_of SB_Pass = Out_Pass"
| "outcome_of SB_Fail = Out_Fail"
| "outcome_of SB_Warn = Out_Warn"
| "outcome_of SB_Abstain = Out_Abstain"
| "outcome_of SB_Unknown = Out_Unknown"
| "outcome_of SB_NotApplicable = Out_NotApplicable"
| "outcome_of SB_Inconclusive = Out_Inconclusive"

fun synthetic_behavior_name :: "synthetic_behavior \<Rightarrow> string" where
  "synthetic_behavior_name SB_Pass = ''pass''"
| "synthetic_behavior_name SB_Fail = ''fail''"
| "synthetic_behavior_name SB_Warn = ''warn''"
| "synthetic_behavior_name SB_Abstain = ''abstain''"
| "synthetic_behavior_name SB_Unknown = ''unknown''"
| "synthetic_behavior_name SB_NotApplicable = ''not_applicable''"
| "synthetic_behavior_name SB_Inconclusive = ''inconclusive''"

definition parse_synthetic_behavior :: "string \<Rightarrow> synthetic_behavior option" where
  "parse_synthetic_behavior text = find (\<lambda>b. text = synthetic_behavior_name b)
     [SB_Pass, SB_Fail, SB_Warn, SB_Abstain, SB_Unknown, SB_NotApplicable, SB_Inconclusive]"

record synthetic_config =
  sy_critic :: critic_id
  sy_role :: critic_role
  sy_behavior :: synthetic_behavior
  sy_category :: finding_category
  sy_severity :: severity
  sy_source_type :: evidence_source_type
  sy_provenance :: evidence_provenance
  sy_specialization :: string
  sy_implementation_version :: string
  sy_deterministic_output :: bool

definition synthetic_capability_evidence :: "hash_fun \<Rightarrow> synthetic_config \<Rightarrow> digest" where
  "synthetic_capability_evidence H cfg = hash_writes H
    [w_u32 0x43415042,
     w_u32 (critic_role_code (sy_role cfg)),
     w_u32 (finding_category_code (sy_category cfg)),
     w_string (sy_specialization cfg) kHardMaxMetadataBytes,
     w_string (sy_implementation_version cfg) kHardMaxMetadataBytes,
     w_boolean (sy_deterministic_output cfg)]"

definition synthetic_critic_capability :: "hash_fun \<Rightarrow> synthetic_config \<Rightarrow> critic_capability" where
  "synthetic_critic_capability H cfg =
    \<lparr> cap_roles = {sy_role cfg},
      cap_target_classes = {TC_Claim, TC_Artifact, TC_Plan, TC_Result, TC_ModelOutput, TC_ExecutionOutput,
        TC_Configuration, TC_PolicyResult, TC_DatasetSlice, TC_OtherTypedTarget},
      cap_finding_categories = {sy_category cfg, Cat_Correctness, Cat_Consistency, Cat_Schema, Cat_Safety,
        Cat_Security, Cat_Performance, Cat_Logic, Cat_Factual, Cat_EvidenceQuality, Cat_Policy, Cat_Other},
      cap_specialization = sy_specialization cfg,
      cap_implementation_version = sy_implementation_version cfg,
      cap_capability_evidence = synthetic_capability_evidence H cfg,
      cap_deterministic_output = sy_deterministic_output cfg,
      cap_supports_challenge_response = True \<rparr>"

record synthetic_output =
  so_outcome :: finding_outcome
  so_severity :: severity
  so_category :: finding_category
  so_source_type :: evidence_source_type
  so_provenance :: evidence_provenance
  so_evidence_payload :: bytes
  so_explanation :: string

definition synthetic_payload :: "synthetic_config \<Rightarrow> critic_generation \<Rightarrow> target_record \<Rightarrow> bytes" where
  "synthetic_payload cfg generation target = wr_buffer (w_seq
    [w_u32 0x53594E54,
     w_u64 (sy_critic cfg),
     w_u64 generation,
     w_u64 (t_id target),
     w_u64 (t_generation target),
     w_digest (t_content_digest target),
     w_u32 (finding_outcome_code (outcome_of (sy_behavior cfg))),
     w_u32 (severity_code (sy_severity cfg)),
     w_string (sy_specialization cfg) kHardMaxMetadataBytes] empty_writer)"

definition run_synthetic_critic ::
  "hash_fun \<Rightarrow> synthetic_config \<Rightarrow> critic_generation \<Rightarrow> target_record \<Rightarrow> synthetic_output" where
  "run_synthetic_critic H cfg generation target =
    (let payload = synthetic_payload cfg generation target in
     \<lparr> so_outcome = outcome_of (sy_behavior cfg), so_severity = sy_severity cfg,
       so_category = sy_category cfg, so_source_type = sy_source_type cfg,
       so_provenance = sy_provenance cfg, so_evidence_payload = payload,
       so_explanation =
         ''synthetic reference critic '' @ critic_role_name (sy_role cfg) @ '' assessed target generation ''
         @ dec_nat (unat (t_generation target)) @ '' as '' @ finding_outcome_name (outcome_of (sy_behavior cfg))
         @ '' with severity '' @ severity_name (sy_severity cfg) @ ''; witness digest ''
         @ take 16 (digest_to_hex (H payload)) \<rparr>)"

section \<open>A worker\<close>

text \<open>The boot identity: the first eight bytes of a hash over the process, the clock and a counter.\<close>

definition generate_worker_boot_id :: "hash_fun \<Rightarrow> u64 \<Rightarrow> u64 \<Rightarrow> u64 \<Rightarrow> string \<Rightarrow> worker_boot_id" where
  "generate_worker_boot_id H process ticks sequence label =
    (let d = hash_writes H
       [w_u32 0x424F4F54, w_u64 process, w_u64 ticks, w_u64 sequence, w_string label kHardMaxMetadataBytes];
         v = be_value (take 8 d)
     in if v = 0 then 1 else v)"

record worker_config =
  wc_critic :: critic_id
  wc_process_label :: string
  wc_host :: producer_id
  wc_limits :: runtime_limits
  wc_critic_config :: synthetic_config
  wc_max_assignments :: u32
  wc_declare_readiness :: bool
  wc_advance_critic_generation :: bool
  wc_forced_boot :: worker_boot_id
  wc_forced_worker :: worker_id

record critic_worker =
  wk_config :: worker_config
  wk_client :: client
  wk_worker :: worker_id
  wk_boot :: worker_boot_id
  wk_epoch :: coordinator_epoch
  wk_critic_generation :: critic_generation
  wk_serviced :: u32

text \<open>A call that fails ends the function it is made from; the code of the failure is its result.\<close>

definition remote_bind ::
  "'s \<times> 'a remote \<Rightarrow> ('s \<Rightarrow> 'a \<Rightarrow> 's \<times> 'b remote) \<Rightarrow> 's \<times> 'b remote" where
  "remote_bind call next_call = (case call of (s, Inl code) \<Rightarrow> (s, Inl code) | (s, Inr x) \<Rightarrow> next_call s x)"

definition on_client :: "(client \<Rightarrow> client \<times> 'a remote) \<Rightarrow> critic_worker \<Rightarrow> critic_worker \<times> 'a remote" where
  "on_client call wk = (let (cl, r) = call (wk_client wk) in (wk\<lparr> wk_client := cl \<rparr>, r))"

section \<open>Servicing an assignment\<close>

definition evidence_request ::
  "worker_config \<Rightarrow> synthetic_output \<Rightarrow> critic_assignment \<Rightarrow> coordinator_epoch \<Rightarrow> worker_id \<Rightarrow> worker_boot_id
   \<Rightarrow> critic_generation \<Rightarrow> submit_evidence_request" where
  "evidence_request cfg output a epoch worker boot generation =
    \<lparr> se_source_type = so_source_type output, se_provenance = so_provenance output,
      se_integrity = Integ_Verified, se_producer = wc_host cfg,
      se_reference = ''synthetic-reference-witness'', se_payload = so_evidence_payload output,
      se_finding = 0, se_epoch = epoch, se_request = a_id a * 2, se_review = a_review a,
      se_review_generation = a_review_generation a, se_target = a_target a,
      se_target_generation = a_target_generation a, se_critic = a_critic a,
      se_critic_generation = generation, se_worker = worker, se_worker_boot = boot \<rparr>"

definition finding_request ::
  "synthetic_output \<Rightarrow> evidence_id \<Rightarrow> critic_assignment \<Rightarrow> coordinator_epoch \<Rightarrow> worker_id \<Rightarrow> worker_boot_id
   \<Rightarrow> critic_generation \<Rightarrow> submit_finding_request" where
  "finding_request output evidence a epoch worker boot generation =
    \<lparr> sf_category = so_category output, sf_severity = so_severity output, sf_outcome = so_outcome output,
      sf_evidence = [evidence], sf_explanation = so_explanation output,
      sf_confidence = \<lparr> cf_provided = False, cf_basis_points = 0, cf_basis = CB_NotProvided \<rparr>,
      sf_provenance = ''synthetic-reference-worker'', sf_supersedes = 0, sf_epoch = epoch,
      sf_request = a_id a * 2 + 1, sf_review = a_review a, sf_review_generation = a_review_generation a,
      sf_target = a_target a, sf_target_generation = a_target_generation a, sf_critic = a_critic a,
      sf_critic_generation = generation, sf_worker = worker, sf_worker_boot = boot \<rparr>"

definition publish_synthetic_assignment ::
  "hash_fun \<Rightarrow> worker_config \<Rightarrow> critic_assignment \<Rightarrow> coordinator_epoch \<Rightarrow> worker_id \<Rightarrow> worker_boot_id
   \<Rightarrow> critic_generation \<Rightarrow> client \<Rightarrow> client \<times> unit remote" where
  "publish_synthetic_assignment H cfg a epoch worker boot generation cl =
    remote_bind (client_query_target (a_target a) cl) (\<lambda>cl1 target.
      if t_generation target \<noteq> a_target_generation a
      then (cl1, Inl (error_code_num E_StaleTargetGeneration))
      else (let output = run_synthetic_critic H (wc_critic_config cfg) generation target in
        remote_bind (client_submit_evidence (evidence_request cfg output a epoch worker boot generation) cl1)
          (\<lambda>cl2 evidence.
        remote_bind (client_submit_finding
            (finding_request output (e_id evidence) a epoch worker boot generation) cl2) (\<lambda>cl3 _.
        (cl3, Inr ())))))"

definition service_assignment :: "hash_fun \<Rightarrow> critic_assignment \<Rightarrow> critic_worker \<Rightarrow> critic_worker \<times> unit remote" where
  "service_assignment H a wk =
    (if a_critic a \<noteq> wc_critic (wk_config wk)
     then (wk, Inl (error_code_num E_CriticNotAuthoritative))
     else on_client (publish_synthetic_assignment H (wk_config wk) a (wk_epoch wk) (wk_worker wk)
       (wk_boot wk) (wk_critic_generation wk)) wk)"

definition count_serviced :: "critic_worker \<Rightarrow> critic_worker" where
  "count_serviced wk = wk\<lparr> wk_serviced := wk_serviced wk + 1 \<rparr>"

definition may_service :: "critic_worker \<Rightarrow> bool" where
  "may_service wk \<longleftrightarrow> wk_serviced wk < wc_max_assignments (wk_config wk)"

fun service_pending :: "hash_fun \<Rightarrow> critic_assignment list \<Rightarrow> critic_worker \<Rightarrow> critic_worker \<times> unit remote" where
  "service_pending H [] wk = (wk, Inr ())"
| "service_pending H (a # as) wk =
    (if \<not> may_service wk then (wk, Inr ())
     else remote_bind (service_assignment H a wk) (\<lambda>wk1 _. service_pending H as (count_serviced wk1)))"

text \<open>The assignment in a notice; bytes behind it are not looked for.\<close>

definition read_notice :: "runtime_limits \<Rightarrow> frame \<Rightarrow> critic_assignment remote" where
  "read_notice lim f =
    (case run_state (dec_status_envelope lim) (new_reader wire_policy (fr_payload f)) of
       (Inl err, _) \<Rightarrow> Inl (error_code_num err)
     | (Inr envelope, r) \<Rightarrow>
         if en_code envelope \<noteq> error_code_num E_Ok then Inl (en_code envelope)
         else local_failure (fst (run_state (dec_critic_assignment lim) r)))"

text \<open>A call of the client never gives bytes back to its stream, and only appends to what it has sent.\<close>

definition client_moves :: "client \<Rightarrow> client \<Rightarrow> bool" where
  "client_moves cl cl1 \<longleftrightarrow> length (cl_incoming cl1) \<le> length (cl_incoming cl) \<and> cl_limits cl1 = cl_limits cl
   \<and> (\<exists>bs. cl_sent cl1 = cl_sent cl @ bs)"

lemma client_moves_refl [simp]: "client_moves cl cl"
  by (simp add: client_moves_def)

lemma client_moves_trans: "client_moves cl cl1 \<Longrightarrow> client_moves cl1 cl2 \<Longrightarrow> client_moves cl cl2"
  by (auto simp: client_moves_def)

lemma client_receive_keeps:
  "length (cl_incoming (fst (client_receive cl))) \<le> length (cl_incoming cl)
   \<and> cl_limits (fst (client_receive cl)) = cl_limits cl \<and> cl_sent (fst (client_receive cl)) = cl_sent cl"
  by (auto simp: client_receive_def disconnected_def Let_def split: sum.split)

lemma await_answer_keeps:
  "length (cl_incoming (fst (await_answer expected cl))) \<le> length (cl_incoming cl)
   \<and> cl_limits (fst (await_answer expected cl)) = cl_limits cl
   \<and> cl_sent (fst (await_answer expected cl)) = cl_sent cl"
proof (induction expected cl rule: await_answer.induct)
  case (1 expected cl)
  obtain cl1 r where rec: "client_receive cl = (cl1, r)"
    by fastforce
  note kept = client_receive_keeps [of cl, unfolded rec fst_conv]
  have push: "cl_incoming (push_frame f cl1) = cl_incoming cl1" "cl_limits (push_frame f cl1) = cl_limits cl1"
    "cl_sent (push_frame f cl1) = cl_sent cl1" for f
    by (simp_all add: push_frame_def)
  show ?case
    using kept 1 [OF rec [symmetric]]
    by (subst (1 2 3) await_answer.simps) (auto simp: rec push split: sum.split)
qed

lemma socket_write_moves: "client_moves cl (fst (socket_write bs cl))"
  by (simp add: socket_write_def client_moves_def)

lemma client_send_moves: "client_moves cl (fst (client_send ty au payload cl))"
  using socket_write_moves by (auto simp: client_send_def split: sum.split)

lemma client_exchange_moves: "client_moves cl (fst (client_exchange ty au payload expected cl))"
proof -
  have "client_moves cl1 (fst (await_answer expected cl1))" for cl1
    using await_answer_keeps [of expected cl1] by (simp add: client_moves_def)
  then show ?thesis
    using client_send_moves [of cl ty au payload] client_moves_trans
    by (fastforce simp: client_exchange_def split: prod.split sum.split)
qed

lemma client_request_moves: "client_moves cl (fst (client_request enc authority_of ty ack dec q cl))"
  using client_exchange_moves [of cl ty "authority_of q" "wr_buffer (enc q empty_writer)" ack]
  by (auto simp: client_request_def Let_def split: prod.split sum.split)

lemma client_query_moves: "client_moves cl (fst (client_query body ty ack dec cl))"
  using client_exchange_moves [of cl ty no_authority "wr_buffer (body empty_writer)" ack]
  by (auto simp: client_query_def split: prod.split sum.split)

lemma remote_bind_moves:
  "client_moves cl (fst call) \<Longrightarrow> (\<And>cl1 x. client_moves cl1 (fst (next_call cl1 x))) \<Longrightarrow>
     client_moves cl (fst (remote_bind call next_call))"
  unfolding remote_bind_def using client_moves_trans by (fastforce split: prod.split sum.split)

lemma publish_moves: "client_moves cl (fst (publish_synthetic_assignment H cfg a epoch worker boot generation cl))"
  unfolding publish_synthetic_assignment_def
  by (rule remote_bind_moves)
     (auto simp: client_query_target_def client_query_moves Let_def client_submit_evidence_def
        client_submit_finding_def client_request_moves intro!: remote_bind_moves)

definition worker_moves :: "critic_worker \<Rightarrow> critic_worker \<Rightarrow> bool" where
  "worker_moves wk wk1 \<longleftrightarrow> client_moves (wk_client wk) (wk_client wk1) \<and> wk_config wk1 = wk_config wk
   \<and> wk_serviced wk1 = wk_serviced wk"

lemma on_client_moves:
  "client_moves (wk_client wk) (fst (call (wk_client wk))) \<Longrightarrow> worker_moves wk (fst (on_client call wk))"
  by (cases "call (wk_client wk)") (simp add: on_client_def worker_moves_def)

lemma service_assignment_moves: "worker_moves wk (fst (service_assignment H a wk))"
proof (cases "a_critic a = wc_critic (wk_config wk)")
  case True
  then show ?thesis
    unfolding service_assignment_def by (simp add: on_client_moves publish_moves)
qed (simp add: service_assignment_def worker_moves_def)

lemma notice_shrinks:
  assumes "client_receive (wk_client wk) = (cl, Inr f)" and "service_assignment H a (wk\<lparr> wk_client := cl \<rparr>) = (wk2, r)"
  shows "length (cl_incoming (wk_client wk2)) < length (cl_incoming (wk_client wk))"
  using client_receive_consumes [OF assms(1)] service_assignment_moves [of "wk\<lparr> wk_client := cl \<rparr>" H a] assms(2)
  by (simp add: worker_moves_def client_moves_def)

text \<open>The loop over the notices; every round takes a frame from the stream.\<close>

function service_notices :: "hash_fun \<Rightarrow> critic_worker \<Rightarrow> critic_worker \<times> unit remote" where
  "service_notices H wk =
    (if \<not> may_service wk then (wk, Inr ())
     else case client_receive (wk_client wk) of
       (cl, Inl err) \<Rightarrow> (wk\<lparr> wk_client := cl \<rparr>, Inl (error_code_num err))
     | (cl, Inr f) \<Rightarrow>
         (let wk1 = wk\<lparr> wk_client := cl \<rparr> in
          if fh_type (fr_header f) = MT_Shutdown then (wk1, Inr ())
          else if fh_type (fr_header f) \<noteq> MT_AssignmentNotice then service_notices H wk1
          else case read_notice (cl_limits cl) f of
            Inl code \<Rightarrow> (wk1, Inl code)
          | Inr a \<Rightarrow>
              (case service_assignment H a wk1 of
                 (wk2, Inl code) \<Rightarrow> (wk2, Inl code)
               | (wk2, Inr _) \<Rightarrow> service_notices H (count_serviced wk2))))"
  by pat_completeness auto

termination
  by (relation "measure (\<lambda>(H, wk). length (cl_incoming (wk_client wk)))")
     (auto simp: count_serviced_def dest: client_receive_consumes [OF sym] intro: notice_shrinks [OF sym sym])

declare service_notices.simps [simp del]

section \<open>The life of a worker\<close>

definition worker_start :: "worker_config \<Rightarrow> bytes \<Rightarrow> critic_worker" where
  "worker_start cfg stream =
    (let limits = clamp_to_hard_ceiling (wc_limits cfg) in
     \<lparr> wk_config = cfg\<lparr> wc_limits := limits \<rparr>, wk_client = connected_client limits stream,
       wk_worker = 0, wk_boot = 0, wk_epoch = 0, wk_critic_generation = 0, wk_serviced = 0 \<rparr>)"

definition critic_request :: "hash_fun \<Rightarrow> critic_worker \<Rightarrow> register_critic_request" where
  "critic_request H wk =
    (let cfg = wk_config wk in
     \<lparr> rc_id = wc_critic cfg, rc_capability = synthetic_critic_capability H (wc_critic_config cfg),
       rc_registrant = wc_host cfg, rc_provenance = wc_process_label cfg,
       rc_compat = \<lparr> cp_schema_name = [], cp_producer_version = [] \<rparr>,
       rc_advance_generation = wc_advance_critic_generation cfg, rc_epoch = wk_epoch wk, rc_request = 2 \<rparr>)"

definition worker_request :: "critic_worker \<Rightarrow> register_worker_request" where
  "worker_request wk =
    (let cfg = wk_config wk in
     \<lparr> rw_id = wc_forced_worker cfg, rw_boot = wk_boot wk, rw_critic = wc_critic cfg,
       rw_critic_generation = wk_critic_generation wk, rw_host = wc_host cfg,
       rw_process_label = wc_process_label cfg, rw_epoch = wk_epoch wk, rw_request = 3 \<rparr>)"

definition readiness_request :: "hash_fun \<Rightarrow> critic_worker \<Rightarrow> declare_readiness_request" where
  "readiness_request H wk =
    (let cfg = wk_config wk in
     \<lparr> dr_id = wk_worker wk, dr_boot = wk_boot wk, dr_critic = wc_critic cfg,
       dr_critic_generation = wk_critic_generation wk, dr_ready = True, dr_healthy = True,
       dr_capability_evidence = synthetic_capability_evidence H (wc_critic_config cfg),
       dr_epoch = wk_epoch wk, dr_request = 4 \<rparr>)"

text \<open>What was assigned before the worker was ready is asked for; a failure of that query is ignored.\<close>

definition service_all :: "hash_fun \<Rightarrow> critic_worker \<Rightarrow> critic_worker \<times> unit remote" where
  "service_all H wk =
    (case on_client (client_query_assignments (wk_worker wk)) wk of
       (wk1, Inl _) \<Rightarrow> service_notices H wk1
     | (wk1, Inr as) \<Rightarrow> remote_bind (service_pending H as wk1) (\<lambda>wk2 _. service_notices H wk2))"

definition worker_register :: "hash_fun \<Rightarrow> worker_boot_id \<Rightarrow> critic_worker \<Rightarrow> critic_worker \<times> unit remote" where
  "worker_register H generated wk =
    remote_bind (on_client (client_hello 1) wk) (\<lambda>wk1 _.
    (let wk2 = wk1\<lparr> wk_epoch := cl_epoch (wk_client wk1) \<rparr> in
     remote_bind (on_client (client_register_critic (critic_request H wk2)) wk2) (\<lambda>wk3 registration.
     (let forced = wc_forced_boot (wk_config wk3);
          wk4 = wk3\<lparr> wk_critic_generation := c_generation registration,
            wk_boot := (if id_valid forced then forced else generated) \<rparr> in
      remote_bind (on_client (client_register_worker (worker_request wk4)) wk4) (\<lambda>wk5 w.
      (wk5\<lparr> wk_worker := w_id w \<rparr>, Inr ()))))))"

definition worker_run :: "hash_fun \<Rightarrow> u64 \<Rightarrow> u64 \<Rightarrow> u64 \<Rightarrow> critic_worker \<Rightarrow> critic_worker \<times> unit remote" where
  "worker_run H process ticks sequence wk =
    (let cfg = wk_config wk;
         wk0 = wk\<lparr> wk_config := cfg\<lparr> wc_critic_config := (wc_critic_config cfg)\<lparr> sy_critic := wc_critic cfg \<rparr> \<rparr> \<rparr>
     in remote_bind (worker_register H (generate_worker_boot_id H process ticks sequence (wc_process_label cfg)) wk0)
          (\<lambda>wk1 _.
          if \<not> wc_declare_readiness cfg then (wk1, Inr ())
          else remote_bind (on_client (client_declare_readiness (readiness_request H wk1)) wk1) (\<lambda>wk2 _.
            service_all H wk2)))"

section \<open>What a worker sends\<close>

lemma exchange_sent:
  assumes "client_exchange ty au payload expected cl = (cl1, Inr f)"
  shows "\<exists>bs. frame_encode (cl_limits cl) (request_frame ty au payload) = Inr bs \<and> cl_sent cl1 = cl_sent cl @ bs
    \<and> cl_limits cl1 = cl_limits cl"
proof -
  obtain cl0 where "client_send ty au payload cl = (cl0, Inr ())" "await_answer expected cl0 = (cl1, Inr f)"
    using assms by (auto simp: client_exchange_def split: prod.splits sum.splits)
  then show ?thesis
    using await_answer_keeps [of expected cl0]
    by (auto simp: client_send_def socket_write_def split: if_splits sum.splits)
qed

lemma request_sent:
  assumes "client_request enc authority_of ty ack dec q cl = (cl1, Inr x)"
  shows "\<exists>bs. frame_encode (cl_limits cl) (request_frame ty (authority_of q) (wr_buffer (enc q empty_writer))) = Inr bs
    \<and> cl_sent cl1 = cl_sent cl @ bs \<and> cl_limits cl1 = cl_limits cl"
  using assms exchange_sent
  by (fastforce simp: client_request_def Let_def split: if_splits prod.splits sum.splits)

lemma query_sent:
  assumes "client_query body ty ack dec cl = (cl1, Inr x)"
  shows "\<exists>bs. frame_encode (cl_limits cl) (request_frame ty no_authority (wr_buffer (body empty_writer))) = Inr bs
    \<and> cl_sent cl1 = cl_sent cl @ bs \<and> cl_limits cl1 = cl_limits cl"
  using assms exchange_sent by (fastforce simp: client_query_def split: prod.splits sum.splits)

lemma remote_bind_Inr:
  "remote_bind call next_call = (s, Inr x) \<longleftrightarrow> (\<exists>s1 y. call = (s1, Inr y) \<and> next_call s1 y = (s, Inr x))"
  by (auto simp: remote_bind_def split: prod.split sum.split)

text \<open>The authority an assignment gives to one incarnation of its critic.\<close>

definition incarnation_authority ::
  "critic_assignment \<Rightarrow> coordinator_epoch \<Rightarrow> worker_id \<Rightarrow> worker_boot_id \<Rightarrow> critic_generation \<Rightarrow> request_id
   \<Rightarrow> authority_context" where
  "incarnation_authority a epoch worker boot generation request =
    \<lparr> au_epoch = epoch, au_worker = worker, au_worker_boot = boot, au_critic = a_critic a,
      au_critic_generation = generation, au_review = a_review a, au_review_generation = a_review_generation a,
      au_target = a_target a, au_target_generation = a_target_generation a, au_request = request \<rparr>"

section \<open>Notices that come too early\<close>

definition notice_stream :: "runtime_limits \<Rightarrow> bytes list \<Rightarrow> bool" where
  "notice_stream lim streams \<longleftrightarrow> (\<forall>bs \<in> set streams. \<exists>f. frame_encode lim f = Inr bs
     \<and> fh_type (fr_header f) = MT_AssignmentNotice)"

lemma await_skips_notices:
  assumes "notice_stream (cl_limits cl) streams" and "cl_connected cl" and "\<not> cl_push_handler cl"
    and "expected \<noteq> MT_AssignmentNotice"
  shows "await_answer expected (cl\<lparr> cl_incoming := concat streams @ rest \<rparr>) =
    await_answer expected (cl\<lparr> cl_incoming := rest \<rparr>)"
  using assms(1)
proof (induction streams)
  case (Cons bs streams)
  then obtain f where f: "frame_encode (cl_limits cl) f = Inr bs" "fh_type (fr_header f) = MT_AssignmentNotice"
    by (auto simp: notice_stream_def)
  let ?cl = "cl\<lparr> cl_incoming := concat (bs # streams) @ rest \<rparr>"
  have "client_receive ?cl = (?cl\<lparr> cl_incoming := concat streams @ rest \<rparr>, Inr (seal_frame f))"
    by (rule client_receive_frame) (use f(1) assms(2) in simp_all)
  then have "await_answer expected ?cl = await_answer expected (cl\<lparr> cl_incoming := concat streams @ rest \<rparr>)"
    using f(2) assms(3,4) by (subst await_answer.simps) (simp add: push_frame_def)
  also have "\<dots> = await_answer expected (cl\<lparr> cl_incoming := rest \<rparr>)"
    using Cons by (simp add: notice_stream_def)
  finally show ?case .
qed simp

text \<open>
  C23. A worker can miss an assignment: it sets no push handler, so the notices that arrive while it waits
  for the answer to a request of its own leave no trace. The exchange returns what it would have returned
  without them, and leaves the client, its stream included, as if they had never been sent.
\<close>

theorem waiting_client_drops_notices:
  assumes "notice_stream (cl_limits cl) streams" and "cl_connected cl" and "\<not> cl_push_handler cl"
    and "expected \<noteq> MT_AssignmentNotice" and "is_ok (snd (client_send ty au payload cl))"
  shows "client_exchange ty au payload expected (cl\<lparr> cl_incoming := concat streams @ rest \<rparr>) =
    client_exchange ty au payload expected (cl\<lparr> cl_incoming := rest \<rparr>)"
proof -
  obtain bs where bs: "frame_encode (cl_limits cl) (request_frame ty au payload) = Inr bs" "cl_writable cl"
    using assms(2,5) by (auto simp: client_send_def socket_write_def is_ok_iff split: sum.splits if_splits)
  let ?cl = "cl\<lparr> cl_sent := cl_sent cl @ bs \<rparr>"
  have "client_send ty au payload (cl\<lparr> cl_incoming := stream \<rparr>) = (?cl\<lparr> cl_incoming := stream \<rparr>, success)" for stream
    using bs assms(2) by (simp add: client_send_def socket_write_def)
  then show ?thesis
    using await_skips_notices [of ?cl streams expected rest] assms(1-4) by (simp add: client_exchange_def)
qed

text \<open>A notice and a client waiting for the assignments of worker 7.\<close>

definition early_notice :: frame where
  "early_notice = request_frame MT_AssignmentNotice no_authority [0, 0, 0, 0]"

definition waiting_client :: client where
  "waiting_client = connected_client default_limits []"

lemma waiting_client_simps [simp]:
  "cl_connected waiting_client" "\<not> cl_push_handler waiting_client" "cl_writable waiting_client"
  "cl_limits waiting_client = clamp_to_hard_ceiling default_limits"
  by (simp_all add: waiting_client_def connected_client_def)

lemma small_frames_encode:
  assumes "ty \<noteq> MT_Invalid" and "length payload \<le> 1024"
  shows "\<exists>bs. frame_encode (clamp_to_hard_ceiling default_limits) (request_frame ty au payload) = Inr bs"
proof -
  have "unat (max_frame_bytes (clamp_to_hard_ceiling default_limits)) \<ge> 1024"
    by (simp add: default_limits_def clamp_to_hard_ceiling_def clamp_into_def hard_ceilings)
  with assms show ?thesis
    by (simp add: frame_encode_iff request_frame_def default_header_def kProtocolVersion_def)
qed

theorem waiting_client_drops_notices_witness:
  "\<exists>notice. frame_encode (clamp_to_hard_ceiling default_limits) early_notice = Inr notice
    \<and> client_exchange MT_QueryAssignments no_authority (be64 7) MT_QueryAssignmentsAck
        (waiting_client\<lparr> cl_incoming := notice \<rparr>)
      = client_exchange MT_QueryAssignments no_authority (be64 7) MT_QueryAssignmentsAck
        (waiting_client\<lparr> cl_incoming := [] \<rparr>)"
proof -
  obtain notice where notice: "frame_encode (clamp_to_hard_ceiling default_limits) early_notice = Inr notice"
    using small_frames_encode [of MT_AssignmentNotice "[0, 0, 0, 0]" no_authority] by (auto simp: early_notice_def)
  obtain question where "frame_encode (clamp_to_hard_ceiling default_limits)
      (request_frame MT_QueryAssignments no_authority (be64 7)) = Inr question"
    using small_frames_encode [of MT_QueryAssignments "be64 7" no_authority] by auto
  then have "is_ok (snd (client_send MT_QueryAssignments no_authority (be64 7) waiting_client))"
    by (simp add: client_send_def socket_write_def is_ok_iff)
  moreover have "notice_stream (cl_limits waiting_client) [notice]"
    using notice by (auto simp: notice_stream_def early_notice_def request_frame_def intro: exI [of _ early_notice])
  ultimately show ?thesis
    using waiting_client_drops_notices [of waiting_client "[notice]" MT_QueryAssignmentsAck
        MT_QueryAssignments no_authority "be64 7" "[]"] notice by auto
qed

section \<open>An assignment serviced\<close>

definition busy_config :: worker_config where
  "busy_config =
    \<lparr> wc_critic = 1, wc_process_label = ''worker'', wc_host = 1, wc_limits = default_limits,
      wc_critic_config =
        \<lparr> sy_critic = 1, sy_role = Role_GeneralCritic, sy_behavior = SB_Pass, sy_category = Cat_Correctness,
          sy_severity = Sev_Info, sy_source_type = Src_TestRun, sy_provenance = Prov_Measured,
          sy_specialization = ''reference'', sy_implementation_version = ''1'', sy_deterministic_output = True \<rparr>,
      wc_max_assignments = 1, wc_declare_readiness = True, wc_advance_critic_generation = False,
      wc_forced_boot = 0, wc_forced_worker = 0 \<rparr>"

definition busy_target :: target_record where
  "busy_target =
    \<lparr> t_id = 1, t_generation = 1, t_target_class = TC_Claim, t_content_digest = zero_digest,
      t_schema_digest = zero_digest, t_schema_name = [], t_producer = 1, t_producer_version = [],
      t_provenance = [], t_payload = [], t_created_order = 1, t_reviewable = True,
      t_supersession = TS_Current, t_superseded_by = 0, t_supersession_reason = [] \<rparr>"

abbreviation clamped :: runtime_limits where
  "clamped \<equiv> clamp_to_hard_ceiling default_limits"

lemma clamped_simps:
  "unat (max_frame_bytes clamped) = 1048576" "unat (max_metadata_string_bytes clamped) = 1024"
  "unat (max_evidence_payload_bytes clamped) = 8192" "unat (max_explanation_bytes clamped) = 2048"
  "unat (max_evidence_per_finding clamped) = 16" "unat (max_target_payload_bytes clamped) = 65536"
  by (simp_all add: default_limits_def clamp_to_hard_ceiling_def clamp_into_def hard_ceilings)

lemmas small_sizes = writes_Nil writes_Cons writes_digest32 writes_ints writes_string [where n = 1024]
  writes_bytes [where n = 1024] writes_confidence

lemma writes_one_id: "1 \<le> unat m \<Longrightarrow> writes (encode_id_list [e] m) 12"
  using writes_comp [OF writes_ints(3) [of 1] writes_ints(4) [of e]]
  by (auto simp: encode_id_list_def [abs_def] w_each_def)


definition ready_client :: "bytes \<Rightarrow> client \<Rightarrow> bool" where
  "ready_client stream cl \<longleftrightarrow> cl_connected cl \<and> cl_writable cl \<and> cl_limits cl = clamped \<and> cl_incoming cl = stream"

definition answers :: "bytes \<Rightarrow> (client \<Rightarrow> client \<times> 'a remote) \<Rightarrow> 'a \<Rightarrow> bool" where
  "answers out call x \<longleftrightarrow> (\<forall>cl later. ready_client (out @ later) cl \<longrightarrow>
     (\<exists>cl1. call cl = (cl1, Inr x) \<and> ready_client later cl1))"

lemma small_frame_encodes:
  "ty \<noteq> MT_Invalid \<Longrightarrow> length payload \<le> 1048576 \<Longrightarrow> \<exists>bs. frame_encode clamped (request_frame ty au payload) = Inr bs"
  by (simp add: frame_encode_iff request_frame_def default_header_def kProtocolVersion_def clamped_simps)

lemma written_length: "writes e n \<Longrightarrow> n \<le> 1000000 \<Longrightarrow> length (wr_buffer (e empty_writer)) \<le> n"
  using writes_empty [of e n] by simp

lemma written_ok: "writes e n \<Longrightarrow> n \<le> 1000000 \<Longrightarrow> wr_ok (e empty_writer)"
  using writes_empty [of e n] by simp

text \<open>An operation with a request that fits a frame is answered by any result that does.\<close>

context remote_operation
begin

lemma short_answer:
  assumes lim: "lim = clamped" and q: "writes (enc_q q) n" "n \<le> 1000000"
    and a: "fits_a a" "writes (enc_a a) m" "m \<le> 1000000"
  shows "\<exists>out. answers out (client_request enc_q authority_of ty ack dec_a q) a"
proof -
  have fits: "answer_fits (\<lambda>_. []) (Inr a)"
    using a written_ok [OF a(2,3)] written_length [OF a(2,3)] clamped_simps(1) [folded lim] by (simp add: answer_fits_def)
  obtain bs where bs: "frame_encode lim (call_frame q) = Inr bs"
    using small_frame_encodes [of ty "wr_buffer (enc_q q empty_writer)", folded lim] written_length [OF q] q(2) types
    by (auto simp: call_frame_def)
  obtain out where out: "frame_encode lim (answer_frame q (\<lambda>_. []) (Inr a)) = Inr out"
    by (rule answer_encodes [OF fits])
  have "answers out (client_request enc_q authority_of ty ack dec_a q) a"
    using client_call [OF written_ok [OF q] bs fits out] lim
    by (simp add: answers_def ready_client_def local_failure_def)
  then show ?thesis
    by blast
qed

end

lemma answers_here:
  assumes "\<exists>out. answers out call x" and "\<And>cl. cl_limits cl = clamped \<Longrightarrow> call1 cl = call cl"
  shows "\<exists>out. answers out call1 x"
  using assms by (auto simp: answers_def ready_client_def)

lemma short_register_critic:
  "writes (enc_register_critic_request clamped q) n \<Longrightarrow> n \<le> 1000000 \<Longrightarrow> fits_critic_registration clamped a \<Longrightarrow>
     writes (enc_critic_registration a) m \<Longrightarrow> m \<le> 1000000 \<Longrightarrow> \<exists>out. answers out (client_register_critic q) a"
  by (rule answers_here [OF remote_register_critic.short_answer [OF refl]]) (assumption | simp add: client_register_critic_def)+

lemma short_register_worker:
  "writes (enc_register_worker_request clamped q) n \<Longrightarrow> n \<le> 1000000 \<Longrightarrow> fits_worker_record clamped a \<Longrightarrow>
     writes (enc_worker_record a) m \<Longrightarrow> m \<le> 1000000 \<Longrightarrow> \<exists>out. answers out (client_register_worker q) a"
  by (rule answers_here [OF remote_register_worker.short_answer [OF refl]]) (assumption | simp add: client_register_worker_def)+

lemma short_submit_evidence:
  "writes (enc_submit_evidence_request clamped q) n \<Longrightarrow> n \<le> 1000000 \<Longrightarrow> fits_evidence_record clamped a \<Longrightarrow>
     writes (enc_evidence_record a) m \<Longrightarrow> m \<le> 1000000 \<Longrightarrow> \<exists>out. answers out (client_submit_evidence q) a"
  by (rule answers_here [OF remote_submit_evidence.short_answer [OF refl]]) (assumption | simp add: client_submit_evidence_def)+

lemma short_submit_finding:
  "writes (enc_submit_finding_request clamped q) n \<Longrightarrow> n \<le> 1000000 \<Longrightarrow> fits_finding clamped a \<Longrightarrow>
     writes (enc_finding a) m \<Longrightarrow> m \<le> 1000000 \<Longrightarrow> \<exists>out. answers out (client_submit_finding q) a"
  by (rule answers_here [OF remote_submit_finding.short_answer [OF refl]]) (assumption | simp add: client_submit_finding_def)+

lemma busy_target_answer: "\<exists>out. answers out (client_query_target 1) busy_target"
proof -
  have written: "writes (enc_target_record busy_target) 6000"
    unfolding enc_target_record_def
    by (rule writes_mono, (rule small_sizes | simp add: busy_target_def zero_digest_def hard_ceilings)+)
  have fits: "fits_target_record clamped busy_target"
    by (simp add: fits_target_record_def busy_target_def zero_digest_def id_valid_def)
  have answer: "remote_register_target.answer_fits clamped (\<lambda>_. []) (Inr busy_target)"
    using fits written_ok [OF written] written_length [OF written]
    by (simp add: remote_register_target.answer_fits_def clamped_simps)
  obtain question where question: "frame_encode clamped (request_frame MT_QueryTarget no_authority (be64 1)) = Inr question"
    using small_frame_encodes [of MT_QueryTarget "be64 1" no_authority] by auto
  define reply where "reply = request_frame MT_QueryTargetAck no_authority
    (fr_payload (remote_register_target.answer_frame clamped undefined (\<lambda>_. []) (Inr busy_target)))"
  have "fr_payload reply = envelope_bytes (error_code_num E_Ok) [] @ wr_buffer (enc_target_record busy_target empty_writer)"
    by (simp add: reply_def request_frame_def remote_register_target.answer_frame_def reply_frame_def)
  then have "length (fr_payload reply) \<le> 1048576"
    using written_length [OF written] envelope_length [of "[]" "error_code_num E_Ok"] by simp
  then obtain out where out: "frame_encode clamped reply = Inr out"
    using small_frame_encodes [of MT_QueryTargetAck "fr_payload reply" no_authority] by (auto simp: reply_def request_frame_def)
  have decoded: "decode_typed_response clamped (dec_target_record clamped) (seal_frame reply) = Inr busy_target"
    using remote_register_target.answer_decodes [OF answer, of undefined]
    by (simp add: decode_typed_response_def reply_def request_frame_def local_failure_def)
  have "answers out (client_query_target 1) busy_target"
    unfolding answers_def
  proof (intro allI impI)
    fix cl later
    assume ready: "ready_client (out @ later) cl"
    let ?cl = "cl\<lparr> cl_sent := cl_sent cl @ question \<rparr>"
    have "client_receive ?cl = (?cl\<lparr> cl_incoming := later \<rparr>, Inr (seal_frame reply))"
      by (rule client_receive_frame) (use ready out in \<open>simp_all add: ready_client_def\<close>)
    then have "await_answer MT_QueryTargetAck ?cl = (?cl\<lparr> cl_incoming := later \<rparr>, Inr (seal_frame reply))"
      by (subst await_answer.simps) (simp add: reply_def request_frame_def)
    moreover have "client_send MT_QueryTarget no_authority (be64 1) cl = (?cl, success)"
      using ready question by (simp add: client_send_def socket_write_def ready_client_def)
    moreover have "wr_buffer (w_u64 1 empty_writer) = be64 1"
      by (simp add: w_u64_def w_append_def w_require_def empty_writer_def)
    ultimately have "client_query_target 1 cl = (?cl\<lparr> cl_incoming := later \<rparr>, Inr busy_target)"
      using ready decoded by (simp add: client_query_target_def client_query_def client_exchange_def ready_client_def)
    then show "\<exists>cl1. client_query_target 1 cl = (cl1, Inr busy_target) \<and> ready_client later cl1"
      using ready by (simp add: ready_client_def)
  qed
  then show ?thesis
    by blast
qed

definition busy_output :: synthetic_output where
  "busy_output = run_synthetic_critic (\<lambda>_. zero_digest) (wc_critic_config busy_config) 1 busy_target"

definition busy_evidence_request :: submit_evidence_request where
  "busy_evidence_request = evidence_request busy_config busy_output (sample_assignment 1) 1 1 1 1"

definition busy_finding_request :: submit_finding_request where
  "busy_finding_request = finding_request busy_output 1 (sample_assignment 1) 1 1 1 1"

lemma busy_output_small: "length (so_evidence_payload busy_output) \<le> 1024" "length (so_explanation busy_output) \<le> 1024"
  by (simp_all add: busy_output_def run_synthetic_critic_def synthetic_payload_def busy_config_def busy_target_def
      w_seq_def w_u32_def w_u64_def w_string_def w_digest_def w_raw_def w_append_def w_require_def empty_writer_def
      zero_digest_def hard_ceilings Let_def critic_role_name_def finding_outcome_name_def severity_name_def
      enum_lookup_def k_critic_role_def k_finding_outcome_def k_severity_def string_bytes_def dec_nat.simps
      min.coboundedI2 add_increasing)

lemma le_quota: "(6000 :: nat) \<le> 1000000"
  by simp

lemma busy_evidence_answer: "\<exists>out. answers out (client_submit_evidence busy_evidence_request) sample_evidence"
proof -
  have "writes (enc_submit_evidence_request clamped busy_evidence_request) 6000"
    unfolding enc_submit_evidence_request_def
    by (rule writes_mono, (rule small_sizes
        | simp add: busy_evidence_request_def evidence_request_def busy_output_small clamped_simps
            order_trans [OF busy_output_small(1)])+)
  moreover have "writes (enc_evidence_record sample_evidence) 6000"
    unfolding enc_evidence_record_def
    by (rule writes_mono, (rule small_sizes | simp add: sample_evidence_def sample_digest_def hard_ceilings)+)
  moreover have "fits_evidence_record clamped sample_evidence"
    by (simp add: fits_evidence_record_def sample_evidence_def sample_digest_def id_valid_def clamped_simps)
  ultimately show ?thesis
    by (blast intro: short_submit_evidence [OF _ le_quota _ _ le_quota])
qed

lemma busy_finding_answer:
  "\<exists>out. answers out (client_submit_finding busy_finding_request) (sample_finding 1 Out_Pass Sev_Info FS_Current)"
proof -
  have "writes (enc_submit_finding_request clamped busy_finding_request) 6000"
    unfolding enc_submit_finding_request_def
    by (rule writes_mono, (rule small_sizes writes_one_id
        | simp add: busy_finding_request_def finding_request_def clamped_simps
            order_trans [OF busy_output_small(2)] busy_output_small)+)
  moreover have "writes (enc_finding (sample_finding 1 Out_Pass Sev_Info FS_Current)) 6000"
    unfolding enc_finding_def
    by (rule writes_mono, (rule small_sizes writes_id_list [where n = 1]
        | simp add: sample_finding_def sample_digest_def hard_ceilings)+)
  moreover have "fits_finding clamped (sample_finding 1 Out_Pass Sev_Info FS_Current)"
    by (simp add: fits_finding_def fits_confidence_def sample_finding_def sample_digest_def id_valid_def clamped_simps)
  ultimately show ?thesis
    by (blast intro: short_submit_finding [OF _ le_quota _ _ le_quota])
qed

lemma busy_published:
  "\<exists>out. answers out (publish_synthetic_assignment (\<lambda>_. zero_digest) busy_config (sample_assignment 1) 1 1 1 1) ()"
proof -
  obtain out1 out2 out3 where
    answers: "answers out1 (client_query_target 1) busy_target"
      "answers out2 (client_submit_evidence busy_evidence_request) sample_evidence"
      "answers out3 (client_submit_finding busy_finding_request) (sample_finding 1 Out_Pass Sev_Info FS_Current)"
    using busy_target_answer busy_evidence_answer busy_finding_answer by blast
  have "answers (out1 @ out2 @ out3)
      (publish_synthetic_assignment (\<lambda>_. zero_digest) busy_config (sample_assignment 1) 1 1 1 1) ()"
    unfolding answers_def
  proof (intro allI impI)
    fix cl later
    assume "ready_client ((out1 @ out2 @ out3) @ later) cl"
    then obtain cl1 where cl1: "client_query_target 1 cl = (cl1, Inr busy_target)" "ready_client (out2 @ out3 @ later) cl1"
      using answers(1) unfolding answers_def append_assoc by blast
    then obtain cl2 where cl2: "client_submit_evidence busy_evidence_request cl1 = (cl2, Inr sample_evidence)"
        "ready_client (out3 @ later) cl2"
      using answers(2) unfolding answers_def by blast
    then obtain cl3 where cl3: "client_submit_finding busy_finding_request cl2 =
        (cl3, Inr (sample_finding 1 Out_Pass Sev_Info FS_Current))" "ready_client later cl3"
      using answers(3) unfolding answers_def by blast
    have "publish_synthetic_assignment (\<lambda>_. zero_digest) busy_config (sample_assignment 1) 1 1 1 1 cl = (cl3, Inr ())"
      using cl1(1) cl2(1) cl3(1)
      by (simp add: publish_synthetic_assignment_def remote_bind_def busy_evidence_request_def busy_finding_request_def
          busy_output_def sample_assignment_def busy_target_def sample_evidence_def)
    with cl3(2) show "\<exists>cl1. publish_synthetic_assignment (\<lambda>_. zero_digest) busy_config (sample_assignment 1) 1 1 1 1 cl =
        (cl1, Inr ()) \<and> ready_client later cl1"
      by blast
  qed
  then show ?thesis
    by blast
qed

end
