(* ===== verification/CF_Lifetime.thy ===== *)
theory CF_Lifetime
  imports CF_Serving CF_Client
begin

text \<open>
  The life of a server and of a client around their connections (\<open>SocketRuntime\<close>, \<open>start\<close> and \<open>stop\<close> of
  \<open>CoordinatorServer\<close>, \<open>connect\<close> and \<open>close\<close> of \<open>CoordinatorClient\<close> in \<open>src/transport.cpp\<close>). What the
  operating system answers is an argument; a socket that was opened is the flag that it is held. Stopping
  joins the connection threads, and the order in which they end is an argument as well.
\<close>

section \<open>The socket runtime\<close>

record socket_runtime =
  sk_ready :: bool
  sk_users :: int

definition ensure_initialised :: "bool \<Rightarrow> socket_runtime \<Rightarrow> socket_runtime \<times> status" where
  "ensure_initialised starts sk =
    (if sk_ready sk then (sk\<lparr> sk_users := sk_users sk + 1 \<rparr>, success)
     else if \<not> starts then (sk, Inl E_InternalError)
     else (sk\<lparr> sk_ready := True, sk_users := sk_users sk + 1 \<rparr>, success))"

definition runtime_shutdown :: "socket_runtime \<Rightarrow> socket_runtime" where
  "runtime_shutdown sk =
    (if \<not> sk_ready sk then sk
     else if sk_users sk - 1 \<le> 0 then sk\<lparr> sk_users := 0, sk_ready := False \<rparr>
     else sk\<lparr> sk_users := sk_users sk - 1 \<rparr>)"

section \<open>The server\<close>

record server_process =
  sp_server :: server
  sp_runtime :: socket_runtime
  sp_running :: bool
  sp_listening :: bool
  sp_port :: u16

text \<open>The first call of the operating system that fails on the way to a listening socket.\<close>

datatype listen_outcome =
  LO_NoRuntime | LO_NoSocket | LO_BadAddress | LO_NotBound | LO_NotListening | LO_NoName | LO_Listening u16

definition start_server :: "listen_outcome \<Rightarrow> server_process \<Rightarrow> server_process \<times> status" where
  "start_server os sp =
    (if sp_running sp then (sp, Inl E_InternalError)
     else case ensure_initialised (os \<noteq> LO_NoRuntime) (sp_runtime sp) of
       (sk, Inl err) \<Rightarrow> (sp\<lparr> sp_runtime := sk \<rparr>, Inl err)
     | (sk, Inr _) \<Rightarrow>
         (case os of
            LO_Listening port \<Rightarrow>
              (sp\<lparr> sp_runtime := sk, sp_port := port, sp_listening := True, sp_running := True,
                 sp_server := (sp_server sp)\<lparr> sv_stopping := False \<rparr> \<rparr>, success)
          | _ \<Rightarrow> (sp\<lparr> sp_runtime := runtime_shutdown sk \<rparr>, Inl E_InternalError)))"

definition close_connections :: "server \<Rightarrow> server" where
  "close_connections s = s\<lparr> sv_connections := map (\<lambda>(i, cx). (i, cx\<lparr> cx_closed := True \<rparr>)) (sv_connections s) \<rparr>"

definition end_threads :: "env \<Rightarrow> connection_id list \<Rightarrow> server \<Rightarrow> server" where
  "end_threads env ended s = foldl (\<lambda>s i. finish_connection env i s) s ended"

definition stop_server :: "env \<Rightarrow> connection_id list \<Rightarrow> server_process \<Rightarrow> server_process \<times> status" where
  "stop_server env ended sp =
    (if \<not> sp_running sp \<and> \<not> sp_listening sp then (sp, success)
     else (let s = end_threads env ended (close_connections ((sp_server sp)\<lparr> sv_stopping := True \<rparr>)) in
       (sp\<lparr> sp_server := s\<lparr> sv_connections := [], sv_workers := [] \<rparr>, sp_listening := False,
          sp_running := False, sp_runtime := runtime_shutdown (sp_runtime sp) \<rparr>, success)))"

section \<open>The client\<close>

record client_process =
  cp_client :: client
  cp_runtime :: socket_runtime
  cp_socket :: bool

datatype connect_outcome = CO_NoRuntime | CO_NoSocket | CO_BadAddress | CO_Refused | CO_Connected bytes

definition connect_client :: "connect_outcome \<Rightarrow> runtime_limits \<Rightarrow> client_process \<Rightarrow> client_process \<times> status" where
  "connect_client os limits cp =
    (let cp1 = cp\<lparr> cp_client := (cp_client cp)\<lparr> cl_limits := clamp_to_hard_ceiling limits \<rparr> \<rparr> in
     case ensure_initialised (os \<noteq> CO_NoRuntime) (cp_runtime cp1) of
       (sk, Inl err) \<Rightarrow> (cp1\<lparr> cp_runtime := sk \<rparr>, Inl err)
     | (sk, Inr _) \<Rightarrow>
         (case os of
            CO_Connected stream \<Rightarrow>
              (cp1\<lparr> cp_runtime := sk, cp_socket := True,
                 cp_client := (cp_client cp1)\<lparr> cl_connected := True, cl_incoming := stream, cl_sent := [],
                   cl_writable := True \<rparr> \<rparr>, success)
          | CO_Refused \<Rightarrow> (cp1\<lparr> cp_runtime := runtime_shutdown sk \<rparr>, Inl E_ProtocolConnectionClosed)
          | _ \<Rightarrow> (cp1\<lparr> cp_runtime := runtime_shutdown sk \<rparr>, Inl E_InternalError)))"

definition close_client :: "client_process \<Rightarrow> client_process" where
  "close_client cp =
    (if \<not> cp_socket cp then cp
     else cp\<lparr> cp_socket := False, cp_client := (cp_client cp)\<lparr> cl_connected := False \<rparr>,
       cp_runtime := runtime_shutdown (cp_runtime cp) \<rparr>)"

section \<open>The runtime is given back\<close>

text \<open>The runtime is ready exactly while somebody uses it.\<close>

definition runtime_wf :: "socket_runtime \<Rightarrow> bool" where
  "runtime_wf sk \<longleftrightarrow> 0 \<le> sk_users sk \<and> (sk_ready sk \<longleftrightarrow> 0 < sk_users sk)"

lemma runtime_round_trip:
  assumes "runtime_wf sk" and "ensure_initialised starts sk = (sk1, Inr u)"
  shows "runtime_wf sk1 \<and> runtime_shutdown sk1 = sk"
  using assms
  by (cases sk) (auto simp: ensure_initialised_def runtime_shutdown_def runtime_wf_def split: if_splits)

lemma failed_start_changes_nothing:
  assumes "runtime_wf (sp_runtime sp)" and "start_server os sp = (sp1, Inl err)"
  shows "sp1 = sp"
proof -
  obtain sk r where init: "ensure_initialised (os \<noteq> LO_NoRuntime) (sp_runtime sp) = (sk, r)"
    by fastforce
  show ?thesis
  proof (cases r)
    case (Inl e)
    then have "sk = sp_runtime sp"
      using init by (auto simp: ensure_initialised_def split: if_splits)
    then show ?thesis
      using assms(2) init Inl by (auto simp: start_server_def split: if_splits)
  next
    case (Inr u)
    then have "runtime_shutdown sk = sp_runtime sp"
      using runtime_round_trip [OF assms(1)] init by blast
    then show ?thesis
      using assms(2) init Inr by (auto simp: start_server_def split: if_splits listen_outcome.splits)
  qed
qed

lemma failed_connect_keeps_runtime:
  assumes "runtime_wf (cp_runtime cp)" and "connect_client os limits cp = (cp1, Inl err)"
  shows "cp_runtime cp1 = cp_runtime cp \<and> cp_socket cp1 = cp_socket cp"
proof -
  obtain sk r where init: "ensure_initialised (os \<noteq> CO_NoRuntime) (cp_runtime cp) = (sk, r)"
    by fastforce
  show ?thesis
  proof (cases r)
    case (Inl e)
    then have "sk = cp_runtime cp"
      using init by (auto simp: ensure_initialised_def split: if_splits)
    then show ?thesis
      using assms(2) init Inl by (auto simp: connect_client_def Let_def)
  next
    case (Inr u)
    then have "runtime_shutdown sk = cp_runtime cp"
      using runtime_round_trip [OF assms(1)] init by blast
    then show ?thesis
      using assms(2) init Inr by (auto simp: connect_client_def Let_def split: connect_outcome.splits)
  qed
qed

text \<open>
  A client that connects again without closing takes a second share of the runtime, and forgets the socket
  of the first: closing gives back one share only.
\<close>

lemma second_connect_leaks:
  assumes "runtime_wf (cp_runtime cp)" and "connect_client (CO_Connected s1) lim cp = (cp1, Inr u)"
    and "connect_client (CO_Connected s2) lim cp1 = (cp2, Inr v)"
  shows "sk_users (cp_runtime (close_client (close_client cp2))) = sk_users (cp_runtime cp) + 1"
  using assms
  by (cases "cp_runtime cp")
     (auto simp: connect_client_def ensure_initialised_def runtime_shutdown_def runtime_wf_def close_client_def Let_def
        split: if_splits)

section \<open>A stop withdraws every authority\<close>

lemma finish_connection_flag [simp]: "sv_fence_on_disconnect (finish_connection env i s) = sv_fence_on_disconnect s"
proof -
  have fence: "sv_fence_on_disconnect (foldl (\<lambda>s w. fence_lost_worker env w s) s1 ws) = sv_fence_on_disconnect s1" for s1 ws
    by (induction ws arbitrary: s1) (simp_all add: fence_lost_worker_def)
  have unbind: "sv_fence_on_disconnect (foldl (\<lambda>s w. unbind_worker i w s) s1 ws) = sv_fence_on_disconnect s1" for s1 ws
    by (induction ws arbitrary: s1) (simp_all add: unbind_worker_def)
  show ?thesis
    by (simp add: finish_connection_def forget_connection_def Let_def fence unbind)
qed

lemma finish_connection_others:
  assumes "j \<noteq> i"
  shows "carried_workers j (finish_connection env i s) = carried_workers j s"
proof -
  have fence: "sv_connections (foldl (\<lambda>s w. fence_lost_worker env w s) s1 ws) = sv_connections s1" for s1 ws
    by (induction ws arbitrary: s1) (simp_all add: fence_lost_worker_def)
  have unbind: "sv_connections (foldl (\<lambda>s w. unbind_worker i w s) s1 ws) = sv_connections s1" for s1 ws
    by (induction ws arbitrary: s1) (simp_all add: unbind_worker_def)
  show ?thesis
    using assms
    by (simp add: finish_connection_def forget_connection_def Let_def fence unbind carried_workers_def on_connection_def
        om_simps split: option.split)
qed

lemma end_threads_silences:
  assumes "workers_keyed (co_state (sv_coordinator s))" and "co_started (sv_coordinator s)"
    and "sv_fence_on_disconnect s"
    and "silenced w (co_state (sv_coordinator s)) \<or> (\<exists>i \<in> set ended. w \<in> set (carried_workers i s))"
  shows "silenced w (co_state (sv_coordinator (end_threads env ended s)))"
  using assms
proof (induction ended arbitrary: s)
  case (Cons i ended)
  let ?s = "finish_connection env i s"
  have coordinator: "sv_coordinator ?s = fence_all env (carried_workers i s) (sv_coordinator s)"
    using Cons.prems(3) by (simp add: finish_connection_coordinator)
  note silenced = fence_all_silences [OF Cons.prems(1,2), of env "carried_workers i s", folded coordinator]
  have "silenced w (co_state (sv_coordinator ?s)) \<or> (\<exists>j \<in> set ended. w \<in> set (carried_workers j ?s))"
    using Cons.prems(4) silenced finish_connection_others by (metis set_ConsD)
  then have "silenced w (co_state (sv_coordinator (end_threads env ended ?s)))"
    using Cons.IH silenced Cons.prems(3) by simp
  then show ?case
    by (simp add: end_threads_def)
qed (simp add: end_threads_def)

lemma close_connections_same [simp]:
  "sv_coordinator (close_connections s) = sv_coordinator s"
  "sv_fence_on_disconnect (close_connections s) = sv_fence_on_disconnect s"
  "carried_workers i (close_connections s) = carried_workers i s"
proof -
  have "om_get (map (\<lambda>(i, cx). (i, cx\<lparr> cx_closed := True \<rparr>)) cs) i =
      map_option (\<lambda>cx. cx\<lparr> cx_closed := True \<rparr>) (om_get cs i)" for cs :: "(connection_id, connection) omap"
    by (induction cs) (auto simp: om_get_code)
  then show "carried_workers i (close_connections s) = carried_workers i s"
    by (simp add: carried_workers_def close_connections_def split: option.split)
qed (simp_all add: close_connections_def)

text \<open>
  Stopping a server withdraws the authority of every worker that registered through it, in whatever order
  its connection threads end, and leaves no connection and no registration behind.
\<close>

theorem stop_silences_workers:
  assumes "stop_server env ended sp = (sp1, r)" and "sp_running sp"
    and "workers_keyed (co_state (sv_coordinator (sp_server sp)))" and "co_started (sv_coordinator (sp_server sp))"
    and "sv_fence_on_disconnect (sp_server sp)"
    and "i \<in> set ended" and "au_worker au \<in> set (carried_workers i (sp_server sp))"
  shows "\<not> is_ok (check_authority (co_state (sv_coordinator (sp_server sp1))) au)
    \<and> \<not> sp_running sp1 \<and> sv_connections (sp_server sp1) = [] \<and> sv_workers (sp_server sp1) = []"
proof -
  let ?s = "close_connections ((sp_server sp)\<lparr> sv_stopping := True \<rparr>)"
  have carried: "carried_workers j ((sp_server sp)\<lparr> sv_stopping := True \<rparr>) = carried_workers j (sp_server sp)" for j
    by (simp add: carried_workers_def)
  have "silenced (au_worker au) (co_state (sv_coordinator (end_threads env ended ?s)))"
    by (rule end_threads_silences) (use assms carried in auto)
  then show ?thesis
    using assms(1,2) silenced_rejects by (auto simp: stop_server_def Let_def)
qed

definition moved_process :: server_process where
  "moved_process =
    \<lparr> sp_server = moved_server, sp_runtime = \<lparr> sk_ready = True, sk_users = 1 \<rparr>, sp_running = True,
      sp_listening = True, sp_port = 4000 \<rparr>"

theorem stop_silences_workers_witness:
  "\<not> is_ok (check_authority (co_state (sv_coordinator (sp_server
     (fst (stop_server (world sha256 (\<lambda>_. IO_Ok)) [1, 0] moved_process))))) moved_context)"
proof -
  obtain sp1 r where stop: "stop_server (world sha256 (\<lambda>_. IO_Ok)) [1, 0] moved_process = (sp1, r)"
    by fastforce
  have "\<not> is_ok (check_authority (co_state (sv_coordinator (sp_server sp1))) moved_context)"
    by (rule stop_silences_workers [OF stop, of 0, THEN conjunct1])
       (simp_all add: moved_process_def moved_server_simps moved_context_def)
  then show ?thesis
    unfolding stop fst_conv .
qed

end
