(* ===== verification/CF_CommandLine.thy ===== *)
theory CF_CommandLine
  imports CF_Prelude
begin

text \<open>
  What the programs under \<open>apps/\<close> make of their command line: the numbers \<open>strtoul\<close> and \<open>strtoull\<close> read,
  the flags of \<open>apps/critic_controller.cpp\<close> and \<open>apps/critic_inspect.cpp\<close>, and the fields of a \<open>printf\<close>.
  The arguments are \<open>argv\<close> without the name of the program. How many bits an \<open>unsigned long\<close> has is an
  argument: 32 on Windows, 64 on other systems.
\<close>

section \<open>Numbers\<close>

definition is_space :: "char \<Rightarrow> bool" where
  "is_space c \<longleftrightarrow> (let n = of_char c :: nat in n = 32 \<or> (9 \<le> n \<and> n \<le> 13))"

definition is_digit :: "char \<Rightarrow> bool" where
  "is_digit c \<longleftrightarrow> (let n = of_char c :: nat in 48 \<le> n \<and> n \<le> 57)"

definition decimal_value :: "string \<Rightarrow> nat" where
  "decimal_value s = foldl (\<lambda>n c. 10 * n + (of_char c - 48)) 0 s"

definition split_sign :: "string \<Rightarrow> bool \<times> string" where
  "split_sign s =
    (case s of
       [] \<Rightarrow> (False, [])
     | c # cs \<Rightarrow> if c = CHR ''-'' then (True, cs) else if c = CHR ''+'' then (False, cs) else (False, s))"

text \<open>
  \<open>strtoul\<close> in base ten: blanks, a sign, digits. Too large a number is the largest one, a minus sign
  negates in the unsigned type, and a text without digits is zero.
\<close>

definition strto_unsigned :: "nat \<Rightarrow> string \<Rightarrow> nat" where
  "strto_unsigned bits s =
    (let (negative, rest) = split_sign (dropWhile is_space s);
         n = decimal_value (takeWhile is_digit rest) in
     if 2 ^ bits \<le> n then 2 ^ bits - 1
     else if negative then (2 ^ bits - n) mod 2 ^ bits
     else n)"

definition read_u64 :: "string \<Rightarrow> u64" where
  "read_u64 s = of_nat (strto_unsigned 64 s)"

definition read_port :: "nat \<Rightarrow> string \<Rightarrow> u16" where
  "read_port bits s = of_nat (strto_unsigned bits s)"

definition read_u32 :: "nat \<Rightarrow> string \<Rightarrow> u32" where
  "read_u32 bits s = of_nat (strto_unsigned bits s)"

lemma digit_char_value: "n < 10 \<Longrightarrow> (of_char (digit_char n) :: nat) = 48 + n"
  by (simp add: digit_char_def)

lemma digit_char_class:
  assumes "n < 10"
  shows "is_digit (digit_char n) \<and> \<not> is_space (digit_char n) \<and> digit_char n \<noteq> CHR ''-'' \<and> digit_char n \<noteq> CHR ''+''"
proof -
  have "(of_char CHR ''-'' :: nat) = 45" "(of_char CHR ''+'' :: nat) = 43"
    by simp_all
  with digit_char_value [OF assms] show ?thesis
    using assms by (auto simp: is_digit_def is_space_def Let_def)
qed

lemma dec_nat_digits: "c \<in> set (dec_nat n) \<Longrightarrow> \<exists>d < 10. c = digit_char d"
proof (induction n rule: dec_nat.induct)
  case (1 n)
  have "c = digit_char (n mod 10) \<or> c = digit_char n \<and> n < 10 \<or> \<not> n < 10 \<and> c \<in> set (dec_nat (n div 10))"
    using "1.prems" by (subst (asm) dec_nat.simps) (auto split: if_splits)
  moreover have "n mod 10 < 10"
    by simp
  ultimately show ?case
    using "1.IH" by blast
qed

lemma dec_nat_nonempty: "dec_nat n \<noteq> []"
  by (subst dec_nat.simps) simp

lemma decimal_value_dec_nat: "decimal_value (dec_nat n) = n"
proof (induction n rule: dec_nat.induct)
  case (1 n)
  show ?case
  proof (cases "n < 10")
    case True
    then show ?thesis
      by (subst dec_nat.simps) (simp add: decimal_value_def digit_char_value)
  next
    case False
    then show ?thesis
      using 1 by (subst dec_nat.simps) (simp add: decimal_value_def digit_char_value)
  qed
qed

lemma strto_unsigned_dec_nat:
  assumes "n < 2 ^ bits"
  shows "strto_unsigned bits (dec_nat n) = n"
proof -
  obtain c cs where first: "dec_nat n = c # cs"
    using dec_nat_nonempty by (cases "dec_nat n") auto
  have digits: "\<forall>c \<in> set (dec_nat n). is_digit c \<and> \<not> is_space c \<and> c \<noteq> CHR ''-'' \<and> c \<noteq> CHR ''+''"
  proof
    fix c
    assume "c \<in> set (dec_nat n)"
    then obtain d where "d < 10" "c = digit_char d"
      using dec_nat_digits by blast
    then show "is_digit c \<and> \<not> is_space c \<and> c \<noteq> CHR ''-'' \<and> c \<noteq> CHR ''+''"
      using digit_char_class by metis
  qed
  have "dropWhile is_space (dec_nat n) = dec_nat n" "takeWhile is_digit (dec_nat n) = dec_nat n"
    using digits first by (simp_all add: takeWhile_eq_all_conv)
  moreover have "split_sign (dec_nat n) = (False, dec_nat n)"
    using digits first by (simp add: split_sign_def)
  ultimately show ?thesis
    using assms by (simp add: strto_unsigned_def decimal_value_dec_nat Let_def takeWhile_eq_all_conv [THEN iffD2])
qed

lemma read_u64_dec64 [simp]: "read_u64 (dec64 w) = w"
  by (simp add: read_u64_def dec64_def strto_unsigned_dec_nat unat_less_18446744073709551616)

lemma dec64_no_dash: "take 2 (dec64 w) \<noteq> ''--''"
proof
  assume "take 2 (dec64 w) = ''--''"
  then have "CHR ''-'' \<in> set (dec64 w)"
    by (metis in_set_takeD list.set_intros(1))
  then show False
    using dec_nat_digits digit_char_class by (fastforce simp: dec64_def)
qed

section \<open>Flags\<close>

type_synonym flag_map = "string \<rightharpoonup> string"

record arguments =
  ag_command :: string
  ag_flags :: flag_map

definition is_flag :: "string \<Rightarrow> bool" where
  "is_flag s \<longleftrightarrow> take 2 s = ''--''"

fun parse_from :: "string list \<Rightarrow> arguments \<Rightarrow> arguments" where
  "parse_from [] ag = ag"
| "parse_from (a # rest) ag =
    (if is_flag a then
       (case rest of
          [] \<Rightarrow> ag\<lparr> ag_flags := (ag_flags ag)(drop 2 a \<mapsto> ''1'') \<rparr>
        | v # rest1 \<Rightarrow>
            if is_flag v then parse_from rest (ag\<lparr> ag_flags := (ag_flags ag)(drop 2 a \<mapsto> ''1'') \<rparr>)
            else parse_from rest1 (ag\<lparr> ag_flags := (ag_flags ag)(drop 2 a \<mapsto> v) \<rparr>))
     else parse_from rest (if ag_command ag = [] then ag\<lparr> ag_command := a \<rparr> else ag))"

definition parse_arguments :: "string list \<Rightarrow> arguments" where
  "parse_arguments args = parse_from args \<lparr> ag_command = [], ag_flags = Map.empty \<rparr>"

text \<open>The inspection tool has no command; the tokens that are no flags are skipped.\<close>

fun parse_flags_from :: "string list \<Rightarrow> flag_map \<Rightarrow> flag_map" where
  "parse_flags_from [] flags = flags"
| "parse_flags_from (a # rest) flags =
    (if \<not> is_flag a then parse_flags_from rest flags
     else case rest of
       [] \<Rightarrow> flags(drop 2 a \<mapsto> ''1'')
     | v # rest1 \<Rightarrow>
         if is_flag v then parse_flags_from rest (flags(drop 2 a \<mapsto> ''1''))
         else parse_flags_from rest1 (flags(drop 2 a \<mapsto> v)))"

definition parse_flags :: "string list \<Rightarrow> flag_map" where
  "parse_flags args = parse_flags_from args Map.empty"

definition flag_number :: "flag_map \<Rightarrow> string \<Rightarrow> u64 \<Rightarrow> u64" where
  "flag_number flags key fallback = (case flags key of None \<Rightarrow> fallback | Some v \<Rightarrow> read_u64 v)"

definition flag_text :: "flag_map \<Rightarrow> string \<Rightarrow> string" where
  "flag_text flags key = (case flags key of None \<Rightarrow> [] | Some v \<Rightarrow> v)"

lemma parse_flags_from_parse_from: "parse_flags_from args (ag_flags ag) = ag_flags (parse_from args ag)"
proof (induction args ag rule: parse_from.induct)
  case (2 a rest ag)
  show ?case
  proof (cases "is_flag a")
    case False
    then show ?thesis
      using "2.IH"(3) by (cases "ag_command ag = []") simp_all
  next
    case True
    show ?thesis
      using "2.IH"(1,2) True by (cases rest) (simp_all del: fun_upd_apply)
  qed
qed simp

lemma parse_flags_arguments: "parse_flags args = ag_flags (parse_arguments args)"
  by (simp add: parse_flags_def parse_arguments_def parse_flags_from_parse_from [symmetric])

text \<open>A command line is a command and flags with values, in any order of the command among the flags.\<close>

fun flag_tokens :: "(string \<times> string) list \<Rightarrow> string list" where
  "flag_tokens [] = []"
| "flag_tokens ((k, v) # kvs) = (''--'' @ k) # v # flag_tokens kvs"

lemma parse_flag_tokens:
  assumes "\<forall>(k, v) \<in> set kvs. \<not> is_flag v"
  shows "parse_from (flag_tokens kvs @ rest) ag = parse_from rest (ag\<lparr> ag_flags := ag_flags ag ++ map_of (rev kvs) \<rparr>)"
  using assms by (induction kvs arbitrary: ag) (auto simp: is_flag_def)

lemma command_line_parsed:
  assumes "\<forall>(k, v) \<in> set (before @ after). \<not> is_flag v" and "\<not> is_flag command" and "command \<noteq> []"
  shows "parse_arguments (flag_tokens before @ command # flag_tokens after) =
    \<lparr> ag_command = command, ag_flags = map_of (rev (before @ after)) \<rparr>"
proof -
  have "parse_arguments (flag_tokens before @ command # flag_tokens after) =
      parse_from (flag_tokens after @ []) \<lparr> ag_command = command, ag_flags = map_of (rev before) \<rparr>"
    using assms by (simp add: parse_arguments_def parse_flag_tokens)
  also have "\<dots> = \<lparr> ag_command = command, ag_flags = map_of (rev before) ++ map_of (rev after) \<rparr>"
    by (subst parse_flag_tokens) (use assms in auto)
  finally show ?thesis
    by (simp add: map_add_def)
qed

section \<open>Printing\<close>

definition c_str :: "string \<Rightarrow> string" where
  "c_str s = takeWhile (\<lambda>c. c \<noteq> CHR 0x00) s"

definition bit_text :: "bool \<Rightarrow> string" where
  "bit_text b = (if b then ''1'' else ''0'')"

definition count_text :: "'a list \<Rightarrow> string" where
  "count_text xs = dec_nat (length xs)"

text \<open>What a program leaves behind: its standard output, the code of the rejection it reported, its exit code.\<close>

record app_result =
  ap_out :: string
  ap_rejected :: "u32 option"
  ap_exit :: int

definition app_done :: "string \<Rightarrow> app_result" where
  "app_done out = \<lparr> ap_out = out, ap_rejected = None, ap_exit = 0 \<rparr>"

definition app_usage :: "string \<Rightarrow> app_result" where
  "app_usage out = \<lparr> ap_out = out, ap_rejected = None, ap_exit = 2 \<rparr>"

definition app_rejected :: "u32 \<Rightarrow> string \<Rightarrow> app_result" where
  "app_rejected code out = \<lparr> ap_out = out, ap_rejected = Some code, ap_exit = 1 \<rparr>"

end
