(* ===== verification/CF_Controller.thy ===== *)
theory CF_Controller
  imports CF_CommandLine CF_Lifetime CF_Policy CF_Explain
begin

text \<open>
  The control tool (\<open>apps/critic_controller.cpp\<close>): a command line becomes one request to a live
  coordinator, and its answer becomes a line of text and an exit code. The network decides for a host and a
  port how the connection attempt ends, and what the server says on it. Messages on the error stream are
  reduced to the code of the rejection they print.
\<close>

section \<open>What the commands print\<close>

definition print_target_created :: "target_record \<Rightarrow> string" where
  "print_target_created t = concat
    [''target='', dec64 (t_id t), '' generation='', dec64 (t_generation t), '' digest='',
     digest_to_hex (t_content_digest t), '' reviewable='', bit_text (t_reviewable t), newline]"

definition print_target :: "target_record \<Rightarrow> string" where
  "print_target t = concat
    [''target='', dec64 (t_id t), '' generation='', dec64 (t_generation t), '' class='',
     target_class_name (t_target_class t), '' digest='', digest_to_hex (t_content_digest t),
     '' supersession='', target_supersession_name (t_supersession t), newline]"

definition print_review_declared :: "review_record \<Rightarrow> string" where
  "print_review_declared r = concat
    [''review='', dec64 (r_id r), '' generation='', dec64 (r_generation r), '' state='',
     review_state_name (r_state r), newline]"

definition print_review_cancelled :: "review_record \<Rightarrow> string" where
  "print_review_cancelled r = concat
    [''review='', dec64 (r_id r), '' state='', review_state_name (r_state r), newline]"

definition print_committed :: "decision \<Rightarrow> string" where
  "print_committed d = concat
    [''decision='', dec64 (d_id d), '' generation='', dec64 (d_generation d), '' disposition='',
     review_disposition_name (d_disposition d), '' digest='', digest_to_hex (d_decision_digest d), newline]"

definition print_decision :: "decision \<Rightarrow> string" where
  "print_decision d = concat
    [''decision='', dec64 (d_id d), '' disposition='', review_disposition_name (d_disposition d),
     '' epoch='', dec64 (d_epoch d), '' digest='', digest_to_hex (d_decision_digest d), newline]"

definition print_assignment_line :: "critic_assignment \<Rightarrow> string" where
  "print_assignment_line a = concat
    [''  assignment='', dec64 (a_id a), '' critic='', dec64 (a_critic a), '' generation='',
     dec64 (a_critic_generation a), '' worker='', dec64 (a_worker a), '' boot='', dec64 (a_worker_boot a),
     '' role='', critic_role_name (a_role a), '' required='', bit_text (a_required a),
     '' active='', bit_text (a_active a), newline]"

definition print_finding_line :: "finding \<Rightarrow> string" where
  "print_finding_line f = concat
    [''  finding='', dec64 (f_id f), '' generation='', dec64 (f_generation f), '' critic='', dec64 (f_critic f),
     '' state='', finding_state_name (f_state f), '' outcome='', finding_outcome_name (f_outcome f),
     '' severity='', severity_name (f_severity f), '' category='', finding_category_name (f_category f),
     '' evidence='', count_text (f_evidence f), newline]"

definition print_evidence_line :: "evidence_record \<Rightarrow> string" where
  "print_evidence_line e = concat
    [''  evidence='', dec64 (e_id e), '' provenance='', evidence_provenance_name (e_provenance e),
     '' integrity='', evidence_integrity_name (e_integrity e), '' current='', bit_text (e_current e),
     '' digest='', digest_to_hex (e_content_digest e), newline]"

definition print_challenge_line :: "challenge \<Rightarrow> string" where
  "print_challenge_line ch = concat
    [''  challenge='', dec64 (ch_id ch), '' finding='', dec64 (ch_challenged_finding ch), '' outcome='',
     challenge_outcome_name (ch_outcome ch), '' resolved='', bit_text (ch_resolved ch), newline]"

definition print_decision_line :: "decision \<Rightarrow> string" where
  "print_decision_line d = concat
    [''  decision='', dec64 (d_id d), '' disposition='', review_disposition_name (d_disposition d),
     '' digest='', digest_to_hex (d_decision_digest d), newline]"

definition print_snapshot :: "review_snapshot \<Rightarrow> string" where
  "print_snapshot sn =
    (let r = sn_review sn in concat
      [''review='', dec64 (r_id r), '' generation='', dec64 (r_generation r), '' state='',
       review_state_name (r_state r), '' disposition='', review_disposition_name (r_disposition r),
       '' authority_current='', bit_text (r_authority_current r), newline,
       ''target='', dec64 (r_target r), '' target_generation='', dec64 (r_target_generation r), '' digest='',
       digest_to_hex (r_target_digest r), newline,
       concat (map print_assignment_line (sn_assignments sn)),
       concat (map print_finding_line (sn_findings sn)),
       concat (map print_evidence_line (sn_evidences sn)),
       concat (map print_challenge_line (sn_challenges sn)),
       (case sn_decision sn of None \<Rightarrow> [] | Some d \<Rightarrow> print_decision_line d),
       ''state_digest='', digest_to_hex (sn_state_digest sn), newline])"

definition print_summary :: "review_summary \<Rightarrow> string" where
  "print_summary rs = concat
    [''review='', dec64 (rs_id rs), '' generation='', dec64 (rs_generation rs), '' target='', dec64 (rs_target rs),
     '' target_generation='', dec64 (rs_target_generation rs), '' state='', review_state_name (rs_state rs),
     '' disposition='', review_disposition_name (rs_disposition rs), '' findings='', dec32 (rs_finding_count rs),
     '' current='', dec32 (rs_current_finding_count rs), '' assignments='', dec32 (rs_assignment_count rs),
     '' decision='', bit_text (rs_has_decision rs), newline]"

definition print_worker :: "worker_record \<Rightarrow> string" where
  "print_worker w = concat
    [''worker='', dec64 (w_id w), '' boot='', dec64 (w_boot w), '' critic='', dec64 (w_critic w), '' generation='',
     dec64 (w_critic_generation w), '' ready='', bit_text (w_ready w), '' healthy='', bit_text (w_healthy w),
     '' authoritative='', bit_text (w_authoritative w), '' boot_order='', dec64 (w_boot_order w),
     '' label='', c_str (w_process_label w), newline]"

section \<open>The commands\<close>

definition answer_of :: "('a \<Rightarrow> string) \<Rightarrow> client \<times> 'a remote \<Rightarrow> client \<times> app_result" where
  "answer_of print p =
    (case p of
       (cl, Inl code) \<Rightarrow> (cl, app_rejected code [])
     | (cl, Inr x) \<Rightarrow> (cl, app_done (print x)))"

definition or_default :: "string \<Rightarrow> string \<Rightarrow> string" where
  "or_default fallback s = (if s = [] then fallback else s)"

text \<open>A class or a role that does not parse leaves the one the request was initialised with.\<close>

definition create_request :: "coordinator_epoch \<Rightarrow> flag_map \<Rightarrow> register_target_request" where
  "create_request epoch flags =
    \<lparr> rt_id = flag_number flags ''id'' 0,
      rt_target_class =
        (case parse_target_class (or_default ''CLAIM'' (flag_text flags ''class'')) of
           None \<Rightarrow> TC_Claim | Some c \<Rightarrow> c),
      rt_schema_name = flag_text flags ''schema'', rt_payload = string_bytes (flag_text flags ''payload''),
      rt_producer = 0, rt_producer_version = [], rt_provenance = ''critic_controller'', rt_reviewable = True,
      rt_epoch = epoch, rt_request = 2 \<rparr>"

definition declare_request :: "coordinator_epoch \<Rightarrow> flag_map \<Rightarrow> declare_review_request" where
  "declare_request epoch flags =
    \<lparr> dv_request = flag_number flags ''request'' 0, dv_target = flag_number flags ''target'' 0,
      dv_target_generation = flag_number flags ''generation'' 1, dv_spec = default_review_spec,
      dv_epoch = epoch \<rparr>"

definition assign_request :: "coordinator_epoch \<Rightarrow> flag_map \<Rightarrow> assign_critics_request" where
  "assign_request epoch flags =
    \<lparr> ac_review = flag_number flags ''review'' 0, ac_review_generation = flag_number flags ''generation'' 1,
      ac_assignments =
        [\<lparr> ra_critic = flag_number flags ''critic'' 0,
           ra_critic_generation = flag_number flags ''critic-generation'' 1,
           ra_worker = flag_number flags ''worker'' 0, ra_worker_boot = flag_number flags ''boot'' 0,
           ra_role =
             (case parse_critic_role (or_default ''GENERAL_CRITIC'' (flag_text flags ''role'')) of
                None \<Rightarrow> Role_GeneralCritic | Some r \<Rightarrow> r),
           ra_required = False \<rparr>],
      ac_epoch = epoch, ac_request = 3 \<rparr>"

definition commit_request :: "coordinator_epoch \<Rightarrow> flag_map \<Rightarrow> commit_review_request" where
  "commit_request epoch flags =
    \<lparr> cm_review = flag_number flags ''review'' 0, cm_review_generation = flag_number flags ''generation'' 1,
      cm_target_generation = flag_number flags ''target-generation'' 1, cm_epoch = epoch, cm_request = 4,
      cm_include_rendered_explanation = False \<rparr>"

definition cancel_request :: "coordinator_epoch \<Rightarrow> flag_map \<Rightarrow> cancel_review_request" where
  "cancel_request epoch flags =
    \<lparr> cn_review = flag_number flags ''review'' 0, cn_review_generation = flag_number flags ''generation'' 1,
      cn_reason = flag_text flags ''reason'', cn_epoch = epoch, cn_request = 5 \<rparr>"

definition controller_command :: "string \<Rightarrow> flag_map \<Rightarrow> client \<Rightarrow> client \<times> app_result" where
  "controller_command command flags cl =
    (let epoch = cl_epoch cl in
     if command = ''target-create'' then answer_of print_target_created (client_register_target (create_request epoch flags) cl)
     else if command = ''target-show'' then answer_of print_target (client_query_target (flag_number flags ''id'' 0) cl)
     else if command = ''review-declare'' then answer_of print_review_declared (client_declare_review (declare_request epoch flags) cl)
     else if command = ''review-assign'' then
       answer_of (\<lambda>as. concat [''assignments='', count_text as, newline]) (client_assign_critics (assign_request epoch flags) cl)
     else if command = ''review-commit'' then answer_of print_committed (client_commit_review (commit_request epoch flags) cl)
     else if command = ''review-cancel'' then answer_of print_review_cancelled (client_cancel_review (cancel_request epoch flags) cl)
     else if command = ''review-show'' then answer_of print_snapshot (client_query_review (flag_number flags ''review'' 0) 0 cl)
     else if command = ''decision-show'' then
       answer_of print_decision (client_query_decision (flag_number flags ''review'' 0) (flag_number flags ''generation'' 1) cl)
     else if command = ''list-reviews'' then answer_of (\<lambda>rs. concat (map print_summary rs)) (client_list_reviews cl)
     else if command = ''list-workers'' then answer_of (\<lambda>ws. concat (map print_worker ws)) (client_list_workers cl)
     else (cl, app_usage []))"

section \<open>The program\<close>

definition fresh_client :: client_process where
  "fresh_client =
    \<lparr> cp_client = (connected_client default_limits [])\<lparr> cl_limits := default_limits, cl_connected := False \<rparr>,
      cp_runtime = \<lparr> sk_ready = False, sk_users = 0 \<rparr>, cp_socket = False \<rparr>"

definition epoch_line :: "coordinator_epoch \<Rightarrow> string" where
  "epoch_line epoch = concat [''epoch='', dec64 epoch, newline]"

text \<open>The client that is left when the program ends, before its destructor closes it, and the result.\<close>

definition controller_main ::
  "nat \<Rightarrow> (string \<Rightarrow> u16 \<Rightarrow> connect_outcome) \<Rightarrow> string list \<Rightarrow> client_process \<times> app_result" where
  "controller_main bits network args =
    (if length args < 2 then (fresh_client, app_usage [])
     else let ag = parse_arguments args; flags = ag_flags ag in
       case flags ''port'' of
         None \<Rightarrow> (fresh_client, app_usage [])
       | Some port \<Rightarrow>
           if ag_command ag = [] then (fresh_client, app_usage [])
           else case connect_client (network (or_default ''127.0.0.1'' (flag_text flags ''host'')) (read_port bits port))
               default_limits fresh_client of
             (cp, Inl err) \<Rightarrow> (cp, app_rejected (error_code_num err) [])
           | (cp, Inr _) \<Rightarrow>
               (case client_hello 1 (cp_client cp) of
                  (cl, Inl code) \<Rightarrow> (cp\<lparr> cp_client := cl \<rparr>, app_rejected code [])
                | (cl, Inr _) \<Rightarrow>
                    (let (cl1, result) = controller_command (ag_command ag) flags cl in
                     (cp\<lparr> cp_client := cl1 \<rparr>, result\<lparr> ap_out := epoch_line (cl_epoch cl) @ ap_out result \<rparr>))))"

end
