(* ===== verification/CF_Operator.thy ===== *)
theory CF_Operator
  imports CF_Controller CF_EndToEnd
begin

text \<open>
  The control tool in front of a coordinator, from the command line to the decision: what the operator
  typed is what the coordinator runs, and what the coordinator answered is what the tool prints and
  exits with.
\<close>

section \<open>The handshake\<close>

definition handshake_frame :: "request_id \<Rightarrow> frame" where
  "handshake_frame correlation = request_frame MT_Hello (no_authority\<lparr> au_request := correlation \<rparr>) []"

definition handshake_answer :: "request_id \<Rightarrow> coordinator_epoch \<Rightarrow> frame" where
  "handshake_answer correlation epoch = reply_frame (fr_header (seal_frame (handshake_frame correlation))) (\<lambda>_. [])
     (Inr (MT_HelloAck, w_u64 epoch empty_writer))"

lemma handshake_encodes:
  obtains bs where "frame_encode lim (handshake_frame correlation) = Inr bs"
  by (simp add: frame_encode_iff handshake_frame_def request_frame_def default_header_def kProtocolVersion_def)

lemma epoch_written: "wr_buffer (w_u64 e empty_writer) = be64 e"
  by (simp add: w_u64_def w_append_def w_require_def empty_writer_def)

lemma handshake_answer_encodes:
  assumes "16 \<le> unat (max_frame_bytes lim)"
  obtains out where "frame_encode lim (handshake_answer correlation e) = Inr out"
  using assms
  by (simp add: frame_encode_iff handshake_answer_def reply_frame_def envelope_length epoch_written kProtocolVersion_def)

lemma hello_dispatch:
  "dispatch env texts i (seal_frame (handshake_frame correlation)) s =
     (s, handshake_answer correlation (du_epoch (co_state (sv_coordinator s))))"
  by (simp add: dispatch_def handler_of_def handle_hello_def handshake_frame_def request_frame_def at_end_def
      new_reader_def conclude_def handshake_answer_def reply_frame_def)

lemma om_put_twice: "om_put k v (om_put k u m) = om_put k v m"
  by (induction k u m rule: om_put.induct) auto

lemma hello_served:
  assumes "om_get (sv_connections s) i = Some cx" and "\<not> sv_stopping s" and "\<not> cx_closed cx" and "cx_writable cx"
    and "cx_incoming cx = bs @ later" and "frame_encode (sv_limits s) (handshake_frame correlation) = Inr bs"
    and "frame_encode (sv_limits s) (handshake_answer correlation (du_epoch (co_state (sv_coordinator s)))) = Inr out"
  shows "serve_step env texts i s =
    (on_connection i (\<lambda>cx. cx\<lparr> cx_incoming := later, cx_outgoing := cx_outgoing cx @ out \<rparr>) s, True)"
proof -
  let ?s = "consume i (length bs) s"
  have "serve_step env texts i s = answer_request env texts i (seal_frame (handshake_frame correlation)) ?s"
    by (rule serve_step_frame) (use assms in auto)
  moreover have "om_get (sv_connections ?s) i = Some (cx\<lparr> cx_incoming := later \<rparr>)"
    using assms(1,5) by (simp add: consume_def on_connection_def om_simps)
  moreover have "fh_type (fr_header (seal_frame (handshake_frame correlation))) \<noteq> MT_Shutdown"
    by (simp add: handshake_frame_def request_frame_def)
  ultimately show ?thesis
    using assms
    by (simp add: answer_request_def hello_dispatch send_frame_def)
       (simp add: consume_def on_connection_def om_simps om_put_twice write_all_def)
qed

lemma hello_answered:
  assumes "cl_connected cl" and "cl_writable cl" and "cl_incoming cl = out @ later"
    and "frame_encode (cl_limits cl) (handshake_frame correlation) = Inr bs"
    and "frame_encode (cl_limits cl) (handshake_answer correlation e) = Inr out"
  shows "client_hello correlation cl =
    (cl\<lparr> cl_sent := cl_sent cl @ bs, cl_incoming := later, cl_epoch := e \<rparr>, Inr ())"
proof -
  let ?cl = "cl\<lparr> cl_sent := cl_sent cl @ bs \<rparr>"
  have sent: "client_send MT_Hello (no_authority\<lparr> au_request := correlation \<rparr>) [] cl = (?cl, success)"
    using assms by (simp add: client_send_def handshake_frame_def [symmetric] socket_write_def)
  have "client_receive ?cl = (?cl\<lparr> cl_incoming := later \<rparr>, Inr (seal_frame (handshake_answer correlation e)))"
    by (rule client_receive_frame) (use assms in simp_all)
  moreover have "fh_type (fr_header (seal_frame (handshake_answer correlation e))) = MT_HelloAck"
    by (simp add: handshake_answer_def reply_frame_def)
  ultimately have "await_answer MT_HelloAck ?cl =
      (?cl\<lparr> cl_incoming := later \<rparr>, Inr (seal_frame (handshake_answer correlation e)))"
    by (subst await_answer.simps) simp
  then have answer: "client_exchange MT_Hello (no_authority\<lparr> au_request := correlation \<rparr>) [] MT_HelloAck cl =
      (?cl\<lparr> cl_incoming := later \<rparr>, Inr (seal_frame (handshake_answer correlation e)))"
    by (simp add: client_exchange_def sent)
  have payload: "fr_payload (handshake_answer correlation e) = envelope_bytes (error_code_num E_Ok) [] @ be64 e"
    by (simp add: handshake_answer_def reply_frame_def epoch_written)
  have "run_state r_u64 (new_reader wire_policy (be64 e)) = (e, new_reader wire_policy [])"
    using reads_ints(3) [of e] by (simp add: reads_def new_reader_def)
  then show ?thesis
    using answer envelope_read [of "error_code_num E_Ok" "[]" "cl_limits cl" wire_policy "be64 e"] error_code_num_max
    by (simp add: client_hello_def payload rd_status_def new_reader_def local_failure_def del: error_code_num.simps)
qed

section \<open>A commit from the command line\<close>

lemma flag_tokens_length: "length (flag_tokens kvs) = 2 * length kvs"
  by (induction kvs rule: flag_tokens.induct) simp_all

lemma command_line_long:
  assumes "map_of (rev (before @ after)) key = Some v"
  shows "2 \<le> length (flag_tokens before @ command # flag_tokens after)"
proof -
  have "before @ after \<noteq> []"
    using assms by auto
  then show ?thesis
    by (cases before; cases after) (auto simp: flag_tokens_length)
qed

text \<open>A connected tool: the handshake, one command, and its answer behind the line with the epoch.\<close>

lemma controller_connected:
  assumes "2 \<le> length args" and "parse_arguments args = \<lparr> ag_command = command, ag_flags = flags \<rparr>"
    and "flags ''port'' = Some port" and "command \<noteq> []"
    and "client_hello 1 (connected_client default_limits stream) = (cl, Inr u)"
    and "controller_command command flags cl = (cl1, result)"
  shows "cp_client (fst (controller_main bits (\<lambda>_ _. CO_Connected stream) args)) = cl1
    \<and> snd (controller_main bits (\<lambda>_ _. CO_Connected stream) args) =
        result\<lparr> ap_out := epoch_line (cl_epoch cl) @ ap_out result \<rparr>"
proof -
  let ?cp = "connect_client (CO_Connected stream) default_limits fresh_client"
  have "snd ?cp = success" "cp_client (fst ?cp) = connected_client default_limits stream"
    by (simp_all add: connect_client_def fresh_client_def ensure_initialised_def connected_client_def Let_def)
  then obtain cp where "?cp = (cp, Inr ())" "cp_client cp = connected_client default_limits stream"
    by (metis prod.collapse)
  then show ?thesis
    using assms by (simp add: controller_main_def Let_def)
qed

lemma commit_line_runs:
  assumes line: "\<forall>(k, v) \<in> set (before @ after). \<not> is_flag v"
      "flags = map_of (rev (before @ after))" "flags ''port'' = Some port"
      "flags ''review'' = Some (dec64 r)" "flags ''generation'' = Some (dec64 g)"
      "flags ''target-generation'' = Some (dec64 t)"
    and hello: "frame_encode lim (handshake_frame 1) = Inr hello"
    and greeting: "frame_encode lim (handshake_answer 1 epoch) = Inr greeting"
    and client: "\<And>cl later. cl_connected cl \<Longrightarrow> cl_writable cl \<Longrightarrow> cl_limits cl = lim \<Longrightarrow> cl_incoming cl = out @ later \<Longrightarrow>
        client_request (enc_commit_review_request lim) authority_of_commit_review MT_CommitReview
          MT_CommitReviewAck dec_decision \<lparr> cm_review = r, cm_review_generation = g, cm_target_generation = t,
            cm_epoch = epoch, cm_request = 4, cm_include_rendered_explanation = False \<rparr> cl =
        (cl\<lparr> cl_sent := cl_sent cl @ bs, cl_incoming := later \<rparr>, local_failure res)"
    and lim: "lim = clamp_to_hard_ceiling default_limits"
  shows "cl_sent (cp_client (fst (controller_main bits (\<lambda>_ _. CO_Connected (greeting @ out))
        (flag_tokens before @ ''review-commit'' # flag_tokens after)))) = hello @ bs
    \<and> snd (controller_main bits (\<lambda>_ _. CO_Connected (greeting @ out))
        (flag_tokens before @ ''review-commit'' # flag_tokens after)) = (case res of
          Inl err \<Rightarrow> app_rejected (error_code_num err) (epoch_line epoch)
        | Inr d \<Rightarrow> app_done (epoch_line epoch @ print_committed d))"
proof -
  let ?q = "\<lparr> cm_review = r, cm_review_generation = g, cm_target_generation = t, cm_epoch = epoch, cm_request = 4,
      cm_include_rendered_explanation = False \<rparr>"
  let ?cl = "(connected_client default_limits (greeting @ out))
    \<lparr> cl_sent := hello, cl_incoming := out, cl_epoch := epoch \<rparr>"
  have handshake: "client_hello 1 (connected_client default_limits (greeting @ out)) = (?cl, Inr ())"
    by (subst hello_answered [where bs = hello and e = epoch and later = out and out = greeting])
       (use hello greeting lim in \<open>simp_all add: connected_client_def\<close>)
  have request: "commit_request epoch flags = ?q"
    using line by (simp add: commit_request_def flag_number_def)
  have call: "client_commit_review ?q ?cl = (?cl\<lparr> cl_sent := hello @ bs, cl_incoming := [] \<rparr>, local_failure res)"
    using client [of ?cl "[]"] lim by (simp add: client_commit_review_def connected_client_def)
  have command: "controller_command ''review-commit'' flags ?cl =
      (?cl\<lparr> cl_sent := hello @ bs, cl_incoming := [] \<rparr>,
       case res of Inl err \<Rightarrow> app_rejected (error_code_num err) [] | Inr d \<Rightarrow> app_done (print_committed d))"
    by (cases res) (simp_all add: controller_command_def request call answer_of_def local_failure_def)
  have parsed: "parse_arguments (flag_tokens before @ ''review-commit'' # flag_tokens after) =
      \<lparr> ag_command = ''review-commit'', ag_flags = flags \<rparr>"
    unfolding line(2) by (rule command_line_parsed) (use line(1) in \<open>simp_all add: is_flag_def\<close>)
  note tool = controller_connected [OF command_line_long [OF line(3) [unfolded line(2)]] parsed line(3) _ handshake command,
      of bits]
  show ?thesis
    using tool by (cases res) (simp_all add: app_rejected_def app_done_def)
qed

text \<open>
  C15. What the operator types is what the coordinator runs: the control tool, given the identities of a
  review in decimal, shakes hands and sends one commit with exactly those identities and the epoch it was
  told, the server runs that one command, and the tool prints the decision and exits with zero, or reports
  the code of the error and exits with one.
\<close>

theorem operator_commit_transparent:
  assumes line: "\<forall>(k, v) \<in> set (before @ after). \<not> is_flag v"
      "flags = map_of (rev (before @ after))" "flags ''port'' = Some port"
      "flags ''review'' = Some (dec64 r)" "flags ''generation'' = Some (dec64 g)"
      "flags ''target-generation'' = Some (dec64 t)"
    and s: "om_get (sv_connections s) i = Some cx" "\<not> sv_stopping s" "\<not> cx_closed cx" "cx_writable cx"
      "sv_limits s = clamp_to_hard_ceiling default_limits" "epoch = du_epoch (co_state (sv_coordinator s))"
    and run: "commit_review env \<lparr> cm_review = r, cm_review_generation = g, cm_target_generation = t,
        cm_epoch = epoch, cm_request = 4, cm_include_rendered_explanation = False \<rparr> (sv_coordinator s) = (c1, res)"
    and fits: "\<And>payload. case res of
        Inl err \<Rightarrow> err \<noteq> E_Ok \<and> text_fits (sv_limits s) (texts (sv_coordinator s) payload err)
      | Inr d \<Rightarrow> fits_decision d"
  shows "\<exists>sent out s1 s2.
      serve_step env texts i (on_connection i (\<lambda>cx. cx\<lparr> cx_incoming := sent \<rparr>) s) = (s1, True)
    \<and> serve_step env texts i s1 = (s2, True) \<and> sv_coordinator s2 = c1
    \<and> map_option cx_outgoing (om_get (sv_connections s2) i) = Some (cx_outgoing cx @ out)
    \<and> (let (cp, result) = controller_main bits (\<lambda>_ _. CO_Connected out)
          (flag_tokens before @ ''review-commit'' # flag_tokens after) in
        cl_sent (cp_client cp) = sent
      \<and> result = (case res of
            Inl err \<Rightarrow> app_rejected (error_code_num err) (epoch_line epoch)
          | Inr d \<Rightarrow> app_done (epoch_line epoch @ print_committed d)))"
proof -
  let ?lim = "sv_limits s"
  let ?q = "\<lparr> cm_review = r, cm_review_generation = g, cm_target_generation = t, cm_epoch = epoch, cm_request = 4,
      cm_include_rendered_explanation = False \<rparr>"
  have frames: "172 \<le> unat (max_frame_bytes ?lim)"
    by (simp add: s(5) default_limits_def clamp_to_hard_ceiling_def clamp_into_def hard_ceilings)
  obtain hello where hello: "frame_encode ?lim (handshake_frame 1) = Inr hello"
    by (rule handshake_encodes)
  obtain greeting where greeting: "frame_encode ?lim (handshake_answer 1 epoch) = Inr greeting"
    by (rule handshake_answer_encodes [of ?lim]) (use frames in auto)
  obtain bs where bs: "frame_encode ?lim (remote_commit_review.call_frame ?lim ?q) = Inr bs"
    by (rule commit_encodes [of ?lim ?q]) (use frames in simp)
  let ?s = "on_connection i (\<lambda>cx. cx\<lparr> cx_incoming := hello @ bs \<rparr>) s"
  let ?s1 = "on_connection i (\<lambda>cx. cx\<lparr> cx_incoming := bs, cx_outgoing := cx_outgoing cx @ greeting \<rparr>) ?s"
  have step1: "serve_step env texts i ?s = (?s1, True)"
    by (rule hello_served [where correlation = 1 and bs = hello and cx = "cx\<lparr> cx_incoming := hello @ bs \<rparr>"])
       (use s hello greeting in \<open>simp_all add: on_connection_def om_simps\<close>)
  have s1: "om_get (sv_connections ?s1) i =
      Some (cx\<lparr> cx_incoming := bs, cx_outgoing := cx_outgoing cx @ greeting \<rparr>)"
    using s(1) by (simp add: on_connection_def om_simps)
  have q: "fits_commit_review_request ?lim ?q" "wr_ok (enc_commit_review_request ?lim ?q empty_writer)"
    by (simp_all add: fits_commit_review_request_def commit_written)
  have answer: "remote_commit_review.answer_fits ?lim
      (texts (sv_coordinator ?s1) (wr_buffer (enc_commit_review_request ?lim ?q empty_writer))) res"
    unfolding on_connection_fields by (rule commit_answer_fits [OF frames fits])
  have run1: "commit_review env ?q (sv_coordinator ?s1) = (c1, res)"
    using run by simp
  show ?thesis
  proof (rule remote_commit_review.remote_call
      [where texts = texts and later_requests = "[]", OF q bs s1 _ _ _ _ _ run1 answer])
    fix s2 cx2 out
    assume step2: "serve_step env texts i ?s1 = (s2, True)" "sv_coordinator s2 = c1"
        "om_get (sv_connections s2) i = Some cx2"
        "cx_outgoing cx2 = cx_outgoing (cx\<lparr> cx_incoming := bs, cx_outgoing := cx_outgoing cx @ greeting \<rparr>) @ out"
        "cx_incoming cx2 = []"
      and client: "\<And>cl later. cl_connected cl \<Longrightarrow> cl_writable cl \<Longrightarrow> cl_limits cl = ?lim \<Longrightarrow> cl_incoming cl = out @ later \<Longrightarrow>
        client_request (enc_commit_review_request ?lim) authority_of_commit_review MT_CommitReview
          MT_CommitReviewAck dec_decision ?q cl =
        (cl\<lparr> cl_sent := cl_sent cl @ bs, cl_incoming := later \<rparr>, local_failure res)"
    have "cl_sent (cp_client (fst (controller_main bits (\<lambda>_ _. CO_Connected (greeting @ out))
          (flag_tokens before @ ''review-commit'' # flag_tokens after)))) = hello @ bs
      \<and> snd (controller_main bits (\<lambda>_ _. CO_Connected (greeting @ out))
          (flag_tokens before @ ''review-commit'' # flag_tokens after)) = (case res of
            Inl err \<Rightarrow> app_rejected (error_code_num err) (epoch_line epoch)
          | Inr d \<Rightarrow> app_done (epoch_line epoch @ print_committed d))"
      by (rule commit_line_runs [OF line hello greeting client s(5)])
    then show ?thesis
      using step1 step2 by (intro exI [of _ "hello @ bs"] exI [of _ "greeting @ out"] exI [of _ ?s1] exI [of _ s2])
        (simp add: case_prod_beta)
  qed (use s in simp_all)
qed

definition restored_line :: "(string \<times> string) list" where
  "restored_line =
    [(''port'', ''4000''), (''review'', dec64 3), (''generation'', dec64 1), (''target-generation'', dec64 1)]"

theorem operator_commit_transparent_witness:
  "\<exists>sent out s1 s2.
      serve_step (world (\<lambda>_. zero_digest) (\<lambda>_. IO_Ok)) no_texts 0
        (on_connection 0 (\<lambda>cx. cx\<lparr> cx_incoming := sent \<rparr>) serving_restored) = (s1, True)
    \<and> serve_step (world (\<lambda>_. zero_digest) (\<lambda>_. IO_Ok)) no_texts 0 s1 = (s2, True)
    \<and> sv_coordinator s2 = restored
    \<and> snd (controller_main 64 (\<lambda>_ _. CO_Connected out)
          (flag_tokens restored_line @ ''review-commit'' # flag_tokens []))
        = app_done (epoch_line 2 @ print_committed restored_decision)"
proof -
  let ?env = "world (\<lambda>_. zero_digest) (\<lambda>_. IO_Ok)"
  let ?flags = "map_of (rev (restored_line @ []))"
  have flags: "\<forall>(k, v) \<in> set (restored_line @ []). \<not> is_flag v" "?flags ''port'' = Some ''4000''"
      "?flags ''review'' = Some (dec64 3)" "?flags ''generation'' = Some (dec64 1)"
      "?flags ''target-generation'' = Some (dec64 1)"
    by (simp_all add: restored_line_def is_flag_def dec64_no_dash)
  have server: "om_get (sv_connections serving_restored) 0 = Some (new_connection [])"
      "\<not> sv_stopping serving_restored" "sv_coordinator serving_restored = restored"
      "sv_limits serving_restored = clamp_to_hard_ceiling default_limits"
    by (simp_all add: serving_restored_def new_server_def om_get_code)
  have connection: "\<not> cx_closed (new_connection [])" "cx_writable (new_connection [])"
    by (simp_all add: new_connection_def)
  have epoch: "2 = du_epoch (co_state (sv_coordinator serving_restored))"
    by (simp add: server(3) restored_state(3))
  have run: "commit_review ?env \<lparr> cm_review = 3, cm_review_generation = 1, cm_target_generation = 1, cm_epoch = 2,
      cm_request = 4, cm_include_rendered_explanation = False \<rparr> (sv_coordinator serving_restored) =
      (restored, Inr restored_decision)"
    using restored_recommits by (simp add: restored_commit_def server(3))
  have fits: "fits_decision restored_decision"
    by (simp add: fits_decision_def restored_decision_def id_valid_def zero_digest_def)
  from operator_commit_transparent [where texts = no_texts and bits = 64,
      OF flags(1) refl flags(2-5) server(1,2) connection server(4) epoch run] fits
  show ?thesis
    by (fastforce simp: case_prod_beta)
qed

end
