(* ===== verification/CF_Inspect.thy ===== *)
theory CF_Inspect
  imports CF_Controller CF_Durable
begin

text \<open>
  The inspection tool (\<open>apps/critic_inspect.cpp\<close>): the report on a review and the two ways to get at it,
  a coordinator started on a journal file and a client of a live coordinator. The coordinator that is left
  is part of the result, because starting it writes to the journal that is inspected.
\<close>

section \<open>The report on a review\<close>

definition inspect_finding :: "finding \<Rightarrow> string" where
  "inspect_finding f = concat
    [''  finding #'', dec64 (f_id f), '' generation '', dec64 (f_generation f), '' critic '', dec64 (f_critic f),
     '' generation '', dec64 (f_critic_generation f), '' state '', finding_state_name (f_state f),
     '' outcome '', finding_outcome_name (f_outcome f), '' severity '', severity_name (f_severity f),
     '' category '', finding_category_name (f_category f), '' attempt '', dec64 (f_attempt f),
     '' evidence '', count_text (f_evidence f), newline,
     ''    worker '', dec64 (f_worker f), '' boot '', dec64 (f_worker_boot f), '' review '', dec64 (f_review f),
     ''/'', dec64 (f_review_generation f), '' target '', dec64 (f_target f), ''/'', dec64 (f_target_generation f),
     '' digest '', take 16 (digest_to_hex (f_finding_digest f)), newline,
     (if f_explanation f = [] then [] else concat [''    explanation: '', c_str (f_explanation f), newline]),
     ''    confidence authority: none (advisory metadata only; provided='', bit_text (cf_provided (f_confidence f)),
     '')'', newline]"

definition inspect_assignment :: "critic_assignment \<Rightarrow> string" where
  "inspect_assignment a = concat
    [''    #'', dec64 (a_id a), '' critic '', dec64 (a_critic a), '' generation '', dec64 (a_critic_generation a),
     '' worker '', dec64 (a_worker a), '' boot '', dec64 (a_worker_boot a), '' role '', critic_role_name (a_role a),
     '' required '', bit_text (a_required a), '' weight '', dec32 (a_weight a), '' active '', bit_text (a_active a),
     (if a_retirement_reason a = [] then [] else '' retired: ''), c_str (a_retirement_reason a), newline]"

definition inspect_evidence :: "bool \<Rightarrow> evidence_record \<Rightarrow> string" where
  "inspect_evidence verbose e = concat
    [''    #'', dec64 (e_id e), '' source '', evidence_source_type_name (e_source_type e),
     '' provenance '', evidence_provenance_name (e_provenance e), '' integrity '', evidence_integrity_name (e_integrity e),
     '' current '', bit_text (e_current e), '' superseded '', bit_text (e_superseded e),
     '' digest '', digest_to_hex (e_content_digest e), newline,
     (if verbose \<and> e_reference e \<noteq> [] then concat [''      reference: '', c_str (e_reference e), newline] else [])]"

definition inspect_challenge :: "bool \<Rightarrow> challenge \<Rightarrow> string" where
  "inspect_challenge verbose ch = concat
    [''    #'', dec64 (ch_id ch), '' generation '', dec64 (ch_generation ch), '' finding '',
     dec64 (ch_challenged_finding ch), '' challenger '', dec64 (ch_challenger ch), '' outcome '',
     challenge_outcome_name (ch_outcome ch), '' resolved '', bit_text (ch_resolved ch), newline,
     (if verbose then concat [''      disputed: '', c_str (ch_disputed_predicate ch), newline,
        ''      rationale: '', c_str (ch_rationale ch), newline] else [])]"

definition inspect_rebuttal :: "bool \<Rightarrow> rebuttal \<Rightarrow> string" where
  "inspect_rebuttal verbose rb = concat
    [''    #'', dec64 (rb_id rb), '' challenge '', dec64 (rb_challenge rb), '' author '', dec64 (rb_author rb), newline,
     (if verbose then concat [''      argument: '', c_str (rb_argument rb), newline] else [])]"

definition inspect_decision :: "decision option \<Rightarrow> string" where
  "inspect_decision d =
    (case d of
       None \<Rightarrow> ''  decision: none committed for this review generation'' @ newline
     | Some d \<Rightarrow> concat
         [''  decision #'', dec64 (d_id d), '' generation '', dec64 (d_generation d), '' disposition '',
          review_disposition_name (d_disposition d), '' epoch '', dec64 (d_epoch d), newline,
          ''    decision_digest '', digest_to_hex (d_decision_digest d), newline,
          ''    policy_digest '', digest_to_hex (d_policy_digest d), newline,
          ''    evidence_basis_digest '', digest_to_hex (d_evidence_basis_digest d), newline])"

definition inspect_review :: "hash_fun \<Rightarrow> review_record \<Rightarrow> string" where
  "inspect_review H r = concat
    [''review #'', dec64 (r_id r), '' generation '', dec64 (r_generation r), newline,
     ''  state '', review_state_name (r_state r), '' disposition '', review_disposition_name (r_disposition r),
     '' authority_current '', bit_text (r_authority_current r), '' rounds '', dec32 (r_rounds_used r), newline,
     ''  target #'', dec64 (r_target r), '' generation '', dec64 (r_target_generation r), '' digest '',
     digest_to_hex (r_target_digest r), newline,
     ''  policy: '', c_str (summarize (r_spec r)), newline,
     ''  policy_digest '', digest_to_hex (compute_policy_digest H (r_spec r)), newline,
     (if r_status_detail r = [] then [] else concat [''  status: '', c_str (r_status_detail r), newline]),
     (if r_cancellation_reason r = [] then []
      else concat [''  cancellation_reason: '', c_str (r_cancellation_reason r), newline]),
     (if id_valid (r_superseded_by r) then concat [''  superseded_by generation '', dec64 (r_superseded_by r), newline]
      else [])]"

definition inspect_snapshot :: "hash_fun \<Rightarrow> bool \<Rightarrow> review_snapshot \<Rightarrow> string" where
  "inspect_snapshot H verbose sn = concat
    [inspect_review H (sn_review sn),
     ''  assignments ('', count_text (sn_assignments sn), '')'', newline,
     concat (map inspect_assignment (sn_assignments sn)),
     ''  findings ('', count_text (sn_findings sn), '')'', newline,
     concat (map inspect_finding (sn_findings sn)),
     ''  evidence ('', count_text (sn_evidences sn), '')'', newline,
     concat (map (inspect_evidence verbose) (sn_evidences sn)),
     (if sn_challenges sn = [] then []
      else concat [''  challenges ('', count_text (sn_challenges sn), '')'', newline,
        concat (map (inspect_challenge verbose) (sn_challenges sn))]),
     (if sn_rebuttals sn = [] then []
      else concat [''  rebuttals ('', count_text (sn_rebuttals sn), '')'', newline,
        concat (map (inspect_rebuttal verbose) (sn_rebuttals sn))]),
     inspect_decision (sn_decision sn),
     ''  state_digest '', digest_to_hex (sn_state_digest sn), newline]"

section \<open>A journal file\<close>

definition inspect_recovery :: "hash_fun \<Rightarrow> string \<Rightarrow> coordinator \<Rightarrow> string" where
  "inspect_recovery H path c =
    (let report = co_recovery c in concat
      [''durable journal '', path, newline,
       ''  epoch '', dec64 (rr_epoch report), '' records '', dec64 (rr_journal_records report), newline,
       ''  recovered: targets '', dec32 (rr_targets_recovered report), '' critics '', dec32 (rr_critics_recovered report),
       '' workers '', dec32 (rr_workers_recovered report), '' reviews '', dec32 (rr_reviews_recovered report),
       '' findings '', dec32 (rr_findings_recovered report), '' decisions '', dec32 (rr_decisions_recovered report), newline,
       ''  dynamic authority cleared '', dec32 (rr_dynamic_authority_cleared report),
       ''; reviews moved to revalidation '', dec32 (rr_reviews_moved_to_revalidation report), newline,
       ''  authoritative state digest '', digest_to_hex (authoritative_state_digest H (co_state c)), newline])"

definition inspect_summary :: "review_summary \<Rightarrow> string" where
  "inspect_summary rs = concat
    [''review #'', dec64 (rs_id rs), '' generation '', dec64 (rs_generation rs), '' target '', dec64 (rs_target rs),
     ''/'', dec64 (rs_target_generation rs), '' state '', review_state_name (rs_state rs),
     '' disposition '', review_disposition_name (rs_disposition rs), '' findings '', dec32 (rs_finding_count rs),
     '' current '', dec32 (rs_current_finding_count rs), '' assignments '', dec32 (rs_assignment_count rs),
     '' decision '', bit_text (rs_has_decision rs), newline]"

definition inspect_worker :: "worker_record \<Rightarrow> string" where
  "inspect_worker w = concat
    [''worker #'', dec64 (w_id w), '' boot '', dec64 (w_boot w), '' critic '', dec64 (w_critic w), '' generation '',
     dec64 (w_critic_generation w), '' ready '', bit_text (w_ready w), '' healthy '', bit_text (w_healthy w),
     '' authoritative '', bit_text (w_authoritative w), '' label '', c_str (w_process_label w), newline]"

definition inspect_config :: "string \<Rightarrow> coordinator_config" where
  "inspect_config path =
    \<lparr> cfg_limits = default_limits, cfg_persistence_path = path, cfg_coordinator_id = 0,
      cfg_process_label = ''critic_inspect'' \<rparr>"

definition inspect_file ::
  "open_io \<Rightarrow> env \<Rightarrow> bytes option \<Rightarrow> string \<Rightarrow> flag_map \<Rightarrow> coordinator \<times> app_result" where
  "inspect_file io env file path flags =
    (case coordinator_start io env file (new_coordinator (inspect_config path)) of
       (c, Inl err) \<Rightarrow> (c, app_rejected (error_code_num err) [])
     | (c, Inr _) \<Rightarrow>
         (let H = env_hash env; out = inspect_recovery H path c in
          case flags ''review'' of
            Some review \<Rightarrow>
              (case query_review H (read_u64 review) c of
                 Inl err \<Rightarrow> (c, app_rejected (error_code_num err) out)
               | Inr sn \<Rightarrow> (c, app_done (out @ inspect_snapshot H (flags ''verbose'' \<noteq> None) sn)))
          | None \<Rightarrow>
              (c, app_done (concat [out, concat (map inspect_summary (list_reviews c)),
                 concat (map inspect_worker (list_workers c))]))))"

section \<open>A live coordinator\<close>

definition inspect_live_summary :: "review_summary \<Rightarrow> string" where
  "inspect_live_summary rs = concat
    [''review #'', dec64 (rs_id rs), '' generation '', dec64 (rs_generation rs),
     '' state '', review_state_name (rs_state rs), '' disposition '', review_disposition_name (rs_disposition rs),
     '' findings '', dec32 (rs_finding_count rs), '' current '', dec32 (rs_current_finding_count rs), newline]"

definition inspect_live_worker :: "worker_record \<Rightarrow> string" where
  "inspect_live_worker w = concat
    [''worker #'', dec64 (w_id w), '' boot '', dec64 (w_boot w), '' critic '', dec64 (w_critic w),
     '' ready '', bit_text (w_ready w), '' healthy '', bit_text (w_healthy w),
     '' authoritative '', bit_text (w_authoritative w), newline]"

text \<open>A list that cannot be had is left out of the report.\<close>

definition list_part :: "('a \<Rightarrow> string) \<Rightarrow> 'a list remote \<Rightarrow> string" where
  "list_part print r = (case r of Inl _ \<Rightarrow> [] | Inr xs \<Rightarrow> concat (map print xs))"

definition inspect_connected :: "hash_fun \<Rightarrow> flag_map \<Rightarrow> client \<Rightarrow> client \<times> app_result" where
  "inspect_connected H flags cl =
    (case client_hello 1 cl of
       (cl1, Inl code) \<Rightarrow> (cl1, app_rejected code [])
     | (cl1, Inr _) \<Rightarrow>
         (let out = concat [''live coordinator epoch '', dec64 (cl_epoch cl1), newline] in
          case flags ''review'' of
            Some review \<Rightarrow>
              (case client_query_review (read_u64 review) 0 cl1 of
                 (cl2, Inl code) \<Rightarrow> (cl2, app_rejected code out)
               | (cl2, Inr sn) \<Rightarrow> (cl2, app_done (out @ inspect_snapshot H (flags ''verbose'' \<noteq> None) sn)))
          | None \<Rightarrow>
              (let (cl2, reviews) = client_list_reviews cl1; (cl3, workers) = client_list_workers cl2 in
               (cl3, app_done (concat [out, list_part inspect_live_summary reviews,
                  list_part inspect_live_worker workers])))))"

definition inspect_live ::
  "nat \<Rightarrow> (string \<Rightarrow> u16 \<Rightarrow> connect_outcome) \<Rightarrow> hash_fun \<Rightarrow> string \<Rightarrow> flag_map \<Rightarrow> app_result" where
  "inspect_live bits network H port flags =
    (case connect_client (network ''127.0.0.1'' (read_port bits port)) default_limits fresh_client of
       (cp, Inl err) \<Rightarrow> app_rejected (error_code_num err) []
     | (cp, Inr _) \<Rightarrow> snd (inspect_connected H flags (cp_client cp)))"

definition inspect_main ::
  "nat \<Rightarrow> (string \<Rightarrow> u16 \<Rightarrow> connect_outcome) \<Rightarrow> open_io \<Rightarrow> env \<Rightarrow> bytes option \<Rightarrow> string list
   \<Rightarrow> coordinator option \<times> app_result" where
  "inspect_main bits network io env file args =
    (let flags = parse_flags args in
     case flags ''persistence'' of
       Some path \<Rightarrow> (let (c, result) = inspect_file io env file path flags in (Some c, result))
     | None \<Rightarrow>
         (case flags ''port'' of
            None \<Rightarrow> (None, app_usage [])
          | Some port \<Rightarrow> (None, inspect_live bits network (env_hash env) port flags)))"

section \<open>Looking changes the journal\<close>

text \<open>What a start appends: the new epoch first, then the reviews it sends back.\<close>

lemma start_appends:
  assumes "start_with env (Inr j) c = (c1, Inr u)"
  shows "jn_entries (co_journal c1) = jn_entries j
    @ assign_sequences (recovery_bodies (fresh_epoch (last_epoch 0 (jn_entries j)))
        (recovered_base (env_hash env) (jn_entries j))) (jn_next_sequence j)"
proof -
  obtain c2 r where rec: "recover env (jn_open j) j c = (c2, r)"
    by fastforce
  with assms obtain es c3 v where started: "r = Inr es" "append_entries env es c2 = (c3, Inr v)"
      "co_journal c1 = co_journal c3"
    by (auto simp: start_with_def split: if_splits sum.splits prod.splits)
  then have "co_journal c2 = j"
    "es = assign_sequences (recovery_bodies (fresh_epoch (last_epoch 0 (jn_entries j)))
        (recovered_base (env_hash env) (jn_entries j))) (jn_next_sequence j)"
    using rec by (auto simp: recover_def Let_def fail_with_def recovered_base_def split: if_splits)
  then show ?thesis
    using started append_entries_journal [of env _ c2 c3 v] by simp
qed

lemma inspect_file_starts:
  assumes "inspect_file io env file path flags = (c, result)" and "ap_out result \<noteq> []"
  obtains u where "coordinator_start io env file (new_coordinator (inspect_config path)) = (c, Inr u)"
  using assms
  by (auto simp: inspect_file_def Let_def app_rejected_def split: prod.splits sum.splits option.splits)

text \<open>
  C34. Looking at a journal changes it: when the inspection tool reports on a journal file, it has started a
  coordinator on it, which has appended a new epoch and the revalidation of the reviews that were open;
  after the report every such review awaits revalidation and no worker has authority.
\<close>

theorem inspection_writes_journal:
  assumes "survives j (new_coordinator (inspect_config path))"
    and "inspect_file io env (Some (jn_disk j)) path flags = (c, result)" and "ap_out result \<noteq> []"
  shows "(\<exists>es. jn_entries (co_journal c) = jn_entries j
        @ \<lparr> je_sequence = sequence_after (jn_entries j),
             je_body = JR_EpochEstablished (fresh_epoch (last_epoch 0 (jn_entries j))) \<rparr> # es)
    \<and> (\<forall>i sl. find_slot (replay (env_hash env) (jn_entries j)) i = Some sl
          \<longrightarrow> \<not> is_terminal_review_state (r_state (sl_record sl)) \<longrightarrow> awaits_revalidation i (co_state c))
    \<and> (\<forall>au. \<not> is_ok (check_authority (co_state c) au))"
proof -
  obtain u where "coordinator_start io env (Some (jn_disk j)) (new_coordinator (inspect_config path)) = (c, Inr u)"
    by (rule inspect_file_starts [OF assms(2,3)])
  from start_from_file [OF assms(1) this] obtain j1 where
    j1: "start_with env (Inr j1) (new_coordinator (inspect_config path)) = (c, Inr u)" "jn_entries j1 = jn_entries j"
      "jn_next_sequence j1 = sequence_after (jn_entries j)"
    by blast
  show ?thesis
    using start_appends [OF j1(1)] start_revalidates [OF j1(1)] start_clears [OF j1(1)] j1(2,3)
    by (simp add: recovery_bodies_def)
qed

text \<open>The journal of the earlier coordinator, under the name the tool is given.\<close>

lemma inspect_limits: "co_limits (new_coordinator (inspect_config path)) = co_limits (new_coordinator durable_config)"
  by (simp add: new_coordinator_def inspect_config_def durable_config_def plain_config_def)

lemma inspect_survives: "survives (co_journal on_disk) (new_coordinator (inspect_config ''journal''))"
  using on_disk_survives unfolding survives_def inspect_limits
  by (simp add: new_coordinator_def inspect_config_def)

theorem inspection_writes_journal_witness:
  "\<exists>c result e. inspect_file io_works (world sha256 (\<lambda>_. IO_Ok)) (Some (jn_disk (co_journal on_disk)))
      ''journal'' Map.empty = (c, result)
    \<and> ap_exit result = 0 \<and> length (jn_entries (co_journal on_disk)) < length (jn_entries (co_journal c))"
proof -
  let ?env = "world sha256 (\<lambda>_. IO_Ok)" and ?file = "Some (jn_disk (co_journal on_disk))"
  let ?start = "coordinator_start io_works ?env ?file (new_coordinator (inspect_config ''journal''))"
  have "is_ok (snd ?start)"
    by (rule start_succeeds [OF inspect_survives _ second_start(2-5)
          second_start(6) [folded inspect_limits [of "''journal''"]]]) (simp add: new_coordinator_def)
  then obtain c where start: "?start = (c, Inr ())"
    by (cases ?start) (auto simp: is_ok_iff)
  obtain c1 result where run: "inspect_file io_works ?env ?file ''journal'' Map.empty = (c1, result)"
    by fastforce
  then have printed: "ap_exit result = 0" "ap_out result \<noteq> []"
    using start by (auto simp: inspect_file_def Let_def app_done_def inspect_recovery_def)
  show ?thesis
    using inspection_writes_journal [OF inspect_survives run printed(2)] run printed(1) by auto
qed

end
