(* ===== verification/CF_Processes.thy ===== *)
theory CF_Processes
  imports CF_CommandLine CF_Lifetime CF_Durable CF_Worker CF_Explain
begin

text \<open>
  The two long-running programs: the coordinator process (\<open>apps/critic_coordinator.cpp\<close>), up to its readiness
  line and from the request to stop to its exit, and the worker process (\<open>apps/critic_worker.cpp\<close>) from its
  options to its summary. The hold before publication only delays a worker and is a flag of its options.
\<close>

section \<open>Options of the coordinator\<close>

record coordinator_options =
  op_port :: u16
  op_persistence :: string
  op_label :: string

definition default_coordinator_options :: coordinator_options where
  "default_coordinator_options = \<lparr> op_port = 0, op_persistence = [], op_label = ''coordinator'' \<rparr>"

definition set_coordinator_option :: "nat \<Rightarrow> string \<Rightarrow> string \<Rightarrow> coordinator_options \<Rightarrow> coordinator_options option" where
  "set_coordinator_option bits a v op =
    (if a = ''--port'' then Some (op\<lparr> op_port := read_port bits v \<rparr>)
     else if a = ''--persistence'' then Some (op\<lparr> op_persistence := v \<rparr>)
     else if a = ''--label'' then Some (op\<lparr> op_label := v \<rparr>)
     else None)"

definition coordinator_help :: string where
  "coordinator_help = ''critic_coordinator [--port N] [--persistence PATH] [--label TEXT]'' @ newline"

text \<open>An option without its value is an unknown argument. Help is printed and refused like one.\<close>

definition refuse_coordinator_argument :: "string \<Rightarrow> string" where
  "refuse_coordinator_argument a = (if a = ''--help'' then coordinator_help else [])"

fun parse_coordinator_options :: "nat \<Rightarrow> string list \<Rightarrow> coordinator_options \<Rightarrow> string + coordinator_options" where
  "parse_coordinator_options bits [] op = Inr op"
| "parse_coordinator_options bits [a] op = Inl (refuse_coordinator_argument a)"
| "parse_coordinator_options bits (a # v # rest) op =
    (case set_coordinator_option bits a v op of
       Some op1 \<Rightarrow> parse_coordinator_options bits rest op1
     | None \<Rightarrow> Inl (refuse_coordinator_argument a))"

section \<open>The coordinator process\<close>

definition coordinator_config_of :: "coordinator_options \<Rightarrow> coordinator_config" where
  "coordinator_config_of op =
    \<lparr> cfg_limits = default_limits, cfg_persistence_path = op_persistence op, cfg_coordinator_id = 0,
      cfg_process_label = op_label op \<rparr>"

definition idle_process :: "coordinator \<Rightarrow> server_process" where
  "idle_process c =
    \<lparr> sp_server = new_server c (co_limits c) True, sp_runtime = \<lparr> sk_ready = False, sk_users = 0 \<rparr>,
      sp_running = False, sp_listening = False, sp_port = 0 \<rparr>"

definition ready_line :: "coordinator_options \<Rightarrow> server_process \<Rightarrow> string" where
  "ready_line op sp =
    (let report = co_recovery (sv_coordinator (sp_server sp)) in concat
      [''CRITIC_COORDINATOR_READY port='', dec_nat (unat (sp_port sp)), '' epoch='', dec64 (rr_epoch report),
       '' persistence='', if op_persistence op = [] then ''memory'' else op_persistence op,
       '' recovered='', bit_text (rr_durable_state_recovered report),
       '' revalidation='', dec32 (rr_reviews_moved_to_revalidation report), newline])"

text \<open>Up to the readiness line: the process, and what it has printed when it is ready or when it has failed.\<close>

definition coordinator_boot ::
  "nat \<Rightarrow> (u16 \<Rightarrow> listen_outcome) \<Rightarrow> open_io \<Rightarrow> env \<Rightarrow> (string \<Rightarrow> bytes option) \<Rightarrow> string list
   \<Rightarrow> app_result + server_process \<times> string" where
  "coordinator_boot bits listen io env files args =
    (case parse_coordinator_options bits args default_coordinator_options of
       Inl out \<Rightarrow> Inl (app_usage out)
     | Inr op \<Rightarrow>
         (case coordinator_start io env (files (op_persistence op)) (new_coordinator (coordinator_config_of op)) of
            (c, Inl err) \<Rightarrow> Inl (app_rejected (error_code_num err) [])
          | (c, Inr _) \<Rightarrow>
              (case start_server (listen (op_port op)) (idle_process c) of
                 (sp, Inl err) \<Rightarrow> Inl (app_rejected (error_code_num err) [])
               | (sp, Inr _) \<Rightarrow> Inr (sp, ready_line op sp))))"

text \<open>After the request to stop: the server first, then the coordinator.\<close>

definition coordinator_halt :: "env \<Rightarrow> connection_id list \<Rightarrow> server_process \<Rightarrow> server_process \<times> app_result" where
  "coordinator_halt env ended sp =
    (let sp1 = fst (stop_server env ended sp);
         c = fst (stop (sv_coordinator (sp_server sp1))) in
     (sp1\<lparr> sp_server := (sp_server sp1)\<lparr> sv_coordinator := c \<rparr> \<rparr>,
      app_done (''CRITIC_COORDINATOR_STOPPED'' @ newline)))"

section \<open>Options of the worker\<close>

record worker_options =
  wo_config :: worker_config
  wo_host :: string
  wo_port :: u16
  wo_hold :: bool

definition default_synthetic_config :: synthetic_config where
  "default_synthetic_config =
    \<lparr> sy_critic = 0, sy_role = Role_GeneralCritic, sy_behavior = SB_Pass, sy_category = Cat_Correctness,
      sy_severity = Sev_Critical, sy_source_type = Src_Computation, sy_provenance = Prov_Derived,
      sy_specialization = ''synthetic-reference'', sy_implementation_version = ''1.0.0'',
      sy_deterministic_output = True \<rparr>"

definition default_worker_options :: worker_options where
  "default_worker_options =
    \<lparr> wo_config =
        \<lparr> wc_critic = 0, wc_process_label = ''critic-worker'', wc_host = 0, wc_limits = default_limits,
          wc_critic_config = default_synthetic_config, wc_max_assignments = 1, wc_declare_readiness = True,
          wc_advance_critic_generation = False, wc_forced_boot = 0, wc_forced_worker = 0 \<rparr>,
      wo_host = ''127.0.0.1'', wo_port = 0, wo_hold = False \<rparr>"

definition on_config :: "(worker_config \<Rightarrow> worker_config) \<Rightarrow> worker_options \<Rightarrow> worker_options" where
  "on_config f wo = wo\<lparr> wo_config := f (wo_config wo) \<rparr>"

definition on_critic :: "(synthetic_config \<Rightarrow> synthetic_config) \<Rightarrow> worker_options \<Rightarrow> worker_options" where
  "on_critic f = on_config (\<lambda>cfg. cfg\<lparr> wc_critic_config := f (wc_critic_config cfg) \<rparr>)"

definition valued_worker_options :: "string list" where
  "valued_worker_options =
    [''--port'', ''--host'', ''--critic'', ''--role'', ''--behavior'', ''--category'', ''--severity'', ''--max'',
     ''--label'', ''--force-boot'', ''--force-worker'']"

definition set_worker_option :: "nat \<Rightarrow> string \<Rightarrow> string \<Rightarrow> worker_options \<Rightarrow> worker_options option" where
  "set_worker_option bits a v wo =
    (if a = ''--port'' then Some (wo\<lparr> wo_port := read_port bits v \<rparr>)
     else if a = ''--host'' then Some (wo\<lparr> wo_host := v \<rparr>)
     else if a = ''--critic'' then Some (on_config (\<lambda>cfg. cfg\<lparr> wc_critic := read_u64 v \<rparr>) wo)
     else if a = ''--role'' then
       map_option (\<lambda>r. on_critic (\<lambda>sy. sy\<lparr> sy_role := r \<rparr>) wo) (parse_critic_role v)
     else if a = ''--behavior'' then
       map_option (\<lambda>b. on_critic (\<lambda>sy. sy\<lparr> sy_behavior := b \<rparr>) wo) (parse_synthetic_behavior v)
     else if a = ''--category'' then
       map_option (\<lambda>c. on_critic (\<lambda>sy. sy\<lparr> sy_category := c \<rparr>) wo) (parse_finding_category v)
     else if a = ''--severity'' then
       map_option (\<lambda>s. on_critic (\<lambda>sy. sy\<lparr> sy_severity := s \<rparr>) wo) (parse_severity v)
     else if a = ''--max'' then Some (on_config (\<lambda>cfg. cfg\<lparr> wc_max_assignments := read_u32 bits v \<rparr>) wo)
     else if a = ''--label'' then Some (on_config (\<lambda>cfg. cfg\<lparr> wc_process_label := v \<rparr>) wo)
     else if a = ''--force-boot'' then Some (on_config (\<lambda>cfg. cfg\<lparr> wc_forced_boot := read_u64 v \<rparr>) wo)
     else if a = ''--force-worker'' then Some (on_config (\<lambda>cfg. cfg\<lparr> wc_forced_worker := read_u64 v \<rparr>) wo)
     else None)"

definition set_worker_switch :: "string \<Rightarrow> worker_options \<Rightarrow> worker_options option" where
  "set_worker_switch a wo =
    (if a = ''--no-readiness'' then Some (on_config (\<lambda>cfg. cfg\<lparr> wc_declare_readiness := False \<rparr>) wo)
     else if a = ''--advance-generation'' then Some (on_config (\<lambda>cfg. cfg\<lparr> wc_advance_critic_generation := True \<rparr>) wo)
     else if a = ''--hold-before-publish'' then Some (wo\<lparr> wo_hold := True \<rparr>)
     else None)"

definition worker_help :: string where
  "worker_help = ''critic_worker --port N --critic ID [options]'' @ newline"

text \<open>The loop over the arguments, and the check behind it.\<close>

fun parse_worker_arguments :: "nat \<Rightarrow> string list \<Rightarrow> worker_options \<Rightarrow> string + worker_options" where
  "parse_worker_arguments bits [] wo = Inr wo"
| "parse_worker_arguments bits (a # rest) wo =
    (if a \<in> set valued_worker_options then
       (case rest of
          [] \<Rightarrow> Inl []
        | v # rest1 \<Rightarrow>
            (case set_worker_option bits a v wo of
               None \<Rightarrow> Inl []
             | Some wo1 \<Rightarrow> parse_worker_arguments bits rest1 wo1))
     else
       (case set_worker_switch a wo of
          Some wo1 \<Rightarrow> parse_worker_arguments bits rest wo1
        | None \<Rightarrow> Inl (if a = ''--help'' then worker_help else [])))"

definition parse_worker_options :: "nat \<Rightarrow> string list \<Rightarrow> string + worker_options" where
  "parse_worker_options bits args =
    (case parse_worker_arguments bits args default_worker_options of
       Inl out \<Rightarrow> Inl out
     | Inr wo \<Rightarrow> if wo_port wo = 0 \<or> \<not> id_valid (wc_critic (wo_config wo)) then Inl [] else Inr wo)"

section \<open>The worker process\<close>

definition done_line :: "critic_worker \<Rightarrow> string" where
  "done_line wk = concat
    [''CRITIC_WORKER_DONE critic='', dec64 (wc_critic (wk_config wk)), '' worker='', dec64 (wk_worker wk),
     '' boot='', dec64 (wk_boot wk), '' generation='', dec64 (wk_critic_generation wk),
     '' serviced='', dec32 (wk_serviced wk), newline]"

definition unconnected_client :: client_process where
  "unconnected_client =
    \<lparr> cp_client = (connected_client default_limits [])\<lparr> cl_connected := False \<rparr>,
      cp_runtime = \<lparr> sk_ready = False, sk_users = 0 \<rparr>, cp_socket = False \<rparr>"

definition worker_main ::
  "nat \<Rightarrow> (string \<Rightarrow> u16 \<Rightarrow> connect_outcome) \<Rightarrow> hash_fun \<Rightarrow> u64 \<Rightarrow> u64 \<Rightarrow> u64 \<Rightarrow> string list
   \<Rightarrow> critic_worker option \<times> app_result" where
  "worker_main bits network H process ticks sequence args =
    (case parse_worker_options bits args of
       Inl out \<Rightarrow> (None, app_usage out)
     | Inr wo \<Rightarrow>
         (let wk = worker_start (wo_config wo) [] in
          case connect_client (network (wo_host wo) (wo_port wo)) (wc_limits (wk_config wk)) unconnected_client of
            (cp, Inl err) \<Rightarrow> (None, app_rejected (error_code_num err) [])
          | (cp, Inr _) \<Rightarrow>
              (case worker_run H process ticks sequence (wk\<lparr> wk_client := cp_client cp \<rparr>) of
                 (wk1, Inl code) \<Rightarrow> (Some wk1, app_rejected code [])
               | (wk1, Inr _) \<Rightarrow> (Some wk1, app_done (done_line wk1)))))"

section \<open>A process that is ready\<close>

lemma coordinator_start_with:
  assumes "coordinator_start io env file c = (c1, Inr u)"
  obtains j where "start_with env (Inr j) c = (c1, Inr u)"
  using assms
  by (cases "opened (journal_open io (cfg_persistence_path (co_config c)) (co_limits c) file)")
     (auto simp: coordinator_start_def start_in_memory_def start_with_def Let_def split: if_splits)

lemma start_with_started: "start_with env r c = (c1, Inr u) \<Longrightarrow> co_started c1"
  by (auto simp: start_with_def split: if_splits sum.splits prod.splits)

text \<open>
  A process that has printed its readiness line serves: it listens, its coordinator is started, nobody is
  connected, no message is authoritative, and the loss of a connection will fence its workers.
\<close>

theorem ready_process_is_fenced:
  assumes "coordinator_boot bits listen io env files args = Inr (sp, line)"
  shows "sp_running sp \<and> sv_connections (sp_server sp) = [] \<and> sv_fence_on_disconnect (sp_server sp)
    \<and> \<not> sv_stopping (sp_server sp) \<and> co_started (sv_coordinator (sp_server sp))
    \<and> (\<forall>au. \<not> is_ok (check_authority (co_state (sv_coordinator (sp_server sp))) au))"
proof -
  obtain op c u where boot: "coordinator_start io env (files (op_persistence op)) (new_coordinator (coordinator_config_of op)) = (c, Inr u)"
      "start_server (listen (op_port op)) (idle_process c) = (sp, Inr u)"
    using assms by (auto simp: coordinator_boot_def split: sum.splits prod.splits)
  obtain j where "start_with env (Inr j) (new_coordinator (coordinator_config_of op)) = (c, Inr u)"
    by (rule coordinator_start_with [OF boot(1)])
  note fenced = start_with_started [OF this] start_clears [OF this]
  have "sp_running sp \<and> sp_server sp = (sp_server (idle_process c))\<lparr> sv_stopping := False \<rparr>"
    using boot(2) by (auto simp: start_server_def idle_process_def split: if_splits sum.splits prod.splits listen_outcome.splits)
  then show ?thesis
    using fenced by (simp add: idle_process_def new_server_def)
qed

text \<open>Options that were accepted name a port and a critic.\<close>

lemma worker_options_usable:
  "parse_worker_options bits args = Inr wo \<Longrightarrow> wo_port wo \<noteq> 0 \<and> id_valid (wc_critic (wo_config wo))"
  by (auto simp: parse_worker_options_def split: sum.splits if_splits)

end
