(* ===== verification/CF_Harness.thy ===== *)
theory CF_Harness
  imports CF_Processes CF_Commit
begin

text \<open>
  The harness of the example programs (\<open>examples/example_support.hpp\<close>): a coordinator in the process of
  the program, with operations that end the program when the coordinator refuses.

  A program is a function of the harness that either ends, with what it printed and its exit code, or goes on
  with a value. The machine it runs on gives the hash and the file system (\<open>env\<close>), the identity of the
  process and the clock; the two static counters of the sources, the one of \<open>Harness::declare\<close> and the one of
  \<open>generate_worker_boot_id\<close>, are fields of the harness.
\<close>

section \<open>Programs\<close>

record machine =
  mc_env :: env
  mc_process :: u64
  mc_clock :: "u64 \<Rightarrow> u64"

record harness =
  ha_coordinator :: coordinator
  ha_requests :: u64
  ha_boots :: u64
  ha_out :: string

text \<open>What goes to standard error before an exit with 1: the status of a refusal, or a text of the program.\<close>

datatype complaint = Refused error_code | Unmet string

record program_end =
  pe_out :: string
  pe_complaint :: "complaint option"
  pe_exit :: int

type_synonym 'a scene = "harness \<Rightarrow> program_end + 'a \<times> harness"

definition scene_return :: "'a \<Rightarrow> 'a scene" where
  "scene_return x h = Inr (x, h)"

definition scene_bind :: "'a scene \<Rightarrow> ('a \<Rightarrow> 'b scene) \<Rightarrow> 'b scene" where
  "scene_bind m k h = (case m h of Inl r \<Rightarrow> Inl r | Inr (x, h1) \<Rightarrow> k x h1)"

text \<open>A loop that runs a scene for every element, and one that collects what the scenes return.\<close>

fun scene_each :: "('x \<Rightarrow> 'a scene) \<Rightarrow> 'x list \<Rightarrow> 'a list scene" where
  "scene_each body [] = scene_return []"
| "scene_each body (x # xs) =
    scene_bind (body x) (\<lambda>y. scene_bind (scene_each body xs) (\<lambda>ys. scene_return (y # ys)))"

definition say :: "string list \<Rightarrow> unit scene" where
  "say parts h = Inr ((), h\<lparr> ha_out := ha_out h @ concat parts \<rparr>)"

definition fails :: "complaint option \<Rightarrow> 'a scene" where
  "fails complaint h = Inl \<lparr> pe_out = ha_out h, pe_complaint = complaint, pe_exit = 1 \<rparr>"

text \<open>An operation whose result is looked at, one that only reads, and one that ends the program when refused.\<close>

definition tried :: "(coordinator \<Rightarrow> coordinator \<times> 'a result) \<Rightarrow> 'a result scene" where
  "tried operation h = (case operation (ha_coordinator h) of (c, r) \<Rightarrow> Inr (r, h\<lparr> ha_coordinator := c \<rparr>))"

definition needed_or ::
  "(error_code \<Rightarrow> complaint option) \<Rightarrow> (coordinator \<Rightarrow> coordinator \<times> 'a result) \<Rightarrow> 'a scene" where
  "needed_or complaint operation = scene_bind (tried operation) (\<lambda>r.
     case r of Inl err \<Rightarrow> fails (complaint err) | Inr x \<Rightarrow> scene_return x)"

text \<open>\<open>require(result.ok(), result.status())\<close>, for operations and for queries.\<close>

definition needed :: "(coordinator \<Rightarrow> coordinator \<times> 'a result) \<Rightarrow> 'a scene" where
  "needed = needed_or (\<lambda>err. Some (Refused err))"

definition observed :: "(coordinator \<Rightarrow> 'a result) \<Rightarrow> 'a scene" where
  "observed query = needed (\<lambda>c. (c, query c))"

text \<open>\<open>require\<close> with a text, and the return from \<open>main\<close>.\<close>

definition demand :: "string \<Rightarrow> bool \<Rightarrow> unit scene" where
  "demand what condition = (if condition then scene_return () else fails (Some (Unmet what)))"

definition exit_with :: "bool \<Rightarrow> program_end scene" where
  "exit_with good h = Inl \<lparr> pe_out = ha_out h, pe_complaint = None, pe_exit = (if good then 0 else 1) \<rparr>"

definition outcome_of_scene :: "program_end + program_end \<times> harness \<Rightarrow> program_end" where
  "outcome_of_scene r = (case r of Inl result \<Rightarrow> result | Inr (result, _) \<Rightarrow> result)"

definition banner :: "string \<Rightarrow> string" where
  "banner title = concat [''=== '', title, '' ==='', newline]"

section \<open>The harness\<close>

definition make_config :: "bool \<Rightarrow> string \<Rightarrow> coordinator_config" where
  "make_config durable path =
    \<lparr> cfg_limits = default_limits, cfg_persistence_path = (if durable then path else []),
      cfg_coordinator_id = 0, cfg_process_label = ''example-coordinator'' \<rparr>"

text \<open>The constructor starts the coordinator; \<open>found\<close> is what lies under the path.\<close>

definition in_memory_io :: open_io where
  "in_memory_io = \<lparr> oi_create = True, oi_read = True, oi_reopen = True \<rparr>"

definition new_harness :: "open_io \<Rightarrow> env \<Rightarrow> bool \<Rightarrow> string \<Rightarrow> bytes option \<Rightarrow> unit scene" where
  "new_harness io env durable path found =
    needed (\<lambda>_. coordinator_start io env found (new_coordinator (make_config durable path)))"

definition fresh_harness :: "string \<Rightarrow> harness" where
  "fresh_harness out =
    \<lparr> ha_coordinator = new_coordinator (make_config False []), ha_requests = 1, ha_boots = 0, ha_out = out \<rparr>"

text \<open>An example without a journal file: the banner, a coordinator in memory, and the scene.\<close>

definition in_memory_example :: "machine \<Rightarrow> string \<Rightarrow> program_end scene \<Rightarrow> program_end" where
  "in_memory_example mc title scene = outcome_of_scene (scene_bind
     (new_harness in_memory_io (mc_env mc) False [] None)
     (\<lambda>_. scene) (fresh_harness (banner title)))"

definition epoch_of :: "coordinator \<Rightarrow> coordinator_epoch" where
  "epoch_of c = du_epoch (co_state c)"

definition target_request :: "target_class \<Rightarrow> string \<Rightarrow> coordinator_epoch \<Rightarrow> register_target_request" where
  "target_request cls payload epoch =
    \<lparr> rt_id = 0, rt_target_class = cls, rt_schema_name = ''example/claim'', rt_payload = string_bytes payload,
      rt_producer = 0, rt_producer_version = [], rt_provenance = ''example-harness'', rt_reviewable = True,
      rt_epoch = epoch, rt_request = 0 \<rparr>"

definition make_target :: "machine \<Rightarrow> string \<Rightarrow> target_class \<Rightarrow> target_record scene" where
  "make_target mc payload cls =
    needed (\<lambda>c. register_target (mc_env mc) (target_request cls payload (epoch_of c)) c)"

record example_critic =
  xc_id :: critic_id
  xc_generation :: critic_generation
  xc_worker :: worker_id
  xc_boot :: worker_boot_id

definition empty_compat :: compatibility where
  "empty_compat = \<lparr> cp_schema_name = [], cp_producer_version = [] \<rparr>"

definition next_boot :: "machine \<Rightarrow> string \<Rightarrow> worker_boot_id scene" where
  "next_boot mc label h =
    (let n = ha_boots h in
     Inr (generate_worker_boot_id (env_hash (mc_env mc)) (mc_process mc) (mc_clock mc n) n label,
          h\<lparr> ha_boots := n + 1 \<rparr>))"

definition example_critic_request :: "hash_fun \<Rightarrow> synthetic_config \<Rightarrow> coordinator_epoch \<Rightarrow> register_critic_request" where
  "example_critic_request H synthetic epoch =
    \<lparr> rc_id = 0, rc_capability = synthetic_critic_capability H synthetic, rc_registrant = 0,
      rc_provenance = ''example-harness'', rc_compat = empty_compat, rc_advance_generation = False,
      rc_epoch = epoch, rc_request = 0 \<rparr>"

definition example_worker_request ::
  "worker_boot_id \<Rightarrow> critic_registration \<Rightarrow> coordinator_epoch \<Rightarrow> register_worker_request" where
  "example_worker_request boot critic epoch =
    \<lparr> rw_id = 0, rw_boot = boot, rw_critic = c_id critic, rw_critic_generation = c_generation critic, rw_host = 0,
      rw_process_label = ''example-worker'', rw_epoch = epoch, rw_request = 0 \<rparr>"

definition example_readiness ::
  "hash_fun \<Rightarrow> synthetic_config \<Rightarrow> example_critic \<Rightarrow> coordinator_epoch \<Rightarrow> declare_readiness_request" where
  "example_readiness H synthetic xc epoch =
    \<lparr> dr_id = xc_worker xc, dr_boot = xc_boot xc, dr_critic = xc_id xc, dr_critic_generation = xc_generation xc,
      dr_ready = True, dr_healthy = True, dr_capability_evidence = synthetic_capability_evidence H synthetic,
      dr_epoch = epoch, dr_request = 0 \<rparr>"

definition make_critic :: "machine \<Rightarrow> critic_role \<Rightarrow> synthetic_behavior \<Rightarrow> finding_category \<Rightarrow> example_critic scene" where
  "make_critic mc role behavior category =
    (let env = mc_env mc; H = env_hash env;
         synthetic = default_synthetic_config\<lparr> sy_role := role, sy_behavior := behavior, sy_category := category \<rparr> in
     scene_bind (needed (\<lambda>c. register_critic env (example_critic_request H synthetic (epoch_of c)) c)) (\<lambda>critic.
     scene_bind (next_boot mc ''example-worker'') (\<lambda>boot.
     scene_bind (needed (\<lambda>c. register_worker env (example_worker_request boot critic (epoch_of c)) c)) (\<lambda>worker.
     let xc = \<lparr> xc_id = c_id critic, xc_generation = c_generation critic, xc_worker = w_id worker, xc_boot = boot \<rparr> in
     scene_bind (tried (\<lambda>c. declare_readiness env (example_readiness H synthetic xc (epoch_of c)) c)) (\<lambda>ready.
     case ready of
       Inl _ \<Rightarrow> fails (Some (Refused E_InternalError))
     | Inr _ \<Rightarrow> scene_return xc)))))"

definition example_assignments :: "(example_critic \<times> critic_role) list \<Rightarrow> requested_assignment list" where
  "example_assignments critics = map (\<lambda>(xc, role).
     \<lparr> ra_critic = xc_id xc, ra_critic_generation = xc_generation xc, ra_worker = xc_worker xc,
       ra_worker_boot = xc_boot xc, ra_role = role, ra_required = False \<rparr>) critics"

definition assign_all :: "machine \<Rightarrow> review_record \<Rightarrow> (example_critic \<times> critic_role) list \<Rightarrow> critic_assignment list scene" where
  "assign_all mc review critics = needed (\<lambda>c. assign_critics (mc_env mc)
     \<lparr> ac_review = r_id review, ac_review_generation = r_generation review,
       ac_assignments = example_assignments critics, ac_epoch = epoch_of c, ac_request = 0 \<rparr> c)"

definition example_evidence ::
  "critic_assignment \<Rightarrow> example_critic \<Rightarrow> synthetic_output \<Rightarrow> coordinator_epoch \<Rightarrow> submit_evidence_request" where
  "example_evidence a xc so epoch =
    \<lparr> se_source_type = so_source_type so, se_provenance = so_provenance so, se_integrity = Integ_Verified,
      se_producer = 0, se_reference = ''example-witness'', se_payload = so_evidence_payload so, se_finding = 0,
      se_epoch = epoch, se_request = a_id a * 2, se_review = a_review a,
      se_review_generation = a_review_generation a, se_target = a_target a,
      se_target_generation = a_target_generation a, se_critic = xc_id xc, se_critic_generation = xc_generation xc,
      se_worker = xc_worker xc, se_worker_boot = xc_boot xc \<rparr>"

definition no_confidence :: confidence where
  "no_confidence = \<lparr> cf_provided = False, cf_basis_points = 0, cf_basis = CB_NotProvided \<rparr>"

definition example_finding ::
  "critic_assignment \<Rightarrow> example_critic \<Rightarrow> synthetic_output \<Rightarrow> evidence_id \<Rightarrow> string \<Rightarrow> coordinator_epoch
   \<Rightarrow> submit_finding_request" where
  "example_finding a xc so evidence explanation epoch =
    \<lparr> sf_category = so_category so, sf_severity = so_severity so, sf_outcome = so_outcome so,
      sf_evidence = [evidence], sf_explanation = explanation, sf_confidence = no_confidence,
      sf_provenance = ''example-harness'', sf_supersedes = 0, sf_epoch = epoch, sf_request = a_id a * 2 + 1,
      sf_review = a_review a, sf_review_generation = a_review_generation a, sf_target = a_target a,
      sf_target_generation = a_target_generation a, sf_critic = xc_id xc, sf_critic_generation = xc_generation xc,
      sf_worker = xc_worker xc, sf_worker_boot = xc_boot xc \<rparr>"

definition publish_assessment ::
  "machine \<Rightarrow> critic_assignment \<Rightarrow> target_record \<Rightarrow> example_critic \<Rightarrow> synthetic_behavior \<Rightarrow> string \<Rightarrow> finding scene" where
  "publish_assessment mc a target xc behavior explanation =
    (let env = mc_env mc;
         synthetic = default_synthetic_config\<lparr> sy_critic := xc_id xc, sy_behavior := behavior \<rparr>;
         so = run_synthetic_critic (env_hash env) synthetic (xc_generation xc) target in
     scene_bind (needed (\<lambda>c. submit_evidence env (example_evidence a xc so (epoch_of c)) c)) (\<lambda>evidence.
     needed (\<lambda>c. submit_finding env (example_finding a xc so (e_id evidence) explanation (epoch_of c)) c)))"

definition default_explanation :: string where
  "default_explanation = ''synthetic reference assessment''"

definition declare_example :: "machine \<Rightarrow> target_record \<Rightarrow> review_spec \<Rightarrow> review_record scene" where
  "declare_example mc target spec h =
    needed (\<lambda>c. declare_review (mc_env mc)
      \<lparr> dv_request = ha_requests h, dv_target = t_id target, dv_target_generation = t_generation target,
        dv_spec = spec, dv_epoch = epoch_of c \<rparr> c) (h\<lparr> ha_requests := ha_requests h + 1 \<rparr>)"

definition example_commit :: "review_id \<Rightarrow> review_generation \<Rightarrow> target_generation \<Rightarrow> coordinator_epoch \<Rightarrow> commit_review_request" where
  "example_commit review generation target_generation epoch =
    \<lparr> cm_review = review, cm_review_generation = generation, cm_target_generation = target_generation,
      cm_epoch = epoch, cm_request = 0, cm_include_rendered_explanation = False \<rparr>"

definition commit_example :: "machine \<Rightarrow> review_record \<Rightarrow> decision scene" where
  "commit_example mc review = needed (\<lambda>c. commit_review (mc_env mc)
     (example_commit (r_id review) (r_generation review) (r_target_generation review) (epoch_of c)) c)"

definition show_decision :: "decision \<Rightarrow> string \<Rightarrow> unit scene" where
  "show_decision d label = say [label, '': disposition='', review_disposition_name (d_disposition d), '' digest='',
     take 16 (digest_to_hex (d_decision_digest d)), newline]"

end
