(* ===== verification/CF_Examples.thy ===== *)
theory CF_Examples
  imports CF_Harness
begin

text \<open>
  The example programs (\<open>examples/*.cpp\<close>), statement by statement: each is a scene over the harness that
  ends with its output and exit code.
\<close>

section \<open>Agreement\<close>

definition single_critic :: "machine \<Rightarrow> program_end" where
  "single_critic mc = in_memory_example mc ''single critic PASS''
    (scene_bind (make_target mc ''the artifact compiles and links'' TC_Claim) (\<lambda>target.
     scene_bind (declare_example mc target
       (default_review_spec\<lparr> sp_required_roles := [Role_CorrectnessVerifier] \<rparr>)) (\<lambda>review.
     scene_bind (make_critic mc Role_CorrectnessVerifier SB_Pass Cat_Correctness) (\<lambda>critic.
     scene_bind (assign_all mc review [(critic, Role_CorrectnessVerifier)]) (\<lambda>assignments.
     scene_bind (publish_assessment mc (hd assignments) target critic SB_Pass default_explanation) (\<lambda>f.
     scene_bind (say [''finding #'', dec64 (f_id f), '' outcome='', finding_outcome_name (f_outcome f),
       '' severity='', severity_name (f_severity f), '' evidence='', count_text (f_evidence f), newline]) (\<lambda>_.
     scene_bind (commit_example mc review) (\<lambda>d.
     scene_bind (show_decision d ''committed'') (\<lambda>_.
     scene_bind (observed (explain_review (env_hash (mc_env mc)) (r_id review))) (\<lambda>ex.
     scene_bind (say [''quorum: '', c_str (q_basis (ex_quorum ex)), newline,
       ''explanation digest: '', take 16 (digest_to_hex (ex_explanation_digest ex)), newline]) (\<lambda>_.
     exit_with (d_disposition d = RD_Pass))))))))))))"

definition multi_critic :: "machine \<Rightarrow> program_end" where
  "multi_critic mc = in_memory_example mc ''multiple critics agree''
    (scene_bind (make_target mc ''three independent verifications agree'' TC_Claim) (\<lambda>target.
     scene_bind (declare_example mc target
       (default_review_spec\<lparr> sp_required_roles := [Role_CorrectnessVerifier, Role_SchemaVerifier],
          sp_optional_roles := [Role_GeneralCritic], sp_min_critic_count := 3, sp_required_critic_count := 2,
          sp_quorum := 3 \<rparr>)) (\<lambda>review.
     scene_bind (make_critic mc Role_CorrectnessVerifier SB_Pass Cat_Correctness) (\<lambda>first.
     scene_bind (make_critic mc Role_SchemaVerifier SB_Pass Cat_Correctness) (\<lambda>second.
     scene_bind (make_critic mc Role_GeneralCritic SB_Pass Cat_Correctness) (\<lambda>third.
     scene_bind (assign_all mc review [(first, Role_CorrectnessVerifier), (second, Role_SchemaVerifier),
       (third, Role_GeneralCritic)]) (\<lambda>assignments.
     scene_bind (scene_each (\<lambda>i. publish_assessment mc (assignments ! i) target
           (if i = 0 then first else if i = 1 then second else third) SB_Pass default_explanation)
         [0..<length assignments]) (\<lambda>_.
     scene_bind (commit_example mc review) (\<lambda>d.
     scene_bind (show_decision d ''committed'') (\<lambda>_.
     scene_bind (observed (explain_review (env_hash (mc_env mc)) (r_id review))) (\<lambda>ex.
     scene_bind (say [''contributors: '', count_text (ex_contributors ex), '', quorum satisfied: '',
       bit_text (q_satisfied (ex_quorum ex)), newline]) (\<lambda>_.
     exit_with (d_disposition d = RD_Pass)))))))))))))"

definition disagreement_example :: "machine \<Rightarrow> program_end" where
  "disagreement_example mc = in_memory_example mc ''critics disagree''
    (scene_bind (make_target mc ''one verifier passes, another asserts failure'' TC_Claim) (\<lambda>target.
     scene_bind (declare_example mc target
       (default_review_spec\<lparr> sp_min_critic_count := 2, sp_quorum := 2, sp_aggregation := Agg_QuorumPass,
          sp_disagreement := Dis_ReportAndFail, sp_max_critical_fails := 1 \<rparr>)) (\<lambda>review.
     scene_bind (make_critic mc Role_GeneralCritic SB_Pass Cat_Correctness) (\<lambda>yes.
     scene_bind (make_critic mc Role_GeneralCritic SB_Fail Cat_Correctness) (\<lambda>no.
     scene_bind (assign_all mc review [(yes, Role_GeneralCritic), (no, Role_GeneralCritic)]) (\<lambda>assignments.
     scene_bind (publish_assessment mc (assignments ! 0) target yes SB_Pass default_explanation) (\<lambda>_.
     scene_bind (publish_assessment mc (assignments ! 1) target no SB_Fail default_explanation) (\<lambda>_.
     scene_bind (commit_example mc review) (\<lambda>d.
     scene_bind (show_decision d ''committed'') (\<lambda>_.
     scene_bind (observed (explain_review (env_hash (mc_env mc)) (r_id review))) (\<lambda>ex.
     scene_bind (say ([''disagreement present: '', bit_text (dg_present (ex_disagreement ex)),
         '', conflicting pairs: '', count_text (dg_conflicting_pairs (ex_disagreement ex)), newline]
       @ map (\<lambda>pair. concat [''  pair: '', c_str pair, newline]) (dg_conflicting_pairs (ex_disagreement ex)))) (\<lambda>_.
     exit_with (d_disposition d = RD_Disagreement)))))))))))))"

definition quorum_and_abstention :: "machine \<Rightarrow> program_end" where
  "quorum_and_abstention mc = in_memory_example mc ''required critic and abstention''
    (scene_bind (make_target mc ''one required verifier abstains'' TC_Claim) (\<lambda>target.
     scene_bind (declare_example mc target
       (default_review_spec\<lparr> sp_min_critic_count := 2, sp_quorum := 2 \<rparr>)) (\<lambda>review.
     scene_bind (make_critic mc Role_GeneralCritic SB_Pass Cat_Correctness) (\<lambda>verifier.
     scene_bind (make_critic mc Role_GeneralCritic SB_Abstain Cat_Correctness) (\<lambda>abstainer.
     scene_bind (assign_all mc review [(verifier, Role_GeneralCritic), (abstainer, Role_GeneralCritic)]) (\<lambda>assignments.
     scene_bind (publish_assessment mc (assignments ! 0) target verifier SB_Pass default_explanation) (\<lambda>_.
     scene_bind (publish_assessment mc (assignments ! 1) target abstainer SB_Abstain default_explanation) (\<lambda>_.
     scene_bind (commit_example mc review) (\<lambda>d.
     scene_bind (show_decision d ''committed'') (\<lambda>_.
     scene_bind (say [''an abstention never counts towards a PASS; disposition is '',
       review_disposition_name (d_disposition d), newline]) (\<lambda>_.
     exit_with (d_disposition d \<noteq> RD_Pass))))))))))))"

section \<open>Fencing\<close>

text \<open>A finding that relies on the defaults of its request for everything but the authority it names.\<close>

definition late_finding ::
  "review_record \<Rightarrow> target_record \<Rightarrow> example_critic \<Rightarrow> string \<Rightarrow> coordinator_epoch \<Rightarrow> submit_finding_request" where
  "late_finding review target xc explanation epoch =
    \<lparr> sf_category = Cat_Other, sf_severity = Sev_Info, sf_outcome = Out_Pass, sf_evidence = [],
      sf_explanation = explanation, sf_confidence = no_confidence, sf_provenance = [], sf_supersedes = 0,
      sf_epoch = epoch, sf_request = 0, sf_review = r_id review, sf_review_generation = r_generation review,
      sf_target = t_id target, sf_target_generation = t_generation target, sf_critic = xc_id xc,
      sf_critic_generation = xc_generation xc, sf_worker = xc_worker xc, sf_worker_boot = xc_boot xc \<rparr>"

definition code_of :: "'a result \<Rightarrow> error_code" where
  "code_of r = (case r of Inl err \<Rightarrow> err | Inr _ \<Rightarrow> E_Ok)"

definition cancellation :: "machine \<Rightarrow> program_end" where
  "cancellation mc = in_memory_example mc ''cancellation''
    (scene_bind (make_target mc ''review cancelled while a critic is active'' TC_Claim) (\<lambda>target.
     scene_bind (declare_example mc target
       (default_review_spec\<lparr> sp_min_critic_count := 2, sp_quorum := 2 \<rparr>)) (\<lambda>review.
     scene_bind (make_critic mc Role_GeneralCritic SB_Pass Cat_Correctness) (\<lambda>first.
     scene_bind (make_critic mc Role_GeneralCritic SB_Pass Cat_Correctness) (\<lambda>second.
     scene_bind (assign_all mc review [(first, Role_GeneralCritic), (second, Role_GeneralCritic)]) (\<lambda>assignments.
     scene_bind (publish_assessment mc (assignments ! 0) target first SB_Pass default_explanation) (\<lambda>_.
     scene_bind (needed (\<lambda>c. cancel_review (mc_env mc)
       \<lparr> cn_review = r_id review, cn_review_generation = r_generation review,
         cn_reason = ''superseded by an operator decision'', cn_epoch = epoch_of c, cn_request = 0 \<rparr> c)) (\<lambda>cancelled.
     scene_bind (say [''review state '', review_state_name (r_state cancelled), newline]) (\<lambda>_.
     scene_bind (tried (\<lambda>c. submit_finding (mc_env mc) (late_finding review target second [] (epoch_of c)) c)) (\<lambda>late.
     scene_bind (demand ''late findings after cancellation must be rejected''
       (\<not> is_ok late)) (\<lambda>_.
     scene_bind (say [''late finding rejected with '', error_code_name (code_of late), newline]) (\<lambda>_.
     scene_bind (tried (\<lambda>c. commit_review (mc_env mc)
       (example_commit (r_id review) (r_generation review) (t_generation target) (epoch_of c)) c)) (\<lambda>commit_attempt.
     scene_bind (demand ''a cancelled review must not commit a success''
       (\<not> is_ok commit_attempt)) (\<lambda>_.
     scene_bind (say [''commit rejected with '', error_code_name (code_of commit_attempt), newline]) (\<lambda>_.
     exit_with (code_of late = E_ReviewCancelled))))))))))))))))"

definition target_supersession_example :: "machine \<Rightarrow> program_end" where
  "target_supersession_example mc = in_memory_example mc ''target supersession''
    (scene_bind (make_target mc ''revision one'' TC_Claim) (\<lambda>target.
     scene_bind (declare_example mc target default_review_spec) (\<lambda>review.
     scene_bind (make_critic mc Role_GeneralCritic SB_Pass Cat_Correctness) (\<lambda>critic.
     scene_bind (assign_all mc review [(critic, Role_GeneralCritic)]) (\<lambda>assignments.
     scene_bind (publish_assessment mc (hd assignments) target critic SB_Pass default_explanation) (\<lambda>_.
     scene_bind (needed (\<lambda>c. register_target (mc_env mc)
       ((target_request (t_target_class target) ''revision two'' (epoch_of c))
          \<lparr> rt_id := t_id target, rt_schema_name := t_schema_name target \<rparr>) c)) (\<lambda>advanced.
     scene_bind (say [''target generation advanced '', dec64 (t_generation target), '' -> '',
       dec64 (t_generation advanced), newline]) (\<lambda>_.
     scene_bind (observed (query_review (env_hash (mc_env mc)) (r_id review))) (\<lambda>snapshot.
     scene_bind (say [''review state is now '', review_state_name (r_state (sn_review snapshot)),
       '', authority_current='', bit_text (r_authority_current (sn_review snapshot)), newline]) (\<lambda>_.
     scene_bind (tried (\<lambda>c. submit_finding (mc_env mc)
       (late_finding review target critic ''late finding against a superseded target generation'' (epoch_of c)) c)) (\<lambda>rejected.
     scene_bind (demand ''a stale finding must be rejected''
       (\<not> is_ok rejected)) (\<lambda>_.
     scene_bind (say [''late finding rejected with '', error_code_name (code_of rejected), newline]) (\<lambda>_.
     scene_bind (tried (\<lambda>c. commit_review (mc_env mc)
       (example_commit (r_id review) (r_generation review) (t_generation target) (epoch_of c)) c)) (\<lambda>commit_attempt.
     scene_bind (demand ''a superseded review must not commit''
       (\<not> is_ok commit_attempt)) (\<lambda>_.
     scene_bind (say [''commit rejected with '', error_code_name (code_of commit_attempt), newline]) (\<lambda>_.
     exit_with (code_of rejected = E_StaleTargetGeneration \<or> code_of rejected = E_ReviewSuperseded
       \<or> code_of rejected = E_TargetSuperseded)))))))))))))))))"

definition replacement_request :: "hash_fun \<Rightarrow> synthetic_config \<Rightarrow> critic_id \<Rightarrow> bool \<Rightarrow> coordinator_epoch \<Rightarrow> register_critic_request" where
  "replacement_request H synthetic i advancing epoch =
    \<lparr> rc_id = i, rc_capability = synthetic_critic_capability H synthetic, rc_registrant = 0, rc_provenance = [],
      rc_compat = empty_compat, rc_advance_generation = advancing, rc_epoch = epoch, rc_request = 0 \<rparr>"

definition critic_replacement :: "machine \<Rightarrow> program_end" where
  "critic_replacement mc = (let env = mc_env mc; H = env_hash env;
       first_config = default_synthetic_config\<lparr> sy_role := Role_GeneralCritic, sy_behavior := SB_Pass \<rparr> in
     in_memory_example mc ''critic replacement''
    (scene_bind (make_target mc ''critic implementation replaced mid review'' TC_Claim) (\<lambda>target.
     scene_bind (needed (\<lambda>c. register_critic env (replacement_request H first_config 0 False (epoch_of c)) c)) (\<lambda>first.
     scene_bind (say [''critic '', dec64 (c_id first), '' registered at generation '', dec64 (c_generation first),
       newline]) (\<lambda>_.
     scene_bind (needed (\<lambda>c. register_critic env (replacement_request H
       (first_config\<lparr> sy_implementation_version := ''2.0.0'' \<rparr>) (c_id first) True (epoch_of c)) c)) (\<lambda>second.
     scene_bind (say [''critic generation advanced '', dec64 (c_generation first), '' -> '',
       dec64 (c_generation second), newline]) (\<lambda>_.
     scene_bind (declare_example mc target default_review_spec) (\<lambda>review.
     scene_bind (tried (\<lambda>c. assign_critics env
       \<lparr> ac_review = r_id review, ac_review_generation = r_generation review,
         ac_assignments = [\<lparr> ra_critic = c_id first, ra_critic_generation = c_generation first, ra_worker = 1,
           ra_worker_boot = 1, ra_role = Role_GeneralCritic, ra_required = False \<rparr>],
         ac_epoch = epoch_of c, ac_request = 0 \<rparr> c)) (\<lambda>rejected.
     scene_bind (demand ''a retired critic generation must not be assignable''
       (\<not> is_ok rejected)) (\<lambda>_.
     scene_bind (say [''assignment of the retired generation rejected with '', error_code_name (code_of rejected),
       newline]) (\<lambda>_.
     exit_with (code_of rejected = E_StaleCriticGeneration))))))))))))"

section \<open>Challenge and recovery\<close>

definition example_challenge ::
  "finding \<Rightarrow> review_record \<Rightarrow> target_record \<Rightarrow> example_critic \<Rightarrow> coordinator_epoch \<Rightarrow> submit_challenge_request" where
  "example_challenge f review target xc epoch =
    \<lparr> sc_challenged_finding = f_id f, sc_challenged_finding_generation = f_generation f,
      sc_disputed_predicate = ''evidence.content_digest'',
      sc_rationale = ''the witness digest does not cover the schema name'', sc_evidence = [], sc_epoch = epoch,
      sc_request = 0, sc_review = r_id review, sc_review_generation = r_generation review,
      sc_target = t_id target, sc_target_generation = t_generation target, sc_critic = xc_id xc,
      sc_critic_generation = xc_generation xc, sc_worker = xc_worker xc, sc_worker_boot = xc_boot xc \<rparr>"

definition example_rebuttal ::
  "challenge \<Rightarrow> review_record \<Rightarrow> target_record \<Rightarrow> example_critic \<Rightarrow> coordinator_epoch \<Rightarrow> submit_rebuttal_request" where
  "example_rebuttal ch review target xc epoch =
    \<lparr> sr_challenge = ch_id ch, sr_challenge_generation = ch_generation ch, sr_outcome = ChO_Upheld,
      sr_argument = ''the witness digest covers the payload and the declared schema digest'', sr_evidence = [],
      sr_epoch = epoch, sr_request = 0, sr_review = r_id review, sr_review_generation = r_generation review,
      sr_target = t_id target, sr_target_generation = t_generation target, sr_critic = xc_id xc,
      sr_critic_generation = xc_generation xc, sr_worker = xc_worker xc, sr_worker_boot = xc_boot xc \<rparr>"

definition challenge_rebuttal :: "machine \<Rightarrow> program_end" where
  "challenge_rebuttal mc = in_memory_example mc ''challenge and rebuttal''
    (scene_bind (make_target mc ''a finding is challenged and upheld'' TC_Claim) (\<lambda>target.
     scene_bind (declare_example mc target
       (default_review_spec\<lparr> sp_challenges := ChP_AllowOneRound, sp_max_challenge_rounds := 1 \<rparr>)) (\<lambda>review.
     scene_bind (make_critic mc Role_GeneralCritic SB_Pass Cat_Correctness) (\<lambda>author.
     scene_bind (make_critic mc Role_GeneralCritic SB_Fail Cat_Correctness) (\<lambda>challenger.
     scene_bind (assign_all mc review [(author, Role_GeneralCritic), (challenger, Role_GeneralCritic)]) (\<lambda>assignments.
     scene_bind (publish_assessment mc (assignments ! 0) target author SB_Pass default_explanation) (\<lambda>f.
     scene_bind (needed (\<lambda>c. submit_challenge (mc_env mc) (example_challenge f review target challenger (epoch_of c)) c)) (\<lambda>ch.
     scene_bind (say [''challenge #'', dec64 (ch_id ch), '' round '', dec64 (ch_generation ch), '' raised'', newline]) (\<lambda>_.
     scene_bind (needed (\<lambda>c. submit_rebuttal (mc_env mc) (example_rebuttal ch review target author (epoch_of c)) c)) (\<lambda>rb.
     scene_bind (say [''rebuttal #'', dec64 (rb_id rb), '' resolved as '', challenge_outcome_name (ch_outcome ch), newline]) (\<lambda>_.
     scene_bind (observed (query_review (env_hash (mc_env mc)) (r_id review))) (\<lambda>snapshot.
     scene_bind (say (map (\<lambda>current. concat [''finding #'', dec64 (f_id current), '' is now '',
       finding_state_name (f_state current), newline]) (sn_findings snapshot))) (\<lambda>_.
     exit_with True)))))))))))))"

text \<open>
  The recovery example stops a coordinator in the middle of a review and starts another from its journal.
  \<open>found\<close> is the file at the path before the program; without an argument the path is the default one.
\<close>

definition recovery_path :: "string option \<Rightarrow> string" where
  "recovery_path argument = (case argument of None \<Rightarrow> ''critic_fabric_example_recovery.journal'' | Some p \<Rightarrow> p)"

definition recovery_first :: "open_io \<Rightarrow> machine \<Rightarrow> string \<Rightarrow> bytes option \<Rightarrow> (coordinator_epoch \<times> target_id \<times> review_id) scene" where
  "recovery_first io mc path found =
    scene_bind (new_harness io (mc_env mc) True path found) (\<lambda>_.
    scene_bind (observed (\<lambda>c. Inr (epoch_of c))) (\<lambda>first_epoch.
    scene_bind (make_target mc ''review in flight when the coordinator stops'' TC_Claim) (\<lambda>target.
    scene_bind (declare_example mc target default_review_spec) (\<lambda>review.
    scene_bind (make_critic mc Role_GeneralCritic SB_Pass Cat_Correctness) (\<lambda>critic.
    scene_bind (assign_all mc review [(critic, Role_GeneralCritic)]) (\<lambda>assignments.
    scene_bind (publish_assessment mc (hd assignments) target critic SB_Pass default_explanation) (\<lambda>_.
    scene_bind (say [''first coordinator epoch '', dec64 first_epoch, '' wrote durable state'', newline]) (\<lambda>_.
    scene_bind (tried stop) (\<lambda>_.
    scene_return (first_epoch, t_id target, r_id review))))))))))"

definition recovery_second ::
  "open_io \<Rightarrow> machine \<Rightarrow> string \<Rightarrow> coordinator_epoch \<Rightarrow> target_id \<Rightarrow> review_id \<Rightarrow> program_end scene" where
  "recovery_second io mc path first_epoch target review h0 =
    scene_bind (new_harness io (mc_env mc) True path (Some (jn_disk (co_journal (ha_coordinator h0))))) (\<lambda>_.
    scene_bind (observed Inr) (\<lambda>c.
    let report = co_recovery c; second_epoch = epoch_of c in
    scene_bind (say [''restarted coordinator epoch '', dec64 second_epoch, '' (advanced: '',
      bit_text (first_epoch < second_epoch), '')'', newline,
      ''recovered reviews '', dec32 (rr_reviews_recovered report), '', moved to revalidation '',
      dec32 (rr_reviews_moved_to_revalidation report), '', dynamic authority cleared '',
      dec32 (rr_dynamic_authority_cleared report), newline]) (\<lambda>_.
    scene_bind (observed (query_review (env_hash (mc_env mc)) review)) (\<lambda>snapshot.
    scene_bind (say [''review '', dec64 review, '' is now '', review_state_name (r_state (sn_review snapshot)),
      '' with authority_current='', bit_text (r_authority_current (sn_review snapshot)), newline]) (\<lambda>_.
    scene_bind (observed (query_target target)) (\<lambda>_.
    scene_bind (demand ''an in-flight review must require revalidation after recovery''
       (r_state (sn_review snapshot) = RS_RevalidationRequired)) (\<lambda>_.
    exit_with True))))))) h0"

definition recovery_example :: "open_io \<Rightarrow> machine \<Rightarrow> string option \<Rightarrow> bytes option \<Rightarrow> program_end" where
  "recovery_example io mc argument found =
    (let path = recovery_path argument in outcome_of_scene
      (scene_bind (recovery_first io mc path found) (\<lambda>(first_epoch, target, review).
        recovery_second io mc path first_epoch target review)
       (fresh_harness (banner ''coordinator restart and recovery''))))"

end
