(* ===== verification/CF_Recommit.thy ===== *)
theory CF_Recommit
  imports CF_Committed
begin

text \<open>
  A commit that is sent again. The repetition evaluates a review that is now COMMITTED and holds a
  decision, and answers with the decision only when the digest comes out the same. It always does,
  because nothing an evaluation reads was changed by the commit: that is shown for the evaluation, for the
  batch of the commit and for the authority flag of a review that may be committed.
\<close>

section \<open>What a disposition depends on\<close>

definition same_basis :: "review_record \<Rightarrow> review_record \<Rightarrow> bool" where
  "same_basis r r1 \<longleftrightarrow> r_id r1 = r_id r \<and> r_generation r1 = r_generation r \<and> r_target r1 = r_target r
     \<and> r_target_generation r1 = r_target_generation r \<and> r_target_digest r1 = r_target_digest r
     \<and> r_spec r1 = r_spec r \<and> r_authority_current r1 = r_authority_current r"

abbreviation reread :: "review_record \<Rightarrow> evaluation_input \<Rightarrow> evaluation_input" where
  "reread r1 inp \<equiv> inp\<lparr> ei_review := r1 \<rparr>"

lemma same_basis_refl [simp]: "same_basis r r"
  by (simp add: same_basis_def)

lemma same_basis_trans: "same_basis r s \<Longrightarrow> same_basis s t \<Longrightarrow> same_basis r t"
  by (simp add: same_basis_def)

lemma reread_current:
  assumes "same_basis (ei_review inp) r1"
  shows "exclusion_reason (reread r1 inp) f = exclusion_reason inp f"
    and "current_findings (reread r1 inp) = current_findings inp"
proof -
  show reason: "exclusion_reason (reread r1 inp) f = exclusion_reason inp f" for f
    using assms by (simp add: exclusion_reason_def same_basis_def Let_def)
  show "current_findings (reread r1 inp) = current_findings inp"
    by (simp add: current_findings_def is_current_def [abs_def] reason)
qed

lemma reread_votes:
  assumes "same_basis (ei_review inp) r1"
  shows "eval_votes (reread r1 inp) = eval_votes inp" "r_spec r1 = r_spec (ei_review inp)"
  using assms by (simp_all add: eval_votes_def reread_current [OF assms] same_basis_def)

lemma reread_context:
  assumes "same_basis (ei_review inp) r1"
  shows "context_of (reread r1 inp) = (context_of inp)\<lparr> ec_input := reread r1 inp \<rparr>"
proof -
  have "evidence_tally_of (reread r1 inp) = evidence_tally_of inp"
    by (simp add: evidence_tally_of_def reread_current [OF assms])
  then show ?thesis
    using assms by (simp add: context_of_def Let_def reread_votes [OF assms] reread_current [OF assms])
qed

lemma reread_input: "ec_input (context_of inp) = inp"
  by (simp add: context_of_def Let_def)

lemma reread_predicates:
  assumes "same_basis (ei_review inp) r1"
  shows "run_predicates (context_of (reread r1 inp)) = run_predicates (context_of inp)"
proof -
  have "check_predicate (context_of (reread r1 inp)) kind p = check_predicate (context_of inp) kind p" for kind p
    using assms
    by (cases kind)
       (simp_all add: reread_context [OF assms] reread_input same_basis_def
        check_target_generation_def check_target_digest_def check_required_evidence_def
        check_evidence_integrity_def check_evidence_provenance_def check_required_roles_def
        check_minimum_critics_def check_required_verifiers_def check_critical_fails_def
        check_critic_generations_def check_worker_boots_def check_epoch_def check_categories_def
        check_quorum_def check_confidence_def Let_def)
  then have "fail_predicate (context_of (reread r1 inp)) = fail_predicate (context_of inp)"
    by (simp add: fail_predicate_def fun_eq_iff)
  then show ?thesis
    using assms by (simp add: run_predicates_def reread_context [OF assms] reread_input same_basis_def)
qed

lemma aggregate_input [simp]: "aggregate (ec\<lparr> ec_input := x \<rparr>) rej = aggregate ec rej"
proof -
  have ec: "any_critical (ec\<lparr> ec_input := x \<rparr>) = any_critical ec"
    "all_required_fail (ec\<lparr> ec_input := x \<rparr>) = all_required_fail ec"
    "all_required_pass (ec\<lparr> ec_input := x \<rparr>) = all_required_pass ec"
    "denominator (ec\<lparr> ec_input := x \<rparr>) = denominator ec"
    by (simp_all add: any_critical_def all_required_fail_def all_required_pass_def denominator_def)
  have "aggregate_votes (ec\<lparr> ec_input := x \<rparr>) = aggregate_votes ec"
    by (cases "sp_aggregation (ec_spec ec)") (simp_all add: aggregate_votes_def agg_defs ec Let_def)
  then show ?thesis
    unfolding aggregate_def ec by simp
qed

definition open_or_committed :: "review_state \<Rightarrow> bool" where
  "open_or_committed s \<longleftrightarrow> s \<notin> {RS_Cancelled, RS_Superseded, RS_RevalidationRequired}"

lemma reread_disposition:
  assumes basis: "same_basis (ei_review inp) r1"
    and "open_or_committed (r_state (ei_review inp))" and "open_or_committed (r_state r1)"
    and "\<not> ei_cancelled inp" and "\<not> ei_superseded inp"
  shows "er_disposition (evaluate_review H (reread r1 inp)) = er_disposition (evaluate_review H inp)"
proof -
  have "early_exit (reread r1 inp) = None" "early_exit inp = None"
    using assms by (simp_all add: early_exit_def open_or_committed_def)
  moreover have "final_guards (context_of (reread r1 inp)) h vd = final_guards (context_of inp) h vd" for h vd
    by (simp add: reread_context [OF basis] final_guards_def reread_input unresolved_challenges_def)
  moreover note reread_predicates [OF basis]
  ultimately show ?thesis
    by (simp add: evaluate_review_def finish_evaluation_def Let_def reread_votes [OF basis]
        reread_context [OF basis] split: prod.splits)
qed

section \<open>What the batch of a commit leaves\<close>

text \<open>A slot with the same material for an evaluation.\<close>

definition same_material :: "review_slot \<Rightarrow> review_slot \<Rightarrow> bool" where
  "same_material sl sl1 \<longleftrightarrow> same_basis (sl_record sl) (sl_record sl1)
     \<and> sl_assignments sl1 = sl_assignments sl \<and> sl_findings sl1 = sl_findings sl
     \<and> sl_evidences sl1 = sl_evidences sl \<and> sl_challenges sl1 = sl_challenges sl
     \<and> sl_rebuttals sl1 = sl_rebuttals sl \<and> sl_policy_digest sl1 = sl_policy_digest sl"

definition same_live :: "durable_state \<Rightarrow> durable_state \<Rightarrow> bool" where
  "same_live st st1 \<longleftrightarrow> du_epoch st1 = du_epoch st \<and> du_targets st1 = du_targets st
     \<and> du_critics st1 = du_critics st \<and> du_workers st1 = du_workers st \<and> du_incumbents st1 = du_incumbents st"

lemma same_live_on_slot [simp]: "same_live st (on_slot i g s) = same_live st s"
  by (auto simp: same_live_def on_slot_def put_slot_def split: option.splits)

lemma commit_batch_material:
  assumes slot: "find_slot st (r_id r) = Some sl" "sl_record sl = r" and authority: "r_authority_current r"
    and d: "d_review d = r_id r"
  shows "same_live st (apply_entries H (assign_sequences (commit_entries ev r d) n) st)
    \<and> (\<exists>sl1. find_slot (apply_entries H (assign_sequences (commit_entries ev r d) n) st) (r_id r) = Some sl1
        \<and> same_material sl sl1)"
proof (rule apply_batch_invariant [where Q = "\<lambda>s. same_live st s \<and>
    (\<exists>sl1. find_slot s (r_id r) = Some sl1 \<and> same_material sl sl1)"])
  show "same_live st st \<and> (\<exists>sl1. find_slot st (r_id r) = Some sl1 \<and> same_material sl sl1)"
    using slot by (simp add: same_live_def same_material_def)
next
  fix b k s
  assume b: "b \<in> set (commit_entries ev r d)"
    and s: "same_live st s \<and> (\<exists>sl1. find_slot s (r_id r) = Some sl1 \<and> same_material sl sl1)"
  then obtain sl1 where sl1: "find_slot s (r_id r) = Some sl1" "same_material sl sl1" and live: "same_live st s"
    by blast
  consider v where "b = JR_ReviewStateChanged v" "rv_review v = r_id r" "rv_authority_current v"
    | "b = JR_DecisionCommitted d"
    using b by (auto simp: commit_entries_def state_change_def)
  then show "same_live st (apply_body H k b s)
      \<and> (\<exists>sl1. find_slot (apply_body H k b s) (r_id r) = Some sl1 \<and> same_material sl sl1)"
  proof cases
    case 1
    have "same_material sl (apply_review_state_changed k v sl1)"
      using sl1(2) authority slot(2) 1(3)
      by (simp add: same_material_def same_basis_def apply_review_state_changed_def Let_def)
    with 1 sl1 live show ?thesis by simp
  next
    case 2
    have "same_material sl (apply_decision_committed d sl1)"
      using sl1(2) by (simp add: same_material_def apply_decision_committed_def)
    with 2 sl1 live d show ?thesis by simp
  qed
qed

lemma same_material_input:
  assumes "same_material sl sl1" and "same_live st st1"
    and "open_or_committed (r_state (sl_record sl))" and "open_or_committed (r_state (sl_record sl1))"
  shows "build_evaluation_input st1 sl1 = reread (sl_record sl1) (build_evaluation_input st sl)"
proof -
  have "critic_generation_entry st1 = critic_generation_entry st" "incumbent_entry st1 = incumbent_entry st"
    using assms(2) by (simp_all add: fun_eq_iff critic_generation_entry_def incumbent_entry_def same_live_def
        cong: option.case_cong)
  then have "build_authority_view st1 sl1 = build_authority_view st sl"
    using assms(1,2)
    by (simp add: build_authority_view_def same_material_def same_live_def same_basis_def referenced_critics_def)
  then show ?thesis
    using assms by (simp add: build_evaluation_input_def same_material_def open_or_committed_def)
qed

section \<open>The repetition\<close>

lemma recommit_same:
  assumes material: "same_material sl sl1" and live: "same_live st st1"
    and states: "open_or_committed (r_state (sl_record sl))" "open_or_committed (r_state (sl_record sl1))"
    and d: "d = new_decision H st (evaluate_slot H st sl) sl i order"
  shows "recommit H (evaluate_slot H st1 sl1) sl1 d = Inr d"
proof -
  let ?inp = "build_evaluation_input st sl"
  have basis: "same_basis (ei_review ?inp) (sl_record sl1)"
    using material by (simp add: build_evaluation_input_def same_material_def)
  have "er_disposition (evaluate_slot H st1 sl1) = er_disposition (evaluate_slot H st sl)"
    unfolding evaluate_slot_def same_material_input [OF material live states]
    by (rule reread_disposition [OF basis]) (use states in \<open>simp_all add: build_evaluation_input_def open_or_committed_def\<close>)
  moreover have "commit_policy_digest H sl1 = commit_policy_digest H sl"
    using material by (simp add: commit_policy_digest_def same_material_def same_basis_def)
  ultimately show ?thesis
    using material unfolding d
    by (simp add: recommit_def new_decision_def Let_def compute_decision_digest_def same_material_def)
qed

text \<open>The authority of a review that may be committed is current.\<close>

definition footing :: "durable_state \<Rightarrow> bool" where
  "footing st \<longleftrightarrow> (\<forall>i sl. find_slot st i = Some sl \<longrightarrow> r_authority_current (sl_record sl)
     \<or> is_terminal_review_state (r_state (sl_record sl)) \<or> r_state (sl_record sl) = RS_RevalidationRequired)"

lemma footing_after_batch:
  assumes keyed: "slots_keyed st" and foot: "footing st" and ok: "bodies_ok st bs m"
  shows "footing (apply_entries H (assign_sequences bs n) st)"
proof -
  have "slots_keyed (apply_entries H (assign_sequences bs n) st) \<and> footing (apply_entries H (assign_sequences bs n) st)"
  proof (rule apply_batch_invariant [where Q = "\<lambda>x. slots_keyed x \<and> footing x"])
    fix b k x
    assume b: "b \<in> set bs" and x: "slots_keyed x \<and> footing x"
    then have wf: "om_wf (du_reviews x)"
      by (simp add: slots_keyed_def)
    from b ok have ok1: "body_ok st m b"
      by (simp add: bodies_ok_def)
    have "r_authority_current (sl_record sl1) \<or> is_terminal_review_state (r_state (sl_record sl1))
        \<or> r_state (sl_record sl1) = RS_RevalidationRequired"
      if found: "find_slot (apply_body H k b x) i = Some sl1" for i sl1
    proof (cases "find_slot x i")
      case None
      with wf found obtain r where "b = JR_ReviewDeclared r" "r_id r = i"
        by (metis new_slot_declared)
      with ok1 found None show ?thesis
        by (auto simp: find_slot_declared empty_slot_def)
    next
      case (Some sl)
      obtain sl2 where "find_slot (apply_body H k b x) i = Some sl2"
        and rec: "sl_record sl2 = (if body_review b = Some i then record_after_body k b sl else sl_record sl)"
        using slot_after_body [OF wf Some] by blast
      with found have "sl1 = sl2" by simp
      moreover have "r_authority_current (sl_record sl) \<or> is_terminal_review_state (r_state (sl_record sl))
          \<or> r_state (sl_record sl) = RS_RevalidationRequired"
        using x Some by (simp add: footing_def)
      ultimately show ?thesis
        using rec ok1 by (cases b) (auto split: if_splits)
    qed
    with x show "slots_keyed (apply_body H k b x) \<and> footing (apply_body H k b x)"
      by (simp add: footing_def slots_keyed_after_body)
  qed (use keyed foot in simp)
  then show ?thesis by simp
qed

lemma recovery_opens_no_review:
  assumes "slots_keyed st" and "find_slot st i = None"
  shows "find_slot (apply_entries H (assign_sequences (recovery_bodies e st) n) st) i = None"
proof -
  have "slots_keyed (apply_entries H (assign_sequences (recovery_bodies e st) n) st)
      \<and> find_slot (apply_entries H (assign_sequences (recovery_bodies e st) n) st) i = None"
  proof (rule apply_batch_invariant [where Q = "\<lambda>s. slots_keyed s \<and> find_slot s i = None"])
    fix b n s assume b: "b \<in> set (recovery_bodies e st)" and s: "slots_keyed s \<and> find_slot s i = None"
    have "b \<noteq> JR_ReviewDeclared r" for r
      using b by (cases rule: recovery_body_cases) (auto dest!: revalidate_body)
    moreover have "om_wf (du_reviews s)"
      using s by (simp add: slots_keyed_def)
    ultimately show "slots_keyed (apply_body H n b s) \<and> find_slot (apply_body H n b s) i = None"
      using s no_slot_after_body [of s i b] slots_keyed_after_body by blast
  qed (use assms in simp)
  then show ?thesis by simp
qed

lemma start_footing:
  assumes "start_with env (Inr j) c = (c1, Inr u)"
  shows "footing (co_state c1)"
proof -
  let ?st = "recovered_base (env_hash env) (jn_entries j)"
  let ?bs = "recovery_bodies (fresh_epoch (last_epoch 0 (jn_entries j))) ?st"
  let ?after = "apply_entries (env_hash env) (assign_sequences ?bs (jn_next_sequence j)) ?st"
  have state: "co_state c1 = ?after"
    using start_recovered [OF assms] by simp
  have keyed: "slots_keyed ?st"
    by (rule recovered_base_keyed)
  show ?thesis
    unfolding state footing_def
  proof (intro allI impI)
    fix i sl1 assume found: "find_slot ?after i = Some sl1"
    show "r_authority_current (sl_record sl1) \<or> is_terminal_review_state (r_state (sl_record sl1))
        \<or> r_state (sl_record sl1) = RS_RevalidationRequired"
    proof (cases "find_slot ?st i")
      case None
      then have "find_slot ?after i = None"
        by (rule recovery_opens_no_review [OF keyed])
      with found show ?thesis by simp
    next
      case (Some sl)
      show ?thesis
      proof (cases "is_terminal_review_state (r_state (sl_record sl))")
        case True
        then have "closed_as i (r_state (sl_record sl)) ?st"
          using Some by (simp add: closed_as_def)
        then have "closed_as i (r_state (sl_record sl)) ?after"
          using closed_after_batch [OF keyed _ recovery_bodies_ok [OF keyed]] by blast
        with found show ?thesis
          by (auto simp: closed_as_def)
      next
        case False
        have "awaits_revalidation i ?after"
          by (rule recovery_revalidates [OF keyed Some False])
        with found show ?thesis
          by (auto simp: awaits_revalidation_def)
      qed
    qed
  qed
qed

lemma exec_footing:
  assumes wf: "coordinator_wf c" and range: "in_range cmd c" and foot: "co_started c \<longrightarrow> footing (co_state c)"
    and started: "co_started (fst (exec env cmd c))"
  shows "footing (co_state (fst (exec env cmd c)))"
proof (cases "keeps_running cmd")
  case True
  have shape: "outcome env (bodies_ok (co_state c)) c (exec env cmd c)"
    by (rule exec_shape [OF wf range True])
  then have "co_started c"
    using started unfolding outcome_def by (auto dest!: quiet_state publish_effect)
  with foot show ?thesis
    using outcome_invariant [OF shape, of footing] footing_after_batch wf by (auto simp: coordinator_wf_def)
next
  case False
  show ?thesis
  proof (cases cmd)
    case (Cmd_Start opened)
    show ?thesis
    proof (cases "co_started c")
      case True
      with foot show ?thesis by (simp add: Cmd_Start start_with_def)
    next
      case stopped: False
      obtain c1 r where run: "start_with env opened c = (c1, r)" by fastforce
      with started have "co_started c1" by (simp add: Cmd_Start)
      with run stopped obtain j where j: "opened = Inr j" by (cases opened) (auto simp: start_with_def)
      have "\<exists>u. r = Inr u"
        using run stopped \<open>co_started c1\<close> unfolding j
        by (auto simp: start_with_def recover_def append_entries_def Let_def fail_with_def
            split: if_splits prod.splits sum.splits)
      with run start_footing show ?thesis by (auto simp: Cmd_Start j)
    qed
  qed (use False started in \<open>auto simp: stop_def\<close>)
qed

lemma reachable_footing: "reachable H c \<Longrightarrow> co_started c \<longrightarrow> footing (co_state c)"
proof (induction rule: reachable.induct)
  case (step c cmd io)
  then show ?case
    using exec_footing [OF reachable_wf [OF step.hyps(1)] step.hyps(2) step.IH] by blast
qed (simp add: new_coordinator_def)

lemma outcome_flags:
  assumes "outcome env P c cs" and "is_ok (snd cs)"
  shows "mutation_guard (fst cs) = mutation_guard c"
  using assms unfolding outcome_def mutation_guard_def
  by (auto dest!: quiet_state publish_effect)

text \<open>Two requests that commit the same review on the same terms.\<close>

definition same_terms :: "commit_review_request \<Rightarrow> commit_review_request \<Rightarrow> bool" where
  "same_terms q q1 \<longleftrightarrow> cm_review q1 = cm_review q \<and> cm_review_generation q1 = cm_review_generation q
     \<and> cm_target_generation q1 = cm_target_generation q \<and> cm_epoch q1 = cm_epoch q"

lemma commit_recorded:
  assumes slot: "find_slot (co_state c) (cm_review q) = Some sl" "sl_decision sl = None"
    and commit: "commit_review env q c = (c1, Inr d)"
  obtains c2 i order where "mutation_guard c = Inr ()" "commit_guard (co_state c) q = Inr sl"
    "r_state (sl_record sl) \<noteq> RS_Committed" "co_state c2 = co_state c"
    "publish env (commit_entries (evaluate_slot (env_hash env) (co_state c) sl) (sl_record sl) d) c2 = (c1, Inr ())"
    "d = new_decision (env_hash env) (co_state c) (evaluate_slot (env_hash env) (co_state c) sl) sl i order"
proof -
  let ?H = "env_hash env" and ?r = "sl_record sl"
  have mutable: "mutation_guard c = Inr ()" and guard: "commit_guard (co_state c) q = Inr sl"
    using commit slot by (auto simp: commit_review_def fail_with_def commit_guard_def Let_def result_bind_Inr_iff
        split: sum.splits if_splits option.splits)
  have fresh: "r_state ?r \<noteq> RS_Committed"
    using commit slot(2) mutable guard by (auto simp: commit_review_def fail_with_def Let_def)
  obtain d2 c2 i order where run: "commit_review env q c = finish d2 (publish env
      (commit_entries (evaluate_slot ?H (co_state c) sl) ?r d2) c2)"
    and c2: "co_state c2 = co_state c" and d2: "d2 = new_decision ?H (co_state c) (evaluate_slot ?H (co_state c) sl) sl i order"
    using commit_reaches_journal [OF mutable guard slot(2) fresh, of env] by blast
  have "publish env (commit_entries (evaluate_slot ?H (co_state c) sl) ?r d2) c2 = (c1, Inr ()) \<and> d2 = d"
    using run commit by (auto simp: finish_def split: prod.splits sum.splits)
  then have "d2 = d" and published: "publish env (commit_entries (evaluate_slot ?H (co_state c) sl) ?r d) c2 = (c1, Inr ())"
    by blast+
  from published d2 [unfolded \<open>d2 = d\<close>] show ?thesis
    by (rule that [OF mutable guard fresh c2])
qed

lemma commit_again:
  assumes keyed: "slots_keyed (co_state c)" and foot: "footing (co_state c)"
    and slot: "find_slot (co_state c) (cm_review q) = Some sl" "sl_decision sl = None"
    and commit: "commit_review env q c = (c1, Inr d)" and terms: "same_terms q q1" and hash: "env_hash env1 = env_hash env"
  shows "commit_review env1 q1 c1 = (c1, Inr d) \<and> holds_decision (cm_review q) d (co_state c1)"
proof -
  let ?H = "env_hash env" and ?r = "sl_record sl"
  obtain c2 i order where mutable: "mutation_guard c = Inr ()" and guard: "commit_guard (co_state c) q = Inr sl"
    and fresh: "r_state ?r \<noteq> RS_Committed" and c2: "co_state c2 = co_state c"
    and pub: "publish env (commit_entries (evaluate_slot ?H (co_state c) sl) ?r d) c2 = (c1, Inr ())"
    and d: "d = new_decision ?H (co_state c) (evaluate_slot ?H (co_state c) sl) sl i order"
    by (rule commit_recorded [OF slot commit])
  have facts: "d_review d = r_id ?r" "d_review_generation d = r_generation ?r" "r_id ?r = cm_review q"
    using keyed slot(1) by (simp_all add: d new_decision_def Let_def slots_keyed_def)
  have open_state: "commit_state_guard ?r = Inr ()" and bounds: "r_generation ?r = cm_review_generation q"
      "r_target_generation ?r = cm_target_generation q" "cm_epoch q = du_epoch (co_state c)"
    using guard slot(1) by (auto simp: commit_guard_def Let_def result_bind_Inr_iff split: if_splits)
  have authority: "r_authority_current ?r"
  proof -
    have "r_authority_current ?r \<or> is_terminal_review_state (r_state ?r) \<or> r_state ?r = RS_RevalidationRequired"
      using foot slot(1) unfolding footing_def by blast
    with open_state fresh show ?thesis
      by (cases "r_state ?r") (simp_all add: commit_state_guard_def is_terminal_review_state_def)
  qed
  define bs where "bs = commit_entries (evaluate_slot ?H (co_state c) sl) ?r d"
  define n where "n = jn_next_sequence (co_journal c2)"
  have c1: "co_state c1 = apply_entries ?H (assign_sequences bs n) (co_state c)"
    using publish_effect [OF pub] by (simp add: bs_def n_def c2)
  have "has_generation (r_id ?r) (r_generation ?r) (co_state c)"
    using keyed slot(1) by (simp add: has_generation_def facts(3))
  from committed_after_batch [OF this facts(1,2)]
  have ends: "holds_decision (cm_review q) d (co_state c1)" "closed_as (cm_review q) RS_Committed (co_state c1)"
    by (auto simp: c1 bs_def facts(3))
  have "same_live (co_state c) (co_state c1)
      \<and> (\<exists>sl1. find_slot (co_state c1) (cm_review q) = Some sl1 \<and> same_material sl sl1)"
    using commit_batch_material [of "co_state c" ?r sl d] slot(1) authority facts
    by (simp add: c1 bs_def)
  then obtain sl1 where live: "same_live (co_state c) (co_state c1)"
    and sl1: "find_slot (co_state c1) (cm_review q) = Some sl1" "same_material sl sl1" by blast
  have held: "sl_decision sl1 = Some d" "r_state (sl_record sl1) = RS_Committed"
    using ends sl1(1) by (auto simp: holds_decision_def closed_as_def)
  have "open_or_committed (r_state ?r)" "open_or_committed (r_state (sl_record sl1))"
    using open_state held(2) by (auto simp: open_or_committed_def commit_state_guard_def)
  then have again: "recommit ?H (evaluate_slot ?H (co_state c1) sl1) sl1 d = Inr d"
    by (rule recommit_same [OF sl1(2) live _ _ d])
  have "mutation_guard c1 = Inr ()"
    using outcome_flags [OF commit_review_outcome [OF keyed, of env q]] mutable commit
    by (simp add: respond_def)
  moreover have "commit_guard (co_state c1) q1 = Inr sl1"
    using terms sl1 held(2) live bounds
    by (simp add: commit_guard_def same_terms_def same_live_def same_material_def same_basis_def commit_state_guard_def)
  ultimately show ?thesis
    using held(1) again ends(1) by (simp add: commit_review_def hash)
qed


section \<open>A run, concretely\<close>

text \<open>A coordinator that starts on a journal with one target, declares a review and commits it twice.\<close>

definition ready_target :: target_record where
  "ready_target =
    \<lparr> t_id = 1, t_generation = 1, t_target_class = TC_Claim, t_content_digest = zero_digest,
      t_schema_digest = zero_digest, t_schema_name = ''schema'', t_producer = 1, t_producer_version = [],
      t_provenance = [], t_payload = [7], t_created_order = 1, t_reviewable = True,
      t_supersession = TS_Current, t_superseded_by = 0, t_supersession_reason = [] \<rparr>"

definition ready_journal :: journal where
  "ready_journal = (open_in_memory default_limits)
    \<lparr> jn_entries := assign_sequences [JR_EpochEstablished 1, JR_TargetRegistered ready_target] 1,
      jn_next_sequence := 3 \<rparr>"

definition ready :: coordinator where
  "ready = fst (exec (world sha256 (\<lambda>_. IO_Ok)) (Cmd_Start (Inr ready_journal)) (new_coordinator plain_config))"

definition ready_declare :: declare_review_request where
  "ready_declare =
    \<lparr> dv_request = 5, dv_target = 1, dv_target_generation = 1, dv_spec = default_review_spec, dv_epoch = 2 \<rparr>"

definition ready_commit :: "request_id \<Rightarrow> commit_review_request" where
  "ready_commit nonce =
    \<lparr> cm_review = 1, cm_review_generation = 1, cm_target_generation = 1, cm_epoch = 2, cm_request = nonce,
      cm_include_rendered_explanation = False \<rparr>"

definition ready_record :: review_record where
  "ready_record = declared_record 1 (fst (next_order ready)) ready_target ready_declare"

lemma ready_reachable: "reachable sha256 ready"
  unfolding ready_def
  by (intro reachable.intros) (simp add: ready_journal_def declares_in_range_def)

lemmas ready_simps = ready_def ready_journal_def ready_target_def restored_simps in_memory_simps start_with_def

lemma ready_state:
  "mutation_guard ready = Inr ()" "du_epoch (co_state ready) = 2" "du_reviews (co_state ready) = []"
  "du_review_requests (co_state ready) = []" "om_get (du_targets (co_state ready)) 1 = Some ready_target"
  "ct_review_id (co_next ready) = 1" "\<not> jn_failed (co_journal ready)" "length (jn_entries (co_journal ready)) = 3"
  "unat (max_persisted_records (jn_limits (co_journal ready))) = 1048576"
  "co_limits ready = clamp_to_hard_ceiling default_limits"
  by (simp_all add: ready_simps mutation_guard_def)

lemma append_all_keeps:
  "append_all (journal_append env) j es = (j1, Inr u) \<Longrightarrow>
     jn_failed j1 = jn_failed j \<and> jn_limits j1 = jn_limits j \<and> jn_open j1 = jn_open j"
proof (induction es arbitrary: j)
  case (Cons x xs)
  then obtain j2 where "journal_append env j x = (j2, Inr ())" "append_all (journal_append env) j2 xs = (j1, Inr u)"
    by (auto split: prod.splits sum.splits)
  with Cons.IH show ?case
    by (fastforce simp: journal_append_def Let_def journal_advance_def split: if_splits append_io.splits)
qed simp

lemma publish_keeps:
  assumes "publish env bs c = (c1, Inr u)"
  shows "jn_failed (co_journal c1) = jn_failed (co_journal c) \<and> jn_limits (co_journal c1) = jn_limits (co_journal c)"
  using assms append_all_keeps
  by (fastforce simp: publish_def append_entries_def Let_def split: prod.splits sum.splits)

lemma ready_guards:
  "declare_target_guard (co_state ready) ready_declare = Inr ready_target"
  "declare_capacity_guard (co_state ready) (co_limits ready) = Inr ()"
proof -
  show "declare_target_guard (co_state ready) ready_declare = Inr ready_target"
    using ready_state validation_contract [of default_review_spec] default_review_spec_admissible
    by (auto simp: declare_target_guard_def ready_declare_def ready_target_def is_ok_iff)
  show "declare_capacity_guard (co_state ready) (co_limits ready) = Inr ()"
    using ready_state
    by (simp add: declare_capacity_guard_def in_flight_reviews_def om_vals_def count_if_def in_memory_simps)
qed

lemma ready_record_encodes: "encodes (JR_ReviewDeclared ready_record)"
proof -
  have "fits_journal_body (clamp_to_hard_ceiling default_limits) (JR_ReviewDeclared ready_record)"
    by (simp add: fits_review_record_def ready_record_def declared_record_def ready_declare_def ready_target_def
        fits_review_spec_def default_review_spec_def default_predicates_def id_valid_def first_generation_def om_wf_def
        zero_digest_def clamp_to_hard_ceiling_def clamp_into_def default_limits_def hard_ceilings)
  from encodes_bounded [OF writes_journal_body [OF this clamped_codec_bounds]] show ?thesis
    by (simp add: short_batch_def)
qed

lemma ready_declares:
  obtains c where "declare_review (world sha256 (\<lambda>_. IO_Ok)) ready_declare ready = (c, Inr ready_record)"
    and "co_state c = apply_review_declared sha256 ready_record (co_state ready)"
    and "mutation_guard c = Inr ()" and "\<not> jn_failed (co_journal c)"
    and "length (jn_entries (co_journal c)) = 4" and "jn_limits (co_journal c) = jn_limits (co_journal ready)"
proof -
  define c2 where "c2 = snd (next_order (snd (next_review_id ready)))"
  have c2: "quiet ready c2"
    unfolding c2_def by (rule quiet_counters, rule next_review_id_quiet) (simp add: review_space_left_def ready_state)
  have "\<exists>c. publish (world sha256 (\<lambda>_. IO_Ok)) [JR_ReviewDeclared ready_record] c2 = (c, Inr ())"
    using publish_succeeds [of c2 "[JR_ReviewDeclared ready_record]"] quiet_state [OF c2] ready_state ready_record_encodes
    by (simp add: world_def)
  then obtain c where c: "publish (world sha256 (\<lambda>_. IO_Ok)) [JR_ReviewDeclared ready_record] c2 = (c, Inr ())" ..
  have "declare_review (world sha256 (\<lambda>_. IO_Ok)) ready_declare ready = (c, Inr ready_record)"
    using c ready_state ready_guards
    by (simp add: declare_review_def Let_def finish_def c2_def ready_record_def next_review_id_def)
       (simp add: ready_declare_def id_valid_def next_order_def bump_def)
  moreover have "env_hash (world sha256 (\<lambda>_. IO_Ok)) = sha256"
    by (simp add: world_def)
  moreover have "mutation_guard c = mutation_guard ready"
    using publish_effect [OF c] quiet_state [OF c2] by (simp add: mutation_guard_def)
  ultimately show ?thesis
    using that publish_effect [OF c] publish_keeps [OF c] publish_journal [OF c] quiet_state [OF c2] ready_state
    by simp
qed

text \<open>The review, as the declaration left it, and the commit that follows.\<close>

definition ready_slot :: review_slot where
  "ready_slot = empty_slot ready_record (compute_policy_digest sha256 default_review_spec)"

lemma ready_slot_simps:
  "sl_decision ready_slot = None" "r_state (sl_record ready_slot) = RS_Declared"
  "r_id (sl_record ready_slot) = 1" "length (sl_policy_digest ready_slot) = 32"
  "r_spec (sl_record ready_slot) = default_review_spec"
  by (simp_all add: ready_slot_def empty_slot_def ready_record_def declared_record_def ready_declare_def
      compute_policy_digest_def hash_writes_def sha256_length)

lemma ready_votes: "eval_votes (build_evaluation_input st ready_slot) = []"
  by (simp add: eval_votes_def build_evaluation_input_def ready_slot_def empty_slot_def om_vals_def
      current_findings_def collapse_votes_def attach_assignments_def)

lemma default_summary: "length (summarize default_review_spec) \<le> 2000"
  by (simp add: summarize_def default_review_spec_def dec32_def dec_nat.simps bool_text_def
      aggregation_policy_name_def k_aggregation_policy_def critic_role_name_def k_critic_role_def
      severity_name_def k_severity_def disagreement_policy_name_def k_disagreement_policy_def
      duplicate_policy_name_def k_duplicate_policy_def enum_lookup_def)

lemma ready_result:
  "length (ex_policy_result (er_explanation (evaluate_slot H st ready_slot))) \<le> 65536"
  using policy_result_short [OF ready_votes, of H st] default_summary
  by (simp add: evaluate_slot_def build_evaluation_input_def ready_slot_simps)

lemma ready_committed:
  obtains c c1 d where "reachable sha256 c" and "find_slot (co_state c) 1 = Some ready_slot"
    and "commit_review (world sha256 (\<lambda>_. IO_Ok)) (ready_commit 7) c = (c1, Inr d)"
proof -
  let ?env = "world sha256 (\<lambda>_. IO_Ok)"
  obtain c where c: "declare_review ?env ready_declare ready = (c, Inr ready_record)"
    "co_state c = apply_review_declared sha256 ready_record (co_state ready)"
    "mutation_guard c = Inr ()" "\<not> jn_failed (co_journal c)"
    "length (jn_entries (co_journal c)) = 4" "jn_limits (co_journal c) = jn_limits (co_journal ready)"
    by (rule ready_declares)
  have "reachable sha256 (fst (exec ?env (Cmd_DeclareReview ready_declare) ready))"
    by (rule reachable.step [OF ready_reachable]) (simp add: review_space_left_def ready_state)
  then have reach: "reachable sha256 c"
    by (simp add: c(1) respond_def)
  have ids: "r_id ready_record = 1" "r_generation ready_record = 1" "r_target_generation ready_record = 1"
    "r_spec ready_record = default_review_spec"
    by (simp_all add: ready_record_def declared_record_def ready_declare_def first_generation_def)
  have slot: "find_slot (co_state c) 1 = Some ready_slot"
  proof -
    have "find_slot (co_state ready) 1 = None"
      using ready_state by (simp add: find_slot_def)
    then show ?thesis
      by (simp add: c(2) find_slot_declared ids ready_slot_def)
  qed
  have epoch: "du_epoch (co_state c) = 2"
    using ready_state by (simp add: c(2) apply_review_declared_def put_slot_def Let_def)
  have guard: "commit_guard (co_state c) (ready_commit 7) = Inr ready_slot"
    using slot epoch ids ready_slot_simps(2)
    by (simp add: commit_guard_def ready_commit_def commit_state_guard_def ready_slot_def empty_slot_def)
  have keyed: "slots_keyed (co_state c)"
    using reachable_wf [OF reach] by (simp add: coordinator_wf_def)
  have "\<exists>c1 d. commit_review ?env (ready_commit 7) c = (c1, Inr d)"
    using commit_goes_through [OF c(3) guard ready_slot_simps(1) _ c(4) keyed, of ?env] c(5,6) ready_state
      ready_slot_simps ready_result
    by (auto simp: world_def sha256_length)
  with that reach slot show ?thesis by blast
qed


end
