(* ===== verification/CF_Downstream.thy ===== *)
theory CF_Downstream
  imports CF_Harness
begin

text \<open>
  The downstream consumer (\<open>downstream/main.cpp\<close>): one program that takes a review from its target to its
  decision and past it, and checks what it sees after each step. Every check that fails ends it with a text
  of its own.
\<close>

definition wanted :: "string \<Rightarrow> (coordinator \<Rightarrow> coordinator \<times> 'a result) \<Rightarrow> 'a scene" where
  "wanted what = needed_or (\<lambda>_. Some (Unmet what))"

definition seen :: "string \<Rightarrow> (coordinator \<Rightarrow> 'a result) \<Rightarrow> 'a scene" where
  "seen what query = wanted what (\<lambda>c. (c, query c))"

record consumer_critic =
  cc_id :: critic_id
  cc_generation :: critic_generation
  cc_worker :: worker_id
  cc_boot :: worker_boot_id
  cc_configuration :: synthetic_config

definition consumer_config :: coordinator_config where
  "consumer_config = \<lparr> cfg_limits = default_limits, cfg_persistence_path = [], cfg_coordinator_id = 0,
     cfg_process_label = ''downstream-consumer'' \<rparr>"

definition consumer_target_request :: "target_id \<Rightarrow> string \<Rightarrow> coordinator_epoch \<Rightarrow> register_target_request" where
  "consumer_target_request i payload epoch =
    \<lparr> rt_id = i, rt_target_class = TC_ExecutionOutput, rt_schema_name = ''downstream/execution-output'',
      rt_payload = string_bytes payload, rt_producer = 0, rt_producer_version = [],
      rt_provenance = ''downstream-consumer'', rt_reviewable = True, rt_epoch = epoch, rt_request = 0 \<rparr>"

definition consumer_critic_request :: "hash_fun \<Rightarrow> synthetic_config \<Rightarrow> coordinator_epoch \<Rightarrow> register_critic_request" where
  "consumer_critic_request H synthetic epoch =
    \<lparr> rc_id = 0, rc_capability = synthetic_critic_capability H synthetic, rc_registrant = 0,
      rc_provenance = ''downstream-consumer'', rc_compat = empty_compat, rc_advance_generation = False,
      rc_epoch = epoch, rc_request = 0 \<rparr>"

definition consumer_worker_request ::
  "worker_boot_id \<Rightarrow> critic_registration \<Rightarrow> coordinator_epoch \<Rightarrow> register_worker_request" where
  "consumer_worker_request boot critic epoch =
    \<lparr> rw_id = 0, rw_boot = boot, rw_critic = c_id critic, rw_critic_generation = c_generation critic, rw_host = 0,
      rw_process_label = ''downstream-worker'', rw_epoch = epoch, rw_request = 0 \<rparr>"

definition consumer_readiness :: "hash_fun \<Rightarrow> consumer_critic \<Rightarrow> coordinator_epoch \<Rightarrow> declare_readiness_request" where
  "consumer_readiness H cc epoch =
    \<lparr> dr_id = cc_worker cc, dr_boot = cc_boot cc, dr_critic = cc_id cc, dr_critic_generation = cc_generation cc,
      dr_ready = True, dr_healthy = True,
      dr_capability_evidence = synthetic_capability_evidence H (cc_configuration cc), dr_epoch = epoch,
      dr_request = 0 \<rparr>"

definition consumer_enrol :: "machine \<Rightarrow> coordinator_epoch \<Rightarrow> nat \<Rightarrow> consumer_critic scene" where
  "consumer_enrol mc epoch i =
    (let env = mc_env mc; H = env_hash env;
         synthetic = default_synthetic_config\<lparr>
           sy_role := if i = 0 then Role_CorrectnessVerifier else Role_SchemaVerifier, sy_behavior := SB_Pass,
           sy_category := if i = 0 then Cat_Correctness else Cat_Schema \<rparr> in
     scene_bind (wanted ''critic registration rejected''
       (register_critic env (consumer_critic_request H synthetic epoch))) (\<lambda>registration.
     scene_bind (next_boot mc ''downstream-worker'') (\<lambda>boot.
     scene_bind (wanted ''worker registration rejected''
       (register_worker env (consumer_worker_request boot registration epoch))) (\<lambda>worker.
     let cc = \<lparr> cc_id = c_id registration, cc_generation = c_generation registration, cc_worker = w_id worker,
                cc_boot = boot, cc_configuration = synthetic\<lparr> sy_critic := c_id registration \<rparr> \<rparr> in
     scene_bind (wanted ''readiness declaration rejected''
       (declare_readiness env (consumer_readiness H cc epoch))) (\<lambda>_.
     scene_return cc)))))"

definition consumer_spec :: review_spec where
  "consumer_spec = default_review_spec\<lparr>
     sp_required_roles := [Role_CorrectnessVerifier, Role_SchemaVerifier], sp_min_critic_count := 2,
     sp_required_critic_count := 2, sp_quorum := 2 \<rparr>"

definition consumer_assignments :: "consumer_critic list \<Rightarrow> requested_assignment list" where
  "consumer_assignments critics = map (\<lambda>cc.
     \<lparr> ra_critic = cc_id cc, ra_critic_generation = cc_generation cc, ra_worker = cc_worker cc,
       ra_worker_boot = cc_boot cc, ra_role = sy_role (cc_configuration cc), ra_required = False \<rparr>) critics"

definition consumer_evidence ::
  "review_record \<Rightarrow> target_record \<Rightarrow> consumer_critic \<Rightarrow> synthetic_output \<Rightarrow> coordinator_epoch \<Rightarrow> request_id
   \<Rightarrow> submit_evidence_request" where
  "consumer_evidence review target cc so epoch nonce =
    \<lparr> se_source_type = so_source_type so, se_provenance = so_provenance so, se_integrity = Integ_Verified,
      se_producer = 0, se_reference = ''downstream-witness'', se_payload = so_evidence_payload so,
      se_finding = 0, se_epoch = epoch, se_request = nonce, se_review = r_id review,
      se_review_generation = r_generation review, se_target = t_id target,
      se_target_generation = t_generation target, se_critic = cc_id cc, se_critic_generation = cc_generation cc,
      se_worker = cc_worker cc, se_worker_boot = cc_boot cc \<rparr>"

definition consumer_finding ::
  "review_record \<Rightarrow> target_record \<Rightarrow> consumer_critic \<Rightarrow> synthetic_output \<Rightarrow> evidence_id \<Rightarrow> coordinator_epoch
   \<Rightarrow> request_id \<Rightarrow> submit_finding_request" where
  "consumer_finding review target cc so evidence epoch nonce =
    \<lparr> sf_category = so_category so, sf_severity = so_severity so, sf_outcome = so_outcome so,
      sf_evidence = [evidence], sf_explanation = ''downstream consumer assessment'',
      sf_confidence = no_confidence, sf_provenance = ''downstream-consumer'', sf_supersedes = 0,
      sf_epoch = epoch, sf_request = nonce, sf_review = r_id review, sf_review_generation = r_generation review,
      sf_target = t_id target, sf_target_generation = t_generation target, sf_critic = cc_id cc,
      sf_critic_generation = cc_generation cc, sf_worker = cc_worker cc, sf_worker_boot = cc_boot cc \<rparr>"

text \<open>The loop of step 5: the nonce starts at 10 and is raised by every request.\<close>

definition consumer_submit ::
  "machine \<Rightarrow> coordinator_epoch \<Rightarrow> review_record \<Rightarrow> target_record \<Rightarrow> nat \<times> consumer_critic \<Rightarrow> finding scene" where
  "consumer_submit mc epoch review target entry = (case entry of (i, cc) \<Rightarrow>
    (let env = mc_env mc; nonce = 10 + 2 * of_nat i;
         so = run_synthetic_critic (env_hash env) (cc_configuration cc) (cc_generation cc) target in
     scene_bind (wanted ''evidence submission rejected''
       (submit_evidence env (consumer_evidence review target cc so epoch nonce))) (\<lambda>evidence.
     wanted ''finding submission rejected''
       (submit_finding env (consumer_finding review target cc so (e_id evidence) epoch (nonce + 1))))))"

definition consumer_commit :: "review_record \<Rightarrow> target_record \<Rightarrow> coordinator_epoch \<Rightarrow> request_id \<Rightarrow> commit_review_request" where
  "consumer_commit review target epoch nonce =
    \<lparr> cm_review = r_id review, cm_review_generation = r_generation review,
      cm_target_generation = t_generation target, cm_epoch = epoch, cm_request = nonce,
      cm_include_rendered_explanation = False \<rparr>"

text \<open>Steps 1 to 5: the review with its target, its critics and what they submit.\<close>

definition consumer_review :: "machine \<Rightarrow> coordinator_epoch \<Rightarrow> (target_record \<times> review_record \<times> consumer_critic list) scene" where
  "consumer_review mc epoch = (let env = mc_env mc in
    scene_bind (wanted ''target registration rejected''
      (register_target env (consumer_target_request 0 ''downstream consumer target payload'' epoch))) (\<lambda>target.
    scene_bind (scene_each (consumer_enrol mc epoch) [0, 1]) (\<lambda>critics.
    scene_bind (wanted ''review declaration rejected'' (declare_review env
      \<lparr> dv_request = 1, dv_target = t_id target, dv_target_generation = t_generation target,
        dv_spec = consumer_spec, dv_epoch = epoch \<rparr>)) (\<lambda>review.
    scene_bind (wanted ''critic assignment rejected'' (assign_critics env
      \<lparr> ac_review = r_id review, ac_review_generation = r_generation review,
        ac_assignments = consumer_assignments critics, ac_epoch = epoch, ac_request = 0 \<rparr>)) (\<lambda>assignments.
    scene_bind (demand ''critic assignment rejected'' (length assignments = 2)) (\<lambda>_.
    scene_bind (scene_each (consumer_submit mc epoch review target) (zip [0..<length critics] critics)) (\<lambda>_.
    scene_return (target, review, critics))))))))"

text \<open>Steps 6 to 8: the policy, the decision, and the decision as it is read back.\<close>

definition consumer_decide ::
  "machine \<Rightarrow> target_record \<Rightarrow> review_record \<Rightarrow> commit_review_request \<Rightarrow> (explanation \<times> decision) scene" where
  "consumer_decide mc target review commit = (let env = mc_env mc; H = env_hash env in
    scene_bind (seen ''policy evaluation failed'' (evaluate_review_now H (r_id review))) (\<lambda>evaluation.
    scene_bind (demand ''expected the policy to resolve to PASS'' (er_disposition evaluation = RD_Pass)) (\<lambda>_.
    scene_bind (seen ''explanation did not account for both contributors'' (explain_review H (r_id review))) (\<lambda>ex.
    scene_bind (demand ''explanation did not account for both contributors''
      (length (ex_contributors ex) = 2)) (\<lambda>_.
    scene_bind (wanted ''review commit rejected'' (commit_review env commit)) (\<lambda>d.
    scene_bind (demand ''committed disposition was not PASS'' (d_disposition d = RD_Pass)) (\<lambda>_.
    scene_bind (seen ''committed decision did not round trip''
      (query_decision (r_id review) (r_generation review))) (\<lambda>queried.
    scene_bind (demand ''committed decision did not round trip''
      (d_decision_digest queried = d_decision_digest d)) (\<lambda>_.
    scene_bind (seen ''review snapshot did not expose the committed decision''
      (query_review H (r_id review))) (\<lambda>snapshot.
    scene_bind (demand ''review snapshot did not expose the committed decision''
      (sn_decision snapshot \<noteq> None)) (\<lambda>_.
    scene_bind (demand ''review is not in the committed state''
      (r_state (sn_review snapshot) = RS_Committed)) (\<lambda>_.
    scene_return (ex, d)))))))))))))"

text \<open>Step 9: the same commit again, and a revision of the target.\<close>

definition consumer_history ::
  "machine \<Rightarrow> coordinator_epoch \<Rightarrow> target_record \<Rightarrow> review_record \<Rightarrow> commit_review_request \<Rightarrow> decision
   \<Rightarrow> review_snapshot scene" where
  "consumer_history mc epoch target review commit d = (let env = mc_env mc; H = env_hash env in
    scene_bind (wanted ''repeated commit was not idempotent'' (commit_review env commit)) (\<lambda>repeated.
    scene_bind (demand ''repeated commit was not idempotent'' (d_id repeated = d_id d)) (\<lambda>_.
    scene_bind (wanted ''target revision did not advance the generation'' (register_target env
      (consumer_target_request (t_id target) ''downstream consumer revised payload'' epoch))) (\<lambda>advanced.
    scene_bind (demand ''target revision did not advance the generation''
      (t_generation advanced = t_generation target + 1)) (\<lambda>_.
    scene_bind (seen ''historical review still claims current authority''
      (query_review H (r_id review))) (\<lambda>historical.
    scene_bind (demand ''historical review still claims current authority''
      (\<not> r_authority_current (sn_review historical))) (\<lambda>_.
    scene_bind (demand ''historical decision was lost'' (sn_decision historical \<noteq> None)) (\<lambda>_.
    scene_return historical))))))))"

definition consumer_summary ::
  "target_record \<Rightarrow> review_record \<Rightarrow> explanation \<Rightarrow> decision \<Rightarrow> review_snapshot \<Rightarrow> string list" where
  "consumer_summary target review ex d historical =
    [''downstream consumer: PASS'', newline,
     ''  review          #'', dec64 (r_id review), '' generation '', dec64 (r_generation review), newline,
     ''  target          #'', dec64 (t_id target), '' generation '', dec64 (t_generation target), '' digested '',
       take 16 (digest_to_hex (t_content_digest target)), newline,
     ''  contributors    '', count_text (ex_contributors ex), newline,
     ''  disposition     '', review_disposition_name (d_disposition d), newline,
     ''  decision digest '', digest_to_hex (d_decision_digest d), newline,
     ''  policy digest   '', digest_to_hex (d_policy_digest d), newline,
     ''  historical review authority_current='', bit_text (r_authority_current (sn_review historical)),
       '', decision retained='', bit_text (sn_decision historical \<noteq> None), newline]"

definition consumer_program :: "machine \<Rightarrow> coordinator_epoch \<Rightarrow> program_end scene" where
  "consumer_program mc epoch =
    scene_bind (consumer_review mc epoch) (\<lambda>(target, review, critics).
    let commit = consumer_commit review target epoch (10 + 2 * of_nat (length critics)) in
    scene_bind (consumer_decide mc target review commit) (\<lambda>(ex, d).
    scene_bind (consumer_history mc epoch target review commit d) (\<lambda>historical.
    scene_bind (say (consumer_summary target review ex d historical)) (\<lambda>_.
    exit_with True))))"

definition downstream_consumer :: "machine \<Rightarrow> program_end" where
  "downstream_consumer mc = outcome_of_scene (scene_bind
    (wanted ''coordinator did not start''
      (\<lambda>_. coordinator_start in_memory_io (mc_env mc) None (new_coordinator consumer_config)))
    (\<lambda>_ h. consumer_program mc (epoch_of (ha_coordinator h)) h)
    (fresh_harness []))"

end
