(* ===== verification/CF_Consumer.thy ===== *)
theory CF_Consumer
  imports CF_Recommit CF_Downstream
begin

text \<open>
  The downstream consumer against the coordinator: which of its checks can fail. A small logic of scenes,
  \<open>avoids bad P m Q\<close>, says that from a harness with \<open>P\<close> the scene \<open>m\<close> never ends with a complaint in
  \<open>bad\<close> and, when it goes on, leaves a value and a harness with \<open>Q\<close>.
\<close>

section \<open>A logic of scenes\<close>

definition avoids ::
  "complaint set \<Rightarrow> (harness \<Rightarrow> bool) \<Rightarrow> 'a scene \<Rightarrow> ('a \<Rightarrow> harness \<Rightarrow> bool) \<Rightarrow> bool" where
  "avoids bad P m Q \<longleftrightarrow> (\<forall>h. P h \<longrightarrow> (case m h of
     Inl r \<Rightarrow> pe_complaint r \<notin> Some ` bad | Inr (x, h1) \<Rightarrow> Q x h1))"

lemma avoids_bind:
  assumes "avoids bad P m Q" and "\<And>x. avoids bad (Q x) (k x) R"
  shows "avoids bad P (scene_bind m k) R"
  unfolding avoids_def
proof (intro allI impI)
  fix h assume "P h"
  with assms(1) have step: "case m h of Inl r \<Rightarrow> pe_complaint r \<notin> Some ` bad | Inr (x, h1) \<Rightarrow> Q x h1"
    by (simp add: avoids_def)
  show "case scene_bind m k h of Inl r \<Rightarrow> pe_complaint r \<notin> Some ` bad | Inr (x, h1) \<Rightarrow> R x h1"
  proof (cases "m h")
    case (Inl r)
    with step show ?thesis by (simp add: scene_bind_def)
  next
    case (Inr p)
    then obtain x h1 where m: "m h = Inr (x, h1)" by (cases p) simp
    with step assms(2) [of x] show ?thesis
      by (simp add: scene_bind_def avoids_def)
  qed
qed

lemma avoids_pre: "avoids bad P m Q \<Longrightarrow> (\<And>h. P1 h \<Longrightarrow> P h) \<Longrightarrow> avoids bad P1 m Q"
  by (simp add: avoids_def)

lemma avoids_return: "(\<And>h. P h \<Longrightarrow> Q x h) \<Longrightarrow> avoids bad P (scene_return x) Q"
  by (simp add: avoids_def scene_return_def)

lemma avoids_exit: "avoids bad P (exit_with good) Q"
  by (simp add: avoids_def exit_with_def)

text \<open>The coordinator of the harness is all these properties speak of.\<close>

definition at_coordinator :: "(coordinator \<Rightarrow> bool) \<Rightarrow> harness \<Rightarrow> bool" where
  "at_coordinator P h \<longleftrightarrow> P (ha_coordinator h)"

lemma avoids_say: "avoids bad (at_coordinator P) (say parts) (\<lambda>_. at_coordinator P)"
  by (simp add: avoids_def say_def at_coordinator_def)

lemma avoids_next_boot: "avoids bad (at_coordinator P) (next_boot mc label) (\<lambda>_. at_coordinator P)"
  by (simp add: avoids_def next_boot_def at_coordinator_def Let_def)

lemma avoids_wanted:
  assumes "\<And>c c1 x. P c \<Longrightarrow> operation c = (c1, Inr x) \<Longrightarrow> Q x c1"
    and "Unmet what \<in> bad \<Longrightarrow> (\<And>c. P c \<Longrightarrow> is_ok (snd (operation c)))"
  shows "avoids bad (at_coordinator P) (wanted what operation) (\<lambda>x. at_coordinator (Q x))"
  using assms
  by (fastforce simp: avoids_def wanted_def needed_or_def tried_def scene_bind_def fails_def scene_return_def
      at_coordinator_def is_ok_iff split: prod.splits sum.splits)

lemma avoids_demand:
  assumes "Unmet what \<in> bad \<Longrightarrow> (\<And>c. P c \<Longrightarrow> condition)"
  shows "avoids bad (at_coordinator P) (demand what condition) (\<lambda>_. at_coordinator (\<lambda>c. P c \<and> condition))"
  using assms by (auto simp: avoids_def demand_def fails_def scene_return_def at_coordinator_def)

lemma avoids_each:
  assumes "\<And>x. avoids bad P (body x) (\<lambda>_. P)"
  shows "avoids bad P (scene_each body xs) (\<lambda>_. P)"
proof (induction xs)
  case (Cons x xs)
  show ?case
    unfolding scene_each.simps by (rule avoids_bind [OF assms], rule avoids_bind [OF Cons.IH]) (rule avoids_return)
qed (simp add: avoids_return)

section \<open>What the operations keep\<close>

definition sound :: "coordinator \<Rightarrow> bool" where
  "sound c \<longleftrightarrow> slots_keyed (co_state c) \<and> footing (co_state c)"

lemma sound_outcome:
  assumes "sound c" and "outcome env (bodies_ok (co_state c)) c cs"
  shows "sound (fst cs)"
  using assms outcome_invariant [OF assms(2), of "\<lambda>st. slots_keyed st \<and> footing st"]
    footing_after_batch slots_keyed_after_entries
  by (auto simp: sound_def)

lemma sound_after:
  assumes "sound c" and "\<And>c. slots_keyed (co_state c) \<Longrightarrow> outcome env (bodies_ok (co_state c)) c (respond (operation c))"
    and "operation c = (c1, r)"
  shows "sound c1"
  using sound_outcome [OF assms(1) assms(2)] assms(1,3) by (simp add: sound_def respond_def)

lemma footing_declared:
  "footing st \<Longrightarrow> r_authority_current r \<Longrightarrow> footing (apply_review_declared H r st)"
  by (auto simp: footing_def find_slot_declared empty_slot_def split: if_splits option.splits)

lemma sound_declared:
  assumes "sound c" and "declare_review env q c = (c1, r)"
  shows "sound c1"
proof -
  have "(co_state c1 = co_state c) \<or> (\<exists>i order t. co_state c1 =
      apply_review_declared (env_hash env) (declared_record i order t q) (co_state c))"
    using assms(2)
    by (auto simp: declare_review_def fail_with_def Let_def finish_def next_review_id_def next_order_def bump_def
        split: sum.splits option.splits if_splits prod.splits dest!: publish_effect; blast)
  then show ?thesis
    using assms(1) footing_declared slots_keyed_after_body [of "co_state c" _ _ "JR_ReviewDeclared _"]
    by (auto simp: sound_def declared_record_def)
qed

section \<open>After a commit\<close>

definition settled :: "review_id \<Rightarrow> review_generation \<Rightarrow> decision \<Rightarrow> coordinator \<Rightarrow> bool" where
  "settled i g d c \<longleftrightarrow> sound c \<and> (\<exists>sl. find_slot (co_state c) i = Some sl \<and> sl_decision sl = Some d
     \<and> r_generation (sl_record sl) = g)"

lemma commit_slot:
  assumes "commit_review env q c = (c1, Inr d)"
  obtains sl where "mutation_guard c = Inr ()" and "commit_guard (co_state c) q = Inr sl"
    and "find_slot (co_state c) (cm_review q) = Some sl" and "r_generation (sl_record sl) = cm_review_generation q"
  using assms that
  by (auto simp: commit_review_def fail_with_def commit_guard_def Let_def result_bind_Inr_iff
      split: sum.splits if_splits option.splits)

lemma commit_settles:
  assumes sound: "sound c" and commit: "commit_review env q c = (c1, Inr d)"
  shows "settled (cm_review q) (cm_review_generation q) d c1 \<and> commit_review env q c1 = (c1, Inr d)"
proof -
  have sound1: "sound c1"
    by (rule sound_after [OF sound commit_review_outcome commit])
  obtain sl where guard: "mutation_guard c = Inr ()" "commit_guard (co_state c) q = Inr sl"
    and slot: "find_slot (co_state c) (cm_review q) = Some sl" "r_generation (sl_record sl) = cm_review_generation q"
    by (rule commit_slot [OF commit])
  show ?thesis
  proof (cases "sl_decision sl")
    case (Some d2)
    then have "c1 = c" "d2 = d"
      using commit guard by (auto simp: commit_review_def recommit_def Let_def split: if_splits)
    with Some slot sound commit show ?thesis
      by (simp add: settled_def)
  next
    case None
    have again: "commit_review env q c1 = (c1, Inr d)" and held: "holds_decision (cm_review q) d (co_state c1)"
      using commit_again [OF _ _ slot(1) None commit, of q env] sound by (simp_all add: sound_def same_terms_def)
    obtain sl1 where guard1: "mutation_guard c1 = Inr ()" "commit_guard (co_state c1) q = Inr sl1"
      and slot1: "find_slot (co_state c1) (cm_review q) = Some sl1" "r_generation (sl_record sl1) = cm_review_generation q"
      by (rule commit_slot [OF again])
    then show ?thesis
      using held again slot1 sound1 by (auto simp: settled_def holds_decision_def)
  qed
qed

lemma settled_query_decision: "settled i g d c \<Longrightarrow> query_decision i g c = Inr d"
  by (auto simp: settled_def query_decision_def)

lemma settled_query_review: "settled i g d c \<Longrightarrow> \<exists>sn. query_review H i c = Inr sn \<and> sn_decision sn = Some d"
  by (auto simp: settled_def query_review_def build_snapshot_def)

definition decided :: "review_id \<Rightarrow> coordinator \<Rightarrow> bool" where
  "decided i c \<longleftrightarrow> (\<exists>d. holds_decision i d (co_state c))"

lemma settled_register_target:
  assumes "settled i g d c" and "register_target env q c = (c1, r)"
  shows "decided i c1"
proof -
  have keyed: "slots_keyed (co_state c)" and held: "holds_decision i d (co_state c)"
    using assms(1) by (auto simp: settled_def sound_def holds_decision_def)
  have "holds_decision i d (co_state (fst (respond (register_target env q c))))"
    by (rule outcome_invariant [OF register_target_outcome [OF keyed], of "holds_decision i d"])
       (use held decision_after_batch [OF keyed held] in auto)
  then show ?thesis
    using assms(2) by (auto simp: decided_def respond_def)
qed

section \<open>The consumer\<close>

definition broken_promises :: "complaint set" where
  "broken_promises = {Unmet ''committed decision did not round trip'',
     Unmet ''review snapshot did not expose the committed decision'',
     Unmet ''repeated commit was not idempotent'', Unmet ''historical decision was lost''}"

lemma kept_promise:
  assumes "Unmet what \<notin> broken_promises" and "\<And>c c1 x. P c \<Longrightarrow> operation c = (c1, Inr x) \<Longrightarrow> Q x c1"
  shows "avoids broken_promises (at_coordinator P) (wanted what operation) (\<lambda>x. at_coordinator (Q x))"
  using assms by (intro avoids_wanted) auto

lemma sound_wanted:
  assumes "Unmet what \<notin> broken_promises"
    and "\<And>c. slots_keyed (co_state c) \<Longrightarrow> outcome env (bodies_ok (co_state c)) c (respond (operation c))"
  shows "avoids broken_promises (at_coordinator sound) (wanted what operation) (\<lambda>_. at_coordinator sound)"
  using sound_after [OF _ assms(2)] by (intro kept_promise [OF assms(1)]) blast

lemma sound_demand:
  assumes "Unmet what \<notin> broken_promises"
  shows "avoids broken_promises (at_coordinator P) (demand what condition) (\<lambda>_. at_coordinator P)"
  using assms by (auto simp: avoids_def demand_def fails_def scene_return_def at_coordinator_def)

lemma enrol_sound: "avoids broken_promises (at_coordinator sound) (consumer_enrol mc epoch i) (\<lambda>_. at_coordinator sound)"
  unfolding consumer_enrol_def Let_def
  by (intro avoids_bind [OF sound_wanted [OF _ register_critic_outcome]] avoids_bind [OF avoids_next_boot]
      avoids_bind [OF sound_wanted [OF _ register_worker_outcome]]
      avoids_bind [OF sound_wanted [OF _ declare_readiness_outcome]] avoids_return)
     (simp_all add: broken_promises_def)

lemma submit_sound:
  "avoids broken_promises (at_coordinator sound) (consumer_submit mc epoch review target entry) (\<lambda>_. at_coordinator sound)"
  unfolding consumer_submit_def Let_def prod.case_eq_if
  by (intro avoids_bind [OF sound_wanted [OF _ submit_evidence_outcome]] sound_wanted [OF _ submit_finding_outcome])
     (simp_all add: broken_promises_def)

lemma review_sound:
  "avoids broken_promises (at_coordinator sound) (consumer_review mc epoch) (\<lambda>_. at_coordinator sound)"
proof -
  have declared: "avoids broken_promises (at_coordinator sound) (wanted ''review declaration rejected'' (declare_review env q))
      (\<lambda>_. at_coordinator sound)" for env q
    by (rule kept_promise) (auto simp: broken_promises_def dest: sound_declared)
  show ?thesis
    unfolding consumer_review_def Let_def
    by (intro avoids_bind [OF sound_wanted [OF _ register_target_outcome]] avoids_bind [OF avoids_each [OF enrol_sound]]
        avoids_bind [OF declared] avoids_bind [OF sound_wanted [OF _ assign_critics_outcome]]
        avoids_bind [OF sound_demand] avoids_bind [OF avoids_each [OF submit_sound]] avoids_return)
       (simp_all add: broken_promises_def)
qed

lemma avoids_post:
  "avoids bad P m Q \<Longrightarrow> (\<And>x h. Q x h \<Longrightarrow> R x h) \<Longrightarrow> avoids bad P m R"
  by (auto simp: avoids_def split: sum.splits)

text \<open>A query in a state that answers it, with what the answer is.\<close>

lemma answered:
  assumes "\<And>c. P c \<Longrightarrow> \<exists>x. query c = Inr x \<and> A x"
  shows "avoids bad (at_coordinator P) (seen what query) (\<lambda>x. at_coordinator (\<lambda>c. P c \<and> A x))"
  unfolding seen_def
  by (rule avoids_wanted) (use assms in \<open>fastforce simp: is_ok_iff\<close>)+

lemma glanced:
  assumes "Unmet what \<notin> broken_promises"
  shows "avoids broken_promises (at_coordinator P) (seen what query) (\<lambda>_. at_coordinator P)"
  unfolding seen_def by (rule kept_promise [OF assms]) simp

definition repeatable :: "env \<Rightarrow> commit_review_request \<Rightarrow> review_id \<Rightarrow> review_generation \<Rightarrow> decision \<Rightarrow> coordinator \<Rightarrow> bool" where
  "repeatable env q i g d c \<longleftrightarrow> settled i g d c \<and> commit_review env q c = (c, Inr d)"

lemma decide_settles:
  assumes "cm_review commit = r_id review" and "cm_review_generation commit = r_generation review"
  shows "avoids broken_promises (at_coordinator sound) (consumer_decide mc target review commit)
    (\<lambda>(ex, d). at_coordinator (repeatable (mc_env mc) commit (r_id review) (r_generation review) d))"
proof -
  let ?R = "\<lambda>d. repeatable (mc_env mc) commit (r_id review) (r_generation review) d"
  have commits: "avoids broken_promises (at_coordinator sound) (wanted ''review commit rejected''
      (commit_review (mc_env mc) commit)) (\<lambda>d. at_coordinator (?R d))"
  proof (rule kept_promise)
    fix c c1 d assume c: "sound c" "commit_review (mc_env mc) commit c = (c1, Inr d)"
    from commit_settles [OF c] assms show "?R d c1"
      by (simp add: repeatable_def)
  qed (simp add: broken_promises_def)
  have queried: "avoids broken_promises (at_coordinator (?R d)) (seen ''committed decision did not round trip''
      (query_decision (r_id review) (r_generation review))) (\<lambda>x. at_coordinator (\<lambda>c. ?R d c \<and> x = d))" for d
    by (rule answered) (auto simp: repeatable_def dest: settled_query_decision)
  have shown: "avoids broken_promises (at_coordinator (?R d)) (seen ''review snapshot did not expose the committed decision''
      (query_review H (r_id review))) (\<lambda>x. at_coordinator (\<lambda>c. ?R d c \<and> sn_decision x = Some d))" for d H
    by (rule answered) (auto simp: repeatable_def dest: settled_query_review)
  have same: "avoids broken_promises (at_coordinator (\<lambda>c. ?R d c \<and> x = d)) (demand ''committed decision did not round trip''
      (d_decision_digest x = d_decision_digest d)) (\<lambda>_. at_coordinator (?R d))" for d x
    by (rule avoids_post [OF avoids_demand]) (auto simp: at_coordinator_def)
  have exposed: "avoids broken_promises (at_coordinator (\<lambda>c. ?R d c \<and> sn_decision x = Some d))
      (demand ''review snapshot did not expose the committed decision'' (sn_decision x \<noteq> None))
      (\<lambda>_. at_coordinator (?R d))" for d x
    by (rule avoids_post [OF avoids_demand]) (auto simp: at_coordinator_def)
  show ?thesis
    unfolding consumer_decide_def Let_def
    by (rule avoids_bind [OF glanced], simp add: broken_promises_def,
        rule avoids_bind [OF sound_demand], simp add: broken_promises_def,
        rule avoids_bind [OF glanced], simp add: broken_promises_def,
        rule avoids_bind [OF sound_demand], simp add: broken_promises_def,
        rule avoids_bind [OF commits], rule avoids_bind [OF sound_demand], simp add: broken_promises_def,
        rule avoids_bind [OF queried], rule avoids_bind [OF same],
        rule avoids_bind [OF shown], rule avoids_bind [OF exposed],
        rule avoids_bind [OF sound_demand], simp add: broken_promises_def, rule avoids_return, simp)
qed

lemma history_decided:
  "avoids broken_promises (at_coordinator (repeatable (mc_env mc) commit (r_id review) g d))
    (consumer_history mc epoch target review commit d) (\<lambda>_. at_coordinator (\<lambda>_. True))"
proof -
  let ?R = "repeatable (mc_env mc) commit (r_id review) g d"
  have again: "avoids broken_promises (at_coordinator ?R) (wanted ''repeated commit was not idempotent''
      (commit_review (mc_env mc) commit)) (\<lambda>x. at_coordinator (\<lambda>c. ?R c \<and> x = d))"
    by (rule avoids_wanted) (auto simp: repeatable_def)
  have same: "avoids broken_promises (at_coordinator (\<lambda>c. ?R c \<and> x = d))
      (demand ''repeated commit was not idempotent'' (d_id x = d_id d)) (\<lambda>_. at_coordinator ?R)" for x
    by (rule avoids_post [OF avoids_demand]) (auto simp: at_coordinator_def)
  have revised: "avoids broken_promises (at_coordinator ?R) (wanted ''target revision did not advance the generation''
      (register_target (mc_env mc) q)) (\<lambda>_. at_coordinator (decided (r_id review)))" for q
    by (rule kept_promise) (auto simp: broken_promises_def repeatable_def dest: settled_register_target)
  have recalled: "avoids broken_promises (at_coordinator (decided (r_id review)))
      (seen ''historical review still claims current authority'' (query_review H (r_id review)))
      (\<lambda>x. at_coordinator (\<lambda>c. decided (r_id review) c \<and> sn_decision x \<noteq> None))" for H
    by (rule answered) (auto simp: decided_def holds_decision_def query_review_def build_snapshot_def)
  have kept: "avoids broken_promises (at_coordinator (\<lambda>c. decided (r_id review) c \<and> sn_decision x \<noteq> None))
      (demand ''historical decision was lost'' (sn_decision x \<noteq> None)) (\<lambda>_. at_coordinator (\<lambda>_. True))" for x
    by (rule avoids_post [OF avoids_demand]) (auto simp: at_coordinator_def)
  show ?thesis
    unfolding consumer_history_def Let_def
    by (rule avoids_bind [OF again], rule avoids_bind [OF same], rule avoids_bind [OF revised],
        rule avoids_bind [OF sound_demand], simp add: broken_promises_def, rule avoids_bind [OF recalled],
        rule avoids_bind [OF sound_demand], simp add: broken_promises_def, rule avoids_bind [OF kept],
        rule avoids_return, simp add: at_coordinator_def)
qed

lemma avoids_reading: "(\<And>x. avoids bad P (m x) Q) \<Longrightarrow> avoids bad P (\<lambda>h. m (f h) h) Q"
  by (simp add: avoids_def)

lemma consumer_scene: "avoids broken_promises (at_coordinator sound) (consumer_program mc epoch) (\<lambda>_ _. False)"
  unfolding consumer_program_def
proof (rule avoids_bind [OF review_sound])
  fix x :: "target_record \<times> review_record \<times> consumer_critic list"
  obtain target review critics where x: "x = (target, review, critics)"
    by (cases x) auto
  let ?commit = "consumer_commit review target epoch (10 + 2 * of_nat (length critics))"
  have ending: "avoids broken_promises
      (at_coordinator (repeatable (mc_env mc) ?commit (r_id review) (r_generation review) d))
      (scene_bind (consumer_history mc epoch target review ?commit d) (\<lambda>historical.
        scene_bind (say (consumer_summary target review ex d historical)) (\<lambda>_. exit_with True))) (\<lambda>_ _. False)" for ex d
    by (rule avoids_bind [OF history_decided], rule avoids_bind [OF avoids_say], rule avoids_exit)
  have "avoids broken_promises (at_coordinator sound) (scene_bind (consumer_decide mc target review ?commit)
      (\<lambda>(ex, d). scene_bind (consumer_history mc epoch target review ?commit d) (\<lambda>historical.
        scene_bind (say (consumer_summary target review ex d historical)) (\<lambda>_. exit_with True)))) (\<lambda>_ _. False)"
    by (rule avoids_bind [OF decide_settles]) (use ending in \<open>auto simp: consumer_commit_def split: prod.splits\<close>)
  then show "avoids broken_promises (at_coordinator sound) (case x of (target, review, critics) \<Rightarrow>
      let commit = consumer_commit review target epoch (10 + 2 * of_nat (length critics)) in
      scene_bind (consumer_decide mc target review commit) (\<lambda>(ex, d).
      scene_bind (consumer_history mc epoch target review commit d) (\<lambda>historical.
      scene_bind (say (consumer_summary target review ex d historical)) (\<lambda>_. exit_with True)))) (\<lambda>_ _. False)"
    by (simp add: x Let_def)
qed

lemma started_sound:
  assumes "coordinator_start io env found (new_coordinator cfg) = (c1, Inr u)" and "cfg_persistence_path cfg = []"
  shows "sound c1"
proof -
  obtain j where start: "start_with env (Inr j) (new_coordinator cfg) = (c1, Inr u)"
    using assms by (auto simp: coordinator_start_def start_in_memory_def new_coordinator_def)
  from start_footing [OF this] start_recovered [OF this] show ?thesis
    by (simp add: sound_def slots_keyed_after_entries recovered_base_keyed)
qed

text \<open>
  C16. What the downstream consumer relies on is true: on any machine, whatever the hash, the clock and the
  file system, it never stops because a committed decision did not read back, a snapshot did not show it, a
  repeated commit was answered differently, or a revision of the target lost the decision.
\<close>

theorem consumer_promises_kept:
  "pe_complaint (downstream_consumer mc) \<notin> {Some (Unmet ''committed decision did not round trip''),
     Some (Unmet ''review snapshot did not expose the committed decision''),
     Some (Unmet ''repeated commit was not idempotent''), Some (Unmet ''historical decision was lost'')}"
proof -
  have "avoids broken_promises (at_coordinator (\<lambda>_. True)) (wanted ''coordinator did not start''
      (\<lambda>_. coordinator_start in_memory_io env None (new_coordinator consumer_config))) (\<lambda>_. at_coordinator sound)" for env
    by (rule kept_promise, simp add: broken_promises_def) (rule started_sound, assumption, simp add: consumer_config_def)
  then have "avoids broken_promises (\<lambda>_. True) (wanted ''coordinator did not start''
      (\<lambda>_. coordinator_start in_memory_io env None (new_coordinator consumer_config))) (\<lambda>_. at_coordinator sound)" for env
    by (rule avoids_pre) (simp add: at_coordinator_def)
  from avoids_bind [OF this [of "mc_env mc"] avoids_reading [OF consumer_scene]]
  have "avoids broken_promises (\<lambda>_. True) (scene_bind (wanted ''coordinator did not start''
      (\<lambda>_. coordinator_start in_memory_io (mc_env mc) None (new_coordinator consumer_config)))
      (\<lambda>_ h. consumer_program mc (epoch_of (ha_coordinator h)) h)) (\<lambda>_ _. False)" .
  then have "pe_complaint (downstream_consumer mc) \<notin> Some ` broken_promises"
    unfolding avoids_def downstream_consumer_def outcome_of_scene_def
    by (auto split: sum.splits prod.splits)
  then show ?thesis
    by (simp add: broken_promises_def)
qed

end
