(* ===== verification/CF_Bench.thy ===== *)
theory CF_Bench
  imports CF_Examples
begin

text \<open>
  The benchmark (\<open>bench/critic_bench.cpp\<close>): the five workloads it measures, as scenes over the harness. The
  figures it prints behind every count come from the steady clock and are a parameter, \<open>figures\<close>, of the
  label; the workloads, the counts and the ways to end early are those of the program.
\<close>

definition bench_limits :: runtime_limits where
  "bench_limits = clamp_to_hard_ceiling (default_limits\<lparr>
     max_concurrent_reviews := 65536, max_retained_reviews := 65536, max_retained_targets := 65536,
     max_critics_per_review := 256, max_findings_per_review := 1024, max_evidence_records_per_review := 65536,
     max_worker_connections := 4096, max_persisted_records := 4194304 \<rparr>)"

definition bench_config :: "string \<Rightarrow> string \<Rightarrow> coordinator_config" where
  "bench_config path label = \<lparr> cfg_limits = bench_limits, cfg_persistence_path = path, cfg_coordinator_id = 0,
     cfg_process_label = label \<rparr>"

type_synonym bench_figures = "string \<Rightarrow> string"

definition pad_right :: "nat \<Rightarrow> string \<Rightarrow> string" where
  "pad_right n s = s @ replicate (n - length s) CHR '' ''"

definition pad_left :: "nat \<Rightarrow> string \<Rightarrow> string" where
  "pad_left n s = replicate (n - length s) CHR '' '' @ s"

definition bench_report :: "bench_figures \<Rightarrow> string \<Rightarrow> nat \<Rightarrow> unit scene" where
  "bench_report figures label n = say [pad_right 46 label, '' '', pad_left 10 (dec64 (of_nat n)), '' ops '',
     figures label, newline]"

definition start_bench :: "open_io \<Rightarrow> env \<Rightarrow> coordinator_config \<Rightarrow> bytes option \<Rightarrow> coordinator_epoch scene" where
  "start_bench io env cfg found =
    scene_bind (needed (\<lambda>_. coordinator_start io env found (new_coordinator cfg))) (\<lambda>_.
    observed (\<lambda>c. Inr (epoch_of c)))"

text \<open>An operation whose failure ends the program without a word.\<close>

definition silently :: "(coordinator \<Rightarrow> coordinator \<times> 'a result) \<Rightarrow> 'a scene" where
  "silently = needed_or (\<lambda>_. None)"

section \<open>Requests\<close>

definition bench_target_request :: "string \<Rightarrow> coordinator_epoch \<Rightarrow> register_target_request" where
  "bench_target_request payload epoch =
    \<lparr> rt_id = 0, rt_target_class = TC_Claim, rt_schema_name = ''bench/target'', rt_payload = string_bytes payload,
      rt_producer = 0, rt_producer_version = [], rt_provenance = ''bench'', rt_reviewable = True,
      rt_epoch = epoch, rt_request = 0 \<rparr>"

definition bench_target :: "env \<Rightarrow> coordinator_epoch \<Rightarrow> string \<Rightarrow> target_record scene" where
  "bench_target env epoch payload = needed (register_target env (bench_target_request payload epoch))"

definition bench_synthetic :: synthetic_config where
  "bench_synthetic = default_synthetic_config\<lparr> sy_role := Role_GeneralCritic, sy_behavior := SB_Pass \<rparr>"

definition bench_critic_request :: "hash_fun \<Rightarrow> coordinator_epoch \<Rightarrow> register_critic_request" where
  "bench_critic_request H epoch = replacement_request H bench_synthetic 0 False epoch"

definition bench_worker_request ::
  "worker_boot_id \<Rightarrow> critic_registration \<Rightarrow> coordinator_epoch \<Rightarrow> register_worker_request" where
  "bench_worker_request boot critic epoch =
    \<lparr> rw_id = 0, rw_boot = boot, rw_critic = c_id critic, rw_critic_generation = c_generation critic, rw_host = 0,
      rw_process_label = [], rw_epoch = epoch, rw_request = 0 \<rparr>"

definition bench_declare_request ::
  "review_request_id \<Rightarrow> target_record \<Rightarrow> review_spec \<Rightarrow> coordinator_epoch \<Rightarrow> declare_review_request" where
  "bench_declare_request request target spec epoch =
    \<lparr> dv_request = request, dv_target = t_id target, dv_target_generation = t_generation target, dv_spec = spec,
      dv_epoch = epoch \<rparr>"

definition bench_assign_request :: "review_record \<Rightarrow> example_critic list \<Rightarrow> coordinator_epoch \<Rightarrow> assign_critics_request" where
  "bench_assign_request review critics epoch =
    \<lparr> ac_review = r_id review, ac_review_generation = r_generation review,
      ac_assignments = example_assignments (map (\<lambda>xc. (xc, Role_GeneralCritic)) critics),
      ac_epoch = epoch, ac_request = 0 \<rparr>"

definition bench_evidence ::
  "review_record \<Rightarrow> target_record \<Rightarrow> example_critic \<Rightarrow> string \<Rightarrow> bytes \<Rightarrow> coordinator_epoch \<Rightarrow> submit_evidence_request" where
  "bench_evidence review target xc reference payload epoch =
    \<lparr> se_source_type = Src_Computation, se_provenance = Prov_Derived, se_integrity = Integ_Verified,
      se_producer = 0, se_reference = reference, se_payload = payload, se_finding = 0, se_epoch = epoch,
      se_request = 0, se_review = r_id review, se_review_generation = r_generation review,
      se_target = t_id target, se_target_generation = t_generation target, se_critic = xc_id xc,
      se_critic_generation = xc_generation xc, se_worker = xc_worker xc, se_worker_boot = xc_boot xc \<rparr>"

definition bench_finding ::
  "review_record \<Rightarrow> target_record \<Rightarrow> example_critic \<Rightarrow> finding_category \<Rightarrow> severity \<Rightarrow> finding_outcome
   \<Rightarrow> evidence_id list \<Rightarrow> string \<Rightarrow> coordinator_epoch \<Rightarrow> submit_finding_request" where
  "bench_finding review target xc category severity verdict evidence explanation epoch =
    (late_finding review target xc explanation epoch)\<lparr>
      sf_category := category, sf_severity := severity, sf_outcome := verdict, sf_evidence := evidence \<rparr>"

text \<open>A critic with its worker; the two sections differ in the label of the boot and in what a failure says.\<close>

definition bench_critic ::
  "machine \<Rightarrow> coordinator_epoch \<Rightarrow> string \<Rightarrow> (error_code \<Rightarrow> complaint option) \<Rightarrow> complaint option \<Rightarrow> example_critic scene" where
  "bench_critic mc epoch label rejected unready = (let env = mc_env mc; H = env_hash env in
    scene_bind (needed_or rejected (register_critic env (bench_critic_request H epoch))) (\<lambda>critic.
    scene_bind (next_boot mc label) (\<lambda>boot.
    scene_bind (needed_or rejected (register_worker env (bench_worker_request boot critic epoch))) (\<lambda>worker.
    let xc = \<lparr> xc_id = c_id critic, xc_generation = c_generation critic, xc_worker = w_id worker, xc_boot = boot \<rparr> in
    scene_bind (needed_or (\<lambda>_. unready)
      (declare_readiness env (example_readiness H bench_synthetic xc epoch))) (\<lambda>_.
    scene_return xc)))))"

section \<open>Workloads\<close>

definition bench_registration :: "bench_figures \<Rightarrow> machine \<Rightarrow> nat \<Rightarrow> nat \<Rightarrow> unit scene" where
  "bench_registration figures mc targets critics = (let env = mc_env mc; H = env_hash env in
    scene_bind (start_bench in_memory_io env (bench_config [] ''bench'') None) (\<lambda>epoch.
    scene_bind (scene_each (\<lambda>i. needed (register_target env
      (bench_target_request (''target-'' @ dec64 (of_nat i)) epoch))) [0..<targets]) (\<lambda>_.
    scene_bind (bench_report figures ''target registration (completed)'' targets) (\<lambda>_.
    scene_bind (scene_each (\<lambda>_. needed (register_critic env (bench_critic_request H epoch))) [0..<critics]) (\<lambda>_.
    scene_bind (bench_report figures ''critic registration (completed)'' critics) (\<lambda>_.
    scene_bind (observed (\<lambda>c. Inr (authoritative_state_digest H (co_state c)))) (\<lambda>d.
    say [''authoritative state digest '', take 16 (digest_to_hex d), newline])))))))"

text \<open>One review: a critic of its own, evidence, a finding, and the commit.\<close>

definition bench_cycle :: "machine \<Rightarrow> coordinator_epoch \<Rightarrow> target_record \<Rightarrow> review_record \<Rightarrow> review_record scene" where
  "bench_cycle mc epoch target review = (let env = mc_env mc in
    scene_bind (bench_critic mc epoch ''bench-worker'' (\<lambda>err. Some (Refused err))
      (Some (Unmet ''readiness rejected''))) (\<lambda>xc.
    scene_bind (needed (assign_critics env (bench_assign_request review [xc] epoch))) (\<lambda>_.
    scene_bind (needed (submit_evidence env
      (bench_evidence review target xc ''bench-witness'' [1, 2, 3, 4] epoch))) (\<lambda>evidence.
    scene_bind (needed (submit_finding env (bench_finding review target xc Cat_Correctness Sev_High Out_Pass
      [e_id evidence] ''benchmark finding'' epoch))) (\<lambda>_.
    scene_bind (needed (commit_review env
      (example_commit (r_id review) (r_generation review) (t_generation target) epoch))) (\<lambda>_.
    scene_return review))))))"

definition bench_reviews :: "bench_figures \<Rightarrow> machine \<Rightarrow> nat \<Rightarrow> unit scene" where
  "bench_reviews figures mc n = (let env = mc_env mc; H = env_hash env in
    scene_bind (start_bench in_memory_io env (bench_config [] ''bench'') None) (\<lambda>epoch.
    scene_bind (bench_target env epoch ''review throughput target'') (\<lambda>target.
    scene_bind (scene_each (\<lambda>i. needed (declare_review env
      (bench_declare_request (of_nat (i + 1)) target default_review_spec epoch))) [0..<n]) (\<lambda>reviews.
    scene_bind (bench_report figures ''review declaration (completed)'' n) (\<lambda>_.
    scene_bind (scene_each (bench_cycle mc epoch target) reviews) (\<lambda>completed.
    scene_bind (bench_report figures ''full review cycles (assign+evidence+finding+commit)'' n) (\<lambda>_.
    scene_bind (scene_each (\<lambda>r. silently (\<lambda>c. (c, query_review H (r_id r) c))) completed) (\<lambda>_.
    scene_bind (bench_report figures ''review snapshot query (completed)'' (length completed)) (\<lambda>_.
    scene_bind (scene_each (\<lambda>r. silently (\<lambda>c. (c, explain_review H (r_id r) c))) completed) (\<lambda>_.
    scene_bind (bench_report figures ''deterministic explanation (completed)'' (length completed)) (\<lambda>_.
    scene_bind (scene_each (\<lambda>r. silently (\<lambda>c. (c, evaluate_review_now H (r_id r) c))) completed) (\<lambda>_.
    bench_report figures ''policy evaluation (completed)'' (length completed)))))))))))))"

text \<open>One size of the aggregation workload: many critics on one review, then \<open>rounds\<close> evaluations.\<close>

definition bench_bulk ::
  "machine \<Rightarrow> coordinator_epoch \<Rightarrow> review_record \<Rightarrow> target_record \<Rightarrow> nat \<times> example_critic \<Rightarrow> finding scene" where
  "bench_bulk mc epoch review target entry = (case entry of (i, xc) \<Rightarrow> (let env = mc_env mc in
    scene_bind (needed (submit_evidence env
      (bench_evidence review target xc ''bench-bulk-witness'' [9, 9] epoch))) (\<lambda>evidence.
    needed (submit_finding env (bench_finding review target xc Cat_Correctness Sev_Medium Out_Pass
      [e_id evidence] (''bulk finding '' @ dec64 (of_nat i)) epoch)))))"

definition bench_population ::
  "bench_figures \<Rightarrow> machine \<Rightarrow> coordinator_epoch \<Rightarrow> target_record \<Rightarrow> nat \<Rightarrow> u32 \<Rightarrow> unit scene" where
  "bench_population figures mc epoch target rounds count = (let env = mc_env mc; H = env_hash env in
    scene_bind (needed (declare_review env (bench_declare_request (100000 + ucast count) target
      (default_review_spec\<lparr> sp_min_critic_count := count, sp_quorum := count,
         sp_duplicates := Dup_KeepDistinct \<rparr>) epoch))) (\<lambda>review.
    scene_bind (scene_each (\<lambda>_. bench_critic mc epoch ''bench-bulk'' (\<lambda>_. None) None) [0..<unat count]) (\<lambda>critics.
    scene_bind (needed (assign_critics env (bench_assign_request review critics epoch))) (\<lambda>_.
    scene_bind (scene_each (bench_bulk mc epoch review target) (zip [0..<length critics] critics)) (\<lambda>_.
    scene_bind (scene_each (\<lambda>_. silently (\<lambda>c. (c, evaluate_review_now H (r_id review) c))) [0..<rounds]) (\<lambda>_.
    bench_report figures (concat [''policy evaluation over '', dec32 count, '' findings (completed)'']) rounds))))))"

definition bench_aggregation :: "bench_figures \<Rightarrow> machine \<Rightarrow> nat \<Rightarrow> u32 list \<Rightarrow> unit scene" where
  "bench_aggregation figures mc rounds counts =
    scene_bind (start_bench in_memory_io (mc_env mc) (bench_config [] ''bench-aggregate'') None) (\<lambda>epoch.
    scene_bind (bench_target (mc_env mc) epoch ''aggregation scaling target'') (\<lambda>target.
    scene_bind (scene_each (bench_population figures mc epoch target rounds) counts) (\<lambda>_.
    scene_return ())))"

text \<open>
  The durable workload. The finding of every round names a critic and a worker that nobody registered, and its
  result is thrown away.
\<close>

definition bench_journal_path :: string where
  "bench_journal_path = ''critic_fabric_bench.journal''"

definition unregistered_critic :: example_critic where
  "unregistered_critic = \<lparr> xc_id = 1, xc_generation = 1, xc_worker = 1, xc_boot = 1 \<rparr>"

definition bench_durable_finding ::
  "review_record \<Rightarrow> target_record \<Rightarrow> coordinator_epoch \<Rightarrow> submit_finding_request" where
  "bench_durable_finding review target epoch = bench_finding review target unregistered_critic Cat_Other Sev_Info
     Out_Unknown [] ''durable benchmark finding'' epoch"

definition bench_durable_round :: "env \<Rightarrow> coordinator_epoch \<Rightarrow> target_record \<Rightarrow> nat \<Rightarrow> unit scene" where
  "bench_durable_round env epoch target i =
    scene_bind (silently (declare_review env (bench_declare_request (200000 + of_nat i) target
      (default_review_spec\<lparr> sp_duplicates := Dup_KeepDistinct \<rparr>) epoch))) (\<lambda>review.
    scene_bind (tried (submit_finding env (bench_durable_finding review target epoch))) (\<lambda>_.
    scene_return ()))"

definition bench_durable :: "bench_figures \<Rightarrow> open_io \<Rightarrow> env \<Rightarrow> bytes option \<Rightarrow> nat \<Rightarrow> unit scene" where
  "bench_durable figures io env found n =
    scene_bind (start_bench io env (bench_config bench_journal_path ''bench-durable'') found) (\<lambda>epoch.
    scene_bind (bench_target env epoch ''durable target'') (\<lambda>target.
    scene_bind (scene_each (bench_durable_round env epoch target) [0..<n]) (\<lambda>_.
    scene_bind (bench_report figures ''durable journal append with review declaration'' n) (\<lambda>_.
    scene_bind (tried stop) (\<lambda>_.
    scene_bind (observed (\<lambda>c. Inr (jn_disk (co_journal c)))) (\<lambda>image.
    scene_bind (start_bench io env (bench_config bench_journal_path ''bench-durable-reload'') (Some image)) (\<lambda>epoch2.
    scene_bind (bench_report figures ''durable journal load and replay (completed)'' 1) (\<lambda>_.
    scene_bind (observed (\<lambda>c. Inr (rr_journal_records (co_recovery c)))) (\<lambda>records.
    scene_bind (say [''recovered epoch '', dec64 epoch2, '' records '', dec64 records, newline]) (\<lambda>_.
    scene_bind (tried stop) (\<lambda>_.
    scene_return ())))))))))))"

definition bench_frame :: frame where
  "bench_frame =
    \<lparr> fr_header = default_header\<lparr> fh_type := MT_SubmitFinding, fh_correlation := 42,
        fh_authority := \<lparr> au_epoch = 1, au_worker = 7, au_worker_boot = 8, au_critic = 9,
          au_critic_generation = 1, au_review = 10, au_review_generation = 1, au_target = 11,
          au_target_generation = 1, au_request = 42 \<rparr> \<rparr>,
      fr_payload = replicate 512 0x5A \<rparr>"

definition coded :: "'a result \<Rightarrow> 'a scene" where
  "coded r = silently (\<lambda>c. (c, r))"

definition bench_codec :: "bench_figures \<Rightarrow> nat \<Rightarrow> unit scene" where
  "bench_codec figures n =
    scene_bind (scene_each (\<lambda>_. coded (frame_encode default_limits bench_frame)) [0..<n]) (\<lambda>encoded.
    scene_bind (bench_report figures ''frame encode (completed)'' n) (\<lambda>_.
    scene_bind (scene_each (\<lambda>_. coded (frame_decode default_limits (last ([] # encoded)))) [0..<n]) (\<lambda>_.
    bench_report figures ''frame decode (completed)'' n)))"

text \<open>The program. \<open>found\<close> is what the removal of an old journal left under its path.\<close>

definition critic_bench :: "bench_figures \<Rightarrow> open_io \<Rightarrow> machine \<Rightarrow> bytes option \<Rightarrow> program_end" where
  "critic_bench figures io mc found = outcome_of_scene (scene_bind
    (bench_registration figures mc 20000 20000) (\<lambda>_.
    scene_bind (bench_reviews figures mc 2000) (\<lambda>_.
    scene_bind (bench_aggregation figures mc 200 [8, 32, 128]) (\<lambda>_.
    scene_bind (bench_durable figures io (mc_env mc) found 5000) (\<lambda>_.
    scene_bind (bench_codec figures 200000) (\<lambda>_.
    exit_with True))))) (fresh_harness []))"

end
