(* ===== verification/CF_Tidy.thy ===== *)
theory CF_Tidy
  imports CF_Committed
begin

text \<open>
  What a coordinator writes, the next one can read. A record is tidy when it fits the limits of its decoder and,
  where it is a declaration, leaves the summary of the specification room in the detail of a later commit; a
  state is tidy when what its maps hold can be written into further tidy records. Every tidy record keeps a
  state tidy, and every operation of the coordinator publishes tidy records only, if its request is bounded.
\<close>

section \<open>Properties of the entries of a map\<close>

definition om_each :: "('k \<Rightarrow> 'v \<Rightarrow> bool) \<Rightarrow> ('k, 'v) omap \<Rightarrow> bool" where
  "om_each P m \<longleftrightarrow> (\<forall>(k, v) \<in> set m. P k v)"

lemma om_each_empty [simp]: "om_each P []"
  by (simp add: om_each_def)

lemma om_each_put [simp]: "om_each P m \<Longrightarrow> P k v \<Longrightarrow> om_each P (om_put k v m)"
  by (induction k v m rule: om_put.induct) (auto simp: om_each_def)

lemma om_each_get: "om_each P m \<Longrightarrow> om_get m k = Some v \<Longrightarrow> P k v"
  by (auto simp: om_each_def dest!: om_get_Some_mem)

lemma om_each_vals: "om_each P m \<Longrightarrow> v \<in> set (om_vals m) \<Longrightarrow> \<exists>k. P k v"
  by (fastforce simp: om_each_def om_vals_def)

lemma om_each_fold:
  "om_each P m \<Longrightarrow> \<forall>x \<in> set xs. P (key x) (val x) \<Longrightarrow> om_each P (foldl (\<lambda>m x. om_put (key x) (val x) m) m xs)"
  by (induction xs arbitrary: m) simp_all

section \<open>Tidy records and states\<close>

text \<open>The summary of a specification with what a commit adds to it still fits a text of the journal.\<close>

definition concise :: "runtime_limits \<Rightarrow> review_spec \<Rightarrow> bool" where
  "concise lim spec \<longleftrightarrow> length (summarize spec) + 200 \<le> unat (max_metadata_string_bytes lim)"

definition tidy :: "runtime_limits \<Rightarrow> journal_body \<Rightarrow> bool" where
  "tidy lim b \<longleftrightarrow> fits_journal_body lim b \<and> short_batch b
   \<and> (case b of
        JR_EpochEstablished ep \<Rightarrow> False
      | JR_ReviewDeclared r \<Rightarrow> r_id r \<noteq> - 1 \<and> id_valid (r_target_generation r) \<and> concise lim (r_spec r)
      | _ \<Rightarrow> True)"

text \<open>Only a start establishes an epoch; nothing else in a journal may be untidy.\<close>

fun is_epoch :: "journal_body \<Rightarrow> bool" where
  "is_epoch (JR_EpochEstablished ep) = True"
| "is_epoch _ = False"

definition kept :: "runtime_limits \<Rightarrow> journal_body \<Rightarrow> bool" where
  "kept lim b \<longleftrightarrow> is_epoch b \<or> tidy lim b"

definition tidy_slot :: "runtime_limits \<Rightarrow> review_slot \<Rightarrow> bool" where
  "tidy_slot lim sl \<longleftrightarrow>
     (let r = sl_record sl in
      id_valid (r_id r) \<and> id_valid (r_generation r) \<and> id_valid (r_target r) \<and> id_valid (r_target_generation r)
    \<and> length (r_target_digest r) = 32 \<and> concise lim (r_spec r))
   \<and> length (sl_policy_digest sl) = 32
   \<and> om_each (\<lambda>i a. fits_critic_assignment lim a) (sl_assignments sl)
   \<and> om_each (\<lambda>i f. id_valid (f_id f)) (sl_findings sl)
   \<and> om_each (\<lambda>i ch. fits_challenge lim ch) (sl_challenges sl)"

definition tidy_state :: "runtime_limits \<Rightarrow> durable_state \<Rightarrow> bool" where
  "tidy_state lim st \<longleftrightarrow>
     om_each (\<lambda>i t. id_valid i \<and> fits_target_record lim t) (du_targets st)
   \<and> om_each (\<lambda>i c. id_valid i \<and> fits_critic_registration lim c) (du_critics st)
   \<and> om_each (\<lambda>i w. fits_worker_record lim w) (du_workers st)
   \<and> om_each (\<lambda>i sl. tidy_slot lim sl) (du_reviews st)"

lemma tidy_empty: "tidy_state lim empty_state"
  by (simp add: tidy_state_def empty_state_def)

lemma tidy_put_slot: "tidy_state lim st \<Longrightarrow> tidy_slot lim sl \<Longrightarrow> tidy_state lim (put_slot i sl st)"
  by (simp add: tidy_state_def put_slot_def)

lemma tidy_found: "tidy_state lim st \<Longrightarrow> find_slot st i = Some sl \<Longrightarrow> tidy_slot lim sl"
  unfolding tidy_state_def find_slot_def by (blast dest: om_each_get)

lemma tidy_finding: "tidy_slot lim sl \<Longrightarrow> om_get (sl_findings sl) i = Some f \<Longrightarrow> id_valid (f_id f)"
  unfolding tidy_slot_def by (blast dest: om_each_get)

lemma tidy_on_slot:
  assumes "tidy_state lim st" and "\<And>sl. tidy_slot lim sl \<Longrightarrow> tidy_slot lim (g sl)"
  shows "tidy_state lim (on_slot i g st)"
proof (cases "find_slot st i")
  case (Some sl)
  with assms tidy_found [OF assms(1) Some] show ?thesis
    by (simp add: on_slot_def tidy_put_slot)
qed (use assms(1) in \<open>simp add: on_slot_def\<close>)

lemma tidy_finding_changed:
  assumes "tidy_state lim st"
  shows "tidy_state lim (apply_finding_state_changed fc st)"
proof (cases "find (\<lambda>(i, sl). om_get (sl_findings sl) (fc_finding fc) \<noteq> None) (du_reviews st)")
  case (Some p)
  obtain i sl where p: "p = (i, sl)" by fastforce
  with Some obtain f where f: "om_get (sl_findings sl) (fc_finding fc) = Some f" and "(i, sl) \<in> set (du_reviews st)"
    by (auto dest!: find_SomeD)
  with assms have sl: "tidy_slot lim sl"
    by (auto simp: tidy_state_def om_each_def)
  with tidy_finding [OF sl f] have "tidy_slot lim (sl\<lparr> sl_findings := om_put (fc_finding fc) (update_finding_state fc f) (sl_findings sl) \<rparr>)"
    by (simp add: tidy_slot_def update_finding_state_def Let_def)
  with assms Some p f show ?thesis
    by (simp add: apply_finding_state_changed_def tidy_put_slot)
qed (use assms in \<open>simp add: apply_finding_state_changed_def\<close>)

lemma tidy_declared:
  assumes "tidy_state lim st" and "tidy lim (JR_ReviewDeclared r)" and "\<forall>bs. length (H bs) = 32"
  shows "tidy_state lim (apply_review_declared H r st)"
proof -
  have old: "tidy_slot lim sl" if "find_slot st (r_id r) = Some sl" for sl
    using tidy_found [OF assms(1) that] .
  show ?thesis
    using assms old
    by (cases "find_slot st (r_id r)")
       (simp_all add: apply_review_declared_def Let_def tidy_state_def put_slot_def tidy_slot_def empty_slot_def tidy_def
        fits_review_record_def compute_policy_digest_def hash_writes_def)
qed

lemma tidy_worker_registered:
  "tidy_state lim st \<Longrightarrow> fits_worker_record lim w \<Longrightarrow> tidy_state lim (apply_worker_registered w st)"
  by (simp add: apply_worker_registered_def Let_def tidy_state_def split: option.splits)

lemma tidy_evidence_recorded: "tidy_slot lim sl \<Longrightarrow> tidy_slot lim (apply_evidence_recorded e sl)"
  using tidy_finding [of lim sl "e_finding e"]
  by (auto simp: apply_evidence_recorded_def tidy_slot_def Let_def split: option.splits)

lemma tidy_after_body:
  assumes "tidy_state lim st" and "tidy lim b" and "\<forall>bs. length (H bs) = 32"
  shows "tidy_state lim (apply_body H n b st)"
proof (cases b)
  case (JR_TargetRegistered t)
  then show ?thesis
    using assms by (simp add: tidy_def tidy_state_def fits_target_record_def)
next
  case (JR_TargetSuperseded p g t)
  then show ?thesis
    using assms by (simp add: tidy_def tidy_state_def apply_target_superseded_def Let_def) (simp add: fits_target_record_def)
next
  case (JR_CriticRegistered c)
  then show ?thesis
    using assms by (simp add: tidy_def tidy_state_def fits_critic_registration_def)
next
  case (JR_AssignmentsAdded i g as)
  then show ?thesis
    using assms
    by (auto intro!: tidy_on_slot om_each_fold simp: tidy_def tidy_slot_def apply_assignments_added_def list_all_iff)
next
  case (JR_AssignmentUpdated a)
  then show ?thesis
    using assms
    by (auto intro!: tidy_on_slot simp: tidy_def tidy_slot_def apply_assignment_updated_def split: option.splits)
next
  case (JR_FindingRecorded f)
  then show ?thesis
    using assms
    by (auto intro!: tidy_on_slot simp: tidy_def tidy_slot_def apply_finding_recorded_def fits_finding_def)
next
  case (JR_ChallengeRecorded ch)
  then show ?thesis
    using assms by (auto intro!: tidy_on_slot simp: tidy_def tidy_slot_def)
next
  case (JR_RebuttalRecorded rb)
  then show ?thesis
    using assms by (auto intro!: tidy_on_slot simp: tidy_slot_def)
next
  case (JR_ReviewStateChanged rv)
  then show ?thesis
    using assms by (auto intro!: tidy_on_slot simp: tidy_slot_def apply_review_state_changed_def Let_def)
next
  case (JR_DecisionCommitted d)
  then show ?thesis
    using assms by (auto intro!: tidy_on_slot simp: tidy_slot_def apply_decision_committed_def)
next
  case (JR_WorkerRegistered w)
  then show ?thesis
    using assms by (simp add: tidy_def tidy_worker_registered)
next
  case (JR_ReviewDeclared r)
  then show ?thesis
    using assms by (simp add: tidy_declared)
next
  case (JR_EvidenceRecorded e)
  then show ?thesis
    using assms by (simp add: tidy_on_slot tidy_evidence_recorded)
qed (use assms in \<open>simp_all add: tidy_finding_changed tidy_def\<close>)

lemma kept_after_body:
  assumes "tidy_state lim st" and "kept lim b" and "\<forall>bs. length (H bs) = 32"
  shows "tidy_state lim (apply_body H n b st)"
proof (cases "is_epoch b")
  case True
  then show ?thesis
    using assms(1) by (cases b) (simp_all add: tidy_state_def)
qed (use assms tidy_after_body in \<open>simp add: kept_def\<close>)

lemma tidy_after_entries:
  assumes "tidy_state lim st" and "\<forall>e \<in> set es. kept lim (je_body e)" and "\<forall>bs. length (H bs) = 32"
  shows "tidy_state lim (apply_entries H es st)"
  by (rule apply_entries_invariant) (use assms kept_after_body in blast)+

section \<open>The policy summary of an evaluation\<close>

lemma dec_nat_short: "n < 10 ^ k \<Longrightarrow> 0 < k \<Longrightarrow> length (dec_nat n) \<le> k"
proof (induction k arbitrary: n)
  case (Suc k)
  show ?case
  proof (cases "n < 10")
    case False
    with Suc.prems have "n div 10 < 10 ^ k" "0 < k"
      by (auto simp: less_mult_imp_div_less mult.commute intro: Suc_leI) (cases k, simp_all)
    with Suc.IH show ?thesis
      by (subst dec_nat.simps) (simp add: False)
  qed (subst dec_nat.simps, simp)
qed simp

lemma dec32_short: "length (dec32 n) \<le> 10"
  unfolding dec32_def by (rule dec_nat_short) (use unat_less_4294967296 [of n] in auto)

lemma quorum_basis_short: "length (quorum_basis spec a b c) \<le> 150"
  using dec32_short [of a] dec32_short [of b] dec32_short [of c] dec32_short [of "sp_min_critic_count spec"]
    dec32_short [of "sp_quorum spec"] dec32_short [of "sp_required_critic_count spec"]
  by (simp add: quorum_basis_def)

lemma error_code_name_short: "length (error_code_name e) \<le> 60"
proof -
  have "length (authority_error_name a) \<le> 60" "length (target_error_name t) \<le> 60" "length (lifecycle_error_name l) \<le> 60"
    "length (finding_error_name f) \<le> 60" "length (decision_error_name d) \<le> 60" "length (challenge_error_name c) \<le> 60"
    "length (persistence_error_name p) \<le> 60" "length (protocol_error_name q) \<le> 60"
    "length (resource_error_name r) \<le> 60" for a t l f d c p q r
    by ((cases a; simp), (cases t; simp), (cases l; simp), (cases f; simp), (cases d; simp), (cases c; simp), (cases p; simp),
        (cases q; simp), (cases r; simp))
  then show ?thesis
    by (cases e) simp_all
qed

lemma context_quorum_short: "length (q_basis (ec_quorum (context_of inp))) \<le> 150"
  by (simp add: ec_context quorum_of_def Let_def quorum_basis_short)

lemma finding_outcome_name_short: "length (finding_outcome_name v) \<le> 120"
  by (cases v) (simp_all add: finding_outcome_name_def enum_lookup_def k_finding_outcome_def)

lemma aggregate_votes_short:
  assumes "length (q_basis (ec_quorum ec)) \<le> 150"
  shows "length (snd (aggregate_votes ec)) \<le> 150"
proof (cases "sp_aggregation (ec_spec ec)")
  case Agg_QuorumPass
  then show ?thesis
    using dec32_short [of "vt_pass_votes (tally_votes (ec_decisive ec))"] dec32_short [of "sp_quorum (ec_spec ec)"]
      dec32_short [of "vt_fail_votes (tally_votes (ec_decisive ec))"] dec32_short [of "denominator ec"]
    by (simp add: aggregate_votes_def agg_quorum_pass_def Let_def)
next
  case Agg_MajorityWithConstraints
  then show ?thesis
    using assms dec32_short [of "denominator ec"] by (simp add: aggregate_votes_def agg_majority_def Let_def)
next
  case Agg_ConsensusThreshold
  then show ?thesis
    using dec32_short [of "denominator ec"]
      dec32_short [of "consensus_needed (denominator ec) (sp_consensus_threshold_basis_points (ec_spec ec))"]
    by (simp add: aggregate_votes_def agg_consensus_def Let_def)
next
  case Agg_PolicyTable
  then show ?thesis
    by (auto simp: aggregate_votes_def agg_policy_table_def split: option.splits
        intro!: le_trans [OF finding_outcome_name_short])
qed (use assms in \<open>simp_all add: aggregate_votes_def agg_all_required_pass_def agg_any_critical_fail_def
    agg_weighted_review_def agg_required_role_pass_def Let_def\<close>)

lemma aggregate_short: "length (snd (aggregate (context_of inp) rej)) \<le> 150"
  using aggregate_votes_short [OF context_quorum_short] error_code_name_short [of "snd rej"]
  by (simp add: aggregate_def)

lemma policy_result_bounded:
  "length (ex_policy_result (er_explanation (evaluate_review H inp))) \<le> length (summarize (r_spec (ei_review inp))) + 200"
proof -
  let ?ec = "context_of inp"
  let ?overlaid = "snd (apply_disagreement (ec_spec ?ec) (ec_disagreement ?ec) (aggregate ?ec (run_predicates ?ec)))"
  let ?vd = "final_guards ?ec (fst (run_predicates ?ec)) ?overlaid"
  have "length (snd ?overlaid) \<le> 150"
    using overlay_text_short [of "ec_spec ?ec" "ec_disagreement ?ec" "aggregate ?ec (run_predicates ?ec)"]
      aggregate_short [of inp "run_predicates ?ec"] by simp
  then have "length (snd ?vd) \<le> 150"
    using guard_text_short [of ?ec "fst (run_predicates ?ec)" ?overlaid] by simp
  then have "length (review_disposition_name (fst ?vd)) + length (snd ?vd) \<le> 190"
    using disposition_name_short [of "fst ?vd"] by simp
  then show ?thesis
    by (auto simp: evaluate_review_def finish_early_def finish_evaluation_def Let_def explain_phases_def
        seal_explanation_def split: option.splits prod.splits)
qed

end
