(* ===== verification/CF_Bounded.thy ===== *)
theory CF_Bounded
  imports CF_Tidy
begin

text \<open>
  The requests whose records the next start can read (\<open>bounded_command\<close>), and the theorem behind the name: on
  a tidy state, with counters that have not wrapped around, every bounded command publishes tidy records only.
  Most bounds are guards of the code; what is left for the caller are the specification of a review, the
  confidence of a finding, and the reason of a fence.
\<close>

section \<open>Bounded requests\<close>

fun bounded_command :: "runtime_limits \<Rightarrow> command \<Rightarrow> bool" where
  "bounded_command lim (Cmd_RegisterCritic q) \<longleftrightarrow> length (cap_capability_evidence (rc_capability q)) = 32"
| "bounded_command lim (Cmd_DeclareReadiness q) \<longleftrightarrow> length (dr_capability_evidence q) = 32"
| "bounded_command lim (Cmd_FenceCritic i reason) \<longleftrightarrow> length reason \<le> unat (max_metadata_string_bytes lim)"
| "bounded_command lim (Cmd_FenceWorker i reason) \<longleftrightarrow> length reason \<le> unat (max_metadata_string_bytes lim)"
| "bounded_command lim (Cmd_DeclareReview q) \<longleftrightarrow> fits_review_spec lim (dv_spec q) \<and> concise lim (dv_spec q)"
| "bounded_command lim (Cmd_SubmitFinding q) \<longleftrightarrow> fits_confidence (sf_confidence q)"
| "bounded_command lim _ \<longleftrightarrow> True"

text \<open>The limits leave room for the texts the coordinator writes of its own.\<close>

definition roomy :: "runtime_limits \<Rightarrow> bool" where
  "roomy lim \<longleftrightarrow> within_ceilings lim \<and> 256 \<le> unat (max_metadata_string_bytes lim)"

definition id_counts :: "id_counters \<Rightarrow> u64 list" where
  "id_counts n =
    [ct_target_id n, ct_critic_id n, ct_worker_id n, ct_review_id n, ct_assignment_id n, ct_finding_id n,
     ct_evidence_id n, ct_challenge_id n, ct_rebuttal_id n, ct_decision_id n, ct_boot_order n]"

text \<open>No counter of identities has used half of its space.\<close>

definition counters_left :: "coordinator \<Rightarrow> bool" where
  "counters_left c \<longleftrightarrow> list_all (\<lambda>k. 0 < k \<and> k < 9223372036854775808) (id_counts (co_next c))"

abbreviation tidily :: "env \<Rightarrow> coordinator \<Rightarrow> coordinator \<times> status \<Rightarrow> bool" where
  "tidily env c cs \<equiv> outcome env (\<lambda>bs n. list_all (tidy (co_limits c)) bs) c cs"

section \<open>What the records say\<close>

lemma tidy_simps [simp]:
  "\<not> tidy lim (JR_EpochEstablished ep)"
  "tidy lim (JR_TargetRegistered t) \<longleftrightarrow> fits_target_record lim t"
  "tidy lim (JR_TargetSuperseded p g t) \<longleftrightarrow> fits_target_record lim p \<and> fits_target_record lim t"
  "tidy lim (JR_CriticRegistered c) \<longleftrightarrow> fits_critic_registration lim c"
  "tidy lim (JR_WorkerRegistered w) \<longleftrightarrow> fits_worker_record lim w"
  "tidy lim (JR_ReviewDeclared r) \<longleftrightarrow>
     fits_review_record lim r \<and> r_id r \<noteq> - 1 \<and> id_valid (r_target_generation r) \<and> concise lim (r_spec r)"
  "tidy lim (JR_AssignmentUpdated a) \<longleftrightarrow> fits_critic_assignment lim a"
  "tidy lim (JR_FindingRecorded f) \<longleftrightarrow> fits_finding lim f"
  "tidy lim (JR_FindingStateChanged fc) \<longleftrightarrow> fits_finding_state_change lim fc"
  "tidy lim (JR_EvidenceRecorded e) \<longleftrightarrow> fits_evidence_record lim e"
  "tidy lim (JR_ChallengeRecorded ch) \<longleftrightarrow> fits_challenge lim ch"
  "tidy lim (JR_RebuttalRecorded rb) \<longleftrightarrow> fits_rebuttal lim rb"
  "tidy lim (JR_ReviewStateChanged rv) \<longleftrightarrow> fits_review_state_change lim rv"
  "tidy lim (JR_DecisionCommitted d) \<longleftrightarrow> fits_decision d"
  by (auto simp: tidy_def short_batch_def)

lemma tidy_assignments_added:
  "length as \<le> unat (max_critics_per_review lim) \<Longrightarrow>
     list_all (\<lambda>a. fits_critic_assignment lim a \<and> a_retirement_reason a = []) as \<Longrightarrow>
     tidy lim (JR_AssignmentsAdded i g as)"
  by (auto simp: tidy_def short_batch_def list_all_iff)

lemma tidy_target: "tidy_state lim st \<Longrightarrow> om_get (du_targets st) i = Some t \<Longrightarrow> id_valid i \<and> fits_target_record lim t"
  unfolding tidy_state_def by (blast dest: om_each_get)

lemma tidy_critic:
  "tidy_state lim st \<Longrightarrow> om_get (du_critics st) i = Some c \<Longrightarrow> id_valid i \<and> fits_critic_registration lim c"
  unfolding tidy_state_def by (blast dest: om_each_get)

lemma tidy_worker: "tidy_state lim st \<Longrightarrow> om_get (du_workers st) i = Some w \<Longrightarrow> fits_worker_record lim w"
  unfolding tidy_state_def by (blast dest: om_each_get)

lemma tidy_slots: "tidy_state lim st \<Longrightarrow> sl \<in> set (om_vals (du_reviews st)) \<Longrightarrow> tidy_slot lim sl"
  unfolding tidy_state_def by (blast dest: om_each_vals)

lemma tidy_assignment: "tidy_slot lim sl \<Longrightarrow> a \<in> set (om_vals (sl_assignments sl)) \<Longrightarrow> fits_critic_assignment lim a"
  unfolding tidy_slot_def by (blast dest: om_each_vals)

lemma tidy_challenge: "tidy_slot lim sl \<Longrightarrow> om_get (sl_challenges sl) i = Some ch \<Longrightarrow> fits_challenge lim ch"
  unfolding tidy_slot_def by (blast dest: om_each_get)

lemma tidy_authority:
  assumes "tidy_state lim st" and "check_authority st au = Inr (sl, a)"
  shows "tidy_slot lim sl \<and> id_valid (au_critic au) \<and> id_valid (au_critic_generation au)"
proof -
  have "find_slot st (au_review au) = Some sl" and "live_incarnation st au"
    using assms(2) by (simp_all add: check_authority_authoritative authoritative_def)
  then obtain c where slot: "find_slot st (au_review au) = Some sl"
    and c: "om_get (du_critics st) (au_critic au) = Some c" "c_generation c = au_critic_generation au"
    by (auto simp: live_incarnation_def)
  have "id_valid (c_generation c)"
    using tidy_critic [OF assms(1) c(1)] by (simp add: fits_critic_registration_def)
  then show ?thesis
    using tidy_found [OF assms(1) slot] tidy_critic [OF assms(1) c(1)] c(2) by simp
qed

section \<open>Retirements, fences and supersessions\<close>

lemma tidy_revalidate:
  "length reason \<le> unat (max_metadata_string_bytes lim) \<Longrightarrow> list_all (tidy lim) (revalidate_review sl reason)"
  by (simp add: revalidate_review_def Let_def fits_review_state_change_def)

lemma tidy_retirements:
  assumes "tidy_slot lim sl" and "length reason \<le> unat (max_metadata_string_bytes lim)"
  shows "list_all (tidy lim) (retirements applies reason sl)"
  using assms(2) tidy_revalidate [OF assms(2)] tidy_assignment [OF assms(1)]
  by (auto simp: retirements_def Let_def list_all_iff retire_assignment_def fits_critic_assignment_def)

lemma tidy_fence_entries:
  assumes "tidy_state lim st" and "length reason \<le> unat (max_metadata_string_bytes lim)"
    and "fence_worker_entries st reason i = Inr bs"
  shows "list_all (tidy lim) bs"
  using assms(3) tidy_worker [OF assms(1), of i] tidy_retirements [OF tidy_slots [OF assms(1)] assms(2)]
  by (auto simp: fence_worker_entries_def fits_worker_record_def list_all_iff split: option.splits if_splits)

lemma tidy_fence_workers:
  assumes "tidy_state lim st" and "length reason \<le> unat (max_metadata_string_bytes lim)"
  shows "fence_workers st reason is = Inr bs \<Longrightarrow> list_all (tidy lim) bs"
  by (induction "is" arbitrary: bs) (auto simp: result_bind_Inr_iff tidy_fence_entries [OF assms])

lemma tidy_retire_generation:
  assumes st: "tidy_state lim st" and "roomy lim" and "retire_critic_generation st i = Inr bs"
  shows "list_all (tidy lim) bs"
proof -
  have reason: "length critic_advanced_reason \<le> unat (max_metadata_string_bytes lim)"
    using assms(2) by (simp add: roomy_def critic_advanced_reason_def)
  show ?thesis
    using assms(3) tidy_fence_workers [OF st reason] tidy_retirements [OF tidy_slots [OF st] reason]
    by (auto simp: retire_critic_generation_def result_bind_Inr_iff list_all_iff)
qed

lemma tidy_supersede_reviews:
  assumes "roomy lim"
  shows "list_all (tidy lim) (supersede_reviews_for_target st i g)"
  using assms
  by (auto simp: supersede_reviews_for_target_def list_all_iff invalidate_findings_def retire_review_def Let_def
      fits_finding_state_change_def fits_review_state_change_def roomy_def split: if_splits)

lemma tidy_state_change:
  "length detail \<le> unat (max_metadata_string_bytes lim) \<Longrightarrow> tidy lim (JR_ReviewStateChanged (state_change r s disp detail))"
  "length detail \<le> unat (max_metadata_string_bytes lim) \<Longrightarrow>
     tidy lim (JR_ReviewStateChanged ((state_change r s disp detail)\<lparr> rv_rounds_used := n \<rparr>))"
  by (simp_all add: fits_review_state_change_def state_change_def)

section \<open>The operations\<close>

lemma counters_positive:
  assumes "counters_left c"
  shows "id_valid (ct_target_id (co_next c))" "id_valid (ct_critic_id (co_next c))" "id_valid (ct_worker_id (co_next c))"
    "id_valid (ct_review_id (co_next c))" "id_valid (ct_finding_id (co_next c))" "id_valid (ct_evidence_id (co_next c))"
    "id_valid (ct_challenge_id (co_next c))" "id_valid (ct_rebuttal_id (co_next c))" "id_valid (ct_decision_id (co_next c))"
    "ct_boot_order (co_next c) \<noteq> 0"
  using assms by (auto simp: counters_left_def id_counts_def id_valid_def)

lemma over_bound: "\<not> over xs m \<Longrightarrow> length xs \<le> unat m"
  by (simp add: over_def)

lemma advance_valid_id: "\<not> advance_would_overflow g \<Longrightarrow> id_valid (advance g)"
  by (rule advance_valid)

lemmas counter_defs =
  allocate_target_id_def allocate_critic_id_def allocate_worker_id_def next_order_def next_boot_order_def bump_def
  next_review_id_def next_evidence_id_def next_finding_id_def next_challenge_id_def next_rebuttal_id_def next_decision_id_def

lemma hashed: "\<forall>bs. length (H bs) = 32 \<Longrightarrow> length (hash_writes H ws) = 32"
  by (simp add: hash_writes_def)

lemma fits_new_target:
  assumes "id_valid i" and "\<not> target_request_too_large lim q" and "id_valid g" and "\<forall>bs. length (H bs) = 32"
  shows "fits_target_record lim ((target_of_request H i q)\<lparr> t_generation := g, t_created_order := n \<rparr>)"
  using assms
  by (auto simp: fits_target_record_def target_of_request_def Let_def target_request_too_large_def over_def
      compute_target_content_digest_def hash_writes_def)

lemma target_of_request_id: "t_id (target_of_request H i q) = i"
  by (simp add: target_of_request_def Let_def)

lemma first_generation_valid: "id_valid first_generation"
  by (simp add: first_generation_def id_valid_def)

lemma register_target_tidily:
  assumes st: "tidy_state (co_limits c) (co_state c)" and lim: "roomy (co_limits c)" and ids: "counters_left c"
    and hash: "\<forall>bs. length (env_hash env bs) = 32"
  shows "tidily env c (respond (register_target env q c))"
  unfolding register_target_def Let_def
  by (intro outcome_rules)
     (use tidy_target [OF st] in \<open>auto simp: tidy_supersede_reviews [OF lim] counters_positive [OF ids] allocate_target_id_def first_generation_valid
     advance_valid target_of_request_id intro!: fits_new_target hash\<close>)

lemma fits_new_critic:
  assumes "id_valid i" and "critic_request_guard st lim q = Inr u" and "id_valid g" and "within_ceilings lim"
    and "length (cap_capability_evidence (rc_capability q)) = 32"
  shows "fits_critic_registration lim ((critic_of_request i q)\<lparr> c_generation := g, c_registered_order := n \<rparr>)"
  using assms unfolding critic_request_guard_def Let_def first_error_Inr
  by (auto simp: fits_critic_registration_def critic_of_request_def over_def fits_critic_capability_def
      fits_compatibility_def within_ceilings_def hard_ceilings)

lemma register_critic_tidily:
  assumes st: "tidy_state (co_limits c) (co_state c)" and lim: "roomy (co_limits c)" and ids: "counters_left c"
    and q: "bounded_command (co_limits c) (Cmd_RegisterCritic q)"
  shows "tidily env c (respond (register_critic env q c))"
  unfolding register_critic_def Let_def
  by (intro outcome_rules)
     (use q lim in \<open>auto simp: roomy_def counters_positive [OF ids] first_generation_valid allocate_critic_id_def
     advance_valid tidy_retire_generation [OF st lim] intro!: fits_new_critic\<close>)

lemma fits_new_worker:
  assumes "id_valid i" and "worker_request_guard st lim q = Inr u" and "k \<noteq> 0"
  shows "fits_worker_record lim (worker_of_request st2 i n k q)"
  using assms unfolding worker_request_guard_def first_error_Inr
  by (auto simp: fits_worker_record_def worker_of_request_def over_def id_valid_def zero_digest_def)

lemma register_fresh_worker_tidily:
  assumes st: "tidy_state (co_limits c) (co_state c)" and lim: "roomy (co_limits c)" and ids: "counters_left c"
    and c1: "quiet c c1" "ct_boot_order (co_next c1) = ct_boot_order (co_next c)" and i: "id_valid i"
    and guard: "worker_request_guard (co_state c) (co_limits c) q = Inr u"
  shows "tidily env c (respond (register_fresh_worker env q i c1))"
proof -
  have fence: "fence_workers (co_state c) ''another worker incarnation claimed this critic identity'' is = Inr bs \<Longrightarrow>
      list_all (tidy (co_limits c)) bs"
    "fence_worker_entries (co_state c) ''worker re-registered under a fresh boot identity; revalidation is required'' i = Inr bs \<Longrightarrow>
      list_all (tidy (co_limits c)) bs" for "is" bs
    by (erule tidy_fence_workers [OF st, rotated] tidy_fence_entries [OF st, rotated], use lim in \<open>simp add: roomy_def\<close>)+
  have "fst (next_boot_order (snd (next_order c1))) \<noteq> 0"
    using c1(2) counters_positive(10) [OF ids] by (simp add: counter_defs)
  note worker = fits_new_worker [OF i guard this]
  have state: "co_state c1 = co_state c"
    using quiet_state [OF c1(1)] by simp
  show ?thesis
    unfolding register_fresh_worker_def Let_def state
    by (intro outcome_rules c1) (use fence worker in \<open>auto split: if_splits\<close>)
qed

lemma register_worker_tidily:
  assumes st: "tidy_state (co_limits c) (co_state c)" and lim: "roomy (co_limits c)" and ids: "counters_left c"
  shows "tidily env c (respond (register_worker env q c))"
  unfolding register_worker_def Let_def
  by (intro outcome_rules register_fresh_worker_tidily [OF assms])
     (auto simp: counters_positive [OF ids] allocate_worker_id_def bump_def)

lemma declare_readiness_tidily:
  assumes st: "tidy_state (co_limits c) (co_state c)"
    and q: "bounded_command (co_limits c) (Cmd_DeclareReadiness q)"
  shows "tidily env c (respond (declare_readiness env q c))"
  unfolding declare_readiness_def Let_def
  by (intro outcome_rules)
     (use q tidy_worker [OF st] in \<open>fastforce simp: readiness_guard_def fits_worker_record_def split: option.splits if_splits\<close>)

lemma fence_worker_tidily:
  assumes st: "tidy_state (co_limits c) (co_state c)"
    and q: "bounded_command (co_limits c) (Cmd_FenceWorker i reason)"
  shows "tidily env c (fence_worker env i reason c)"
  using tidy_fence_entries [OF st] q
  by (cases "fence_worker_entries (co_state c) reason i")
     (simp_all add: fence_worker_def outcome_error outcome_publish)

lemma fence_critic_tidily:
  assumes st: "tidy_state (co_limits c) (co_state c)"
    and q: "bounded_command (co_limits c) (Cmd_FenceCritic i reason)"
  shows "tidily env c (fence_critic env i reason c)"
  using tidy_fence_workers [OF st] q
  by (cases "fence_workers (co_state c) reason (workers_of_critic (co_state c) i)")
     (simp_all add: fence_critic_def outcome_error outcome_publish)

lemma supersede_target_tidily:
  assumes "tidy_state (co_limits c) (co_state c)" and "roomy (co_limits c)" and "counters_left c"
    and "\<forall>bs. length (env_hash env bs) = 32"
  shows "tidily env c (respond (supersede_target env q c))"
  unfolding supersede_target_def by (intro outcome_rules register_target_tidily [OF assms])

lemma fits_declared:
  assumes st: "tidy_state lim st" and q: "bounded_command lim (Cmd_DeclareReview q)"
    and t: "declare_target_guard st q = Inr t" and i: "id_valid i" "i \<noteq> - 1"
  shows "tidy lim (JR_ReviewDeclared (declared_record i n t q))"
proof -
  have "om_get (du_targets st) (dv_target q) = Some t" and "t_generation t = dv_target_generation q"
    using t by (auto simp: declare_target_guard_def result_bind_Inr_iff split: option.splits if_splits)
  with tidy_target [OF st] have "id_valid (dv_target q)" "fits_target_record lim t" "t_generation t = dv_target_generation q"
    by blast+
  then show ?thesis
    using q i first_generation_valid
    by (auto simp: declared_record_def fits_review_record_def fits_target_record_def)
qed

lemma declare_review_tidily:
  assumes st: "tidy_state (co_limits c) (co_state c)" and ids: "counters_left c" and room: "review_space_left c"
    and q: "bounded_command (co_limits c) (Cmd_DeclareReview q)"
  shows "tidily env c (respond (declare_review env q c))"
proof -
  have id: "id_valid (fst (next_review_id c))" "fst (next_review_id c) \<noteq> - 1"
    using counters_positive(4) [OF ids] room by (simp_all add: next_review_id_def review_space_left_def)
  show ?thesis
    unfolding declare_review_def Let_def
    by (intro outcome_rules next_review_id_quiet(1) [OF room])
       (use fits_declared [OF st q _ id] in \<open>simp del: tidy_simps\<close>)
qed

lemma created_fits:
  assumes "tidy_state lim (co_state c)" and "tidy_slot lim sl"
    and "create_assignments sl t ras c = (c1, Inr created)"
    and "0 < ct_assignment_id (co_next c)" and "unat (ct_assignment_id (co_next c)) + length ras < 2 ^ 64"
  shows "length created = length ras
    \<and> list_all (\<lambda>a. fits_critic_assignment lim a \<and> a_retirement_reason a = []) created"
  using assms
proof (induction sl t ras c arbitrary: c1 created rule: create_assignments.induct)
  case (2 sl t ra ras c)
  let ?n = "ct_assignment_id (co_next c)" and ?c2 = "snd (next_order (snd (next_assignment_id c)))"
  obtain u rest where guard: "result_bind (assign_critic_guard (co_state c) sl t ra) (\<lambda>_. assign_worker_guard (co_state c) ra) = Inr u"
    and rest: "create_assignments sl t ras ?c2 = (c1, Inr rest)"
    and created: "created = assignment_of_request sl ?n (fst (next_order (snd (next_assignment_id c)))) ra # rest"
    using "2.prems"(3) by (auto simp: Let_def next_assignment_id_def split: sum.splits prod.splits)
  have "om_get (du_critics (co_state c)) (ra_critic ra) \<noteq> None"
    using guard by (auto simp: assign_critic_guard_def result_bind_Inr_iff split: option.splits)
  then have critic: "id_valid (ra_critic ra)"
    using tidy_critic [OF "2.prems"(1)] by blast
  have moved: "co_state ?c2 = co_state c" "ct_assignment_id (co_next ?c2) = ?n + 1"
    by (simp_all add: next_order_def next_assignment_id_def bump_def)
  have "unat (?n + 1) = unat ?n + 1"
    using "2.prems"(5) by (simp add: unat_word_ariths)
  then have "0 < ?n + 1" "unat (?n + 1) + length ras < 2 ^ 64"
    using "2.prems"(5) by (simp_all add: word_less_nat_alt)
  then have IH: "length rest = length ras
      \<and> list_all (\<lambda>a. fits_critic_assignment lim a \<and> a_retirement_reason a = []) rest"
    using "2.IH" [OF guard refl refl refl _ _ rest] "2.prems"(1,2) moved by simp
  have "id_valid (r_id (sl_record sl))" and "id_valid ?n"
    using "2.prems"(2,4) by (simp_all add: tidy_slot_def Let_def id_valid_def)
  with IH critic show ?case
    by (simp add: created assignment_of_request_def Let_def fits_critic_assignment_def)
qed simp

lemma tidy_assign_entries:
  assumes "roomy lim" and "length created \<le> unat (max_critics_per_review lim)"
    and "list_all (\<lambda>a. fits_critic_assignment lim a \<and> a_retirement_reason a = []) created"
  shows "list_all (tidy lim) (assign_entries r created)"
  using tidy_assignments_added [OF assms(2,3)] assms(1)
  by (auto simp: assign_entries_def Let_def roomy_def intro!: tidy_state_change simp del: tidy_simps)

lemma assign_guard_facts:
  assumes "assign_guard st lim q = Inr (sl, t)"
  shows "find_slot st (ac_review q) = Some sl" and "length (ac_assignments q) \<le> unat (max_critics_per_review lim)"
  using assms
  by (auto simp: assign_guard_def assign_batch_guard_def result_bind_Inr_iff split: option.splits if_splits)

lemma assigned_tidily:
  assumes st: "tidy_state (co_limits c) (co_state c)" and lim: "roomy (co_limits c)" and ids: "counters_left c"
    and guard: "assign_guard (co_state c) (co_limits c) q = Inr (sl, t)"
    and created: "create_assignments sl t (ac_assignments q) c = (c1, Inr created)"
  shows "list_all (tidy (co_limits c)) (assign_entries (sl_record sl) created)"
proof -
  note batch = assign_guard_facts [OF guard]
  have "length (ac_assignments q) \<le> 256"
    using batch(2) lim by (simp add: roomy_def within_ceilings_def)
  then have "0 < ct_assignment_id (co_next c)" "unat (ct_assignment_id (co_next c)) + length (ac_assignments q) < 2 ^ 64"
    using ids by (auto simp: counters_left_def id_counts_def word_less_nat_alt)
  from created_fits [OF st tidy_found [OF st batch(1)] created this] tidy_assign_entries [OF lim] batch(2)
  show ?thesis by metis
qed

lemma assign_critics_tidily:
  assumes "tidy_state (co_limits c) (co_state c)" and "roomy (co_limits c)" and "counters_left c"
  shows "tidily env c (respond (assign_critics env q c))"
  unfolding assign_critics_def
  by (intro outcome_rules) (auto dest: create_assignments_quiet intro: assigned_tidily [OF assms])

lemma fits_new_evidence:
  assumes "tidy_slot lim sl" and "evidence_bounds_guard lim sl q = Inr u" and "id_valid i" and "\<forall>bs. length (H bs) = 32"
  shows "fits_evidence_record lim (evidence_of_request H sl i n q)"
  using assms unfolding evidence_bounds_guard_def first_error_Inr
  by (auto simp: fits_evidence_record_def evidence_of_request_def Let_def tidy_slot_def over_def first_generation_valid
      compute_evidence_content_digest_def hash_writes_def)

lemma submit_evidence_tidily:
  assumes st: "tidy_state (co_limits c) (co_state c)" and ids: "counters_left c" and hash: "\<forall>bs. length (env_hash env bs) = 32"
  shows "tidily env c (respond (submit_evidence env q c))"
proof -
  have id: "id_valid (fst (next_evidence_id c))"
    using counters_positive(6) [OF ids] by (simp add: next_evidence_id_def)
  show ?thesis
    unfolding submit_evidence_def Let_def
    by (intro outcome_rules) (auto intro!: fits_new_evidence id hash dest: tidy_authority [OF st])
qed

lemma fits_new_finding:
  assumes sl: "tidy_slot lim sl" and ids: "id_valid (sf_critic q)" "id_valid (sf_critic_generation q)" "id_valid i" "id_valid g"
    and bounds: "finding_bounds_guard lim sl q = Inr u" and "fits_confidence (sf_confidence q)" and hash: "\<forall>bs. length (H bs) = 32"
  shows "fits_finding lim ((candidate_finding H1 sl a q)\<lparr> f_generation := g, f_supersedes := s, f_id := i, f_creation_order := n,
      f_state := FS_Current, f_finding_digest := compute_finding_digest H f \<rparr>)"
  using assms unfolding finding_bounds_guard_def first_error_Inr
  by (auto simp: fits_finding_def candidate_finding_def Let_def tidy_slot_def over_def compute_finding_digest_def hash_writes_def)

lemma tidy_supersede_finding:
  "roomy lim \<Longrightarrow> supersede_finding sl q = Inr (g, bs) \<Longrightarrow> id_valid g \<and> list_all (tidy lim) bs"
  by (auto simp: supersede_finding_def result_bind_Inr_iff first_generation_valid advance_valid roomy_def
      fits_finding_state_change_def split: option.splits if_splits)

lemma tidy_findings_received: "roomy lim \<Longrightarrow> list_all (tidy lim) (findings_received_entry r)"
  by (auto simp: findings_received_entry_def roomy_def intro!: tidy_state_change simp del: tidy_simps)

lemma submit_finding_tidily:
  assumes st: "tidy_state (co_limits c) (co_state c)" and lim: "roomy (co_limits c)" and ids: "counters_left c"
    and q: "bounded_command (co_limits c) (Cmd_SubmitFinding q)" and hash: "\<forall>bs. length (env_hash env bs) = 32"
  shows "tidily env c (respond (submit_finding env q c))"
proof -
  have id: "id_valid (fst (next_finding_id c))"
    using counters_positive(5) [OF ids] by (simp add: next_finding_id_def)
  show ?thesis
    unfolding submit_finding_def record_finding_def Let_def prod.case
    by (intro outcome_rules)
       (use q tidy_supersede_finding [OF lim] in \<open>auto simp: tidy_findings_received [OF lim] finding_guards_def result_bind_Inr_iff
       authority_of_finding_def intro!: fits_new_finding id hash dest!: tidy_authority [OF st]\<close>)
qed

lemma fits_new_challenge:
  assumes "tidy_slot lim sl" and "challenge_bounds_guard lim sl q = Inr u" and "challenged_finding_guard sl q = Inr f" and "id_valid i"
  shows "fits_challenge lim (challenge_of_request sl f i n q)"
proof -
  have "om_get (sl_findings sl) (sc_challenged_finding q) = Some f"
    using assms(3) by (auto simp: challenged_finding_guard_def result_bind_Inr_iff Let_def split: option.splits)
  with tidy_finding [OF assms(1)] have "id_valid (f_id f)"
    by blast
  then show ?thesis
    using assms(1,2,4) unfolding challenge_bounds_guard_def first_error_Inr
    by (auto simp: fits_challenge_def challenge_of_request_def Let_def tidy_slot_def over_def)
qed

lemma tidy_challenge_entries:
  "roomy lim \<Longrightarrow> fits_challenge lim ch \<Longrightarrow> list_all (tidy lim) (challenge_entries r ch)"
  by (auto simp: challenge_entries_def roomy_def fits_finding_state_change_def fits_review_state_change_def state_change_def)

lemma submit_challenge_tidily:
  assumes st: "tidy_state (co_limits c) (co_state c)" and lim: "roomy (co_limits c)" and ids: "counters_left c"
  shows "tidily env c (respond (submit_challenge env q c))"
proof -
  have id: "id_valid (fst (next_challenge_id c))"
    using counters_positive(7) [OF ids] by (simp add: next_challenge_id_def)
  show ?thesis
    unfolding submit_challenge_def Let_def
    by (intro outcome_rules)
       (auto simp: challenge_guards_def result_bind_Inr_iff intro!: tidy_challenge_entries [OF lim] fits_new_challenge id
         dest!: tidy_authority [OF st])
qed

lemma fits_new_rebuttal:
  assumes "fits_challenge lim ch" and "rebuttal_bounds_guard lim sl q = Inr u" and "id_valid i"
  shows "fits_rebuttal lim (rebuttal_of_request sl ch i n q)"
  using assms unfolding rebuttal_bounds_guard_def first_error_Inr
  by (auto simp: fits_rebuttal_def rebuttal_of_request_def Let_def over_def fits_challenge_def)

lemma tidy_rebuttal_entries:
  assumes "roomy lim" and "fits_challenge lim ch" and "fits_rebuttal lim rb"
  shows "list_all (tidy lim) (rebuttal_entries r ch rb oc)"
proof -
  have "length (challenge_outcome_name oc) \<le> 100"
    by (cases oc) (simp_all add: challenge_outcome_name_def enum_lookup_def k_challenge_outcome_def)
  with assms show ?thesis
    by (simp add: rebuttal_entries_def Let_def roomy_def fits_challenge_def fits_finding_state_change_def
        fits_review_state_change_def state_change_def)
qed

lemma submit_rebuttal_tidily:
  assumes st: "tidy_state (co_limits c) (co_state c)" and lim: "roomy (co_limits c)" and ids: "counters_left c"
  shows "tidily env c (respond (submit_rebuttal env q c))"
proof -
  have id: "id_valid (fst (next_rebuttal_id c))"
    using counters_positive(8) [OF ids] by (simp add: next_rebuttal_id_def)
  have challenge: "fits_challenge (co_limits c) ch"
    if "rebutted_challenge_guard (co_limits c) sl q = Inr ch" "tidy_slot (co_limits c) sl" for sl ch
    using that tidy_challenge by (fastforce simp: rebutted_challenge_guard_def result_bind_Inr_iff Let_def split: option.splits)
  show ?thesis
    unfolding submit_rebuttal_def Let_def
    by (intro outcome_rules)
       (auto simp: rebuttal_guards_def result_bind_Inr_iff intro!: tidy_rebuttal_entries [OF lim] fits_new_rebuttal id challenge
         dest!: tidy_authority [OF st])
qed

lemma fits_new_decision:
  assumes "\<forall>bs. length (H bs) = 32" and "tidy_slot lim sl" and "id_valid i"
  shows "fits_decision (new_decision H st ev sl i n)"
proof -
  have policy: "length (sl_policy_digest sl) = 32"
    using assms(2) by (simp add: tidy_slot_def)
  show ?thesis
    using assms(2,3) new_decision_digests [OF assms(1) policy]
    by (simp add: fits_decision_def) (simp add: new_decision_def Let_def tidy_slot_def first_generation_valid)
qed

lemma tidy_commit_entries:
  assumes "roomy lim" and "fits_decision d" and "length (ex_policy_result (er_explanation ev)) \<le> unat (max_metadata_string_bytes lim)"
  shows "list_all (tidy lim) (commit_entries ev r d)"
  using assms by (auto simp: commit_entries_def roomy_def list_all_iff fits_review_state_change_def state_change_def)

lemma commit_review_tidily:
  assumes st: "tidy_state (co_limits c) (co_state c)" and lim: "roomy (co_limits c)" and ids: "counters_left c"
    and hash: "\<forall>bs. length (env_hash env bs) = 32"
  shows "tidily env c (respond (commit_review env q c))"
proof -
  have id: "id_valid (fst (next_decision_id c))"
    using counters_positive(9) [OF ids] by (simp add: next_decision_id_def)
  have slot: "tidy_slot (co_limits c) sl" if "commit_guard (co_state c) q = Inr sl" for sl
    using tidy_found [OF st] commit_guard_slot [OF that] by blast
  have result: "length (ex_policy_result (er_explanation (evaluate_slot H st2 sl))) \<le> unat (max_metadata_string_bytes (co_limits c))"
    if "commit_guard (co_state c) q = Inr sl" for sl st2 H
    using policy_result_bounded [of H "build_evaluation_input st2 sl"] slot [OF that]
    by (simp add: evaluate_slot_def build_evaluation_input_def tidy_slot_def Let_def concise_def)
  show ?thesis
    unfolding commit_review_def Let_def
    by (intro outcome_rules) (auto intro!: tidy_commit_entries [OF lim] fits_new_decision hash slot id result)
qed

lemma cancel_review_tidily:
  assumes lim: "roomy (co_limits c)"
  shows "tidily env c (respond (cancel_review env q c))"
proof (cases "mutation_guard c")
  case (Inr u)
  show ?thesis
  proof (cases "cancel_guard (co_state c) (co_limits c) q")
    case guard: (Inr sl)
    then have "tidy (co_limits c) (cancel_change (sl_record sl) (cn_reason q))"
      using lim by (auto simp: cancel_guard_def over_def cancel_change_def fits_review_state_change_def roomy_def
          split: if_splits option.splits)
    then show ?thesis
      unfolding cancel_review_def Let_def Inr guard sum.case
      by (cases "r_state (sl_record sl)") (auto intro!: outcome_fail outcome_return outcome_finish)
  qed (simp add: cancel_review_def Inr outcome_fail)
qed (simp add: cancel_review_def outcome_fail)

lemma counters_space: "counters_left c \<Longrightarrow> review_space_left c"
  by (auto simp: counters_left_def id_counts_def review_space_left_def)

text \<open>Every bounded command publishes tidy records.\<close>

lemma exec_tidily:
  assumes st: "tidy_state (co_limits c) (co_state c)" and lim: "roomy (co_limits c)" and ids: "counters_left c"
    and hash: "\<forall>bs. length (env_hash env bs) = 32"
    and cmd: "keeps_running cmd" "bounded_command (co_limits c) cmd"
  shows "tidily env c (exec env cmd c)"
  using cmd counters_space [OF ids]
  by (cases cmd)
     (simp_all only: exec.simps keeps_running.simps, simp_all add: outcome_quiet quiet_counters
      register_target_tidily [OF st lim ids hash] supersede_target_tidily [OF st lim ids hash]
      register_critic_tidily [OF st lim ids] register_worker_tidily [OF st lim ids] declare_readiness_tidily [OF st]
      fence_critic_tidily [OF st] fence_worker_tidily [OF st] declare_review_tidily [OF st ids]
      assign_critics_tidily [OF st lim ids] submit_evidence_tidily [OF st ids hash]
      submit_finding_tidily [OF st lim ids _ hash] submit_challenge_tidily [OF st lim ids]
      submit_rebuttal_tidily [OF st lim ids] commit_review_tidily [OF st lim ids hash] cancel_review_tidily [OF lim])

end
