(* ===== verification/CF_Lives.thy ===== *)
theory CF_Lives
  imports CF_Bounded
begin

text \<open>
  The lives of a coordinator on one journal file: it starts on a file, answers bounded requests, dies, and the
  next one starts on what it left. Everything it writes is tidy, so as long as its appends work the file stays
  readable.
\<close>

section \<open>Tidy journals\<close>

definition tidy_journal :: "runtime_limits \<Rightarrow> journal \<Rightarrow> bool" where
  "tidy_journal lim j \<longleftrightarrow> journal_file_ok j \<and> jn_limits j = lim
   \<and> list_all (\<lambda>e. kept lim (je_body e)) (jn_entries j) \<and> numbered_from 1 (jn_entries j)
   \<and> jn_next_sequence j = 1 + of_nat (length (jn_entries j))
   \<and> length (jn_entries j) \<le> unat (max_persisted_records lim)"

lemma tidy_readable: "clamp_to_hard_ceiling lim = lim \<Longrightarrow> kept lim (je_body e) \<Longrightarrow> readable_entry lim e"
  using fitting_readable [of lim e] by (cases "je_body e") (auto simp: kept_def tidy_def short_batch_def)

lemma numbered_snoc:
  "numbered_from n es \<Longrightarrow> je_sequence e = n + of_nat (length es) \<Longrightarrow> numbered_from n (es @ [e])"
  by (simp add: numbered_from_def)

lemma tidy_append:
  assumes j: "tidy_journal lim j" and lim: "clamp_to_hard_ceiling lim = lim" and e: "kept lim (je_body e)"
    and run: "journal_append env j e = (j1, Inr ())"
  shows "tidy_journal lim j1"
proof -
  let ?es = "jn_entries j" and ?e = "stamp_entry j e"
  have stamped: "je_body ?e = je_body e" "je_sequence ?e = 1 + of_nat (length ?es)"
    using j by (simp_all add: stamp_entry_def tidy_journal_def)
  have "list_all (readable_entry lim) (?es @ [?e])"
    using j tidy_readable [OF lim] e stamped by (auto simp: tidy_journal_def list_all_iff)
  from image_length [OF this] have image: "length (journal_image (?es @ [?e])) \<le> 40 + 8388628 * Suc (length ?es)"
    by simp
  have "length ?es < 4294967296"
    using j unat_less_4294967296 [of "max_persisted_records lim"] by (simp add: tidy_journal_def)
  moreover have "unat (jn_valid_end j) + length (journal_record ?e) \<le> length (journal_image (?es @ [?e]))"
    using j by (simp add: tidy_journal_def journal_file_ok_def journal_image_def body_bytes_snoc)
  ultimately have "unat (jn_valid_end j) + length (journal_record ?e) < 2 ^ 64"
    using image by simp
  from append_keeps_file [OF _ run this] j
  have j1: "journal_file_ok j1" "jn_entries j1 = ?es @ [?e]" "jn_next_sequence j1 = jn_next_sequence j + 1"
    by (simp_all add: tidy_journal_def)
  have "jn_limits j1 = jn_limits j" "length ?es < unat (max_persisted_records (jn_limits j))"
    using run by (auto simp: journal_append_def Let_def journal_advance_def split: if_splits append_io.splits)
  with j j1 e stamped numbered_snoc [of 1 ?es ?e] show ?thesis
    by (simp add: tidy_journal_def)
qed

lemma tidy_append_all:
  assumes "clamp_to_hard_ceiling lim = lim"
  shows "tidy_journal lim j \<Longrightarrow> list_all (\<lambda>e. kept lim (je_body e)) es \<Longrightarrow>
    append_all (journal_append env) j es = (j1, Inr u) \<Longrightarrow> tidy_journal lim j1"
proof (induction es arbitrary: j)
  case (Cons e es)
  then obtain j2 where step: "journal_append env j e = (j2, Inr ())" "append_all (journal_append env) j2 es = (j1, Inr u)"
    by (auto split: prod.splits sum.splits)
  show ?case
    using Cons.IH [OF tidy_append [OF Cons.prems(1) assms _ step(1)] _ step(2)] Cons.prems(2) by simp
qed simp

lemma kept_assigned: "list_all (kept lim) bs \<Longrightarrow> list_all (\<lambda>e. kept lim (je_body e)) (assign_sequences bs n)"
  using assigned_bodies by (fastforce simp: list_all_iff)

lemma numbered_sorted:
  assumes "numbered_from 1 es" and "length es < 4294967296"
  shows "sorted_wrt (<) (map je_sequence es) \<and> (\<forall>e \<in> set es. 0 < je_sequence e)"
proof -
  let ?seq = "map (\<lambda>i. 1 + of_nat i :: u64) [0..<length es]"
  have small: "unat (1 + of_nat i :: u64) = Suc i" if "i < 4294967296" for i
    using that by (simp add: unat_word_ariths unat_of_nat)
  have "sorted_wrt (<) ?seq"
    using assms(2) by (auto simp: sorted_wrt_map sorted_wrt_iff_nth_less word_less_nat_alt small)
  moreover have "\<forall>x \<in> set ?seq. 0 < x"
    using assms(2) by (auto simp: word_less_nat_alt small)
  moreover have "map je_sequence es = ?seq"
    using assms(1) by (simp add: numbered_from_def)
  ultimately show ?thesis
    by (metis image_eqI list.set_map)
qed

lemma tidy_readable_journal:
  assumes "tidy_journal (clamp_to_hard_ceiling limits) j"
    and "length (jn_disk j) \<le> unat (max_persistence_file_bytes (clamp_to_hard_ceiling limits))"
  shows "readable_journal (clamp_to_hard_ceiling limits) (jn_entries j)"
proof -
  have "length (jn_entries j) < 4294967296"
    using assms(1) unat_less_4294967296 [of "max_persisted_records (clamp_to_hard_ceiling limits)"]
    by (simp add: tidy_journal_def)
  then show ?thesis
    using assms numbered_sorted tidy_readable [of "clamp_to_hard_ceiling limits"]
    by (auto simp: readable_journal_def tidy_journal_def journal_file_ok_def list_all_iff)
qed

text \<open>A tidy journal whose file has not outgrown its bound survives the coordinator.\<close>

lemma tidy_survives:
  assumes "tidy_journal (clamp_to_hard_ceiling (cfg_limits cfg)) j" and "cfg_persistence_path cfg \<noteq> []"
    and "length (jn_disk j) \<le> unat (max_persistence_file_bytes (clamp_to_hard_ceiling (cfg_limits cfg)))"
  shows "survives j (new_coordinator cfg)"
  using assms tidy_readable_journal [OF assms(1,3)]
  by (simp add: survives_def tidy_journal_def new_coordinator_def)

section \<open>Epochs\<close>

text \<open>Every start writes a record of its own, so the records of a file outnumber its epochs.\<close>

definition epochs_counted :: "journal_entry list \<Rightarrow> bool" where
  "epochs_counted es \<longleftrightarrow> unat (last_epoch 0 es) \<le> length es"

lemma last_epoch_append: "last_epoch p (es @ fs) = last_epoch (last_epoch p es) fs"
  by (induction es arbitrary: p) simp_all

lemma last_epoch_none: "list_all (\<lambda>b. \<not> is_epoch b) bs \<Longrightarrow> last_epoch p (assign_sequences bs n) = p"
  by (induction bs n arbitrary: p rule: assign_sequences.induct) (auto split: journal_body.splits)

lemma tidy_no_epoch: "list_all (tidy lim) bs \<Longrightarrow> list_all (\<lambda>b. \<not> is_epoch b) bs"
  by (auto simp: list_all_iff elim!: is_epoch.elims)

lemma fresh_epoch_next: "unat (fresh_epoch p) \<le> Suc (unat p)"
  by (simp add: fresh_epoch_def advance_def first_generation_def unat_word_ariths id_valid_def)

lemma recovery_no_epoch: "list_all (\<lambda>b. \<not> is_epoch b) (concat (map (\<lambda>sl. revalidate_review sl reason) sls))"
  by (auto simp: list_all_iff revalidate_review_def Let_def split: if_splits)

lemma recovery_counted:
  assumes "epochs_counted es"
  shows "epochs_counted (es @ assign_sequences (recovery_bodies (fresh_epoch (last_epoch 0 es)) st) n)"
proof -
  have "last_epoch p (assign_sequences (recovery_bodies e st) n) = e" for p e
    by (simp add: recovery_bodies_def last_epoch_none [OF recovery_no_epoch])
  then show ?thesis
    using assms fresh_epoch_next [of "last_epoch 0 es"]
    by (simp add: epochs_counted_def last_epoch_append recovery_bodies_def)
qed

lemma epochs_left:
  assumes "epochs_counted es" and "length es < 4294967296"
  shows "\<not> advance_would_overflow (last_epoch 0 es)"
  using assms by (auto simp: epochs_counted_def advance_would_overflow_def unsigned_minus_1_eq_mask mask_eq_exp_minus_1)

section \<open>Coordinators in order\<close>

definition in_order :: "coordinator_config \<Rightarrow> coordinator \<Rightarrow> bool" where
  "in_order cfg c \<longleftrightarrow> (let lim = clamp_to_hard_ceiling (cfg_limits cfg) in
     co_limits c = lim \<and> tidy_journal lim (co_journal c) \<and> tidy_state lim (co_state c)
     \<and> epochs_counted (jn_entries (co_journal c)))"

lemma publish_in_order:
  assumes c: "in_order cfg c" and bs: "list_all (tidy (co_limits c)) bs" and hash: "\<forall>bs. length (env_hash env bs) = 32"
    and run: "publish env bs c = (c1, Inr u)"
  shows "in_order cfg c1"
proof -
  let ?lim = "clamp_to_hard_ceiling (cfg_limits cfg)" and ?n = "jn_next_sequence (co_journal c)"
  have order: "co_limits c = ?lim" "tidy_journal ?lim (co_journal c)" "tidy_state ?lim (co_state c)"
    "epochs_counted (jn_entries (co_journal c))"
    using c by (simp_all add: in_order_def Let_def)
  have "epochs_counted (jn_entries (co_journal c1))"
    using order(4) last_epoch_none [OF tidy_no_epoch [OF bs]] publish_journal [OF run]
    by (simp add: epochs_counted_def last_epoch_append)
  note counted = this
  have entries: "list_all (\<lambda>e. kept ?lim (je_body e)) (assign_sequences bs ?n)"
    using bs order(1) by (intro kept_assigned) (simp add: list_all_iff kept_def)
  have "append_all (journal_append env) (co_journal c) (assign_sequences bs ?n) = (co_journal c1, Inr ())"
    using run by (auto simp: publish_def append_entries_def Let_def split: prod.splits sum.splits)
  from tidy_append_all [OF _ order(2) entries this] publish_effect [OF run] order counted
    tidy_after_entries [OF order(3) _ hash, of "assign_sequences bs ?n"] entries
  show ?thesis
    by (simp add: in_order_def Let_def list_all_iff)
qed

lemma exec_in_order:
  assumes c: "in_order cfg c" and lim: "roomy (clamp_to_hard_ceiling (cfg_limits cfg))" and hash: "\<forall>bs. length (H bs) = 32"
    and ids: "counters_left c" and cmd: "keeps_running cmd" "bounded_command (co_limits c) cmd"
    and healthy: "\<not> co_persistence_failed (fst (exec (world H io) cmd c))"
  shows "in_order cfg (fst (exec (world H io) cmd c))"
proof -
  let ?env = "world H io"
  have hash32: "\<forall>bs. length (env_hash ?env bs) = 32"
    using hash by (simp add: world_def)
  have "tidily ?env c (exec ?env cmd c)"
    using c lim by (intro exec_tidily [OF _ _ ids hash32 cmd]) (simp_all add: in_order_def Let_def)
  then show ?thesis
    unfolding outcome_def
  proof (elim disjE exE conjE)
    assume "quiet c (fst (exec ?env cmd c))"
    from quiet_state [OF this] c show ?thesis
      by (simp add: in_order_def Let_def)
  next
    fix c1 bs s
    assume q: "quiet c c1" and bs: "list_all (tidy (co_limits c)) bs" and pub: "publish ?env bs c1 = (fst (exec ?env cmd c), s)"
    have "is_ok s"
      using publish_effect [OF pub] healthy by simp
    then obtain u where "s = Inr u"
      by (auto simp: is_ok_iff)
    with pub have run: "publish ?env bs c1 = (fst (exec ?env cmd c), Inr u)"
      by simp
    show ?thesis
      by (rule publish_in_order [OF _ _ hash32 run]) (use quiet_state [OF q] c bs in \<open>simp_all add: in_order_def Let_def\<close>)
  qed
qed

section \<open>Starting\<close>

lemma tidy_clear: "tidy_state lim st \<Longrightarrow> tidy_state lim (clear_workers st)"
  by (auto simp: tidy_state_def clear_workers_def om_each_def clear_worker_def fits_worker_record_def)

lemma tidy_recovered:
  assumes "list_all (\<lambda>e. kept lim (je_body e)) es" and "\<forall>bs. length (H bs) = 32"
  shows "tidy_state lim (recovered_base H es)"
proof -
  have "tidy_state lim (replay H es)"
    unfolding replay_def by (rule tidy_after_entries [OF tidy_empty]) (use assms in \<open>simp_all add: list_all_iff\<close>)
  then show ?thesis
    unfolding recovered_base_def by (intro tidy_clear) (simp add: tidy_state_def)
qed

lemma kept_recovery: "roomy lim \<Longrightarrow> list_all (kept lim) (recovery_bodies epoch st)"
  using tidy_revalidate [of restart_reason lim]
  by (simp add: recovery_bodies_def list_all_iff roomy_def kept_def) (simp add: restart_reason_def)

lemma start_in_order:
  assumes j: "tidy_journal (clamp_to_hard_ceiling (cfg_limits cfg)) j" "epochs_counted (jn_entries j)"
    and lim: "roomy (clamp_to_hard_ceiling (cfg_limits cfg))"
    and hash: "\<forall>bs. length (H bs) = 32"
    and run: "start_with (world H io) (Inr j) (new_coordinator cfg) = (c1, Inr u)"
  shows "in_order cfg c1"
proof -
  let ?lim = "clamp_to_hard_ceiling (cfg_limits cfg)" and ?env = "world H io"
  let ?st = "recovered_base H (jn_entries j)" and ?n = "jn_next_sequence j"
  let ?bs = "recovery_bodies (fresh_epoch (last_epoch 0 (jn_entries j))) ?st"
  have entries: "list_all (\<lambda>e. kept ?lim (je_body e)) (assign_sequences ?bs ?n)"
    by (rule kept_assigned [OF kept_recovery [OF lim]])
  have state: "co_state c1 = apply_entries H (assign_sequences ?bs ?n) ?st"
    using start_recovered [OF run] by (simp add: world_def)
  have appended: "append_all (journal_append ?env) j (assign_sequences ?bs ?n) = (co_journal c1, Inr ()) \<and> co_limits c1 = ?lim"
    using run
    by (auto simp: start_with_def recover_def Let_def fail_with_def recovered_base_def append_entries_def world_def
        new_coordinator_def split: if_splits prod.splits sum.splits)
  with tidy_append_all [OF clamp_to_hard_ceiling_idem j(1) entries] have "tidy_journal ?lim (co_journal c1)" "co_limits c1 = ?lim"
    by blast+
  moreover have "tidy_state ?lim (co_state c1)"
    unfolding state
    by (rule tidy_after_entries [OF tidy_recovered _ hash]) (use j hash entries in \<open>simp_all add: tidy_journal_def list_all_iff\<close>)
  moreover have "epochs_counted (jn_entries (co_journal c1))"
    using jl.append_all_ok [of ?env j "assign_sequences ?bs ?n" "co_journal c1"] appended recovery_counted [OF j(2)]
    by simp
  ultimately show ?thesis
    by (simp add: in_order_def Let_def)
qed

lemma open_keeps_limits:
  "journal_open io path limits file = (j, Inr u) \<Longrightarrow> jn_limits j = clamp_to_hard_ceiling limits"
  by (auto simp: journal_open_def journal_load_def reset_journal_def open_in_memory_def Let_def
      split: option.splits if_splits prod.splits sum.splits)

section \<open>Lives\<close>

text \<open>
  \<open>served H cfg c\<close>: the coordinator \<open>c\<close> has been reached by lives on one file. The first starts without a file;
  each answers bounded requests, as long as no append fails; each may die at any point, and the next one starts on
  the file it left.
\<close>

inductive served :: "hash_fun \<Rightarrow> coordinator_config \<Rightarrow> coordinator \<Rightarrow> bool" for H cfg where
  first_life: "coordinator_start io (world H w) None (new_coordinator cfg) = (c, Inr ()) \<Longrightarrow> served H cfg c"
| request: "served H cfg c \<Longrightarrow> counters_left c \<Longrightarrow> keeps_running cmd \<Longrightarrow> bounded_command (co_limits c) cmd \<Longrightarrow>
    \<not> co_persistence_failed (fst (exec (world H w) cmd c)) \<Longrightarrow> served H cfg (fst (exec (world H w) cmd c))"
| next_life: "served H cfg c \<Longrightarrow>
    coordinator_start io (world H w) (Some (jn_disk (co_journal c))) (new_coordinator cfg) = (c1, Inr ()) \<Longrightarrow>
    served H cfg c1"

lemma opened_journal:
  assumes "coordinator_start io env file c = (c1, Inr ())" and "cfg_persistence_path (co_config c) \<noteq> []"
  obtains j where "journal_open io (cfg_persistence_path (co_config c)) (co_limits c) file = (j, Inr ())"
    and "start_with env (Inr j) c = (c1, Inr ())"
proof -
  let ?open = "journal_open io (cfg_persistence_path (co_config c)) (co_limits c) file"
  have run: "start_with env (opened ?open) c = (c1, Inr ())"
    using assms by (simp add: coordinator_start_def)
  then obtain j where j: "?open = (j, Inr ())"
    by (cases ?open) (auto simp: opened_def start_with_def split: if_splits sum.splits)
  with run show ?thesis
    by (intro that) (simp_all add: opened_def)
qed

lemma fresh_tidy:
  assumes "journal_open io path limits None = (j, Inr ())"
  shows "tidy_journal (clamp_to_hard_ceiling limits) j \<and> epochs_counted (jn_entries j)"
proof -
  have "oi_create io" "oi_read io" "oi_reopen io"
    using assms by (auto simp: journal_open_def journal_load_def Let_def split: if_splits prod.splits sum.splits)
  from journal_open_fresh [OF this, of path limits] assms open_keeps_limits [OF assms] show ?thesis
    by (auto simp: tidy_journal_def numbered_from_def epochs_counted_def)
qed

lemma numbered_last:
  assumes "numbered_from n es" and "es \<noteq> []"
  shows "je_sequence (last es) + 1 = n + of_nat (length es)"
proof -
  have "je_sequence (last es) = last (map je_sequence es)"
    using assms(2) by (simp add: last_map)
  also have "\<dots> = n + of_nat (length es - 1)"
    using assms by (simp add: numbered_from_def last_map)
  finally show ?thesis
    using assms(2) by (cases es) simp_all
qed

lemma reopened_tidy:
  assumes j: "tidy_journal (clamp_to_hard_ceiling limits) j"
    and run: "journal_open io path limits (Some (jn_disk j)) = (j1, Inr ())"
  shows "tidy_journal (clamp_to_hard_ceiling limits) j1 \<and> jn_entries j1 = jn_entries j"
proof -
  let ?lim = "clamp_to_hard_ceiling limits" and ?es = "jn_entries j"
  have loaded: "journal_load io (reset_journal path limits) (jn_disk j) = (j1, Inr ())"
    using run by (simp add: journal_open_def)
  have limits: "jn_limits (reset_journal path limits) = ?lim"
    by (simp add: reset_journal_def open_in_memory_def)
  have io: "oi_read io" "oi_reopen io"
    using loaded by (auto simp: journal_load_def Let_def split: if_splits prod.splits sum.splits)
  have disk: "jn_disk j = journal_image ?es"
    using j by (simp add: tidy_journal_def journal_file_ok_def)
  have "length (jn_disk j) \<le> unat (max_persistence_file_bytes ?lim)"
    using load_accepts [OF loaded, unfolded limits] by blast
  then have "readable_journal ?lim ?es"
    using tidy_readable_journal [OF j] by simp
  from open_healthy_image [OF io this, of path] run open_keeps_limits [OF run]
  have j1: "jn_entries j1 = ?es" "journal_file_ok j1" "jn_next_sequence j1 = sequence_after ?es" "jn_limits j1 = ?lim"
    by (auto simp: disk)
  moreover have "sequence_after ?es = 1 + of_nat (length ?es)"
    using j numbered_last [of 1 ?es] by (auto simp: sequence_after_def tidy_journal_def)
  ultimately show ?thesis
    using j by (simp add: tidy_journal_def)
qed

lemma tidy_in_range: "tidy_journal lim j \<Longrightarrow> in_range (Cmd_Start (Inr j)) c"
  by (auto simp: tidy_journal_def list_all_iff declares_in_range_def kept_def split: journal_body.splits)

lemma start_reachable:
  assumes "start_with (world H io) (Inr j) (new_coordinator cfg) = (c1, Inr ())" and "tidy_journal lim j"
  shows "reachable H c1 \<and> \<not> co_persistence_failed c1"
proof -
  have "reachable H (fst (exec (world H io) (Cmd_Start (Inr j)) (new_coordinator cfg)))"
    by (intro reachable.intros tidy_in_range [OF assms(2)])
  moreover have "\<not> co_persistence_failed c1"
    using assms(1)
    by (auto simp: start_with_def recover_def Let_def fail_with_def append_entries_def new_coordinator_def
        split: if_splits prod.splits sum.splits)
  ultimately show ?thesis
    using assms(1) by simp
qed

text \<open>Every coordinator reached in this way is in order.\<close>

lemma served_in_order:
  assumes "served H cfg c" and lim: "roomy (clamp_to_hard_ceiling (cfg_limits cfg))" and hash: "\<forall>bs. length (H bs) = 32"
    and path: "cfg_persistence_path cfg \<noteq> []"
  shows "in_order cfg c \<and> reachable H c \<and> \<not> co_persistence_failed c"
  using assms(1)
proof induction
  case (first_life io w c)
  have "cfg_persistence_path (co_config (new_coordinator cfg)) \<noteq> []"
    using path by (simp add: new_coordinator_def)
  from opened_journal [OF first_life this] obtain j
    where "journal_open io (cfg_persistence_path cfg) (clamp_to_hard_ceiling (cfg_limits cfg)) None = (j, Inr ())"
      and run: "start_with (world H w) (Inr j) (new_coordinator cfg) = (c, Inr ())"
    by (auto simp: new_coordinator_def)
  from fresh_tidy [OF this(1)] have j: "tidy_journal (clamp_to_hard_ceiling (cfg_limits cfg)) j" "epochs_counted (jn_entries j)"
    by simp_all
  show ?case
    using start_in_order [OF j lim hash run] start_reachable [OF run j(1)] by blast
next
  case (request c cmd w)
  have "in_range cmd c"
    using counters_space [OF request(2)] request(3) by (cases cmd) simp_all
  with request(6) have "reachable H (fst (exec (world H w) cmd c))"
    by (intro reachable.step) simp_all
  with request exec_in_order [OF _ lim hash request(2-5)] show ?case
    by blast
next
  case (next_life c io w c1)
  have "cfg_persistence_path (co_config (new_coordinator cfg)) \<noteq> []"
    using path by (simp add: new_coordinator_def)
  from opened_journal [OF next_life(2) this] obtain j
    where "journal_open io (cfg_persistence_path cfg) (clamp_to_hard_ceiling (cfg_limits cfg)) (Some (jn_disk (co_journal c))) = (j, Inr ())"
      and run: "start_with (world H w) (Inr j) (new_coordinator cfg) = (c1, Inr ())"
    by (auto simp: new_coordinator_def)
  from reopened_tidy [OF _ this(1)] next_life(3)
  have j: "tidy_journal (clamp_to_hard_ceiling (cfg_limits cfg)) j" "epochs_counted (jn_entries j)"
    by (simp_all add: in_order_def Let_def)
  show ?case
    using start_in_order [OF j lim hash run] start_reachable [OF run j(1)] by blast
qed

section \<open>The next life\<close>

lemma recovery_bodies_short: "length (recovery_bodies epoch st) \<le> 1 + length (du_reviews st)"
proof -
  have "length (concat (map (\<lambda>sl. revalidate_review sl restart_reason) sls)) \<le> length sls" for sls
    by (induction sls) (auto simp: revalidate_review_def Let_def)
  from this [of "om_vals (du_reviews st)"] show ?thesis
    by (simp add: recovery_bodies_def om_vals_def)
qed

lemma replay_reviews:
  assumes "reachable H c" and "\<not> co_persistence_failed c"
  shows "du_reviews (recovered_base H (jn_entries (co_journal c))) = du_reviews (co_state c)"
proof -
  have "same_durable (co_state c) (replay H (jn_entries (co_journal c)))"
    using reachable_agrees [OF assms(1)] assms(2) by (simp add: journal_agrees_def)
  then have "du_reviews (clear_workers (co_state c)) = du_reviews (clear_workers (replay H (jn_entries (co_journal c))))"
    by (simp add: same_durable_def)
  then show ?thesis
    by (simp add: clear_workers_def recovered_base_def)
qed

text \<open>
  C10. A coordinator that is asked nothing out of bounds, and whose journal never failed it, can always be replaced:
  whatever bounded requests it has answered, in however many lives on the same file, the file it leaves when it dies
  is one the next coordinator starts on. That coordinator holds every decision ever made, and every review that was
  open awaits revalidation. Bounded are requests whose digests, reasons and
  confidences are as the decoders of requests admit them, and specifications whose summary leaves 200 bytes of a
  metadata string. The conditions: no append has failed in any of the lives and no counter of identities has
  used half of its 64 bits; the coordinator is configured with a journal path and with limits that leave 256 bytes to
  a metadata string, as the default limits do (the texts the coordinator writes of its own must be readable under
  them); digests have 32 bytes; the file has not outgrown its bound, and there is room for one more record and one for
  each review; and the next start can read and reopen the file and append to it.
\<close>

theorem lives_never_end:
  assumes run: "served H cfg c" and lim: "roomy (clamp_to_hard_ceiling (cfg_limits cfg))"
    and hash: "\<forall>bs. length (H bs) = 32" and path: "cfg_persistence_path cfg \<noteq> []" and io: "oi_read io" "oi_reopen io"
    and size: "length (jn_disk (co_journal c)) \<le> unat (max_persistence_file_bytes (co_limits c))"
    and room: "length (jn_entries (co_journal c)) + length (du_reviews (co_state c)) + 1
      \<le> unat (max_persisted_records (co_limits c))"
  shows "\<exists>c1. coordinator_start io (world H (\<lambda>_. IO_Ok)) (Some (jn_disk (co_journal c))) (new_coordinator cfg) = (c1, Inr ())
    \<and> served H cfg c1
    \<and> (\<forall>i d. holds_decision i d (co_state c) \<longrightarrow> holds_decision i d (co_state c1))
    \<and> (\<forall>i sl. find_slot (co_state c) i = Some sl \<longrightarrow> \<not> is_terminal_review_state (r_state (sl_record sl)) \<longrightarrow>
          awaits_revalidation i (co_state c1))"
proof -
  let ?env = "world H (\<lambda>_. IO_Ok)" and ?new = "new_coordinator cfg" and ?es = "jn_entries (co_journal c)"
  let ?start = "coordinator_start io ?env (Some (jn_disk (co_journal c))) ?new"
  have order: "tidy_journal (clamp_to_hard_ceiling (cfg_limits cfg)) (co_journal c)"
    "co_limits c = clamp_to_hard_ceiling (cfg_limits cfg)" "epochs_counted ?es" and reach: "reachable H c" "\<not> co_persistence_failed c"
    using served_in_order [OF run lim hash path] by (simp_all add: in_order_def Let_def)
  have disk: "survives (co_journal c) ?new"
    by (rule tidy_survives [OF order(1) path]) (use size order(2) in simp)
  have new: "\<not> co_started ?new" "co_limits ?new = co_limits c" "env_hash ?env = H" "env_io ?env = (\<lambda>_. IO_Ok)"
    by (simp_all add: new_coordinator_def order(2) world_def)
  have epoch: "\<not> advance_would_overflow (last_epoch 0 ?es)"
    by (rule epochs_left [OF order(3)]) (use room unat_less_4294967296 [of "max_persisted_records (co_limits c)"] in simp)
  have "length (recovery_bodies (fresh_epoch (last_epoch 0 ?es)) (recovered_base H ?es)) \<le> 1 + length (du_reviews (co_state c))"
    using recovery_bodies_short [of _ "recovered_base H ?es"] replay_reviews [OF reach] by metis
  then have "is_ok (snd ?start)"
    using start_succeeds [OF disk new(1) io new(4) epoch] new room by simp
  then obtain c1 where c1: "?start = (c1, Inr ())"
    by (cases ?start) (auto simp: is_ok_iff)
  obtain j1 where j1: "start_with ?env (Inr j1) ?new = (c1, Inr ())" "jn_entries j1 = ?es"
    using start_from_file [OF disk c1] by blast
  have slots: "find_slot (replay H (jn_entries j1)) i = find_slot (co_state c) i" for i
    using replay_slots [OF reach] j1(2) by simp
  show ?thesis
    using c1 served.next_life [OF run c1] start_keeps_decision [OF j1(1)] start_revalidates [OF j1(1)] slots new(3)
    by (auto simp: holds_decision_def)
qed

section \<open>Two lives, concretely\<close>

text \<open>A coordinator that starts without a file, registers a target and dies; the next one starts on its file.\<close>

lemma durable_roomy: "roomy (clamp_to_hard_ceiling (cfg_limits durable_config))" "cfg_persistence_path durable_config \<noteq> []"
  "unat (max_persisted_records (clamp_to_hard_ceiling (cfg_limits durable_config))) = 1048576"
  "20000000 \<le> unat (max_persistence_file_bytes (clamp_to_hard_ceiling (cfg_limits durable_config)))"
  "0 < unat (max_retained_targets (clamp_to_hard_ceiling (cfg_limits durable_config)))"
  by (simp_all add: roomy_def clamped_codec_bounds)
     (simp_all add: durable_config_def plain_config_def clamp_to_hard_ceiling_def clamp_into_def default_limits_def hard_ceilings)

lemma first_life_state:
  obtains c where "coordinator_start io_works (world H (\<lambda>_. IO_Ok)) None (new_coordinator durable_config) = (c, Inr ())"
    and "co_state c = empty_state\<lparr> du_epoch := 1 \<rparr>" and "co_next c = first_counters" and "mutation_guard c = Inr ()"
    and "length (jn_entries (co_journal c)) = 1"
proof -
  let ?env = "world H (\<lambda>_. IO_Ok)" and ?lim = "clamp_to_hard_ceiling (cfg_limits durable_config)"
  obtain j where j: "journal_open io_works (cfg_persistence_path durable_config) ?lim None = (j, Inr ())"
      "\<not> jn_failed j" "jn_entries j = []" "jn_next_sequence j = 1"
    using journal_open_fresh [of io_works "cfg_persistence_path durable_config" ?lim]
    by (auto simp: io_works_def journal_file_ok_def)
  have "encodes (JR_EpochEstablished 1)"
    using recovery_bodies_encode [of "JR_EpochEstablished 1" 1 empty_state] by (simp add: recovery_bodies_def)
  then obtain j2 where j2: "append_all (journal_append ?env) j [\<lparr> je_sequence = 1, je_body = JR_EpochEstablished 1 \<rparr>] = (j2, Inr ())"
    using append_all_succeeds [of j "[\<lparr> je_sequence = 1, je_body = JR_EpochEstablished 1 \<rparr>]" ?env] j(2,3)
      open_keeps_limits [OF j(1)] durable_roomy(3)
    by (auto simp: world_def)
  define c where "c = (new_coordinator durable_config)
    \<lparr> co_journal := j2, co_state := empty_state\<lparr> du_epoch := 1 \<rparr>, co_next := first_counters, co_started := True,
      co_recovery := recovery_report_of (jn_open j) 1 j empty_state \<rparr>"
  have "start_with ?env (Inr j) (new_coordinator durable_config) = (c, Inr ())"
    using j(3,4) j2
    by (simp add: start_with_def recover_def Let_def replay_def advance_would_overflow_def fresh_epoch_def id_valid_def
        first_generation_def clear_workers_def empty_state_def recovery_bodies_def om_vals_def append_entries_def
        rebuild_derived_def max_of_def state_orders_def om_keys_def slot_keys_def first_counters_def c_def new_coordinator_def)
  then have "coordinator_start io_works ?env None (new_coordinator durable_config) = (c, Inr ())"
    using j(1) durable_roomy(2) by (simp add: coordinator_start_def opened_def new_coordinator_def)
  moreover have "co_state c = empty_state\<lparr> du_epoch := 1 \<rparr>" "co_next c = first_counters" "mutation_guard c = Inr ()"
    "length (jn_entries (co_journal c)) = 1"
    using jl.append_all_ok [OF j2] j(3) by (simp_all add: c_def mutation_guard_def new_coordinator_def jl.stamp_all.simps)
  ultimately show ?thesis
    by (rule that)
qed

definition first_target :: register_target_request where
  "first_target =
    \<lparr> rt_id = 0, rt_target_class = TC_Claim, rt_schema_name = ''claim'', rt_payload = [7], rt_producer = 1,
      rt_producer_version = [], rt_provenance = [], rt_reviewable = True, rt_epoch = 1, rt_request = 1 \<rparr>"

lemma first_request:
  assumes "mutation_guard c = Inr ()" and "co_state c = empty_state\<lparr> du_epoch := 1 \<rparr>" and "co_next c = first_counters"
    and "in_order durable_config c" and "length (jn_entries (co_journal c)) = 1"
  obtains c1 where "fst (exec (world sha256 (\<lambda>_. IO_Ok)) (Cmd_RegisterTarget first_target) c) = c1"
    and "\<not> co_persistence_failed c1" and "length (jn_entries (co_journal c1)) = 2" and "du_reviews (co_state c1) = []"
    and "du_targets (co_state c1) \<noteq> []"
proof -
  let ?env = "world sha256 (\<lambda>_. IO_Ok)" and ?lim = "clamp_to_hard_ceiling (cfg_limits durable_config)"
  define c2 where "c2 = snd (next_order (snd (allocate_target_id c)))"
  define t where "t = (target_of_request sha256 1 first_target)
    \<lparr> t_generation := first_generation, t_created_order := fst (next_order (snd (allocate_target_id c))) \<rparr>"
  have order: "co_limits c = ?lim" "\<not> jn_failed (co_journal c)" "jn_limits (co_journal c) = ?lim"
    using assms(4) by (simp_all add: in_order_def Let_def tidy_journal_def journal_file_ok_def)
  have small: "\<not> target_request_too_large ?lim first_target"
    by (simp add: target_request_too_large_def over_def first_target_def)
       (simp add: durable_config_def plain_config_def clamp_to_hard_ceiling_def clamp_into_def default_limits_def hard_ceilings)
  have "fits_target_record ?lim t"
    unfolding t_def
    by (rule fits_new_target [OF _ small first_generation_valid]) (simp_all add: id_valid_def sha256_length)
  then have "encodes (JR_TargetRegistered t)"
    using encodes_bounded [OF writes_journal_body [OF _ clamped_codec_bounds]] by (simp add: short_batch_def)
  then obtain c1 where c1: "publish ?env [JR_TargetRegistered t] c2 = (c1, Inr ())"
    using publish_succeeds [of c2 "[JR_TargetRegistered t]" ?env] order assms(5) durable_roomy(3)
    by (auto simp: c2_def counter_defs world_def)
  have "register_target ?env first_target c = (c1, Inr t)"
    using c1 assms(1-3) order small durable_roomy(5)
    by (simp add: register_target_def Let_def finish_def c2_def t_def first_target_def allocate_target_id_def first_counters_def
        id_valid_def empty_state_def om_simps world_def)
  then have "fst (exec ?env (Cmd_RegisterTarget first_target) c) = c1"
    by (simp add: respond_def)
  moreover have "\<not> co_persistence_failed c1" "length (jn_entries (co_journal c1)) = 2" "du_reviews (co_state c1) = []"
    "du_targets (co_state c1) \<noteq> []"
    using publish_effect [OF c1] publish_journal [OF c1] assms(1,2,5)
    by (auto simp: c2_def counter_defs empty_state_def mutation_guard_def split: if_splits)
  ultimately show ?thesis
    by (rule that)
qed

theorem lives_never_end_witness:
  "\<exists>c c1. served sha256 durable_config c \<and> du_targets (co_state c) \<noteq> []
    \<and> coordinator_start io_works (world sha256 (\<lambda>_. IO_Ok)) (Some (jn_disk (co_journal c))) (new_coordinator durable_config)
        = (c1, Inr ()) \<and> served sha256 durable_config c1"
proof -
  let ?env = "world sha256 (\<lambda>_. IO_Ok)" and ?lim = "clamp_to_hard_ceiling (cfg_limits durable_config)"
  have hash: "\<forall>bs. length (sha256 bs) = 32"
    by (simp add: sha256_length)
  obtain c0 where c0: "coordinator_start io_works ?env None (new_coordinator durable_config) = (c0, Inr ())"
    "co_state c0 = empty_state\<lparr> du_epoch := 1 \<rparr>" "co_next c0 = first_counters" "mutation_guard c0 = Inr ()"
    "length (jn_entries (co_journal c0)) = 1"
    by (rule first_life_state)
  have life: "served sha256 durable_config c0"
    by (rule served.first_life [OF c0(1)])
  note in_order = served_in_order [OF _ durable_roomy(1) hash durable_roomy(2)]
  obtain c where c: "fst (exec ?env (Cmd_RegisterTarget first_target) c0) = c" "\<not> co_persistence_failed c"
    "length (jn_entries (co_journal c)) = 2" "du_reviews (co_state c) = []" "du_targets (co_state c) \<noteq> []"
    using first_request [OF c0(4,2,3) _ c0(5)] in_order [OF life] by blast
  have left: "counters_left c0"
    by (simp add: counters_left_def id_counts_def c0(3) first_counters_def)
  have run: "served sha256 durable_config c"
    using served.request [OF life left, of "Cmd_RegisterTarget first_target" "\<lambda>_. IO_Ok"] c(2) unfolding c(1) by simp
  have order: "co_limits c = ?lim" "tidy_journal ?lim (co_journal c)"
    using in_order [OF run] by (simp_all add: in_order_def Let_def)
  then have "list_all (readable_entry ?lim) (jn_entries (co_journal c))" "jn_disk (co_journal c) = journal_image (jn_entries (co_journal c))"
    using tidy_readable [of ?lim] by (simp_all add: tidy_journal_def journal_file_ok_def list_all_iff)
  then have size: "length (jn_disk (co_journal c)) \<le> unat (max_persistence_file_bytes (co_limits c))"
    using image_length [of ?lim "jn_entries (co_journal c)"] c(3) durable_roomy(4) order(1) by simp
  have room: "length (jn_entries (co_journal c)) + length (du_reviews (co_state c)) + 1 \<le> unat (max_persisted_records (co_limits c))"
    by (simp add: c durable_roomy(3) order(1))
  have io: "oi_read io_works" "oi_reopen io_works"
    by (simp_all add: io_works_def)
  show ?thesis
    using lives_never_end [OF run durable_roomy(1) hash durable_roomy(2) io size room] run c(5) by blast
qed

end
