(* ===== verification/CF_Overconfident.thy ===== *)
theory CF_Overconfident
  imports CF_Committed
begin

text \<open>
  A second record the journal accepts and the next start refuses: a finding whose confidence lies above 10000 basis
  points, or that names a basis without being provided. The decoder of the wire refuses it; \<open>submit_finding\<close>,
  called in process, records it.
\<close>

section \<open>Fields behind a result\<close>

lemma spoils_try_ok:
  assumes "codec e d (Inr x)" and "spoils (w_seq es) (k x)"
  shows "spoils (w_seq (e # es)) (try_read d k)"
  unfolding try_read_def by (rule spoils_Cons [OF assms(1)]) (use assms(2) in simp)

lemma spoils_then:
  assumes e: "spoils e d" and es: "\<forall>f \<in> set es. w_step f"
  shows "spoils (w_seq (e # es)) (try_read d k)"
  unfolding spoils_def w_seq_Cons
proof (intro conjI allI impI)
  show "w_step (\<lambda>w. w_seq es (e w))"
    using e w_step_comp [OF _ w_step_seq [OF es]] by (simp add: spoils_def)
  fix w assume w: "wr_ok w" "wr_ok (w_seq es (e w))"
  have mid: "wr_ok (e w)"
    by (rule w_step_ok [OF w_step_seq [OF es] w(2)])
  with e w(1) obtain bs where bs: "wr_buffer (e w) = wr_buffer w @ bs" "refuses d bs"
    unfolding spoils_def by blast
  moreover obtain cs where "wr_buffer (w_seq es (e w)) = wr_buffer (e w) @ cs"
    using w_step_seq [OF es] unfolding w_step_def w_extends_def by blast
  ultimately show "\<exists>bs. wr_buffer (w_seq es (e w)) = wr_buffer w @ bs \<and> refuses (try_read d k) bs"
    using refuses_try [OF refuses_more [OF bs(2)]] by auto
qed

lemma spoils_finish: "\<not> valid \<Longrightarrow> spoils (w_seq []) (finish_read valid x)"
  unfolding spoils_def w_seq_Nil
  by (auto simp: w_step_id refuses_def finish_read_def try_read_def rd_get_status_def rd_status_def rd_malformed_def)

section \<open>The confidence of a finding\<close>

lemma confidence_spoils: "\<not> fits_confidence v \<Longrightarrow> spoils (enc_confidence v) dec_confidence"
  unfolding enc_confidence_def dec_confidence_def
  by (rule codecs codec_rules spoils_Cons | rule spoils_finish, simp add: fits_confidence_def)+


lemma finding_spoils:
  assumes "\<not> fits_confidence (f_confidence v)" and "length (f_evidence v) \<le> unat (max_evidence_per_finding lim)"
    and "length (f_explanation v) \<le> unat (max_explanation_bytes lim)"
  shows "spoils (enc_finding v) (dec_finding lim)"
  unfolding enc_finding_def dec_finding_def
  by (rule spoils_then [OF confidence_spoils [OF assms(1)]] spoils_try_ok [OF codec_id_list [OF assms(2)]] codecs codec_rules spoils_Cons
      | simp add: w_steps assms)+

lemma spoils_finding_entry:
  assumes "spoils (enc_finding v) (dec_finding lim)"
  shows "spoils (enc_journal_entry \<lparr> je_sequence = n, je_body = JR_FindingRecorded v \<rparr>) (dec_journal_entry lim)"
proof -
  have "spoils (enc_finding v) (dec_one (dec_finding lim) JR_FindingRecorded)"
    unfolding dec_one_def by (rule spoils_try [OF assms])
  then have "spoils (w_seq [w_u16 8, enc_finding v]) (dec_journal_entry lim)"
    unfolding dec_journal_entry_def
    by (intro spoils_Cons [OF codec_ints(1)])
       (simp add: w_seq_Cons w_seq_Nil spoils_checked is_valid_journal_record_type_def dec_journal_payload_def)
  then show ?thesis
    by (simp add: enc_journal_entry_def)
qed

text \<open>
  A finding submitted in process with such a confidence makes the journal unreadable: when it is recorded, and not
  answered with a finding already there, no coordinator with the same limits starts on the file it leaves.
\<close>

theorem overconfident_finding_blocks_restart:
  assumes run: "submit_finding env q c = (c1, Inr f)" and recorded: "co_journal c1 \<noteq> co_journal c"
    and bad: "\<not> fits_confidence (sf_confidence q)" and limits: "clamp_to_hard_ceiling (co_limits c0) = co_limits c"
    and disk: "journal_file_ok (co_journal c1)" "cfg_persistence_path (co_config c0) \<noteq> []"
  shows "\<not> is_ok (snd (coordinator_start io env' (Some (jn_disk (co_journal c1))) c0))"
proof -
  obtain sl a where guards: "finding_guards (co_state c) (co_limits c) q = Inr (sl, a)"
    and bodies: "\<exists>bs c2. publish env bs c2 = (c1, Inr ()) \<and> JR_FindingRecorded f \<in> set bs
      \<and> f_confidence f = sf_confidence q \<and> f_evidence f = sf_evidence q \<and> f_explanation f = sf_explanation q"
    using run recorded
    by (fastforce simp: submit_finding_def record_finding_def fail_with_def Let_def finish_def candidate_finding_def
        split: sum.splits option.splits prod.splits)
  have "finding_bounds_guard (co_limits c) sl q = Inr ()"
    using guards by (auto simp: finding_guards_def result_bind_Inr_iff)
  then have bounds: "length (sf_evidence q) \<le> unat (max_evidence_per_finding (co_limits c))"
    "length (sf_explanation q) \<le> unat (max_explanation_bytes (co_limits c))"
    unfolding finding_bounds_guard_def first_error_Inr by (auto simp: over_def)
  obtain e where e: "e \<in> set (jn_entries (co_journal c1))" "je_body e = JR_FindingRecorded f" "wr_ok (payload_writer e)"
    using bodies publish_encodes by metis
  have "spoils (enc_finding f) (dec_finding (co_limits c))"
    by (rule finding_spoils) (use bodies bad bounds in auto)
  from spoiled_payload_refused [of e "co_limits c"] spoils_finding_entry [OF this, of "je_sequence e"] e(2,3)
  have "\<not> scannable (clamp_to_hard_ceiling (co_limits c0)) e"
    unfolding scannable_def limits by (metis journal_entry.surjective old.unit.exhaust)
  from unreadable_record_blocks_start [OF disk e(1) this] show ?thesis .
qed

end
