(* ===== verification/CF_Counted.thy ===== *)
theory CF_Counted
  imports CF_Verdict CF_State
begin

text \<open>
  What counts in an evaluation. The findings that count are given by a predicate over the finding and the live
  authority; the votes, the quorum, the disagreement, the evidence and the aggregate are functions of those
  findings alone, and every critic has exactly one vote, read from the outcomes of its own. Two behaviours follow
  that the documentation does not promise: challenging a finding deletes it from the evaluation, whatever comes of
  the challenge, and two degenerate policies pass a review in which every vote is FAIL.
\<close>

section \<open>The findings that count\<close>

definition authoritative_finding :: "evaluation_input \<Rightarrow> finding \<Rightarrow> bool" where
  "authoritative_finding inp f \<longleftrightarrow>
     f_review f = r_id (ei_review inp) \<and> f_review_generation f = r_generation (ei_review inp)
   \<and> f_target f = r_target (ei_review inp) \<and> f_target_generation f = r_target_generation (ei_review inp)
   \<and> f_state f = FS_Current
   \<and> om_get (lv_critic_generations (ei_authority inp)) (f_critic f) = Some (f_critic_generation f)
   \<and> (\<exists>w. om_get (lv_incumbent_workers (ei_authority inp)) (f_critic f) = Some w
        \<and> wi_id w = f_worker f \<and> wi_boot w = f_worker_boot f)"

definition with_findings :: "finding list \<Rightarrow> evaluation_input \<Rightarrow> evaluation_input" where
  "with_findings fs inp = inp\<lparr> ei_findings := fs \<rparr>"

text \<open>The same review with nothing but the findings that count.\<close>

definition heeded :: "evaluation_input \<Rightarrow> evaluation_input" where
  "heeded inp = with_findings (filter (authoritative_finding inp) (ei_findings inp)) inp"

lemma is_current_authoritative: "is_current inp = authoritative_finding inp"
  by (simp add: fun_eq_iff is_current_iff authoritative_finding_def)

lemma with_findings_fields [simp]:
  "ei_review (with_findings fs inp) = ei_review inp" "ei_assignments (with_findings fs inp) = ei_assignments inp"
  "ei_evidences (with_findings fs inp) = ei_evidences inp" "ei_challenges (with_findings fs inp) = ei_challenges inp"
  "ei_authority (with_findings fs inp) = ei_authority inp" "ei_findings (with_findings fs inp) = fs"
  "early_exit (with_findings fs inp) = early_exit inp"
  "unresolved_challenges (with_findings fs inp) = unresolved_challenges inp"
  "authoritative_finding (with_findings fs inp) = authoritative_finding inp"
  "with_findings (ei_findings inp) inp = inp"
  by (simp_all add: with_findings_def early_exit_def unresolved_challenges_def authoritative_finding_def fun_eq_iff)

definition same_counted :: "evaluation_input \<Rightarrow> finding list \<Rightarrow> bool" where
  "same_counted inp fs \<longleftrightarrow>
     filter (authoritative_finding inp) fs = filter (authoritative_finding inp) (ei_findings inp)"

lemma counted_current:
  assumes "same_counted inp fs"
  shows "current_findings (with_findings fs inp) = current_findings inp"
    and "eval_votes (with_findings fs inp) = eval_votes inp"
    and "evidence_tally_of (with_findings fs inp) = evidence_tally_of inp"
  using assms
  by (simp_all add: current_findings_def is_current_authoritative same_counted_def eval_votes_def evidence_tally_of_def)

lemma counted_context:
  assumes "same_counted inp fs"
  shows "context_of (with_findings fs inp) = (context_of inp)\<lparr> ec_input := with_findings fs inp \<rparr>"
  by (simp add: context_of_def Let_def counted_current [OF assms])

lemma counted_aggregate_votes: "aggregate_votes (ec\<lparr> ec_input := inp \<rparr>) = aggregate_votes ec"
  by (cases "sp_aggregation (ec_spec ec)")
     (simp_all add: aggregate_votes_def agg_defs any_critical_def all_required_fail_def all_required_pass_def
       denominator_def Let_def)

lemma counted_aggregate: "aggregate (ec\<lparr> ec_input := inp \<rparr>) rej = aggregate ec rej"
  by (simp add: aggregate_def counted_aggregate_votes denominator_def)

lemma counted_guards:
  "unresolved_challenges inp = unresolved_challenges (ec_input ec) \<Longrightarrow>
     final_guards (ec\<lparr> ec_input := inp \<rparr>) h vd = final_guards ec h vd"
  by (simp add: final_guards_def)

text \<open>One predicate looks at the other findings too: it rejects a finding bound to another generation of the target.\<close>

definition bound_findings :: "evaluation_input \<Rightarrow> finding list \<Rightarrow> bool" where
  "bound_findings inp fs \<longleftrightarrow> (\<forall>f \<in> set fs. \<not> (f_review f = r_id (ei_review inp)
     \<and> f_review_generation f = r_generation (ei_review inp)
     \<and> f_target_generation f \<noteq> r_target_generation (ei_review inp)))"

lemma check_target_bound:
  "check_target_generation ec =
    (let inp = ec_input ec; r = ei_review inp; au = ei_authority inp;
         satisfied = (r_target r = lv_current_target au
           \<and> (lv_current_target_generation au = 0 \<or> r_target_generation r = lv_current_target_generation au)
           \<and> bound_findings inp (ei_findings inp))
     in (satisfied,
         if satisfied then ''review is bound to the current target generation''
         else ''review target generation no longer matches live target authority'',
         E_RevalidationRequired))"
  by (simp add: check_target_generation_def bound_findings_def Let_def)

lemma bound_with [simp]: "bound_findings (with_findings fs inp) = bound_findings inp"
  by (simp add: bound_findings_def fun_eq_iff)

lemma counted_other_predicate:
  assumes "same_counted inp fs" and "kind \<noteq> Pred_ExactTargetGenerationMatch"
  shows "check_predicate (context_of (with_findings fs inp)) kind p = check_predicate (context_of inp) kind p"
  using assms(2) unfolding counted_context [OF assms(1)]
  by (cases kind) (simp_all add: check_target_digest_def check_required_evidence_def
      check_evidence_integrity_def check_evidence_provenance_def check_required_roles_def
      check_minimum_critics_def check_required_verifiers_def check_critical_fails_def
      check_critic_generations_def check_worker_boots_def check_epoch_def check_categories_def
      check_quorum_def check_confidence_def Let_def)

lemma counted_predicate:
  assumes "same_counted inp fs"
  shows "bound_findings inp fs = bound_findings inp (ei_findings inp) \<Longrightarrow>
      check_predicate (context_of (with_findings fs inp)) kind p = check_predicate (context_of inp) kind p"
    and "bound_findings inp fs \<Longrightarrow> fst (check_predicate (context_of inp) kind p) \<Longrightarrow>
      fst (check_predicate (context_of (with_findings fs inp)) kind p)"
  using counted_other_predicate [OF assms, of kind p]
  by (cases "kind = Pred_ExactTargetGenerationMatch"; simp add: check_target_bound counted_context [OF assms] Let_def)+

lemma counted_verdict:
  assumes "same_counted inp fs" and "bound_findings inp fs = bound_findings inp (ei_findings inp)"
  shows "verdict_of (with_findings fs inp) = verdict_of inp"
proof -
  have "run_predicates (context_of (with_findings fs inp)) = run_predicates (context_of inp)"
    using counted_predicate(1) [OF assms]
    by (simp add: run_predicates_def fail_predicate_def [abs_def])
  then show ?thesis
    by (simp add: verdict_of_def Let_def counted_context [OF assms(1)] counted_aggregate counted_guards
        split: option.split)
qed

lemma valid_verdict:
  assumes "same_counted inp fs" and "bound_findings inp fs" and "\<not> fst (run_predicates (context_of inp))"
  shows "verdict_of (with_findings fs inp) = verdict_of inp"
proof -
  have valid: "\<not> fst (run_predicates (context_of (with_findings fs inp)))"
    using assms(3) counted_predicate(2) [OF assms(1,2)] by (auto simp: run_predicates_iff)
  have aggregate: "aggregate ec rej = aggregate ec rej'" if "\<not> fst rej" "\<not> fst rej'" for ec rej rej'
    using that by (simp add: aggregate_def)
  show ?thesis
    using valid assms(3) aggregate [OF valid assms(3)]
    by (simp add: verdict_of_def Let_def counted_context [OF assms(1)] counted_aggregate counted_guards
        split: option.split)
qed

lemma heeded_counted: "same_counted inp (ei_findings (heeded inp))" "bound_findings inp (ei_findings (heeded inp))"
  by (simp_all add: same_counted_def bound_findings_def heeded_def) (simp add: authoritative_finding_def)

lemma current_findings_ids:
  "set (om_keys (current_findings inp)) = f_id ` {f \<in> set (ei_findings inp). authoritative_finding inp f}"
proof -
  have "dom (om_get (foldl (\<lambda>m f. om_put (f_id f) f m) m fs)) = dom (om_get m) \<union> f_id ` set fs"
    for m :: "(finding_id, finding) omap" and fs
    by (induction fs arbitrary: m) (auto simp: dom_def)
  then show ?thesis
    using om.set_keys [OF current_findings_wf [of inp]]
    by (auto simp: om_keys_def current_findings_def is_current_authoritative om.get_empty)
qed

lemma hard_invalid_rejected:
  "\<not> er_hard_invalid (evaluate_review H inp) \<Longrightarrow>
     early_exit inp \<noteq> None \<or> \<not> fst (run_predicates (context_of inp))"
  by (cases "early_exit inp") (simp_all add: evaluate_review_def finish_evaluation_def Let_def split: prod.splits)

lemma early_verdict: "early_exit inp \<noteq> None \<Longrightarrow> verdict_of (with_findings fs inp) = verdict_of inp"
  by (auto simp: verdict_of_def Let_def)

text \<open>
  C7. The findings that count are exactly those of this review generation and this target generation that are
  current and were produced by the registered generation of their critic on the incumbent boot of that critic's
  worker. Nothing else is read: with every other finding removed from the input, the contributors and their votes,
  the quorum, the disagreement, the evidence in use and the aggregate are the same, and so is the disposition,
  unless a mandatory predicate has failed (one predicate rejects findings bound to another target generation).
\<close>

theorem counted_findings_are_authoritative:
  "set (ex_current_findings (er_explanation (evaluate_review H inp)))
     = f_id ` {f \<in> set (ei_findings inp). authoritative_finding inp f}
   \<and> ex_contributors (er_explanation (evaluate_review H (heeded inp)))
     = ex_contributors (er_explanation (evaluate_review H inp))
   \<and> ex_quorum (er_explanation (evaluate_review H (heeded inp))) = ex_quorum (er_explanation (evaluate_review H inp))
   \<and> ec_disagreement (context_of (heeded inp)) = ec_disagreement (context_of inp)
   \<and> ec_tally (context_of (heeded inp)) = ec_tally (context_of inp)
   \<and> aggregate_votes (context_of (heeded inp)) = aggregate_votes (context_of inp)
   \<and> (er_hard_invalid (evaluate_review H inp)
      \<or> er_disposition (evaluate_review H (heeded inp)) = er_disposition (evaluate_review H inp))"
proof -
  let ?fs = "ei_findings (heeded inp)"
  have heeded: "heeded inp = with_findings ?fs inp"
    by (simp add: heeded_def)
  note same = heeded_counted(1) [of inp]
  have "verdict_of (heeded inp) = verdict_of inp" if "\<not> er_hard_invalid (evaluate_review H inp)"
    using hard_invalid_rejected [OF that] early_verdict valid_verdict [OF heeded_counted] by (metis heeded)
  moreover have "eval_votes (heeded inp) = eval_votes inp"
    "context_of (heeded inp) = (context_of inp)\<lparr> ec_input := heeded inp \<rparr>" "ei_review (heeded inp) = ei_review inp"
    "ei_authority (heeded inp) = ei_authority inp"
    using counted_current(2) [OF same] counted_context [OF same] heeded by (simp_all add: heeded_def)
  ultimately show ?thesis
    by (auto simp: explanation_fields current_findings_ids counted_aggregate_votes)
qed

section \<open>One vote for each critic\<close>

text \<open>What a critic says by the outcomes of its findings, and whether that decides anything.\<close>

definition vote_reading :: "finding_outcome list \<Rightarrow> finding_outcome \<times> bool" where
  "vote_reading outcomes =
    (if Out_Pass \<in> set outcomes \<and> Out_Fail \<in> set outcomes then (Out_Unknown, False)
     else if Out_Fail \<in> set outcomes then (Out_Fail, True)
     else if Out_Warn \<in> set outcomes then (Out_Warn, True)
     else if Out_Pass \<in> set outcomes then (Out_Pass, True)
     else (Out_Unknown, False))"

definition outcomes_of :: "evaluation_input \<Rightarrow> critic_id \<Rightarrow> finding_outcome list" where
  "outcomes_of inp critic = map f_outcome (filter (\<lambda>f. f_critic f = critic) (om_vals (current_findings inp)))"

definition collapsed :: "review_spec \<Rightarrow> finding list \<Rightarrow> critic_vote" where
  "collapsed spec fs = foldl (\<lambda>v f. vote_add_finding spec f v) empty_vote fs"

lemma collapsed_snoc: "collapsed spec [] = empty_vote"
  "collapsed spec (fs @ [f]) = vote_add_finding spec f (collapsed spec fs)"
  by (simp_all add: collapsed_def)

lemma collapse_get:
  "om_get (collapse_votes spec fs) k =
    (let mine = filter (\<lambda>f. f_critic f = k) fs in if mine = [] then None else Some (collapsed spec mine))"
proof (induction fs rule: rev_induct)
  case Nil
  then show ?case
    by (simp add: collapse_votes_def)
next
  case (snoc f fs)
  have "collapse_votes spec (fs @ [f]) =
      om_put (f_critic f) (vote_add_finding spec f (vote_slot (collapse_votes spec fs) (f_critic f))) (collapse_votes spec fs)"
    by (simp add: collapse_votes_def)
  with snoc.IH show ?case
    by (cases "k = f_critic f") (auto simp: vote_slot_def Let_def collapsed_snoc)
qed

text \<open>The counters of a vote, as sets of outcomes; they do not wrap for fewer than 2^32 findings.\<close>

definition counters_read :: "finding_outcome list \<Rightarrow> critic_vote \<Rightarrow> bool" where
  "counters_read outcomes v \<longleftrightarrow>
     unat (v_pass_count v) = count_list outcomes Out_Pass
   \<and> unat (v_fail_count v) = count_list outcomes Out_Fail
   \<and> unat (v_warn_count v) = count_list outcomes Out_Warn
   \<and> v_conflicted v = (Out_Pass \<in> set outcomes \<and> Out_Fail \<in> set outcomes)"

lemma count_list_bound: "count_list xs x \<le> length xs"
  by (induction xs) auto

lemma unat_inc_u32: "unat (w :: u32) < 4294967295 \<Longrightarrow> unat (w + 1) = unat w + 1"
  by (simp add: unat_word_ariths)

lemma word_pos_count: "(0 < (w :: u32)) = (0 < unat w)"
  by (simp add: word_less_nat_alt)

lemma counters_add:
  assumes "counters_read outcomes v" and "length outcomes < 4294967295"
  shows "counters_read (outcomes @ [f_outcome f]) (vote_add_finding spec f v)"
proof -
  have "count_list outcomes x < 4294967295" for x
    using count_list_bound [of outcomes x] assms(2) by simp
  moreover have "0 < count_list outcomes x \<longleftrightarrow> x \<in> set outcomes" for x
    by (simp add: count_list_0_iff flip: neq0_conv)
  ultimately show ?thesis
    using assms(1)
    by (cases "f_outcome f")
       (auto simp: counters_read_def vote_add_finding_def mark_conflict_def count_outcome_def unat_inc_u32 word_pos_count)
qed

lemma collapsed_counters:
  "length fs < 4294967296 \<Longrightarrow> counters_read (map f_outcome fs) (collapsed spec fs)"
proof (induction fs rule: rev_induct)
  case Nil
  then show ?case
    by (simp add: counters_read_def collapsed_def empty_vote_def)
next
  case (snoc f fs)
  then show ?case
    using counters_add [of "map f_outcome fs" "collapsed spec fs" f spec] by (simp add: collapsed_def)
qed

lemma counters_attach: "counters_read outcomes (vote_attach_assignment a v) = counters_read outcomes v"
  by (simp add: counters_read_def vote_attach_assignment_def)

lemma settled_reading:
  assumes "counters_read outcomes v"
  shows "(v_dominant (settle_vote v), v_decisive (settle_vote v)) = vote_reading outcomes"
proof -
  have "0 < count_list outcomes x \<longleftrightarrow> x \<in> set outcomes" for x
    by (simp add: count_list_0_iff flip: neq0_conv)
  then show ?thesis
    using assms by (auto simp: counters_read_def settle_vote_def vote_reading_def word_pos_count)
qed

lemma attach_votes:
  assumes "votes_keyed votes" and "\<And>k v. om_get votes k = Some v \<Longrightarrow> counters_read (outcomes k) v"
    and "\<And>k. om_get votes k = None \<Longrightarrow> outcomes k = []"
  shows "dom (om_get (attach_assignments as votes)) = dom (om_get votes) \<union> a_critic ` set as
    \<and> (\<forall>k v. om_get (attach_assignments as votes) k = Some v \<longrightarrow> counters_read (outcomes k) v)"
  using assms
proof (induction as arbitrary: votes)
  case Nil
  then show ?case
    by (auto simp: attach_assignments_def)
next
  case (Cons a as)
  let ?v = "vote_attach_assignment a (vote_slot votes (a_critic a))"
  let ?votes = "om_put (a_critic a) ?v votes"
  have "counters_read [] empty_vote"
    by (simp add: counters_read_def empty_vote_def)
  then have v: "counters_read (outcomes (a_critic a)) ?v"
    unfolding counters_attach using Cons.prems(2,3) [of "a_critic a"]
    by (cases "om_get votes (a_critic a)") (simp_all add: vote_slot_def)
  have "votes_keyed ?votes"
    by (rule votes_keyed_put [OF Cons.prems(1)]) (simp add: vote_attach_assignment_def)
  then have "dom (om_get (attach_assignments as ?votes)) = dom (om_get ?votes) \<union> a_critic ` set as
    \<and> (\<forall>k v. om_get (attach_assignments as ?votes) k = Some v \<longrightarrow> counters_read (outcomes k) v)"
    by (rule Cons.IH) (use v Cons.prems(2,3) in \<open>auto split: if_splits\<close>)
  then show ?case
    by (auto simp: attach_assignments_def dom_def)
qed

lemma eval_votes_read:
  assumes "length (current_findings inp) < 4294967296"
  shows "dom (om_get (eval_votes inp)) =
      f_critic ` set (om_vals (current_findings inp)) \<union> a_critic ` set (ei_assignments inp)
    \<and> (\<forall>k v. om_get (eval_votes inp) k = Some v \<longrightarrow>
          (v_dominant v, v_decisive v) = vote_reading (outcomes_of inp k))"
proof -
  let ?fs = "om_vals (current_findings inp)" and ?spec = "r_spec (ei_review inp)"
  let ?votes = "collapse_votes ?spec ?fs"
  have keyed: "votes_keyed ?votes"
    unfolding collapse_votes_def
    by (intro votes_keyed_fold) (simp_all add: votes_keyed_def vote_add_finding_def)
  have read: "counters_read (outcomes_of inp k) v" if "om_get ?votes k = Some v" for k v
  proof -
    have "length (filter (\<lambda>f. f_critic f = k) ?fs) < 4294967296"
      by (rule le_less_trans [OF length_filter_le]) (use assms in \<open>simp add: om_vals_def\<close>)
    from collapsed_counters [OF this, of ?spec] that show ?thesis
      by (auto simp: collapse_get Let_def outcomes_of_def split: if_splits)
  qed
  have none: "outcomes_of inp k = []" if "om_get ?votes k = None" for k
    using that by (auto simp: collapse_get Let_def outcomes_of_def split: if_splits)
  have "dom (om_get ?votes) = f_critic ` set ?fs"
    by (auto simp: dom_def collapse_get Let_def filter_empty_conv)
  with attach_votes [of ?votes "outcomes_of inp" "ei_assignments inp", OF keyed read none] show ?thesis
    unfolding eval_votes_def om_get_map_values [of "\<lambda>_. settle_vote"]
    by (auto simp: dom_def settled_reading)
qed

text \<open>
  C27. Every logical critic has exactly one vote, however many findings it submitted and however many assignments
  it was given: the contributors, in ascending order of critics, are the critics with a current finding or an
  assignment, each once; and the vote of a critic is read from the outcomes of all its current findings: undecided
  when they assert both PASS and FAIL, otherwise FAIL, WARN or PASS, in this order of precedence.
\<close>

theorem one_vote_per_critic:
  assumes "length (current_findings inp) < 4294967296"
  shows "sorted_wrt (<) (map cc_critic (ex_contributors (er_explanation (evaluate_review H inp))))
    \<and> set (map cc_critic (ex_contributors (er_explanation (evaluate_review H inp)))) =
        f_critic ` set (om_vals (current_findings inp)) \<union> a_critic ` set (ei_assignments inp)
    \<and> list_all (\<lambda>c. (cc_outcome c, cc_decisive c) = vote_reading (outcomes_of inp (cc_critic c)))
        (ex_contributors (er_explanation (evaluate_review H inp)))"
proof -
  have keys: "map cc_critic (map contribution_of (om_vals (eval_votes inp))) = om_keys (eval_votes inp)"
    using votes_keyed_critics [OF eval_votes_keyed, of inp] by (simp add: contribution_of_def comp_def)
  have wf: "om_wf (eval_votes inp)" "\<And>k v. om_get (eval_votes inp) k = Some v \<Longrightarrow> v_critic v = k"
    using eval_votes_keyed [of inp] by (simp_all add: votes_keyed_def)
  have "sorted_wrt (<) (om_keys (eval_votes inp))"
    using wf(1) by (simp add: om_wf_def om_keys_def)
  moreover have "set (om_keys (eval_votes inp)) = dom (om_get (eval_votes inp))"
    using om.set_keys [OF wf(1)] by (simp add: om_keys_def)
  moreover have "(v_dominant v, v_decisive v) = vote_reading (outcomes_of inp (v_critic v))"
    if v: "v \<in> set (om_vals (eval_votes inp))" for v
  proof -
    obtain k where k: "om_get (eval_votes inp) k = Some v"
      using v unfolding om_vals_mem [OF wf(1)] by blast
    with eval_votes_read [OF assms] wf(2) [OF k] show ?thesis
      by simp
  qed
  ultimately show ?thesis
    unfolding explanation_fields keys using eval_votes_read [OF assms]
    by (simp add: list_all_iff contribution_of_def)
qed

lemma sample_split_current: "length (current_findings sample_split_input) = 2"
  "f_critic ` set (om_vals (current_findings sample_split_input)) \<union> a_critic ` set (ei_assignments sample_split_input) = {1, 2}"
  by code_simp+

theorem one_vote_per_critic_witness:
  "set (map cc_critic (ex_contributors (er_explanation (evaluate_review sha256 sample_split_input)))) = {1, 2}"
proof -
  have "length (current_findings sample_split_input) < 4294967296"
    unfolding sample_split_current(1) by simp
  from one_vote_per_critic [OF this, of sha256] sample_split_current(2) show ?thesis
    by metis
qed

section \<open>A unanimous FAIL that passes\<close>

text \<open>A quorum of no votes, or required roles of which there are none; both pass validation.\<close>

definition degenerate_policy :: "review_spec \<Rightarrow> bool" where
  "degenerate_policy spec \<longleftrightarrow>
     sp_aggregation spec = Agg_QuorumPass \<and> sp_quorum spec = 0
   \<or> sp_aggregation spec = Agg_RequiredRolePass \<and> sp_required_roles spec = []"

lemma unanimous_no_disagreement:
  assumes "\<forall>v \<in> set vs. v_dominant v = Out_Fail" and "length vs < 4294967296"
  shows "disagreeing_count vs = 0"
proof -
  have "\<not> 0 < disagreeing_count vs"
    using disagreeing_count_pos [of vs] assms by auto
  then show ?thesis
    by (simp add: word_gt_0)
qed

lemma degenerate_aggregate:
  assumes "degenerate_policy (ec_spec ec)" and "\<forall>v \<in> set (ec_decisive ec). v_dominant v = Out_Fail"
    and "\<not> any_critical ec" and "q_satisfied (ec_quorum ec)"
  shows "fst (aggregate_votes ec) = RD_Pass"
proof -
  have "weight_for Out_Warn (ec_decisive ec) = 0"
    using assms(2) by (intro weight_for_none) simp
  then show ?thesis
    using assms(1,3,4)
    by (auto simp: degenerate_policy_def aggregate_votes_def agg_quorum_pass_def agg_required_role_pass_def
        is_required_role_def tally_votes_def Let_def list_ex_iff)
qed

text \<open>
  C38. There are policies under which a PASS rests on no PASS vote, although validation admits them: under a quorum
  policy with a quorum of zero, or a required-role policy without required roles, every review whose decisive votes
  (there is one at least) are all FAIL is reported as PASS, as long as it reaches the aggregation (it is not cancelled, superseded or awaiting
  revalidation, its mandatory predicates and its quorum report hold, no challenge is open, no UNKNOWN counts as a
  failure) and the FAILs at or above the fail threshold are within the limit.
\<close>

theorem unanimous_fail_can_pass:
  assumes "degenerate_policy (r_spec (ei_review inp))"
    and "ec_decisive (context_of inp) \<noteq> []" and "length (ec_decisive (context_of inp)) < 4294967296"
    and "\<forall>v \<in> set (ec_decisive (context_of inp)). v_dominant v = Out_Fail"
    and "\<not> any_critical (context_of inp)" and "q_satisfied (ec_quorum (context_of inp))"
    and "early_exit inp = None" and "unresolved_challenges inp = []" and "\<not> fst (run_predicates (context_of inp))"
    and "outcome_count Out_Unknown (ec_current (context_of inp)) = 0"
  shows "er_disposition (evaluate_review H inp) = RD_Pass"
proof -
  let ?ec = "context_of inp" and ?rej = "run_predicates (context_of inp)"
  have "denominator ?ec \<noteq> 0"
    using assms(2,3) of_nat_u32_pos [OF assms(3)] by (simp add: denominator_def del: ec_context)
  then have agg: "fst (aggregate ?ec ?rej) = RD_Pass"
    using degenerate_aggregate [of ?ec] assms by (simp add: aggregate_def)
  have "\<not> dg_present (ec_disagreement ?ec)"
    using unanimous_no_disagreement [OF assms(4,3)] by (simp add: disagreement_of_def Let_def)
  then have "fst (snd (apply_disagreement (ec_spec ?ec) (ec_disagreement ?ec) (aggregate ?ec ?rej))) = RD_Pass"
    using agg by (simp add: apply_disagreement_def overlay_applies_def)
  then have "fst (final_guards ?ec (fst ?rej)
      (snd (apply_disagreement (ec_spec ?ec) (ec_disagreement ?ec) (aggregate ?ec ?rej)))) = RD_Pass"
    using assms(8-10) by (simp add: final_guards_def)
  then show ?thesis
    using assms(7) by (simp add: verdict_of_def Let_def)
qed

definition zero_quorum_spec :: review_spec where
  "zero_quorum_spec = default_review_spec\<lparr> sp_aggregation := Agg_QuorumPass, sp_quorum := 0 \<rparr>"

definition no_roles_spec :: review_spec where
  "no_roles_spec = default_review_spec
    \<lparr> sp_aggregation := Agg_RequiredRolePass, sp_required_roles := [], sp_required_critic_count := 0 \<rparr>"

definition unanimous_fail_input :: "review_spec \<Rightarrow> evaluation_input" where
  "unanimous_fail_input spec = sample_input spec [1, 2]
     [sample_finding 1 Out_Fail Sev_High FS_Current, sample_finding 2 Out_Fail Sev_High FS_Current]"

lemma unanimous_fail_specs:
  "is_ok (validate_review_spec zero_quorum_spec)" "is_ok (validate_review_spec no_roles_spec)"
  by (simp_all add: validate_review_spec_def validate_spec_scalars_def zero_quorum_spec_def
      no_roles_spec_def default_review_spec_def default_predicates_def hard_ceilings)

definition unanimous_ready :: "evaluation_input \<Rightarrow> bool" where
  "unanimous_ready inp \<longleftrightarrow> degenerate_policy (r_spec (ei_review inp))
     \<and> ec_decisive (context_of inp) \<noteq> [] \<and> length (ec_decisive (context_of inp)) \<le> 2
     \<and> list_all (\<lambda>v. v_dominant v = Out_Fail) (ec_decisive (context_of inp))
     \<and> \<not> any_critical (context_of inp) \<and> q_satisfied (ec_quorum (context_of inp))
     \<and> early_exit inp = None \<and> unresolved_challenges inp = [] \<and> \<not> fst (run_predicates (context_of inp))
     \<and> outcome_count Out_Unknown (ec_current (context_of inp)) = 0"

lemma unanimous_samples:
  "unanimous_ready (unanimous_fail_input zero_quorum_spec)" "unanimous_ready (unanimous_fail_input no_roles_spec)"
  by code_simp+

theorem unanimous_fail_can_pass_witness:
  "is_ok (validate_review_spec zero_quorum_spec)
   \<and> er_disposition (evaluate_review sha256 (unanimous_fail_input zero_quorum_spec)) = RD_Pass
   \<and> is_ok (validate_review_spec no_roles_spec)
   \<and> er_disposition (evaluate_review sha256 (unanimous_fail_input no_roles_spec)) = RD_Pass"
proof -
  have run: "er_disposition (evaluate_review sha256 inp) = RD_Pass" if "unanimous_ready inp" for inp
    by (rule unanimous_fail_can_pass)
       (use that in \<open>simp_all add: unanimous_ready_def list_all_iff del: ec_context\<close>)
  show ?thesis
    by (intro conjI unanimous_fail_specs run unanimous_samples)
qed

section \<open>A challenge deletes a finding\<close>

definition mark_finding :: "finding_id \<Rightarrow> finding_state \<Rightarrow> finding list \<Rightarrow> finding list" where
  "mark_finding i s fs = map (\<lambda>f. if f_id f = i then f\<lparr> f_state := s \<rparr> else f) fs"

lemma filter_map_drop:
  assumes "\<And>x. P x \<Longrightarrow> g x = x" and "\<And>x. \<not> P x \<Longrightarrow> \<not> A (g x)"
  shows "filter A (map g xs) = filter A (filter P xs)"
proof (induction xs)
  case (Cons x xs)
  then show ?case
    by (cases "P x") (simp_all add: assms)
qed simp

lemma all_map_drop:
  assumes "\<And>x. P x \<Longrightarrow> g x = x" and "\<And>x. x \<in> set xs \<Longrightarrow> \<not> P x \<Longrightarrow> A (g x)"
  shows "(\<forall>y \<in> set (map g xs). A y) = (\<forall>y \<in> set (filter P xs). A y)"
  using assms(2)
proof (induction xs)
  case (Cons x xs)
  then show ?case
    by (cases "P x") (simp_all add: assms(1))
qed simp

lemma marked_filter:
  assumes "s \<noteq> FS_Current"
  shows "filter (authoritative_finding inp) (mark_finding i s fs) =
    filter (authoritative_finding inp) (filter (\<lambda>f. f_id f \<noteq> i) fs)"
  unfolding mark_finding_def by (rule filter_map_drop) (simp_all add: authoritative_finding_def assms)

lemma marked_bound:
  assumes "\<forall>f \<in> set fs. f_id f = i \<longrightarrow> f_target_generation f = r_target_generation (ei_review inp)"
  shows "bound_findings inp (mark_finding i s fs) = bound_findings inp (filter (\<lambda>f. f_id f \<noteq> i) fs)"
  unfolding bound_findings_def mark_finding_def by (rule all_map_drop) (use assms in simp_all)

text \<open>
  C40. Challenged and upheld findings are dropped by the evaluation, although the coordinator and the documentation
  treat them as current: for a finding of the target generation under review, being challenged, or upheld against
  the challenge, has the same effect on the disposition, the contributors and the aggregate as not having been
  submitted at all. A critical FAIL that was upheld no longer prevents the PASS it prevented before.
\<close>

theorem upheld_fail_is_dropped:
  assumes "finding_state_is_current s" and "s \<noteq> FS_Current"
    and "\<forall>f \<in> set fs. f_id f = i \<longrightarrow> f_target_generation f = r_target_generation (ei_review inp)"
  shows "er_disposition (evaluate_review H (with_findings (mark_finding i s fs) inp))
      = er_disposition (evaluate_review H (with_findings (filter (\<lambda>f. f_id f \<noteq> i) fs) inp))
    \<and> ex_contributors (er_explanation (evaluate_review H (with_findings (mark_finding i s fs) inp)))
      = ex_contributors (er_explanation (evaluate_review H (with_findings (filter (\<lambda>f. f_id f \<noteq> i) fs) inp)))
    \<and> aggregate_votes (context_of (with_findings (mark_finding i s fs) inp))
      = aggregate_votes (context_of (with_findings (filter (\<lambda>f. f_id f \<noteq> i) fs) inp))"
proof -
  let ?without = "with_findings (filter (\<lambda>f. f_id f \<noteq> i) fs) inp"
  have same: "same_counted ?without (mark_finding i s fs)"
    by (simp add: same_counted_def marked_filter [OF assms(2)])
  have bound: "bound_findings ?without (mark_finding i s fs) = bound_findings ?without (ei_findings ?without)"
    by (simp add: marked_bound [OF assms(3)])
  have marked: "with_findings (mark_finding i s fs) ?without = with_findings (mark_finding i s fs) inp"
    by (simp add: with_findings_def)
  show ?thesis
    using counted_verdict [OF same bound] counted_current(2) [OF same] counted_context [OF same]
    by (simp add: marked explanation_fields counted_aggregate_votes)
qed

text \<open>Two critics under a quorum policy, one of which asserts a critical FAIL.\<close>

definition disputed_findings :: "finding list" where
  "disputed_findings = [sample_finding 1 Out_Pass Sev_Info FS_Current, sample_finding 2 Out_Fail Sev_Critical FS_Current]"

definition disputed_input :: evaluation_input where
  "disputed_input = sample_input (default_review_spec\<lparr> sp_aggregation := Agg_QuorumPass \<rparr>) [1, 2] disputed_findings"

lemma disputed_verdicts:
  "verdict_of disputed_input = RD_Fail"
  "verdict_of (with_findings (filter (\<lambda>f. f_id f \<noteq> 2) disputed_findings) disputed_input) = RD_Pass"
  by code_simp+

theorem upheld_fail_is_dropped_witness:
  "er_disposition (evaluate_review sha256 disputed_input) = RD_Fail
   \<and> er_disposition (evaluate_review sha256
        (with_findings (mark_finding 2 FS_Upheld disputed_findings) disputed_input)) = RD_Pass"
proof -
  have "finding_state_is_current FS_Upheld"
    by (simp add: finding_state_is_current_def)
  moreover have "\<forall>f \<in> set disputed_findings. f_id f = 2 \<longrightarrow>
      f_target_generation f = r_target_generation (ei_review disputed_input)"
    by (simp add: disputed_findings_def disputed_input_def sample_input_def sample_review_def sample_finding_def)
  ultimately show ?thesis
    using upheld_fail_is_dropped [of FS_Upheld disputed_findings 2 disputed_input sha256] disputed_verdicts
    by simp
qed

end
