(* ===== verification/CF_Silence.thy ===== *)
theory CF_Silence
  imports CF_Serving
begin

text \<open>
  What a closed connection means for the workers it carried: each of them is without authority, and stays so
  through every run of the coordinator in which it does not declare readiness again.
\<close>

section \<open>Only a declaration of readiness gives authority\<close>

definition mute :: "worker_id \<Rightarrow> journal_body \<Rightarrow> bool" where
  "mute i b = (case b of JR_WorkerRegistered w \<Rightarrow> w_id w = i \<longrightarrow> \<not> w_authoritative w | _ \<Rightarrow> True)"

definition mutes :: "worker_id \<Rightarrow> journal_body list \<Rightarrow> id_counters \<Rightarrow> bool" where
  "mutes i bs n \<longleftrightarrow> (\<forall>b \<in> set bs. mute i b)"

lemma mutes_simps [simp]:
  "mutes i [] n"
  "mutes i (b # bs) n \<longleftrightarrow> mute i b \<and> mutes i bs n"
  "mutes i (bs @ cs) n \<longleftrightarrow> mutes i bs n \<and> mutes i cs n"
  "mutes i (concat bss) n \<longleftrightarrow> (\<forall>bs \<in> set bss. mutes i bs n)"
  "mutes i (map JR_AssignmentUpdated as) n"
  "mutes i (map (JR_AssignmentUpdated \<circ> g) as) n"
  by (auto simp: mutes_def mute_def)

lemma mute_simps [simp]:
  "mute i (JR_TargetRegistered t)" "mute i (JR_TargetSuperseded t1 g t2)" "mute i (JR_CriticRegistered c)"
  "mute i (JR_ReviewDeclared r)" "mute i (JR_AssignmentsAdded j g as)" "mute i (JR_FindingRecorded f)"
  "mute i (JR_FindingStateChanged fc)" "mute i (JR_EvidenceRecorded e)" "mute i (JR_ChallengeRecorded ch)"
  "mute i (JR_RebuttalRecorded rb)" "mute i (JR_ReviewStateChanged rv)" "mute i (JR_DecisionCommitted d)"
  "mute i (JR_WorkerRegistered w) \<longleftrightarrow> (w_id w = i \<longrightarrow> \<not> w_authoritative w)"
  by (simp_all add: mute_def)

lemma mutes_changes [simp]:
  "mutes i (revalidate_review sl reason) n" "mutes i (invalidate_findings sl) n" "mutes i (retire_review sl) n"
  "mutes i (assign_entries r created) n" "mutes i (findings_received_entry r) n" "mutes i (challenge_entries r ch) n"
  "mutes i (rebuttal_entries r ch rb oc) n" "mutes i (commit_entries ev r d) n" "mute i (cancel_change r reason)"
  by (auto simp: revalidate_review_def invalidate_findings_def retire_review_def assign_entries_def
      findings_received_entry_def challenge_entries_def rebuttal_entries_def commit_entries_def cancel_change_def
      mutes_def Let_def)

lemma mutes_retirements [simp]:
  "mutes i (retirements applies reason sl) n" "mutes i (supersede_reviews_for_target st t g) n"
  by (auto simp: retirements_def supersede_reviews_for_target_def Let_def)

lemma mutes_fence: "fence_worker_entries st reason w = Inr bs \<Longrightarrow> mutes i bs n"
  by (auto simp: fence_worker_entries_def split: option.splits if_splits)

lemma mutes_fences: "fence_workers st reason ws = Inr bs \<Longrightarrow> mutes i bs n"
  by (induction ws arbitrary: bs) (auto simp: result_bind_Inr_iff mutes_fence)

lemma mutes_retire: "retire_critic_generation st critic = Inr bs \<Longrightarrow> mutes i bs n"
  by (auto simp: retire_critic_generation_def result_bind_Inr_iff mutes_fences)

lemma mutes_supersede: "supersede_finding sl q = Inr (g, bs) \<Longrightarrow> mutes i bs n"
  by (auto simp: supersede_finding_def result_bind_Inr_iff split: option.splits if_splits)

fun readies :: "worker_id \<Rightarrow> command \<Rightarrow> bool" where
  "readies i (Cmd_DeclareReadiness q) = (dr_id q = i)"
| "readies i _ = False"

lemma mute_registration:
  "outcome env (mutes i) c (respond (register_target env q c))"
  "outcome env (mutes i) c (respond (supersede_target env p c))"
  "outcome env (mutes i) c (respond (register_critic env r c))"
  unfolding supersede_target_def register_target_def register_critic_def Let_def
  by (intro outcome_rules; simp add: mutes_retire)+

lemma mute_register_worker: "outcome env (mutes i) c (respond (register_worker env q c))"
  unfolding register_worker_def register_fresh_worker_def Let_def
  by (intro outcome_rules; simp add: mutes_fences mutes_fence worker_of_request_def split: if_splits)

lemma mute_readiness:
  assumes "workers_keyed (co_state c)" and "dr_id q \<noteq> i"
  shows "outcome env (mutes i) c (respond (declare_readiness env q c))"
proof -
  have "w_id w \<noteq> i" if "readiness_guard (co_state c) q = Inr w" for w
    using that assms by (auto simp: readiness_guard_def workers_keyed_def split: if_splits option.splits)
  then show ?thesis
    unfolding declare_readiness_def Let_def by (intro outcome_rules) simp
qed

lemma mute_fencing:
  "outcome env (mutes i) c (fence_worker env worker reason c)"
  "outcome env (mutes i) c (fence_critic env critic reason c)"
  by (auto simp: fence_worker_def fence_critic_def outcome_error outcome_publish mutes_fence mutes_fences split: sum.split)

lemma mute_review:
  "review_space_left c \<Longrightarrow> outcome env (mutes i) c (respond (declare_review env q c))"
  "outcome env (mutes i) c (respond (assign_critics env a c))"
  "outcome env (mutes i) c (respond (submit_evidence env e c))"
  unfolding declare_review_def assign_critics_def submit_evidence_def Let_def
  by (intro outcome_rules next_review_id_quiet(1); auto dest: create_assignments_quiet)+

lemma mute_findings:
  "outcome env (mutes i) c (respond (submit_finding env q c))"
  "outcome env (mutes i) c (respond (submit_challenge env ch c))"
  "outcome env (mutes i) c (respond (submit_rebuttal env rb c))"
  unfolding submit_finding_def record_finding_def submit_challenge_def submit_rebuttal_def Let_def prod.case
  by (intro outcome_rules; auto dest: mutes_supersede)+

lemma mute_closing:
  "outcome env (mutes i) c (respond (commit_review env q c))"
  "outcome env (mutes i) c (respond (cancel_review env k c))"
  unfolding commit_review_def cancel_review_def Let_def
  by (intro outcome_rules; auto split: review_state.split intro!: outcome_rules)+

lemma exec_mute:
  assumes "workers_keyed (co_state c)" and "review_space_left c" and "keeps_running cmd" and "\<not> readies i cmd"
  shows "outcome env (mutes i) c (exec env cmd c)"
  using assms
  by (cases cmd) (simp_all add: mute_registration mute_register_worker mute_readiness mute_fencing mute_review
      mute_findings mute_closing outcome_quiet quiet_counters)

lemma mute_keeps_silence:
  assumes "outcome env (mutes i) c cs" and "workers_keyed (co_state c)" and "silenced i (co_state c)"
  shows "workers_keyed (co_state (fst cs)) \<and> silenced i (co_state (fst cs))"
  using assms(1) unfolding outcome_def
proof (elim disjE exE conjE)
  assume "quiet c (fst cs)"
  with assms(2,3) show ?thesis
    by (simp add: quiet_state)
next
  fix c1 bs s
  assume c1: "quiet c c1" and bs: "mutes i bs (co_next c1)" and pub: "publish env bs c1 = (fst cs, s)"
  have "silenced i (apply_entries (env_hash env) (assign_sequences bs n) (co_state c1))" for n
  proof (rule apply_batch_invariant [where Q = "silenced i"])
    show "silenced i (co_state c1)"
      using assms(3) c1 by (simp add: quiet_state)
    fix b n st assume "b \<in> set bs" and st: "silenced i st"
    with bs have "mute i b"
      by (simp add: mutes_def)
    with st show "silenced i (apply_body (env_hash env) n b st)"
      by (auto simp: silenced_def body_workers om_simps mute_def split: journal_body.splits if_splits)
  qed
  then show ?thesis
    using publish_effect [OF pub] keyed_after_entries assms(2) c1 by (simp add: quiet_state)
qed

section \<open>After a connection has closed\<close>

text \<open>Any commands of a running coordinator but a declaration of readiness for worker \<open>i\<close>.\<close>

inductive runs_unready :: "hash_fun \<Rightarrow> worker_id \<Rightarrow> coordinator \<Rightarrow> coordinator \<Rightarrow> bool" for H i c where
  rests: "runs_unready H i c c"
| steps: "runs_unready H i c c1 \<Longrightarrow> keeps_running cmd \<Longrightarrow> in_range cmd c1 \<Longrightarrow> \<not> readies i cmd \<Longrightarrow>
    runs_unready H i c (fst (exec (world H io) cmd c1))"

lemma unready_keeps_silence:
  assumes "runs_unready H i c c1" and "workers_keyed (co_state c)" and "silenced i (co_state c)"
  shows "workers_keyed (co_state c1) \<and> silenced i (co_state c1)"
  using assms
proof (induction rule: runs_unready.induct)
  case (steps c1 cmd io)
  then have "outcome (world H io) (mutes i) c1 (exec (world H io) cmd c1)"
    by (intro exec_mute) (simp_all add: keeps_running_space)
  from mute_keeps_silence [OF this] steps show ?case
    by blast
qed simp

text \<open>
  C17. When a connection of a server that fences on disconnect closes, every worker it ever registered loses its
  authority, and does not get it back by itself: through every run of the coordinator in which nobody declares
  readiness for that worker, other registrations, fences, reviews and failed appends included (a stop and a new
  start aside), no message of the worker passes the authority check. The rule asks only which connection registered
  the worker, not which one speaks for it now: a worker that has meanwhile registered on another connection, and
  stays in the registry under that one, is silenced all the same. The server runs over a started, well-formed
  coordinator, and the 64-bit space of review identities is not exhausted.
\<close>

theorem lost_connection_silences_workers:
  assumes "server_run H s0 s" and "sv_fence_on_disconnect s"
    and "coordinator_wf (sv_coordinator s0)" and "workers_keyed (co_state (sv_coordinator s0))"
    and "co_started (sv_coordinator s0)" and "au_worker au \<in> set (carried_workers i s)"
    and "runs_unready H (au_worker au) (sv_coordinator (finish_connection env i s)) c"
  shows "\<not> is_ok (check_authority (co_state c) au)
    \<and> (om_get (sv_workers s) (au_worker au) \<noteq> Some i \<longrightarrow>
        om_get (sv_workers (finish_connection env i s)) (au_worker au) = om_get (sv_workers s) (au_worker au))"
proof -
  have "workers_keyed (co_state (sv_coordinator s)) \<and> co_started (sv_coordinator s)"
    using runs_to_fields [OF server_run_refines [OF assms(1)] assms(3,4)] assms(5) by simp
  then have "workers_keyed (co_state (sv_coordinator (finish_connection env i s)))
      \<and> silenced (au_worker au) (co_state (sv_coordinator (finish_connection env i s)))"
    using fence_all_silences [of "sv_coordinator s" env "carried_workers i s"] assms(2,6)
    by (simp add: finish_connection_coordinator)
  then have "silenced (au_worker au) (co_state c)"
    using unready_keeps_silence [OF assms(7)] by blast
  then show ?thesis
    by (simp add: silenced_rejects finish_connection_registry)
qed

text \<open>The worker of two connections, after the first has closed and somebody has cancelled a review.\<close>

theorem lost_connection_silences_workers_witness:
  "\<not> is_ok (check_authority (co_state (fst (exec (world sha256 (\<lambda>_. IO_Ok)) (Cmd_CancelReview restored_cancel)
      (sv_coordinator (finish_connection (world sha256 (\<lambda>_. IO_Ok)) 0 moved_server))))) moved_context)
    \<and> om_get (sv_workers (finish_connection (world sha256 (\<lambda>_. IO_Ok)) 0 moved_server)) 7 = Some 1"
proof -
  let ?c = "sv_coordinator (finish_connection (world sha256 (\<lambda>_. IO_Ok)) 0 moved_server)"
  have "review_space_left ?c"
    by (simp add: finish_connection_coordinator fence_all_space moved_server_simps)
  then have "runs_unready sha256 7 ?c
      (fst (exec (world sha256 (\<lambda>_. IO_Ok)) (Cmd_CancelReview restored_cancel) ?c))"
    by (intro runs_unready.steps runs_unready.rests) simp_all
  then show ?thesis
    using lost_connection_silences_workers [OF server_run.idle, of moved_server moved_context 0 sha256
        "world sha256 (\<lambda>_. IO_Ok)"]
    by (simp add: moved_server_simps moved_context_def)
qed

end
