(* ===== verification/CF_Ledger.thy ===== *)
theory CF_Ledger
  imports CF_Worker CF_Operator
begin

text \<open>
  The ledger of a worker: the frames it has written, from its handshake to the end of its run. They show that it
  publishes no more than its quota, that it counts what it publishes, and in whose name it does so.
\<close>

section \<open>Frames written\<close>

text \<open>The client has gone from \<open>cl\<close> to \<open>cl1\<close> and written exactly the frames \<open>fs\<close>, in this order.\<close>

definition wrote :: "client \<Rightarrow> frame list \<Rightarrow> client \<Rightarrow> bool" where
  "wrote cl fs cl1 \<longleftrightarrow> cl_limits cl1 = cl_limits cl
   \<and> (\<exists>bss. cl_sent cl1 = cl_sent cl @ concat bss \<and> list_all2 (\<lambda>f bs. frame_encode (cl_limits cl) f = Inr bs) fs bss)"

definition count_type :: "message_type \<Rightarrow> frame list \<Rightarrow> nat" where
  "count_type ty fs = length (filter (\<lambda>f. fh_type (fr_header f) = ty) fs)"

lemma count_type_simps [simp]:
  "count_type ty [] = 0"
  "count_type ty (f # fs) = (if fh_type (fr_header f) = ty then 1 else 0) + count_type ty fs"
  "count_type ty (fs @ gs) = count_type ty fs + count_type ty gs"
  by (simp_all add: count_type_def)

lemma wrote_nothing: "cl_sent cl1 = cl_sent cl \<Longrightarrow> cl_limits cl1 = cl_limits cl \<Longrightarrow> wrote cl [] cl1"
  by (auto simp: wrote_def intro: exI [of _ "[]"])

lemma wrote_refl [simp]: "wrote cl [] cl"
  by (simp add: wrote_nothing)

lemma wrote_trans:
  assumes "wrote cl fs cl1" and "wrote cl1 gs cl2"
  shows "wrote cl (fs @ gs) cl2"
proof -
  obtain bss css where "cl_sent cl1 = cl_sent cl @ concat bss" "cl_sent cl2 = cl_sent cl1 @ concat css"
      "list_all2 (\<lambda>f bs. frame_encode (cl_limits cl) f = Inr bs) fs bss"
      "list_all2 (\<lambda>f bs. frame_encode (cl_limits cl) f = Inr bs) gs css"
      "cl_limits cl1 = cl_limits cl" "cl_limits cl2 = cl_limits cl"
    using assms by (auto simp: wrote_def)
  then show ?thesis
    by (auto simp: wrote_def intro!: exI [of _ "bss @ css"] list_all2_appendI)
qed

lemma wrote_sent:
  "cl_sent cl1 = cl_sent cl @ bs \<Longrightarrow> frame_encode (cl_limits cl) f = Inr bs \<Longrightarrow> cl_limits cl1 = cl_limits cl \<Longrightarrow>
     wrote cl [f] cl1"
  by (auto simp: wrote_def intro: exI [of _ "[bs]"])

text \<open>A call of the client writes its request or nothing; one that returns a value has written it.\<close>

definition calls :: "frame \<Rightarrow> client \<Rightarrow> client \<times> 'a remote \<Rightarrow> bool" where
  "calls f cl res \<longleftrightarrow> wrote cl [f] (fst res) \<or> (wrote cl [] (fst res) \<and> (\<exists>code. snd res = Inl code))"

lemma exchange_calls:
  assumes "client_exchange ty au payload expected cl = (cl1, r)"
  shows "wrote cl [request_frame ty au payload] cl1 \<or> (wrote cl [] cl1 \<and> (\<exists>err. r = Inl err))"
proof -
  obtain cl0 s where sent: "client_send ty au payload cl = (cl0, s)"
    by fastforce
  show ?thesis
  proof (cases s)
    case (Inl err)
    then have "cl0 = cl"
      using sent by (auto simp: client_send_def socket_write_def split: if_splits sum.splits)
    then show ?thesis
      using assms sent Inl by (auto simp: client_exchange_def)
  next
    case (Inr u)
    then have "wrote cl [request_frame ty au payload] cl0"
      using sent by (auto simp: client_send_def socket_write_def intro!: wrote_sent split: if_splits sum.splits)
    moreover have "wrote cl0 [] cl1"
      using assms sent Inr await_answer_keeps [of expected cl0] by (auto simp: client_exchange_def intro: wrote_nothing)
    ultimately show ?thesis
      using wrote_trans by fastforce
  qed
qed

lemma request_calls:
  "calls (request_frame ty (authority_of q) (wr_buffer (enc q empty_writer))) cl
     (client_request enc authority_of ty ack dec q cl)"
  by (cases "client_exchange ty (authority_of q) (wr_buffer (enc q empty_writer)) ack cl")
     (auto simp: calls_def client_request_def Let_def dest!: exchange_calls split: sum.split)

lemma query_calls:
  "calls (request_frame ty no_authority (wr_buffer (body empty_writer))) cl (client_query body ty ack dec cl)"
  by (cases "client_exchange ty no_authority (wr_buffer (body empty_writer)) ack cl")
     (auto simp: calls_def client_query_def dest!: exchange_calls split: sum.split)

lemma hello_calls: "calls (request_frame MT_Hello (no_authority\<lparr> au_request := correlation \<rparr>) []) cl (client_hello correlation cl)"
proof -
  have epoch: "wrote cl fs (cl1\<lparr> cl_epoch := e \<rparr>) = wrote cl fs cl1" for fs cl1 e
    by (simp add: wrote_def)
  show ?thesis
    by (cases "client_exchange MT_Hello (no_authority\<lparr> au_request := correlation \<rparr>) [] MT_HelloAck cl")
       (auto simp: calls_def client_hello_def epoch case_prod_beta dest!: exchange_calls split: sum.split)
qed

lemma request_frame_type [simp]: "fh_type (fr_header (request_frame ty au payload)) = ty"
  "fh_authority (fr_header (request_frame ty au payload)) = au"
  by (simp_all add: request_frame_def)

lemmas client_calls =
  request_calls [of MT_RegisterCritic authority_of_register_critic] request_calls [of MT_RegisterWorker authority_of_register_worker]
  request_calls [of MT_DeclareReadiness authority_of_declare_readiness]
  request_calls [of MT_SubmitEvidence authority_of_submit_evidence] request_calls [of MT_SubmitFinding authority_of_submit_finding]

section \<open>Whose findings\<close>

definition publishes :: "frame \<Rightarrow> bool" where
  "publishes f \<longleftrightarrow> fh_type (fr_header f) = MT_SubmitEvidence \<or> fh_type (fr_header f) = MT_SubmitFinding"

text \<open>The epoch, worker, boot identity and generation of a worker, and the critic it runs.\<close>

definition identity :: "critic_worker \<Rightarrow> coordinator_epoch \<times> worker_id \<times> worker_boot_id \<times> critic_id \<times> critic_generation" where
  "identity wk = (wk_epoch wk, wk_worker wk, wk_boot wk, wc_critic (wk_config wk), wk_critic_generation wk)"

definition speaks_for :: "critic_worker \<Rightarrow> frame \<Rightarrow> bool" where
  "speaks_for wk f \<longleftrightarrow> (let au = fh_authority (fr_header f) in
     (au_epoch au, au_worker au, au_worker_boot au, au_critic au, au_critic_generation au) = identity wk)"

lemma publish_ledger:
  fixes cl :: client
  assumes "publish_synthetic_assignment H cfg a epoch worker boot generation cl = (cl1, r)"
  shows "\<exists>fs. wrote cl fs cl1
    \<and> list_all (\<lambda>f. \<exists>request. fh_authority (fr_header f) = incarnation_authority a epoch worker boot generation request)
        (filter publishes fs)
    \<and> (case r of Inl _ \<Rightarrow> count_type MT_SubmitEvidence fs \<le> 1 \<and> count_type MT_SubmitFinding fs \<le> 1
       | Inr _ \<Rightarrow> count_type MT_SubmitEvidence fs = 1 \<and> count_type MT_SubmitFinding fs = 1)"
proof -
  have authority:
    "authority_of_submit_evidence (evidence_request cfg out a epoch worker boot generation) =
       incarnation_authority a epoch worker boot generation (a_id a * 2)"
    "authority_of_submit_finding (finding_request out e a epoch worker boot generation) =
       incarnation_authority a epoch worker boot generation (a_id a * 2 + 1)" for out e
    by (simp_all add: authority_of_submit_evidence_def authority_of_submit_finding_def evidence_request_def
        finding_request_def incarnation_authority_def no_authority_def)
  obtain cla ra where query: "client_query_target (a_target a) cl = (cla, ra)"
    by fastforce
  let ?question = "request_frame MT_QueryTarget no_authority (wr_buffer (w_u64 (a_target a) empty_writer))"
  have q: "calls ?question cl (cla, ra)"
    using query_calls query by (metis client_query_target_def)
  then obtain qs where qs: "wrote cl qs cla" "qs = [] \<or> qs = [?question]"
    by (auto simp: calls_def)
  then have none: "filter publishes qs = []" "count_type MT_SubmitEvidence qs = 0" "count_type MT_SubmitFinding qs = 0"
    by (auto simp: publishes_def)
  show ?thesis
  proof (cases "\<exists>target. ra = Inr target \<and> t_generation target = a_target_generation a")
    case False
    then have "cl1 = cla" "\<exists>code. r = Inl code"
      using assms query by (auto simp: publish_synthetic_assignment_def remote_bind_def split: if_splits sum.splits)
    with qs none show ?thesis
      by (intro exI [of _ qs]) auto
  next
    case True
    then obtain target where target: "ra = Inr target" "t_generation target = a_target_generation a"
      by blast
    let ?out = "run_synthetic_critic H (wc_critic_config cfg) generation target"
    let ?eq = "evidence_request cfg ?out a epoch worker boot generation"
    obtain clb rb where evidence: "client_submit_evidence ?eq cla = (clb, rb)"
      by fastforce
    obtain ef where ef: "calls ef cla (clb, rb)" "fh_type (fr_header ef) = MT_SubmitEvidence"
        "fh_authority (fr_header ef) = incarnation_authority a epoch worker boot generation (a_id a * 2)"
      using client_calls(4) [of ?eq "enc_submit_evidence_request (cl_limits cla)" cla MT_SubmitEvidenceAck
          "dec_evidence_record (cl_limits cla)"] evidence
      by (auto simp: client_submit_evidence_def authority)
    show ?thesis
    proof (cases rb)
      case (Inl code)
      then have "cl1 = clb" "r = Inl code"
        using assms query target evidence by (auto simp: publish_synthetic_assignment_def remote_bind_def Let_def)
      moreover obtain es where "wrote cla es clb" "es = [] \<or> es = [ef]"
        using ef(1) by (auto simp: calls_def)
      ultimately show ?thesis
        using wrote_trans [OF qs(1)] none ef(2,3) by (intro exI [of _ "qs @ es"]) (auto simp: publishes_def)
    next
      case (Inr accepted)
      then have e: "wrote cla [ef] clb"
        using ef(1) by (simp add: calls_def)
      let ?fq = "finding_request ?out (e_id accepted) a epoch worker boot generation"
      obtain clc rc where finding: "client_submit_finding ?fq clb = (clc, rc)"
        by fastforce
      obtain ff where ff: "calls ff clb (clc, rc)" "fh_type (fr_header ff) = MT_SubmitFinding"
          "fh_authority (fr_header ff) = incarnation_authority a epoch worker boot generation (a_id a * 2 + 1)"
        using client_calls(5) [of ?fq "enc_submit_finding_request (cl_limits clb)" clb MT_SubmitFindingAck
            "dec_finding (cl_limits clb)"] finding
        by (auto simp: client_submit_finding_def authority)
      have r: "cl1 = clc" "r = map_sum id (\<lambda>_. ()) rc"
        using assms query target evidence Inr finding
        by (auto simp: publish_synthetic_assignment_def remote_bind_def Let_def split: sum.splits)
      obtain gs where gs: "wrote clb gs clc" "gs = [ff] \<or> (gs = [] \<and> (\<exists>code. rc = Inl code))"
        using ff(1) by (auto simp: calls_def)
      then show ?thesis
        using wrote_trans [OF wrote_trans [OF qs(1) e] gs(1)] none ef(2,3) ff(2,3) r
        by (intro exI [of _ "(qs @ [ef]) @ gs"]) (auto simp: publishes_def split: sum.split)
    qed
  qed
qed

section \<open>The ledger of the loops\<close>

definition quota :: "critic_worker \<Rightarrow> nat" where
  "quota wk = unat (wc_max_assignments (wk_config wk))"

text \<open>
  From \<open>wk\<close> on, the worker speaks for itself only; it has published as often as its counter says when the loop has
  gone through, and never more often than its quota allows.
\<close>

definition in_books :: "critic_worker \<Rightarrow> frame list \<Rightarrow> critic_worker \<times> 'a remote \<Rightarrow> message_type \<Rightarrow> bool" where
  "in_books wk fs res ty \<longleftrightarrow>
     (case snd res of
        Inl _ \<Rightarrow> unat (wk_serviced wk) + count_type ty fs \<le> quota wk
      | Inr _ \<Rightarrow> unat (wk_serviced wk) + count_type ty fs = unat (wk_serviced (fst res)))"

definition ledger :: "critic_worker \<Rightarrow> critic_worker \<times> 'a remote \<Rightarrow> bool" where
  "ledger wk res \<longleftrightarrow> wk_config (fst res) = wk_config wk \<and> identity (fst res) = identity wk
   \<and> unat (wk_serviced (fst res)) \<le> quota wk
   \<and> (\<exists>fs. wrote (wk_client wk) fs (wk_client (fst res)) \<and> list_all (speaks_for wk) (filter publishes fs)
        \<and> in_books wk fs res MT_SubmitEvidence \<and> in_books wk fs res MT_SubmitFinding)"

lemma ledger_idle:
  assumes "unat (wk_serviced wk) \<le> quota wk" and "cl_sent cl = cl_sent (wk_client wk)" "cl_limits cl = cl_limits (wk_client wk)"
  shows "ledger wk (wk\<lparr> wk_client := cl \<rparr>, r)"
  using assms wrote_nothing
  by (auto simp: ledger_def identity_def in_books_def intro!: exI [of _ "[]"] split: sum.split)

lemma ledger_done: "unat (wk_serviced wk) \<le> quota wk \<Longrightarrow> ledger wk (wk, r)"
  using ledger_idle [of wk "wk_client wk" r] by simp

lemma speaks_same: "identity wk1 = identity wk \<Longrightarrow> speaks_for wk1 = speaks_for wk"
  by (simp add: speaks_for_def fun_eq_iff)

lemma ledger_room: "ledger wk (wk1, r) \<Longrightarrow> unat (wk_serviced wk1) \<le> quota wk1"
  by (simp add: ledger_def quota_def)

lemma ledger_then:
  assumes "ledger wk (wk1, Inr x)" and "ledger wk1 res"
  shows "ledger wk res"
proof -
  obtain fs gs where "wrote (wk_client wk) fs (wk_client wk1)" "wrote (wk_client wk1) gs (wk_client (fst res))"
      "list_all (speaks_for wk) (filter publishes fs)" "list_all (speaks_for wk1) (filter publishes gs)"
      "in_books wk fs (wk1, Inr x :: 'a remote) MT_SubmitEvidence" "in_books wk fs (wk1, Inr x :: 'a remote) MT_SubmitFinding"
      "in_books wk1 gs res MT_SubmitEvidence" "in_books wk1 gs res MT_SubmitFinding"
    using assms by (auto simp: ledger_def)
  moreover have "wk_config wk1 = wk_config wk" "identity wk1 = identity wk"
    using assms(1) by (simp_all add: ledger_def)
  ultimately show ?thesis
    using assms speaks_same [of wk1 wk]
    by (auto simp: ledger_def in_books_def quota_def intro!: exI [of _ "fs @ gs"] wrote_trans split: sum.splits)
qed

lemma ledger_bind:
  assumes "ledger wk call" and "\<And>wk1 x. call = (wk1, Inr x) \<Longrightarrow> ledger wk1 (next_call wk1 x)"
  shows "ledger wk (remote_bind call next_call)"
proof (cases "snd call")
  case (Inl code)
  then show ?thesis
    using assms(1) by (cases call) (simp add: remote_bind_def ledger_def in_books_def)
next
  case (Inr x)
  then obtain wk1 where call: "call = (wk1, Inr x)"
    by (cases call) simp
  have "ledger wk (wk1, Inr x)" "ledger wk1 (next_call wk1 x)"
    using assms call by auto
  from ledger_then [OF this] show ?thesis
    by (simp add: call remote_bind_def)
qed

lemma ledger_call:
  assumes "calls f (wk_client wk) (call (wk_client wk))" and "\<not> publishes f" and "unat (wk_serviced wk) \<le> quota wk"
  shows "ledger wk (on_client call wk)"
proof -
  obtain cl r where call: "call (wk_client wk) = (cl, r)"
    by fastforce
  with assms(1) obtain fs where fs: "wrote (wk_client wk) fs cl" "fs = [] \<or> fs = [f]"
    by (auto simp: calls_def)
  then have "filter publishes fs = []" "count_type MT_SubmitEvidence fs = 0" "count_type MT_SubmitFinding fs = 0"
    using assms(2) by (auto simp: publishes_def)
  with fs(1) assms(3) call show ?thesis
    by (auto simp: ledger_def on_client_def identity_def in_books_def intro!: exI [of _ fs] split: sum.split)
qed

text \<open>One assignment: the step that is counted afterwards.\<close>

lemma service_ledger:
  assumes "service_assignment H a wk = (wk1, r)" and "may_service wk"
  shows "ledger wk (case r of Inl code \<Rightarrow> (wk1, Inl code :: unit remote) | Inr _ \<Rightarrow> (count_serviced wk1, Inr ()))"
proof (cases "a_critic a = wc_critic (wk_config wk)")
  case False
  then have "wk1 = wk" "r = Inl (error_code_num E_CriticNotAuthoritative)"
    using assms(1) by (simp_all add: service_assignment_def)
  then show ?thesis
    using assms(2) by (simp add: ledger_done may_service_def quota_def word_less_nat_alt)
next
  case True
  have room: "unat (wk_serviced wk) < quota wk"
    using assms(2) by (simp add: may_service_def quota_def word_less_nat_alt)
  have step: "unat (wk_serviced wk + 1) = unat (wk_serviced wk) + 1"
    using room unat_less_4294967296 [of "wc_max_assignments (wk_config wk)"]
    by (simp add: quota_def unat_word_ariths)
  obtain cl where cl: "publish_synthetic_assignment H (wk_config wk) a (wk_epoch wk) (wk_worker wk) (wk_boot wk)
      (wk_critic_generation wk) (wk_client wk) = (cl, r)" and wk1: "wk1 = wk\<lparr> wk_client := cl \<rparr>"
    using assms(1) True by (auto simp: service_assignment_def on_client_def split: prod.splits)
  obtain fs where fs: "wrote (wk_client wk) fs cl"
      "list_all (\<lambda>f. \<exists>request. fh_authority (fr_header f) = incarnation_authority a (wk_epoch wk) (wk_worker wk)
        (wk_boot wk) (wk_critic_generation wk) request) (filter publishes fs)"
      "case r of Inl _ \<Rightarrow> count_type MT_SubmitEvidence fs \<le> 1 \<and> count_type MT_SubmitFinding fs \<le> 1
       | Inr _ \<Rightarrow> count_type MT_SubmitEvidence fs = 1 \<and> count_type MT_SubmitFinding fs = 1"
    using publish_ledger [OF cl] by blast
  have "speaks_for wk f" if "fh_authority (fr_header f) = incarnation_authority a (wk_epoch wk) (wk_worker wk)
      (wk_boot wk) (wk_critic_generation wk) request" for f request
    using that True by (simp add: speaks_for_def incarnation_authority_def identity_def)
  then have "list_all (speaks_for wk) (filter publishes fs)"
    using fs(2) by (auto simp: list_all_iff)
  with fs(1,3) room step wk1 show ?thesis
    by (cases r) (auto simp: ledger_def in_books_def identity_def count_serviced_def quota_def intro!: exI [of _ fs])
qed

lemma pending_ledger:
  "unat (wk_serviced wk) \<le> quota wk \<Longrightarrow> ledger wk (service_pending H as wk)"
proof (induction as arbitrary: wk)
  case Nil
  then show ?case
    by (simp add: ledger_done)
next
  case (Cons a as)
  show ?case
  proof (cases "may_service wk")
    case True
    obtain wk1 r where serviced: "service_assignment H a wk = (wk1, r)"
      by fastforce
    note books = service_ledger [OF serviced True]
    show ?thesis
    proof (cases r)
      case (Inl code)
      then show ?thesis
        using books True serviced by (simp add: remote_bind_def)
    next
      case (Inr u)
      with books have first: "ledger wk (count_serviced wk1, Inr () :: unit remote)"
        by simp
      then have "ledger (count_serviced wk1) (service_pending H as (count_serviced wk1))"
        by (intro Cons.IH) (simp add: ledger_def quota_def)
      from ledger_then [OF first this] True serviced Inr show ?thesis
        by (simp add: remote_bind_def)
    qed
  qed (use Cons.prems in \<open>simp add: ledger_done\<close>)
qed

lemma notices_ledger:
  "unat (wk_serviced wk) \<le> quota wk \<Longrightarrow> ledger wk (service_notices H wk)"
proof (induction H wk rule: service_notices.induct)
  case (1 H wk)
  show ?case
  proof (cases "may_service wk")
    case True
    obtain cl r where rec: "client_receive (wk_client wk) = (cl, r)"
      by fastforce
    have cl: "cl_sent cl = cl_sent (wk_client wk)" "cl_limits cl = cl_limits (wk_client wk)"
      using client_receive_keeps [of "wk_client wk"] rec by simp_all
    let ?wk1 = "wk\<lparr> wk_client := cl \<rparr>"
    have idle: "ledger wk (?wk1, q)" for q :: "unit remote"
      using 1(3) cl by (rule ledger_idle)
    have quota: "unat (wk_serviced ?wk1) \<le> quota ?wk1" "may_service ?wk1"
      using 1(3) True by (simp_all add: quota_def may_service_def)
    show ?thesis
    proof (cases r)
      case (Inr f)
      note round = service_notices.simps [of H wk] rec Inr
      have other: "ledger wk (service_notices H ?wk1)"
        if "fh_type (fr_header f) \<noteq> MT_Shutdown" "fh_type (fr_header f) \<noteq> MT_AssignmentNotice"
        using 1(1) True rec Inr that quota(1) by (intro ledger_then [OF idle [of "Inr ()"]]) simp
      have notice: "ledger wk (case service_assignment H a ?wk1 of (wk2, Inl code) \<Rightarrow> (wk2, Inl code)
          | (wk2, Inr _) \<Rightarrow> service_notices H (count_serviced wk2))"
        if "fh_type (fr_header f) = MT_AssignmentNotice" "read_notice (cl_limits cl) f = Inr a" for a
      proof (rule ledger_then [OF idle [of "Inr ()"]])
        obtain wk2 q where serviced: "service_assignment H a ?wk1 = (wk2, q)"
          by fastforce
        note books = service_ledger [OF serviced quota(2)]
        show "ledger ?wk1 (case service_assignment H a ?wk1 of (wk2, Inl code) \<Rightarrow> (wk2, Inl code)
          | (wk2, Inr _) \<Rightarrow> service_notices H (count_serviced wk2))"
        proof (cases q)
          case (Inl code)
          then show ?thesis
            using books serviced by simp
        next
          case done_one: (Inr u)
          with books have first: "ledger ?wk1 (count_serviced wk2, Inr () :: unit remote)"
            by simp
          then have "unat (wk_serviced (count_serviced wk2)) \<le> quota (count_serviced wk2)"
            by (simp add: ledger_def quota_def)
          then have "ledger (count_serviced wk2) (service_notices H (count_serviced wk2))"
            using 1(2) True rec Inr that serviced done_one by simp
          from ledger_then [OF first this] serviced done_one show ?thesis
            by simp
        qed
      qed
      show ?thesis
        using True idle other notice by (auto simp: round Let_def split: sum.split)
    qed (use True rec idle in \<open>simp add: service_notices.simps [of H wk]\<close>)
  qed (use 1(3) in \<open>simp add: service_notices.simps [of H wk] ledger_done\<close>)
qed

section \<open>The whole run\<close>

text \<open>Up to the assignments a worker writes nothing that publishes.\<close>

definition quiet :: "critic_worker \<Rightarrow> critic_worker \<Rightarrow> bool" where
  "quiet wk wk1 \<longleftrightarrow> wk_config wk1 = wk_config wk \<and> wk_serviced wk1 = wk_serviced wk
   \<and> (\<exists>fs. wrote (wk_client wk) fs (wk_client wk1) \<and> filter publishes fs = [])"

lemma quiet_fields [simp]:
  "quiet wk (wk1\<lparr> wk_epoch := e \<rparr>) = quiet wk wk1" "quiet wk (wk1\<lparr> wk_worker := w \<rparr>) = quiet wk wk1"
  "quiet wk (wk1\<lparr> wk_critic_generation := g, wk_boot := b \<rparr>) = quiet wk wk1"
  "quiet (wk\<lparr> wk_epoch := e \<rparr>) wk1 = quiet wk wk1"
  "quiet (wk\<lparr> wk_critic_generation := g, wk_boot := b \<rparr>) wk1 = quiet wk wk1"
  by (simp_all add: quiet_def)

lemma quiet_call:
  assumes "calls f (wk_client wk) (call (wk_client wk))" and "\<not> publishes f"
  shows "quiet wk (fst (on_client call wk))"
proof -
  obtain cl r where call: "call (wk_client wk) = (cl, r)"
    by fastforce
  with assms(1) obtain fs where "wrote (wk_client wk) fs cl" "fs = [] \<or> fs = [f]"
    by (auto simp: calls_def)
  with assms(2) call show ?thesis
    by (auto simp: quiet_def on_client_def)
qed

lemma quiet_trans: "quiet wk wk1 \<Longrightarrow> quiet wk1 wk2 \<Longrightarrow> quiet wk wk2"
  unfolding quiet_def using wrote_trans by (metis append_Nil filter_append)

lemma quiet_bind:
  assumes "quiet wk (fst call)" and "\<And>wk1 x. quiet wk1 (fst (next_call wk1 x))"
  shows "quiet wk (fst (remote_bind call next_call))"
  using assms quiet_trans by (cases call; cases "snd call") (auto simp: remote_bind_def)

lemma register_quiet: "quiet wk (fst (worker_register H generated wk))"
proof -
  have hello: "quiet wk (fst (on_client (client_hello 1) wk))" for wk
    by (rule quiet_call, rule hello_calls) (simp add: publishes_def)
  have critic: "quiet wk (fst (on_client (client_register_critic q) wk))" for q wk
    by (rule quiet_call, unfold client_register_critic_def, rule client_calls) (simp add: publishes_def)
  have worker: "quiet wk (fst (on_client (client_register_worker q) wk))" for q wk
    by (rule quiet_call, unfold client_register_worker_def, rule client_calls) (simp add: publishes_def)
  have same: "quiet wk wk" for wk
    by (auto simp: quiet_def intro: exI [of _ "[]"])
  show ?thesis
    unfolding worker_register_def Let_def
  proof (rule quiet_bind [OF hello], goal_cases)
    case (1 wk1 x)
    have "quiet (wk1\<lparr> wk_epoch := cl_epoch (wk_client wk1) \<rparr>)
        (fst (on_client (client_register_critic (critic_request H (wk1\<lparr> wk_epoch := cl_epoch (wk_client wk1) \<rparr>)))
          (wk1\<lparr> wk_epoch := cl_epoch (wk_client wk1) \<rparr>)))"
      by (rule critic)
    then show ?case
      unfolding quiet_fields
    proof (rule quiet_bind, goal_cases)
      case (1 wk2 registration)
      have "quiet wk3 (fst (on_client (client_register_worker (worker_request wk3)) wk3))" for wk3
        by (rule worker)
      from this [of "wk2\<lparr> wk_critic_generation := c_generation registration,
          wk_boot := (if id_valid (wc_forced_boot (wk_config wk2)) then wc_forced_boot (wk_config wk2) else generated) \<rparr>"]
      show ?case
        unfolding quiet_fields by (rule quiet_bind) (simp add: same)
    qed
  qed
qed

lemma none_counted: "filter publishes fs = [] \<Longrightarrow> count_type MT_SubmitEvidence fs = 0 \<and> count_type MT_SubmitFinding fs = 0"
  by (induction fs) (auto simp: publishes_def split: if_splits)

lemma quiet_ledger:
  assumes "quiet wk wk1" and "identity wk1 = identity wk" and "unat (wk_serviced wk) \<le> quota wk"
  shows "ledger wk (wk1, r)"
proof -
  obtain fs where "wrote (wk_client wk) fs (wk_client wk1)" "filter publishes fs = []"
    using assms(1) by (auto simp: quiet_def)
  then show ?thesis
    using assms none_counted
    by (auto simp: ledger_def in_books_def quiet_def intro!: exI [of _ fs] split: sum.split)
qed

lemma service_all_ledger:
  assumes room: "unat (wk_serviced wk) \<le> quota wk"
  shows "ledger wk (service_all H wk)"
proof -
  obtain wk1 r where asked: "on_client (client_query_assignments (wk_worker wk)) wk = (wk1, r)"
    by fastforce
  have "quiet wk (fst (on_client (client_query_assignments (wk_worker wk)) wk))"
    by (rule quiet_call, unfold client_query_assignments_def, rule query_calls) (simp add: publishes_def)
  moreover have "identity wk1 = identity wk"
    using asked by (auto simp: on_client_def identity_def split: prod.splits)
  ultimately have first: "ledger wk (wk1, q)" for q :: "'a remote"
    using quiet_ledger [OF _ _ room] asked by simp
  show ?thesis
  proof (cases r)
    case (Inl code)
    then show ?thesis
      using ledger_then [OF first [of "Inr ()"] notices_ledger [of wk1 H]] ledger_room [OF first [of "Inr ()"]] asked
      by (simp add: service_all_def)
  next
    case (Inr as)
    have pending: "ledger wk1 (service_pending H as wk1)"
      by (rule pending_ledger) (rule ledger_room [OF first [of "Inr ()"]])
    then have "ledger wk1 (remote_bind (service_pending H as wk1) (\<lambda>wk2 _. service_notices H wk2))"
    proof (rule ledger_bind, goal_cases)
      case (1 wk2 u)
      then show ?case
        by (intro notices_ledger ledger_room [of wk1 wk2 "Inr u"]) (use pending in simp)
    qed
    from ledger_then [OF first [of "Inr ()"] this] show ?thesis
      using asked Inr by (simp add: service_all_def)
  qed
qed

text \<open>
  C22. A worker never publishes more than it was configured for, whatever the server sends it: not through the list
  of pending assignments, and not through the notices that follow. Of the frames a run writes at most as many submit
  evidence, and at most as many submit a finding, as the quota has assignments; when the run ends without an error
  the counter of the worker says how many of each there were; and all of them carry the one identity the worker has
  at the end, the epoch, worker, boot identity, critic and generation it was registered under.
\<close>

theorem worker_keeps_its_quota:
  "case worker_run H process ticks sequence (worker_start cfg stream) of (wk, r) \<Rightarrow>
     \<exists>fs. wrote (wk_client (worker_start cfg stream)) fs (wk_client wk)
     \<and> count_type MT_SubmitEvidence fs \<le> unat (wc_max_assignments cfg)
     \<and> count_type MT_SubmitFinding fs \<le> unat (wc_max_assignments cfg)
     \<and> wk_serviced wk \<le> wc_max_assignments cfg
     \<and> list_all (speaks_for wk) (filter publishes fs)
     \<and> (case r of Inl _ \<Rightarrow> True
        | Inr _ \<Rightarrow> count_type MT_SubmitEvidence fs = unat (wk_serviced wk)
            \<and> count_type MT_SubmitFinding fs = unat (wk_serviced wk))"
proof -
  let ?start = "worker_start cfg stream"
  let ?boot = "generate_worker_boot_id H process ticks sequence (wc_process_label (wk_config ?start))"
  let ?wk0 = "?start\<lparr> wk_config := (wk_config ?start)\<lparr>
    wc_critic_config := (wc_critic_config (wk_config ?start))\<lparr> sy_critic := wc_critic (wk_config ?start) \<rparr> \<rparr> \<rparr>"
  obtain wk1 r1 where registered: "worker_register H ?boot ?wk0 = (wk1, r1)"
    by fastforce
  obtain wk r where run: "worker_run H process ticks sequence ?start = (wk, r)"
    by fastforce
  have start: "wk_serviced ?wk0 = 0" "quota ?wk0 = unat (wc_max_assignments cfg)" "wk_client ?wk0 = wk_client ?start"
    by (simp_all add: worker_start_def quota_def Let_def)
  have quiet: "quiet ?wk0 wk1"
    using register_quiet [of ?wk0 H ?boot] registered by simp
  then obtain fs where fs: "wrote (wk_client ?start) fs (wk_client wk1)" "filter publishes fs = []"
    by (auto simp: quiet_def start)
  have wk1: "wk_serviced wk1 = 0" "quota wk1 = unat (wc_max_assignments cfg)"
    using quiet start by (simp_all add: quiet_def quota_def)
  have "ledger wk1 (wk, r)"
  proof (cases "\<exists>u. r1 = Inr u \<and> wc_declare_readiness (wk_config ?start)")
    case False
    then have "wk = wk1"
      using run registered by (cases r1) (auto simp: worker_run_def Let_def remote_bind_def)
    then show ?thesis
      using wk1(1) by (simp add: ledger_done)
  next
    case True
    have ready: "ledger wk1 (on_client (client_declare_readiness (readiness_request H wk1)) wk1)"
      by (rule ledger_call, unfold client_declare_readiness_def, rule client_calls) (simp_all add: publishes_def wk1)
    then have "ledger wk1 (remote_bind (on_client (client_declare_readiness (readiness_request H wk1)) wk1)
        (\<lambda>wk2 _. service_all H wk2))"
    proof (rule ledger_bind, goal_cases)
      case (1 wk2 x)
      then show ?case
        by (intro service_all_ledger ledger_room [of wk1 wk2 "Inr x"]) (use ready in simp)
    qed
    then show ?thesis
      using True run registered by (auto simp: worker_run_def Let_def remote_bind_def)
  qed
  then obtain gs where gs: "wrote (wk_client wk1) gs (wk_client wk)" "list_all (speaks_for wk1) (filter publishes gs)"
      "in_books wk1 gs (wk, r) MT_SubmitEvidence" "in_books wk1 gs (wk, r) MT_SubmitFinding"
      "identity wk = identity wk1" "unat (wk_serviced wk) \<le> quota wk1"
    by (auto simp: ledger_def)
  show ?thesis
    unfolding run
    using gs wk1 fs(2) none_counted [OF fs(2)] speaks_same [of wk wk1] wrote_trans [OF fs(1) gs(1)]
    by (cases r) (auto simp: in_books_def word_le_nat_alt intro!: exI [of _ "fs @ gs"])
qed

section \<open>Registered, then published\<close>

text \<open>
  The three answers a worker has from the coordinator before its first assignment, one after the other on its
  connection, and what it keeps of them: the epoch of the greeting, the generation of its critic, the identity of its
  own. The boot identity is the configured one, or the one the process has generated.
\<close>

definition registered :: "hash_fun \<Rightarrow> worker_boot_id \<Rightarrow> critic_worker \<Rightarrow> critic_worker \<Rightarrow> bool" where
  "registered H generated wk0 wk \<longleftrightarrow> wk_config wk = wk_config wk0
   \<and> wk_boot wk = (if id_valid (wc_forced_boot (wk_config wk0)) then wc_forced_boot (wk_config wk0) else generated)
   \<and> (\<exists>cl1 cl2 registration w.
        client_hello 1 (wk_client wk0) = (cl1, Inr ()) \<and> wk_epoch wk = cl_epoch cl1
      \<and> client_register_critic (critic_request H wk) cl1 = (cl2, Inr registration)
      \<and> wk_critic_generation wk = c_generation registration
      \<and> client_register_worker (worker_request wk) cl2 = (wk_client wk, Inr w) \<and> wk_worker wk = w_id w)"

lemma on_client_Inr:
  "on_client call wk = (wk1, Inr x) \<longleftrightarrow> (\<exists>cl. call (wk_client wk) = (cl, Inr x) \<and> wk1 = wk\<lparr> wk_client := cl \<rparr>)"
  by (auto simp: on_client_def split: prod.split)

lemma same_requests:
  "wk_config wk1 = wk_config wk \<Longrightarrow> wk_epoch wk1 = wk_epoch wk \<Longrightarrow> critic_request H wk1 = critic_request H wk"
  "wk_config wk1 = wk_config wk \<Longrightarrow> wk_epoch wk1 = wk_epoch wk \<Longrightarrow> wk_boot wk1 = wk_boot wk \<Longrightarrow>
     wk_critic_generation wk1 = wk_critic_generation wk \<Longrightarrow> worker_request wk1 = worker_request wk"
  by (simp_all add: critic_request_def worker_request_def Let_def)

lemma on_client_fields:
  "on_client call wk = (wk1, r) \<Longrightarrow> wk_config wk1 = wk_config wk \<and> wk_epoch wk1 = wk_epoch wk
     \<and> wk_worker wk1 = wk_worker wk \<and> wk_boot wk1 = wk_boot wk \<and> wk_critic_generation wk1 = wk_critic_generation wk"
  by (auto simp: on_client_def split: prod.splits)

lemma register_registered:
  assumes "worker_register H generated wk0 = (wk, Inr ())"
  shows "registered H generated wk0 wk"
proof -
  obtain wk1 where hello: "on_client (client_hello 1) wk0 = (wk1, Inr ())"
    and register: "(let wk2 = wk1\<lparr> wk_epoch := cl_epoch (wk_client wk1) \<rparr> in
     remote_bind (on_client (client_register_critic (critic_request H wk2)) wk2) (\<lambda>wk3 registration.
     (let forced = wc_forced_boot (wk_config wk3);
          wk4 = wk3\<lparr> wk_critic_generation := c_generation registration,
            wk_boot := (if id_valid forced then forced else generated) \<rparr> in
      remote_bind (on_client (client_register_worker (worker_request wk4)) wk4) (\<lambda>wk5 w.
      (wk5\<lparr> wk_worker := w_id w \<rparr>, Inr ()))))) = (wk, Inr ())"
    using assms unfolding worker_register_def remote_bind_Inr [of "on_client (client_hello 1) wk0"] by auto
  define wk2 where "wk2 = wk1\<lparr> wk_epoch := cl_epoch (wk_client wk1) \<rparr>"
  obtain wk3 registration where critic: "on_client (client_register_critic (critic_request H wk2)) wk2 = (wk3, Inr registration)"
    and named: "(let wk4 = wk3\<lparr> wk_critic_generation := c_generation registration,
        wk_boot := (if id_valid (wc_forced_boot (wk_config wk3)) then wc_forced_boot (wk_config wk3) else generated) \<rparr> in
      remote_bind (on_client (client_register_worker (worker_request wk4)) wk4) (\<lambda>wk5 w.
      (wk5\<lparr> wk_worker := w_id w \<rparr>, Inr ()))) = (wk, Inr ())"
    using register unfolding wk2_def [symmetric] Let_def remote_bind_Inr [of "on_client (client_register_critic q) wk2" for q]
    by blast
  define wk4 where "wk4 = wk3\<lparr> wk_critic_generation := c_generation registration,
    wk_boot := (if id_valid (wc_forced_boot (wk_config wk3)) then wc_forced_boot (wk_config wk3) else generated) \<rparr>"
  obtain wk5 w where worker: "on_client (client_register_worker (worker_request wk4)) wk4 = (wk5, Inr w)"
    and wk: "wk = wk5\<lparr> wk_worker := w_id w \<rparr>"
    using named unfolding wk4_def [symmetric] Let_def remote_bind_Inr by auto
  note fields = on_client_fields [OF hello] on_client_fields [OF critic] on_client_fields [OF worker]
  have requests: "critic_request H wk2 = critic_request H wk" "worker_request wk4 = worker_request wk"
    using fields by (simp_all add: same_requests wk wk2_def wk4_def)
  have calls: "client_hello 1 (wk_client wk0) = (wk_client wk1, Inr ())"
    "client_register_critic (critic_request H wk) (wk_client wk1) = (wk_client wk3, Inr registration)"
    "client_register_worker (worker_request wk) (wk_client wk3) = (wk_client wk, Inr w)"
    using hello critic worker unfolding requests by (auto simp: on_client_Inr wk2_def wk4_def wk)
  have "wk_config wk = wk_config wk0" "wk_epoch wk = cl_epoch (wk_client wk1)" "wk_worker wk = w_id w"
    "wk_critic_generation wk = c_generation registration"
    "wk_boot wk = (if id_valid (wc_forced_boot (wk_config wk0)) then wc_forced_boot (wk_config wk0) else generated)"
    using fields by (simp_all add: wk wk2_def wk4_def)
  with calls show ?thesis
    unfolding registered_def by blast
qed

text \<open>
  The three frames of one assignment. The target is the server's answer to the first; the second submits the payload
  the critic computes from it; the third cites the one piece of evidence the server has answered the second with.
\<close>

definition published :: "hash_fun \<Rightarrow> critic_worker \<Rightarrow> critic_assignment \<Rightarrow> client \<Rightarrow> client \<Rightarrow> bool" where
  "published H wk a cl cl3 \<longleftrightarrow>
     (\<exists>cl1 cl2 target proof eq fq accepted question evidence finding.
        client_query_target (a_target a) cl = (cl1, Inr target) \<and> t_generation target = a_target_generation a
      \<and> client_submit_evidence eq cl1 = (cl2, Inr proof)
      \<and> se_payload eq = synthetic_payload (wc_critic_config (wk_config wk)) (wk_critic_generation wk) target
      \<and> se_review eq = a_review a \<and> se_target eq = a_target a \<and> se_producer eq = wc_host (wk_config wk)
      \<and> client_submit_finding fq cl2 = (cl3, Inr accepted)
      \<and> sf_evidence fq = [e_id proof]
      \<and> sf_outcome fq = outcome_of (sy_behavior (wc_critic_config (wk_config wk)))
      \<and> sf_severity fq = sy_severity (wc_critic_config (wk_config wk))
      \<and> sf_review fq = a_review a \<and> sf_target fq = a_target a \<and> sf_supersedes fq = 0
      \<and> cl_sent cl3 = cl_sent cl @ question @ evidence @ finding
      \<and> frame_encode (cl_limits cl) (request_frame MT_QueryTarget no_authority (be64 (a_target a))) = Inr question
      \<and> frame_encode (cl_limits cl) (request_frame MT_SubmitEvidence
          (incarnation_authority a (wk_epoch wk) (wk_worker wk) (wk_boot wk) (wk_critic_generation wk) (a_id a * 2))
          (wr_buffer (enc_submit_evidence_request (cl_limits cl) eq empty_writer))) = Inr evidence
      \<and> frame_encode (cl_limits cl) (request_frame MT_SubmitFinding
          (incarnation_authority a (wk_epoch wk) (wk_worker wk) (wk_boot wk) (wk_critic_generation wk) (a_id a * 2 + 1))
          (wr_buffer (enc_submit_finding_request (cl_limits cl) fq empty_writer))) = Inr finding)"

lemma assignment_published:
  assumes "publish_synthetic_assignment H (wk_config wk) a (wk_epoch wk) (wk_worker wk) (wk_boot wk)
    (wk_critic_generation wk) cl = (cl3, Inr ())"
  shows "published H wk a cl cl3"
proof -
  let ?g = "wk_critic_generation wk"
  let ?out = "\<lambda>target. run_synthetic_critic H (wc_critic_config (wk_config wk)) ?g target"
  let ?eq = "\<lambda>target. evidence_request (wk_config wk) (?out target) a (wk_epoch wk) (wk_worker wk) (wk_boot wk) ?g"
  let ?fq = "\<lambda>target proof. finding_request (?out target) proof a (wk_epoch wk) (wk_worker wk) (wk_boot wk) ?g"
  let ?au = "incarnation_authority a (wk_epoch wk) (wk_worker wk) (wk_boot wk) ?g"
  obtain cl1 target cl2 accepted finding where
    target: "client_query_target (a_target a) cl = (cl1, Inr target)" "t_generation target = a_target_generation a"
    and evidence: "client_submit_evidence (?eq target) cl1 = (cl2, Inr accepted)"
    and finding: "client_submit_finding (?fq target (e_id accepted)) cl2 = (cl3, Inr finding)"
    using assms by (auto simp: publish_synthetic_assignment_def remote_bind_Inr Let_def split: if_splits)
  have authority: "authority_of_submit_evidence (?eq target) = ?au (a_id a * 2)"
    "authority_of_submit_finding (?fq target e) = ?au (a_id a * 2 + 1)" for e
    by (simp_all add: authority_of_submit_evidence_def authority_of_submit_finding_def evidence_request_def
        finding_request_def incarnation_authority_def no_authority_def)
  obtain b1 where b1: "frame_encode (cl_limits cl) (request_frame MT_QueryTarget no_authority (be64 (a_target a))) = Inr b1"
      "cl_sent cl1 = cl_sent cl @ b1" "cl_limits cl1 = cl_limits cl"
    using query_sent [OF target(1) [unfolded client_query_target_def]] epoch_written [of "a_target a"] by auto
  obtain b2 where b2: "frame_encode (cl_limits cl) (request_frame MT_SubmitEvidence (?au (a_id a * 2))
        (wr_buffer (enc_submit_evidence_request (cl_limits cl) (?eq target) empty_writer))) = Inr b2"
      "cl_sent cl2 = cl_sent cl1 @ b2" "cl_limits cl2 = cl_limits cl"
    using request_sent [OF evidence [unfolded client_submit_evidence_def], unfolded authority b1(3)] by blast
  obtain b3 where b3: "frame_encode (cl_limits cl) (request_frame MT_SubmitFinding (?au (a_id a * 2 + 1))
        (wr_buffer (enc_submit_finding_request (cl_limits cl) (?fq target (e_id accepted)) empty_writer))) = Inr b3"
      "cl_sent cl3 = cl_sent cl2 @ b3"
    using request_sent [OF finding [unfolded client_submit_finding_def], unfolded authority b2(3)] by blast
  have sent: "cl_sent cl3 = cl_sent cl @ b1 @ b2 @ b3"
    by (simp add: b1(2) b2(2) b3(2))
  show ?thesis
    unfolding published_def
    by (rule exI [of _ cl1], rule exI [of _ cl2], rule exI [of _ target], rule exI [of _ accepted],
        rule exI [of _ "?eq target"], rule exI [of _ "?fq target (e_id accepted)"], rule exI [of _ finding],
        rule exI [of _ b1], rule exI [of _ b2], rule exI [of _ b3], intro conjI)
       (fact target evidence finding b1 b2 b3 sent
        | simp add: evidence_request_def finding_request_def run_synthetic_critic_def Let_def)+
qed

text \<open>
  C21. A worker publishes in the name of the incarnation the coordinator registered, and no other. Once registered, it
  holds the epoch of the greeting, the generation from the answer to its registration of the critic and the identity
  from the answer to its registration of itself, each obtained on its own connection; and an assignment it then
  services, whatever it has serviced before and however its connection stands, is one of its own critic and puts
  exactly three frames on the wire: the question for the target, the evidence computed from the target the server
  answered with, and the finding, which cites exactly the evidence the server accepted just before. The evidence and
  the finding carry in their header that epoch, worker, boot identity and generation, with the review and target of
  the assignment.
\<close>

theorem worker_publishes_its_incarnation:
  assumes "worker_register H generated wk0 = (wk, Inr ())"
    and "service_assignment H a (wk\<lparr> wk_client := cl, wk_serviced := n \<rparr>) = (wk1, Inr ())"
  shows "registered H generated wk0 wk \<and> a_critic a = wc_critic (wk_config wk0) \<and> published H wk a cl (wk_client wk1)"
proof -
  have registered: "registered H generated wk0 wk"
    using assms(1) by (rule register_registered)
  then have config: "wk_config wk = wk_config wk0"
    by (simp add: registered_def)
  from assms(2) have critic: "a_critic a = wc_critic (wk_config wk)"
    by (auto simp: service_assignment_def split: if_splits)
  obtain cl3 where "publish_synthetic_assignment H (wk_config wk) a (wk_epoch wk) (wk_worker wk) (wk_boot wk)
      (wk_critic_generation wk) cl = (cl3, Inr ())" "wk_client wk1 = cl3"
    using assms(2) critic by (auto simp: service_assignment_def on_client_def split: prod.splits)
  with registered critic config assignment_published show ?thesis
    by simp
qed

text \<open>A worker that is registered and then services an assignment, on one stream of answers.\<close>

definition busy_worker :: "client \<Rightarrow> critic_worker" where
  "busy_worker cl =
    \<lparr> wk_config = busy_config, wk_client = cl, wk_worker = 1, wk_boot = 1, wk_epoch = 1, wk_critic_generation = 1,
      wk_serviced = 0 \<rparr>"

definition unregistered_worker :: "bytes \<Rightarrow> critic_worker" where
  "unregistered_worker stream =
    \<lparr> wk_config = busy_config, wk_client = connected_client clamped stream, wk_worker = 0, wk_boot = 0, wk_epoch = 0,
      wk_critic_generation = 0, wk_serviced = 0 \<rparr>"

definition busy_registration :: critic_registration where
  "busy_registration =
    \<lparr> c_id = 1, c_generation = 1,
      c_capability = synthetic_critic_capability (\<lambda>_. zero_digest) (wc_critic_config busy_config),
      c_registrant = 1, c_provenance = [], c_compat = \<lparr> cp_schema_name = [], cp_producer_version = [] \<rparr>,
      c_registered_order = 1 \<rparr>"

definition busy_record :: worker_record where
  "busy_record =
    \<lparr> w_id = 1, w_boot = 1, w_epoch = 1, w_critic = 1, w_critic_generation = 1, w_host = 1, w_process_label = [],
      w_ready = False, w_healthy = False, w_authoritative = False, w_boot_order = 1, w_readiness_order = 0,
      w_readiness_digest = zero_digest \<rparr>"

lemma busy_capability: "fits_critic_capability (synthetic_critic_capability (\<lambda>_. zero_digest) (wc_critic_config busy_config))"
  by (simp add: fits_critic_capability_def synthetic_critic_capability_def synthetic_capability_evidence_def
      hash_writes_def busy_config_def zero_digest_def hard_ceilings)

lemma busy_critic_answer:
  "\<exists>out. answers out (client_register_critic (critic_request (\<lambda>_. zero_digest) (busy_worker cl))) busy_registration"
proof (rule short_register_critic [of _ 900000 _ 400000])
  show "writes (enc_register_critic_request clamped (critic_request (\<lambda>_. zero_digest) (busy_worker cl))) 900000"
    unfolding enc_register_critic_request_def
    by (rule writes_mono, (rule small_sizes writes_critic_capability writes_compatibility
        | simp add: critic_request_def busy_worker_def busy_capability fits_compatibility_def clamped_simps Let_def
        | simp add: busy_config_def)+)
  show "fits_critic_registration clamped busy_registration"
    by (simp add: fits_critic_registration_def busy_registration_def busy_capability fits_compatibility_def id_valid_def)
  then show "writes (enc_critic_registration busy_registration) 400000"
    by (rule writes_critic_registration) (rule clamped_codec_bounds)
qed simp_all

lemma busy_worker_answer: "\<exists>out. answers out (client_register_worker (worker_request (busy_worker cl))) busy_record"
proof (rule short_register_worker [of _ 6000 _ 70000])
  show "writes (enc_register_worker_request clamped (worker_request (busy_worker cl))) 6000"
    unfolding enc_register_worker_request_def
    by (rule writes_mono, (rule small_sizes
        | simp add: worker_request_def busy_worker_def clamped_simps busy_config_def Let_def)+)
  show "fits_worker_record clamped busy_record"
    by (simp add: fits_worker_record_def busy_record_def zero_digest_def id_valid_def)
  then show "writes (enc_worker_record busy_record) 70000"
    by (rule writes_worker_record) (rule clamped_codec_bounds)
qed simp_all

lemma busy_registers:
  "\<exists>stream. \<forall>later. \<exists>cl. worker_register (\<lambda>_. zero_digest) 1 (unregistered_worker (stream @ later)) = (busy_worker cl, Inr ())
     \<and> ready_client later cl"
proof -
  have same: "critic_request H (busy_worker cl) = critic_request H (busy_worker cl0)"
    "worker_request (busy_worker cl) = worker_request (busy_worker cl0)" for H cl cl0
    by (rule same_requests; simp add: busy_worker_def)+
  let ?cl = "connected_client clamped []"
  obtain greeting where greeting: "frame_encode clamped (handshake_frame 1) = Inr greeting"
    by (rule handshake_encodes)
  obtain out0 where out0: "frame_encode clamped (handshake_answer 1 1) = Inr out0"
    by (rule handshake_answer_encodes [of clamped]) (simp add: clamped_simps)
  obtain out1 out2 where
    out1: "answers out1 (client_register_critic (critic_request (\<lambda>_. zero_digest) (busy_worker ?cl))) busy_registration"
    and out2: "answers out2 (client_register_worker (worker_request (busy_worker ?cl))) busy_record"
    using busy_critic_answer busy_worker_answer by blast
  have "\<exists>cl. worker_register (\<lambda>_. zero_digest) 1 (unregistered_worker ((out0 @ out1 @ out2) @ later)) = (busy_worker cl, Inr ())
     \<and> ready_client later cl" for later
  proof -
    let ?wk0 = "unregistered_worker ((out0 @ out1 @ out2) @ later)"
    obtain cl1 where cl1: "client_hello 1 (wk_client ?wk0) = (cl1, Inr ())" "cl_epoch cl1 = 1"
        "ready_client (out1 @ out2 @ later) cl1"
      using hello_answered [of "wk_client ?wk0" out0 "out1 @ out2 @ later" 1 greeting 1] greeting out0
      by (auto simp: unregistered_worker_def connected_client_def ready_client_def)
    obtain cl2 where cl2: "client_register_critic (critic_request (\<lambda>_. zero_digest) (busy_worker ?cl)) cl1 =
        (cl2, Inr busy_registration)" "ready_client (out2 @ later) cl2"
      using out1 cl1(3) unfolding answers_def by blast
    obtain cl3 where cl3: "client_register_worker (worker_request (busy_worker ?cl)) cl2 = (cl3, Inr busy_record)"
        "ready_client later cl3"
      using out2 cl2(2) unfolding answers_def by blast
    have critic: "critic_request (\<lambda>_. zero_digest) (?wk0\<lparr> wk_client := cl1, wk_epoch := 1 \<rparr>) =
        critic_request (\<lambda>_. zero_digest) (busy_worker ?cl)"
      by (rule same_requests) (simp_all add: busy_worker_def unregistered_worker_def)
    have worker: "worker_request (?wk0\<lparr> wk_client := cl2, wk_epoch := 1, wk_critic_generation := 1, wk_boot := 1 \<rparr>) =
        worker_request (busy_worker ?cl)"
      by (rule same_requests) (simp_all add: busy_worker_def unregistered_worker_def)
    have "worker_register (\<lambda>_. zero_digest) 1 ?wk0 = (busy_worker cl3, Inr ())"
      using cl1 cl2 cl3 critic worker
      by (simp add: worker_register_def remote_bind_def on_client_def Let_def)
         (simp add: unregistered_worker_def busy_worker_def busy_registration_def busy_record_def busy_config_def id_valid_def)
    with cl3(2) show ?thesis
      by blast
  qed
  then show ?thesis
    by blast
qed

theorem worker_publishes_its_incarnation_witness:
  "\<exists>stream wk wk1.
      worker_register (\<lambda>_. zero_digest) 1 (unregistered_worker stream) = (wk, Inr ())
    \<and> service_assignment (\<lambda>_. zero_digest) (sample_assignment 1) wk = (wk1, Inr ())
    \<and> registered (\<lambda>_. zero_digest) 1 (unregistered_worker stream) wk
    \<and> published (\<lambda>_. zero_digest) wk (sample_assignment 1) (wk_client wk) (wk_client wk1)"
proof -
  obtain stream out where stream: "\<forall>later. \<exists>cl. worker_register (\<lambda>_. zero_digest) 1 (unregistered_worker (stream @ later)) =
      (busy_worker cl, Inr ()) \<and> ready_client later cl"
    and out: "answers out (publish_synthetic_assignment (\<lambda>_. zero_digest) busy_config (sample_assignment 1) 1 1 1 1) ()"
    using busy_registers busy_published by blast
  obtain cl where cl: "worker_register (\<lambda>_. zero_digest) 1 (unregistered_worker (stream @ out @ [])) = (busy_worker cl, Inr ())"
      "ready_client (out @ []) cl"
    using stream by blast
  obtain cl1 where "publish_synthetic_assignment (\<lambda>_. zero_digest) busy_config (sample_assignment 1) 1 1 1 1 cl = (cl1, Inr ())"
    using out cl(2) unfolding answers_def by blast
  then have serviced: "service_assignment (\<lambda>_. zero_digest) (sample_assignment 1) (busy_worker cl) =
      ((busy_worker cl)\<lparr> wk_client := cl1 \<rparr>, Inr ())"
    by (simp add: service_assignment_def on_client_def busy_worker_def sample_assignment_def busy_config_def)
  have "(busy_worker cl)\<lparr> wk_client := cl, wk_serviced := 0 \<rparr> = busy_worker cl" "wk_client (busy_worker cl) = cl"
    by (simp_all add: busy_worker_def)
  with worker_publishes_its_incarnation [OF cl(1), where a = "sample_assignment 1" and cl = cl and n = 0] cl(1) serviced
  show ?thesis
    by (metis (no_types))
qed

end
