(* ===== verification/Spec2Isabelle.thy ===== *)
theory Spec2Isabelle
  imports CF_Durable CF_Committed CF_EndToEnd CF_Worker CF_Lifetime CF_Operator CF_Inspect CF_Processes
    CF_Examples CF_Consumer CF_Bench CF_Lives CF_Overconfident CF_Counted CF_Silence CF_Ledger
begin

text \<open>
  Critic Fabric: verification development of the review coordinator, its journal, its wire protocol, its
  server and client, and its workers (C++17 sources under \<open>src/include/critic_fabric\<close> and \<open>src/src\<close>).

  \<^bold>\<open>The program.\<close> Critics, each run by worker processes, review targets (claims, artifacts, plans and
  so on). A coordinator owns all state: it registers targets, critics and workers, declares reviews, assigns
  critics, accepts evidence, findings, challenges and rebuttals, and commits one decision per review by a
  deterministic evaluation. Every mutation is a batch of journal entries that is applied to the state and
  appended to a durable journal; a restart replays the journal, withdraws the authority of every worker and
  sends every unfinished review back to revalidation. Processes talk to the coordinator through frames on a
  loopback socket; the server runs one thread per connection.

  \<^bold>\<open>The theories, in the order of the code.\<close>
  \<^item> \<open>CF_Prelude\<close>: words, strings, ordered maps (\<open>omap\<close>, a sorted association list for \<open>std::map\<close>),
    decimal rendering, and the generic lemmas.
  \<^item> \<open>CF_Enums\<close>, \<open>CF_Errors\<close>, \<open>CF_Limits\<close>, \<open>CF_Digest\<close>: enumerations with their wire codes and names
    (\<open>enums.hpp\<close>, \<open>enums.cpp\<close>), error codes and results (\<open>result.hpp\<close>), limits and clamping
    (\<open>limits.cpp\<close>), SHA-256 and CRC-32 (\<open>digest.cpp\<close>). The laws of an enumeration are the locale
    \<open>wire_enum\<close>, interpreted for each one.
  \<^item> \<open>CF_Records\<close>, \<open>CF_Requests\<close>: the structs of the headers as records, field by field.
  \<^item> \<open>CF_Codec\<close>, \<open>CF_Reader\<close>, \<open>CF_Decode\<close>, \<open>CF_Sizes\<close>: \<open>ByteWriter\<close> and \<open>ByteReader\<close> with their sticky
    failure, every encoder and decoder of \<open>serialization.cpp\<close>, and how many bytes an encoder writes. The
    round-trip law is the locale \<open>wire_codec\<close>, interpreted for every pair of an encoder and a decoder.
  \<^item> \<open>CF_Content\<close>, \<open>CF_Policy\<close>, \<open>CF_Lifecycle\<close>, \<open>CF_Explain\<close>: content digests (\<open>model.cpp\<close>), policies
    and their validation (\<open>policy.cpp\<close>), the state machine of a review (\<open>lifecycle.cpp\<close>), explanations
    (\<open>explain.cpp\<close>).
  \<^item> \<open>CF_Evaluation\<close>, \<open>CF_Verdict\<close>, \<open>CF_Counted\<close>: \<open>evaluate_review\<close> (\<open>evaluation.cpp\<close>) phase by phase,
    what an evaluation guarantees, and what it depends on: the findings that count, given by a predicate, and
    the votes, read from their outcomes.
  \<^item> \<open>CF_Journal\<close>, \<open>CF_Open\<close>: the journal file of \<open>persistence.cpp\<close>: layout, append, open with every check
    of the scan, rewrite.
  \<^item> \<open>CF_State\<close>, \<open>CF_Authority\<close>, \<open>CF_Registration\<close>, \<open>CF_Review\<close>, \<open>CF_Findings\<close>, \<open>CF_Commit\<close>,
    \<open>CF_Recovery\<close>, \<open>CF_System\<close>: \<open>coordinator.cpp\<close>. The record \<open>durable_state\<close> holds the maps the journal
    writes, \<open>coordinator\<close> adds journal, counters and flags; every public operation is one definition with
    its guards in source order, and \<open>exec\<close> runs any of them as a command.
  \<^item> \<open>CF_Fencing\<close>, \<open>CF_Invariants\<close>, \<open>CF_Reachable\<close>, \<open>CF_Guarantees\<close>, \<open>CF_Restart\<close>, \<open>CF_Durable\<close>: the
    theorems about the coordinator: the authority check against a declarative specification, invariants of
    every reachable state, finality of decisions, what a restart keeps and what it withdraws, first over
    the journal and then over the bytes of its file. \<open>CF_Overlong\<close>, \<open>CF_Committed\<close>,
    \<open>CF_Overconfident\<close>, \<open>CF_Recommit\<close>: when a commit goes through, which records a decoder, and with
    it the next start, refuses, and what a second commit of the same review answers.
  \<^item> \<open>CF_Tidy\<close>, \<open>CF_Bounded\<close>, \<open>CF_Lives\<close>: what a coordinator writes, the next one can read: tidy records and
    states, the requests that publish tidy records only, and the lives of a coordinator on one file.
  \<^item> \<open>CF_Frame\<close>, \<open>CF_Bodies\<close>: \<open>protocol.cpp\<close>: frames with their checksum, and the body of every message.
  \<^item> \<open>CF_Server\<close>, \<open>CF_Serving\<close>, \<open>CF_Client\<close>: \<open>transport.cpp\<close>. \<open>serve_step\<close> is one round of a connection
    thread, \<open>dispatch\<close> with one \<open>handle_\<close> definition per message the switch of the source, \<open>server_run\<close>
    the interleavings of threads, peers and host. The client is a function of the bytes it receives.
    \<open>CF_Silence\<close>: a worker whose connection has closed stays without authority through every run in which
    nobody declares readiness for it.
  \<^item> \<open>CF_Remote\<close>, \<open>CF_EndToEnd\<close>: client and server together. The contract of a typed request is the locale
    \<open>remote_operation\<close>, built from two codecs and interpreted for each of the twelve such requests.
  \<^item> \<open>CF_Lifetime\<close>: start and stop of the server, connect and close of the client, and the socket runtime they
    share. The answers of the operating system are arguments.
  \<^item> \<open>CF_Worker\<close>: \<open>worker.cpp\<close> and \<open>synthetic_critic.hpp\<close>, a worker from its handshake to its last
    assignment. \<open>CF_Ledger\<close> keeps the frames it writes: how many publish, and in whose name.
  \<^item> \<open>CF_CommandLine\<close>, \<open>CF_Controller\<close>, \<open>CF_Inspect\<close>, \<open>CF_Processes\<close>: the programs under \<open>src/apps\<close>: the
    arguments and what they mean, the control tool, the inspection tool, and the coordinator and worker
    processes. \<open>CF_Operator\<close> follows a commit from the command line through client, server and coordinator
    and back to the line the tool prints.
  \<^item> \<open>CF_Harness\<close>, \<open>CF_Examples\<close>, \<open>CF_Downstream\<close>, \<open>CF_Bench\<close>: the programs under \<open>src/examples\<close>,
    \<open>src/downstream\<close> and \<open>src/bench\<close>. A program is a scene: a function of the coordinator that prints, goes
    on, or ends the process with a code. What the benchmark computes from the clock is its argument \<open>figures\<close>.
    \<open>CF_Consumer\<close> is a logic of scenes, with the promises the downstream consumer relies on.

  \<^bold>\<open>What the lemmas show.\<close> Safety of verdicts: a PASS has passed every gate, rests on a PASS vote, and a
  critical failure, an unauthoritative finding or a second vote of one critic cannot bend it. Finality:
  while a coordinator runs, no command and no rejection changes a decision or reopens a closed review, and the
  state is what replaying the journal gives; a new start begins from exactly what the journal holds. Codecs: what
  fits is read back, what is damaged is refused. A coordinator whose requests stay in bounds and whose appends
  work can always be replaced: every life leaves a file the next one starts on. A worker publishes in the name of
  the incarnation it was registered as, and no more than its quota. A commit is
  idempotent: asked again on the same terms it gives the same decision and changes nothing. The network adds
  nothing: the server refines the coordinator, a commit over the wire, or from the
  command line, is a commit, every connection thread ends, and a server
  that stops leaves no worker with authority. A program built on the library, the downstream consumer, never
  finds one of its checks on a committed decision to fail. Several theorems state a behaviour of the code that its
  documentation does not promise: a FAIL that was upheld against a challenge is not counted, two degenerate
  policies pass a review of FAIL votes only, a refused cancellation is carried out, a lost connection fences
  workers that have moved to another one, the inspection tool writes to the journal it shows, closed
  connections count against the limit of connections, a commit under a specification with a long name, or a
  finding submitted in process with too much confidence, leaves a journal no start accepts, and a worker that waits for an answer drops the notices that arrive meanwhile.

  \<^bold>\<open>Parameters and bounds.\<close>
  \<^item> \<open>env\<close> holds the hash and the outcome of each file operation. Theorems hold for every hash, or for those
    with 32-byte results where that matters; \<open>sha256\<close> is the one of the sources.
  \<^item> \<open>texts\<close> gives the detail of an error message, which no decision of the program reads.
  \<^item> Machine integers are words of their width. The id counters wrap around as in the source; the theorems that
    need it assume \<open>review_space_left\<close>, one unused 64-bit review identity, or \<open>counters_left\<close>, that no counter
    has used half of its space.
  \<^item> There is no fuel: the loops over streams (\<open>scan_records\<close>, \<open>serve\<close>, \<open>await_answer\<close>,
    \<open>service_notices\<close>) consume a header or a frame per round and are proved total. A connection is its bytes
    until the peer closes it, so a read that would wait for more is the end of that stream.
  \<^item> A command of the coordinator is atomic, as the mutexes of the source make it; a round of a connection
    thread is atomic, its interleaving with the other threads is \<open>server_run\<close>.

  \<^bold>\<open>Not modelled.\<close> Sockets, threads and mutexes themselves, the polling of the accept loop, the platform layer
  (\<open>platform.cpp\<close>) and the version string are calls of the operating system or constants. The texts on the error
  streams of the programs are reduced to the codes they report. What the benchmark measures
  (its clock figures) is an argument. The GPU worker is an optional target on a proprietary toolkit. The gate of a synthetic critic only delays it.
\<close>

end
